(* ===== verification/Prelude.thy ===== *)
theory Prelude
  imports Main "HOL-Library.Word" "HOL-Library.List_Lexorder" "HOL-Library.AList"
begin

text \<open>
  Shared ground of the moshwatch development: the Rust integer types and the
  arithmetic the sources use on them, Rust strings, decimal printing and
  parsing, and generic lemmas on lists and association lists.

  Integers.  \<open>u64\<close>, \<open>u32\<close>, \<open>u16\<close> and bytes are words of their width, so
  that saturating and wrapping operations say what they do at the limits.
  \<open>i64\<close> values (timestamps in milliseconds, mostly) are integers, and every
  arithmetic step on them that can leave the range goes through
  \<open>wrap_i64\<close> (two's complement wrap-around of a release build) or through the
  saturating operations.  \<open>usize\<close> values that count list elements are naturals.

  Strings.  A Rust \<open>String\<close> is a sequence of Unicode scalar values; it is
  modelled as the list of their code points.  Comparison of Rust strings is
  bytewise on UTF-8, which is the lexicographic order on code points, the
  order that \<open>List_Lexorder\<close> installs.  \<open>lit\<close> turns an Isabelle literal into
  such a string and \<open>utf8_len\<close> is \<open>str::len\<close>, the length in bytes.
\<close>

named_theorems wrap_simps \<open>wrap-around and saturation facts on machine integers\<close>

section \<open>Machine integers\<close>

type_synonym u8 = "8 word"
type_synonym u16 = "16 word"
type_synonym u32 = "32 word"
type_synonym u64 = "64 word"
type_synonym i32 = int
type_synonym i64 = int

definition i64_min :: int where "i64_min = - 9223372036854775808"
definition i64_max :: int where "i64_max = 9223372036854775807"

definition in_i64 :: "int \<Rightarrow> bool" where
  "in_i64 x \<longleftrightarrow> i64_min \<le> x \<and> x \<le> i64_max"

text \<open>Two's complement wrap-around of \<open>+\<close>, \<open>-\<close>, \<open>*\<close> on \<open>i64\<close> in a release build.\<close>

definition wrap_i64 :: "int \<Rightarrow> int" where
  "wrap_i64 x = (x + 9223372036854775808) mod 18446744073709551616 - 9223372036854775808"

text \<open>\<open>as i64\<close> on a \<open>u64\<close> and \<open>as u64\<close> on an \<open>i64\<close>.\<close>

definition u64_as_i64 :: "u64 \<Rightarrow> int" where
  "u64_as_i64 w = wrap_i64 (uint w)"

definition i64_as_u64 :: "int \<Rightarrow> u64" where
  "i64_as_u64 x = word_of_int x"

definition i64_saturate :: "int \<Rightarrow> int" where
  "i64_saturate x = (if x < i64_min then i64_min else if i64_max < x then i64_max else x)"

definition i64_saturating_sub :: "int \<Rightarrow> int \<Rightarrow> int" where
  "i64_saturating_sub a b = i64_saturate (a - b)"

definition i64_saturating_mul :: "int \<Rightarrow> int \<Rightarrow> int" where
  "i64_saturating_mul a b = i64_saturate (a * b)"

definition u64_saturating_sub :: "u64 \<Rightarrow> u64 \<Rightarrow> u64" where
  "u64_saturating_sub a b = (if a < b then 0 else a - b)"

definition u64_saturating_add :: "u64 \<Rightarrow> u64 \<Rightarrow> u64" where
  "u64_saturating_add a b = (if unat a + unat b < 18446744073709551616 then a + b else - 1)"

definition u64_saturating_mul :: "u64 \<Rightarrow> u64 \<Rightarrow> u64" where
  "u64_saturating_mul a b = (if unat a * unat b < 18446744073709551616 then a * b else - 1)"

lemma wrap_i64_id [wrap_simps]: "in_i64 x \<Longrightarrow> wrap_i64 x = x"
  by (simp add: wrap_i64_def in_i64_def i64_min_def i64_max_def)

lemma wrap_i64_range [simp, intro]: "in_i64 (wrap_i64 x)"
  unfolding wrap_i64_def in_i64_def i64_min_def i64_max_def
  using pos_mod_bound [of "18446744073709551616" "x + 9223372036854775808"]
    pos_mod_sign [of "18446744073709551616" "x + 9223372036854775808"]
  by simp

lemma i64_saturate_range [simp, intro]: "in_i64 (i64_saturate x)"
  by (auto simp: i64_saturate_def in_i64_def i64_min_def i64_max_def)

lemma i64_saturate_id [wrap_simps]: "in_i64 x \<Longrightarrow> i64_saturate x = x"
  by (auto simp: i64_saturate_def in_i64_def)

lemma unat_u64_bound: "unat (w :: u64) < 18446744073709551616"
  using unsigned_less [of w, where ?'a = nat] by simp

lemma u64_as_i64_small: "unat w < 9223372036854775808 \<Longrightarrow> u64_as_i64 w = int (unat w)"
proof -
  assume "unat w < 9223372036854775808"
  then have "int (unat w) < 9223372036854775808" by linarith
  then have "uint w < 9223372036854775808" by simp
  moreover have "0 \<le> uint w" by simp
  ultimately have "in_i64 (uint w)" unfolding in_i64_def i64_min_def i64_max_def by linarith
  then show ?thesis by (simp add: u64_as_i64_def wrap_i64_id)
qed

lemma unat_u64_saturating_sub [wrap_simps]:
  "unat (u64_saturating_sub a b) = unat a - unat b"
  by (auto simp: u64_saturating_sub_def unat_sub_if' word_less_nat_alt not_less)

lemma unat_u64_saturating_add [wrap_simps]:
  "unat (u64_saturating_add a b) = min (unat a + unat b) 18446744073709551615"
proof (cases "unat a + unat b < 18446744073709551616")
  case True
  then have "unat (a + b) = unat a + unat b" by (subst unat_add_lem [symmetric]) simp
  with True show ?thesis by (simp add: u64_saturating_add_def)
next
  case False
  then show ?thesis by (simp add: u64_saturating_add_def unsigned_minus_1_eq_mask mask_eq_exp_minus_1)
qed

lemma u64_saturating_add_mono: "b \<le> c \<Longrightarrow> u64_saturating_add a b \<le> u64_saturating_add a c"
  by (simp add: word_le_nat_alt unat_u64_saturating_add)

lemma u64_saturating_add_ge: "a \<le> u64_saturating_add a b"
  using unat_u64_bound [of a] by (simp add: word_le_nat_alt unat_u64_saturating_add)

lemma unat_i64_as_u64: "0 \<le> x \<Longrightarrow> x \<le> i64_max \<Longrightarrow> unat (i64_as_u64 x) = nat x"
  by (simp add: i64_as_u64_def i64_max_def unat_eq_nat_uint uint_word_of_int)

section \<open>Rust strings\<close>

type_synonym uchar = nat
type_synonym rstr = "uchar list"
type_synonym bytes = "u8 list"

definition lit :: "string \<Rightarrow> rstr" where
  "lit s = map of_char s"

lemma length_lit [simp]: "length (lit s) = length s"
  by (simp add: lit_def)

text \<open>\<open>char::is_control\<close> (category Cc) and \<open>char::is_whitespace\<close> (property White\_Space).\<close>

definition is_control :: "uchar \<Rightarrow> bool" where
  "is_control c \<longleftrightarrow> c < 32 \<or> (127 \<le> c \<and> c \<le> 159)"

definition is_whitespace :: "uchar \<Rightarrow> bool" where
  "is_whitespace c \<longleftrightarrow> (9 \<le> c \<and> c \<le> 13) \<or> c = 32 \<or> c = 133 \<or> c = 160 \<or> c = 5760
     \<or> (8192 \<le> c \<and> c \<le> 8202) \<or> c = 8232 \<or> c = 8233 \<or> c = 8239 \<or> c = 8287 \<or> c = 12288"

definition trim_start :: "rstr \<Rightarrow> rstr" where
  "trim_start s = dropWhile is_whitespace s"

definition trim_end :: "rstr \<Rightarrow> rstr" where
  "trim_end s = rev (dropWhile is_whitespace (rev s))"

definition trim :: "rstr \<Rightarrow> rstr" where
  "trim s = trim_end (trim_start s)"

definition utf8_len_char :: "uchar \<Rightarrow> nat" where
  "utf8_len_char c = (if c < 128 then 1 else if c < 2048 then 2 else if c < 65536 then 3 else 4)"

definition utf8_len :: "rstr \<Rightarrow> nat" where
  "utf8_len s = sum_list (map utf8_len_char s)"

text \<open>\<open>str::as_bytes\<close>.\<close>

definition utf8_encode_char :: "uchar \<Rightarrow> bytes" where
  "utf8_encode_char c =
     (if c < 128 then [of_nat c]
      else if c < 2048 then [of_nat (192 + c div 64), of_nat (128 + c mod 64)]
      else if c < 65536 then
        [of_nat (224 + c div 4096), of_nat (128 + c div 64 mod 64), of_nat (128 + c mod 64)]
      else [of_nat (240 + c div 262144), of_nat (128 + c div 4096 mod 64),
            of_nat (128 + c div 64 mod 64), of_nat (128 + c mod 64)])"

definition utf8_encode :: "rstr \<Rightarrow> bytes" where
  "utf8_encode s = concat (map utf8_encode_char s)"

lemma length_utf8_encode: "length (utf8_encode s) = utf8_len s"
  unfolding utf8_encode_def utf8_len_def
  by (induction s) (auto simp: utf8_encode_char_def utf8_len_char_def)

lemma utf8_len_ge: "length s \<le> utf8_len s"
  unfolding utf8_len_def by (induction s) (auto simp: utf8_len_char_def)

definition starts_with :: "rstr \<Rightarrow> rstr \<Rightarrow> bool" where
  "starts_with s p \<longleftrightarrow> take (length p) s = p"

definition ends_with :: "rstr \<Rightarrow> rstr \<Rightarrow> bool" where
  "ends_with s p \<longleftrightarrow> length p \<le> length s \<and> drop (length s - length p) s = p"

definition strip_prefix :: "rstr \<Rightarrow> rstr \<Rightarrow> rstr option" where
  "strip_prefix s p = (if starts_with s p then Some (drop (length p) s) else None)"

definition strip_suffix :: "rstr \<Rightarrow> rstr \<Rightarrow> rstr option" where
  "strip_suffix s p = (if ends_with s p then Some (take (length s - length p) s) else None)"

text \<open>\<open>str::split_once\<close> on a single character: at the first occurrence.\<close>

fun split_once :: "rstr \<Rightarrow> uchar \<Rightarrow> (rstr \<times> rstr) option" where
  "split_once [] c = None"
| "split_once (x # xs) c =
     (if x = c then Some ([], xs)
      else map_option (\<lambda>(a, b). (x # a, b)) (split_once xs c))"

text \<open>\<open>str::rsplit_once\<close>: at the last occurrence.\<close>

definition rsplit_once :: "rstr \<Rightarrow> uchar \<Rightarrow> (rstr \<times> rstr) option" where
  "rsplit_once s c = map_option (\<lambda>(a, b). (rev b, rev a)) (split_once (rev s) c)"

text \<open>\<open>str::split\<close> on a single character: always at least one piece.\<close>

fun split_on :: "uchar \<Rightarrow> rstr \<Rightarrow> rstr list" where
  "split_on c [] = [[]]"
| "split_on c (x # xs) =
     (if x = c then [] # split_on c xs
      else (case split_on c xs of [] \<Rightarrow> [[x]] | p # ps \<Rightarrow> (x # p) # ps))"

lemma strip_prefix_append [simp]: "strip_prefix (p @ s) p = Some s"
  by (simp add: strip_prefix_def starts_with_def)

lemma strip_suffix_append [simp]: "strip_suffix (s @ p) p = Some s"
  by (simp add: strip_suffix_def ends_with_def)

lemma split_once_append:
  "c \<notin> set a \<Longrightarrow> split_once (a @ c # b) c = Some (a, b)"
  by (induction a) auto

lemma split_once_None_iff: "split_once s c = None \<longleftrightarrow> c \<notin> set s"
  by (induction s) auto

lemma split_once_SomeD: "split_once s c = Some (a, b) \<Longrightarrow> s = a @ c # b \<and> c \<notin> set a"
  by (induction s arbitrary: a) (auto split: if_splits)

lemma trim_start_hd: "trim_start s \<noteq> [] \<Longrightarrow> \<not> is_whitespace (hd (trim_start s))"
  unfolding trim_start_def by (rule hd_dropWhile)

lemma dropWhile_hd_id: "xs = [] \<or> \<not> P (hd xs) \<Longrightarrow> dropWhile P xs = xs"
  by (cases xs) auto

lemma trim_id: "s \<noteq> [] \<Longrightarrow> \<not> is_whitespace (hd s) \<Longrightarrow> \<not> is_whitespace (last s) \<Longrightarrow> trim s = s"
  by (simp add: trim_def trim_start_def trim_end_def dropWhile_hd_id hd_rev)

lemma set_trim: "set (trim s) \<subseteq> set s"
  unfolding trim_def trim_start_def trim_end_def
  by (auto dest!: set_dropWhileD)

lemma length_trim: "length (trim s) \<le> length s"
  unfolding trim_def trim_start_def trim_end_def
  by (metis length_dropWhile_le length_rev order_trans)

end
