(* ===== verification/Ordering.thy ===== *)
theory Ordering
  imports Prelude "HOL-Library.Multiset"
begin

text \<open>
  Rust comparators.  \<open>std::cmp::Ordering\<close> with \<open>then_with\<close>, the stable
  \<open>slice::sort_by\<close>, and \<open>Iterator::min_by\<close>, which keeps the earlier of two
  elements that compare equal.

  The contract that a comparator owes to \<open>sort_by\<close> and \<open>min_by\<close> is a locale:
  on the values that satisfy \<open>ok\<close> it is reflexive, antisymmetric under
  reversal and transitive.  \<open>keyed_ord\<close> adds that two values that compare equal
  have the same key; with distinct keys the sorted list and the minimum then
  do not depend on the order in which a hash map yields its values.
\<close>

datatype ordering = Less | Equal | Greater

fun reverse_ordering :: "ordering \<Rightarrow> ordering" where
  "reverse_ordering Less = Greater"
| "reverse_ordering Equal = Equal"
| "reverse_ordering Greater = Less"

fun then_with :: "ordering \<Rightarrow> ordering \<Rightarrow> ordering" where
  "then_with Equal b = b"
| "then_with a b = a"

definition cmp_of :: "'a::linorder \<Rightarrow> 'a \<Rightarrow> ordering" where
  "cmp_of x y = (if x < y then Less else if x = y then Equal else Greater)"

fun insert_by :: "('a \<Rightarrow> 'a \<Rightarrow> ordering) \<Rightarrow> 'a \<Rightarrow> 'a list \<Rightarrow> 'a list" where
  "insert_by cmp x [] = [x]"
| "insert_by cmp x (y # ys) =
     (if cmp x y = Greater then y # insert_by cmp x ys else x # y # ys)"

fun sort_by :: "('a \<Rightarrow> 'a \<Rightarrow> ordering) \<Rightarrow> 'a list \<Rightarrow> 'a list" where
  "sort_by cmp [] = []"
| "sort_by cmp (x # xs) = insert_by cmp x (sort_by cmp xs)"

fun min_by_from :: "('a \<Rightarrow> 'a \<Rightarrow> ordering) \<Rightarrow> 'a \<Rightarrow> 'a list \<Rightarrow> 'a" where
  "min_by_from cmp m [] = m"
| "min_by_from cmp m (x # xs) = min_by_from cmp (if cmp m x = Greater then x else m) xs"

fun min_by :: "('a \<Rightarrow> 'a \<Rightarrow> ordering) \<Rightarrow> 'a list \<Rightarrow> 'a option" where
  "min_by cmp [] = None"
| "min_by cmp (x # xs) = Some (min_by_from cmp x xs)"

section \<open>Facts that need no contract\<close>

lemma mset_insert_by [simp]: "mset (insert_by cmp x ys) = add_mset x (mset ys)"
  by (induction ys) auto

lemma mset_sort_by [simp]: "mset (sort_by cmp xs) = mset xs"
  by (induction xs) auto

lemma set_insert_by [simp]: "set (insert_by cmp x ys) = insert x (set ys)"
  by (induction ys) auto

lemma set_sort_by [simp]: "set (sort_by cmp xs) = set xs"
  by (induction xs) auto

lemma length_insert_by [simp]: "length (insert_by cmp x ys) = Suc (length ys)"
  by (induction ys) auto

lemma length_sort_by [simp]: "length (sort_by cmp xs) = length xs"
  by (induction xs) auto

lemma distinct_map_sort_by: "distinct (map f (sort_by cmp xs)) = distinct (map f xs)"
  by (rule mset_eq_imp_distinct_iff) simp

lemma take_insert_by: "take n (insert_by cmp x (take n ys)) = take n (insert_by cmp x ys)"
proof (induction ys arbitrary: n)
  case (Cons y ys)
  then show ?case by (cases n) (auto simp: take_Cons')
qed simp

lemma min_by_from_in: "min_by_from cmp m xs \<in> insert m (set xs)"
  by (induction xs arbitrary: m) (auto split: if_splits)

lemma min_by_in: "min_by cmp xs = Some m \<Longrightarrow> m \<in> set xs"
  using min_by_from_in by (cases xs) fastforce+

lemma min_by_None_iff [simp]: "min_by cmp xs = None \<longleftrightarrow> xs = []"
  by (cases xs) auto

lemma cmp_of_simps [simp]:
  "cmp_of x x = Equal"
  "cmp_of x y = Equal \<longleftrightarrow> x = y"
  "cmp_of x y = Less \<longleftrightarrow> x < y"
  "cmp_of x y = Greater \<longleftrightarrow> y < x"
  by (auto simp: cmp_of_def)

lemma then_with_Equal_iff: "then_with a b = Equal \<longleftrightarrow> a = Equal \<and> b = Equal"
  by (cases a) auto

lemma then_with_Greater_iff:
  "then_with a b = Greater \<longleftrightarrow> a = Greater \<or> (a = Equal \<and> b = Greater)"
  by (cases a) auto

lemma reverse_then_with [simp]:
  "reverse_ordering (then_with a b) = then_with (reverse_ordering a) (reverse_ordering b)"
  by (cases a) auto

section \<open>The contract of a comparator\<close>

locale rust_ord =
  fixes cmp :: "'a \<Rightarrow> 'a \<Rightarrow> ordering" and ok :: "'a \<Rightarrow> bool"
  assumes cmp_refl: "ok x \<Longrightarrow> cmp x x = Equal"
    and cmp_reverse: "ok x \<Longrightarrow> ok y \<Longrightarrow> cmp y x = reverse_ordering (cmp x y)"
    and cmp_trans: "ok x \<Longrightarrow> ok y \<Longrightarrow> ok z \<Longrightarrow>
      cmp x y \<noteq> Greater \<Longrightarrow> cmp y z \<noteq> Greater \<Longrightarrow> cmp x z \<noteq> Greater"
begin

lemma total: "ok x \<Longrightarrow> ok y \<Longrightarrow> cmp x y = Greater \<Longrightarrow> cmp y x \<noteq> Greater"
  by (simp add: cmp_reverse [of x y])

lemma sorted_insert_by:
  assumes "ok x" and "\<forall>y \<in> set ys. ok y" and "sorted_wrt (\<lambda>a b. cmp a b \<noteq> Greater) ys"
  shows "sorted_wrt (\<lambda>a b. cmp a b \<noteq> Greater) (insert_by cmp x ys)"
  using assms
proof (induction ys)
  case (Cons y ys)
  show ?case
  proof (cases "cmp x y = Greater")
    case True
    then show ?thesis using Cons by (auto simp: total)
  next
    case False
    then have "cmp x z \<noteq> Greater" if "z \<in> set ys" for z
      using Cons.prems that cmp_trans [of x y z] by auto
    then show ?thesis using Cons.prems False by auto
  qed
qed simp

lemma sorted_sort_by:
  "\<forall>x \<in> set xs. ok x \<Longrightarrow> sorted_wrt (\<lambda>a b. cmp a b \<noteq> Greater) (sort_by cmp xs)"
  by (induction xs) (simp_all add: sorted_insert_by)

lemma min_by_from_least:
  assumes "ok m" and "\<forall>x \<in> set xs. ok x" and "y \<in> insert m (set xs)"
  shows "cmp (min_by_from cmp m xs) y \<noteq> Greater"
  using assms
proof (induction xs arbitrary: m y)
  case Nil
  then show ?case by (simp add: cmp_refl)
next
  case (Cons x xs)
  let ?m = "if cmp m x = Greater then x else m"
  have okm: "ok ?m" using Cons.prems by simp
  have le: "cmp ?m m \<noteq> Greater" "cmp ?m x \<noteq> Greater"
    using Cons.prems by (auto simp: cmp_refl total)
  let ?n = "min_by_from cmp ?m xs"
  have okxs: "\<forall>x \<in> set xs. ok x" using Cons.prems(2) by simp
  have below: "cmp ?n z \<noteq> Greater" if "z \<in> insert ?m (set xs)" for z
    using okm okxs that by (rule Cons.IH)
  have okn: "ok ?n"
    using min_by_from_in [of cmp ?m xs] okm okxs by auto
  have "cmp ?n m \<noteq> Greater" "cmp ?n x \<noteq> Greater"
    using cmp_trans [OF okn okm _ below [of ?m]] le Cons.prems(1,2) by auto
  then have "cmp ?n y \<noteq> Greater"
    using Cons.prems(3) below by auto
  then show ?case by simp
qed

lemma min_by_least:
  assumes "\<forall>x \<in> set xs. ok x" and "min_by cmp xs = Some m" and "y \<in> set xs"
  shows "cmp m y \<noteq> Greater"
  using assms min_by_from_least [of "hd xs" "tl xs" y] by (cases xs) auto

end

locale keyed_ord = rust_ord cmp ok
  for cmp :: "'a \<Rightarrow> 'a \<Rightarrow> ordering" and ok :: "'a \<Rightarrow> bool" +
  fixes key :: "'a \<Rightarrow> 'k"
  assumes equal_key: "ok x \<Longrightarrow> ok y \<Longrightarrow> cmp x y = Equal \<Longrightarrow> key x = key y"
begin

lemma both_le_key:
  assumes "ok x" and "ok y" and "cmp x y \<noteq> Greater" and "cmp y x \<noteq> Greater"
  shows "key x = key y"
proof -
  have "cmp x y = Equal" using assms by (cases "cmp x y") (auto simp: cmp_reverse [of x y])
  then show ?thesis using assms(1,2) by (rule equal_key [rotated 2])
qed

lemma sorted_unique:
  assumes "sorted_wrt (\<lambda>a b. cmp a b \<noteq> Greater) xs"
    and "sorted_wrt (\<lambda>a b. cmp a b \<noteq> Greater) ys"
    and "mset xs = mset ys" and "distinct (map key xs)" and "\<forall>x \<in> set xs. ok x"
  shows "xs = ys"
  using assms
proof (induction xs arbitrary: ys)
  case (Cons x xs)
  then obtain y ys' where ys: "ys = y # ys'" by (cases ys) auto
  have sets: "set (x # xs) = set (y # ys')"
    using Cons.prems(3) ys by (metis set_mset_mset)
  have "x = y"
  proof (rule ccontr)
    assume ne: "x \<noteq> y"
    with sets have "y \<in> set xs" and "x \<in> set ys'" by auto
    with Cons.prems ys have "cmp x y \<noteq> Greater" "cmp y x \<noteq> Greater" "ok x" "ok y" by auto
    then have "key x = key y" by (rule both_le_key [rotated 2])
    with \<open>y \<in> set xs\<close> Cons.prems(4) show False by (auto simp: image_iff)
  qed
  with Cons.prems ys have "xs = ys'" by (intro Cons.IH) auto
  with ys \<open>x = y\<close> show ?case by simp
qed simp

text \<open>The result of sorting does not depend on the order of the input.\<close>

lemma sort_by_cong_mset:
  assumes "mset xs = mset ys" and "distinct (map key xs)" and "\<forall>x \<in> set xs. ok x"
  shows "sort_by cmp xs = sort_by cmp ys"
proof (rule sorted_unique)
  have "set xs = set ys" using assms(1) by (metis set_mset_mset)
  then show "sorted_wrt (\<lambda>a b. cmp a b \<noteq> Greater) (sort_by cmp xs)"
    and "sorted_wrt (\<lambda>a b. cmp a b \<noteq> Greater) (sort_by cmp ys)"
    using assms(3) by (auto intro: sorted_sort_by)
  show "distinct (map key (sort_by cmp xs))"
    using assms(2) by (simp add: distinct_map_sort_by)
qed (use assms in auto)

lemma min_by_cong_mset:
  assumes "mset xs = mset ys" and "\<forall>x \<in> set xs. ok x" and "distinct (map key xs)"
  shows "min_by cmp xs = min_by cmp ys"
proof (cases "min_by cmp xs")
  case None
  with assms(1) show ?thesis by simp
next
  case (Some m)
  have sets: "set xs = set ys" using assms(1) by (metis set_mset_mset)
  from Some assms(1) have "min_by cmp ys \<noteq> None" by auto
  then obtain n where n: "min_by cmp ys = Some n" by blast
  from Some n sets have mn: "m \<in> set xs" "n \<in> set xs" by (auto dest: min_by_in)
  from Some n mn sets assms(2) have "cmp m n \<noteq> Greater" "cmp n m \<noteq> Greater"
    using min_by_least [of xs m n] min_by_least [of ys n m] by auto
  with mn assms(2) have "key m = key n" by (intro both_le_key) auto
  with mn assms(3) have "m = n" by (auto simp: distinct_map dest: inj_onD)
  with Some n show ?thesis by simp
qed

lemma sort_by_min:
  assumes "min_by cmp xs = Some e" and "mset xs = add_mset e (mset ys)"
    and "distinct (map key xs)" and "\<forall>x \<in> set xs. ok x"
  shows "sort_by cmp xs = e # sort_by cmp ys"
proof (rule sorted_unique)
  have sets: "set xs = insert e (set ys)"
    using assms(2) by (metis set_mset_add_mset_insert set_mset_mset)
  then have "\<forall>y \<in> set ys. cmp e y \<noteq> Greater"
    using min_by_least [OF assms(4,1)] by simp
  with sets assms(4) show "sorted_wrt (\<lambda>a b. cmp a b \<noteq> Greater) (e # sort_by cmp ys)"
    by (simp add: sorted_sort_by)
  show "sorted_wrt (\<lambda>a b. cmp a b \<noteq> Greater) (sort_by cmp xs)"
    using assms(4) by (rule sorted_sort_by)
qed (use assms in \<open>simp_all add: distinct_map_sort_by\<close>)

lemma sort_by_snoc:
  assumes "\<forall>y \<in> set (xs @ [x]). ok y" and "distinct (map key (xs @ [x]))"
  shows "sort_by cmp (xs @ [x]) = insert_by cmp x (sort_by cmp xs)"
  using sort_by_cong_mset [of "xs @ [x]" "x # xs"] assms by simp

lemma sort_by_idem:
  assumes "sorted_wrt (\<lambda>a b. cmp a b \<noteq> Greater) xs"
    and "\<forall>x \<in> set xs. ok x" and "distinct (map key xs)"
  shows "sort_by cmp xs = xs"
  using assms distinct_map_sort_by
  by (intro sorted_unique) (auto simp: sorted_sort_by)

text \<open>
  Pushing one element at a time into a list that is sorted again and cut to its
  first \<open>n\<close> elements gives the first \<open>n\<close> elements of the sorted whole.
\<close>

lemma take_sort_by_snoc:
  assumes ok: "\<forall>y \<in> set (xs @ [x]). ok y" and dist: "distinct (map key (xs @ [x]))"
  shows "take n (sort_by cmp (take n (sort_by cmp xs) @ [x])) = take n (sort_by cmp (xs @ [x]))"
proof -
  let ?S = "sort_by cmp xs" and ?T = "take n (sort_by cmp xs)"
  have sorted_S: "sorted_wrt (\<lambda>a b. cmp a b \<noteq> Greater) ?S"
    using ok by (intro sorted_sort_by) simp
  have sub: "set ?T \<subseteq> set xs" using set_take_subset [of n ?S] by simp
  have "distinct (map key ?S)" using dist by (simp add: distinct_map_sort_by)
  then have dist_T: "distinct (map key ?T)" by (simp flip: take_map)
  have T: "sort_by cmp ?T = ?T"
    using sorted_S sub ok dist_T by (intro sort_by_idem) (auto simp: sorted_wrt_take)
  have "sort_by cmp (?T @ [x]) = insert_by cmp x ?T"
    using sub ok dist dist_T T by (subst sort_by_snoc) (auto simp: image_iff)
  moreover have "sort_by cmp (xs @ [x]) = insert_by cmp x ?S"
    using ok dist by (rule sort_by_snoc)
  ultimately show ?thesis by (simp add: take_insert_by)
qed

end

section \<open>Building comparators\<close>

lemma rust_ord_cmp_of: "rust_ord (\<lambda>x y. cmp_of (f x) (f y)) ok"
  by unfold_locales (auto simp: cmp_of_def split: if_splits)

lemma rust_ord_flip: "rust_ord c ok \<Longrightarrow> rust_ord (\<lambda>x y. c y x) ok"
  unfolding rust_ord_def by metis

lemma rust_ord_then_with:
  assumes "rust_ord c ok" and "rust_ord d ok"
  shows "rust_ord (\<lambda>x y. then_with (c x y) (d x y)) ok"
proof
  fix x assume "ok x"
  then show "then_with (c x x) (d x x) = Equal"
    by (simp add: rust_ord.cmp_refl [OF assms(1)] rust_ord.cmp_refl [OF assms(2)])
next
  fix x y assume "ok x" "ok y"
  then show "then_with (c y x) (d y x) = reverse_ordering (then_with (c x y) (d x y))"
    by (simp add: rust_ord.cmp_reverse [OF assms(1), of x y] rust_ord.cmp_reverse [OF assms(2), of x y])
next
  fix x y z assume oks: "ok x" "ok y" "ok z"
    and xy: "then_with (c x y) (d x y) \<noteq> Greater" and yz: "then_with (c y z) (d y z) \<noteq> Greater"
  note tr = rust_ord.cmp_trans [OF assms(1)] and rv = rust_ord.cmp_reverse [OF assms(1)]
  have cxz: "c x z \<noteq> Greater"
    using tr [OF oks] xy yz by (simp add: then_with_Greater_iff)
  have "c x y = Equal \<and> c y z = Equal" if "c x z = Equal"
  proof -
    have "c z x \<noteq> Greater" using that rv [of x z] oks by simp
    then have "c y x \<noteq> Greater" "c z y \<noteq> Greater"
      using tr [of y z x] tr [of z x y] oks xy yz by (simp_all add: then_with_Greater_iff)
    then show ?thesis using rv [of x y] rv [of y z] oks xy yz
      by (cases "c x y"; cases "c y z") (auto simp: then_with_Greater_iff)
  qed
  then have "d x z \<noteq> Greater" if "c x z = Equal"
    using that xy yz rust_ord.cmp_trans [OF assms(2) oks] by (simp add: then_with_Greater_iff)
  with cxz show "then_with (c x z) (d x z) \<noteq> Greater" by (simp add: then_with_Greater_iff)
qed

end
