(* ===== verification/Float64.thy ===== *)
theory Float64
  imports Complex_Main Ordering
begin

text \<open>
  The Rust type \<open>f64\<close>, as far as the sources use it: comparison, conversion from
  \<open>u64\<close>, multiplication, division, addition and \<open>is_finite\<close>.

  A value is NaN, an infinity or a finite rational.  Arithmetic is exact
  arithmetic on rationals followed by \<open>f64_round\<close>, the IEEE 754 rounding of
  binary64: to the nearest multiple of the quantum of the value's binade
  (53 significant bits, least exponent -1074), ties to the even multiple, and
  to an infinity from \<open>2 ^ 1024\<close> on.  The two zeros are one value here: the
  code never divides by a float zero and never asks for a sign bit, and only the text of a
  negative zero (\<open>-0\<close> for \<open>0\<close>) is not modelled.
\<close>

section \<open>Values and rounding\<close>

datatype f64 = F64_NaN | F64_Inf bool | F64_Fin rat

text \<open>\<open>pow2 k\<close> is \<open>2\<close> to the integer power \<open>k\<close>.\<close>

definition pow2 :: "int \<Rightarrow> rat" where
  "pow2 k = (if 0 \<le> k then 2 ^ nat k else 1 / 2 ^ nat (- k))"

definition round_half_even :: "rat \<Rightarrow> int" where
  "round_half_even x =
     (let f = \<lfloor>x\<rfloor>; d = x - of_int f
      in if d < 1 / 2 then f else if 1 / 2 < d then f + 1 else if even f then f else f + 1)"

text \<open>The number of binary digits of a non-negative integer.\<close>

function bit_count :: "int \<Rightarrow> int" where
  "bit_count n = (if n \<le> 0 then 0 else 1 + bit_count (n div 2))"
  by pat_completeness auto
termination
  by (relation "measure nat") auto

declare bit_count.simps [simp del]

text \<open>The exponent of the binade of a positive rational: \<open>pow2 e \<le> q < pow2 (e + 1)\<close>.\<close>

definition binade :: "rat \<Rightarrow> int" where
  "binade q = (if 1 \<le> q then bit_count \<lfloor>q\<rfloor> - 1 else - bit_count (\<lceil>1 / q\<rceil> - 1))"

definition quantum :: "rat \<Rightarrow> rat" where
  "quantum q = pow2 (max (binade q - 52) (- 1074))"

definition round_pos :: "rat \<Rightarrow> rat" where
  "round_pos q = of_int (round_half_even (q / quantum q)) * quantum q"

definition f64_round :: "rat \<Rightarrow> f64" where
  "f64_round q =
     (if q = 0 then F64_Fin 0
      else let r = round_pos \<bar>q\<bar>
           in if pow2 1024 \<le> r then F64_Inf (q < 0)
              else F64_Fin (if q < 0 then - r else r))"

section \<open>Operations\<close>

definition f64_of_u64 :: "u64 \<Rightarrow> f64" where
  "f64_of_u64 w = f64_round (of_int (uint w))"

fun f64_is_finite :: "f64 \<Rightarrow> bool" where
  "f64_is_finite (F64_Fin q) = True"
| "f64_is_finite _ = False"

text \<open>\<open>PartialOrd\<close>: a comparison with NaN has no answer and every relation with it is false.\<close>

fun f64_partial_cmp :: "f64 \<Rightarrow> f64 \<Rightarrow> ordering option" where
  "f64_partial_cmp (F64_Fin a) (F64_Fin b) = Some (cmp_of a b)"
| "f64_partial_cmp (F64_Inf s) (F64_Inf t) =
     Some (if s = t then Equal else if s then Less else Greater)"
| "f64_partial_cmp (F64_Inf s) (F64_Fin b) = Some (if s then Less else Greater)"
| "f64_partial_cmp (F64_Fin a) (F64_Inf t) = Some (if t then Greater else Less)"
| "f64_partial_cmp _ _ = None"

definition f64_ge :: "f64 \<Rightarrow> f64 \<Rightarrow> bool" where
  "f64_ge a b \<longleftrightarrow> f64_partial_cmp a b \<in> {Some Greater, Some Equal}"

definition f64_gt :: "f64 \<Rightarrow> f64 \<Rightarrow> bool" where
  "f64_gt a b \<longleftrightarrow> f64_partial_cmp a b = Some Greater"

definition f64_lt :: "f64 \<Rightarrow> f64 \<Rightarrow> bool" where
  "f64_lt a b \<longleftrightarrow> f64_partial_cmp a b = Some Less"

definition f64_le :: "f64 \<Rightarrow> f64 \<Rightarrow> bool" where
  "f64_le a b \<longleftrightarrow> f64_partial_cmp a b \<in> {Some Less, Some Equal}"

fun f64_add :: "f64 \<Rightarrow> f64 \<Rightarrow> f64" where
  "f64_add (F64_Fin a) (F64_Fin b) = f64_round (a + b)"
| "f64_add (F64_Inf s) (F64_Inf t) = (if s = t then F64_Inf s else F64_NaN)"
| "f64_add (F64_Inf s) (F64_Fin b) = F64_Inf s"
| "f64_add (F64_Fin a) (F64_Inf t) = F64_Inf t"
| "f64_add _ _ = F64_NaN"

text \<open>
  Multiplication and division; an infinity only meets a finite non-zero value of
  the same sign as its partner in the general rule, and zero or infinite divisors
  give what IEEE 754 says for a positive zero.
\<close>

fun f64_mul :: "f64 \<Rightarrow> f64 \<Rightarrow> f64" where
  "f64_mul (F64_Fin a) (F64_Fin b) = f64_round (a * b)"
| "f64_mul (F64_Inf s) (F64_Inf t) = F64_Inf (s \<noteq> t)"
| "f64_mul (F64_Inf s) (F64_Fin b) = (if b = 0 then F64_NaN else F64_Inf (s \<noteq> (b < 0)))"
| "f64_mul (F64_Fin a) (F64_Inf t) = (if a = 0 then F64_NaN else F64_Inf (t \<noteq> (a < 0)))"
| "f64_mul _ _ = F64_NaN"

fun f64_div :: "f64 \<Rightarrow> f64 \<Rightarrow> f64" where
  "f64_div (F64_Fin a) (F64_Fin b) =
     (if b = 0 then (if a = 0 then F64_NaN else F64_Inf (a < 0)) else f64_round (a / b))"
| "f64_div (F64_Inf s) (F64_Fin b) = F64_Inf (s \<noteq> (b < 0))"
| "f64_div (F64_Fin a) (F64_Inf t) = F64_Fin 0"
| "f64_div _ _ = F64_NaN"

text \<open>\<open>PartialOrd\<close> of \<open>Option<f64>\<close>: \<open>None\<close> is less than every \<open>Some\<close>.\<close>

fun opt_f64_partial_cmp :: "f64 option \<Rightarrow> f64 option \<Rightarrow> ordering option" where
  "opt_f64_partial_cmp None None = Some Equal"
| "opt_f64_partial_cmp None (Some _) = Some Less"
| "opt_f64_partial_cmp (Some _) None = Some Greater"
| "opt_f64_partial_cmp (Some a) (Some b) = f64_partial_cmp a b"

section \<open>Powers of two and binades\<close>

lemma pow2_pos [simp]: "0 < pow2 k"
  by (simp add: pow2_def)

lemma pow2_add: "pow2 (j + k) = pow2 j * pow2 k"
proof -
  have pow2_powr: "real_of_rat (pow2 k) = 2 powr of_int k" for k
    by (cases "0 \<le> k")
      (simp_all add: pow2_def of_rat_power of_rat_divide powr_realpow [symmetric] powr_minus_divide)
  have "real_of_rat (pow2 (j + k)) = real_of_rat (pow2 j * pow2 k)"
    by (simp add: of_rat_mult pow2_powr powr_add)
  then show ?thesis by (simp only: of_rat_eq_iff)
qed

lemma pow2_0 [simp]: "pow2 0 = 1"
  by (simp add: pow2_def)

lemma pow2_nat: "pow2 (int n) = 2 ^ n"
  by (simp add: pow2_def)

lemma pow2_minus: "pow2 (- k) = 1 / pow2 k"
proof -
  have "pow2 k \<noteq> 0" using pow2_pos [of k] by linarith
  then show ?thesis using pow2_add [of k "- k"] by (simp add: field_simps)
qed

lemma pow2_mono: "j \<le> k \<Longrightarrow> pow2 j \<le> pow2 k"
proof -
  assume "j \<le> k"
  then have "1 \<le> pow2 (k - j)" by (simp add: pow2_def)
  then have "pow2 j * 1 \<le> pow2 j * pow2 (k - j)" by (intro mult_left_mono) (simp_all add: less_imp_le)
  then show ?thesis by (simp flip: pow2_add)
qed

lemma bit_count_bounds: "0 < n \<Longrightarrow> 0 < bit_count n \<and> 2 ^ nat (bit_count n - 1) \<le> n \<and> n < 2 ^ nat (bit_count n)"
proof (induction n rule: bit_count.induct)
  case (1 n)
  show ?case
  proof (cases "n = 1")
    case True
    then show ?thesis by (simp add: bit_count.simps [of 1] bit_count.simps [of 0])
  next
    case False
    with 1 have IH: "0 < bit_count (n div 2)" "2 ^ nat (bit_count (n div 2) - 1) \<le> n div 2"
        "n div 2 < 2 ^ nat (bit_count (n div 2))" by auto
    have eq: "bit_count n = 1 + bit_count (n div 2)"
      using "1.prems" by (subst bit_count.simps) simp
    have p: "(2::int) ^ nat (bit_count (n div 2)) = 2 * 2 ^ nat (bit_count (n div 2) - 1)"
      using IH(1) by (simp flip: power_Suc add: Suc_nat_eq_nat_zadd1)
    have q: "(2::int) ^ nat (1 + bit_count (n div 2)) = 2 * 2 ^ nat (bit_count (n div 2))"
      using IH(1) by (simp add: nat_add_distrib)
    have "2 ^ nat (1 + bit_count (n div 2) - 1) \<le> n" "n < 2 ^ nat (1 + bit_count (n div 2))"
      using IH(2,3) p q by simp_all linarith+
    then show ?thesis using IH(1) unfolding eq by simp
  qed
qed

lemma binade_bounds:
  assumes "0 < q"
  shows "pow2 (binade q) \<le> q" and "q < pow2 (binade q + 1)"
proof -
  have "pow2 (binade q) \<le> q \<and> q < pow2 (binade q + 1)"
  proof (cases "1 \<le> q")
    case True
    let ?k = "bit_count \<lfloor>q\<rfloor>"
    have k: "0 < ?k" "2 ^ nat (?k - 1) \<le> \<lfloor>q\<rfloor>" "\<lfloor>q\<rfloor> < 2 ^ nat ?k"
      using bit_count_bounds [of "\<lfloor>q\<rfloor>"] True by auto
    have "pow2 (?k - 1) \<le> q" using k(1,2) by (simp add: pow2_def le_floor_iff)
    moreover have "q < pow2 ?k" using k(1,3) by (simp add: pow2_def floor_less_iff)
    ultimately show ?thesis using True by (simp add: binade_def)
  next
    case False
    let ?n = "\<lceil>1 / q\<rceil> - 1"
    let ?m = "bit_count ?n"
    have "1 < 1 / q" using False assms by simp
    then have "0 < ?n" by (simp add: less_ceiling_iff)
    then have m: "0 < ?m" "2 ^ nat (?m - 1) \<le> ?n" "?n < 2 ^ nat ?m"
      using bit_count_bounds [of ?n] by auto
    have lo: "pow2 (?m - 1) < 1 / q"
      using m(1,2) less_ceiling_iff [of "2 ^ nat (?m - 1)" "1 / q"] by (simp add: pow2_def)
    have hi: "1 / q \<le> pow2 ?m"
      using m(1,3) ceiling_le_iff [of "1 / q" "2 ^ nat ?m"] by (simp add: pow2_def)
    have "binade q = - ?m" "binade q + 1 = - (?m - 1)"
      using False by (simp_all add: binade_def)
    with lo hi assms show ?thesis
      by (simp only: pow2_minus) (simp add: field_simps)
  qed
  then show "pow2 (binade q) \<le> q" and "q < pow2 (binade q + 1)" by auto
qed

lemma binade_mono:
  assumes "0 < p" and "p \<le> q"
  shows "binade p \<le> binade q"
proof (rule ccontr)
  assume "\<not> binade p \<le> binade q"
  then have "binade q + 1 \<le> binade p" by simp
  then have "pow2 (binade q + 1) \<le> pow2 (binade p)" by (rule pow2_mono)
  with binade_bounds [of p] binade_bounds [of q] assms show False by simp
qed

section \<open>Rounding\<close>

lemma round_half_even_ge: "of_int n \<le> x \<Longrightarrow> n \<le> round_half_even x"
proof -
  assume "of_int n \<le> x"
  then have "n \<le> \<lfloor>x\<rfloor>" by (simp add: le_floor_iff)
  then show ?thesis by (auto simp: round_half_even_def Let_def)
qed

lemma round_half_even_le: "x \<le> of_int n \<Longrightarrow> round_half_even x \<le> n"
proof -
  assume x: "x \<le> of_int n"
  then have f: "\<lfloor>x\<rfloor> \<le> n" by (simp add: floor_le_iff)
  show ?thesis
  proof (cases "\<lfloor>x\<rfloor> = n")
    case True
    with x have "x - of_int \<lfloor>x\<rfloor> < 1 / 2" by simp
    then show ?thesis using f by (simp add: round_half_even_def Let_def)
  next
    case False
    with f show ?thesis by (auto simp: round_half_even_def Let_def)
  qed
qed

lemma round_half_even_of_int [simp]: "round_half_even (of_int n) = n"
  by (simp add: round_half_even_def)

lemma round_half_even_mono:
  assumes "x \<le> y"
  shows "round_half_even x \<le> round_half_even y"
proof (cases "\<lfloor>x\<rfloor> = \<lfloor>y\<rfloor>")
  case True
  with assms show ?thesis by (auto simp: round_half_even_def Let_def)
next
  case False
  with floor_mono [OF assms] have "\<lfloor>x\<rfloor> + 1 \<le> \<lfloor>y\<rfloor>" by linarith
  moreover have "round_half_even x \<le> \<lfloor>x\<rfloor> + 1"
    by (rule round_half_even_le) linarith
  moreover have "\<lfloor>y\<rfloor> \<le> round_half_even y" by (rule round_half_even_ge) simp
  ultimately show ?thesis by linarith
qed

lemma quantum_pos [simp]: "0 < quantum q"
  by (simp add: quantum_def)

text \<open>A multiple of the quantum bounds the rounded value exactly when it bounds the value.\<close>

lemma round_pos_le_multiple:
  "q \<le> of_int m * quantum q \<Longrightarrow> round_pos q \<le> of_int m * quantum q"
  unfolding round_pos_def
  by (intro mult_right_mono) (simp_all add: round_half_even_le pos_divide_le_eq less_imp_le)

lemma round_pos_ge_multiple:
  "of_int m * quantum q \<le> q \<Longrightarrow> of_int m * quantum q \<le> round_pos q"
  unfolding round_pos_def
  by (intro mult_right_mono) (simp_all add: round_half_even_ge pos_le_divide_eq less_imp_le)

lemma round_pos_nonneg: "0 \<le> q \<Longrightarrow> 0 \<le> round_pos q"
  using round_pos_ge_multiple [of 0 q] by simp

lemma pow2_multiple: "b \<le> a \<Longrightarrow> \<exists>m. pow2 a = of_int m * pow2 b"
  using pow2_add [of "a - b" b]
  by (intro exI [of _ "2 ^ nat (a - b)"]) (simp add: pow2_def)

lemma nat_multiple: "b \<le> 0 \<Longrightarrow> \<exists>m. of_nat n = of_int m * pow2 b"
proof -
  assume "b \<le> 0"
  then obtain m where "1 = of_int m * pow2 b" using pow2_multiple [of b 0] by auto
  then have "of_nat n = of_int (int n * m) * pow2 b" by (simp add: mult.assoc)
  then show ?thesis by blast
qed

lemma round_pos_mono:
  assumes "0 < p" and "p \<le> q"
  shows "round_pos p \<le> round_pos q"
proof (cases "quantum p = quantum q")
  case True
  have "round_half_even (p / quantum q) \<le> round_half_even (q / quantum q)"
    using assms by (intro round_half_even_mono divide_right_mono) (simp_all add: less_imp_le)
  then show ?thesis
    unfolding round_pos_def True by (intro mult_right_mono) (simp_all add: less_imp_le)
next
  case False
  let ?b = "binade q"
  have "binade p \<le> ?b" using assms by (rule binade_mono)
  moreover from False have "max (binade p - 52) (- 1074) \<noteq> max (?b - 52) (- 1074)"
    by (auto simp: quantum_def)
  ultimately have lt: "max (binade p - 52) (- 1074) \<le> ?b" "max (?b - 52) (- 1074) \<le> ?b"
      "binade p + 1 \<le> ?b"
    by (simp_all add: max_def split: if_splits)
  obtain m where m: "pow2 ?b = of_int m * quantum p"
    using pow2_multiple [OF lt(1)] by (auto simp: quantum_def)
  obtain n where n: "pow2 ?b = of_int n * quantum q"
    using pow2_multiple [OF lt(2)] by (auto simp: quantum_def)
  have "p \<le> pow2 ?b"
    using binade_bounds [of p] assms pow2_mono [OF lt(3)] by simp
  then have "round_pos p \<le> pow2 ?b" using round_pos_le_multiple [of p m] m by simp
  also have "pow2 ?b \<le> round_pos q"
    using round_pos_ge_multiple [of n q] n binade_bounds [of q] assms by simp
  finally show ?thesis .
qed

text \<open>Naturals below \<open>2 ^ 53\<close> are exact.\<close>

lemma round_pos_of_nat:
  assumes "0 < n" and "n < 9007199254740992"
  shows "round_pos (of_nat n) = of_nat n"
proof -
  have "binade (of_nat n) \<le> 52"
  proof (rule ccontr)
    assume "\<not> ?thesis"
    then have "pow2 53 \<le> pow2 (binade (of_nat n))" by (intro pow2_mono) simp
    also have "\<dots> \<le> of_nat n" using assms(1) by (intro binade_bounds) simp
    finally have "(9007199254740992 :: rat) \<le> of_nat n" by (simp add: pow2_def)
    with assms(2) show False by (metis not_le of_nat_le_iff of_nat_numeral)
  qed
  then obtain m where m: "of_nat n = of_int m * quantum (of_nat n)"
    using nat_multiple [of "max (binade (of_nat n) - 52) (- 1074)" n] by (auto simp: quantum_def)
  with round_pos_le_multiple [of "of_nat n" m] round_pos_ge_multiple [of m "of_nat n"]
  show ?thesis by simp
qed

text \<open>A value up to an exact natural stays up to it.\<close>

lemma round_pos_le_nat:
  "0 < q \<Longrightarrow> q \<le> of_nat n \<Longrightarrow> n < 9007199254740992 \<Longrightarrow> round_pos q \<le> of_nat n"
  using round_pos_mono [of q "of_nat n"] round_pos_of_nat [of n] by (cases "n = 0") auto

section \<open>The order of f64 and the exactness of conversions\<close>

lemma f64_ge_trans: "f64_ge a b \<Longrightarrow> f64_ge b c \<Longrightarrow> f64_ge a c"
  by (cases a; cases b; cases c) (auto simp: f64_ge_def split: if_splits)

lemma f64_round_Fin: "0 \<le> q \<Longrightarrow> q < pow2 1023 \<Longrightarrow> \<exists>r. f64_round q = F64_Fin r \<and> 0 \<le> r"
proof (cases "q = 0")
  case False
  assume "0 \<le> q" and "q < pow2 1023"
  with False have q: "0 < q" by simp
  have "binade q < 1023"
  proof (rule ccontr)
    assume "\<not> ?thesis"
    then have "pow2 1023 \<le> pow2 (binade q)" by (intro pow2_mono) simp
    with binade_bounds(1) [OF q] \<open>q < pow2 1023\<close> show False by simp
  qed
  then obtain m where m: "pow2 1023 = of_int m * quantum q"
    using pow2_multiple [of "max (binade q - 52) (- 1074)" 1023] by (auto simp: quantum_def)
  then have "round_pos q \<le> pow2 1023"
    using round_pos_le_multiple [of q m] \<open>q < pow2 1023\<close> by simp
  also have "\<dots> < pow2 1024" using pow2_add [of 1023 1] by (simp add: pow2_def)
  finally show ?thesis
    using q round_pos_nonneg [of q] by (auto simp: f64_round_def Let_def)
qed (simp add: f64_round_def)

lemma f64_round_of_nat: "n < 9007199254740992 \<Longrightarrow> f64_round (of_nat n) = F64_Fin (of_nat n)"
proof -
  assume n: "n < 9007199254740992"
  have "of_nat n \<le> (9007199254740992 :: rat)"
    using n by (metis less_imp_le of_nat_le_iff of_nat_numeral)
  then have "\<not> pow2 1024 \<le> of_nat n" by (simp add: pow2_def)
  with n round_pos_of_nat [of n] show ?thesis by (simp add: f64_round_def Let_def)
qed

lemma f64_of_u64_exact: "unat w < 9007199254740992 \<Longrightarrow> f64_of_u64 w = F64_Fin (of_nat (unat w))"
  using f64_round_of_nat [of "unat w"] by (simp add: f64_of_u64_def)

lemma f64_round_mono:
  assumes "0 \<le> p" and "p \<le> q" and "q < pow2 1023"
  shows "f64_ge (f64_round q) (f64_round p)"
proof (cases "p = 0")
  case True
  with f64_round_Fin [of q] assms show ?thesis
    by (auto simp: f64_round_def [of 0] f64_ge_def cmp_of_def)
next
  case False
  with assms have pos: "0 < p" "0 < q" by auto
  obtain a b where ab: "f64_round p = F64_Fin a" "f64_round q = F64_Fin b"
    using f64_round_Fin [of p] f64_round_Fin [of q] assms by auto
  with pos have "a = round_pos p" "b = round_pos q"
    by (auto simp: f64_round_def Let_def split: if_splits)
  with ab round_pos_mono [OF pos(1) assms(2)] show ?thesis
    by (auto simp: f64_ge_def cmp_of_def)
qed

lemma u64_below_pow2: "of_int (uint (w :: u64)) < pow2 1023"
proof -
  have "uint w < 2 ^ 64" using uint_lt2p [of w] by simp
  then have "(of_int (uint w) :: rat) < of_int (2 ^ 64)" by (simp only: of_int_less_iff)
  also have "\<dots> \<le> pow2 1023" by (simp add: pow2_def)
  finally show ?thesis .
qed

lemma f64_of_u64_mono: "v \<le> w \<Longrightarrow> f64_ge (f64_of_u64 w) (f64_of_u64 v)"
proof -
  assume "v \<le> w"
  then have "(of_int (uint v) :: rat) \<le> of_int (uint w)"
    by (simp only: of_int_le_iff word_le_def)
  moreover have "(0 :: rat) \<le> of_int (uint v)" by (simp only: of_int_0_le_iff uint_ge_0)
  ultimately show ?thesis
    unfolding f64_of_u64_def by (intro f64_round_mono u64_below_pow2)
qed

lemma f64_round_le_nat:
  assumes "0 \<le> q" and "q \<le> of_nat n" and "n < 9007199254740992"
  shows "\<exists>p. f64_round q = F64_Fin p \<and> 0 \<le> p \<and> p \<le> of_nat n"
proof (cases "q = 0")
  case True
  then show ?thesis by (simp add: f64_round_def)
next
  case False
  with assms have "0 < q" by simp
  then have le: "round_pos q \<le> of_nat n" using assms(2,3) by (rule round_pos_le_nat)
  have "(of_nat n :: rat) < of_nat 9007199254740992"
    using assms(3) by (simp only: of_nat_less_iff)
  with le have "round_pos q < pow2 1024" by (simp add: pow2_def)
  with \<open>0 < q\<close> le round_pos_nonneg [OF assms(1)] show ?thesis
    by (auto simp: f64_round_def Let_def)
qed

lemma percentage_of_nat:
  assumes "a \<le> b" and "0 < b"
  shows "0 \<le> (of_nat (a * 100) / of_nat b :: rat) \<and> of_nat (a * 100) / of_nat b \<le> (of_nat 100 :: rat)"
proof -
  have "(of_nat (a * 100) :: rat) \<le> of_nat (100 * b)"
    unfolding of_nat_le_iff using assms(1) by simp
  then show ?thesis using assms(2) by (simp add: pos_divide_le_eq)
qed

text \<open>
  A percentage \<open>r * 100 / t\<close> of counters below \<open>2 ^ 46\<close> is finite and lies between
  0 and 100, rounding included.
\<close>

lemma f64_percentage_bounds:
  assumes "r \<le> t" and "0 < t" and "unat t < 70368744177664"
  shows "\<exists>p. f64_div (f64_mul (f64_of_u64 r) (F64_Fin 100)) (f64_of_u64 t) = F64_Fin p
     \<and> 0 \<le> p \<and> p \<le> 100"
proof -
  have rt: "unat r \<le> unat t" and t0: "0 < unat t"
    using assms(1,2) by (simp_all add: word_le_nat_alt word_less_nat_alt)
  have mul: "f64_mul (f64_of_u64 r) (F64_Fin 100) = F64_Fin (of_nat (unat r * 100))"
    using f64_round_of_nat [of "unat r * 100"] rt assms(3) by (simp add: f64_of_u64_exact)
  let ?q = "of_nat (unat r * 100) / of_nat (unat t) :: rat"
  have div: "f64_div (F64_Fin (of_nat (unat r * 100))) (f64_of_u64 t) = f64_round ?q"
  proof -
    have "(of_nat (unat t) :: rat) \<noteq> 0" using t0 by (simp only: of_nat_eq_0_iff)
    moreover have "unat t < 9007199254740992" using assms(3) by simp
    ultimately show ?thesis by (simp only: f64_of_u64_exact f64_div.simps if_False)
  qed
  have q: "0 \<le> ?q" "?q \<le> of_nat 100"
    using percentage_of_nat [OF rt t0] by blast+
  show ?thesis
    unfolding mul div using f64_round_le_nat [OF q] by simp
qed

definition cmp_opt_f64 :: "f64 option \<Rightarrow> f64 option \<Rightarrow> ordering" where
  "cmp_opt_f64 a b = (case opt_f64_partial_cmp a b of Some c \<Rightarrow> c | None \<Rightarrow> Equal)"

text \<open>Away from NaN, \<open>partial_cmp(..).unwrap_or(Equal)\<close> keeps the contract of a comparator.\<close>

interpretation opt_f64: rust_ord cmp_opt_f64 "\<lambda>x. x \<noteq> Some F64_NaN"
proof
  fix x y z :: "f64 option"
  show "x \<noteq> Some F64_NaN \<Longrightarrow> cmp_opt_f64 x x = Equal"
    by (cases x; cases "the x") (auto simp: cmp_opt_f64_def)
  show "x \<noteq> Some F64_NaN \<Longrightarrow> y \<noteq> Some F64_NaN \<Longrightarrow>
      cmp_opt_f64 y x = reverse_ordering (cmp_opt_f64 x y)"
    by (cases x; cases y; cases "the x"; cases "the y") (auto simp: cmp_opt_f64_def cmp_of_def)
  show "x \<noteq> Some F64_NaN \<Longrightarrow> y \<noteq> Some F64_NaN \<Longrightarrow> z \<noteq> Some F64_NaN \<Longrightarrow>
      cmp_opt_f64 x y \<noteq> Greater \<Longrightarrow> cmp_opt_f64 y z \<noteq> Greater \<Longrightarrow> cmp_opt_f64 x z \<noteq> Greater"
    by (cases x; cases y; cases z; cases "the x"; cases "the y"; cases "the z")
      (auto simp: cmp_opt_f64_def split: if_splits)
qed

end
