(* ===== verification/Decimal.thy ===== *)
theory Decimal
  imports Prelude
begin

text \<open>
  Decimal printing and parsing of Rust integers: \<open>Display\<close> (\<open>format!("{n}")\<close>)
  and \<open>str::parse\<close> for \<open>i64\<close>, \<open>u64\<close> and \<open>usize\<close>.  Parsing accepts one leading
  sign (a minus sign for signed types only), wants at least one digit and
  checks the range; printing followed by parsing is the identity.
\<close>

section \<open>Printing\<close>

fun show_nat :: "nat \<Rightarrow> rstr" where
  "show_nat n = (if n < 10 then [48 + n] else show_nat (n div 10) @ [48 + n mod 10])"

declare show_nat.simps [simp del]

definition show_int :: "int \<Rightarrow> rstr" where
  "show_int i = (if i < 0 then 45 # show_nat (nat (- i)) else show_nat (nat i))"

section \<open>Parsing\<close>

definition is_digit :: "uchar \<Rightarrow> bool" where
  "is_digit c \<longleftrightarrow> 48 \<le> c \<and> c \<le> 57"

definition digits_value :: "rstr \<Rightarrow> nat" where
  "digits_value s = foldl (\<lambda>acc c. acc * 10 + (c - 48)) 0 s"

definition parse_digits :: "rstr \<Rightarrow> nat option" where
  "parse_digits s = (if s \<noteq> [] \<and> list_all is_digit s then Some (digits_value s) else None)"

text \<open>\<open>i64::from_str\<close>.\<close>

definition parse_i64 :: "rstr \<Rightarrow> int option" where
  "parse_i64 s =
     (case s of
        [] \<Rightarrow> None
      | c # cs \<Rightarrow>
          (let v = (if c = 45 then map_option (\<lambda>n. - int n) (parse_digits cs)
                    else if c = 43 then map_option int (parse_digits cs)
                    else map_option int (parse_digits s))
           in case v of None \<Rightarrow> None | Some i \<Rightarrow> if in_i64 i then Some i else None))"

text \<open>\<open>u64::from_str\<close> and \<open>usize::from_str\<close> (64-bit) accept the same strings.\<close>

definition parse_unsigned :: "rstr \<Rightarrow> nat option" where
  "parse_unsigned s =
     (case s of
        [] \<Rightarrow> None
      | c # cs \<Rightarrow>
          (let v = (if c = 43 then parse_digits cs else parse_digits s)
           in case v of None \<Rightarrow> None
              | Some n \<Rightarrow> if n < 18446744073709551616 then Some n else None))"

section \<open>Round trip and injectivity\<close>

lemma show_nat_not_Nil [simp]: "show_nat n \<noteq> []"
  by (subst show_nat.simps) simp

lemma show_nat_digits: "c \<in> set (show_nat n) \<Longrightarrow> is_digit c"
proof (induction n rule: show_nat.induct)
  case (1 n)
  then show ?case
    by (subst (asm) show_nat.simps) (auto simp: is_digit_def split: if_splits)
qed

lemma digits_value_snoc: "digits_value (s @ [c]) = digits_value s * 10 + (c - 48)"
  by (simp add: digits_value_def)

lemma digits_value_show_nat [simp]: "digits_value (show_nat n) = n"
proof (induction n rule: show_nat.induct)
  case (1 n)
  show ?case
  proof (cases "n < 10")
    case True
    then show ?thesis by (subst show_nat.simps) (simp add: digits_value_def)
  next
    case False
    with 1 show ?thesis by (subst show_nat.simps) (simp add: digits_value_snoc)
  qed
qed

lemma parse_digits_show_nat [simp]: "parse_digits (show_nat n) = Some n"
  by (auto simp: parse_digits_def list_all_iff show_nat_digits)

lemma show_nat_eq_iff [simp]: "show_nat m = show_nat n \<longleftrightarrow> m = n"
  by (metis digits_value_show_nat)

lemma hd_show_nat_digit: "is_digit (hd (show_nat n))"
  by (rule show_nat_digits [of _ n]) simp

lemma show_nat_Cons_not_sign: "show_nat n = c # cs \<Longrightarrow> c \<noteq> 45 \<and> c \<noteq> 43"
  using hd_show_nat_digit [of n] by (auto simp: is_digit_def)

lemma show_int_not_Nil [simp]: "show_int i \<noteq> []"
  by (simp add: show_int_def)

lemma show_int_chars: "c \<in> set (show_int i) \<Longrightarrow> is_digit c \<or> c = 45"
  by (auto simp: show_int_def dest: show_nat_digits split: if_splits)

lemma parse_i64_show_int: "in_i64 i \<Longrightarrow> parse_i64 (show_int i) = Some i"
proof (cases "i < 0")
  case False
  assume "in_i64 i"
  obtain c cs where "show_nat (nat i) = c # cs" by (cases "show_nat (nat i)") auto
  with False \<open>in_i64 i\<close> show ?thesis
    using show_nat_Cons_not_sign [of "nat i" c cs] parse_digits_show_nat [of "nat i"]
    by (auto simp: parse_i64_def show_int_def Let_def)
qed (simp add: parse_i64_def show_int_def)

lemma parse_unsigned_show_nat: "n < 18446744073709551616 \<Longrightarrow> parse_unsigned (show_nat n) = Some n"
proof -
  assume "n < 18446744073709551616"
  obtain c cs where "show_nat n = c # cs" by (cases "show_nat n") auto
  with \<open>n < 18446744073709551616\<close> show ?thesis
    using show_nat_Cons_not_sign [of n c cs] parse_digits_show_nat [of n]
    by (auto simp: parse_unsigned_def)
qed

lemma show_int_eq_iff [simp]: "show_int i = show_int j \<longleftrightarrow> i = j"
proof
  assume eq: "show_int i = show_int j"
  show "i = j"
  proof (cases "i < 0"; cases "j < 0")
    assume "i < 0" and "\<not> j < 0"
    with eq show ?thesis
      using show_nat_Cons_not_sign [of "nat j"] by (auto simp: show_int_def dest: sym)
  next
    assume "\<not> i < 0" and "j < 0"
    with eq show ?thesis
      using show_nat_Cons_not_sign [of "nat i"] by (auto simp: show_int_def)
  qed (use eq in \<open>auto simp: show_int_def\<close>)
qed simp

lemma parse_i64_range: "parse_i64 s = Some i \<Longrightarrow> in_i64 i"
  by (auto simp: parse_i64_def Let_def split: list.splits option.splits if_splits)

lemma parse_unsigned_range: "parse_unsigned s = Some n \<Longrightarrow> n < 18446744073709551616"
  by (auto simp: parse_unsigned_def Let_def split: list.splits option.splits if_splits)

end
