(* ===== verification/Config.thy ===== *)
theory Config
  imports Float64 Decimal
begin

text \<open>
  The daemon configuration of \<open>crates/moshwatch-core/src/config.rs\<close>: the
  configuration records with their defaults, the resolution of the legacy flat
  \<open>[metrics]\<close> keys against the nested \<open>[metrics.prometheus]\<close> table, and
  \<open>AppConfig::validate\<close>, whose checks run in source order and stop at the
  first failure.  TOML decoding and the \<open>http\<close> crate (header names, header
  values, URIs) are parameters.
\<close>

section \<open>Records\<close>

datatype metrics_detail_tier = AggregateOnly | PerSession

definition includes_sessions :: "metrics_detail_tier \<Rightarrow> bool" where
  "includes_sessions t = (case t of PerSession \<Rightarrow> True | AggregateOnly \<Rightarrow> False)"

record health_thresholds =
  warn_rtt_ms :: u64
  critical_rtt_ms :: u64
  warn_retransmit_pct :: f64
  critical_retransmit_pct :: f64
  warn_silence_ms :: u64
  critical_silence_ms :: u64

definition default_thresholds :: health_thresholds where
  "default_thresholds =
     \<lparr>warn_rtt_ms = 400, critical_rtt_ms = 1000,
      warn_retransmit_pct = F64_Fin 2, critical_retransmit_pct = F64_Fin 10,
      warn_silence_ms = 5000, critical_silence_ms = 15000\<rparr>"

record event_stream_config =
  heartbeat_ms :: u64

definition default_stream :: event_stream_config where
  "default_stream = \<lparr>heartbeat_ms = 15000\<rparr>"

record persistence_config =
  pc_enabled :: bool
  sample_interval_ms :: u64
  retention_days :: u64
  max_query_samples :: nat
  max_disk_bytes :: u64

definition default_persistence :: persistence_config where
  "default_persistence =
     \<lparr>pc_enabled = True, sample_interval_ms = 5000, retention_days = 14,
      max_query_samples = 4096, max_disk_bytes = 512 * 1024 * 1024\<rparr>"

record prometheus_config =
  listen_addr :: "rstr option"
  allow_non_loopback :: bool
  prom_detail_tier :: metrics_detail_tier

definition default_prometheus :: prometheus_config where
  "default_prometheus =
     \<lparr>listen_addr = Some (lit ''127.0.0.1:9947''), allow_non_loopback = False,
      prom_detail_tier = PerSession\<rparr>"

text \<open>The maps of the OTLP section are \<open>BTreeMap\<close>s, iterated in key order: association lists.\<close>

record otlp_config =
  otlp_enabled :: bool
  otlp_endpoint :: rstr
  export_interval_ms :: u64
  timeout_ms :: u64
  otlp_detail_tier :: metrics_detail_tier
  otlp_headers :: "(rstr \<times> rstr) list"
  resource_attributes :: "(rstr \<times> rstr) list"

definition default_otlp :: otlp_config where
  "default_otlp =
     \<lparr>otlp_enabled = False, otlp_endpoint = lit ''http://127.0.0.1:4318/v1/metrics'',
      export_interval_ms = 15000, timeout_ms = 5000, otlp_detail_tier = AggregateOnly,
      otlp_headers = [], resource_attributes = []\<rparr>"

record metrics_config =
  mc_prometheus :: prometheus_config
  mc_otlp :: otlp_config

record app_config =
  refresh_ms :: u64
  discovery_interval_ms :: u64
  cleanup_interval_ms :: u64
  history_secs :: u64
  max_tracked_sessions :: nat
  max_session_detail_points :: nat
  thresholds :: health_thresholds
  stream_cfg :: event_stream_config
  persistence :: persistence_config
  metrics_cfg :: metrics_config

definition default_config :: app_config where
  "default_config =
     \<lparr>refresh_ms = 1000, discovery_interval_ms = 5000, cleanup_interval_ms = 10000,
      history_secs = 15 * 60, max_tracked_sessions = 2048, max_session_detail_points = 15 * 60,
      thresholds = default_thresholds, stream_cfg = default_stream,
      persistence = default_persistence,
      metrics_cfg = \<lparr>mc_prometheus = default_prometheus, mc_otlp = default_otlp\<rparr>\<rparr>"

section \<open>Resolving the metrics section\<close>

text \<open>
  What \<open>serde\<close> hands to \<open>MetricsConfig::deserialize\<close>: every key is optional, the
  nested table may be absent, and inside it a present \<open>listen_addr\<close> is either an
  address or, written as an empty string, an explicit \<open>None\<close>.
\<close>

record prometheus_partial =
  pp_listen_addr :: "rstr option option"
  pp_allow_non_loopback :: "bool option"
  pp_detail_tier :: "metrics_detail_tier option"

record metrics_config_compat =
  cc_prometheus :: "prometheus_partial option"
  cc_otlp :: "otlp_config option"
  cc_listen_addr :: "rstr option"
  cc_allow_non_loopback :: "bool option"
  cc_detail_tier :: "metrics_detail_tier option"

definition blank_to_none :: "rstr \<Rightarrow> rstr option" where
  "blank_to_none s = (if trim s = [] then None else Some s)"

text \<open>\<open>deserialize_optional_listen_addr\<close> and its \<open>_optional\<close> sibling.\<close>

definition deserialize_optional_listen_addr :: "rstr option \<Rightarrow> rstr option" where
  "deserialize_optional_listen_addr v = Option.bind v blank_to_none"

definition deserialize_optional_listen_addr_optional :: "rstr option \<Rightarrow> rstr option option" where
  "deserialize_optional_listen_addr_optional v = map_option blank_to_none v"

definition resolve_metrics_config :: "metrics_config_compat \<Rightarrow> metrics_config" where
  "resolve_metrics_config cc =
     (let p0 = default_prometheus;
          p1 = (case cc_listen_addr cc of None \<Rightarrow> p0
                | Some a \<Rightarrow> p0\<lparr>listen_addr := blank_to_none a\<rparr>);
          p2 = (case cc_allow_non_loopback cc of None \<Rightarrow> p1
                | Some b \<Rightarrow> p1\<lparr>allow_non_loopback := b\<rparr>);
          p3 = (case cc_detail_tier cc of None \<Rightarrow> p2
                | Some t \<Rightarrow> p2\<lparr>prom_detail_tier := t\<rparr>);
          p4 = (case cc_prometheus cc of None \<Rightarrow> p3
                | Some ov \<Rightarrow>
                    (let q1 = (case pp_listen_addr ov of None \<Rightarrow> p3
                               | Some a \<Rightarrow> p3\<lparr>listen_addr := a\<rparr>);
                         q2 = (case pp_allow_non_loopback ov of None \<Rightarrow> q1
                               | Some b \<Rightarrow> q1\<lparr>allow_non_loopback := b\<rparr>)
                     in (case pp_detail_tier ov of None \<Rightarrow> q2
                         | Some t \<Rightarrow> q2\<lparr>prom_detail_tier := t\<rparr>)))
      in \<lparr>mc_prometheus = p4,
          mc_otlp = (case cc_otlp cc of None \<Rightarrow> default_otlp | Some otl \<Rightarrow> otl)\<rparr>)"

section \<open>Validation\<close>

datatype config_error =
    MustBePositive string
  | MustBeAtLeast string int
  | MustBeAtMost string int
  | WarnAboveCritical string
  | NotFiniteNonNegative string
  | EmptyListenAddr
  | EmptyEndpoint
  | PaddedEndpoint
  | EndpointWithoutScheme
  | EndpointNotAUri
  | EndpointSchemeNotHttp
  | EndpointWithoutAuthority
  | EmptyHeaderName
  | InvalidHeaderName rstr
  | ReservedHeader rstr
  | InvalidHeaderValue rstr
  | EmptyAttributeKey
  | ReservedAttributeKey rstr
  | CleanupBelowDiscovery

text \<open>
  The \<open>http\<close> crate: \<open>HeaderName::try_from\<close> (a normalised name or failure),
  \<open>HeaderValue::from_str\<close> (success or failure) and \<open>Uri::from_str\<close> (the scheme and
  the authority, each possibly missing, or failure).
\<close>

record http_crate =
  header_name :: "rstr \<Rightarrow> rstr option"
  header_value_ok :: "rstr \<Rightarrow> bool"
  parse_uri :: "rstr \<Rightarrow> (rstr option \<times> rstr option) option"

text \<open>A sequence of \<open>if c { bail!(e) }\<close>: the error of the first condition that holds.\<close>

fun bail_first :: "(bool \<times> 'e) list \<Rightarrow> 'e + unit" where
  "bail_first [] = Inr ()"
| "bail_first ((c, e) # rest) = (if c then Inl e else bail_first rest)"

text \<open>Statements that return early with the first error, as \<open>?\<close> does.\<close>

fun and_then :: "'e + unit \<Rightarrow> 'e + unit \<Rightarrow> 'e + unit" where
  "and_then (Inl e) r = Inl e"
| "and_then (Inr u) r = r"

fun all_ok :: "('a \<Rightarrow> 'e + unit) \<Rightarrow> 'a list \<Rightarrow> 'e + unit" where
  "all_ok f [] = Inr ()"
| "all_ok f (x # xs) = and_then (f x) (all_ok f xs)"

definition contains :: "rstr \<Rightarrow> rstr \<Rightarrow> bool" where
  "contains s p \<longleftrightarrow> (\<exists>i \<in> set [0 ..< Suc (length s)]. starts_with (drop i s) p)"

definition ascii_lower_char :: "uchar \<Rightarrow> uchar" where
  "ascii_lower_char c = (if 65 \<le> c \<and> c \<le> 90 then c + 32 else c)"

definition to_ascii_lowercase :: "rstr \<Rightarrow> rstr" where
  "to_ascii_lowercase s = map ascii_lower_char s"

definition eq_ignore_ascii_case :: "rstr \<Rightarrow> rstr \<Rightarrow> bool" where
  "eq_ignore_ascii_case a b \<longleftrightarrow> to_ascii_lowercase a = to_ascii_lowercase b"

definition validate_otlp_header :: "http_crate \<Rightarrow> rstr \<Rightarrow> rstr \<Rightarrow> config_error + unit" where
  "validate_otlp_header http name value =
     (if trim name = [] then Inl EmptyHeaderName
      else (case header_name http name of
              None \<Rightarrow> Inl (InvalidHeaderName name)
            | Some n \<Rightarrow>
                (if n = lit ''accept'' \<or> n = lit ''content-type'' then Inl (ReservedHeader name)
                 else if header_value_ok http value then Inr ()
                 else Inl (InvalidHeaderValue name))))"

definition validate_otlp_endpoint :: "http_crate \<Rightarrow> rstr \<Rightarrow> config_error + unit" where
  "validate_otlp_endpoint http endpoint =
     (if \<not> contains endpoint (lit ''://'') then Inl EndpointWithoutScheme
      else (case parse_uri http endpoint of
              None \<Rightarrow> Inl EndpointNotAUri
            | Some (None, authority) \<Rightarrow> Inl EndpointWithoutScheme
            | Some (Some scheme, authority) \<Rightarrow>
                (if scheme \<noteq> lit ''http'' \<and> scheme \<noteq> lit ''https'' then Inl EndpointSchemeNotHttp
                 else if authority = None then Inl EndpointWithoutAuthority
                 else Inr ())))"

definition reserved_keys :: "rstr list" where
  "reserved_keys =
     [lit ''service.name'', lit ''service.version'', lit ''service.instance.id'',
      lit ''moshwatch.observer.node_name'', lit ''moshwatch.observer.system_id'']"

definition is_reserved_otlp_resource_attribute_key :: "rstr \<Rightarrow> bool" where
  "is_reserved_otlp_resource_attribute_key key \<longleftrightarrow>
     list_ex (\<lambda>reserved. eq_ignore_ascii_case key reserved) reserved_keys"

definition validate_attribute_key :: "rstr \<Rightarrow> config_error + unit" where
  "validate_attribute_key name =
     bail_first
       [(trim name = [], EmptyAttributeKey),
        (is_reserved_otlp_resource_attribute_key name, ReservedAttributeKey name)]"

text \<open>The numeric checks, in source order.\<close>

definition validate_limits :: "app_config \<Rightarrow> config_error + unit" where
  "validate_limits c =
     (let p = persistence c in
      bail_first
       [(refresh_ms c = 0, MustBePositive ''refresh_ms''),
        (refresh_ms c < 100, MustBeAtLeast ''refresh_ms'' 100),
        (discovery_interval_ms c = 0, MustBePositive ''discovery_interval_ms''),
        (discovery_interval_ms c < 500, MustBeAtLeast ''discovery_interval_ms'' 500),
        (cleanup_interval_ms c = 0, MustBePositive ''cleanup_interval_ms''),
        (cleanup_interval_ms c < 1000, MustBeAtLeast ''cleanup_interval_ms'' 1000),
        (history_secs c = 0, MustBePositive ''history_secs''),
        (history_secs c > 86400, MustBeAtMost ''history_secs'' 86400),
        (max_tracked_sessions c = 0, MustBePositive ''max_tracked_sessions''),
        (max_tracked_sessions c > 10000, MustBeAtMost ''max_tracked_sessions'' 10000),
        (max_session_detail_points c = 0, MustBePositive ''max_session_detail_points''),
        (max_session_detail_points c > 20000, MustBeAtMost ''max_session_detail_points'' 20000),
        (heartbeat_ms (stream_cfg c) = 0, MustBePositive ''stream.heartbeat_ms''),
        (sample_interval_ms p = 0, MustBePositive ''persistence.sample_interval_ms''),
        (sample_interval_ms p < 1000, MustBeAtLeast ''persistence.sample_interval_ms'' 1000),
        (retention_days p = 0, MustBePositive ''persistence.retention_days''),
        (retention_days p > 366, MustBeAtMost ''persistence.retention_days'' 366),
        (max_query_samples p = 0, MustBePositive ''persistence.max_query_samples''),
        (max_query_samples p > 20000, MustBeAtMost ''persistence.max_query_samples'' 20000),
        (max_disk_bytes p = 0, MustBePositive ''persistence.max_disk_bytes''),
        (max_disk_bytes p > 68719476736, MustBeAtMost ''persistence.max_disk_bytes'' 68719476736)])"

definition validate_thresholds :: "health_thresholds \<Rightarrow> config_error + unit" where
  "validate_thresholds t =
     bail_first
       [(warn_rtt_ms t > critical_rtt_ms t, WarnAboveCritical ''warn_rtt_ms''),
        (\<not> f64_is_finite (warn_retransmit_pct t) \<or> f64_lt (warn_retransmit_pct t) (F64_Fin 0),
           NotFiniteNonNegative ''warn_retransmit_pct''),
        (\<not> f64_is_finite (critical_retransmit_pct t) \<or> f64_lt (critical_retransmit_pct t) (F64_Fin 0),
           NotFiniteNonNegative ''critical_retransmit_pct''),
        (f64_gt (warn_retransmit_pct t) (critical_retransmit_pct t), WarnAboveCritical ''warn_retransmit_pct''),
        (warn_silence_ms t > critical_silence_ms t, WarnAboveCritical ''warn_silence_ms'')]"

definition validate_otlp :: "http_crate \<Rightarrow> otlp_config \<Rightarrow> config_error + unit" where
  "validate_otlp http otl =
     and_then
       (if otlp_enabled otl then
          and_then
            (bail_first [(trim (otlp_endpoint otl) = [], EmptyEndpoint),
                         (otlp_endpoint otl \<noteq> trim (otlp_endpoint otl), PaddedEndpoint)])
            (and_then (validate_otlp_endpoint http (trim (otlp_endpoint otl)))
              (bail_first [(export_interval_ms otl = 0, MustBePositive ''metrics.otlp.export_interval_ms''),
                           (timeout_ms otl = 0, MustBePositive ''metrics.otlp.timeout_ms'')]))
        else Inr ())
       (and_then (all_ok (\<lambda>(name, value). validate_otlp_header http name value) (otlp_headers otl))
         (all_ok validate_attribute_key (map fst (resource_attributes otl))))"

definition validate :: "http_crate \<Rightarrow> app_config \<Rightarrow> config_error + unit" where
  "validate http c =
     and_then (validate_limits c)
      (and_then (validate_thresholds (thresholds c))
       (and_then
         (bail_first
           [(case listen_addr (mc_prometheus (metrics_cfg c)) of
               Some a \<Rightarrow> trim a = [] | None \<Rightarrow> False, EmptyListenAddr)])
         (and_then (validate_otlp http (mc_otlp (metrics_cfg c)))
           (bail_first [(cleanup_interval_ms c < discovery_interval_ms c, CleanupBelowDiscovery)]))))"

section \<open>What a validated configuration guarantees\<close>

text \<open>The bounds the daemon relies on, as one predicate.\<close>

definition limits_ok :: "app_config \<Rightarrow> bool" where
  "limits_ok c \<longleftrightarrow>
     100 \<le> refresh_ms c \<and> 500 \<le> discovery_interval_ms c \<and> 1000 \<le> cleanup_interval_ms c
     \<and> 0 < history_secs c \<and> history_secs c \<le> 86400
     \<and> 0 < max_tracked_sessions c \<and> max_tracked_sessions c \<le> 10000
     \<and> 0 < max_session_detail_points c \<and> max_session_detail_points c \<le> 20000
     \<and> 0 < heartbeat_ms (stream_cfg c)
     \<and> 1000 \<le> sample_interval_ms (persistence c)
     \<and> 0 < retention_days (persistence c) \<and> retention_days (persistence c) \<le> 366
     \<and> 0 < max_query_samples (persistence c) \<and> max_query_samples (persistence c) \<le> 20000
     \<and> 0 < max_disk_bytes (persistence c) \<and> max_disk_bytes (persistence c) \<le> 68719476736"

definition thresholds_ok :: "health_thresholds \<Rightarrow> bool" where
  "thresholds_ok t \<longleftrightarrow>
     warn_rtt_ms t \<le> critical_rtt_ms t \<and> warn_silence_ms t \<le> critical_silence_ms t
     \<and> (\<exists>w c. warn_retransmit_pct t = F64_Fin w \<and> critical_retransmit_pct t = F64_Fin c
          \<and> 0 \<le> w \<and> w \<le> c)"

lemma bail_first_Inr_iff: "bail_first cs = Inr () \<longleftrightarrow> (\<forall>(c, e) \<in> set cs. \<not> c)"
  by (induction cs) (auto split: if_splits)

lemma and_then_Inr_iff [simp]: "and_then a b = Inr () \<longleftrightarrow> a = Inr () \<and> b = Inr ()"
  by (cases a) auto

lemma all_ok_Inr_iff [simp]: "all_ok f xs = Inr () \<longleftrightarrow> (\<forall>x \<in> set xs. f x = Inr ())"
  by (induction xs) auto

lemma u64_pos_of_ge: "a \<le> (x :: u64) \<Longrightarrow> 0 < a \<Longrightarrow> x \<noteq> 0"
  by auto

lemma validate_limits_iff: "validate_limits c = Inr () \<longleftrightarrow> limits_ok c"
  unfolding validate_limits_def limits_ok_def Let_def bail_first_Inr_iff
  by (auto simp: not_less word_neq_0_conv dest: u64_pos_of_ge)

lemma validate_thresholds_iff: "validate_thresholds t = Inr () \<longleftrightarrow> thresholds_ok t"
  unfolding validate_thresholds_def thresholds_ok_def bail_first_Inr_iff
  by (cases "warn_retransmit_pct t"; cases "critical_retransmit_pct t")
    (auto simp: f64_lt_def f64_gt_def not_less)

lemma validate_limitsD: "validate http c = Inr () \<Longrightarrow> limits_ok c"
  by (simp add: validate_def validate_limits_iff)

lemma validate_thresholdsD: "validate http c = Inr () \<Longrightarrow> thresholds_ok (thresholds c)"
  by (simp add: validate_def validate_thresholds_iff)

lemma validate_cleanupD: "validate http c = Inr () \<Longrightarrow> discovery_interval_ms c \<le> cleanup_interval_ms c"
  by (simp add: validate_def not_less split: if_splits)

lemma validate_listenD:
  "validate http c = Inr () \<Longrightarrow> listen_addr (mc_prometheus (metrics_cfg c)) = Some a \<Longrightarrow> trim a \<noteq> []"
  by (simp add: validate_def split: if_splits)

text \<open>A validated OTLP section overrides neither the reserved headers nor the reserved attributes.\<close>

lemma validate_otlp_headersD:
  assumes "validate http c = Inr ()" and "(name, value) \<in> set (otlp_headers (mc_otlp (metrics_cfg c)))"
  shows "\<exists>n. header_name http name = Some n \<and> n \<noteq> lit ''accept'' \<and> n \<noteq> lit ''content-type''
     \<and> header_value_ok http value"
proof -
  have "validate_otlp_header http name value = Inr ()"
    using assms by (auto simp: validate_def validate_otlp_def)
  then show ?thesis
    by (auto simp: validate_otlp_header_def split: if_splits option.splits)
qed

lemma validate_otlp_attributesD:
  assumes "validate http c = Inr ()" and "(name, value) \<in> set (resource_attributes (mc_otlp (metrics_cfg c)))"
  shows "\<not> is_reserved_otlp_resource_attribute_key name" and "trim name \<noteq> []"
proof -
  have "validate_attribute_key name = Inr ()"
    using assms by (auto simp: validate_def validate_otlp_def)
  then show "\<not> is_reserved_otlp_resource_attribute_key name" and "trim name \<noteq> []"
    by (auto simp: validate_attribute_key_def split: if_splits)
qed

lemma default_config_valid: "validate http default_config = Inr ()"
proof -
  have "limits_ok default_config"
    by (simp add: limits_ok_def default_config_def default_persistence_def default_stream_def)
  moreover have "thresholds_ok default_thresholds"
    by (simp add: thresholds_ok_def default_thresholds_def)
  moreover have "trim (lit ''127.0.0.1:9947'') \<noteq> []"
    by (simp add: lit_def trim_def trim_start_def trim_end_def is_whitespace_def)
  ultimately show ?thesis
    unfolding validate_def
    by (simp add: validate_limits_iff validate_thresholds_iff default_config_def validate_otlp_def
        default_otlp_def default_prometheus_def)
qed

lemma blank_to_none_not_blank: "blank_to_none s = Some a \<Longrightarrow> trim a \<noteq> []"
  by (auto simp: blank_to_none_def split: if_splits)

end
