(* ===== verification/Identity.thy ===== *)
theory Identity
  imports Decimal
begin

text \<open>
  Observer identity (\<open>crates/moshwatch-core/src/identity.rs\<close>): the sanitation of
  host names and machine ids, the search order of the machine-id files and the
  opaque system id.  SHA-256 is a parameter: a function from bytes to the 32
  bytes of the digest.
\<close>

record observer_info =
  node_name :: rstr
  system_id :: rstr

datatype identity_error =
    EmptyIdentity
  | IdentityTooLong
  | IdentityBadCharacter
  | IdentityIo
  | NoMachineId

text \<open>\<open>u8::is_ascii_control\<close> and \<open>u8::is_ascii_whitespace\<close>, on the bytes of the string.\<close>

definition is_ascii_control :: "u8 \<Rightarrow> bool" where
  "is_ascii_control b \<longleftrightarrow> b < 32 \<or> b = 127"

definition is_ascii_whitespace :: "u8 \<Rightarrow> bool" where
  "is_ascii_whitespace b \<longleftrightarrow> b = 9 \<or> b = 10 \<or> b = 12 \<or> b = 13 \<or> b = 32"

definition sanitize_identity_value :: "rstr \<Rightarrow> identity_error + rstr" where
  "sanitize_identity_value value =
     (let trimmed = trim value
      in if trimmed = [] then Inl EmptyIdentity
         else if utf8_len trimmed > 255 then Inl IdentityTooLong
         else if list_ex (\<lambda>b. is_ascii_control b \<or> is_ascii_whitespace b) (utf8_encode trimmed)
           then Inl IdentityBadCharacter
         else Inr trimmed)"

text \<open>The outcome of \<open>fs::read_to_string\<close> on one path.\<close>

datatype file_read = ReadOk rstr | ReadNotFound | ReadFailed

text \<open>The loop over \<open>/etc/machine-id\<close> and \<open>/var/lib/dbus/machine-id\<close>, given what reading each yields.\<close>

fun read_system_id :: "file_read list \<Rightarrow> identity_error + rstr" where
  "read_system_id [] = Inl NoMachineId"
| "read_system_id (ReadOk raw # rest) = sanitize_identity_value raw"
| "read_system_id (ReadNotFound # rest) = read_system_id rest"
| "read_system_id (ReadFailed # rest) = Inl IdentityIo"

text \<open>Lower-case hexadecimal, two digits per byte (\<open>{byte:02x}\<close>).\<close>

definition hex_digit :: "nat \<Rightarrow> uchar" where
  "hex_digit n = (if n < 10 then 48 + n else 87 + n)"

definition hex_byte :: "u8 \<Rightarrow> rstr" where
  "hex_byte b = [hex_digit (unat b div 16), hex_digit (unat b mod 16)]"

definition hex_bytes :: "bytes \<Rightarrow> rstr" where
  "hex_bytes bs = concat (map hex_byte bs)"

definition derive_stable_system_id :: "(bytes \<Rightarrow> bytes) \<Rightarrow> rstr \<Rightarrow> rstr" where
  "derive_stable_system_id sha256 value =
     lit ''sha256:'' @ hex_bytes (take 16 (sha256 (utf8_encode value)))"

text \<open>
  \<open>discover_observer_info\<close>, given the outcome of \<open>gethostname\<close> (the decoded name, or
  \<open>None\<close> when the call fails) and of the two machine-id reads.
\<close>

definition read_node_name :: "rstr option \<Rightarrow> identity_error + rstr" where
  "read_node_name hostname =
     (case hostname of None \<Rightarrow> Inl IdentityIo | Some h \<Rightarrow> sanitize_identity_value h)"

definition discover_observer_info ::
    "(bytes \<Rightarrow> bytes) \<Rightarrow> rstr option \<Rightarrow> file_read list \<Rightarrow> observer_info" where
  "discover_observer_info sha256 hostname machine_ids =
     (let node = (case read_node_name hostname of Inr n \<Rightarrow> n | Inl _ \<Rightarrow> lit ''unknown-node'');
          sid = (case read_system_id machine_ids of
                   Inr raw \<Rightarrow> derive_stable_system_id sha256 raw
                 | Inl _ \<Rightarrow> derive_stable_system_id sha256 (lit ''node-fallback:'' @ node))
      in \<lparr>node_name = node, system_id = sid\<rparr>)"

section \<open>Facts\<close>

lemma length_hex_bytes [simp]: "length (hex_bytes bs) = 2 * length bs"
  by (induction bs) (auto simp: hex_bytes_def hex_byte_def)

lemma hex_digit_inj: "m < 16 \<Longrightarrow> n < 16 \<Longrightarrow> hex_digit m = hex_digit n \<Longrightarrow> m = n"
  by (auto simp: hex_digit_def split: if_splits)

lemma hex_byte_inj: "hex_byte a = hex_byte b \<Longrightarrow> a = b"
proof -
  assume eq: "hex_byte a = hex_byte b"
  have bound: "unat (x :: u8) div 16 < 16" for x
    using unsigned_less [of x, where ?'a = nat] by (simp add: less_mult_imp_div_less)
  from eq have "unat a div 16 = unat b div 16" "unat a mod 16 = unat b mod 16"
    using bound [of a] bound [of b] by (auto simp: hex_byte_def intro: hex_digit_inj)
  then have "unat a = unat b" by (metis div_mult_mod_eq)
  then show ?thesis by (simp only: word_unat_eq_iff)
qed

text \<open>The printed prefix of a digest determines the first bytes of the digest.\<close>

lemma hex_bytes_inj: "hex_bytes as = hex_bytes bs \<Longrightarrow> as = bs"
proof (induction as arbitrary: bs)
  case Nil
  then show ?case by (cases bs) (auto simp: hex_bytes_def hex_byte_def)
next
  case (Cons a as)
  then obtain b bs' where bs: "bs = b # bs'" by (cases bs) (auto simp: hex_bytes_def hex_byte_def)
  with Cons.prems have "hex_byte a = hex_byte b" "hex_bytes as = hex_bytes bs'"
    by (auto simp: hex_bytes_def hex_byte_def)
  with Cons.IH bs show ?case by (auto dest: hex_byte_inj)
qed

lemma sanitize_identity_valueD:
  assumes "sanitize_identity_value v = Inr t"
  shows "t = trim v" and "t \<noteq> []" and "utf8_len t \<le> 255"
    and "\<forall>b \<in> set (utf8_encode t). \<not> is_ascii_control b \<and> \<not> is_ascii_whitespace b"
  using assms by (auto simp: sanitize_identity_value_def Let_def list_ex_iff split: if_splits)

lemma derive_stable_system_id_length:
  "length (sha256 (utf8_encode v)) = 32 \<Longrightarrow> length (derive_stable_system_id sha256 v) = 39"
  by (simp add: derive_stable_system_id_def lit_def)

text \<open>The machine id never enters the observer identity except through the digest.\<close>

lemma discover_depends_on_digest:
  assumes "sanitize_identity_value a = Inr ta" and "sanitize_identity_value b = Inr tb"
    and "take 16 (sha256 (utf8_encode ta)) = take 16 (sha256 (utf8_encode tb))"
  shows "discover_observer_info sha256 h (ReadOk a # r) = discover_observer_info sha256 h (ReadOk b # r')"
  using assms by (simp add: discover_observer_info_def derive_stable_system_id_def)

end
