(* ===== verification/Protocol.thy ===== *)
theory Protocol
  imports Config Identity
begin

text \<open>
  The shared data types of \<open>crates/moshwatch-core/src/protocol.rs\<close>: telemetry
  events, session summaries and snapshots, history samples, the response bodies
  of the local API and the frames of the event stream.  Field names carry a
  short prefix per record, since record fields share one name space.
\<close>

section \<open>Enumerations\<close>

datatype session_kind = Instrumented | LegacyKind

datatype health_state = Ok | Degraded | Critical | LegacyHealth

datatype telemetry_event_kind = SessionOpen | SessionTick | SessionClose

datatype session_control_action = Terminate

datatype event_stream_event = Snapshot | Heartbeat

definition API_SCHEMA_VERSION :: u32 where "API_SCHEMA_VERSION = 5"
definition COHERENCE_EXPORT_VERSION :: rstr where
  "COHERENCE_EXPORT_VERSION = lit ''moshwatch-coherence-export-v1''"
definition ADAPTER_CONTRACT_VERSION :: rstr where
  "ADAPTER_CONTRACT_VERSION = lit ''moshwatch-adapter-contract-v1''"
definition LEGACY_REST_SCHEMA_VERSION :: u32 where "LEGACY_REST_SCHEMA_VERSION = 2"

section \<open>Session data\<close>

record retransmit_window_breakdown =
  rb_transmissions_total :: "u64 option"
  rb_retransmits_total :: "u64 option"
  rb_state_updates_total :: "u64 option"
  rb_empty_acks_total :: "u64 option"

definition default_breakdown :: retransmit_window_breakdown where
  "default_breakdown =
     \<lparr>rb_transmissions_total = None, rb_retransmits_total = None,
      rb_state_updates_total = None, rb_empty_acks_total = None\<rparr>"

record session_metrics =
  sm_srtt_ms :: "f64 option"
  sm_rttvar_ms :: "f64 option"
  sm_last_rtt_ms :: "f64 option"
  sm_last_heard_age_ms :: "u64 option"
  sm_remote_state_age_ms :: "u64 option"
  sm_packets_tx_total :: "u64 option"
  sm_packets_rx_total :: "u64 option"
  sm_retransmits_total :: "u64 option"
  sm_empty_acks_tx_total :: "u64 option"
  sm_state_updates_tx_total :: "u64 option"
  sm_state_updates_rx_total :: "u64 option"
  sm_duplicate_states_rx_total :: "u64 option"
  sm_out_of_order_states_rx_total :: "u64 option"
  sm_retransmit_pct_10s :: "f64 option"
  sm_retransmit_pct_60s :: "f64 option"
  sm_retransmit_window_10s_complete :: bool
  sm_retransmit_window_60s_complete :: bool
  sm_retransmit_window_10s_breakdown :: retransmit_window_breakdown
  sm_retransmit_window_60s_breakdown :: retransmit_window_breakdown

definition default_metrics :: session_metrics where
  "default_metrics =
     \<lparr>sm_srtt_ms = None, sm_rttvar_ms = None, sm_last_rtt_ms = None,
      sm_last_heard_age_ms = None, sm_remote_state_age_ms = None,
      sm_packets_tx_total = None, sm_packets_rx_total = None, sm_retransmits_total = None,
      sm_empty_acks_tx_total = None, sm_state_updates_tx_total = None,
      sm_state_updates_rx_total = None, sm_duplicate_states_rx_total = None,
      sm_out_of_order_states_rx_total = None, sm_retransmit_pct_10s = None,
      sm_retransmit_pct_60s = None, sm_retransmit_window_10s_complete = False,
      sm_retransmit_window_60s_complete = False,
      sm_retransmit_window_10s_breakdown = default_breakdown,
      sm_retransmit_window_60s_breakdown = default_breakdown\<rparr>"

record metric_point =
  mp_unix_ms :: i64
  mp_srtt_ms :: "f64 option"
  mp_retransmit_pct_10s :: "f64 option"
  mp_remote_state_age_ms :: "u64 option"
  mp_current_client_addr :: "rstr option"

record session_peer_info =
  current_client_addr :: "rstr option"
  last_client_addr :: "rstr option"
  previous_client_addr :: "rstr option"
  last_client_seen_at_unix_ms :: "i64 option"
  client_addr_changed_at_unix_ms :: "i64 option"

definition default_peer :: session_peer_info where
  "default_peer =
     \<lparr>current_client_addr = None, last_client_addr = None, previous_client_addr = None,
      last_client_seen_at_unix_ms = None, client_addr_changed_at_unix_ms = None\<rparr>"

record session_summary =
  ss_session_id :: rstr
  ss_display_session_id :: "rstr option"
  ss_pid :: i32
  ss_kind :: session_kind
  ss_health :: health_state
  ss_started_at_unix_ms :: i64
  ss_last_observed_unix_ms :: i64
  ss_counter_reset_unix_ms :: "i64 option"
  ss_bind_addr :: "rstr option"
  ss_udp_port :: "u16 option"
  ss_client_addr :: "rstr option"
  ss_peer :: session_peer_info
  ss_cmdline :: rstr
  ss_metrics :: session_metrics

record session_snapshot =
  sn_summary :: session_summary
  sn_total_history_points :: nat
  sn_truncated_history_points :: nat
  sn_history :: "metric_point list"

definition into_summary :: "session_snapshot \<Rightarrow> session_summary" where
  "into_summary s = sn_summary s"

definition with_history ::
    "session_summary \<Rightarrow> nat \<Rightarrow> nat \<Rightarrow> metric_point list \<Rightarrow> session_snapshot" where
  "with_history s points truncated history =
     \<lparr>sn_summary = s, sn_total_history_points = points,
      sn_truncated_history_points = truncated, sn_history = history\<rparr>"

record telemetry_event =
  ev_event :: telemetry_event_kind
  ev_display_session_id :: "rstr option"
  ev_pid :: i32
  ev_unix_ms :: i64
  ev_started_at_unix_ms :: "i64 option"
  ev_bind_addr :: "rstr option"
  ev_udp_port :: "u16 option"
  ev_client_addr :: "rstr option"
  ev_last_heard_age_ms :: "u64 option"
  ev_remote_state_age_ms :: "u64 option"
  ev_srtt_ms :: "f64 option"
  ev_rttvar_ms :: "f64 option"
  ev_last_rtt_ms :: "f64 option"
  ev_packets_tx_total :: "u64 option"
  ev_packets_rx_total :: "u64 option"
  ev_retransmits_total :: "u64 option"
  ev_empty_acks_tx_total :: "u64 option"
  ev_state_updates_tx_total :: "u64 option"
  ev_state_updates_rx_total :: "u64 option"
  ev_duplicate_states_rx_total :: "u64 option"
  ev_out_of_order_states_rx_total :: "u64 option"
  ev_cmdline :: "rstr option"
  ev_shutdown :: "bool option"

record history_sample =
  hs_observer :: "observer_info option"
  hs_recorded_at_unix_ms :: i64
  hs_session_id :: rstr
  hs_display_session_id :: "rstr option"
  hs_pid :: i32
  hs_kind :: session_kind
  hs_health :: health_state
  hs_started_at_unix_ms :: i64
  hs_counter_reset_unix_ms :: "i64 option"
  hs_bind_addr :: "rstr option"
  hs_udp_port :: "u16 option"
  hs_client_addr :: "rstr option"
  hs_current_client_addr :: "rstr option"
  hs_metrics :: session_metrics

section \<open>Health classification\<close>

definition opt_ge :: "f64 option \<Rightarrow> f64 \<Rightarrow> bool" where
  "opt_ge v t = (case v of None \<Rightarrow> False | Some x \<Rightarrow> f64_ge x t)"

definition opt_u64_ge :: "u64 option \<Rightarrow> u64 \<Rightarrow> bool" where
  "opt_u64_ge v t = (case v of None \<Rightarrow> False | Some x \<Rightarrow> t \<le> x)"

definition classify_health ::
    "session_kind \<Rightarrow> session_metrics \<Rightarrow> health_thresholds \<Rightarrow> health_state" where
  "classify_health kind m t =
     (if kind = LegacyKind then LegacyHealth
      else
        let rtt_critical = opt_ge (sm_srtt_ms m) (f64_of_u64 (critical_rtt_ms t));
            rtt_warn = opt_ge (sm_srtt_ms m) (f64_of_u64 (warn_rtt_ms t));
            retransmit_critical = opt_ge (sm_retransmit_pct_60s m) (critical_retransmit_pct t);
            retransmit_warn = (opt_ge (sm_retransmit_pct_10s m) (warn_retransmit_pct t)
                               \<or> opt_ge (sm_retransmit_pct_60s m) (warn_retransmit_pct t));
            silence_critical = opt_u64_ge (sm_last_heard_age_ms m) (critical_silence_ms t);
            silence_warn = opt_u64_ge (sm_last_heard_age_ms m) (warn_silence_ms t)
        in if rtt_critical \<or> retransmit_critical \<or> silence_critical then Critical
           else if rtt_warn \<or> retransmit_warn \<or> silence_warn then Degraded
           else Ok)"

text \<open>The operator's scale of an instrumented session: fine, degraded, critical.\<close>

fun health_rank :: "health_state \<Rightarrow> nat" where
  "health_rank Ok = 0"
| "health_rank LegacyHealth = 0"
| "health_rank Degraded = 1"
| "health_rank Critical = 2"

definition breaches_warning :: "session_metrics \<Rightarrow> health_thresholds \<Rightarrow> bool" where
  "breaches_warning m t \<longleftrightarrow>
     opt_ge (sm_srtt_ms m) (f64_of_u64 (warn_rtt_ms t))
     \<or> opt_ge (sm_retransmit_pct_10s m) (warn_retransmit_pct t)
     \<or> opt_ge (sm_retransmit_pct_60s m) (warn_retransmit_pct t)
     \<or> opt_u64_ge (sm_last_heard_age_ms m) (warn_silence_ms t)"

definition breaches_critical :: "session_metrics \<Rightarrow> health_thresholds \<Rightarrow> bool" where
  "breaches_critical m t \<longleftrightarrow>
     opt_ge (sm_srtt_ms m) (f64_of_u64 (critical_rtt_ms t))
     \<or> opt_ge (sm_retransmit_pct_60s m) (critical_retransmit_pct t)
     \<or> opt_u64_ge (sm_last_heard_age_ms m) (critical_silence_ms t)"

lemma classify_health_Legacy [simp]: "classify_health LegacyKind m t = LegacyHealth"
  by (simp add: classify_health_def)

lemma classify_health_Instrumented:
  "classify_health Instrumented m t =
     (if breaches_critical m t then Critical else if breaches_warning m t then Degraded else Ok)"
  by (simp add: classify_health_def breaches_critical_def breaches_warning_def)

lemma opt_ge_trans: "opt_ge v a \<Longrightarrow> f64_ge a b \<Longrightarrow> opt_ge v b"
  by (auto simp: opt_ge_def split: option.splits intro: f64_ge_trans)

lemma opt_u64_ge_trans: "opt_u64_ge v a \<Longrightarrow> b \<le> a \<Longrightarrow> opt_u64_ge v b"
  by (auto simp: opt_u64_ge_def split: option.splits)

text \<open>Under validated thresholds a critical breach is a warning breach.\<close>

lemma critical_imp_warning:
  assumes "thresholds_ok t" and "breaches_critical m t"
  shows "breaches_warning m t"
proof -
  have rtt: "f64_ge (f64_of_u64 (critical_rtt_ms t)) (f64_of_u64 (warn_rtt_ms t))"
    using assms(1) by (intro f64_of_u64_mono) (simp add: thresholds_ok_def)
  have pct: "f64_ge (critical_retransmit_pct t) (warn_retransmit_pct t)"
    using assms(1) by (auto simp: thresholds_ok_def f64_ge_def cmp_of_def)
  have silence: "warn_silence_ms t \<le> critical_silence_ms t"
    using assms(1) by (simp add: thresholds_ok_def)
  show ?thesis
    using assms(2) opt_ge_trans [OF _ rtt] opt_ge_trans [OF _ pct] opt_u64_ge_trans [OF _ silence]
    unfolding breaches_critical_def breaches_warning_def by blast
qed

lemma health_rank_silence_mono:
  assumes "sm_last_heard_age_ms m = Some a" and "a \<le> b" and "kind = Instrumented"
  shows "health_rank (classify_health kind m t)
    \<le> health_rank (classify_health kind (m\<lparr>sm_last_heard_age_ms := Some b\<rparr>) t)"
  using assms
  by (auto simp: classify_health_Instrumented breaches_critical_def breaches_warning_def opt_u64_ge_def)

end
