(* ===== verification/Windows.thy ===== *)
theory Windows
  imports Protocol
begin

text \<open>
  The per-session sample buffers of \<open>crates/moshwatchd/src/state.rs\<close>: counter
  samples, the two \<open>upsert\<close> functions, \<open>trim_history\<close> with its trait
  \<open>HasUnixMs\<close>, and the retransmit window computed from the buffer.  A
  \<open>VecDeque\<close> is a list whose head is the front.

  The trait is the locale \<open>timed_buffer\<close>: a type with a time stamp, an upsert
  and a trim.  Its lemmas speak about the list of time stamps alone, which is
  what lets the history buffer and the counter buffer of a session be shown to
  stay in step.
\<close>

section \<open>Buffers\<close>

record counter_sample =
  cs_unix_ms :: i64
  cs_state_updates_tx_total :: "u64 option"
  cs_retransmits_total :: "u64 option"
  cs_empty_acks_tx_total :: "u64 option"

definition upsert_history_point :: "metric_point list \<Rightarrow> metric_point \<Rightarrow> metric_point list" where
  "upsert_history_point history point =
     (if history \<noteq> [] \<and> mp_unix_ms (last history) = mp_unix_ms point
      then butlast history @ [point] else history @ [point])"

definition upsert_counter_sample :: "counter_sample list \<Rightarrow> counter_sample \<Rightarrow> counter_sample list" where
  "upsert_counter_sample history point =
     (if history \<noteq> [] \<and> cs_unix_ms (last history) = cs_unix_ms point
      then butlast history @ [point] else history @ [point])"

definition trim_history :: "('a \<Rightarrow> i64) \<Rightarrow> 'a list \<Rightarrow> u64 \<Rightarrow> 'a list" where
  "trim_history unix_ms history secs =
     (if history = [] then []
      else let cutoff_ms = wrap_i64 (unix_ms (last history) - wrap_i64 (u64_as_i64 secs * 1000))
           in dropWhile (\<lambda>value. unix_ms value < cutoff_ms) history)"

section \<open>The retransmit window\<close>

record retransmit_window =
  rw_pct :: "f64 option"
  rw_complete :: bool
  rw_breakdown :: retransmit_window_breakdown

definition unknown_window :: "bool \<Rightarrow> retransmit_window" where
  "unknown_window full =
     \<lparr>rw_pct = None, rw_complete = full, rw_breakdown = default_breakdown\<rparr>"

definition window_baseline :: "counter_sample list \<Rightarrow> i64 \<Rightarrow> counter_sample option" where
  "window_baseline history window_ms =
     find (\<lambda>s. wrap_i64 (cs_unix_ms (last history) - cs_unix_ms s) \<ge> window_ms) (rev history)"

definition opt_u64_or_0 :: "u64 option \<Rightarrow> u64" where
  "opt_u64_or_0 v = (case v of Some x \<Rightarrow> x | None \<Rightarrow> 0)"

definition window_from_deltas :: "u64 \<Rightarrow> u64 \<Rightarrow> u64 \<Rightarrow> retransmit_window" where
  "window_from_deltas updates_delta retransmit_delta empty_ack_delta =
     (let transmission_delta =
            u64_saturating_add (u64_saturating_add updates_delta retransmit_delta) empty_ack_delta;
          breakdown =
            \<lparr>rb_transmissions_total = Some transmission_delta,
             rb_retransmits_total = Some retransmit_delta,
             rb_state_updates_total = Some updates_delta,
             rb_empty_acks_total = Some empty_ack_delta\<rparr>
      in if transmission_delta = 0
         then \<lparr>rw_pct = None, rw_complete = True, rw_breakdown = breakdown\<rparr>
         else \<lparr>rw_pct = Some (f64_div (f64_mul (f64_of_u64 retransmit_delta) (F64_Fin 100))
                                   (f64_of_u64 transmission_delta)),
               rw_complete = True, rw_breakdown = breakdown\<rparr>)"

definition retransmit_pct :: "counter_sample list \<Rightarrow> i64 \<Rightarrow> retransmit_window" where
  "retransmit_pct history window_ms =
     (if history = [] then unknown_window False
      else let latest = last history in
      (case window_baseline history window_ms of
         None \<Rightarrow> unknown_window False
       | Some baseline \<Rightarrow>
      (case cs_state_updates_tx_total latest of
         None \<Rightarrow> unknown_window True
       | Some updates_latest \<Rightarrow>
      (case cs_state_updates_tx_total baseline of
         None \<Rightarrow> unknown_window True
       | Some updates_baseline \<Rightarrow>
      (case cs_retransmits_total latest of
         None \<Rightarrow> unknown_window True
       | Some retransmits_latest \<Rightarrow>
      (case cs_retransmits_total baseline of
         None \<Rightarrow> unknown_window True
       | Some retransmits_baseline \<Rightarrow>
           window_from_deltas
             (u64_saturating_sub updates_latest updates_baseline)
             (u64_saturating_sub retransmits_latest retransmits_baseline)
             (u64_saturating_sub (opt_u64_or_0 (cs_empty_acks_tx_total latest))
               (opt_u64_or_0 (cs_empty_acks_tx_total baseline)))))))))"

section \<open>Timed buffers\<close>

text \<open>The same operations on bare time stamps.\<close>

definition upsert_time :: "i64 list \<Rightarrow> i64 \<Rightarrow> i64 list" where
  "upsert_time ts t = (if ts \<noteq> [] \<and> last ts = t then ts else ts @ [t])"

definition trim_times :: "i64 list \<Rightarrow> u64 \<Rightarrow> i64 list" where
  "trim_times ts secs = trim_history (\<lambda>t. t) ts secs"

locale timed_buffer =
  fixes unix_ms :: "'a \<Rightarrow> i64"
    and upsert :: "'a list \<Rightarrow> 'a \<Rightarrow> 'a list"
    and trim_buffer :: "'a list \<Rightarrow> u64 \<Rightarrow> 'a list"
  assumes upsert_replaces_or_appends:
      "upsert h p = (if h \<noteq> [] \<and> unix_ms (last h) = unix_ms p then butlast h @ [p] else h @ [p])"
    and trim_cuts_front: "trim_buffer h secs = trim_history unix_ms h secs"
begin

lemma times_upsert: "map unix_ms (upsert h p) = upsert_time (map unix_ms h) (unix_ms p)"
  by (cases h rule: rev_cases) (auto simp: upsert_replaces_or_appends upsert_time_def)

lemma upsert_not_Nil: "upsert h p \<noteq> []"
  by (simp add: upsert_replaces_or_appends)

lemma last_upsert: "last (upsert h p) = p"
  by (simp add: upsert_replaces_or_appends)

lemma set_upsert: "set (upsert h p) \<subseteq> insert p (set h)"
  by (auto simp: upsert_replaces_or_appends dest: in_set_butlastD)

lemma times_trim: "map unix_ms (trim_buffer h secs) = trim_times (map unix_ms h) secs"
  by (simp add: trim_cuts_front trim_times_def trim_history_def last_map dropWhile_map comp_def Let_def)

lemma set_trim_buffer: "set (trim_buffer h secs) \<subseteq> set h"
  by (auto simp: trim_cuts_front trim_history_def Let_def dest: set_dropWhileD)

lemma trim_suffix: "\<exists>pre. h = pre @ trim_buffer h secs"
  unfolding trim_cuts_front trim_history_def Let_def
  by (cases "h = []") (simp_all, metis takeWhile_dropWhile_id)

end

interpretation metric_points: timed_buffer mp_unix_ms upsert_history_point "trim_history mp_unix_ms"
  by unfold_locales (simp_all add: upsert_history_point_def)

interpretation counter_samples: timed_buffer cs_unix_ms upsert_counter_sample "trim_history cs_unix_ms"
  by unfold_locales (simp_all add: upsert_counter_sample_def)

lemma sorted_upsert_time:
  assumes "sorted_wrt (<) ts" and "ts = [] \<or> last ts \<le> t"
  shows "sorted_wrt (<) (upsert_time ts t)"
proof (cases ts rule: rev_cases)
  case (snoc pre x)
  with assms show ?thesis
    by (auto simp: upsert_time_def sorted_wrt_append order.strict_trans2)
qed (simp add: upsert_time_def)

lemma sorted_trim_times: "sorted_wrt (<) ts \<Longrightarrow> sorted_wrt (<) (trim_times ts secs)"
proof -
  assume s: "sorted_wrt (<) ts"
  have "sorted_wrt (<) (dropWhile P ts)" for P
    using s by (metis sorted_wrt_append takeWhile_dropWhile_id)
  then show ?thesis by (simp add: trim_times_def trim_history_def Let_def)
qed

lemma last_upsert_time [simp]: "last (upsert_time ts t) = t"
  by (simp add: upsert_time_def)

lemma upsert_time_not_Nil [simp]: "upsert_time ts t \<noteq> []"
  by (simp add: upsert_time_def)

lemma last_trim_times: "trim_times ts secs \<noteq> [] \<Longrightarrow> last (trim_times ts secs) = last ts"
  by (auto simp: trim_times_def trim_history_def Let_def last_drop dropWhile_eq_drop split: if_splits)

text \<open>
  Where the cut-off does not overflow, the newest sample survives trimming and
  every kept sample lies within the retention window.
\<close>

definition cutoff_in_range :: "i64 \<Rightarrow> u64 \<Rightarrow> bool" where
  "cutoff_in_range t secs \<longleftrightarrow> unat secs \<le> 86400 \<and> in_i64 t \<and> i64_min + 86400000 \<le> t"

lemma trim_cutoff:
  assumes "cutoff_in_range t secs"
  shows "wrap_i64 (t - wrap_i64 (u64_as_i64 secs * 1000)) = t - int (unat secs) * 1000"
proof -
  have s: "u64_as_i64 secs = int (unat secs)"
    using assms by (intro u64_as_i64_small) (simp add: cutoff_in_range_def)
  have b: "int (unat secs) \<le> 86400" "0 \<le> int (unat secs)"
    using assms by (auto simp: cutoff_in_range_def simp del: of_nat_unat)
  then have "in_i64 (int (unat secs) * 1000)"
    unfolding in_i64_def i64_min_def i64_max_def by linarith
  moreover have "in_i64 (t - int (unat secs) * 1000)"
    using assms b unfolding cutoff_in_range_def in_i64_def i64_min_def i64_max_def by linarith
  ultimately show ?thesis by (simp only: s wrap_i64_id)
qed

lemma trim_times_window:
  assumes "ts \<noteq> []" and "cutoff_in_range (last ts) secs"
  shows "trim_times ts secs \<noteq> []"
    and "sorted_wrt (<) ts \<Longrightarrow> t \<in> set (trim_times ts secs) \<Longrightarrow>
      last ts - int (unat secs) * 1000 \<le> t \<and> t \<le> last ts"
proof -
  let ?c = "last ts - int (unat secs) * 1000"
  have eq: "trim_times ts secs = dropWhile (\<lambda>v. v < ?c) ts"
    using assms trim_cutoff [OF assms(2)] by (simp add: trim_times_def trim_history_def Let_def del: of_nat_unat)
  have "\<not> last ts < ?c" by simp
  with assms(1) show ne: "trim_times ts secs \<noteq> []"
    unfolding eq dropWhile_eq_Nil_conv using last_in_set by blast
  assume s: "sorted_wrt (<) ts" and t: "t \<in> set (trim_times ts secs)"
  from sorted_trim_times [OF s, of secs] have "sorted_wrt (<) (trim_times ts secs)" .
  moreover obtain x xs where xs: "trim_times ts secs = x # xs" using ne by (cases "trim_times ts secs") auto
  moreover have "\<not> hd (trim_times ts secs) < ?c"
    using ne hd_dropWhile [of "\<lambda>v. v < ?c" ts] unfolding eq by blast
  ultimately have "?c \<le> t" using t by (auto simp del: of_nat_unat)
  moreover have "t \<in> set ts" using t unfolding eq by (rule set_dropWhileD)
  then have "t \<le> last ts" using s by (cases ts rule: rev_cases) (auto simp: sorted_wrt_append)
  ultimately show "?c \<le> t \<and> t \<le> last ts" by simp
qed

end
