(* ===== verification/Sanitize.thy ===== *)
theory Sanitize
  imports Protocol
begin

text \<open>
  The text sanitizers of \<open>crates/moshwatchd/src/sanitize.rs\<close>.  \<open>sanitize_chars\<close>
  is the character loop, with the loop variables \<open>emitted\<close>, \<open>truncated\<close> and
  \<open>previous_was_whitespace\<close> as arguments and results; \<open>sanitize_text\<close> trims,
  rejects blank text and puts an ellipsis on text that was cut.
\<close>

section \<open>The sanitizers\<close>

definition replacement_char :: "uchar \<Rightarrow> uchar" where
  "replacement_char ch =
     (if is_control ch then (if is_whitespace ch then 32 else 63) else ch)"

fun sanitize_chars :: "nat \<Rightarrow> nat \<Rightarrow> bool \<Rightarrow> rstr \<Rightarrow> rstr \<times> bool" where
  "sanitize_chars max_chars emitted prev_ws [] = ([], False)"
| "sanitize_chars max_chars emitted prev_ws (ch # rest) =
     (let r = replacement_char ch
      in if is_whitespace r \<and> prev_ws then sanitize_chars max_chars emitted prev_ws rest
         else let ws = is_whitespace r; r' = (if ws then 32 else r)
              in if emitted \<ge> max_chars then ([], True)
                 else (let (out, truncated) = sanitize_chars max_chars (Suc emitted) ws rest
                       in (r' # out, truncated)))"

definition ELLIPSIS :: rstr where "ELLIPSIS = lit ''...''"

definition sanitize_text :: "rstr \<Rightarrow> nat \<Rightarrow> rstr option" where
  "sanitize_text value max_chars =
     (let (raw, truncated) = sanitize_chars max_chars 0 False value;
          sanitized = trim raw
      in if sanitized = [] then None
         else if truncated \<and> max_chars > length ELLIPSIS
           then Some (take (max_chars - length ELLIPSIS) sanitized @ ELLIPSIS)
         else Some sanitized)"

definition sanitize_optional_text :: "rstr option \<Rightarrow> nat \<Rightarrow> rstr option" where
  "sanitize_optional_text value max_chars = Option.bind value (\<lambda>v. sanitize_text v max_chars)"

definition sanitize_display_session_id :: "rstr option \<Rightarrow> rstr option" where
  "sanitize_display_session_id value = sanitize_optional_text value 128"

definition sanitize_endpoint :: "rstr option \<Rightarrow> rstr option" where
  "sanitize_endpoint value = sanitize_optional_text value 128"

definition sanitize_cmdline :: "rstr \<Rightarrow> rstr" where
  "sanitize_cmdline value =
     (case sanitize_text value 1024 of Some s \<Rightarrow> s | None \<Rightarrow> lit ''unknown'')"

definition sanitize_observer_info :: "observer_info \<Rightarrow> observer_info option" where
  "sanitize_observer_info observer =
     Option.bind (sanitize_text (node_name observer) 255)
       (\<lambda>n. Option.bind (sanitize_text (system_id observer) 255)
         (\<lambda>s. Some \<lparr>node_name = n, system_id = s\<rparr>))"

text \<open>\<open>Option::filter\<close>.\<close>

definition opt_filter :: "('a \<Rightarrow> bool) \<Rightarrow> 'a option \<Rightarrow> 'a option" where
  "opt_filter p v = (case v of Some x \<Rightarrow> if p x then Some x else None | None \<Rightarrow> None)"

definition sanitize_nonnegative_metric :: "f64 option \<Rightarrow> f64 option" where
  "sanitize_nonnegative_metric v = opt_filter (\<lambda>x. f64_is_finite x \<and> f64_ge x (F64_Fin 0)) v"

definition sanitize_percentage :: "f64 option \<Rightarrow> f64 option" where
  "sanitize_percentage v =
     opt_filter (\<lambda>x. f64_is_finite x \<and> f64_ge x (F64_Fin 0) \<and> f64_le x (F64_Fin 100)) v"

definition text_is_exact_and_bounded :: "rstr \<Rightarrow> nat \<Rightarrow> bool" where
  "text_is_exact_and_bounded value max_chars \<longleftrightarrow> sanitize_text value max_chars = Some value"

definition sanitize_history_sample :: "history_sample \<Rightarrow> history_sample option" where
  "sanitize_history_sample sample =
     (if hs_kind sample \<noteq> Instrumented then None
      else if hs_pid sample \<le> 0 then None
      else if \<not> text_is_exact_and_bounded (hs_session_id sample) 128 then None
      else let m = hs_metrics sample in
        Some (sample\<lparr>hs_display_session_id := sanitize_display_session_id (hs_display_session_id sample),
               hs_bind_addr := sanitize_endpoint (hs_bind_addr sample),
               hs_client_addr := sanitize_endpoint (hs_client_addr sample),
               hs_current_client_addr := sanitize_endpoint (hs_current_client_addr sample),
               hs_observer := Option.bind (hs_observer sample) sanitize_observer_info,
               hs_metrics := m\<lparr>sm_srtt_ms := sanitize_nonnegative_metric (sm_srtt_ms m),
                               sm_rttvar_ms := sanitize_nonnegative_metric (sm_rttvar_ms m),
                               sm_last_rtt_ms := sanitize_nonnegative_metric (sm_last_rtt_ms m),
                               sm_retransmit_pct_10s := sanitize_percentage (sm_retransmit_pct_10s m),
                               sm_retransmit_pct_60s := sanitize_percentage (sm_retransmit_pct_60s m)\<rparr>\<rparr>))"

section \<open>Clean text\<close>

text \<open>
  What the sanitizers produce: no control characters, no white space other than
  single blanks, none at either end.
\<close>

definition clean_char :: "uchar \<Rightarrow> bool" where
  "clean_char c \<longleftrightarrow> \<not> is_control c \<and> (is_whitespace c \<longrightarrow> c = 32)"

fun no_double_blank :: "rstr \<Rightarrow> bool" where
  "no_double_blank (a # b # rest) = (\<not> (a = 32 \<and> b = 32) \<and> no_double_blank (b # rest))"
| "no_double_blank _ = True"

definition clean_text :: "rstr \<Rightarrow> bool" where
  "clean_text s \<longleftrightarrow> s \<noteq> [] \<and> list_all clean_char s \<and> no_double_blank s \<and> hd s \<noteq> 32 \<and> last s \<noteq> 32"

lemma is_whitespace_32 [simp]: "is_whitespace 32"
  by (simp add: is_whitespace_def)

lemma clean_char_32 [simp]: "clean_char 32"
  by (simp add: clean_char_def is_control_def)

lemma question_mark [simp]: "\<not> is_control 63" "\<not> is_whitespace 63"
  by (simp_all add: is_control_def is_whitespace_def)

lemma replacement_char_clean: "\<not> is_whitespace (replacement_char c) \<Longrightarrow> clean_char (replacement_char c)"
  by (cases "is_control c"; cases "is_whitespace c")
    (simp_all add: replacement_char_def clean_char_def)

lemma replacement_char_id: "clean_char c \<Longrightarrow> replacement_char c = c"
  by (simp add: replacement_char_def clean_char_def)

text \<open>The loop emits clean characters, collapses blanks and respects the bound.\<close>

lemma sanitize_chars_clean:
  "list_all clean_char (fst (sanitize_chars n e p s))
   \<and> no_double_blank ((if p then [32] else []) @ fst (sanitize_chars n e p s))
   \<and> (e \<le> n \<longrightarrow> e + length (fst (sanitize_chars n e p s)) \<le> n)"
proof (induction n e p s rule: sanitize_chars.induct)
  case (2 n e p ch rest)
  let ?r = "replacement_char ch"
  show ?case
  proof (cases "is_whitespace ?r \<and> p")
    case True
    then show ?thesis using 2(1) [OF refl] by simp
  next
    case False
    note IH = 2(2) [OF refl False refl refl]
    show ?thesis
    proof (cases "n \<le> e")
      case True
      with False show ?thesis by (auto simp: Let_def)
    next
      case le: False
      obtain out t where rec: "sanitize_chars n (Suc e) (is_whitespace ?r) rest = (out, t)"
        by (cases "sanitize_chars n (Suc e) (is_whitespace ?r) rest")
      show ?thesis
        using IH [OF le] False le rec replacement_char_clean [of ch]
        by (cases out) (auto simp: Let_def split: if_splits)
    qed
  qed
qed simp

lemma no_double_blank_Cons: "no_double_blank (a # s) \<Longrightarrow> no_double_blank s"
  by (cases s) auto

lemma no_double_blank_appendD: "no_double_blank (a @ b) \<Longrightarrow> no_double_blank a \<and> no_double_blank b"
  by (induction a rule: no_double_blank.induct) (auto dest: no_double_blank_Cons)

lemma no_double_blank_append:
  "no_double_blank a \<Longrightarrow> no_double_blank b \<Longrightarrow> (a = [] \<or> b = [] \<or> hd b \<noteq> 32) \<Longrightarrow> no_double_blank (a @ b)"
  by (induction a rule: no_double_blank.induct) (cases b; auto)+

lemma trim_factor: "\<exists>l r. s = l @ trim s @ r"
proof -
  have "s = takeWhile is_whitespace s @ trim_start s" by (simp add: trim_start_def)
  moreover have "t = trim_end t @ rev (takeWhile is_whitespace (rev t))" for t
    unfolding trim_end_def by (metis rev_append rev_rev_ident takeWhile_dropWhile_id)
  ultimately show ?thesis unfolding trim_def by metis
qed

lemma trim_ends:
  assumes "trim s \<noteq> []"
  shows "\<not> is_whitespace (hd (trim s))" and "\<not> is_whitespace (last (trim s))"
proof -
  let ?t = "trim_start s"
  have ne: "trim_end ?t \<noteq> []" using assms by (simp add: trim_def)
  have "dropWhile is_whitespace (rev ?t) \<noteq> []" using ne by (simp add: trim_end_def)
  then show "\<not> is_whitespace (last (trim s))"
    unfolding trim_def trim_end_def last_rev by (rule hd_dropWhile)
  have "?t = trim_end ?t @ rev (takeWhile is_whitespace (rev ?t))"
    unfolding trim_end_def by (metis rev_append rev_rev_ident takeWhile_dropWhile_id)
  then have "hd (trim_end ?t) = hd ?t" using ne hd_append2 by metis
  moreover have "?t \<noteq> []" using ne by (auto simp: trim_end_def)
  ultimately show "\<not> is_whitespace (hd (trim s))"
    using trim_start_hd [of s] by (simp add: trim_def)
qed

lemma trim_clean:
  assumes "list_all clean_char s" and "no_double_blank s" and "trim s \<noteq> []"
  shows "clean_text (trim s)"
proof -
  obtain l r where s: "s = l @ trim s @ r" using trim_factor by blast
  have "list_all clean_char (trim s)" using assms(1) by (subst (asm) s) simp
  moreover have "no_double_blank (trim s)"
    using assms(2) by (subst (asm) s) (blast dest: no_double_blank_appendD)
  moreover have "hd (trim s) \<noteq> 32" "last (trim s) \<noteq> 32"
    using trim_ends [OF assms(3)] by auto
  ultimately show ?thesis using assms(3) by (simp add: clean_text_def)
qed

lemma clean_text_take_ellipsis:
  assumes "clean_text s" and "0 < k"
  shows "clean_text (take k s @ ELLIPSIS)"
proof -
  have dots: "ELLIPSIS = [46, 46, 46]" by (simp add: ELLIPSIS_def lit_def)
  have "take k s \<noteq> []" using assms by (auto simp: clean_text_def)
  moreover have "list_all clean_char (take k s)"
    using assms(1) by (auto simp: clean_text_def list_all_iff dest: in_set_takeD)
  moreover have "no_double_blank (take k s)"
    using assms(1) no_double_blank_appendD [of "take k s" "drop k s"] by (simp add: clean_text_def)
  moreover have "hd (take k s) = hd s" using assms(2) by simp
  moreover have "clean_char 46" by (simp add: clean_char_def is_control_def is_whitespace_def)
  ultimately show ?thesis
    using assms(1) unfolding clean_text_def dots by (auto intro!: no_double_blank_append)
qed

lemma sanitize_text_clean_and_bounded:
  assumes "sanitize_text v n = Some s"
  shows "clean_text s \<and> length s \<le> n"
proof -
  obtain raw t where raw: "sanitize_chars n 0 False v = (raw, t)" by (cases "sanitize_chars n 0 False v")
  have facts: "list_all clean_char raw" "no_double_blank raw" "length raw \<le> n"
    using sanitize_chars_clean [of n 0 False v] raw by auto
  from assms raw have ne: "trim raw \<noteq> []" by (auto simp: sanitize_text_def split: if_splits)
  with facts have clean: "clean_text (trim raw)" by (intro trim_clean)
  have len: "length (trim raw) \<le> n" using facts(3) length_trim [of raw] by simp
  have e3: "length ELLIPSIS = 3" by (simp add: ELLIPSIS_def lit_def)
  show ?thesis
  proof (cases "t \<and> n > 3")
    case True
    with assms raw ne have "s = take (n - 3) (trim raw) @ ELLIPSIS"
      by (simp add: sanitize_text_def e3)
    with clean True show ?thesis
      by (auto simp: e3 intro!: clean_text_take_ellipsis)
  next
    case False
    with assms raw ne have "s = trim raw"
      by (auto simp: sanitize_text_def e3 split: if_splits)
    with clean len show ?thesis by simp
  qed
qed

lemma sanitize_chars_id:
  assumes "list_all clean_char s" and "no_double_blank ((if p then [32] else []) @ s)"
    and "e + length s \<le> n"
  shows "sanitize_chars n e p s = (s, False)"
  using assms
proof (induction s arbitrary: e p)
  case (Cons c s)
  have "is_whitespace c \<longleftrightarrow> c = 32" using Cons.prems(1) by (auto simp: clean_char_def)
  moreover have "replacement_char c = c" using Cons.prems(1) by (simp add: replacement_char_id)
  moreover have "sanitize_chars n (Suc e) (c = 32) s = (s, False)"
    using Cons.prems by (intro Cons.IH) (auto split: if_splits dest: no_double_blank_Cons)
  ultimately show ?case using Cons.prems by (auto split: if_splits)
qed simp

text \<open>Clean text within the bound is a fixed point; so sanitizing twice is sanitizing once.\<close>

lemma sanitize_text_id:
  assumes "clean_text s" and "length s \<le> n"
  shows "sanitize_text s n = Some s"
proof -
  have ends: "\<not> is_whitespace (hd s)" "\<not> is_whitespace (last s)" "s \<noteq> []"
    using assms(1) hd_in_set [of s] last_in_set [of s]
    by (auto simp: clean_text_def list_all_iff clean_char_def)
  then have "trim s = s" by (simp add: trim_id)
  with assms ends show ?thesis
    by (simp add: sanitize_text_def sanitize_chars_id clean_text_def)
qed

lemma text_is_exact_iff: "text_is_exact_and_bounded s n \<longleftrightarrow> clean_text s \<and> length s \<le> n"
  unfolding text_is_exact_and_bounded_def
  using sanitize_text_id sanitize_text_clean_and_bounded by blast

lemma sanitize_text_idem: "sanitize_text v n = Some s \<Longrightarrow> sanitize_text s n = Some s"
  using sanitize_text_clean_and_bounded sanitize_text_id by blast

lemma sanitize_optional_text_idem:
  "sanitize_optional_text (sanitize_optional_text v n) n = sanitize_optional_text v n"
  by (cases v; cases "sanitize_text (the v) n")
    (auto simp: sanitize_optional_text_def dest: sanitize_text_idem)

lemma sanitize_optional_text_clean:
  "sanitize_optional_text v n = Some s \<Longrightarrow> clean_text s \<and> length s \<le> n"
  by (cases v) (auto simp: sanitize_optional_text_def dest: sanitize_text_clean_and_bounded)

lemma clean_unknown: "clean_text (lit ''unknown'')"
  by (simp add: clean_text_def lit_def clean_char_def is_control_def is_whitespace_def)

lemma sanitize_cmdline_clean: "clean_text (sanitize_cmdline s) \<and> length (sanitize_cmdline s) \<le> 1024"
  using sanitize_text_clean_and_bounded [of s 1024]
  by (cases "sanitize_text s 1024")
    (auto simp: sanitize_cmdline_def clean_unknown)

lemma opt_filter_idem [simp]: "opt_filter p (opt_filter p v) = opt_filter p v"
  by (cases v) (auto simp: opt_filter_def)

lemma sanitize_observer_info_idem:
  "sanitize_observer_info o1 = Some o2 \<Longrightarrow> sanitize_observer_info o2 = Some o2"
  by (auto simp: sanitize_observer_info_def Option.bind_eq_Some_conv dest: sanitize_text_idem)

section \<open>Persisted samples\<close>

lemma sanitize_history_sample_identity:
  assumes "sanitize_history_sample s = Some t"
  shows "hs_session_id t = hs_session_id s" and "hs_pid t = hs_pid s" and "hs_kind t = Instrumented"
    and "hs_recorded_at_unix_ms t = hs_recorded_at_unix_ms s"
    and "hs_started_at_unix_ms t = hs_started_at_unix_ms s"
    and "0 < hs_pid t" and "clean_text (hs_session_id t)" and "length (hs_session_id t) \<le> 128"
  using assms
  by (auto simp: sanitize_history_sample_def Let_def text_is_exact_iff split: if_splits)

lemma sanitize_history_sample_idem:
  assumes "sanitize_history_sample s = Some t"
  shows "sanitize_history_sample t = Some t"
proof -
  note ids = sanitize_history_sample_identity [OF assms]
  have obs: "Option.bind (hs_observer t) sanitize_observer_info = hs_observer t"
    using assms
    by (cases "hs_observer s"; cases "sanitize_observer_info (the (hs_observer s))")
      (auto simp: sanitize_history_sample_def Let_def dest: sanitize_observer_info_idem split: if_splits)
  from assms ids obs show ?thesis
    by (auto simp: sanitize_history_sample_def Let_def text_is_exact_iff
        sanitize_display_session_id_def sanitize_endpoint_def sanitize_optional_text_idem
        sanitize_nonnegative_metric_def sanitize_percentage_def split: if_splits)
qed

end
