(* ===== verification/Registry.thy ===== *)
theory Registry
  imports Windows Sanitize
begin

text \<open>
  The in-memory session registry of \<open>crates/moshwatchd/src/state.rs\<close>:
  \<open>ServiceState\<close> with its two writers, \<open>apply_telemetry\<close> and
  \<open>refresh_discovery\<close>, the admission and eviction policy, and its readers
  \<open>summaries\<close>, \<open>export_summaries\<close>, \<open>session_detail\<close> and \<open>session_summary\<close>.

  The \<open>HashMap\<close> of sessions is an association list with distinct keys.  Its list
  order stands for the iteration order of the hash map, which Rust leaves open;
  theory \<open>Registry_Facts\<close> shows that no result depends on it.  The borrowed
  \<open>entry\<close> that \<open>apply_telemetry_at\<close> updates in place is a record that is
  computed step by step and stored back.
\<close>

section \<open>State\<close>

record session_record =
  sr_summary :: session_summary
  sr_history :: "metric_point list"
  sr_counters :: "counter_sample list"
  sr_shutdown :: bool

type_synonym sessions_map = "(rstr \<times> session_record) list"

record service_state =
  st_config :: app_config
  st_sessions :: sessions_map
  st_dropped_sessions_total :: u64

record session_health_count =
  hc_kind :: session_kind
  hc_health :: health_state
  hc_sessions :: nat

record exported_summaries =
  ex_sessions :: "session_summary list"
  ex_total_sessions :: nat
  ex_truncated_session_count :: nat
  ex_instrumented_sessions :: nat
  ex_legacy_sessions :: nat
  ex_health_counts :: "session_health_count list"
  ex_dropped_sessions_total :: u64

text \<open>What \<open>/proc\<close> discovery hands over (\<open>discovery.rs\<close>).\<close>

record discovered_session =
  ds_pid :: i32
  ds_started_at_unix_ms :: i64
  ds_bind_addr :: "rstr option"
  ds_udp_port :: "u16 option"
  ds_cmdline :: rstr

definition new_state :: "app_config \<Rightarrow> service_state" where
  "new_state config = \<lparr>st_config = config, st_sessions = [], st_dropped_sessions_total = 0\<rparr>"

section \<open>Session identities\<close>

definition instrumented_session_id :: "i32 \<Rightarrow> i64 \<Rightarrow> rstr" where
  "instrumented_session_id pid started =
     lit ''instrumented:'' @ show_int started @ [58] @ show_int pid"

definition legacy_session_id :: "i32 \<Rightarrow> i64 \<Rightarrow> rstr" where
  "legacy_session_id pid started =
     lit ''legacy:'' @ show_int started @ [58] @ show_int pid"

section \<open>Eviction order\<close>

definition eviction_class :: "session_record \<Rightarrow> nat" where
  "eviction_class r =
     (case ss_kind (sr_summary r) of
        LegacyKind \<Rightarrow> 0
      | Instrumented \<Rightarrow> if sr_shutdown r then 1 else 2)"

definition compare_eviction_priority :: "session_record \<Rightarrow> session_record \<Rightarrow> ordering" where
  "compare_eviction_priority l r =
     then_with (cmp_of (eviction_class l) (eviction_class r))
      (then_with (cmp_of (ss_last_observed_unix_ms (sr_summary l)) (ss_last_observed_unix_ms (sr_summary r)))
       (then_with (cmp_of (ss_started_at_unix_ms (sr_summary l)) (ss_started_at_unix_ms (sr_summary r)))
         (cmp_of (ss_session_id (sr_summary l)) (ss_session_id (sr_summary r)))))"

definition compare_entries :: "rstr \<times> session_record \<Rightarrow> rstr \<times> session_record \<Rightarrow> ordering" where
  "compare_entries l r = compare_eviction_priority (snd l) (snd r)"

text \<open>The \<open>while\<close> loop of \<open>enforce_session_cap\<close> over the map and the drop counter.\<close>

lemma length_delete_less: "(k, v) \<in> set m \<Longrightarrow> length (AList.delete k m) < length m"
  unfolding AList.delete_eq by (rule length_filter_less [of "(k, v)"]) auto

function enforce_loop :: "nat \<Rightarrow> sessions_map \<Rightarrow> u64 \<Rightarrow> sessions_map \<times> u64" where
  "enforce_loop cap m dropped =
     (if cap < length m then
        (case min_by compare_entries m of
           None \<Rightarrow> (m, dropped)
         | Some (k, _) \<Rightarrow> enforce_loop cap (AList.delete k m) (u64_saturating_add dropped 1))
      else (m, dropped))"
  by pat_completeness auto
termination
  by (relation "measure (\<lambda>(cap, m, d). length m)") (auto dest!: min_by_in intro: length_delete_less)

declare enforce_loop.simps [simp del]

definition enforce_session_cap :: "service_state \<Rightarrow> service_state" where
  "enforce_session_cap st =
     (let (m, d) = enforce_loop (max_tracked_sessions (st_config st)) (st_sessions st)
                     (st_dropped_sessions_total st)
      in st\<lparr>st_sessions := m, st_dropped_sessions_total := d\<rparr>)"

text \<open>\<open>reject_new_active_instrumented_session\<close>: the verdict and the state with the drop counted.\<close>

definition reject_new_active_instrumented_session :: "service_state \<Rightarrow> bool \<Rightarrow> bool \<times> service_state" where
  "reject_new_active_instrumented_session st shutdown =
     (if shutdown \<or> length (st_sessions st) < max_tracked_sessions (st_config st) then (False, st)
      else (case min_by compare_entries (st_sessions st) of
              None \<Rightarrow> (False, st)
            | Some (_, worst) \<Rightarrow>
                (if eviction_class worst = 2
                 then (True, st\<lparr>st_dropped_sessions_total :=
                               u64_saturating_add (st_dropped_sessions_total st) 1\<rparr>)
                 else (False, st))))"

section \<open>Applying telemetry\<close>

definition opt_or :: "'a option \<Rightarrow> 'a option \<Rightarrow> 'a option" where
  "opt_or a b = (case a of Some _ \<Rightarrow> a | None \<Rightarrow> b)"

definition unwrap_or :: "'a option \<Rightarrow> 'a \<Rightarrow> 'a" where
  "unwrap_or a d = (case a of Some x \<Rightarrow> x | None \<Rightarrow> d)"

definition contains_key :: "sessions_map \<Rightarrow> rstr \<Rightarrow> bool" where
  "contains_key m k \<longleftrightarrow> map_of m k \<noteq> None"

definition monotonic_counter_regressed :: "u64 option \<Rightarrow> u64 option \<Rightarrow> bool" where
  "monotonic_counter_regressed previous new =
     (case (previous, new) of (Some p, Some n) \<Rightarrow> n < p | _ \<Rightarrow> False)"

definition metrics_regressed :: "session_metrics \<Rightarrow> telemetry_event \<Rightarrow> bool" where
  "metrics_regressed m ev \<longleftrightarrow>
     monotonic_counter_regressed (sm_packets_tx_total m) (ev_packets_tx_total ev)
     \<or> monotonic_counter_regressed (sm_packets_rx_total m) (ev_packets_rx_total ev)
     \<or> monotonic_counter_regressed (sm_retransmits_total m) (ev_retransmits_total ev)
     \<or> monotonic_counter_regressed (sm_empty_acks_tx_total m) (ev_empty_acks_tx_total ev)
     \<or> monotonic_counter_regressed (sm_state_updates_tx_total m) (ev_state_updates_tx_total ev)
     \<or> monotonic_counter_regressed (sm_state_updates_rx_total m) (ev_state_updates_rx_total ev)
     \<or> monotonic_counter_regressed (sm_duplicate_states_rx_total m) (ev_duplicate_states_rx_total ev)
     \<or> monotonic_counter_regressed (sm_out_of_order_states_rx_total m) (ev_out_of_order_states_rx_total ev)"

definition normalize_event_unix_ms :: "session_summary \<Rightarrow> i64 \<Rightarrow> i64 \<Rightarrow> i64" where
  "normalize_event_unix_ms summary event_ms received_ms =
     (let event_ms = (if event_ms > received_ms then received_ms else event_ms)
      in if event_ms \<ge> ss_last_observed_unix_ms summary then event_ms
         else ss_last_observed_unix_ms summary)"

definition apply_client_peer :: "session_summary \<Rightarrow> rstr option \<Rightarrow> i64 \<Rightarrow> session_summary" where
  "apply_client_peer s client_addr observed_at =
     (let p = ss_peer s in
      (case client_addr of
         Some addr \<Rightarrow>
           (let changed = (last_client_addr p \<noteq> Some addr);
                p1 = (case (changed, last_client_addr p) of
                        (True, Some previous) \<Rightarrow>
                          p\<lparr>previous_client_addr := Some previous,
                            client_addr_changed_at_unix_ms := Some observed_at\<rparr>
                      | _ \<Rightarrow> p);
                p2 = p1\<lparr>current_client_addr := Some addr, last_client_addr := Some addr,
                        last_client_seen_at_unix_ms := Some observed_at\<rparr>
            in s\<lparr>ss_peer := p2, ss_client_addr := Some addr\<rparr>)
       | None \<Rightarrow>
           s\<lparr>ss_peer := p\<lparr>current_client_addr := None\<rparr>, ss_client_addr := last_client_addr p\<rparr>))"

text \<open>Lines 107-124: a discovered placeholder becomes the instrumented record, history included.\<close>

definition upgrade_legacy :: "sessions_map \<Rightarrow> rstr \<Rightarrow> rstr \<Rightarrow> sessions_map" where
  "upgrade_legacy m session_id legacy_id =
     (if session_id \<noteq> legacy_id \<and> \<not> contains_key m session_id then
        (case map_of m legacy_id of
           None \<Rightarrow> m
         | Some r \<Rightarrow>
             AList.update session_id
               (r\<lparr>sr_summary := (sr_summary r)\<lparr>ss_session_id := session_id, ss_kind := Instrumented\<rparr>\<rparr>)
               (AList.delete legacy_id m))
      else m)"

definition session_shutdown :: "telemetry_event \<Rightarrow> bool" where
  "session_shutdown ev \<longleftrightarrow> unwrap_or (ev_shutdown ev) False \<or> ev_event ev = SessionClose"

definition initial_observed_unix_ms :: "telemetry_event \<Rightarrow> i64 \<Rightarrow> i64" where
  "initial_observed_unix_ms ev received = min (ev_unix_ms ev) received"

definition event_started_at :: "telemetry_event \<Rightarrow> i64 \<Rightarrow> i64" where
  "event_started_at ev received = unwrap_or (ev_started_at_unix_ms ev) (initial_observed_unix_ms ev received)"

text \<open>Lines 136-158: the record that \<open>or_insert_with\<close> creates.\<close>

definition fresh_instrumented_record :: "rstr \<Rightarrow> telemetry_event \<Rightarrow> i64 \<Rightarrow> session_record" where
  "fresh_instrumented_record session_id ev received =
     \<lparr>sr_summary =
        \<lparr>ss_session_id = session_id,
         ss_display_session_id = sanitize_display_session_id (ev_display_session_id ev),
         ss_pid = ev_pid ev,
         ss_kind = Instrumented,
         ss_health = Ok,
         ss_started_at_unix_ms = event_started_at ev received,
         ss_last_observed_unix_ms = initial_observed_unix_ms ev received,
         ss_counter_reset_unix_ms = None,
         ss_bind_addr = sanitize_endpoint (ev_bind_addr ev),
         ss_udp_port = ev_udp_port ev,
         ss_client_addr = None,
         ss_peer = default_peer,
         ss_cmdline = unwrap_or (map_option sanitize_cmdline (ev_cmdline ev)) (lit ''mosh-server-real''),
         ss_metrics = default_metrics\<rparr>,
      sr_history = [], sr_counters = [], sr_shutdown = False\<rparr>"

text \<open>Lines 161-182: a counter or time regression resets the buffers.\<close>

definition reset_on_regression :: "session_record \<Rightarrow> telemetry_event \<Rightarrow> i64 \<Rightarrow> session_record" where
  "reset_on_regression r ev event_ms =
     (if metrics_regressed (ss_metrics (sr_summary r)) ev then
        r\<lparr>sr_summary := (sr_summary r)\<lparr>ss_counter_reset_unix_ms := Some event_ms\<rparr>,
          sr_history := [], sr_counters := []\<rparr>
      else if sr_history r \<noteq> [] \<and> event_ms < mp_unix_ms (last (sr_history r)) then
        r\<lparr>sr_history := [], sr_counters := []\<rparr>
      else r)"

text \<open>Lines 184-199: identity, endpoints, client and command line.\<close>

definition merge_identity ::
    "session_summary \<Rightarrow> rstr \<Rightarrow> telemetry_event \<Rightarrow> i64 \<Rightarrow> i64 \<Rightarrow> session_summary" where
  "merge_identity s session_id ev received event_ms =
     (let s1 = s\<lparr>ss_session_id := session_id, ss_pid := ev_pid ev, ss_kind := Instrumented,
                 ss_started_at_unix_ms := event_started_at ev received,
                 ss_last_observed_unix_ms := event_ms\<rparr>;
          s2 = (if ss_display_session_id s1 = None
                then s1\<lparr>ss_display_session_id := sanitize_display_session_id (ev_display_session_id ev)\<rparr>
                else s1);
          s3 = s2\<lparr>ss_bind_addr := opt_or (sanitize_endpoint (ev_bind_addr ev)) (ss_bind_addr s2),
                  ss_udp_port := opt_or (ev_udp_port ev) (ss_udp_port s2)\<rparr>;
          s4 = apply_client_peer s3 (sanitize_endpoint (ev_client_addr ev)) event_ms
      in (case map_option sanitize_cmdline (ev_cmdline ev) of
            Some cmdline \<Rightarrow> if trim cmdline \<noteq> [] then s4\<lparr>ss_cmdline := cmdline\<rparr> else s4
          | None \<Rightarrow> s4))"

text \<open>Lines 201-213: the reported metrics replace the recorded ones.\<close>

definition merge_metrics :: "session_metrics \<Rightarrow> telemetry_event \<Rightarrow> session_metrics" where
  "merge_metrics m ev =
     m\<lparr>sm_srtt_ms := ev_srtt_ms ev,
       sm_rttvar_ms := ev_rttvar_ms ev,
       sm_last_rtt_ms := ev_last_rtt_ms ev,
       sm_last_heard_age_ms := ev_last_heard_age_ms ev,
       sm_remote_state_age_ms := ev_remote_state_age_ms ev,
       sm_packets_tx_total := ev_packets_tx_total ev,
       sm_packets_rx_total := ev_packets_rx_total ev,
       sm_retransmits_total := ev_retransmits_total ev,
       sm_empty_acks_tx_total := ev_empty_acks_tx_total ev,
       sm_state_updates_tx_total := ev_state_updates_tx_total ev,
       sm_state_updates_rx_total := ev_state_updates_rx_total ev,
       sm_duplicate_states_rx_total := ev_duplicate_states_rx_total ev,
       sm_out_of_order_states_rx_total := ev_out_of_order_states_rx_total ev\<rparr>"

text \<open>Lines 215-247: the samples enter the buffers and the windows are recomputed.\<close>

definition event_point :: "telemetry_event \<Rightarrow> i64 \<Rightarrow> rstr option \<Rightarrow> metric_point" where
  "event_point ev event_ms client =
     \<lparr>mp_unix_ms = event_ms, mp_srtt_ms = ev_srtt_ms ev, mp_retransmit_pct_10s = None,
      mp_remote_state_age_ms = ev_remote_state_age_ms ev, mp_current_client_addr = client\<rparr>"

definition event_counters :: "telemetry_event \<Rightarrow> i64 \<Rightarrow> counter_sample" where
  "event_counters ev event_ms =
     \<lparr>cs_unix_ms = event_ms, cs_state_updates_tx_total = ev_state_updates_tx_total ev,
      cs_retransmits_total = ev_retransmits_total ev,
      cs_empty_acks_tx_total = ev_empty_acks_tx_total ev\<rparr>"

definition set_last_pct :: "metric_point list \<Rightarrow> f64 option \<Rightarrow> metric_point list" where
  "set_last_pct history pct =
     (if history = [] then []
      else butlast history @ [(last history)\<lparr>mp_retransmit_pct_10s := pct\<rparr>])"

definition set_windows :: "session_metrics \<Rightarrow> retransmit_window \<Rightarrow> retransmit_window \<Rightarrow> session_metrics" where
  "set_windows m w10 w60 =
     m\<lparr>sm_retransmit_pct_10s := rw_pct w10,
       sm_retransmit_pct_60s := rw_pct w60,
       sm_retransmit_window_10s_complete := rw_complete w10,
       sm_retransmit_window_60s_complete := rw_complete w60,
       sm_retransmit_window_10s_breakdown := rw_breakdown w10,
       sm_retransmit_window_60s_breakdown := rw_breakdown w60\<rparr>"

definition record_sample :: "session_record \<Rightarrow> telemetry_event \<Rightarrow> i64 \<Rightarrow> u64 \<Rightarrow> session_record" where
  "record_sample r ev event_ms secs =
     (let client = current_client_addr (ss_peer (sr_summary r));
          history = trim_history mp_unix_ms
                      (upsert_history_point (sr_history r) (event_point ev event_ms client)) secs;
          counters = trim_history cs_unix_ms
                      (upsert_counter_sample (sr_counters r) (event_counters ev event_ms)) secs;
          w10 = retransmit_pct counters 10000;
          w60 = retransmit_pct counters 60000;
          s = sr_summary r
      in r\<lparr>sr_history := set_last_pct history (rw_pct w10),
           sr_counters := counters,
           sr_summary := s\<lparr>ss_metrics := set_windows (ss_metrics s) w10 w60\<rparr>\<rparr>)"

text \<open>Lines 249-261: health and the shutdown flag.\<close>

definition finish_record :: "session_record \<Rightarrow> telemetry_event \<Rightarrow> health_thresholds \<Rightarrow> session_record" where
  "finish_record r ev t =
     (let s = sr_summary r;
          r1 = r\<lparr>sr_summary := s\<lparr>ss_health := classify_health (ss_kind s) (ss_metrics s) t\<rparr>\<rparr>;
          r2 = (if ev_event ev = SessionClose then r1\<lparr>sr_shutdown := True\<rparr> else r1)
      in (case ev_shutdown ev of
            Some shutdown \<Rightarrow> r2\<lparr>sr_shutdown := shutdown\<rparr>
          | None \<Rightarrow> r2\<lparr>sr_shutdown := session_shutdown ev\<rparr>))"

definition apply_event :: "app_config \<Rightarrow> rstr \<Rightarrow> telemetry_event \<Rightarrow> i64 \<Rightarrow> session_record \<Rightarrow> session_record" where
  "apply_event config session_id ev received r =
     (let event_ms = normalize_event_unix_ms (sr_summary r) (ev_unix_ms ev) received;
          r1 = reset_on_regression r ev event_ms;
          s1 = merge_identity (sr_summary r1) session_id ev received event_ms;
          r2 = r1\<lparr>sr_summary := s1\<lparr>ss_metrics := merge_metrics (ss_metrics s1) ev\<rparr>\<rparr>;
          r3 = record_sample r2 ev event_ms (history_secs config)
      in finish_record r3 ev (thresholds config))"

definition apply_telemetry_at :: "service_state \<Rightarrow> rstr \<Rightarrow> telemetry_event \<Rightarrow> i64 \<Rightarrow> service_state" where
  "apply_telemetry_at st session_id ev received =
     (let legacy_id = legacy_session_id (ev_pid ev) (event_started_at ev received);
          st1 = st\<lparr>st_sessions := upgrade_legacy (st_sessions st) session_id legacy_id\<rparr>;
          (rejected, st2) =
            (if contains_key (st_sessions st1) session_id then (False, st1)
             else reject_new_active_instrumented_session st1 (session_shutdown ev))
      in if rejected then st2
         else
           (let entry = (case map_of (st_sessions st2) session_id of
                           Some r \<Rightarrow> r
                         | None \<Rightarrow> fresh_instrumented_record session_id ev received);
                entry' = apply_event (st_config st2) session_id ev received entry
            in enforce_session_cap
                 (st2\<lparr>st_sessions := AList.update session_id entry' (st_sessions st2)\<rparr>)))"

text \<open>\<open>apply_telemetry\<close> reads the clock; the time is an argument here.\<close>

definition apply_telemetry :: "service_state \<Rightarrow> rstr \<Rightarrow> telemetry_event \<Rightarrow> i64 \<Rightarrow> service_state" where
  "apply_telemetry st session_id ev now = apply_telemetry_at st session_id ev now"

section \<open>Refreshing from discovery\<close>

definition fresh_legacy_record :: "rstr \<Rightarrow> discovered_session \<Rightarrow> i64 \<Rightarrow> session_record" where
  "fresh_legacy_record session_id d now =
     \<lparr>sr_summary =
        \<lparr>ss_session_id = session_id,
         ss_display_session_id = None,
         ss_pid = ds_pid d,
         ss_kind = LegacyKind,
         ss_health = LegacyHealth,
         ss_started_at_unix_ms = ds_started_at_unix_ms d,
         ss_last_observed_unix_ms = now,
         ss_counter_reset_unix_ms = None,
         ss_bind_addr = ds_bind_addr d,
         ss_udp_port = ds_udp_port d,
         ss_client_addr = None,
         ss_peer = default_peer,
         ss_cmdline = ds_cmdline d,
         ss_metrics = default_metrics\<rparr>,
      sr_history = [], sr_counters = [], sr_shutdown = False\<rparr>"

text \<open>Lines 306-320: what a sighting changes in the record.\<close>

definition merge_discovered ::
    "health_thresholds \<Rightarrow> discovered_session \<Rightarrow> i64 \<Rightarrow> session_record \<Rightarrow> session_record" where
  "merge_discovered t d now r =
     (let s = (sr_summary r)\<lparr>ss_pid := ds_pid d\<rparr>
      in if ss_kind s = LegacyKind then
           r\<lparr>sr_summary :=
               s\<lparr>ss_started_at_unix_ms := ds_started_at_unix_ms d,
                 ss_last_observed_unix_ms := now,
                 ss_bind_addr := opt_or (ds_bind_addr d) (ss_bind_addr s),
                 ss_udp_port := opt_or (ds_udp_port d) (ss_udp_port s),
                 ss_cmdline := ds_cmdline d,
                 ss_health := LegacyHealth\<rparr>\<rparr>
         else
           r\<lparr>sr_summary := s\<lparr>ss_health := classify_health (ss_kind s) (ss_metrics s) t\<rparr>\<rparr>)"

text \<open>The key under which a sighting is filed, and one turn of the loop over the sightings.\<close>

definition discovered_id :: "sessions_map \<Rightarrow> discovered_session \<Rightarrow> rstr" where
  "discovered_id m d =
     (let instrumented_id = instrumented_session_id (ds_pid d) (ds_started_at_unix_ms d);
          legacy_id = legacy_session_id (ds_pid d) (ds_started_at_unix_ms d)
      in if contains_key m instrumented_id then instrumented_id else legacy_id)"

fun note_discovered ::
    "health_thresholds \<Rightarrow> i64 \<Rightarrow> discovered_session \<Rightarrow> sessions_map \<times> rstr list \<Rightarrow> sessions_map \<times> rstr list" where
  "note_discovered t now d (m, seen) =
     (let session_id = discovered_id m d;
          entry = (case map_of m session_id of
                     Some r \<Rightarrow> r | None \<Rightarrow> fresh_legacy_record session_id d now)
      in (AList.update session_id (merge_discovered t d now entry) m, session_id # seen))"

text \<open>Lines 323-346: the retention rule for sessions that discovery did not see.\<close>

definition stale_cutoff_ms :: "app_config \<Rightarrow> i64" where
  "stale_cutoff_ms c = u64_as_i64 (max (cleanup_interval_ms c * 3) 30000)"

definition grace_ms :: "app_config \<Rightarrow> i64" where
  "grace_ms c = u64_as_i64 (max (discovery_interval_ms c) 5000)"

definition retained :: "app_config \<Rightarrow> rstr list \<Rightarrow> i64 \<Rightarrow> rstr \<times> session_record \<Rightarrow> bool" where
  "retained c seen now e =
     (let (session_id, entry) = e in
      if session_id \<in> set seen then True
      else let age_ms = wrap_i64 (now - ss_last_observed_unix_ms (sr_summary entry)) in
           if ss_kind (sr_summary entry) \<noteq> Instrumented then age_ms < grace_ms c
           else if sr_shutdown entry then age_ms < grace_ms c
           else age_ms < stale_cutoff_ms c)"

definition refresh_discovery :: "service_state \<Rightarrow> discovered_session list \<Rightarrow> i64 \<Rightarrow> service_state" where
  "refresh_discovery st discovered now =
     (let (m, seen) = fold (note_discovered (thresholds (st_config st)) now) discovered
                        (st_sessions st, [])
      in enforce_session_cap (st\<lparr>st_sessions := filter (retained (st_config st) seen now) m\<rparr>))"

section \<open>Readers\<close>

definition age_metrics :: "session_metrics \<Rightarrow> u64 \<Rightarrow> session_metrics" where
  "age_metrics m elapsed =
     m\<lparr>sm_last_heard_age_ms :=
          Some (u64_saturating_add (opt_u64_or_0 (sm_last_heard_age_ms m)) elapsed),
       sm_remote_state_age_ms :=
          Some (u64_saturating_add (opt_u64_or_0 (sm_remote_state_age_ms m)) elapsed)\<rparr>"

definition materialize_summary :: "app_config \<Rightarrow> session_record \<Rightarrow> i64 \<Rightarrow> session_summary" where
  "materialize_summary c r now =
     (let s = sr_summary r;
          s1 = (if ss_kind s = Instrumented \<and> now > ss_last_observed_unix_ms s then
                  s\<lparr>ss_metrics := age_metrics (ss_metrics s)
                                    (i64_as_u64 (wrap_i64 (now - ss_last_observed_unix_ms s)))\<rparr>
                else s)
      in s1\<lparr>ss_health := classify_health (ss_kind s1) (ss_metrics s1) (thresholds c)\<rparr>)"

definition severity :: "health_state \<Rightarrow> nat" where
  "severity h = (case h of Critical \<Rightarrow> 3 | Degraded \<Rightarrow> 2 | LegacyHealth \<Rightarrow> 1 | Ok \<Rightarrow> 0)"

definition compare_summaries :: "session_summary \<Rightarrow> session_summary \<Rightarrow> ordering" where
  "compare_summaries l r =
     then_with (cmp_of (severity (ss_health r)) (severity (ss_health l)))
      (then_with (cmp_opt_f64 (sm_srtt_ms (ss_metrics r)) (sm_srtt_ms (ss_metrics l)))
        (cmp_of (ss_session_id l) (ss_session_id r)))"

definition summaries :: "service_state \<Rightarrow> i64 \<Rightarrow> session_summary list" where
  "summaries st now =
     sort_by compare_summaries
       (map (\<lambda>r. materialize_summary (st_config st) r now) (map snd (st_sessions st)))"

definition initial_health_counts :: "session_health_count list" where
  "initial_health_counts =
     [\<lparr>hc_kind = Instrumented, hc_health = Ok, hc_sessions = 0\<rparr>,
      \<lparr>hc_kind = Instrumented, hc_health = Degraded, hc_sessions = 0\<rparr>,
      \<lparr>hc_kind = Instrumented, hc_health = Critical, hc_sessions = 0\<rparr>,
      \<lparr>hc_kind = Instrumented, hc_health = LegacyHealth, hc_sessions = 0\<rparr>,
      \<lparr>hc_kind = LegacyKind, hc_health = Ok, hc_sessions = 0\<rparr>,
      \<lparr>hc_kind = LegacyKind, hc_health = Degraded, hc_sessions = 0\<rparr>,
      \<lparr>hc_kind = LegacyKind, hc_health = Critical, hc_sessions = 0\<rparr>,
      \<lparr>hc_kind = LegacyKind, hc_health = LegacyHealth, hc_sessions = 0\<rparr>]"

text \<open>\<open>find\<close> with a mutable borrow: the first matching counter is incremented.\<close>

fun bump_health_count ::
    "session_kind \<Rightarrow> health_state \<Rightarrow> session_health_count list \<Rightarrow> session_health_count list" where
  "bump_health_count k h [] = []"
| "bump_health_count k h (c # cs) =
     (if hc_kind c = k \<and> hc_health c = h then c\<lparr>hc_sessions := Suc (hc_sessions c)\<rparr> # cs
      else c # bump_health_count k h cs)"

text \<open>The loop of \<open>export_summaries\<close>: counting, and a push, sort and pop per record.\<close>

record export_acc =
  ea_sessions :: "session_summary list"
  ea_instrumented :: nat
  ea_legacy :: nat
  ea_counts :: "session_health_count list"

definition export_step :: "nat \<Rightarrow> session_summary \<Rightarrow> export_acc \<Rightarrow> export_acc" where
  "export_step limit summary acc =
     (let acc1 = (case ss_kind summary of
                    Instrumented \<Rightarrow> acc\<lparr>ea_instrumented := Suc (ea_instrumented acc)\<rparr>
                  | LegacyKind \<Rightarrow> acc\<lparr>ea_legacy := Suc (ea_legacy acc)\<rparr>);
          acc2 = acc1\<lparr>ea_counts := bump_health_count (ss_kind summary) (ss_health summary) (ea_counts acc1)\<rparr>
      in if limit = 0 then acc2
         else let pushed = sort_by compare_summaries (ea_sessions acc2 @ [summary])
              in acc2\<lparr>ea_sessions := (if length pushed > limit then butlast pushed else pushed)\<rparr>)"

definition export_summaries :: "service_state \<Rightarrow> i64 \<Rightarrow> nat \<Rightarrow> exported_summaries" where
  "export_summaries st now limit =
     (let acc = fold (\<lambda>r. export_step limit (materialize_summary (st_config st) r now))
                  (map snd (st_sessions st))
                  \<lparr>ea_sessions = [], ea_instrumented = 0, ea_legacy = 0, ea_counts = initial_health_counts\<rparr>;
          all_sessions = ea_instrumented acc + ea_legacy acc
      in \<lparr>ex_sessions = ea_sessions acc,
          ex_total_sessions = all_sessions,
          ex_truncated_session_count = all_sessions - length (ea_sessions acc),
          ex_instrumented_sessions = ea_instrumented acc,
          ex_legacy_sessions = ea_legacy acc,
          ex_health_counts = ea_counts acc,
          ex_dropped_sessions_total = st_dropped_sessions_total st\<rparr>)"

definition session_detail :: "service_state \<Rightarrow> rstr \<Rightarrow> i64 \<Rightarrow> session_snapshot option" where
  "session_detail st session_id now =
     map_option
       (\<lambda>r. let points = length (sr_history r);
                kept = min points (max_session_detail_points (st_config st));
                truncated = points - kept
            in with_history (materialize_summary (st_config st) r now) points truncated
                 (drop truncated (sr_history r)))
       (map_of (st_sessions st) session_id)"

definition session_summary_of :: "service_state \<Rightarrow> rstr \<Rightarrow> i64 \<Rightarrow> session_summary option" where
  "session_summary_of st session_id now =
     map_option (\<lambda>r. materialize_summary (st_config st) r now) (map_of (st_sessions st) session_id)"

end
