(* ===== verification/Assoc.thy ===== *)
theory Assoc
  imports Prelude "HOL-Library.Multiset"
begin

text \<open>
  Association lists with distinct keys as models of hash maps: which entries an
  insertion and a removal leave, as sets and as multisets, and invariants that
  hold of every entry.  Two lists with the same multiset of entries are the same
  hash map in two iteration orders.
\<close>

abbreviation distinct_keys :: "('k \<times> 'v) list \<Rightarrow> bool" where
  "distinct_keys m \<equiv> distinct (map fst m)"

definition entries_ok :: "('k \<Rightarrow> 'v \<Rightarrow> bool) \<Rightarrow> ('k \<times> 'v) list \<Rightarrow> bool" where
  "entries_ok P m \<longleftrightarrow> distinct_keys m \<and> (\<forall>(k, v) \<in> set m. P k v)"

named_theorems entries_intros \<open>operations that keep an invariant of all entries\<close>

lemma mset_delete: "mset (AList.delete k m) = filter_mset (\<lambda>(k', _). k \<noteq> k') (mset m)"
  by (simp add: AList.delete_eq mset_filter case_prod_beta')

lemma distinct_keys_delete [simp]: "distinct_keys m \<Longrightarrow> distinct_keys (AList.delete k m)"
  by (rule AList.distinct_delete)

lemma distinct_keys_update [simp]: "distinct_keys m \<Longrightarrow> distinct_keys (AList.update k v m)"
  by (rule AList.distinct_update)

lemma mset_update: "distinct_keys m \<Longrightarrow> mset (AList.update k v m) = add_mset (k, v) (mset (AList.delete k m))"
proof (induction m)
  case (Cons e m)
  obtain k' v' where e: "e = (k', v')" by (cases e)
  have "AList.delete k m = m" if "k = k'"
    using Cons.prems that e by (auto simp: AList.delete_eq filter_id_conv image_iff)
  with Cons e show ?case by auto
qed simp

lemma set_update: "distinct_keys m \<Longrightarrow> set (AList.update k v m) = insert (k, v) (set (AList.delete k m))"
  using mset_update [of m k v] by (metis set_mset_add_mset_insert set_mset_mset)

lemma set_delete: "set (AList.delete k m) = {e \<in> set m. fst e \<noteq> k}"
  by (auto simp: AList.delete_eq)

lemma distinct_keys_mset: "mset m = mset m' \<Longrightarrow> distinct_keys m = distinct_keys m'"
  by (metis mset_eq_imp_distinct_iff mset_map)

lemma map_of_mset_cong:
  assumes "mset m = mset m'" and "distinct_keys m"
  shows "map_of m = map_of m'"
proof
  fix k
  have "set m = set m'" and "distinct_keys m'"
    using assms distinct_keys_mset by (auto dest: mset_eq_setD)
  with assms(2) have "map_of m k = Some v \<longleftrightarrow> map_of m' k = Some v" for v
    by (simp add: map_of_eq_Some_iff)
  then show "map_of m k = map_of m' k" by (metis option.exhaust)
qed

lemma length_update: "distinct_keys m \<Longrightarrow>
  length (AList.update k v m) = (if map_of m k = None then Suc (length m) else length m)"
  by (induction m) auto

lemma entries_okD: "entries_ok P m \<Longrightarrow> map_of m k = Some v \<Longrightarrow> P k v"
  by (auto simp: entries_ok_def dest: map_of_SomeD)

lemma entries_ok_distinct: "entries_ok P m \<Longrightarrow> distinct_keys m"
  by (simp add: entries_ok_def)

lemma entries_ok_Nil [entries_intros]: "entries_ok P []"
  by (simp add: entries_ok_def)

lemma entries_ok_update [entries_intros]:
  "entries_ok P m \<Longrightarrow> P k v \<Longrightarrow> entries_ok P (AList.update k v m)"
  by (auto simp: entries_ok_def set_update set_delete)

lemma entries_ok_delete [entries_intros]: "entries_ok P m \<Longrightarrow> entries_ok P (AList.delete k m)"
  by (auto simp: entries_ok_def set_delete)

lemma entries_ok_filter [entries_intros]: "entries_ok P m \<Longrightarrow> entries_ok P (filter q m)"
  by (auto simp: entries_ok_def distinct_map_filter)

lemma entries_ok_mono: "entries_ok P m \<Longrightarrow> (\<And>k v. P k v \<Longrightarrow> Q k v) \<Longrightarrow> entries_ok Q m"
  by (auto simp: entries_ok_def)

lemma mset_split_entry:
  "distinct_keys m \<Longrightarrow> (k, v) \<in> set m \<Longrightarrow> mset m = add_mset (k, v) (mset (AList.delete k m))"
  using mset_update [of m k v] AList.update_triv [of m k v] by simp

lemma length_delete_one:
  "distinct_keys m \<Longrightarrow> (k, v) \<in> set m \<Longrightarrow> length m = Suc (length (AList.delete k m))"
proof -
  assume d: "distinct_keys m" and kv: "(k, v) \<in> set m"
  then have "mset m = add_mset (k, v) (mset (AList.delete k m))" by (rule mset_split_entry)
  then show ?thesis by (metis size_add_mset size_mset)
qed

end
