(* ===== verification/Registry_Facts.thy ===== *)
theory Registry_Facts
  imports Registry Assoc
begin

text \<open>
  What the registry guarantees, up to single operations: identities, the
  eviction order and the loop of \<open>enforce_session_cap\<close> against its abstract
  specification, the record invariant kept by telemetry and discovery.
\<close>

section \<open>Identities\<close>

lemma show_int_no_colon: "58 \<notin> set (show_int i)"
  by (auto simp: is_digit_def dest: show_int_chars)

lemma session_id_tail_inj:
  "show_int a @ 58 # show_int p = show_int b @ 58 # show_int q \<longleftrightarrow> a = b \<and> p = q"
proof
  assume "show_int a @ 58 # show_int p = show_int b @ 58 # show_int q"
  then have "split_once (show_int a @ 58 # show_int p) 58 = split_once (show_int b @ 58 # show_int q) 58"
    by simp
  then show "a = b \<and> p = q" by (simp add: split_once_append show_int_no_colon)
qed auto

lemma instrumented_session_id_inj [simp]:
  "instrumented_session_id p a = instrumented_session_id q b \<longleftrightarrow> p = q \<and> a = b"
  using session_id_tail_inj [of a p b q] by (auto simp: instrumented_session_id_def)

lemma legacy_session_id_inj [simp]:
  "legacy_session_id p a = legacy_session_id q b \<longleftrightarrow> p = q \<and> a = b"
  using session_id_tail_inj [of a p b q] by (auto simp: legacy_session_id_def)

lemma session_id_namespaces [simp]: "instrumented_session_id p a \<noteq> legacy_session_id q b"
  by (simp add: instrumented_session_id_def legacy_session_id_def lit_def)

lemmas session_id_namespaces' [simp] = session_id_namespaces [THEN not_sym]

section \<open>The eviction order\<close>

lemma compare_entries_ord: "rust_ord compare_entries (\<lambda>_. True)"
  unfolding compare_entries_def compare_eviction_priority_def
  by (intro rust_ord_then_with rust_ord_cmp_of)

interpretation eviction: keyed_ord compare_entries "\<lambda>_. True" "\<lambda>e. ss_session_id (sr_summary (snd e))"
  by (rule keyed_ord.intro [OF compare_entries_ord], unfold_locales)
    (simp add: compare_entries_def compare_eviction_priority_def then_with_Equal_iff)

section \<open>The loop of enforce\_session\_cap\<close>

text \<open>Every record carries its own key as its session id.\<close>

definition keyed :: "rstr \<Rightarrow> session_record \<Rightarrow> bool" where
  "keyed k r \<longleftrightarrow> ss_session_id (sr_summary r) = k"

lemma keyed_ids: "entries_ok keyed m \<Longrightarrow> map (\<lambda>e. ss_session_id (sr_summary (snd e))) m = map fst m"
  by (auto simp: entries_ok_def keyed_def)

lemma keyed_distinct: "entries_ok keyed m \<Longrightarrow> distinct (map (\<lambda>e. ss_session_id (sr_summary (snd e))) m)"
  by (simp add: keyed_ids entries_ok_distinct)

lemma min_entry_delete:
  assumes "entries_ok keyed m" and "min_by compare_entries m = Some (k, r)"
  shows "sort_by compare_entries m = (k, r) # sort_by compare_entries (AList.delete k m)"
    and "length m = Suc (length (AList.delete k m))"
proof -
  have kr: "(k, r) \<in> set m" using assms(2) by (rule min_by_in)
  have d: "distinct_keys m" using assms(1) by (rule entries_ok_distinct)
  have "mset m = add_mset (k, r) (mset (AList.delete k m))"
    using d kr by (rule mset_split_entry)
  with assms keyed_distinct [OF assms(1)]
  show "sort_by compare_entries m = (k, r) # sort_by compare_entries (AList.delete k m)"
    by (intro eviction.sort_by_min) auto
  show "length m = Suc (length (AList.delete k m))" using d kr by (rule length_delete_one)
qed

text \<open>
  Abstract specification of the loop: what stays is the tail of the entries
  sorted by eviction priority, and every entry that goes is counted.
\<close>

definition survivors :: "nat \<Rightarrow> sessions_map \<Rightarrow> sessions_map" where
  "survivors cap m = drop (length m - cap) (sort_by compare_entries m)"

lemma enforce_loop_spec:
  assumes "entries_ok keyed m"
  shows "mset (fst (enforce_loop cap m d)) = mset (survivors cap m)
     \<and> unat (snd (enforce_loop cap m d)) = min (unat d + (length m - cap)) 18446744073709551615"
  using assms
proof (induction cap m d rule: enforce_loop.induct)
  case (1 cap m d)
  show ?case
  proof (cases "cap < length m")
    case False
    then show ?thesis
      using unat_u64_bound [of d] by (simp add: enforce_loop.simps [of cap m d] survivors_def)
  next
    case True
    then obtain k r where min: "min_by compare_entries m = Some (k, r)"
      by (cases "min_by compare_entries m") auto
    note del = min_entry_delete [OF "1.prems" min]
    have "entries_ok keyed (AList.delete k m)" using "1.prems" by (rule entries_ok_delete)
    note IH = "1.IH" [OF True min refl this]
    have "survivors cap m = survivors cap (AList.delete k m)"
      using True del by (simp add: survivors_def Suc_diff_le)
    with IH True min del(2) show ?thesis
      by (auto simp: enforce_loop.simps [of cap m d] unat_u64_saturating_add)
  qed
qed

lemma enforce_loop_entries: "entries_ok P m \<Longrightarrow> entries_ok P (fst (enforce_loop cap m d))"
proof (induction cap m d rule: enforce_loop.induct)
  case (1 cap m d)
  have "entries_ok P (fst (enforce_loop cap (AList.delete k m) (u64_saturating_add d 1)))"
    if "cap < length m" "min_by compare_entries m = Some (k, r)" for k r
    using "1.IH" [OF that refl] "1.prems" by (simp add: entries_ok_delete)
  with "1.prems" show ?case
    by (subst enforce_loop.simps) (auto split: option.splits)
qed

lemma length_survivors: "length (survivors cap m) = min (length m) cap"
  by (simp add: survivors_def)

lemma enforce_loop_length:
  "entries_ok keyed m \<Longrightarrow> length (fst (enforce_loop cap m d)) = min (length m) cap"
  using enforce_loop_spec [of m cap d] length_survivors [of cap m] by (metis size_mset)

lemma enforce_loop_id: "length m \<le> cap \<Longrightarrow> enforce_loop cap m d = (m, d)"
  by (simp add: enforce_loop.simps [of cap m d])

lemma enforce_loop_subset: "set (fst (enforce_loop cap m d)) \<subseteq> set m"
proof (induction cap m d rule: enforce_loop.induct)
  case (1 cap m d)
  have "set (fst (enforce_loop cap (AList.delete k m) (u64_saturating_add d 1))) \<subseteq> set m"
    if "cap < length m" "min_by compare_entries m = Some (k, r)" for k r
    using "1.IH" [OF that refl] by (auto simp: set_delete)
  then show ?case
    by (subst enforce_loop.simps) (auto split: option.splits)
qed

text \<open>Whoever goes has at most the priority of whoever stays.\<close>

lemma survivors_dominate:
  assumes "entries_ok keyed m" and "e \<in> set m" and "e \<notin> set (survivors cap m)" and "s \<in> set (survivors cap m)"
  shows "compare_entries e s \<noteq> Greater"
proof -
  let ?S = "sort_by compare_entries m" and ?n = "length m - cap"
  have "sorted_wrt (\<lambda>a b. compare_entries a b \<noteq> Greater) (take ?n ?S @ drop ?n ?S)"
    by (simp add: eviction.sorted_sort_by)
  moreover have "e \<in> set (take ?n ?S)"
    using assms(2,3) by (metis Un_iff append_take_drop_id set_append set_sort_by survivors_def)
  ultimately show ?thesis
    using assms(4) unfolding sorted_wrt_append survivors_def by blast
qed

lemma compare_entries_class: "compare_entries a b \<noteq> Greater \<Longrightarrow> eviction_class (snd a) \<le> eviction_class (snd b)"
  by (auto simp: compare_entries_def compare_eviction_priority_def then_with_Greater_iff)

lemma enforce_loop_mset_cong:
  assumes "mset m = mset m'" and "entries_ok keyed m"
  shows "mset (fst (enforce_loop cap m d)) = mset (fst (enforce_loop cap m' d))
     \<and> snd (enforce_loop cap m d) = snd (enforce_loop cap m' d)"
proof -
  have ok': "entries_ok keyed m'"
    using assms distinct_keys_mset [OF assms(1)] mset_eq_setD [OF assms(1)] by (simp add: entries_ok_def)
  have len: "length m = length m'" using assms(1) by (metis size_mset)
  have "survivors cap m = survivors cap m'"
    unfolding survivors_def len
    using eviction.sort_by_cong_mset [OF assms(1)] keyed_distinct [OF assms(2)] by simp
  with enforce_loop_spec [OF assms(2), of cap d] enforce_loop_spec [OF ok', of cap d] len
  show ?thesis by (simp add: word_unat_eq_iff)
qed

end
