(* ===== verification/Registry_Invariant.thy ===== *)
theory Registry_Invariant
  imports Registry_Facts
begin

text \<open>
  The invariant of the session registry: what holds of every record that
  telemetry and discovery can leave behind, that both writers of
  \<open>crates/moshwatchd/src/state.rs\<close> keep it, and the step relation of the
  registry with its reachable states.
\<close>

section \<open>The record invariant\<close>

text \<open>
  The history buffer and the counter buffer hold samples of the same instants, in
  strictly increasing order, and the newest one is the last observation.
\<close>

definition buffers_ok :: "session_record \<Rightarrow> bool" where
  "buffers_ok r \<longleftrightarrow>
     map mp_unix_ms (sr_history r) = map cs_unix_ms (sr_counters r)
     \<and> sorted_wrt (<) (map mp_unix_ms (sr_history r))
     \<and> (sr_history r \<noteq> [] \<longrightarrow>
          mp_unix_ms (last (sr_history r)) = ss_last_observed_unix_ms (sr_summary r))"

text \<open>The recorded window figures are those of the counter buffer.\<close>

definition windows_ok :: "session_record \<Rightarrow> bool" where
  "windows_ok r \<longleftrightarrow>
     (let m = ss_metrics (sr_summary r)
      in set_windows m (retransmit_pct (sr_counters r) 10000) (retransmit_pct (sr_counters r) 60000) = m)
     \<and> (sr_history r \<noteq> [] \<longrightarrow>
          mp_retransmit_pct_10s (last (sr_history r)) = sm_retransmit_pct_10s (ss_metrics (sr_summary r)))"

definition peer_ok :: "session_summary \<Rightarrow> bool" where
  "peer_ok s \<longleftrightarrow>
     (let p = ss_peer s
      in ss_client_addr s = last_client_addr p
         \<and> (current_client_addr p = None \<or> current_client_addr p = last_client_addr p)
         \<and> (previous_client_addr p = None \<or> previous_client_addr p \<noteq> last_client_addr p)
         \<and> (last_client_seen_at_unix_ms p = None \<longleftrightarrow> last_client_addr p = None)
         \<and> (client_addr_changed_at_unix_ms p = None \<longleftrightarrow> previous_client_addr p = None)
         \<and> (previous_client_addr p = None \<or> last_client_addr p \<noteq> None)
         \<and> (\<forall>t \<in> set_option (last_client_seen_at_unix_ms p). t \<le> ss_last_observed_unix_ms s))"

definition kind_ok :: "app_config \<Rightarrow> session_record \<Rightarrow> bool" where
  "kind_ok c r \<longleftrightarrow>
     ss_health (sr_summary r)
       = classify_health (ss_kind (sr_summary r)) (ss_metrics (sr_summary r)) (thresholds c)
     \<and> (ss_kind (sr_summary r) = LegacyKind \<longrightarrow>
          sr_history r = [] \<and> \<not> sr_shutdown r \<and> ss_peer (sr_summary r) = default_peer
          \<and> ss_metrics (sr_summary r) = default_metrics)"

definition record_ok :: "app_config \<Rightarrow> rstr \<Rightarrow> session_record \<Rightarrow> bool" where
  "record_ok c k r \<longleftrightarrow>
     keyed k r \<and> buffers_ok r \<and> windows_ok r \<and> peer_ok (sr_summary r) \<and> kind_ok c r"

definition state_ok :: "service_state \<Rightarrow> bool" where
  "state_ok st \<longleftrightarrow>
     entries_ok (record_ok (st_config st)) (st_sessions st)
     \<and> length (st_sessions st) \<le> max_tracked_sessions (st_config st)"

section \<open>Telemetry keeps the record invariant\<close>

lemma normalize_ge: "ss_last_observed_unix_ms s \<le> normalize_event_unix_ms s e received"
  by (simp add: normalize_event_unix_ms_def Let_def)

lemma normalize_eq:
  "normalize_event_unix_ms s e received = max (ss_last_observed_unix_ms s) (min e received)"
  by (auto simp: normalize_event_unix_ms_def Let_def max_def min_def)

text \<open>The summary after each stage, field by field.\<close>

lemma reset_on_regression_fields [simp]:
  "ss_last_observed_unix_ms (sr_summary (reset_on_regression r ev t)) = ss_last_observed_unix_ms (sr_summary r)"
  "ss_peer (sr_summary (reset_on_regression r ev t)) = ss_peer (sr_summary r)"
  "ss_client_addr (sr_summary (reset_on_regression r ev t)) = ss_client_addr (sr_summary r)"
  "ss_metrics (sr_summary (reset_on_regression r ev t)) = ss_metrics (sr_summary r)"
  by (simp_all add: reset_on_regression_def)

lemma apply_client_peer_fields [simp]:
  "ss_session_id (apply_client_peer s a t) = ss_session_id s"
  "ss_pid (apply_client_peer s a t) = ss_pid s"
  "ss_kind (apply_client_peer s a t) = ss_kind s"
  "ss_started_at_unix_ms (apply_client_peer s a t) = ss_started_at_unix_ms s"
  "ss_last_observed_unix_ms (apply_client_peer s a t) = ss_last_observed_unix_ms s"
  "ss_metrics (apply_client_peer s a t) = ss_metrics s"
  by (simp_all add: apply_client_peer_def Let_def split: option.split)

lemma merge_identity_fields [simp]:
  "ss_session_id (merge_identity s k ev received t) = k"
  "ss_pid (merge_identity s k ev received t) = ev_pid ev"
  "ss_kind (merge_identity s k ev received t) = Instrumented"
  "ss_started_at_unix_ms (merge_identity s k ev received t) = event_started_at ev received"
  "ss_last_observed_unix_ms (merge_identity s k ev received t) = t"
  "ss_metrics (merge_identity s k ev received t) = ss_metrics s"
  by (simp_all add: merge_identity_def Let_def split: option.split)

lemma finish_record_fields [simp]:
  "sr_history (finish_record r ev th) = sr_history r"
  "sr_counters (finish_record r ev th) = sr_counters r"
  "ss_session_id (sr_summary (finish_record r ev th)) = ss_session_id (sr_summary r)"
  "ss_pid (sr_summary (finish_record r ev th)) = ss_pid (sr_summary r)"
  "ss_kind (sr_summary (finish_record r ev th)) = ss_kind (sr_summary r)"
  "ss_started_at_unix_ms (sr_summary (finish_record r ev th)) = ss_started_at_unix_ms (sr_summary r)"
  "ss_last_observed_unix_ms (sr_summary (finish_record r ev th)) = ss_last_observed_unix_ms (sr_summary r)"
  "ss_client_addr (sr_summary (finish_record r ev th)) = ss_client_addr (sr_summary r)"
  "ss_peer (sr_summary (finish_record r ev th)) = ss_peer (sr_summary r)"
  "ss_metrics (sr_summary (finish_record r ev th)) = ss_metrics (sr_summary r)"
  "ss_health (sr_summary (finish_record r ev th))
     = classify_health (ss_kind (sr_summary r)) (ss_metrics (sr_summary r)) th"
  by (simp_all add: finish_record_def Let_def split: option.split)

text \<open>The flag a record ends with: the event's own value where it carries one.\<close>

lemma finish_record_shutdown:
  "sr_shutdown (finish_record r ev th) = unwrap_or (ev_shutdown ev) (ev_event ev = SessionClose)"
  by (auto simp: finish_record_def Let_def unwrap_or_def session_shutdown_def split: option.split)

lemma record_sample_fields [simp]:
  "ss_session_id (sr_summary (record_sample r ev t secs)) = ss_session_id (sr_summary r)"
  "ss_pid (sr_summary (record_sample r ev t secs)) = ss_pid (sr_summary r)"
  "ss_kind (sr_summary (record_sample r ev t secs)) = ss_kind (sr_summary r)"
  "ss_started_at_unix_ms (sr_summary (record_sample r ev t secs)) = ss_started_at_unix_ms (sr_summary r)"
  "ss_last_observed_unix_ms (sr_summary (record_sample r ev t secs)) = ss_last_observed_unix_ms (sr_summary r)"
  "ss_client_addr (sr_summary (record_sample r ev t secs)) = ss_client_addr (sr_summary r)"
  "ss_peer (sr_summary (record_sample r ev t secs)) = ss_peer (sr_summary r)"
  by (simp_all add: record_sample_def Let_def)

text \<open>Time stamps only: what a sample does to the two buffers.\<close>

lemma times_set_last_pct [simp]: "map mp_unix_ms (set_last_pct h pct) = map mp_unix_ms h"
  by (cases h rule: rev_cases) (simp_all add: set_last_pct_def)

lemma set_last_pct_Nil_iff [simp]: "set_last_pct h pct = [] \<longleftrightarrow> h = []"
  by (simp add: set_last_pct_def)

lemma last_set_last_pct: "h \<noteq> [] \<Longrightarrow> last (set_last_pct h pct) = (last h)\<lparr>mp_retransmit_pct_10s := pct\<rparr>"
  by (simp add: set_last_pct_def)

lemma record_sample_times:
  "map mp_unix_ms (sr_history (record_sample r ev t secs))
     = trim_times (upsert_time (map mp_unix_ms (sr_history r)) t) secs"
  "map cs_unix_ms (sr_counters (record_sample r ev t secs))
     = trim_times (upsert_time (map cs_unix_ms (sr_counters r)) t) secs"
  by (simp_all add: record_sample_def Let_def metric_points.times_trim metric_points.times_upsert
      counter_samples.times_trim counter_samples.times_upsert event_point_def event_counters_def)

lemma record_sample_buffers_ok:
  assumes "map mp_unix_ms (sr_history r) = map cs_unix_ms (sr_counters r)"
    and "sorted_wrt (<) (map mp_unix_ms (sr_history r))"
    and "sr_history r = [] \<or> mp_unix_ms (last (sr_history r)) \<le> t"
    and "ss_last_observed_unix_ms (sr_summary r) = t"
  shows "buffers_ok (record_sample r ev t secs)"
proof -
  let ?ts = "map mp_unix_ms (sr_history r)" and ?r = "record_sample r ev t secs"
  have times: "map mp_unix_ms (sr_history ?r) = trim_times (upsert_time ?ts t) secs"
    by (rule record_sample_times)
  have "?ts = [] \<or> last ?ts \<le> t"
    using assms(3) by (cases "sr_history r = []") (simp_all add: last_map)
  with assms(2) have sorted: "sorted_wrt (<) (trim_times (upsert_time ?ts t) secs)"
    by (intro sorted_trim_times sorted_upsert_time) auto
  have "mp_unix_ms (last (sr_history ?r)) = t" if "sr_history ?r \<noteq> []"
  proof -
    from that have "mp_unix_ms (last (sr_history ?r)) = last (map mp_unix_ms (sr_history ?r))"
      by (simp add: last_map)
    moreover have "trim_times (upsert_time ?ts t) secs \<noteq> []"
      using that by (metis times Nil_is_map_conv)
    ultimately show ?thesis by (simp add: times last_trim_times)
  qed
  with sorted assms(1,4) show ?thesis by (simp add: buffers_ok_def times record_sample_times)
qed

lemma set_windows_idem [simp]: "set_windows (set_windows m a b) a b = set_windows m a b"
  by (simp add: set_windows_def)

lemma record_sample_windows_ok: "windows_ok (record_sample r ev t secs)"
  by (simp add: windows_ok_def record_sample_def Let_def last_set_last_pct set_windows_def)

lemma apply_client_peer_ok:
  assumes "peer_ok s" and "ss_peer s' = ss_peer s" and "ss_client_addr s' = ss_client_addr s"
    and "ss_last_observed_unix_ms s' = t" and "ss_last_observed_unix_ms s \<le> t"
  shows "peer_ok (apply_client_peer s' a t)"
proof (cases a)
  case None
  with assms show ?thesis by (auto simp: apply_client_peer_def peer_ok_def Let_def)
next
  case (Some addr)
  with assms show ?thesis
    by (cases "last_client_addr (ss_peer s)")
      (auto simp: apply_client_peer_def peer_ok_def Let_def split: bool.splits)
qed

lemma peer_ok_fields:
  "ss_peer s' = ss_peer s \<Longrightarrow> ss_client_addr s' = ss_client_addr s \<Longrightarrow>
   ss_last_observed_unix_ms s' = ss_last_observed_unix_ms s \<Longrightarrow> peer_ok s' = peer_ok s"
  by (simp add: peer_ok_def)

lemma merge_identity_peer_ok:
  assumes "peer_ok s" and "ss_last_observed_unix_ms s \<le> t"
  shows "peer_ok (merge_identity s k ev received t)"
proof -
  have upd: "peer_ok (x\<lparr>ss_cmdline := y\<rparr>) = peer_ok x" for x y
    by (rule peer_ok_fields) simp_all
  show ?thesis
    unfolding merge_identity_def Let_def
    by (auto simp: upd split: option.split intro!: apply_client_peer_ok [OF assms(1) _ _ _ assms(2)])
qed

lemma reset_on_regression_buffers:
  assumes "buffers_ok r" and "ss_last_observed_unix_ms (sr_summary r) \<le> t"
  shows "map mp_unix_ms (sr_history (reset_on_regression r ev t))
       = map cs_unix_ms (sr_counters (reset_on_regression r ev t))"
    and "sorted_wrt (<) (map mp_unix_ms (sr_history (reset_on_regression r ev t)))"
    and "sr_history (reset_on_regression r ev t) = []
       \<or> mp_unix_ms (last (sr_history (reset_on_regression r ev t))) \<le> t"
  using assms by (auto simp: reset_on_regression_def buffers_ok_def)

lemma finish_record_ok:
  "buffers_ok (finish_record r ev th) = buffers_ok r"
  "windows_ok (finish_record r ev th) = windows_ok r"
  "peer_ok (sr_summary (finish_record r ev th)) = peer_ok (sr_summary r)"
  by (simp_all add: buffers_ok_def windows_ok_def peer_ok_def)

lemma apply_event_record_ok:
  assumes "buffers_ok r" and "peer_ok (sr_summary r)"
  shows "record_ok c k (apply_event c k ev received r)"
proof -
  let ?t = "normalize_event_unix_ms (sr_summary r) (ev_unix_ms ev) received"
  have le: "ss_last_observed_unix_ms (sr_summary r) \<le> ?t" by (rule normalize_ge)
  note buf = reset_on_regression_buffers [OF assms(1) le]
  have peer: "peer_ok (merge_identity (sr_summary (reset_on_regression r ev ?t)) k ev received ?t)"
    by (rule merge_identity_peer_ok)
      (use assms(2) le in \<open>auto simp: peer_ok_fields [of "sr_summary (reset_on_regression r ev ?t)" "sr_summary r"]\<close>)
  let ?r2 = "(reset_on_regression r ev ?t)
    \<lparr>sr_summary := (merge_identity (sr_summary (reset_on_regression r ev ?t)) k ev received ?t)
       \<lparr>ss_metrics := merge_metrics (ss_metrics (merge_identity (sr_summary (reset_on_regression r ev ?t)) k ev received ?t)) ev\<rparr>\<rparr>"
  let ?r3 = "record_sample ?r2 ev ?t (history_secs c)"
  have eq: "apply_event c k ev received r = finish_record ?r3 ev (thresholds c)"
    by (simp add: apply_event_def Let_def)
  have "buffers_ok ?r3" using buf by (intro record_sample_buffers_ok) simp_all
  moreover have "windows_ok ?r3" by (rule record_sample_windows_ok)
  moreover have "peer_ok (sr_summary ?r3)"
    using peer by (subst peer_ok_fields) simp_all
  ultimately show ?thesis
    unfolding eq record_ok_def finish_record_ok kind_ok_def keyed_def by simp
qed

lemma fresh_instrumented_ok:
  "buffers_ok (fresh_instrumented_record k ev received)"
  "peer_ok (sr_summary (fresh_instrumented_record k ev received))"
  by (simp_all add: fresh_instrumented_record_def buffers_ok_def peer_ok_def default_peer_def)

section \<open>Discovery keeps the record invariant\<close>

lemma default_windows_ok [simp]:
  "set_windows default_metrics (unknown_window False) (unknown_window False) = default_metrics"
  by (simp add: set_windows_def default_metrics_def unknown_window_def)

lemma retransmit_pct_Nil [simp]: "retransmit_pct [] w = unknown_window False"
  by (simp add: retransmit_pct_def)

lemma fresh_legacy_record_ok: "record_ok c k (fresh_legacy_record k d now)"
  by (simp add: record_ok_def fresh_legacy_record_def keyed_def buffers_ok_def windows_ok_def peer_ok_def
      kind_ok_def default_peer_def)

lemma buffers_ok_fields:
  "ss_last_observed_unix_ms s = ss_last_observed_unix_ms (sr_summary r) \<Longrightarrow>
   buffers_ok (r\<lparr>sr_summary := s\<rparr>) = buffers_ok r"
  by (simp add: buffers_ok_def)

lemma windows_ok_fields:
  "ss_metrics s = ss_metrics (sr_summary r) \<Longrightarrow> windows_ok (r\<lparr>sr_summary := s\<rparr>) = windows_ok r"
  by (simp add: windows_ok_def)

lemma legacy_counters_Nil: "buffers_ok r \<Longrightarrow> sr_history r = [] \<Longrightarrow> sr_counters r = []"
  by (simp add: buffers_ok_def)

lemma merge_discovered_record_ok:
  assumes "record_ok c k r"
  shows "record_ok c k (merge_discovered (thresholds c) d now r)"
proof (cases "ss_kind (sr_summary r)")
  case LegacyKind
  with assms legacy_counters_Nil [of r] show ?thesis
    by (auto simp: record_ok_def merge_discovered_def Let_def keyed_def buffers_ok_def windows_ok_def
        peer_ok_def kind_ok_def default_peer_def)
next
  case Instrumented
  define s where "s = (sr_summary r)
    \<lparr>ss_pid := ds_pid d, ss_health := classify_health Instrumented (ss_metrics (sr_summary r)) (thresholds c)\<rparr>"
  have "merge_discovered (thresholds c) d now r = r\<lparr>sr_summary := s\<rparr>"
    by (simp add: merge_discovered_def Let_def Instrumented s_def)
  moreover have "ss_kind s = Instrumented" "ss_session_id s = ss_session_id (sr_summary r)"
    "ss_health s = classify_health Instrumented (ss_metrics (sr_summary r)) (thresholds c)"
    "ss_metrics s = ss_metrics (sr_summary r)"
    "ss_last_observed_unix_ms s = ss_last_observed_unix_ms (sr_summary r)"
    "ss_peer s = ss_peer (sr_summary r)" "ss_client_addr s = ss_client_addr (sr_summary r)"
    by (simp_all add: s_def Instrumented)
  ultimately show ?thesis
    using assms unfolding record_ok_def
    by (simp add: buffers_ok_fields windows_ok_fields peer_ok_fields [of s "sr_summary r"] kind_ok_def keyed_def)
qed

lemma note_discovered_entries:
  "entries_ok (record_ok c) (fst ms) \<Longrightarrow>
   entries_ok (record_ok c) (fst (note_discovered (thresholds c) now d ms))"
  by (cases ms)
    (auto simp: Let_def fresh_legacy_record_ok split: option.split
      intro!: entries_intros merge_discovered_record_ok dest: entries_okD)

lemma fold_note_discovered_entries:
  "entries_ok (record_ok c) (fst ms) \<Longrightarrow>
   entries_ok (record_ok c) (fst (fold (note_discovered (thresholds c) now) ds ms))"
  by (induction ds arbitrary: ms) (simp_all add: note_discovered_entries)

section \<open>The state invariant\<close>

lemma record_ok_keyed: "entries_ok (record_ok c) m \<Longrightarrow> entries_ok keyed m"
  by (erule entries_ok_mono) (simp add: record_ok_def)

lemma state_ok_new: "state_ok (new_state c)"
  by (simp add: state_ok_def new_state_def entries_intros)

lemma enforce_session_cap_config [simp]: "st_config (enforce_session_cap st) = st_config st"
  by (simp add: enforce_session_cap_def case_prod_beta' Let_def)

lemma enforce_session_cap_sessions:
  "st_sessions (enforce_session_cap st)
     = fst (enforce_loop (max_tracked_sessions (st_config st)) (st_sessions st) (st_dropped_sessions_total st))"
  "st_dropped_sessions_total (enforce_session_cap st)
     = snd (enforce_loop (max_tracked_sessions (st_config st)) (st_sessions st) (st_dropped_sessions_total st))"
  by (simp_all add: enforce_session_cap_def case_prod_beta' Let_def)

lemma enforce_session_cap_state_ok:
  "entries_ok (record_ok (st_config st)) (st_sessions st) \<Longrightarrow> state_ok (enforce_session_cap st)"
  by (simp add: state_ok_def enforce_session_cap_sessions enforce_loop_entries
      enforce_loop_length [OF record_ok_keyed])

text \<open>
  The three ways a telemetry event finds its record: it is known, it takes over a
  discovered placeholder, or it is new and passes the admission rule.
\<close>

definition telemetry_legacy_id :: "telemetry_event \<Rightarrow> i64 \<Rightarrow> rstr" where
  "telemetry_legacy_id ev received = legacy_session_id (ev_pid ev) (event_started_at ev received)"

definition promote :: "rstr \<Rightarrow> session_record \<Rightarrow> session_record" where
  "promote session_id r =
     r\<lparr>sr_summary := (sr_summary r)\<lparr>ss_session_id := session_id, ss_kind := Instrumented\<rparr>\<rparr>"

definition store_record :: "service_state \<Rightarrow> rstr \<Rightarrow> session_record \<Rightarrow> sessions_map \<Rightarrow> service_state" where
  "store_record st k r m = enforce_session_cap (st\<lparr>st_sessions := AList.update k r m\<rparr>)"

lemma apply_telemetry_known:
  "map_of (st_sessions st) k = Some r \<Longrightarrow>
   apply_telemetry_at st k ev received
     = store_record st k (apply_event (st_config st) k ev received r) (st_sessions st)"
  by (simp add: apply_telemetry_at_def Let_def upgrade_legacy_def contains_key_def store_record_def)

lemma apply_telemetry_upgrade:
  "map_of (st_sessions st) k = None \<Longrightarrow> k \<noteq> telemetry_legacy_id ev received \<Longrightarrow>
   map_of (st_sessions st) (telemetry_legacy_id ev received) = Some r \<Longrightarrow>
   apply_telemetry_at st k ev received
     = store_record st k (apply_event (st_config st) k ev received (promote k r))
         (AList.delete (telemetry_legacy_id ev received) (st_sessions st))"
  by (simp add: apply_telemetry_at_def Let_def upgrade_legacy_def contains_key_def store_record_def
      telemetry_legacy_id_def promote_def update_conv' AList.update_last)

lemma apply_telemetry_new:
  assumes "map_of (st_sessions st) k = None"
    and "k = telemetry_legacy_id ev received \<or> map_of (st_sessions st) (telemetry_legacy_id ev received) = None"
  shows "apply_telemetry_at st k ev received
     = (if fst (reject_new_active_instrumented_session st (session_shutdown ev))
        then snd (reject_new_active_instrumented_session st (session_shutdown ev))
        else store_record st k
               (apply_event (st_config st) k ev received (fresh_instrumented_record k ev received))
               (st_sessions st))"
proof -
  have "upgrade_legacy (st_sessions st) k (telemetry_legacy_id ev received) = st_sessions st"
    using assms by (auto simp: upgrade_legacy_def)
  moreover have "snd (reject_new_active_instrumented_session st b) = st"
    if "\<not> fst (reject_new_active_instrumented_session st b)" for b
    using that by (auto simp: reject_new_active_instrumented_session_def split: option.splits if_splits)
  ultimately show ?thesis
    using assms(1)
    by (auto simp: apply_telemetry_at_def Let_def contains_key_def store_record_def telemetry_legacy_id_def
        case_prod_beta')
qed

text \<open>Case analysis over a telemetry event, as used by every property of the writer.\<close>

lemma telemetry_cases:
  obtains (known) r where "map_of (st_sessions st) k = Some r"
  | (upgrade) r where "map_of (st_sessions st) k = None" "k \<noteq> telemetry_legacy_id ev received"
      "map_of (st_sessions st) (telemetry_legacy_id ev received) = Some r"
  | (new) "map_of (st_sessions st) k = None"
      "k = telemetry_legacy_id ev received \<or> map_of (st_sessions st) (telemetry_legacy_id ev received) = None"
  by (cases "map_of (st_sessions st) k"; cases "map_of (st_sessions st) (telemetry_legacy_id ev received)") auto

lemma reject_sessions [simp]:
  "st_sessions (snd (reject_new_active_instrumented_session st b)) = st_sessions st"
  "st_config (snd (reject_new_active_instrumented_session st b)) = st_config st"
  by (auto simp: reject_new_active_instrumented_session_def split: option.splits)

lemma state_ok_reject [simp]:
  "state_ok (snd (reject_new_active_instrumented_session st b)) = state_ok st"
  by (simp add: state_ok_def)

lemma store_record_config [simp]: "st_config (store_record st k r m) = st_config st"
  by (simp add: store_record_def)

lemma store_record_state_ok:
  "entries_ok (record_ok (st_config st)) m \<Longrightarrow> record_ok (st_config st) k r \<Longrightarrow>
   state_ok (store_record st k r m)"
  unfolding store_record_def by (rule enforce_session_cap_state_ok) (simp add: entries_intros)

lemma promote_ok: "buffers_ok r \<Longrightarrow> buffers_ok (promote k r)"
  "peer_ok (sr_summary r) \<Longrightarrow> peer_ok (sr_summary (promote k r))"
  by (simp_all add: promote_def buffers_ok_fields peer_ok_def)

lemma apply_telemetry_config [simp]: "st_config (apply_telemetry_at st k ev received) = st_config st"
  by (cases rule: telemetry_cases [where st = st and k = k and ev = ev and received = received])
    (simp_all add: apply_telemetry_known apply_telemetry_upgrade apply_telemetry_new)

lemma apply_telemetry_state_ok:
  assumes "state_ok st"
  shows "state_ok (apply_telemetry_at st k ev received)"
proof -
  have ok: "entries_ok (record_ok (st_config st)) (st_sessions st)" using assms by (simp add: state_ok_def)
  show ?thesis
  proof (cases rule: telemetry_cases [where st = st and k = k and ev = ev and received = received])
    case (known r)
    with ok have "record_ok (st_config st) k r" by (rule entries_okD)
    with ok known show ?thesis
      by (auto simp: apply_telemetry_known record_ok_def intro!: store_record_state_ok apply_event_record_ok)
  next
    case (upgrade r)
    from ok upgrade(3) have "record_ok (st_config st) (telemetry_legacy_id ev received) r" by (rule entries_okD)
    with ok upgrade show ?thesis
      by (auto simp: apply_telemetry_upgrade record_ok_def
          intro!: store_record_state_ok apply_event_record_ok promote_ok entries_intros)
  next
    case new
    with assms ok fresh_instrumented_ok show ?thesis
      by (auto simp: apply_telemetry_new state_ok_reject intro!: store_record_state_ok apply_event_record_ok)
  qed
qed

lemma refresh_discovery_eq:
  "refresh_discovery st ds now =
     (let ms = fold (note_discovered (thresholds (st_config st)) now) ds (st_sessions st, [])
      in enforce_session_cap (st\<lparr>st_sessions := filter (retained (st_config st) (snd ms) now) (fst ms)\<rparr>))"
  by (simp add: refresh_discovery_def case_prod_beta' Let_def)

lemma refresh_discovery_config [simp]: "st_config (refresh_discovery st ds now) = st_config st"
  by (simp add: refresh_discovery_eq Let_def)

lemma refresh_discovery_state_ok:
  assumes "state_ok st"
  shows "state_ok (refresh_discovery st ds now)"
proof -
  have "entries_ok (record_ok (st_config st))
      (fst (fold (note_discovered (thresholds (st_config st)) now) ds (st_sessions st, [])))"
    using assms by (intro fold_note_discovered_entries) (simp add: state_ok_def)
  then show ?thesis
    by (auto simp: refresh_discovery_eq Let_def intro!: enforce_session_cap_state_ok entries_intros)
qed

section \<open>Reachable registries\<close>

datatype registry_op =
    Telemetry rstr telemetry_event i64
  | Discovery "discovered_session list" i64

inductive registry_step :: "service_state \<Rightarrow> registry_op \<Rightarrow> service_state \<Rightarrow> bool" where
  telemetry_step: "registry_step st (Telemetry k ev received) (apply_telemetry_at st k ev received)"
| discovery_step: "registry_step st (Discovery ds now) (refresh_discovery st ds now)"

inductive_cases registry_stepE: "registry_step st op st'"
inductive_simps registry_step_simps:
  "registry_step st (Telemetry k ev received) st'"
  "registry_step st (Discovery ds now) st'"

inductive reachable :: "app_config \<Rightarrow> service_state \<Rightarrow> bool" for c where
  reachable_new: "reachable c (new_state c)"
| reachable_step: "reachable c st \<Longrightarrow> registry_step st op st' \<Longrightarrow> reachable c st'"

lemma registry_step_ok: "registry_step st op st' \<Longrightarrow> state_ok st \<Longrightarrow> state_ok st' \<and> st_config st' = st_config st"
  by (erule registry_stepE) (simp_all add: apply_telemetry_state_ok refresh_discovery_state_ok)

lemma reachable_config: "reachable c st \<Longrightarrow> st_config st = c"
  by (induction rule: reachable.induct) (auto elim: registry_stepE simp: new_state_def)

lemma reachable_state_ok: "reachable c st \<Longrightarrow> state_ok st"
  by (induction rule: reachable.induct) (auto simp: state_ok_new registry_step_ok)

lemmas reachable_ops =
  reachable_new
  reachable_step [OF _ telemetry_step]
  reachable_step [OF _ discovery_step]

section \<open>An example run\<close>

text \<open>An empty event; the examples below fill in the fields they need.\<close>

definition blank_event :: "telemetry_event_kind \<Rightarrow> i32 \<Rightarrow> i64 \<Rightarrow> telemetry_event" where
  "blank_event kind pid t =
     \<lparr>ev_event = kind, ev_display_session_id = None, ev_pid = pid, ev_unix_ms = t,
      ev_started_at_unix_ms = Some 1000, ev_bind_addr = None, ev_udp_port = None, ev_client_addr = None,
      ev_last_heard_age_ms = None, ev_remote_state_age_ms = None, ev_srtt_ms = None, ev_rttvar_ms = None,
      ev_last_rtt_ms = None, ev_packets_tx_total = None, ev_packets_rx_total = None,
      ev_retransmits_total = None, ev_empty_acks_tx_total = None, ev_state_updates_tx_total = None,
      ev_state_updates_rx_total = None, ev_duplicate_states_rx_total = None,
      ev_out_of_order_states_rx_total = None, ev_cmdline = None, ev_shutdown = None\<rparr>"

definition example_discovery :: discovered_session where
  "example_discovery =
     \<lparr>ds_pid = 7, ds_started_at_unix_ms = 1000, ds_bind_addr = None, ds_udp_port = Some 60001,
      ds_cmdline = lit ''mosh-server new''\<rparr>"

text \<open>A session is discovered, then its telemetry arrives twice.\<close>

definition example_state :: service_state where
  "example_state =
     apply_telemetry_at
       (apply_telemetry_at
         (refresh_discovery (new_state default_config) [example_discovery] 1500)
         (instrumented_session_id 7 1000) (blank_event SessionOpen 7 1600) 1601)
       (instrumented_session_id 7 1000) (blank_event SessionTick 7 2600) 2601"

lemma example_reachable: "reachable default_config example_state"
  unfolding example_state_def by (intro reachable_ops)

section \<open>Properties of every reachable registry\<close>

text \<open>
  C1: Whatever telemetry arrives and whatever discovery reports, in any order, the
  registry never tracks more sessions than \<open>max_tracked_sessions\<close>, no two
  records share a key, every record is filed under its own session id, the two
  sample buffers of a record cover the same instants in strictly increasing order
  up to the last observation, the recorded retransmit windows are those of the
  buffer, the peer data is consistent, and the stored health is the
  classification of the stored metrics.
\<close>
theorem registry_invariant:
  assumes "reachable c st"
  shows "st_config st = c
     \<and> length (st_sessions st) \<le> max_tracked_sessions c
     \<and> distinct (map fst (st_sessions st))
     \<and> (\<forall>(k, r) \<in> set (st_sessions st). record_ok c k r)"
  using reachable_config [OF assms] reachable_state_ok [OF assms]
  by (simp add: state_ok_def entries_ok_def)

theorem registry_invariant_witness:
  "st_config example_state = default_config
     \<and> length (st_sessions example_state) \<le> max_tracked_sessions default_config
     \<and> distinct (map fst (st_sessions example_state))
     \<and> list_all (\<lambda>(k, r). record_ok default_config k r) (st_sessions example_state)"
  using registry_invariant [OF example_reachable] by (simp add: list_all_iff)

end
