(* ===== verification/Registry_Policy.thy ===== *)
theory Registry_Policy
  imports Registry_Invariant
begin

text \<open>
  The policies of the registry in \<open>crates/moshwatchd/src/state.rs\<close>: who may
  enter a full registry and who leaves it, what discovery may change in an
  instrumented session, how long a session that disappeared is kept, how a
  discovered placeholder becomes an instrumented session, and how observation
  times move.
\<close>

section \<open>Eviction\<close>

text \<open>
  C3: Enforcing the cap leaves exactly \<open>min (length sessions) cap\<close> records, changes
  none of them, evicts only records whose eviction priority (class, last
  observation, start, id) is not above that of any record that stays, and adds
  the number of evictions to the drop counter, saturating at \<open>u64::MAX\<close>.
\<close>
theorem enforce_session_cap_spec:
  assumes "entries_ok keyed (st_sessions st)"
  shows "let st' = enforce_session_cap st; cap = max_tracked_sessions (st_config st) in
       length (st_sessions st') = min (length (st_sessions st)) cap
     \<and> set (st_sessions st') \<subseteq> set (st_sessions st)
     \<and> (\<forall>e \<in> set (st_sessions st) - set (st_sessions st'). \<forall>s \<in> set (st_sessions st').
          compare_eviction_priority (snd e) (snd s) \<noteq> Greater)
     \<and> unat (st_dropped_sessions_total st')
         = min (unat (st_dropped_sessions_total st) + (length (st_sessions st) - cap)) 18446744073709551615"
proof -
  let ?m = "st_sessions st" and ?cap = "max_tracked_sessions (st_config st)"
  let ?d = "st_dropped_sessions_total st"
  have spec: "mset (fst (enforce_loop ?cap ?m ?d)) = mset (survivors ?cap ?m)"
    "unat (snd (enforce_loop ?cap ?m ?d)) = min (unat ?d + (length ?m - ?cap)) 18446744073709551615"
    using enforce_loop_spec [OF assms] by auto
  then have set: "set (fst (enforce_loop ?cap ?m ?d)) = set (survivors ?cap ?m)" by (metis set_mset_mset)
  have "\<forall>e \<in> set ?m - set (survivors ?cap ?m). \<forall>s \<in> set (survivors ?cap ?m).
      compare_eviction_priority (snd e) (snd s) \<noteq> Greater"
    using survivors_dominate [OF assms] by (auto simp: compare_entries_def)
  moreover have "set (survivors ?cap ?m) \<subseteq> set ?m"
    using enforce_loop_subset [of ?cap ?m ?d] by (simp add: set)
  ultimately show ?thesis
    unfolding Let_def enforce_session_cap_sessions set spec(2) enforce_loop_length [OF assms] by simp
qed

theorem enforce_session_cap_spec_witness:
  "let st = (new_state default_config)\<lparr>st_config := default_config\<lparr>max_tracked_sessions := 0\<rparr>,
         st_sessions := [(lit ''a'', fresh_legacy_record (lit ''a'') example_discovery 5)]\<rparr>;
       st' = enforce_session_cap st in
       length (st_sessions st') = 0 \<and> unat (st_dropped_sessions_total st') = 1"
proof -
  let ?st = "(new_state default_config)\<lparr>st_config := default_config\<lparr>max_tracked_sessions := 0\<rparr>,
         st_sessions := [(lit ''a'', fresh_legacy_record (lit ''a'') example_discovery 5)]\<rparr>"
  have "entries_ok keyed (st_sessions ?st)"
    by (simp add: entries_ok_def keyed_def fresh_legacy_record_def)
  from enforce_session_cap_spec [OF this] show ?thesis
    unfolding Let_def by (simp add: new_state_def)
qed

section \<open>Admission\<close>

lemma enforce_one_over:
  assumes "entries_ok keyed m" and "length m = Suc cap"
    and "(k0, r0) \<in> set m" and "eviction_class r0 < 2"
    and "(k, r) \<in> set m" and "eviction_class r = 2"
  shows "(k, r) \<in> set (fst (enforce_loop cap m d))"
proof -
  obtain k1 r1 where min: "min_by compare_entries m = Some (k1, r1)"
    using assms(2) by (cases "min_by compare_entries m") auto
  from eviction.min_by_least [OF _ min assms(3)] have "eviction_class r1 \<le> eviction_class r0"
    using compare_entries_class by fastforce
  with assms(4,6) have "r1 \<noteq> r" by auto
  moreover have "(k1, r1) \<in> set m" using min by (rule min_by_in)
  ultimately have "k \<noteq> k1"
    using assms(1,5) by (auto simp: entries_ok_def eq_key_imp_eq_value)
  moreover have "length (AList.delete k1 m) \<le> cap"
    using min_entry_delete(2) [OF assms(1) min] assms(2) by simp
  ultimately show ?thesis
    using assms(2,5) by (simp add: enforce_loop.simps [of cap m] min enforce_loop_id set_delete)
qed

lemma store_record_keeps:
  assumes ok: "entries_ok keyed m" and "keyed k' r'"
    and room: "length (AList.update k' r' m) \<le> cap \<or>
      (length (AList.update k' r' m) = Suc cap \<and> (\<exists>e \<in> set (AList.update k' r' m). eviction_class (snd e) < 2))"
    and kr: "(k, r) \<in> set m" "k \<noteq> k'" "eviction_class r = 2"
    and cap: "cap = max_tracked_sessions (st_config st)"
  shows "(k, r) \<in> set (st_sessions (store_record st k' r' m))"
proof -
  let ?m = "AList.update k' r' m"
  have ok': "entries_ok keyed ?m" using assms by (simp add: entries_intros)
  have "(k, r) \<in> set ?m" using kr ok by (simp add: set_update set_delete entries_ok_distinct)
  then have "(k, r) \<in> set (fst (enforce_loop cap ?m d))" for d
    using room kr(3) enforce_one_over [OF ok'] by (auto simp: enforce_loop_id)
  then show ?thesis by (simp add: store_record_def enforce_session_cap_sessions cap)
qed

lemma apply_event_class:
  "eviction_class (apply_event c k ev received r)
     = (if unwrap_or (ev_shutdown ev) (ev_event ev = SessionClose) then 1 else 2)"
  by (simp add: apply_event_def Let_def eviction_class_def finish_record_shutdown)

lemma apply_event_keyed: "keyed k (apply_event c k ev received r)"
  by (simp add: apply_event_def Let_def keyed_def)

text \<open>
  The verdict and the flag agree except for one combination: a closing event that
  carries \<open>shutdown: false\<close> passes the admission rule as a shutdown and is
  then stored as active.
\<close>

definition contradictory_close :: "telemetry_event \<Rightarrow> bool" where
  "contradictory_close ev \<longleftrightarrow> ev_event ev = SessionClose \<and> ev_shutdown ev = Some False"

lemma session_shutdown_flag:
  "\<not> contradictory_close ev \<Longrightarrow> unwrap_or (ev_shutdown ev) (ev_event ev = SessionClose) = session_shutdown ev"
  by (auto simp: contradictory_close_def session_shutdown_def unwrap_or_def split: option.splits)

lemma not_rejected_room:
  assumes "\<not> fst (reject_new_active_instrumented_session st b)" and "st_sessions st \<noteq> [] \<or> 0 < max_tracked_sessions (st_config st)"
  shows "b \<or> length (st_sessions st) < max_tracked_sessions (st_config st)
     \<or> (\<exists>e \<in> set (st_sessions st). eviction_class (snd e) < 2)"
proof (cases "min_by compare_entries (st_sessions st)")
  case None
  with assms show ?thesis by auto
next
  case (Some e)
  moreover obtain k r where "e = (k, r)" by (cases e)
  moreover have "eviction_class r \<noteq> 2 \<Longrightarrow> eviction_class r < 2" for r
    by (auto simp: eviction_class_def split: session_kind.splits if_splits)
  ultimately show ?thesis
    using assms(1) min_by_in [OF Some]
    by (fastforce simp: reject_new_active_instrumented_session_def split: if_splits)
qed

text \<open>
  C2: Telemetry never displaces another active instrumented session: under the cap
  invariant, whatever event arrives for session \<open>k\<close>, every record of the
  highest eviction class other than the session's own (or its placeholder) is still
  there afterwards, unchanged, provided the event is not a close that claims
  \<open>shutdown: false\<close>.
\<close>
theorem telemetry_keeps_active_sessions:
  assumes "state_ok st" and "\<not> contradictory_close ev"
    and "(k', r') \<in> set (st_sessions st)" and "eviction_class r' = 2"
    and "k' \<noteq> k" and "k' \<noteq> telemetry_legacy_id ev received"
  shows "(k', r') \<in> set (st_sessions (apply_telemetry_at st k ev received))"
proof -
  let ?m = "st_sessions st" and ?cap = "max_tracked_sessions (st_config st)"
  have ok: "entries_ok keyed ?m" and len: "length ?m \<le> ?cap"
    using assms(1) record_ok_keyed by (auto simp: state_ok_def)
  have d: "distinct_keys ?m" using ok by (rule entries_ok_distinct)
  show ?thesis
  proof (cases rule: telemetry_cases [where st = st and k = k and ev = ev and received = received])
    case (known r)
    with assms ok len d show ?thesis
      by (auto simp: apply_telemetry_known length_update
          intro!: store_record_keeps [where cap = ?cap] apply_event_keyed)
  next
    case (upgrade r)
    let ?l = "telemetry_legacy_id ev received"
    have lr: "(?l, r) \<in> set ?m" using upgrade(3) by (rule map_of_SomeD)
    have "length ?m = Suc (length (AList.delete ?l ?m))" using d lr by (rule length_delete_one)
    with upgrade(1,2) len d have "length (AList.update k x (AList.delete ?l ?m)) \<le> ?cap" for x
      by (simp add: length_update delete_conv')
    with assms upgrade ok show ?thesis
      by (auto simp: apply_telemetry_upgrade set_delete
          intro!: store_record_keeps [where cap = ?cap] apply_event_keyed entries_intros)
  next
    case new
    show ?thesis
    proof (cases "fst (reject_new_active_instrumented_session st (session_shutdown ev))")
      case True
      with assms new show ?thesis by (simp add: apply_telemetry_new)
    next
      case False
      let ?r = "apply_event (st_config st) k ev received (fresh_instrumented_record k ev received)"
      let ?m' = "AList.update k ?r ?m"
      have grow: "length ?m' = Suc (length ?m)" using d new(1) by (simp add: length_update)
      have mem: "(k, ?r) \<in> set ?m'" "e \<in> set ?m \<Longrightarrow> e \<in> set ?m'" for e
        using d new(1) by (auto simp: set_update set_delete map_of_eq_None_iff)
      have cls: "eviction_class ?r < 2 \<longleftrightarrow> session_shutdown ev"
        using assms(2) by (simp add: apply_event_class session_shutdown_flag)
      have "length ?m' \<le> ?cap \<or> (length ?m' = Suc ?cap \<and> (\<exists>e \<in> set ?m'. eviction_class (snd e) < 2))"
        using not_rejected_room [OF False] assms(3) len grow cls mem
        by (metis (no_types, lifting) Suc_leI empty_iff empty_set le_neq_implies_less snd_conv)
      from store_record_keeps [OF ok apply_event_keyed this assms(3,5,4) refl] False new
      show ?thesis by (simp add: apply_telemetry_new)
    qed
  qed
qed


definition example_active :: session_record where
  "example_active =
     apply_event default_config (instrumented_session_id 7 1000) (blank_event SessionTick 7 2600) 2601
       (fresh_instrumented_record (instrumented_session_id 7 1000) (blank_event SessionTick 7 2600) 2601)"

definition full_state :: service_state where
  "full_state =
     (new_state (default_config\<lparr>max_tracked_sessions := 1\<rparr>))
       \<lparr>st_sessions := [(instrumented_session_id 7 1000, example_active)]\<rparr>"

lemma example_active_ok: "record_ok c (instrumented_session_id 7 1000) example_active"
  if "thresholds c = default_thresholds"
proof -
  have "record_ok default_config (instrumented_session_id 7 1000) example_active"
    unfolding example_active_def by (intro apply_event_record_ok fresh_instrumented_ok)
  with that show ?thesis
    by (simp add: record_ok_def kind_ok_def default_config_def)
qed

lemma full_state_ok: "state_ok full_state"
  by (simp add: state_ok_def full_state_def new_state_def entries_ok_def example_active_ok default_config_def)

lemma example_active_class: "eviction_class example_active = 2"
  by (simp add: example_active_def apply_event_class blank_event_def unwrap_or_def)

theorem telemetry_keeps_active_sessions_witness:
  "(instrumented_session_id 7 1000, example_active) \<in>
     set (st_sessions (apply_telemetry_at full_state (instrumented_session_id 8 1000)
       (blank_event SessionClose 8 2700) 2700))"
  by (rule telemetry_keeps_active_sessions [OF full_state_ok _ _ example_active_class])
    (simp_all add: contradictory_close_def blank_event_def full_state_def telemetry_legacy_id_def)

text \<open>
  The exception is real: with room for one session and an active instrumented
  session in it, a close for an unknown session that carries \<open>shutdown: false\<close> is
  admitted (the rejection rule takes it for a shutdown) and evicts the active
  session, leaving the new one marked active.
\<close>
theorem contradictory_close_evicts_active:
  "let st = full_state; k = instrumented_session_id 8 1000;
       st' = apply_telemetry_at st k ((blank_event SessionClose 8 2700)\<lparr>ev_shutdown := Some False\<rparr>) 2700
   in map fst (st_sessions st) = [instrumented_session_id 7 1000]
      \<and> (\<forall>(i, r) \<in> set (st_sessions st). eviction_class r = 2)
      \<and> map fst (st_sessions st') = [k]
      \<and> (\<forall>(i, r) \<in> set (st_sessions st'). eviction_class r = 2 \<and> \<not> sr_shutdown r)"
proof -
  let ?k = "instrumented_session_id 8 1000" and ?i = "instrumented_session_id 7 1000"
  let ?ev = "(blank_event SessionClose 8 2700)\<lparr>ev_shutdown := Some False\<rparr>"
  let ?f = "fresh_instrumented_record ?k ?ev 2700"
  let ?r = "apply_event (st_config full_state) ?k ?ev 2700 ?f"
  have new: "map_of (st_sessions full_state) ?k = None"
    "map_of (st_sessions full_state) (telemetry_legacy_id ?ev 2700) = None"
    by (simp_all add: full_state_def telemetry_legacy_id_def)
  have admitted: "\<not> fst (reject_new_active_instrumented_session full_state (session_shutdown ?ev))"
    by (simp add: reject_new_active_instrumented_session_def session_shutdown_def blank_event_def)
  have cls: "eviction_class ?r = 2" by (simp add: apply_event_class unwrap_or_def)
  have shut: "\<not> sr_shutdown ?r"
    by (simp add: apply_event_def Let_def finish_record_shutdown unwrap_or_def)
  have times: "ss_last_observed_unix_ms (sr_summary example_active) = 2600"
    "ss_last_observed_unix_ms (sr_summary ?r) = 2700"
    by (simp_all add: example_active_def apply_event_def Let_def normalize_eq fresh_instrumented_record_def
        initial_observed_unix_ms_def blank_event_def)
  have cmp: "compare_entries (?i, example_active) (?k, ?r) = Less"
    by (simp add: compare_entries_def compare_eviction_priority_def example_active_class cls times)
      (simp add: cmp_of_def)
  have upd: "AList.update ?k ?r (st_sessions full_state) = [(?i, example_active), (?k, ?r)]"
    by (simp add: full_state_def)
  have "apply_telemetry_at full_state ?k ?ev 2700 = store_record full_state ?k ?r (st_sessions full_state)"
    using apply_telemetry_new [OF new(1) disjI2 [OF new(2)]] admitted by simp
  moreover have "st_sessions (store_record full_state ?k ?r (st_sessions full_state)) = [(?k, ?r)]"
    unfolding store_record_def enforce_session_cap_sessions
    by (subst enforce_loop.simps) (simp add: upd cmp enforce_loop_id, simp add: full_state_def new_state_def enforce_loop_id)
  ultimately show ?thesis
    using cls shut by (simp add: Let_def full_state_def example_active_class)
qed

theorem contradictory_close_evicts_active_witness:
  "map fst (st_sessions (apply_telemetry_at full_state (instrumented_session_id 8 1000)
       ((blank_event SessionClose 8 2700)\<lparr>ev_shutdown := Some False\<rparr>) 2700)) = [instrumented_session_id 8 1000]"
  using contradictory_close_evicts_active by (simp add: Let_def)

section \<open>What one event changes\<close>

lemma map_of_enforce:
  assumes "distinct_keys m" and "map_of (fst (enforce_loop cap m d)) k = Some r"
  shows "map_of m k = Some r"
  using assms enforce_loop_subset [of cap m d] by (auto intro: map_of_is_SomeI dest!: map_of_SomeD)

lemma map_of_store_record:
  "distinct_keys m \<Longrightarrow> map_of (st_sessions (store_record st k r m)) k' = Some r' \<Longrightarrow>
   map_of (AList.update k r m) k' = Some r'"
  unfolding store_record_def enforce_session_cap_sessions
  by (rule map_of_enforce [where cap = "max_tracked_sessions (st_config st)"]) auto

text \<open>A record that an event leaves under another key is the record that was there.\<close>

lemma apply_telemetry_other:
  assumes "distinct_keys (st_sessions st)" and "k' \<noteq> k"
    and "map_of (st_sessions (apply_telemetry_at st k ev received)) k' = Some r'"
  shows "map_of (st_sessions st) k' = Some r'"
proof (cases rule: telemetry_cases [where st = st and k = k and ev = ev and received = received])
  case (known r)
  show ?thesis
    using map_of_store_record [OF assms(1) assms(3) [unfolded apply_telemetry_known [OF known]]] assms(2)
    by (simp add: update_conv')
next
  case (upgrade r)
  show ?thesis
    using map_of_store_record [OF distinct_keys_delete [OF assms(1)]
        assms(3) [unfolded apply_telemetry_upgrade [OF upgrade]]] assms(2)
    by (simp add: update_conv' delete_conv' split: if_splits)
next
  case new
  show ?thesis
    using map_of_store_record [OF assms(1), of st k _ k' r'] assms(2,3)
    by (simp add: apply_telemetry_new [OF new] update_conv' split: if_splits)
qed

text \<open>The record an event starts from: the known one, the placeholder or a fresh one.\<close>

definition base_record :: "service_state \<Rightarrow> rstr \<Rightarrow> telemetry_event \<Rightarrow> i64 \<Rightarrow> session_record" where
  "base_record st k ev received =
     (case map_of (st_sessions st) k of
        Some r \<Rightarrow> r
      | None \<Rightarrow>
          (case map_of (st_sessions st) (telemetry_legacy_id ev received) of
             Some r \<Rightarrow> promote k r
           | None \<Rightarrow> fresh_instrumented_record k ev received))"

lemma apply_telemetry_own:
  assumes "distinct_keys (st_sessions st)"
    and "map_of (st_sessions (apply_telemetry_at st k ev received)) k = Some r'"
  shows "r' = apply_event (st_config st) k ev received (base_record st k ev received)"
proof (cases rule: telemetry_cases [where st = st and k = k and ev = ev and received = received])
  case (known r)
  show ?thesis
    using map_of_store_record [OF assms(1) assms(2) [unfolded apply_telemetry_known [OF known]]] known
    by (simp add: update_conv' base_record_def)
next
  case (upgrade r)
  show ?thesis
    using map_of_store_record [OF distinct_keys_delete [OF assms(1)]
        assms(2) [unfolded apply_telemetry_upgrade [OF upgrade]]] upgrade
    by (simp add: update_conv' base_record_def)
next
  case new
  then have base: "base_record st k ev received = fresh_instrumented_record k ev received"
    by (auto simp: base_record_def)
  have admitted: "\<not> fst (reject_new_active_instrumented_session st (session_shutdown ev))"
    using assms(2) new(1) by (auto simp: apply_telemetry_new [OF new])
  show ?thesis
    using map_of_store_record [OF assms(1)
        assms(2) [unfolded apply_telemetry_new [OF new] if_not_P [OF admitted]]] base
    by (simp add: update_conv')
qed

lemma apply_event_observed:
  "ss_last_observed_unix_ms (sr_summary (apply_event c k ev received r))
     = max (ss_last_observed_unix_ms (sr_summary r)) (min (ev_unix_ms ev) received)"
  by (simp add: apply_event_def Let_def normalize_eq)

text \<open>
  Observation times of a session never go back and never run ahead of the
  daemon's clock: after an event received at \<open>received\<close>, the last observation of a
  session that was and still is tracked is at least the old one, and exceeds it only up to
  \<open>received\<close>, whatever time the event itself claims.
\<close>
theorem observation_times:
  assumes "distinct (map fst (st_sessions st))"
    and "map_of (st_sessions st) k' = Some r"
    and "map_of (st_sessions (apply_telemetry_at st k ev received)) k' = Some r'"
  shows "ss_last_observed_unix_ms (sr_summary r) \<le> ss_last_observed_unix_ms (sr_summary r')
     \<and> ss_last_observed_unix_ms (sr_summary r') \<le> max (ss_last_observed_unix_ms (sr_summary r)) received"
proof (cases "k' = k")
  case False
  with apply_telemetry_other [OF assms(1) False assms(3)] assms(2) show ?thesis by simp
next
  case True
  then have "r' = apply_event (st_config st) k ev received r"
    using apply_telemetry_own [OF assms(1), of k ev received r'] assms(2,3) by (simp add: base_record_def)
  then show ?thesis by (auto simp: apply_event_observed)
qed

section \<open>Discovery against telemetry\<close>

lemma note_discovered_other:
  "map_of m k = Some r \<Longrightarrow> discovered_id m d \<noteq> k \<Longrightarrow>
   map_of (fst (note_discovered t now d (m, seen))) k = Some r"
  by (simp add: Let_def update_conv')

lemma instrumented_id_of_discovered:
  assumes "discovered_id m d = instrumented_session_id p s"
  shows "ds_pid d = p \<and> ds_started_at_unix_ms d = s"
  using assms by (auto simp: discovered_id_def Let_def split: if_splits)

lemma merge_discovered_instrumented:
  assumes "record_ok c k r" and "ss_kind (sr_summary r) = Instrumented" and "ss_pid (sr_summary r) = ds_pid d"
  shows "merge_discovered (thresholds c) d now r = r"
  using assms by (simp add: merge_discovered_def Let_def record_ok_def kind_ok_def)

lemma fold_note_discovered_instrumented:
  assumes "map_of m (instrumented_session_id p s) = Some r" and "record_ok c (instrumented_session_id p s) r"
    and "ss_kind (sr_summary r) = Instrumented" and "ss_pid (sr_summary r) = p"
  shows "map_of (fst (fold (note_discovered (thresholds c) now) ds (m, seen))) (instrumented_session_id p s) = Some r"
  using assms(1)
proof (induction ds arbitrary: m seen)
  case (Cons d ds)
  let ?k = "instrumented_session_id p s"
  have "map_of (fst (note_discovered (thresholds c) now d (m, seen))) ?k = Some r"
  proof (cases "discovered_id m d = ?k")
    case True
    with instrumented_id_of_discovered [OF True] Cons.prems assms show ?thesis
      by (simp add: Let_def update_conv' merge_discovered_instrumented)
  next
    case False
    with Cons.prems show ?thesis by (rule note_discovered_other)
  qed
  with Cons.IH show ?case
    by (cases "note_discovered (thresholds c) now d (m, seen)") simp
qed simp

text \<open>
  C6: Discovery never overwrites verified telemetry: an instrumented session filed
  under the id of its process either leaves the registry in a discovery pass
  (by age or by the cap) or comes out of it exactly as it went in, whatever
  \<open>/proc\<close> reported.
\<close>
theorem discovery_preserves_instrumented:
  assumes "state_ok st"
    and "map_of (st_sessions st) (instrumented_session_id p s) = Some r"
    and "ss_kind (sr_summary r) = Instrumented" and "ss_pid (sr_summary r) = p"
  shows "map_of (st_sessions (refresh_discovery st ds now)) (instrumented_session_id p s) \<in> {None, Some r}"
proof -
  let ?k = "instrumented_session_id p s"
  let ?ms = "fold (note_discovered (thresholds (st_config st)) now) ds (st_sessions st, [])"
  have ok: "entries_ok (record_ok (st_config st)) (st_sessions st)" using assms(1) by (simp add: state_ok_def)
  have rk: "map_of (fst ?ms) ?k = Some r"
    using fold_note_discovered_instrumented [OF assms(2) entries_okD [OF ok assms(2)] assms(3,4)] .
  have d: "distinct_keys (fst ?ms)"
    using fold_note_discovered_entries [of "st_config st" "(st_sessions st, [])" now ds] ok
    by (simp add: entries_ok_distinct)
  show ?thesis
  proof (cases "map_of (st_sessions (refresh_discovery st ds now)) ?k")
    case (Some r')
    then have "map_of (fst (enforce_loop (max_tracked_sessions (st_config st))
        (filter (retained (st_config st) (snd ?ms) now) (fst ?ms)) (st_dropped_sessions_total st))) ?k = Some r'"
      by (simp add: refresh_discovery_eq Let_def enforce_session_cap_sessions)
    moreover have "distinct_keys (filter (retained (st_config st) (snd ?ms) now) (fst ?ms))"
      using d by (rule distinct_map_filter)
    ultimately have "map_of (filter (retained (st_config st) (snd ?ms) now) (fst ?ms)) ?k = Some r'"
      by (rule map_of_enforce [rotated])
    then have "(?k, r') \<in> set (fst ?ms)" by (auto dest: map_of_SomeD)
    from map_of_is_SomeI [OF d this] rk have "r' = r" by simp
    with Some show ?thesis by simp
  qed simp
qed

lemma example_active_fields:
  "ss_kind (sr_summary example_active) = Instrumented"
  "ss_pid (sr_summary example_active) = 7"
  "ss_last_observed_unix_ms (sr_summary example_active) = 2600"
  "sr_shutdown example_active = False"
  by (simp_all add: example_active_def apply_event_def Let_def normalize_eq fresh_instrumented_record_def
      initial_observed_unix_ms_def blank_event_def finish_record_shutdown unwrap_or_def)

theorem discovery_preserves_instrumented_witness:
  "map_of (st_sessions (refresh_discovery full_state [example_discovery] 9999)) (instrumented_session_id 7 1000)
     \<in> {None, Some example_active}"
  by (rule discovery_preserves_instrumented [OF full_state_ok])
    (simp_all add: full_state_def example_active_fields)

theorem observation_times_witness:
  "let r' = apply_event (st_config full_state) (instrumented_session_id 7 1000)
              (blank_event SessionTick 7 9000) 2700 example_active
   in ss_last_observed_unix_ms (sr_summary example_active) \<le> ss_last_observed_unix_ms (sr_summary r')
     \<and> ss_last_observed_unix_ms (sr_summary r') \<le> max (ss_last_observed_unix_ms (sr_summary example_active)) 2700"
  unfolding Let_def
proof (rule observation_times [of full_state "instrumented_session_id 7 1000" _ "instrumented_session_id 7 1000"
      "blank_event SessionTick 7 9000"])
  show "distinct (map fst (st_sessions full_state))" by (simp add: full_state_def)
  show "map_of (st_sessions full_state) (instrumented_session_id 7 1000) = Some example_active"
    by (simp add: full_state_def)
  then show "map_of (st_sessions (apply_telemetry_at full_state (instrumented_session_id 7 1000)
      (blank_event SessionTick 7 9000) 2700)) (instrumented_session_id 7 1000)
    = Some (apply_event (st_config full_state) (instrumented_session_id 7 1000)
        (blank_event SessionTick 7 9000) 2700 example_active)"
    by (simp add: apply_telemetry_known store_record_def enforce_session_cap_sessions)
      (simp add: full_state_def new_state_def enforce_loop_id)
qed

section \<open>Retention\<close>

text \<open>A sighting only touches the record it is filed under.\<close>

lemma snd_note_discovered: "snd (note_discovered t now d ms) = discovered_id (fst ms) d # snd ms"
  by (cases ms) (simp add: Let_def)

lemma fold_note_seen: "set (snd ms) \<subseteq> set (snd (fold (note_discovered t now) ds ms))"
proof (induction ds arbitrary: ms)
  case (Cons d ds)
  then show ?case using snd_note_discovered [of t now d ms] by fastforce
qed simp

lemma fold_note_unseen:
  assumes "k \<notin> set (snd (fold (note_discovered t now) ds ms))"
  shows "map_of (fst (fold (note_discovered t now) ds ms)) k = map_of (fst ms) k"
  using assms
proof (induction ds arbitrary: ms)
  case (Cons d ds)
  let ?ms = "note_discovered t now d ms"
  have "set (snd ?ms) \<subseteq> set (snd (fold (note_discovered t now) ds ?ms))" by (rule fold_note_seen)
  with Cons.prems have "k \<noteq> discovered_id (fst ms) d" by (auto simp: snd_note_discovered)
  then have "map_of (fst ?ms) k = map_of (fst ms) k" by (cases ms) (simp add: Let_def update_conv')
  with Cons show ?case by simp
qed simp

text \<open>The retention periods as integers, for a validated configuration.\<close>

definition retention_ms :: "app_config \<Rightarrow> session_record \<Rightarrow> int" where
  "retention_ms c r =
     (if eviction_class r = 2 then max (3 * int (unat (cleanup_interval_ms c))) 30000
      else max (int (unat (discovery_interval_ms c))) 5000)"

lemma stale_cutoff_int:
  assumes "unat (cleanup_interval_ms c) \<le> 3000000000000000000"
  shows "stale_cutoff_ms c = max (3 * int (unat (cleanup_interval_ms c))) 30000"
proof -
  let ?x = "cleanup_interval_ms c"
  have "unat (?x * 3) = unat ?x * 3" using assms by (subst unat_mult_lem [THEN iffD1]) simp_all
  then have "unat (max (?x * 3) 30000) = max (unat ?x * 3) 30000" by (simp add: max_def word_le_nat_alt)
  moreover from this assms have "u64_as_i64 (max (?x * 3) 30000) = int (unat (max (?x * 3) 30000))"
    by (intro u64_as_i64_small) (simp add: i64_max_def)
  ultimately show ?thesis by (simp add: stale_cutoff_ms_def of_nat_max del: of_nat_unat)
qed

lemma grace_int:
  assumes "unat (discovery_interval_ms c) \<le> 9000000000000000000"
  shows "grace_ms c = max (int (unat (discovery_interval_ms c))) 5000"
proof -
  let ?x = "discovery_interval_ms c"
  have "unat (max ?x 5000) = max (unat ?x) 5000" by (simp add: max_def word_le_nat_alt)
  moreover from this assms have "u64_as_i64 (max ?x 5000) = int (unat (max ?x 5000))"
    by (intro u64_as_i64_small) (simp add: i64_max_def)
  ultimately show ?thesis by (simp add: grace_ms_def of_nat_max del: of_nat_unat)
qed

end
