(* ===== verification/Core_Properties.thy ===== *)
theory Core_Properties
  imports Registry_Policy
begin

text \<open>
  Properties of the parts every component rests on: the validated configuration
  (\<open>config.rs\<close>), health classification (\<open>protocol.rs\<close>), sanitizing of untrusted
  text and samples (\<open>sanitize.rs\<close>) and the observer identity (\<open>identity.rs\<close>).
\<close>

section \<open>Configuration and health\<close>

text \<open>The \<open>http\<close> crate as far as the default configuration needs it.\<close>

definition example_http :: http_crate where
  "example_http =
     \<lparr>header_name = (\<lambda>n. Some (to_ascii_lowercase n)), header_value_ok = (\<lambda>_. True),
      parse_uri = (\<lambda>u. if starts_with u (lit ''http://'') then Some (Some (lit ''http''), Some (drop 7 u)) else None)\<rparr>"

text \<open>
  C10: A configuration that passes \<open>validate\<close> has every limit in its documented
  range, a cleanup interval no shorter than the discovery interval, OTLP headers that
  override neither \<open>Accept\<close> nor \<open>Content-Type\<close>, no reserved OTLP resource
  attribute, and thresholds under which every critical breach is also a warning breach,
  so that health degrades in order: a session that is not even degraded breaches no
  critical threshold.
\<close>
theorem validated_config_spec:
  assumes "validate http c = Inr ()"
  shows "limits_ok c
     \<and> discovery_interval_ms c \<le> cleanup_interval_ms c
     \<and> (\<forall>(name, value) \<in> set (otlp_headers (mc_otlp (metrics_cfg c))).
          header_name http name \<notin> {None, Some (lit ''accept''), Some (lit ''content-type'')}
          \<and> header_value_ok http value)
     \<and> (\<forall>(name, value) \<in> set (resource_attributes (mc_otlp (metrics_cfg c))).
          \<not> is_reserved_otlp_resource_attribute_key name)
     \<and> (\<forall>m. breaches_critical m (thresholds c) \<longrightarrow> breaches_warning m (thresholds c))
     \<and> (\<forall>m. classify_health Instrumented m (thresholds c) = Ok
          \<longleftrightarrow> \<not> breaches_warning m (thresholds c))"
proof -
  have crit: "breaches_critical m (thresholds c) \<Longrightarrow> breaches_warning m (thresholds c)" for m
    by (rule critical_imp_warning [OF validate_thresholdsD [OF assms]])
  then have "classify_health Instrumented m (thresholds c) = Ok \<longleftrightarrow> \<not> breaches_warning m (thresholds c)" for m
    by (auto simp: classify_health_Instrumented)
  moreover have "\<forall>(name, value) \<in> set (otlp_headers (mc_otlp (metrics_cfg c))).
      header_name http name \<notin> {None, Some (lit ''accept''), Some (lit ''content-type'')} \<and> header_value_ok http value"
    using validate_otlp_headersD [OF assms] by fastforce
  moreover have "\<forall>(name, value) \<in> set (resource_attributes (mc_otlp (metrics_cfg c))).
      \<not> is_reserved_otlp_resource_attribute_key name"
    using validate_otlp_attributesD [OF assms] by fastforce
  ultimately show ?thesis
    using crit validate_limitsD [OF assms] validate_cleanupD [OF assms] by blast
qed

theorem validated_config_spec_witness:
  "limits_ok default_config \<and> discovery_interval_ms default_config \<le> cleanup_interval_ms default_config"
  using validated_config_spec [OF default_config_valid [of example_http]] by blast

text \<open>
  \<open>validate\<close> does not bound the cleanup interval from above, and
  \<open>cleanup_interval_ms * 3\<close> cast to \<open>i64\<close> can be negative: such a configuration is
  accepted, and then an active instrumented session seen this very millisecond
  counts as stale as soon as discovery misses it.
\<close>
theorem cleanup_interval_overflow:
  "let c = default_config\<lparr>cleanup_interval_ms := 3500000000000000000\<rparr> in
     validate http c = Inr ()
     \<and> stale_cutoff_ms c < 0
     \<and> \<not> retained c [] 2600 (instrumented_session_id 7 1000, example_active)"
proof -
  let ?c = "default_config\<lparr>cleanup_interval_ms := 3500000000000000000\<rparr>"
  have "limits_ok ?c" "thresholds_ok (thresholds ?c)"
    using validate_limitsD [OF default_config_valid] validate_thresholdsD [OF default_config_valid]
    by (simp_all add: limits_ok_def default_config_def)
  then have v: "validate http ?c = Inr ()"
    using default_config_valid [of http]
    by (simp add: validate_def validate_limits_iff validate_thresholds_iff) (simp add: default_config_def)
  have s: "stale_cutoff_ms ?c = - 7946744073709551616"
    by (simp add: stale_cutoff_ms_def max_def u64_as_i64_def wrap_i64_def)
  have "\<not> retained ?c [] 2600 (instrumented_session_id 7 1000, example_active)"
    by (simp add: retained_def Let_def example_active_fields s wrap_i64_def)
  with v s show ?thesis by (simp add: Let_def)
qed

section \<open>Untrusted text\<close>

text \<open>
  Text that came from a peer is stored only in clean form: no control characters,
  no white space but single inner blanks, never longer than the bound; clean text
  is stored as it is, and sanitizing again changes nothing.
\<close>
theorem sanitize_text_spec:
  "(case sanitize_text v n of
      None \<Rightarrow> \<not> (clean_text v \<and> length v \<le> n)
    | Some s \<Rightarrow> clean_text s \<and> length s \<le> n \<and> sanitize_text s n = Some s
        \<and> (clean_text v \<and> length v \<le> n \<longrightarrow> s = v))
   \<and> clean_text (sanitize_cmdline v) \<and> length (sanitize_cmdline v) \<le> 1024"
proof (cases "sanitize_text v n")
  case None
  then show ?thesis using sanitize_text_id [of v n] sanitize_cmdline_clean [of v] by auto
next
  case (Some s)
  from sanitize_text_clean_and_bounded [OF this] sanitize_text_idem [OF this]
  show ?thesis using Some sanitize_text_id [of v n] sanitize_cmdline_clean [of v] by simp
qed

theorem sanitize_text_spec_witness:
  "sanitize_text (lit ''a b'') 8 = Some (lit ''a b'')"
proof -
  have "clean_text (lit ''a b'')"
    by (simp add: clean_text_def lit_def clean_char_def is_control_def is_whitespace_def)
  with sanitize_text_spec [of "lit ''a b''" 8] show ?thesis by (auto split: option.splits)
qed

text \<open>
  A persisted sample that is read back keeps its identity exactly (session id, pid,
  start and recording time) or is rejected: what is accepted is instrumented, has a
  positive pid and a clean session id of at most 128 characters, and passes the
  sanitizer again unchanged.
\<close>
theorem sanitize_history_sample_spec:
  assumes "sanitize_history_sample s = Some t"
  shows "hs_session_id t = hs_session_id s \<and> hs_pid t = hs_pid s
     \<and> hs_recorded_at_unix_ms t = hs_recorded_at_unix_ms s
     \<and> hs_started_at_unix_ms t = hs_started_at_unix_ms s
     \<and> hs_kind t = Instrumented \<and> 0 < hs_pid t
     \<and> clean_text (hs_session_id t) \<and> length (hs_session_id t) \<le> 128
     \<and> sanitize_history_sample t = Some t"
  using sanitize_history_sample_identity [OF assms] sanitize_history_sample_idem [OF assms] by simp

definition example_sample :: history_sample where
  "example_sample =
     \<lparr>hs_observer = None, hs_recorded_at_unix_ms = 5000, hs_session_id = lit ''instrumented:1000:7'',
      hs_display_session_id = None, hs_pid = 7, hs_kind = Instrumented, hs_health = Ok,
      hs_started_at_unix_ms = 1000, hs_counter_reset_unix_ms = None, hs_bind_addr = None,
      hs_udp_port = Some 60001, hs_client_addr = None, hs_current_client_addr = None,
      hs_metrics = default_metrics\<rparr>"

lemma example_sample_clean: "clean_text (hs_session_id example_sample)"
  by (simp add: example_sample_def clean_text_def lit_def clean_char_def is_control_def is_whitespace_def)

theorem sanitize_history_sample_spec_witness:
  "\<exists>t. sanitize_history_sample example_sample = Some t \<and> hs_session_id t = lit ''instrumented:1000:7''"
proof -
  have "text_is_exact_and_bounded (hs_session_id example_sample) 128"
    using example_sample_clean by (simp add: text_is_exact_iff) (simp add: example_sample_def)
  then obtain t where t: "sanitize_history_sample example_sample = Some t"
    by (auto simp: sanitize_history_sample_def Let_def example_sample_def)
  with sanitize_history_sample_spec [OF t] show ?thesis by (simp add: example_sample_def)
qed

section \<open>Observer identity\<close>

text \<open>
  The machine id reaches the observer identity only through the first 16 bytes
  of its digest: two readable machine ids with the same digest prefix give the same
  identity, two with different prefixes give different ones, whatever else the two
  hosts have in their other id files.
\<close>
theorem observer_identity_is_digest:
  assumes "sanitize_identity_value a = Inr ta" and "sanitize_identity_value b = Inr tb"
  shows "discover_observer_info sha256 h (ReadOk a # r) = discover_observer_info sha256 h (ReadOk b # r')
     \<longleftrightarrow> take 16 (sha256 (utf8_encode ta)) = take 16 (sha256 (utf8_encode tb))"
  using assms
  by (auto simp: discover_observer_info_def derive_stable_system_id_def Let_def dest: hex_bytes_inj)

theorem observer_identity_is_digest_witness:
  "let sha = (\<lambda>x. x) in
   discover_observer_info sha None [ReadOk (lit ''a1'')] = discover_observer_info sha None [ReadOk (lit ''b1''), ReadFailed]
     \<longleftrightarrow> take 16 (utf8_encode (lit ''a1'')) = take 16 (utf8_encode (lit ''b1''))"
  unfolding Let_def
  by (rule observer_identity_is_digest)
    (simp_all add: sanitize_identity_value_def Let_def lit_def trim_def trim_start_def trim_end_def
      is_whitespace_def utf8_len_def utf8_len_char_def utf8_encode_def utf8_encode_char_def
      is_ascii_control_def is_ascii_whitespace_def)

end
