(* ===== verification/Registry_Lifecycle.thy ===== *)
theory Registry_Lifecycle
  imports Registry_Policy
begin

text \<open>
  The life of one session in the registry of \<open>crates/moshwatchd/src/state.rs\<close>:
  discovered, upgraded by its first telemetry, sampled, reset when its counters
  regress, and dropped once it has disappeared for long enough.
\<close>

section \<open>Disappearance\<close>

lemma retained_unseen:
  assumes "unat (cleanup_interval_ms c) \<le> 3000000000000000000"
    and "unat (discovery_interval_ms c) \<le> 9000000000000000000"
    and "in_i64 (now - ss_last_observed_unix_ms (sr_summary r))" and "k \<notin> set seen"
  shows "retained c seen now (k, r)
     \<longleftrightarrow> now - ss_last_observed_unix_ms (sr_summary r) < retention_ms c r"
  using assms
  by (auto simp: retained_def Let_def wrap_i64_id retention_ms_def eviction_class_def stale_cutoff_int
      grace_int split: session_kind.splits)

lemma map_of_filter_key:
  "distinct_keys m \<Longrightarrow> map_of (filter P m) k =
     (case map_of m k of Some v \<Rightarrow> if P (k, v) then Some v else None | None \<Rightarrow> None)"
  by (induction m) (auto split: option.splits simp: map_of_eq_None_iff)

lemma discovered_id_cases:
  "discovered_id m d = instrumented_session_id (ds_pid d) (ds_started_at_unix_ms d)
   \<or> discovered_id m d = legacy_session_id (ds_pid d) (ds_started_at_unix_ms d)"
  by (simp add: discovered_id_def Let_def)

lemma fold_note_seen_ids:
  assumes "\<forall>d \<in> set ds. k \<noteq> instrumented_session_id (ds_pid d) (ds_started_at_unix_ms d)
                   \<and> k \<noteq> legacy_session_id (ds_pid d) (ds_started_at_unix_ms d)"
  shows "k \<in> set (snd (fold (note_discovered t now) ds ms)) \<longleftrightarrow> k \<in> set (snd ms)"
  using assms
proof (induction ds arbitrary: ms)
  case (Cons d ds)
  then have "k \<noteq> discovered_id (fst ms) d" using discovered_id_cases [of "fst ms" d] by auto
  with Cons show ?case by (simp add: snd_note_discovered)
qed simp

lemma fold_note_length:
  "distinct_keys (fst ms) \<Longrightarrow>
   length (fst (fold (note_discovered t now) ds ms)) \<le> length (fst ms) + length ds"
proof (induction ds arbitrary: ms)
  case (Cons d ds)
  let ?ms = "note_discovered t now d ms"
  have "distinct_keys (fst ?ms)" "length (fst ?ms) \<le> Suc (length (fst ms))"
    using Cons.prems by (cases ms; simp add: Let_def length_update)+
  with Cons.IH [of ?ms] show ?case by simp
qed simp

text \<open>
  A session that a discovery pass does not see leaves the registry once it was
  last observed \<open>max(3 * cleanup_interval, 30 s)\<close> ago if it is an active
  instrumented one, and \<open>max(discovery_interval, 5 s)\<close> ago if it is a legacy session
  or has shut down; until then it stays, unchanged, unless the session cap is
  exceeded.
\<close>
theorem unseen_session_retention:
  assumes "state_ok st" and "map_of (st_sessions st) k = Some r"
    and "unat (cleanup_interval_ms (st_config st)) \<le> 3000000000000000000"
    and "unat (discovery_interval_ms (st_config st)) \<le> 9000000000000000000"
    and "in_i64 (now - ss_last_observed_unix_ms (sr_summary r))"
    and "\<forall>d \<in> set ds. k \<noteq> instrumented_session_id (ds_pid d) (ds_started_at_unix_ms d)
                   \<and> k \<noteq> legacy_session_id (ds_pid d) (ds_started_at_unix_ms d)"
  shows "let age = now - ss_last_observed_unix_ms (sr_summary r);
             st' = refresh_discovery st ds now in
       (retention_ms (st_config st) r \<le> age \<longrightarrow> map_of (st_sessions st') k = None)
     \<and> (age < retention_ms (st_config st) r \<longrightarrow>
          length (st_sessions st) + length ds \<le> max_tracked_sessions (st_config st) \<longrightarrow>
          map_of (st_sessions st') k = Some r)"
proof -
  let ?c = "st_config st"
  let ?ms = "fold (note_discovered (thresholds ?c) now) ds (st_sessions st, [])"
  let ?F = "filter (retained ?c (snd ?ms) now) (fst ?ms)"
  have unseen: "k \<notin> set (snd ?ms)" using fold_note_seen_ids [OF assms(6)] by simp
  then have rk: "map_of (fst ?ms) k = Some r" using fold_note_unseen [OF unseen] assms(2) by simp
  have d: "distinct_keys (fst ?ms)"
    using fold_note_discovered_entries [of ?c "(st_sessions st, [])" now ds] assms(1)
    by (simp add: entries_ok_distinct state_ok_def)
  then have dF: "distinct_keys ?F" by (rule distinct_map_filter)
  have F: "map_of ?F k = (if retained ?c (snd ?ms) now (k, r) then Some r else None)"
    using map_of_filter_key [OF d] rk by simp
  have ret: "retained ?c (snd ?ms) now (k, r)
      \<longleftrightarrow> now - ss_last_observed_unix_ms (sr_summary r) < retention_ms ?c r"
    using assms(3-5) unseen by (rule retained_unseen)
  have "distinct_keys (fst (st_sessions st, [] :: rstr list))"
    using assms(1) by (simp add: state_ok_def entries_ok_def)
  note fold_note_length [OF this, of "thresholds ?c" now ds]
  from order_trans [OF length_filter_le this] have len: "length ?F \<le> length (st_sessions st) + length ds"
    by simp
  have sub: "map_of (st_sessions (refresh_discovery st ds now)) k = Some r' \<Longrightarrow> map_of ?F k = Some r'" for r'
    using map_of_enforce [OF dF] by (simp add: refresh_discovery_eq Let_def enforce_session_cap_sessions)
  have fits: "st_sessions (refresh_discovery st ds now) = ?F" if "length ?F \<le> max_tracked_sessions ?c"
    using that by (simp add: refresh_discovery_eq Let_def enforce_session_cap_sessions enforce_loop_id)
  show ?thesis
    unfolding Let_def using sub fits len F ret
    by (cases "map_of (st_sessions (refresh_discovery st ds now)) k") auto
qed

theorem unseen_session_retention_witness:
  "map_of (st_sessions (refresh_discovery full_state [] 32600)) (instrumented_session_id 7 1000) = None
   \<and> map_of (st_sessions (refresh_discovery full_state [] 32599)) (instrumented_session_id 7 1000) = Some example_active"
proof -
  have look: "map_of (st_sessions full_state) (instrumented_session_id 7 1000) = Some example_active"
    "length (st_sessions full_state) = 1" "max_tracked_sessions (st_config full_state) = 1"
    by (simp_all add: full_state_def new_state_def)
  have bounds: "unat (cleanup_interval_ms (st_config full_state)) \<le> 3000000000000000000"
    "unat (discovery_interval_ms (st_config full_state)) \<le> 9000000000000000000"
    by (simp_all add: full_state_def new_state_def default_config_def)
  have keep: "retention_ms (st_config full_state) example_active = 30000"
    by (simp add: retention_ms_def example_active_class) (simp add: full_state_def new_state_def default_config_def)
  have "in_i64 (32600 - 2600)" "in_i64 (32599 - 2600)" by (simp_all add: in_i64_def i64_min_def i64_max_def)
  with unseen_session_retention [OF full_state_ok look(1) bounds, of 32600 "[]"]
    unseen_session_retention [OF full_state_ok look(1) bounds, of 32599 "[]"]
  show ?thesis by (simp add: Let_def example_active_fields keep look)
qed

section \<open>Upgrade of a placeholder\<close>

lemma apply_event_identity [simp]:
  "ss_session_id (sr_summary (apply_event c k ev received r)) = k"
  "ss_kind (sr_summary (apply_event c k ev received r)) = Instrumented"
  "ss_pid (sr_summary (apply_event c k ev received r)) = ev_pid ev"
  "ss_started_at_unix_ms (sr_summary (apply_event c k ev received r)) = event_started_at ev received"
  by (simp_all add: apply_event_def Let_def)

lemma reset_summary_fields [simp]:
  "ss_bind_addr (sr_summary (reset_on_regression r ev t)) = ss_bind_addr (sr_summary r)"
  "ss_udp_port (sr_summary (reset_on_regression r ev t)) = ss_udp_port (sr_summary r)"
  "ss_cmdline (sr_summary (reset_on_regression r ev t)) = ss_cmdline (sr_summary r)"
  by (simp_all add: reset_on_regression_def)

lemma apply_client_peer_endpoints [simp]:
  "ss_bind_addr (apply_client_peer s a t) = ss_bind_addr s"
  "ss_udp_port (apply_client_peer s a t) = ss_udp_port s"
  "ss_cmdline (apply_client_peer s a t) = ss_cmdline s"
  by (simp_all add: apply_client_peer_def Let_def split: option.split)

lemma sample_endpoints [simp]:
  "ss_bind_addr (sr_summary (record_sample r ev t secs)) = ss_bind_addr (sr_summary r)"
  "ss_udp_port (sr_summary (record_sample r ev t secs)) = ss_udp_port (sr_summary r)"
  "ss_cmdline (sr_summary (record_sample r ev t secs)) = ss_cmdline (sr_summary r)"
  by (simp_all add: record_sample_def Let_def)

lemma finish_endpoints [simp]:
  "ss_bind_addr (sr_summary (finish_record r ev th)) = ss_bind_addr (sr_summary r)"
  "ss_udp_port (sr_summary (finish_record r ev th)) = ss_udp_port (sr_summary r)"
  "ss_cmdline (sr_summary (finish_record r ev th)) = ss_cmdline (sr_summary r)"
  by (simp_all add: finish_record_def Let_def split: option.split)

lemma merge_identity_endpoints [simp]:
  "ss_bind_addr (merge_identity s k ev received t) = opt_or (sanitize_endpoint (ev_bind_addr ev)) (ss_bind_addr s)"
  "ss_udp_port (merge_identity s k ev received t) = opt_or (ev_udp_port ev) (ss_udp_port s)"
  "ev_cmdline ev = None \<Longrightarrow> ss_cmdline (merge_identity s k ev received t) = ss_cmdline s"
  by (simp_all add: merge_identity_def Let_def split: option.split)

lemma apply_event_endpoints:
  "ss_bind_addr (sr_summary (apply_event c k ev received r))
     = opt_or (sanitize_endpoint (ev_bind_addr ev)) (ss_bind_addr (sr_summary r))"
  "ss_udp_port (sr_summary (apply_event c k ev received r))
     = opt_or (ev_udp_port ev) (ss_udp_port (sr_summary r))"
  "ev_cmdline ev = None \<Longrightarrow>
   ss_cmdline (sr_summary (apply_event c k ev received r)) = ss_cmdline (sr_summary r)"
  by (simp_all add: apply_event_def Let_def)

text \<open>
  The first telemetry of a discovered session upgrades its placeholder in place:
  the legacy entry is gone, the instrumented one carries on with the buffers it
  had and keeps the discovered address, port and command line where the event
  brings none, no session is dropped and the number of sessions is unchanged.
\<close>
theorem placeholder_upgrade:
  assumes "state_ok st"
    and "map_of (st_sessions st) (telemetry_legacy_id ev received) = Some r"
    and "map_of (st_sessions st) k = None" and "k \<noteq> telemetry_legacy_id ev received"
  shows "let st' = apply_telemetry_at st k ev received;
             r' = apply_event (st_config st) k ev received (promote k r) in
       map_of (st_sessions st') (telemetry_legacy_id ev received) = None
     \<and> map_of (st_sessions st') k = Some r'
     \<and> ss_kind (sr_summary r') = Instrumented
     \<and> ss_udp_port (sr_summary r') = opt_or (ev_udp_port ev) (ss_udp_port (sr_summary r))
     \<and> ss_bind_addr (sr_summary r') = opt_or (sanitize_endpoint (ev_bind_addr ev)) (ss_bind_addr (sr_summary r))
     \<and> (ev_cmdline ev = None \<longrightarrow> ss_cmdline (sr_summary r') = ss_cmdline (sr_summary r))
     \<and> length (st_sessions st') = length (st_sessions st)
     \<and> st_dropped_sessions_total st' = st_dropped_sessions_total st"
proof -
  let ?l = "telemetry_legacy_id ev received" and ?m = "st_sessions st"
  let ?r' = "apply_event (st_config st) k ev received (promote k r)"
  let ?m' = "AList.update k ?r' (AList.delete ?l ?m)"
  have d: "distinct_keys ?m" and cap: "length ?m \<le> max_tracked_sessions (st_config st)"
    using assms(1) by (auto simp: state_ok_def entries_ok_def)
  have len: "length ?m' = length ?m"
    using length_delete_one [OF d map_of_SomeD [OF assms(2)]] d assms(3,4)
    by (simp add: length_update delete_conv')
  have st': "st_sessions (apply_telemetry_at st k ev received) = ?m'"
    "st_dropped_sessions_total (apply_telemetry_at st k ev received) = st_dropped_sessions_total st"
    using cap len unfolding apply_telemetry_upgrade [OF assms(3,4,2)] store_record_def enforce_session_cap_sessions
    by (simp_all add: enforce_loop_id)
  show ?thesis
    unfolding Let_def st' len using assms(4)
    by (simp add: update_conv' delete_conv' apply_event_endpoints promote_def)
qed

text \<open>A registry that holds one discovered session.\<close>

definition discovered_state :: service_state where
  "discovered_state = refresh_discovery (new_state default_config) [example_discovery] 1500"

lemma discovered_state_ok: "state_ok discovered_state"
  unfolding discovered_state_def by (intro refresh_discovery_state_ok state_ok_new)

lemma discovered_state_sessions:
  "st_sessions discovered_state
     = [(legacy_session_id 7 1000,
         merge_discovered default_thresholds example_discovery 1500
           (fresh_legacy_record (legacy_session_id 7 1000) example_discovery 1500))]"
  by (simp add: discovered_state_def refresh_discovery_eq Let_def new_state_def example_discovery_def
      discovered_id_def contains_key_def enforce_session_cap_sessions default_config_def retained_def enforce_loop_id)

theorem placeholder_upgrade_witness:
  "let st' = apply_telemetry_at discovered_state (instrumented_session_id 7 1000) (blank_event SessionOpen 7 1600) 1600 in
     map_of (st_sessions st') (legacy_session_id 7 1000) = None
     \<and> (\<exists>r'. map_of (st_sessions st') (instrumented_session_id 7 1000) = Some r'
           \<and> ss_kind (sr_summary r') = Instrumented \<and> ss_udp_port (sr_summary r') = Some 60001)
     \<and> length (st_sessions st') = 1"
proof -
  let ?ev = "blank_event SessionOpen 7 1600"
  have l: "telemetry_legacy_id ?ev 1600 = legacy_session_id 7 1000"
    by (simp add: telemetry_legacy_id_def event_started_at_def blank_event_def unwrap_or_def)
  have "ev_udp_port ?ev = None" by (simp add: blank_event_def)
  then show ?thesis
    using placeholder_upgrade [OF discovered_state_ok, where k = "instrumented_session_id 7 1000"
        and ev = ?ev and received = 1600, unfolded l discovered_state_sessions Let_def]
    by (simp add: Let_def opt_or_def merge_discovered_def fresh_legacy_record_def example_discovery_def)
qed

end
