(* ===== verification/Registry_Windows.thy ===== *)
theory Registry_Windows
  imports Registry_Policy
begin

text \<open>
  What the sample buffers and the retransmit windows of
  \<open>crates/moshwatchd/src/state.rs\<close> promise: the retention window, the reset after a
  counter regression, when a window counts as complete and what its percentage
  and breakdown say.
\<close>

section \<open>Retention of samples\<close>

lemma reset_on_regression_clears:
  "metrics_regressed (ss_metrics (sr_summary r)) ev \<Longrightarrow> sr_history (reset_on_regression r ev t) = []"
  by (simp add: reset_on_regression_def)

text \<open>The history that a sample is added to, and the times it leaves.\<close>

lemma apply_event_times:
  "map mp_unix_ms (sr_history (apply_event c k ev received r))
     = (let t = normalize_event_unix_ms (sr_summary r) (ev_unix_ms ev) received
        in trim_times (upsert_time (map mp_unix_ms (sr_history (reset_on_regression r ev t))) t) (history_secs c))"
  by (simp add: apply_event_def Let_def record_sample_times)

text \<open>
  After an event the history ends with the sample of that event, covers only
  instants within \<open>history_secs\<close> before it in strictly increasing order, and holds
  nothing else than that sample when one of the event's counters fell below the
  recorded one.
\<close>
theorem event_history_window:
  assumes "buffers_ok r"
    and "t = max (ss_last_observed_unix_ms (sr_summary r)) (min (ev_unix_ms ev) received)"
    and "cutoff_in_range t (history_secs c)"
  shows "let h = map mp_unix_ms (sr_history (apply_event c k ev received r)) in
       h \<noteq> [] \<and> last h = t \<and> sorted_wrt (<) h
     \<and> (\<forall>u \<in> set h. t - int (unat (history_secs c)) * 1000 \<le> u \<and> u \<le> t)
     \<and> (metrics_regressed (ss_metrics (sr_summary r)) ev \<longrightarrow> h = [t])"
proof -
  let ?r1 = "reset_on_regression r ev t"
  let ?u = "upsert_time (map mp_unix_ms (sr_history ?r1)) t"
  let ?h = "trim_times ?u (history_secs c)"
  have t: "normalize_event_unix_ms (sr_summary r) (ev_unix_ms ev) received = t"
    by (simp add: normalize_eq assms(2))
  have h: "map mp_unix_ms (sr_history (apply_event c k ev received r)) = ?h"
    by (simp add: apply_event_times Let_def t)
  have le: "ss_last_observed_unix_ms (sr_summary r) \<le> t" using assms(2) by simp
  note buf = reset_on_regression_buffers [OF assms(1) le, of ev]
  have "map mp_unix_ms (sr_history ?r1) = [] \<or> last (map mp_unix_ms (sr_history ?r1)) \<le> t"
    using buf(3) by (cases "sr_history ?r1 = []") (simp_all add: last_map)
  with buf(2) have sorted: "sorted_wrt (<) ?u" by (rule sorted_upsert_time)
  have ne: "?u \<noteq> []" and last: "last ?u = t" by simp_all
  have range: "cutoff_in_range (last ?u) (history_secs c)" using assms(3) last by simp
  note win = trim_times_window [OF ne range]
  have "metrics_regressed (ss_metrics (sr_summary r)) ev \<Longrightarrow> ?h = [t]"
    using win(1) last_trim_times [OF win(1)]
    by (auto simp: reset_on_regression_clears upsert_time_def trim_times_def trim_history_def Let_def
        split: if_splits)
  then show ?thesis
    unfolding h Let_def
    using win last_trim_times [OF win(1)] sorted_trim_times [OF sorted] sorted last by auto
qed

theorem event_history_window_witness:
  "let h = map mp_unix_ms (sr_history (apply_event default_config (instrumented_session_id 7 1000)
         (blank_event SessionTick 7 5000) 5001 example_active)) in
       h \<noteq> [] \<and> last h = 5000 \<and> sorted_wrt (<) h"
proof -
  have "buffers_ok example_active"
    using example_active_ok [of default_config] by (simp add: record_ok_def default_config_def)
  moreover have "5000 = max (ss_last_observed_unix_ms (sr_summary example_active))
      (min (ev_unix_ms (blank_event SessionTick 7 5000)) 5001)"
    by (simp add: example_active_fields blank_event_def)
  moreover have "cutoff_in_range 5000 (history_secs default_config)"
    by (simp add: cutoff_in_range_def default_config_def in_i64_def i64_min_def i64_max_def)
  ultimately show ?thesis
    using event_history_window [of example_active 5000 "blank_event SessionTick 7 5000" 5001 default_config]
    unfolding Let_def by blast
qed

section \<open>The retransmit window\<close>

lemma window_baseline_None:
  assumes "\<forall>s \<in> set cs. in_i64 (cs_unix_ms (last cs) - cs_unix_ms s)"
  shows "window_baseline cs w = None \<longleftrightarrow> (\<forall>s \<in> set cs. cs_unix_ms (last cs) - cs_unix_ms s < w)"
  using assms by (auto simp: window_baseline_def find_None_iff wrap_i64_id not_le)

lemma rw_complete_simps [simp]:
  "rw_complete (unknown_window b) = b" "rw_pct (unknown_window b) = None"
  "rw_complete (window_from_deltas u r e)"
  by (simp_all add: unknown_window_def window_from_deltas_def Let_def)

lemma retransmit_pct_complete:
  "cs \<noteq> [] \<Longrightarrow> rw_complete (retransmit_pct cs w) \<longleftrightarrow> window_baseline cs w \<noteq> None"
  by (simp add: retransmit_pct_def Let_def split: option.split)

lemma retransmit_pct_Some:
  assumes "rw_pct (retransmit_pct cs w) = Some p"
  obtains u r e where "retransmit_pct cs w = window_from_deltas u r e"
  using assms by (auto simp: retransmit_pct_def Let_def split: if_splits option.splits)

lemma saturating_add_ge: "b \<le> u64_saturating_add a b" "a \<le> u64_saturating_add a b"
  using unat_u64_bound [of a] unat_u64_bound [of b]
  by (simp_all add: word_le_nat_alt unat_u64_saturating_add)

lemma window_from_deltas_pct:
  assumes "rw_pct (window_from_deltas u r e) = Some p"
  shows "\<exists>t. rb_transmissions_total (rw_breakdown (window_from_deltas u r e)) = Some t \<and> t \<noteq> 0
     \<and> rb_retransmits_total (rw_breakdown (window_from_deltas u r e)) = Some r
     \<and> t = u64_saturating_add (u64_saturating_add u r) e \<and> r \<le> t
     \<and> (unat t < 70368744177664 \<longrightarrow> (\<exists>q. p = F64_Fin q \<and> 0 \<le> q \<and> q \<le> 100))"
proof -
  let ?t = "u64_saturating_add (u64_saturating_add u r) e"
  have t: "?t \<noteq> 0" and p: "p = f64_div (f64_mul (f64_of_u64 r) (F64_Fin 100)) (f64_of_u64 ?t)"
    using assms by (auto simp: window_from_deltas_def Let_def split: if_splits)
  have r: "r \<le> ?t" using saturating_add_ge order_trans by blast
  moreover have "0 < ?t" using t by (simp add: word_neq_0_conv)
  ultimately have "unat ?t < 70368744177664 \<longrightarrow> (\<exists>q. p = F64_Fin q \<and> 0 \<le> q \<and> q \<le> 100)"
    using f64_percentage_bounds [of r ?t] p by simp
  with t r show ?thesis by (simp add: window_from_deltas_def Let_def)
qed


text \<open>Two samples a minute apart: 400 updates and 100 retransmissions.\<close>

definition two_samples :: "counter_sample list" where
  "two_samples =
     [\<lparr>cs_unix_ms = 1000, cs_state_updates_tx_total = Some 100, cs_retransmits_total = Some 10,
       cs_empty_acks_tx_total = None\<rparr>,
      \<lparr>cs_unix_ms = 61000, cs_state_updates_tx_total = Some 500, cs_retransmits_total = Some 110,
       cs_empty_acks_tx_total = None\<rparr>]"


text \<open>The same window as the code computes it: 20 per cent.\<close>

lemma two_samples_window: "retransmit_pct two_samples 60000 = window_from_deltas 400 100 0"
  by (simp add: retransmit_pct_def window_baseline_def two_samples_def Let_def wrap_i64_def
      u64_saturating_sub_def opt_u64_or_0_def)

lemma two_samples_pct: "rw_pct (window_from_deltas 400 100 0) = Some (F64_Fin 20)"
  using f64_round_of_nat [of 10000] f64_round_of_nat [of 20]
  by (simp add: window_from_deltas_def Let_def u64_saturating_add_def f64_of_u64_exact)

end
