(* ===== verification/Registry_Readers.thy ===== *)
theory Registry_Readers
  imports Registry_Policy
begin

text \<open>
  The readers of \<open>crates/moshwatchd/src/state.rs\<close> and the role of the hash map's
  iteration order: the export is the prefix of the full listing with exact
  counts, the listing is ordered, ageing only ever worsens health, and two
  registries with the same entries in different iteration orders behave alike
  under every operation.
\<close>

section \<open>Iteration order\<close>

definition same_registry :: "service_state \<Rightarrow> service_state \<Rightarrow> bool" where
  "same_registry a b \<longleftrightarrow>
     st_config a = st_config b
     \<and> st_dropped_sessions_total a = st_dropped_sessions_total b
     \<and> mset (st_sessions a) = mset (st_sessions b)
     \<and> entries_ok keyed (st_sessions a) \<and> entries_ok keyed (st_sessions b)"

lemma mset_update_cong:
  assumes "mset m = mset m'" and "distinct_keys m"
  shows "mset (AList.update k v m) = mset (AList.update k v m')"
proof -
  have "distinct_keys m'" using assms distinct_keys_mset by auto
  with assms show ?thesis by (simp add: mset_update mset_delete)
qed

lemma mset_delete_cong: "mset m = mset m' \<Longrightarrow> mset (AList.delete k m) = mset (AList.delete k m')"
  by (simp add: mset_delete)

lemma entries_ok_mset: "mset m = mset m' \<Longrightarrow> entries_ok P m = entries_ok P m'"
  using distinct_keys_mset [of m m'] mset_eq_setD [of m m'] by (simp add: entries_ok_def)

lemma same_registry_cap:
  assumes "same_registry a b"
  shows "same_registry (enforce_session_cap a) (enforce_session_cap b)"
proof -
  have "mset (st_sessions a) = mset (st_sessions b)" "entries_ok keyed (st_sessions a)"
    using assms by (auto simp: same_registry_def)
  note enforce_loop_mset_cong [OF this]
  with assms show ?thesis
    by (simp add: same_registry_def enforce_session_cap_sessions enforce_loop_entries)
qed

lemma same_registry_lookup: "same_registry a b \<Longrightarrow> map_of (st_sessions a) = map_of (st_sessions b)"
  by (rule map_of_mset_cong) (auto simp: same_registry_def entries_ok_def)

lemma same_registry_reject:
  assumes "same_registry a b"
  shows "fst (reject_new_active_instrumented_session a s) = fst (reject_new_active_instrumented_session b s)"
    and "same_registry (snd (reject_new_active_instrumented_session a s))
           (snd (reject_new_active_instrumented_session b s))"
proof -
  have m: "mset (st_sessions a) = mset (st_sessions b)" and ok: "entries_ok keyed (st_sessions a)"
    using assms by (auto simp: same_registry_def)
  have "min_by compare_entries (st_sessions a) = min_by compare_entries (st_sessions b)"
    using eviction.min_by_cong_mset [OF m] keyed_distinct [OF ok] by simp
  moreover have "length (st_sessions a) = length (st_sessions b)" using m by (metis size_mset)
  ultimately show
    "fst (reject_new_active_instrumented_session a s) = fst (reject_new_active_instrumented_session b s)"
    "same_registry (snd (reject_new_active_instrumented_session a s))
       (snd (reject_new_active_instrumented_session b s))"
    using assms
    by (auto simp: reject_new_active_instrumented_session_def same_registry_def split: option.splits)
qed

lemma same_registry_store:
  assumes "same_registry a b" and "mset m = mset m'" and "entries_ok keyed m" and "keyed k r"
  shows "same_registry (store_record a k r m) (store_record b k r m')"
proof -
  have "mset (AList.update k r m) = mset (AList.update k r m')"
    using assms(2,3) by (intro mset_update_cong) (simp_all add: entries_ok_distinct)
  then show ?thesis
    unfolding store_record_def using assms
    by (intro same_registry_cap)
      (auto simp: same_registry_def entries_intros entries_ok_mset [OF assms(2), symmetric])
qed

lemma same_registry_telemetry:
  assumes "same_registry a b"
  shows "same_registry (apply_telemetry_at a k ev received) (apply_telemetry_at b k ev received)"
proof -
  have m: "mset (st_sessions a) = mset (st_sessions b)" and ok: "entries_ok keyed (st_sessions a)"
    and c: "st_config a = st_config b"
    using assms by (auto simp: same_registry_def)
  note look = same_registry_lookup [OF assms]
  show ?thesis
  proof (cases rule: telemetry_cases [where st = a and k = k and ev = ev and received = received])
    case (known r)
    with look m ok c show ?thesis
      by (auto simp: apply_telemetry_known intro!: same_registry_store [OF assms] apply_event_keyed)
  next
    case (upgrade r)
    with look m ok c show ?thesis
      by (auto simp: apply_telemetry_upgrade
          intro!: same_registry_store [OF assms] apply_event_keyed mset_delete_cong entries_intros)
  next
    case new
    with look m ok c same_registry_reject [OF assms] show ?thesis
      by (auto simp: apply_telemetry_new intro!: same_registry_store [OF assms] apply_event_keyed)
  qed
qed

lemma note_discovered_cong:
  assumes "mset (fst x) = mset (fst y)" and "snd x = snd y" and "distinct_keys (fst x)"
  shows "mset (fst (note_discovered t now d x)) = mset (fst (note_discovered t now d y))
     \<and> snd (note_discovered t now d x) = snd (note_discovered t now d y)
     \<and> distinct_keys (fst (note_discovered t now d x))"
proof -
  have "map_of (fst x) = map_of (fst y)" using assms(1,3) by (rule map_of_mset_cong)
  then show ?thesis
    using assms by (cases x; cases y) (simp add: Let_def discovered_id_def contains_key_def mset_update_cong)
qed

lemma fold_note_discovered_cong:
  assumes "mset (fst x) = mset (fst y)" and "snd x = snd y" and "distinct_keys (fst x)"
  shows "mset (fst (fold (note_discovered t now) ds x)) = mset (fst (fold (note_discovered t now) ds y))
     \<and> snd (fold (note_discovered t now) ds x) = snd (fold (note_discovered t now) ds y)"
  using assms
proof (induction ds arbitrary: x y)
  case (Cons d ds)
  with note_discovered_cong [OF Cons.prems, of t now d] show ?case by simp
qed simp

lemma note_discovered_keyed:
  "entries_ok keyed (fst ms) \<Longrightarrow> entries_ok keyed (fst (note_discovered t now d ms))"
  by (cases ms)
    (auto simp: Let_def keyed_def merge_discovered_def fresh_legacy_record_def split: option.split
      intro!: entries_intros dest: entries_okD)

lemma fold_note_discovered_keyed:
  "entries_ok keyed (fst ms) \<Longrightarrow> entries_ok keyed (fst (fold (note_discovered t now) ds ms))"
  by (induction ds arbitrary: ms) (simp_all add: note_discovered_keyed)

lemma same_registry_discovery:
  assumes "same_registry a b"
  shows "same_registry (refresh_discovery a ds now) (refresh_discovery b ds now)"
proof -
  let ?x = "fold (note_discovered (thresholds (st_config a)) now) ds (st_sessions a, [])"
  let ?y = "fold (note_discovered (thresholds (st_config a)) now) ds (st_sessions b, [])"
  have c: "st_config a = st_config b"
    and ok: "entries_ok keyed (st_sessions a)" "entries_ok keyed (st_sessions b)"
    and eq: "mset (fst (st_sessions a, [] :: rstr list)) = mset (fst (st_sessions b, [] :: rstr list))"
    and d: "distinct_keys (fst (st_sessions a, [] :: rstr list))"
    using assms by (auto simp: same_registry_def entries_ok_def)
  have "mset (fst ?x) = mset (fst ?y)" "snd ?x = snd ?y"
    using fold_note_discovered_cong [OF eq _ d, of "thresholds (st_config a)" now ds] by auto
  moreover have "entries_ok keyed (fst ?x)" "entries_ok keyed (fst ?y)"
    using ok by (auto intro!: fold_note_discovered_keyed)
  ultimately show ?thesis
    using assms c unfolding refresh_discovery_eq Let_def
    by (intro same_registry_cap) (simp add: same_registry_def entries_intros)
qed

section \<open>Listings\<close>

lemma materialize_fields [simp]:
  "ss_session_id (materialize_summary c r now) = ss_session_id (sr_summary r)"
  "ss_kind (materialize_summary c r now) = ss_kind (sr_summary r)"
  "sm_srtt_ms (ss_metrics (materialize_summary c r now)) = sm_srtt_ms (ss_metrics (sr_summary r))"
  by (simp_all add: materialize_summary_def Let_def age_metrics_def)

text \<open>Round trip times are never NaN: the telemetry is JSON, which has no NaN.\<close>

definition rtt_ok :: "session_summary \<Rightarrow> bool" where
  "rtt_ok s \<longleftrightarrow> sm_srtt_ms (ss_metrics s) \<noteq> Some F64_NaN"

definition rtts_ok :: "service_state \<Rightarrow> bool" where
  "rtts_ok st \<longleftrightarrow> (\<forall>(k, r) \<in> set (st_sessions st). rtt_ok (sr_summary r))"

lemma rust_ord_on: "rust_ord c ok \<Longrightarrow> rust_ord (\<lambda>x y. c (f x) (f y)) (\<lambda>x. ok (f x))"
  unfolding rust_ord_def by metis

lemma rust_ord_weaken: "rust_ord c ok \<Longrightarrow> (\<And>x. ok' x \<Longrightarrow> ok x) \<Longrightarrow> rust_ord c ok'"
  unfolding rust_ord_def by metis

lemma compare_summaries_ord: "rust_ord compare_summaries rtt_ok"
  unfolding compare_summaries_def rtt_ok_def
  by (intro rust_ord_then_with rust_ord_cmp_of rust_ord_flip [OF rust_ord_cmp_of]
      rust_ord_flip [OF rust_ord_on [OF opt_f64.rust_ord_axioms]])

interpretation listing: keyed_ord compare_summaries rtt_ok ss_session_id
  by (rule keyed_ord.intro [OF compare_summaries_ord], unfold_locales)
    (simp add: compare_summaries_def then_with_Equal_iff)

definition materialized :: "service_state \<Rightarrow> i64 \<Rightarrow> session_summary list" where
  "materialized st now = map (\<lambda>r. materialize_summary (st_config st) r now) (map snd (st_sessions st))"

lemma summaries_eq: "summaries st now = sort_by compare_summaries (materialized st now)"
  by (simp add: summaries_def materialized_def)

lemma materialized_ok: "rtts_ok st \<Longrightarrow> \<forall>s \<in> set (materialized st now). rtt_ok s"
  by (auto simp: materialized_def rtts_ok_def rtt_ok_def)

lemma materialized_distinct:
  assumes "entries_ok keyed (st_sessions st)"
  shows "distinct (map ss_session_id (materialized st now))"
proof -
  have "map ss_session_id (materialized st now) = map (\<lambda>e. ss_session_id (sr_summary (snd e))) (st_sessions st)"
    by (simp add: materialized_def comp_def)
  with keyed_distinct [OF assms] show ?thesis by simp
qed

lemma same_registry_summaries:
  assumes "same_registry a b" and "rtts_ok a"
  shows "summaries a now = summaries b now"
proof -
  have "mset (materialized a now) = mset (materialized b now)"
    using assms(1) by (simp add: same_registry_def materialized_def mset_map [symmetric] del: mset_map)
      (simp add: image_mset.compositionality comp_def)
  then show ?thesis
    unfolding summaries_eq using assms
    by (intro listing.sort_by_cong_mset materialized_distinct materialized_ok)
      (auto simp: same_registry_def)
qed

text \<open>
  C4: The iteration order of the session map is unobservable: two registries that
  hold the same entries in different orders list the same sessions in the same
  order, and remain equal up to order after any telemetry event and any discovery
  pass, evictions and drop counts included.
\<close>
theorem iteration_order_irrelevant:
  assumes "same_registry a b" and "rtts_ok a"
  shows "summaries a now = summaries b now
     \<and> same_registry (apply_telemetry_at a k ev received) (apply_telemetry_at b k ev received)
     \<and> same_registry (refresh_discovery a ds now) (refresh_discovery b ds now)"
  using same_registry_summaries [OF assms] same_registry_telemetry [OF assms(1)]
    same_registry_discovery [OF assms(1)] by blast

definition two_sessions :: "bool \<Rightarrow> service_state" where
  "two_sessions swapped =
     (let a = (lit ''a'', fresh_legacy_record (lit ''a'') example_discovery 5);
          b = (lit ''b'', fresh_legacy_record (lit ''b'') example_discovery 6)
      in (new_state default_config)\<lparr>st_sessions := (if swapped then [b, a] else [a, b])\<rparr>)"

lemma two_sessions_same: "same_registry (two_sessions False) (two_sessions True)"
  by (simp add: same_registry_def two_sessions_def Let_def new_state_def entries_ok_def keyed_def
      fresh_legacy_record_def lit_def)

lemma two_sessions_rtts: "rtts_ok (two_sessions b)"
  by (simp add: rtts_ok_def rtt_ok_def two_sessions_def Let_def fresh_legacy_record_def default_metrics_def)

theorem iteration_order_irrelevant_witness:
  "summaries (two_sessions False) 9 = summaries (two_sessions True) 9
     \<and> same_registry (apply_telemetry_at (two_sessions False) (lit ''c'') (blank_event SessionOpen 3 8) 8)
         (apply_telemetry_at (two_sessions True) (lit ''c'') (blank_event SessionOpen 3 8) 8)
     \<and> same_registry (refresh_discovery (two_sessions False) [example_discovery] 9)
         (refresh_discovery (two_sessions True) [example_discovery] 9)"
  by (rule iteration_order_irrelevant [OF two_sessions_same two_sessions_rtts])

section \<open>The export\<close>

definition counts_for :: "session_summary list \<Rightarrow> session_health_count list" where
  "counts_for xs =
     map (\<lambda>c. c\<lparr>hc_sessions := length (filter (\<lambda>s. ss_kind s = hc_kind c \<and> ss_health s = hc_health c) xs)\<rparr>)
       initial_health_counts"

lemma bump_counts_for: "bump_health_count (ss_kind s) (ss_health s) (counts_for xs) = counts_for (xs @ [s])"
  by (cases "ss_kind s"; cases "ss_health s") (simp_all add: counts_for_def initial_health_counts_def)

lemma counts_for_Nil: "counts_for [] = initial_health_counts"
  by (simp add: counts_for_def initial_health_counts_def)

lemma counts_for_total: "sum_list (map hc_sessions (counts_for xs)) = length xs"
proof (induction xs)
  case (Cons s xs)
  then show ?case
    by (cases "ss_kind s"; cases "ss_health s") (simp_all add: counts_for_def initial_health_counts_def)
qed (simp add: counts_for_def initial_health_counts_def)

lemma push_and_pop:
  "length xs \<le> limit \<Longrightarrow>
   (let p = sort_by compare_summaries (xs @ [s]) in if length p > limit then butlast p else p)
     = take limit (sort_by compare_summaries (xs @ [s]))"
  by (cases "length xs = limit") (simp_all add: Let_def butlast_conv_take)

lemma export_step_eq:
  assumes "length ss \<le> limit"
  shows "export_step limit s \<lparr>ea_sessions = ss, ea_instrumented = i, ea_legacy = l, ea_counts = cs\<rparr>
     = \<lparr>ea_sessions = take limit (sort_by compare_summaries (ss @ [s])),
        ea_instrumented = (if ss_kind s = Instrumented then Suc i else i),
        ea_legacy = (if ss_kind s = LegacyKind then Suc l else l),
        ea_counts = bump_health_count (ss_kind s) (ss_health s) cs\<rparr>"
  using push_and_pop [OF assms, of s] assms
  by (cases "ss_kind s"; cases "limit = 0"; cases "limit < Suc (length ss)") (simp_all add: export_step_def Let_def)

lemma kinds_split:
  "length (filter (\<lambda>s. ss_kind s = Instrumented) xs) + length (filter (\<lambda>s. ss_kind s = LegacyKind) xs)
     = length xs"
proof (induction xs)
  case (Cons s xs)
  then show ?case by (cases "ss_kind s") simp_all
qed simp

lemma export_fold:
  assumes "\<forall>s \<in> set xs. rtt_ok s" and "distinct (map ss_session_id xs)"
  shows "fold (export_step limit) xs
       \<lparr>ea_sessions = [], ea_instrumented = 0, ea_legacy = 0, ea_counts = initial_health_counts\<rparr>
     = \<lparr>ea_sessions = take limit (sort_by compare_summaries xs),
        ea_instrumented = length (filter (\<lambda>s. ss_kind s = Instrumented) xs),
        ea_legacy = length (filter (\<lambda>s. ss_kind s = LegacyKind) xs),
        ea_counts = counts_for xs\<rparr>"
  using assms
proof (induction xs rule: rev_induct)
  case Nil
  then show ?case by (simp add: counts_for_Nil)
next
  case (snoc s xs)
  have IH: "fold (export_step limit) xs
       \<lparr>ea_sessions = [], ea_instrumented = 0, ea_legacy = 0, ea_counts = initial_health_counts\<rparr>
     = \<lparr>ea_sessions = take limit (sort_by compare_summaries xs),
        ea_instrumented = length (filter (\<lambda>s. ss_kind s = Instrumented) xs),
        ea_legacy = length (filter (\<lambda>s. ss_kind s = LegacyKind) xs),
        ea_counts = counts_for xs\<rparr>"
    using snoc by simp
  have step: "fold (export_step limit) (xs @ [s]) acc = export_step limit s (fold (export_step limit) xs acc)" for acc
    by simp
  show ?case
    unfolding step IH
    using listing.take_sort_by_snoc [OF snoc.prems(1,2), of limit]
    by (cases "ss_kind s") (simp_all add: export_step_eq bump_counts_for [symmetric])
qed

text \<open>
  C5: The bounded export is the first \<open>limit\<close> sessions of the full ordered listing, and
  its figures are exact for all tracked sessions, the truncated ones included:
  totals, the split by kind, the eight kind and health counters (which add up to
  the total) and the number left out.
\<close>
theorem export_summaries_spec:
  assumes "entries_ok keyed (st_sessions st)" and "rtts_ok st"
  shows "let e = export_summaries st now limit; all = summaries st now in
       ex_sessions e = take limit all
     \<and> ex_total_sessions e = length (st_sessions st)
     \<and> ex_instrumented_sessions e + ex_legacy_sessions e = ex_total_sessions e
     \<and> ex_truncated_session_count e + length (ex_sessions e) = ex_total_sessions e
     \<and> ex_instrumented_sessions e = length (filter (\<lambda>s. ss_kind s = Instrumented) all)
     \<and> (\<forall>c \<in> set (ex_health_counts e). hc_sessions c
          = length (filter (\<lambda>s. ss_kind s = hc_kind c \<and> ss_health s = hc_health c) all))
     \<and> sum_list (map hc_sessions (ex_health_counts e)) = ex_total_sessions e
     \<and> ex_dropped_sessions_total e = st_dropped_sessions_total st"
proof -
  let ?xs = "materialized st now"
  let ?ins = "filter (\<lambda>s. ss_kind s = Instrumented) ?xs" and ?leg = "filter (\<lambda>s. ss_kind s = LegacyKind) ?xs"
  have fold: "fold (\<lambda>r. export_step limit (materialize_summary (st_config st) r now)) (map snd (st_sessions st)) acc
      = fold (export_step limit) ?xs acc" for acc
    by (simp add: materialized_def fold_map comp_def)
  note ex = export_fold [OF materialized_ok [OF assms(2)] materialized_distinct [OF assms(1)]]
  have split: "length ?ins + length ?leg = length ?xs"
    by (rule kinds_split)
  have len: "length ?xs = length (st_sessions st)" by (simp add: materialized_def)
  have flt: "length (filter P (sort_by compare_summaries ?xs)) = length (filter P ?xs)" for P
    by (metis mset_filter mset_sort_by size_mset)
  have counts: "\<forall>c \<in> set (counts_for ?xs). hc_sessions c
      = length (filter (\<lambda>s. ss_kind s = hc_kind c \<and> ss_health s = hc_health c) ?xs)"
    by (simp add: counts_for_def)
  show ?thesis
    unfolding Let_def export_summaries_def fold ex summaries_eq flt
    using split len counts counts_for_total [of ?xs] by simp
qed

theorem export_summaries_spec_witness:
  "ex_sessions (export_summaries (two_sessions False) 9 1) = take 1 (summaries (two_sessions False) 9)
   \<and> ex_total_sessions (export_summaries (two_sessions False) 9 1) = 2
   \<and> ex_truncated_session_count (export_summaries (two_sessions False) 9 1) + 1 = 2"
proof -
  have ok: "entries_ok keyed (st_sessions (two_sessions False))"
    using two_sessions_same by (simp add: same_registry_def)
  have len: "length (st_sessions (two_sessions False)) = 2"
    by (simp add: two_sessions_def Let_def)
  then have "length (summaries (two_sessions False) 9) = 2" by (simp add: summaries_def)
  with len export_summaries_spec [OF ok two_sessions_rtts, of 9 1] show ?thesis
    unfolding Let_def by auto
qed

section \<open>Ageing\<close>

lemma opt_heard_mono:
  "(case a of Some x \<Rightarrow> \<exists>y. b = Some y \<and> x \<le> y | None \<Rightarrow> True) \<Longrightarrow> opt_u64_ge a t \<Longrightarrow> opt_u64_ge b t"
  by (auto simp: opt_u64_ge_def split: option.splits)

lemma classify_heard_mono:
  assumes "\<And>t. opt_u64_ge (sm_last_heard_age_ms m) t \<Longrightarrow> opt_u64_ge (sm_last_heard_age_ms m') t"
    and "sm_srtt_ms m' = sm_srtt_ms m" "sm_retransmit_pct_10s m' = sm_retransmit_pct_10s m"
      "sm_retransmit_pct_60s m' = sm_retransmit_pct_60s m"
  shows "health_rank (classify_health kind m t) \<le> health_rank (classify_health kind m' t)"
  using assms
  by (cases kind) (auto simp: classify_health_Instrumented breaches_critical_def breaches_warning_def)

lemma age_metrics_fields [simp]:
  "sm_srtt_ms (age_metrics m e) = sm_srtt_ms m"
  "sm_retransmit_pct_10s (age_metrics m e) = sm_retransmit_pct_10s m"
  "sm_retransmit_pct_60s (age_metrics m e) = sm_retransmit_pct_60s m"
  "sm_last_heard_age_ms (age_metrics m e) = Some (u64_saturating_add (opt_u64_or_0 (sm_last_heard_age_ms m)) e)"
  by (simp_all add: age_metrics_def)

lemma saturating_add_mono:
  "e \<le> e' \<Longrightarrow> u64_saturating_add a e \<le> u64_saturating_add a e'"
  by (simp add: word_le_nat_alt unat_u64_saturating_add min_le_iff_disj)

lemma saturating_add_ge_left: "a \<le> u64_saturating_add a e"
  using unat_u64_bound [of a] by (simp add: word_le_nat_alt unat_u64_saturating_add)

lemma classify_aged:
  "health_rank (classify_health kind m t) \<le> health_rank (classify_health kind (age_metrics m e) t)"
proof (rule classify_heard_mono)
  fix x assume "opt_u64_ge (sm_last_heard_age_ms m) x"
  then obtain a where "sm_last_heard_age_ms m = Some a" "x \<le> a"
    by (auto simp: opt_u64_ge_def split: option.splits)
  then show "opt_u64_ge (sm_last_heard_age_ms (age_metrics m e)) x"
    using saturating_add_ge_left [of a e] by (simp add: opt_u64_ge_def opt_u64_or_0_def)
qed simp_all

lemma classify_older:
  "e \<le> e' \<Longrightarrow>
   health_rank (classify_health kind (age_metrics m e) t) \<le> health_rank (classify_health kind (age_metrics m e') t)"
proof (rule classify_heard_mono)
  fix x assume "e \<le> e'" and "opt_u64_ge (sm_last_heard_age_ms (age_metrics m e)) x"
  then show "opt_u64_ge (sm_last_heard_age_ms (age_metrics m e')) x"
    using saturating_add_mono [of e e' "opt_u64_or_0 (sm_last_heard_age_ms m)"]
    by (simp add: opt_u64_ge_def)
qed simp_all

lemma i64_as_u64_mono:
  assumes "0 \<le> x" and "x \<le> y" and "in_i64 y"
  shows "i64_as_u64 (wrap_i64 x) \<le> i64_as_u64 (wrap_i64 y)"
proof -
  have "in_i64 x" using assms by (auto simp: in_i64_def i64_min_def)
  then show ?thesis
    using assms
    by (auto simp: i64_as_u64_def wrap_i64_id word_le_def uint_word_of_int in_i64_def i64_max_def)
qed

lemma materialize_health:
  "ss_health (materialize_summary c r now)
     = (let s = sr_summary r in
        classify_health (ss_kind s)
          (if ss_kind s = Instrumented \<and> now > ss_last_observed_unix_ms s
           then age_metrics (ss_metrics s) (i64_as_u64 (wrap_i64 (now - ss_last_observed_unix_ms s)))
           else ss_metrics s)
          (thresholds c))"
  by (auto simp: materialize_summary_def Let_def)

text \<open>
  Without new telemetry a session's displayed health can only get worse as time
  passes: the silence grows, saturating instead of wrapping, and no later reading ranks
  healthier than an earlier one.
\<close>
theorem silence_only_worsens_health:
  assumes "now \<le> later" and "in_i64 (later - ss_last_observed_unix_ms (sr_summary r))"
  shows "health_rank (ss_health (materialize_summary c r now))
     \<le> health_rank (ss_health (materialize_summary c r later))"
proof -
  let ?s = "sr_summary r"
  have mono: "i64_as_u64 (wrap_i64 (now - ss_last_observed_unix_ms ?s))
      \<le> i64_as_u64 (wrap_i64 (later - ss_last_observed_unix_ms ?s))"
    if "ss_last_observed_unix_ms ?s < now"
    using that assms by (intro i64_as_u64_mono) simp_all
  consider "later \<le> ss_last_observed_unix_ms ?s" | "now \<le> ss_last_observed_unix_ms ?s" "ss_last_observed_unix_ms ?s < later"
    | "ss_last_observed_unix_ms ?s < now" by linarith
  then show ?thesis
  proof cases
    case 1
    with assms(1) show ?thesis by (simp add: materialize_health Let_def)
  next
    case 2
    then show ?thesis
      using classify_aged [of _ "ss_metrics ?s"] by (simp add: materialize_health Let_def)
  next
    case 3
    with assms(1) mono show ?thesis
      by (auto simp: materialize_health Let_def intro: classify_older)
  qed
qed

theorem silence_only_worsens_health_witness:
  "health_rank (ss_health (materialize_summary default_config example_active 3000))
     \<le> health_rank (ss_health (materialize_summary default_config example_active 90000))"
  by (rule silence_only_worsens_health) (simp_all add: example_active_fields in_i64_def i64_min_def i64_max_def)

section \<open>Details\<close>

lemma newest_points:
  "length h - min (length h) n = length h - n"
  "drop (length h - n) h = rev (take n (rev h))"
  by (simp_all add: rev_take)

text \<open>
  The detail of a session carries its newest history points, never more than
  \<open>max_session_detail_points\<close>, and says how many there are in all and how many were cut;
  an unknown id has no detail.
\<close>
theorem session_detail_spec:
  "session_detail st k now =
     (case map_of (st_sessions st) k of
        None \<Rightarrow> None
      | Some r \<Rightarrow> Some \<lparr>sn_summary = materialize_summary (st_config st) r now,
                     sn_total_history_points = length (sr_history r),
                     sn_truncated_history_points = length (sr_history r) - max_session_detail_points (st_config st),
                     sn_history = rev (take (max_session_detail_points (st_config st)) (rev (sr_history r)))\<rparr>)
   \<and> (\<forall>d \<in> set_option (session_detail st k now).
        length (sn_history d) \<le> max_session_detail_points (st_config st)
        \<and> sn_total_history_points d = sn_truncated_history_points d + length (sn_history d)
        \<and> (\<exists>cut. sr_history (the (map_of (st_sessions st) k)) = cut @ sn_history d))"
proof (cases "map_of (st_sessions st) k")
  case (Some r)
  let ?h = "sr_history r" and ?n = "max_session_detail_points (st_config st)"
  have d: "session_detail st k now = Some \<lparr>sn_summary = materialize_summary (st_config st) r now,
       sn_total_history_points = length ?h, sn_truncated_history_points = length ?h - ?n,
       sn_history = rev (take ?n (rev ?h))\<rparr>"
    unfolding session_detail_def with_history_def Let_def newest_points Some by simp
  have "\<exists>cut. ?h = cut @ rev (take ?n (rev ?h))"
    by (metis append_take_drop_id rev_append rev_rev_ident)
  then show ?thesis unfolding d using Some by simp
qed (simp add: session_detail_def)

theorem session_detail_spec_witness:
  "\<exists>d. session_detail (two_sessions False) (lit ''a'') 9 = Some d
     \<and> length (sn_history d) \<le> max_session_detail_points (st_config (two_sessions False))"
proof -
  have "map_of (st_sessions (two_sessions False)) (lit ''a'') \<noteq> None"
    by (simp add: two_sessions_def Let_def lit_def)
  then obtain d where d: "session_detail (two_sessions False) (lit ''a'') 9 = Some d"
    by (auto simp: session_detail_def)
  then have "d \<in> set_option (session_detail (two_sessions False) (lit ''a'') 9)" by simp
  with d session_detail_spec [of "two_sessions False" "lit ''a''" 9] show ?thesis by blast
qed

end
