(* ===== verification/Coherence.thy ===== *)
theory Coherence
  imports Protocol Ordering
begin

text \<open>
  Coherence reports of \<open>crates/moshwatch-core/src/protocol.rs\<close>: redacted labels,
  route epochs, continuity, the confidence score with its decision, and the export
  envelope.  SHA-256 and \<open>serde_json::to_vec\<close> are parameters.
\<close>

section \<open>Data\<close>

record coherence_route_epoch =
  ce_epoch_index :: nat
  ce_start_unix_ms :: i64
  ce_end_unix_ms :: i64
  ce_sample_count :: nat
  ce_endpoint_label :: "rstr option"
  ce_endpoint_value_retained :: bool

record coherence_continuity_summary =
  cc_stable_session_identity :: bool
  cc_route_epoch_count :: nat
  cc_route_shift_count :: nat
  cc_history_sample_count :: nat
  cc_max_sample_gap_ms :: "i64 option"
  cc_recovery_after_drift :: bool
  cc_liveness_signal_present :: bool
  cc_packet_counter_signal_present :: bool
  cc_retransmit_signal_present :: bool

record coherence_adjudication =
  ca_decision :: rstr
  ca_confidence_score :: f64
  ca_false_stitch_rejected :: bool
  ca_caveats :: "rstr list"

record coherence_safety_boundary =
  sb_defensive_observability_only :: bool
  sb_packet_payload_retained :: bool
  sb_raw_packet_capture_retained :: bool
  sb_session_keys_retained :: bool
  sb_terminal_content_retained :: bool
  sb_endpoint_values_redacted :: bool
  sb_application_semantics_inferred :: bool

record coherence_session_snapshot =
  cv_session_id_label :: rstr
  cv_kind :: session_kind
  cv_health :: health_state
  cv_route_shift_observed :: bool
  cv_endpoint_values_retained :: bool
  cv_confidence_score :: f64

record coherence_session_report =
  cr_report_version :: rstr
  cr_observer_label :: rstr
  cr_session_id_label :: rstr
  cr_display_session_id_present :: bool
  cr_kind :: session_kind
  cr_health :: health_state
  cr_udp_port_observed :: bool
  cr_route_epochs :: "coherence_route_epoch list"
  cr_continuity :: coherence_continuity_summary
  cr_adjudication :: coherence_adjudication
  cr_safety_boundary :: coherence_safety_boundary

record coherence_redaction_profile =
  rp_profile_id :: rstr
  rp_endpoint_values_retained :: bool
  rp_session_id_values_retained :: bool
  rp_observer_values_retained :: bool
  rp_packet_or_terminal_content_retained :: bool

record coherence_export_guarantees =
  eg_packet_payload_retained :: bool
  eg_terminal_content_retained :: bool
  eg_session_keys_retained :: bool
  eg_endpoint_values_retained :: bool
  eg_application_semantics_inferred :: bool

record coherence_export_envelope =
  ee_schema_version :: u32
  ee_export_version :: rstr
  ee_generated_at_unix_ms :: i64
  ee_observer_label :: rstr
  ee_session_id_label :: rstr
  ee_report :: coherence_session_report
  ee_redaction :: coherence_redaction_profile
  ee_export_guarantees :: coherence_export_guarantees
  ee_export_digest :: rstr

record adapter_export_surface =
  as_surface_id :: rstr
  as_route_template :: rstr
  as_export_version :: rstr
  as_privacy_profile :: rstr
  as_description :: rstr
  as_stable_for_external_adapters :: bool

definition adapter_export_surfaces :: "adapter_export_surface list" where
  "adapter_export_surfaces =
     [\<lparr>as_surface_id = lit ''coherence_export'',
       as_route_template = lit ''/v1/coherence/exports/{session_id}'',
       as_export_version = COHERENCE_EXPORT_VERSION,
       as_privacy_profile = lit ''metadata-only-redaction-v1'',
       as_description = lit ''Redacted route-continuity export for external diagnostics adapters.'',
       as_stable_for_external_adapters = True\<rparr>]"

section \<open>Labels\<close>

definition stable_digest_label :: "(bytes \<Rightarrow> bytes) \<Rightarrow> rstr \<Rightarrow> rstr \<Rightarrow> rstr" where
  "stable_digest_label sha256 value pre =
     pre @ [45] @ take 12 (hex_bytes (sha256 (utf8_encode value)))"

definition endpoint_label :: "(bytes \<Rightarrow> bytes) \<Rightarrow> rstr option \<Rightarrow> rstr option" where
  "endpoint_label sha256 value =
     (case value of
        Some v \<Rightarrow> if trim v \<noteq> [] then Some (stable_digest_label sha256 v (lit ''endpoint'')) else None
      | None \<Rightarrow> None)"

definition observer_label :: "(bytes \<Rightarrow> bytes) \<Rightarrow> observer_info \<Rightarrow> rstr" where
  "observer_label sha256 ob =
     stable_digest_label sha256 (node_name ob @ [58] @ system_id ob) (lit ''observer'')"

definition safety_boundary :: coherence_safety_boundary where
  "safety_boundary =
     \<lparr>sb_defensive_observability_only = True, sb_packet_payload_retained = False,
      sb_raw_packet_capture_retained = False, sb_session_keys_retained = False,
      sb_terminal_content_retained = False, sb_endpoint_values_redacted = True,
      sb_application_semantics_inferred = False\<rparr>"

section \<open>The compact status\<close>

definition build_coherence_snapshot_from_summary ::
    "(bytes \<Rightarrow> bytes) \<Rightarrow> session_summary \<Rightarrow> coherence_session_snapshot" where
  "build_coherence_snapshot_from_summary sha256 s =
     (let p = ss_peer s;
          shift = (previous_client_addr p \<noteq> None \<and> last_client_addr p \<noteq> None
                   \<and> client_addr_changed_at_unix_ms p \<noteq> None
                   \<and> previous_client_addr p \<noteq> last_client_addr p);
          score = (if ss_kind s = Instrumented then (if shift then F64_Fin 90 else F64_Fin 72) else F64_Fin 25)
      in \<lparr>cv_session_id_label = stable_digest_label sha256 (ss_session_id s) (lit ''session''),
          cv_kind = ss_kind s, cv_health = ss_health s, cv_route_shift_observed = shift,
          cv_endpoint_values_retained = False, cv_confidence_score = score\<rparr>)"

section \<open>Points and epochs\<close>

text \<open>The tuple \<open>(unix_ms, label, liveness, quality, packets)\<close> of lines 480-514.\<close>

record coherence_point =
  pt_unix_ms :: i64
  pt_label :: "rstr option"
  pt_liveness :: bool
  pt_quality :: bool
  pt_packets :: bool

definition history_coherence_point :: "(bytes \<Rightarrow> bytes) \<Rightarrow> metric_point \<Rightarrow> coherence_point" where
  "history_coherence_point sha256 p =
     \<lparr>pt_unix_ms = mp_unix_ms p,
      pt_label = endpoint_label sha256 (mp_current_client_addr p),
      pt_liveness = (mp_remote_state_age_ms p \<noteq> None),
      pt_quality = (mp_srtt_ms p \<noteq> None \<or> mp_retransmit_pct_10s p \<noteq> None),
      pt_packets = False\<rparr>"

definition first_some :: "'a option list \<Rightarrow> 'a option" where
  "first_some vs = (case dropWhile (\<lambda>v. v = None) vs of [] \<Rightarrow> None | v # rest \<Rightarrow> v)"

definition summary_coherence_point :: "(bytes \<Rightarrow> bytes) \<Rightarrow> session_summary \<Rightarrow> coherence_point" where
  "summary_coherence_point sha256 s =
     (let m = ss_metrics s in
      \<lparr>pt_unix_ms = ss_last_observed_unix_ms s,
       pt_label = endpoint_label sha256
         (first_some [current_client_addr (ss_peer s), last_client_addr (ss_peer s), ss_client_addr s]),
       pt_liveness = (sm_last_heard_age_ms m \<noteq> None \<or> sm_remote_state_age_ms m \<noteq> None),
       pt_quality = (sm_srtt_ms m \<noteq> None \<or> sm_last_rtt_ms m \<noteq> None
                     \<or> sm_retransmit_pct_10s m \<noteq> None \<or> sm_retransmit_pct_60s m \<noteq> None),
       pt_packets = (sm_packets_tx_total m \<noteq> None \<or> sm_packets_rx_total m \<noteq> None)\<rparr>)"

definition coherence_points :: "(bytes \<Rightarrow> bytes) \<Rightarrow> session_snapshot \<Rightarrow> coherence_point list" where
  "coherence_points sha256 snap =
     (let points = map (history_coherence_point sha256) (sn_history snap);
          points = (if points = [] then [summary_coherence_point sha256 (sn_summary snap)] else points)
      in sort_by (\<lambda>a b. cmp_of (pt_unix_ms a) (pt_unix_ms b)) points)"

text \<open>One turn of the loop of lines 517-534: extend the last epoch or open a new one.\<close>

definition push_epoch :: "coherence_point \<Rightarrow> coherence_route_epoch list \<Rightarrow> coherence_route_epoch list" where
  "push_epoch p es =
     (if es \<noteq> [] \<and> ce_endpoint_label (last es) = pt_label p then
        butlast es @ [(last es)\<lparr>ce_end_unix_ms := pt_unix_ms p,
                                ce_sample_count := Suc (ce_sample_count (last es))\<rparr>]
      else
        es @ [\<lparr>ce_epoch_index = length es, ce_start_unix_ms = pt_unix_ms p, ce_end_unix_ms = pt_unix_ms p,
               ce_sample_count = 1, ce_endpoint_label = pt_label p, ce_endpoint_value_retained = False\<rparr>])"

definition route_epochs :: "coherence_point list \<Rightarrow> coherence_route_epoch list" where
  "route_epochs points = fold push_epoch points []"

fun sample_gaps :: "i64 list \<Rightarrow> i64 list" where
  "sample_gaps (a # b # rest) = i64_saturating_sub b a # sample_gaps (b # rest)"
| "sample_gaps _ = []"

definition max_option :: "i64 list \<Rightarrow> i64 option" where
  "max_option xs = (if xs = [] then None else Some (foldr max xs (hd xs)))"

section \<open>The report\<close>

definition continuity_of ::
    "(bytes \<Rightarrow> bytes) \<Rightarrow> session_snapshot \<Rightarrow> coherence_continuity_summary" where
  "continuity_of sha256 snap =
     (let s = sn_summary snap; m = ss_metrics s;
          points = coherence_points sha256 snap;
          epochs = route_epochs points;
          shifts = length epochs - 1;
          liveness = (list_ex pt_liveness points \<or> sm_last_heard_age_ms m \<noteq> None
                      \<or> sm_remote_state_age_ms m \<noteq> None);
          packets = (list_ex pt_packets points \<or> sm_packets_tx_total m \<noteq> None
                     \<or> sm_packets_rx_total m \<noteq> None)
      in \<lparr>cc_stable_session_identity = (trim (ss_session_id s) \<noteq> [] \<and> ss_kind s = Instrumented),
          cc_route_epoch_count = length epochs,
          cc_route_shift_count = shifts,
          cc_history_sample_count = length (sn_history snap),
          cc_max_sample_gap_ms = max_option (sample_gaps (map pt_unix_ms points)),
          cc_recovery_after_drift =
            (shifts > 0 \<and> liveness \<and> (packets \<or> sm_state_updates_rx_total m \<noteq> None)),
          cc_liveness_signal_present = liveness,
          cc_packet_counter_signal_present = packets,
          cc_retransmit_signal_present =
            (sm_retransmit_pct_10s m \<noteq> None \<or> sm_retransmit_pct_60s m \<noteq> None
             \<or> list_ex (\<lambda>p. mp_retransmit_pct_10s p \<noteq> None) (sn_history snap))\<rparr>)"

definition add_score :: "bool \<Rightarrow> rat \<Rightarrow> f64 \<Rightarrow> f64" where
  "add_score c points score = (if c then f64_add score (F64_Fin points) else score)"

definition coherence_confidence_score :: "coherence_continuity_summary \<Rightarrow> bool \<Rightarrow> f64" where
  "coherence_confidence_score c udp_port_observed =
     add_score (cc_packet_counter_signal_present c) 10
      (add_score (cc_liveness_signal_present c) 10
       (add_score (cc_recovery_after_drift c) 20
        (add_score (1 \<le> cc_route_shift_count c) 20
         (add_score (1 \<le> cc_route_epoch_count c) 10
          (add_score udp_port_observed 10
           (add_score (cc_stable_session_identity c) 20 (F64_Fin 0)))))))"

definition coherence_decision :: "f64 \<Rightarrow> nat \<Rightarrow> rstr" where
  "coherence_decision score shifts =
     (if f64_ge score (F64_Fin 85) \<and> shifts > 0 then lit ''coherent_roaming_session_observed''
      else if f64_ge score (F64_Fin 70) then lit ''coherent_session_observed_without_roaming_claim''
      else lit ''insufficient_coherence_signal'')"

definition coherence_caveats :: "nat \<Rightarrow> rstr list" where
  "coherence_caveats shifts =
     [lit ''metadata-only defensive observability'',
      lit ''does not retain Mosh session keys, packet contents, terminal content, or packet captures'']
     @ (if shifts = 0 then [lit ''no endpoint drift observed in the exported window''] else [])"

definition build_coherence_session_report ::
    "(bytes \<Rightarrow> bytes) \<Rightarrow> observer_info \<Rightarrow> session_snapshot \<Rightarrow> coherence_session_report" where
  "build_coherence_session_report sha256 ob snap =
     (let s = sn_summary snap;
          c = continuity_of sha256 snap;
          score = coherence_confidence_score c (ss_udp_port s \<noteq> None)
      in \<lparr>cr_report_version = lit ''moshwatch-coherence-session-report-v1'',
          cr_observer_label = observer_label sha256 ob,
          cr_session_id_label = stable_digest_label sha256 (ss_session_id s) (lit ''session''),
          cr_display_session_id_present = (ss_display_session_id s \<noteq> None),
          cr_kind = ss_kind s, cr_health = ss_health s,
          cr_udp_port_observed = (ss_udp_port s \<noteq> None),
          cr_route_epochs = route_epochs (coherence_points sha256 snap),
          cr_continuity = c,
          cr_adjudication =
            \<lparr>ca_decision = coherence_decision score (cc_route_shift_count c),
             ca_confidence_score = score, ca_false_stitch_rejected = True,
             ca_caveats = coherence_caveats (cc_route_shift_count c)\<rparr>,
          cr_safety_boundary = safety_boundary\<rparr>)"

definition build_coherence_export ::
    "(bytes \<Rightarrow> bytes) \<Rightarrow> (coherence_session_report \<Rightarrow> bytes) \<Rightarrow> observer_info \<Rightarrow> i64 \<Rightarrow> session_snapshot
     \<Rightarrow> coherence_export_envelope" where
  "build_coherence_export sha256 to_json ob generated_at snap =
     (let report = build_coherence_session_report sha256 ob snap
      in \<lparr>ee_schema_version = API_SCHEMA_VERSION,
          ee_export_version = COHERENCE_EXPORT_VERSION,
          ee_generated_at_unix_ms = generated_at,
          ee_observer_label = cr_observer_label report,
          ee_session_id_label = cr_session_id_label report,
          ee_report = report,
          ee_redaction =
            \<lparr>rp_profile_id = lit ''metadata-only-redaction-v1'', rp_endpoint_values_retained = False,
             rp_session_id_values_retained = False, rp_observer_values_retained = False,
             rp_packet_or_terminal_content_retained = False\<rparr>,
          ee_export_guarantees =
            \<lparr>eg_packet_payload_retained = False, eg_terminal_content_retained = False,
             eg_session_keys_retained = False, eg_endpoint_values_retained = False,
             eg_application_semantics_inferred = False\<rparr>,
          ee_export_digest = hex_bytes (sha256 (to_json report))\<rparr>)"

end
