(* ===== verification/Coherence_Facts.thy ===== *)
theory Coherence_Facts
  imports Coherence
begin

text \<open>
  What the coherence reports of \<open>crates/moshwatch-core/src/protocol.rs\<close> promise:
  they depend on identifying values only through their labels, their epochs partition
  the sampled window, and score and decision mean what they say.
\<close>

section \<open>Redaction\<close>

text \<open>
  Everything a report may depend on.  Endpoints, session ids and the observer enter
  through labels, metrics and the display id through their presence; pid, start time,
  bind address, port number and command line do not enter.
\<close>

definition point_view :: "(bytes \<Rightarrow> bytes) \<Rightarrow> metric_point \<Rightarrow> i64 \<times> rstr option \<times> bool \<times> bool \<times> bool" where
  "point_view sha256 p =
     (mp_unix_ms p, endpoint_label sha256 (mp_current_client_addr p), mp_remote_state_age_ms p \<noteq> None,
      mp_srtt_ms p \<noteq> None, mp_retransmit_pct_10s p \<noteq> None)"

definition metrics_view :: "session_metrics \<Rightarrow> bool list" where
  "metrics_view m =
     [sm_last_heard_age_ms m \<noteq> None, sm_remote_state_age_ms m \<noteq> None, sm_srtt_ms m \<noteq> None,
      sm_last_rtt_ms m \<noteq> None, sm_retransmit_pct_10s m \<noteq> None, sm_retransmit_pct_60s m \<noteq> None,
      sm_packets_tx_total m \<noteq> None, sm_packets_rx_total m \<noteq> None, sm_state_updates_rx_total m \<noteq> None]"

definition peer_label :: "(bytes \<Rightarrow> bytes) \<Rightarrow> session_summary \<Rightarrow> rstr option" where
  "peer_label sha256 s =
     endpoint_label sha256
       (first_some [current_client_addr (ss_peer s), last_client_addr (ss_peer s), ss_client_addr s])"

definition same_redacted_view ::
    "(bytes \<Rightarrow> bytes) \<Rightarrow> observer_info \<Rightarrow> session_snapshot \<Rightarrow> observer_info \<Rightarrow> session_snapshot \<Rightarrow> bool" where
  "same_redacted_view sha256 ob a ob' b \<longleftrightarrow>
     (let s = sn_summary a; t = sn_summary b in
      observer_label sha256 ob = observer_label sha256 ob'
      \<and> stable_digest_label sha256 (ss_session_id s) (lit ''session'')
          = stable_digest_label sha256 (ss_session_id t) (lit ''session'')
      \<and> (trim (ss_session_id s) = [] \<longleftrightarrow> trim (ss_session_id t) = [])
      \<and> (ss_display_session_id s = None \<longleftrightarrow> ss_display_session_id t = None)
      \<and> ss_kind s = ss_kind t \<and> ss_health s = ss_health t
      \<and> (ss_udp_port s = None \<longleftrightarrow> ss_udp_port t = None)
      \<and> ss_last_observed_unix_ms s = ss_last_observed_unix_ms t
      \<and> peer_label sha256 s = peer_label sha256 t
      \<and> metrics_view (ss_metrics s) = metrics_view (ss_metrics t)
      \<and> map (point_view sha256) (sn_history a) = map (point_view sha256) (sn_history b))"

lemma history_points_view:
  "history_coherence_point sha256 p
     = (case point_view sha256 p of (t, l, age, rtt, pct) \<Rightarrow>
          \<lparr>pt_unix_ms = t, pt_label = l, pt_liveness = age, pt_quality = (rtt \<or> pct), pt_packets = False\<rparr>)"
  by (simp add: history_coherence_point_def point_view_def)

lemma map_view_cong:
  assumes "map g xs = map g ys"
  shows "map (\<lambda>x. f (g x)) xs = map (\<lambda>x. f (g x)) ys"
proof -
  have "map f (map g xs) = map f (map g ys)" using assms by simp
  then show ?thesis by (simp add: comp_def)
qed

lemma coherence_points_view:
  assumes "same_redacted_view sha256 ob a ob' b"
  shows "coherence_points sha256 a = coherence_points sha256 b"
proof -
  have v: "map (point_view sha256) (sn_history a) = map (point_view sha256) (sn_history b)"
    using assms by (simp add: same_redacted_view_def Let_def)
  have "map (history_coherence_point sha256) (sn_history a) = map (history_coherence_point sha256) (sn_history b)"
    unfolding history_points_view using v by (rule map_view_cong)
  moreover have "summary_coherence_point sha256 (sn_summary a) = summary_coherence_point sha256 (sn_summary b)"
    using assms
    by (simp add: same_redacted_view_def Let_def summary_coherence_point_def peer_label_def metrics_view_def)
  ultimately show ?thesis by (simp add: coherence_points_def)
qed

lemma retransmit_points_view:
  assumes "map (point_view sha256) xs = map (point_view sha256) ys"
  shows "list_ex (\<lambda>p. mp_retransmit_pct_10s p \<noteq> None) xs = list_ex (\<lambda>p. mp_retransmit_pct_10s p \<noteq> None) ys"
proof -
  have ex: "list_ex (\<lambda>p. mp_retransmit_pct_10s p \<noteq> None) zs
      = list_ex id (map (\<lambda>p. (\<lambda>(t, l, a, r, pct). pct) (point_view sha256 p)) zs)" for zs
    by (induction zs) (simp_all add: point_view_def)
  show ?thesis unfolding ex using map_view_cong [OF assms] by metis
qed

lemma continuity_view:
  assumes "same_redacted_view sha256 ob a ob' b"
  shows "continuity_of sha256 a = continuity_of sha256 b"
proof -
  have "length (sn_history a) = length (sn_history b)"
    using assms by (auto simp: same_redacted_view_def Let_def dest: map_eq_imp_length_eq)
  then show ?thesis
    using assms retransmit_points_view [of sha256 "sn_history a" "sn_history b"]
    by (simp add: continuity_of_def Let_def coherence_points_view [OF assms])
      (simp add: same_redacted_view_def Let_def metrics_view_def)
qed

text \<open>
  C19: Reports and exports reveal identifying values only through their digest labels:
  two sessions seen by two observers that agree on the labels of the observer, the
  session and every endpoint, on sample times and on which metrics are present give the
  same report and the same export, whatever their addresses, ids, pids, ports, metric
  values and command lines are.
\<close>
theorem coherence_redaction:
  assumes "same_redacted_view sha256 ob a ob' b"
  shows "build_coherence_session_report sha256 ob a = build_coherence_session_report sha256 ob' b
     \<and> build_coherence_export sha256 to_json ob now a = build_coherence_export sha256 to_json ob' now b"
proof -
  have "build_coherence_session_report sha256 ob a = build_coherence_session_report sha256 ob' b"
    using assms
    by (simp add: build_coherence_session_report_def Let_def continuity_view [OF assms]
        coherence_points_view [OF assms] del: not_None_eq)
      (simp add: same_redacted_view_def Let_def del: not_None_eq)
  then show ?thesis by (simp add: build_coherence_export_def)
qed

section \<open>Epochs\<close>

lemma coherence_points_sorted: "sorted_wrt (\<lambda>a b. pt_unix_ms a \<le> pt_unix_ms b) (coherence_points sha256 snap)"
proof -
  have ord: "rust_ord (\<lambda>a b. cmp_of (pt_unix_ms a) (pt_unix_ms b)) (\<lambda>_. True)" by (rule rust_ord_cmp_of)
  have "sorted_wrt (\<lambda>a b. cmp_of (pt_unix_ms a) (pt_unix_ms b) \<noteq> Greater) (sort_by (\<lambda>a b. cmp_of (pt_unix_ms a) (pt_unix_ms b)) xs)" for xs :: "coherence_point list"
    using rust_ord.sorted_sort_by [OF ord] by simp
  then show ?thesis unfolding coherence_points_def Let_def
    by (rule sorted_wrt_mono_rel [rotated]) (simp add: cmp_of_def split: if_splits)
qed

lemma coherence_points_not_Nil: "coherence_points sha256 snap \<noteq> []"
proof -
  have "set (coherence_points sha256 snap) \<noteq> {}" by (simp add: coherence_points_def Let_def)
  then show ?thesis by auto
qed

definition epochs_partition :: "coherence_point list \<Rightarrow> coherence_route_epoch list \<Rightarrow> bool" where
  "epochs_partition points es \<longleftrightarrow>
     concat (map (\<lambda>e. replicate (ce_sample_count e) (ce_endpoint_label e)) es) = map pt_label points
     \<and> map ce_epoch_index es = [0 ..< length es]
     \<and> successively (\<lambda>a b. ce_endpoint_label a \<noteq> ce_endpoint_label b \<and> ce_end_unix_ms a \<le> ce_start_unix_ms b) es
     \<and> list_all (\<lambda>e. ce_start_unix_ms e \<le> ce_end_unix_ms e \<and> 0 < ce_sample_count e
                   \<and> \<not> ce_endpoint_value_retained e) es
     \<and> (points \<noteq> [] \<longrightarrow> es \<noteq> [] \<and> ce_start_unix_ms (hd es) = pt_unix_ms (hd points)
          \<and> ce_end_unix_ms (last es) = pt_unix_ms (last points))"

lemma push_epoch_partition:
  assumes "epochs_partition points es" and "points = [] \<longrightarrow> es = []"
    and "points \<noteq> [] \<longrightarrow> pt_unix_ms (last points) \<le> pt_unix_ms p"
  shows "epochs_partition (points @ [p]) (push_epoch p es)"
proof (cases "points = []")
  case True
  with assms show ?thesis by (simp add: epochs_partition_def push_epoch_def)
next
  case ne: False
  then have es_ne: "es \<noteq> []" using assms(1) by (auto simp: epochs_partition_def)
  then obtain ds e where es: "es = ds @ [e]" by (metis append_butlast_last_id)
  have hds: "hd (points @ [p]) = hd points" "hd (ds @ [e, x]) = hd (ds @ [e])" for x
    using ne by (simp_all add: hd_append)
  have late: "ce_end_unix_ms e \<le> pt_unix_ms p" "ce_start_unix_ms e \<le> ce_end_unix_ms e"
    using assms(1,3) ne by (auto simp: epochs_partition_def es)
  show ?thesis
  proof (cases "ce_endpoint_label e = pt_label p")
    case True
    let ?e = "e\<lparr>ce_end_unix_ms := pt_unix_ms p, ce_sample_count := Suc (ce_sample_count e)\<rparr>"
    have push: "push_epoch p (ds @ [e]) = ds @ [?e]" using True by (simp add: push_epoch_def)
    have "replicate (Suc n) (pt_label p) = replicate n (pt_label p) @ [pt_label p]" for n
      by (simp add: replicate_append_same)
    then have "concat (map (\<lambda>e. replicate (ce_sample_count e) (ce_endpoint_label e)) (ds @ [?e]))
        = map pt_label (points @ [p])"
      using assms(1) True by (simp add: epochs_partition_def es del: replicate.simps)
    moreover have "hd (ds @ [?e]) = (if ds = [] then ?e else hd ds)" by (simp add: hd_append)
    moreover have "hd (ds @ [e]) = (if ds = [] then e else hd ds)" by (simp add: hd_append)
    ultimately show ?thesis
      using assms(1) ne late hds(1) unfolding es push unfolding epochs_partition_def
      by (cases "ds = []") (simp_all add: successively_append_iff)
  next
    case False
    let ?e = "\<lparr>ce_epoch_index = length es, ce_start_unix_ms = pt_unix_ms p, ce_end_unix_ms = pt_unix_ms p,
        ce_sample_count = 1, ce_endpoint_label = pt_label p, ce_endpoint_value_retained = False\<rparr>"
    have push: "push_epoch p es = es @ [?e]" using False by (simp add: push_epoch_def es)
    have "hd (es @ [?e]) = hd es" using es_ne by (simp add: hd_append)
    then show ?thesis
      using assms(1) ne es_ne late False hds(1) unfolding epochs_partition_def push
      by (simp add: successively_append_iff es)
  qed
qed

lemma route_epochs_partition:
  "sorted_wrt (\<lambda>a b. pt_unix_ms a \<le> pt_unix_ms b) points \<Longrightarrow> epochs_partition points (route_epochs points)"
proof (induction points rule: rev_induct)
  case Nil
  then show ?case by (simp add: epochs_partition_def route_epochs_def)
next
  case (snoc p points)
  then have "epochs_partition points (route_epochs points)" by (simp add: sorted_wrt_append)
  moreover have "points = [] \<longrightarrow> route_epochs points = []" by (simp add: route_epochs_def)
  moreover have "points \<noteq> [] \<longrightarrow> pt_unix_ms (last points) \<le> pt_unix_ms p"
    using snoc.prems by (simp add: sorted_wrt_append)
  ultimately have "epochs_partition (points @ [p]) (push_epoch p (route_epochs points))"
    by (rule push_epoch_partition)
  then show ?case by (simp add: route_epochs_def)
qed

text \<open>
  The route epochs of a report partition its samples in time order: numbered from
  zero, adjacent epochs carry different labels and do not overlap, each counts the
  consecutive samples with its label, together they spell out the whole sequence of
  labels from the first sample to the last, and the shift count is one less than
  their number.
\<close>
theorem report_epochs_partition:
  "let r = build_coherence_session_report sha256 ob snap in
     epochs_partition (coherence_points sha256 snap) (cr_route_epochs r)
     \<and> sum_list (map ce_sample_count (cr_route_epochs r)) = max 1 (length (sn_history snap))
     \<and> Suc (cc_route_shift_count (cr_continuity r)) = length (cr_route_epochs r)
     \<and> cc_route_epoch_count (cr_continuity r) = length (cr_route_epochs r)"
proof -
  let ?p = "coherence_points sha256 snap"
  have part: "epochs_partition ?p (route_epochs ?p)"
    by (rule route_epochs_partition [OF coherence_points_sorted])
  then have "length (concat (map (\<lambda>e. replicate (ce_sample_count e) (ce_endpoint_label e)) (route_epochs ?p)))
      = length ?p"
    by (simp add: epochs_partition_def)
  then have count: "sum_list (map ce_sample_count (route_epochs ?p)) = length ?p"
    by (simp add: length_concat comp_def)
  have len: "length ?p = max 1 (length (sn_history snap))"
    by (cases "sn_history snap") (simp_all add: coherence_points_def Let_def)
  from part have "route_epochs ?p \<noteq> []"
    using coherence_points_not_Nil by (simp add: epochs_partition_def)
  with part count len show ?thesis
    by (simp add: build_coherence_session_report_def Let_def continuity_of_def)
qed

section \<open>Score and decision\<close>

lemma add_score_nat:
  "n + k < 9007199254740992 \<Longrightarrow>
   add_score c (of_nat k) (F64_Fin (of_nat n)) = F64_Fin (of_nat (n + (if c then k else 0)))"
  using f64_round_of_nat [of "n + k"] by (simp add: add_score_def)

definition score_nat :: "coherence_continuity_summary \<Rightarrow> bool \<Rightarrow> nat" where
  "score_nat c port =
     (if cc_stable_session_identity c then 20 else 0) + (if port then 10 else 0)
     + (if 1 \<le> cc_route_epoch_count c then 10 else 0) + (if 1 \<le> cc_route_shift_count c then 20 else 0)
     + (if cc_recovery_after_drift c then 20 else 0) + (if cc_liveness_signal_present c then 10 else 0)
     + (if cc_packet_counter_signal_present c then 10 else 0)"

lemma confidence_score_nat: "coherence_confidence_score c port = F64_Fin (of_nat (score_nat c port))"
proof -
  have "coherence_confidence_score c port =
     add_score (cc_packet_counter_signal_present c) (of_nat 10)
      (add_score (cc_liveness_signal_present c) (of_nat 10)
       (add_score (cc_recovery_after_drift c) (of_nat 20)
        (add_score (1 \<le> cc_route_shift_count c) (of_nat 20)
         (add_score (1 \<le> cc_route_epoch_count c) (of_nat 10)
          (add_score port (of_nat 10)
           (add_score (cc_stable_session_identity c) (of_nat 20) (F64_Fin (of_nat 0))))))))"
    by (simp add: coherence_confidence_score_def)
  also have "\<dots> = F64_Fin (of_nat (score_nat c port))"
    by (subst add_score_nat, simp)+ (simp only: score_nat_def add_0 add.assoc)
  finally show ?thesis .
qed

lemma f64_ge_nat: "f64_ge (F64_Fin (of_nat m)) (F64_Fin (of_nat n)) \<longleftrightarrow> n \<le> m"
  by (auto simp: f64_ge_def cmp_of_def)

lemma decision_nat:
  "coherence_decision (F64_Fin (of_nat n)) shifts =
     (if 85 \<le> n \<and> shifts > 0 then lit ''coherent_roaming_session_observed''
      else if 70 \<le> n then lit ''coherent_session_observed_without_roaming_claim''
      else lit ''insufficient_coherence_signal'')"
  using f64_ge_nat [of n 85] f64_ge_nat [of n 70] by (simp add: coherence_decision_def)

lemma decisions_distinct:
  "lit ''coherent_roaming_session_observed'' \<noteq> lit ''coherent_session_observed_without_roaming_claim''"
  "lit ''coherent_roaming_session_observed'' \<noteq> lit ''insufficient_coherence_signal''"
  by (simp_all add: lit_def)

text \<open>
  The confidence score is exact (no rounding) and lies between 0 and 100; a report
  decides for roaming only for an instrumented session with a non-blank id that
  changed its endpoint and showed liveness and packet progress afterwards, never for a
  legacy session.
\<close>
theorem roaming_decision_sound:
  assumes "ca_decision (cr_adjudication (build_coherence_session_report sha256 ob snap))
     = lit ''coherent_roaming_session_observed''"
  shows "let r = build_coherence_session_report sha256 ob snap; c = cr_continuity r in
     cr_kind r = Instrumented \<and> trim (ss_session_id (sn_summary snap)) \<noteq> []
     \<and> 0 < cc_route_shift_count c \<and> cc_recovery_after_drift c \<and> cc_liveness_signal_present c
     \<and> (\<exists>n. ca_confidence_score (cr_adjudication r) = F64_Fin (of_nat n) \<and> 90 \<le> n \<and> n \<le> 100)"
proof -
  let ?c = "continuity_of sha256 snap" and ?u = "ss_udp_port (sn_summary snap) \<noteq> None"
  have dec: "85 \<le> score_nat ?c ?u" "0 < cc_route_shift_count ?c"
    using assms decisions_distinct
    by (auto simp: build_coherence_session_report_def Let_def confidence_score_nat decision_nat split: if_splits)
  then have big: "cc_stable_session_identity ?c" "cc_recovery_after_drift ?c" "90 \<le> score_nat ?c ?u"
    by (auto simp: score_nat_def split: if_splits)
  have "score_nat ?c ?u \<le> 100" by (simp add: score_nat_def)
  moreover have "cc_liveness_signal_present ?c"
    using big(2) by (simp add: continuity_of_def Let_def)
  moreover have "ss_kind (sn_summary snap) = Instrumented" "trim (ss_session_id (sn_summary snap)) \<noteq> []"
    using big(1) by (simp_all add: continuity_of_def Let_def)
  ultimately show ?thesis
    using dec big unfolding Let_def
    by (auto simp: build_coherence_session_report_def Let_def confidence_score_nat)
qed

section \<open>Examples\<close>

text \<open>A live instrumented session, its history given as pairs of time and client address.\<close>

definition example_snapshot :: "(i64 \<times> rstr option) list \<Rightarrow> session_snapshot" where
  "example_snapshot samples =
     \<lparr>sn_summary =
        \<lparr>ss_session_id = lit ''instrumented:1000:7'', ss_display_session_id = None, ss_pid = 7,
         ss_kind = Instrumented, ss_health = Ok, ss_started_at_unix_ms = 1000,
         ss_last_observed_unix_ms = 3000, ss_counter_reset_unix_ms = None, ss_bind_addr = None,
         ss_udp_port = Some 60001, ss_client_addr = Some (lit ''a:1''),
         ss_peer = default_peer\<lparr>current_client_addr := Some (lit ''a:1''), last_client_addr := Some (lit ''a:1'')\<rparr>,
         ss_cmdline = lit ''mosh-server'',
         ss_metrics = default_metrics\<lparr>sm_last_heard_age_ms := Some 5, sm_packets_rx_total := Some 9\<rparr>\<rparr>,
      sn_total_history_points = length samples, sn_truncated_history_points = 0,
      sn_history = map (\<lambda>(t, a). \<lparr>mp_unix_ms = t, mp_srtt_ms = None, mp_retransmit_pct_10s = None,
         mp_remote_state_age_ms = None, mp_current_client_addr = a\<rparr>) samples\<rparr>"

lemma trim_addr [simp]: "trim (lit ''a:1'') \<noteq> []" "trim (lit ''b:1'') \<noteq> []" "trim (lit ''instrumented:1000:7'') \<noteq> []"
  by (simp_all add: lit_def trim_def trim_start_def trim_end_def is_whitespace_def)

text \<open>A client that is away for one sample and comes back to the same address.\<close>

lemma absent_client_epochs:
  "length (route_epochs (coherence_points sha256
     (example_snapshot [(1000, Some (lit ''a:1'')), (2000, None), (3000, Some (lit ''a:1''))]))) = 3"
  by (simp add: coherence_points_def example_snapshot_def history_coherence_point_def cmp_of_def
      route_epochs_def push_epoch_def endpoint_label_def Let_def)

lemma example_continuity:
  "cc_stable_session_identity (continuity_of sha256 (example_snapshot samples))"
  "cc_liveness_signal_present (continuity_of sha256 (example_snapshot samples))"
  "cc_packet_counter_signal_present (continuity_of sha256 (example_snapshot samples))"
  "cc_route_epoch_count (continuity_of sha256 (example_snapshot samples))
     = length (route_epochs (coherence_points sha256 (example_snapshot samples)))"
  "cc_route_shift_count (continuity_of sha256 (example_snapshot samples))
     = length (route_epochs (coherence_points sha256 (example_snapshot samples))) - 1"
  "cc_recovery_after_drift (continuity_of sha256 (example_snapshot samples))
     \<longleftrightarrow> 1 < length (route_epochs (coherence_points sha256 (example_snapshot samples)))"
  by (simp_all add: continuity_of_def Let_def) (simp_all add: example_snapshot_def)

lemma example_report_decision:
  assumes "1 < length (route_epochs (coherence_points sha256 (example_snapshot samples)))"
  shows "ca_decision (cr_adjudication (build_coherence_session_report sha256 ob (example_snapshot samples)))
     = lit ''coherent_roaming_session_observed''"
proof -
  have "ss_udp_port (sn_summary (example_snapshot samples)) = Some 60001" by (simp add: example_snapshot_def)
  moreover have "score_nat (continuity_of sha256 (example_snapshot samples)) True = 100"
    using assms by (auto simp: score_nat_def example_continuity)
  moreover have "coherence_decision (F64_Fin 100) n = lit ''coherent_roaming_session_observed''" if "0 < n" for n
    using decision_nat [of 100 n] that by simp
  ultimately show ?thesis
    using assms
    by (simp add: build_coherence_session_report_def Let_def confidence_score_nat example_continuity)
qed

text \<open>
  An absent client counts as an endpoint of its own: a session whose client address
  is briefly unknown and then the same as before is reported with two route shifts and
  decided to be roaming, while the compact status of the very same session says that no
  route shift was observed.
\<close>
theorem absence_reported_as_roaming:
  "let snap = example_snapshot [(1000, Some (lit ''a:1'')), (2000, None), (3000, Some (lit ''a:1''))];
       r = build_coherence_session_report sha256 ob snap
   in cc_route_shift_count (cr_continuity r) = 2
      \<and> ca_decision (cr_adjudication r) = lit ''coherent_roaming_session_observed''
      \<and> \<not> cv_route_shift_observed (build_coherence_snapshot_from_summary sha256 (sn_summary snap))"
proof -
  let ?s = "example_snapshot [(1000, Some (lit ''a:1'')), (2000, None), (3000, Some (lit ''a:1''))]"
  have "cr_continuity (build_coherence_session_report sha256 ob ?s) = continuity_of sha256 ?s"
    by (simp add: build_coherence_session_report_def Let_def)
  moreover have "\<not> cv_route_shift_observed (build_coherence_snapshot_from_summary sha256 (sn_summary ?s))"
    by (simp add: build_coherence_snapshot_from_summary_def Let_def) (simp add: example_snapshot_def default_peer_def)
  ultimately show ?thesis
    using example_report_decision [of sha256 "[(1000, Some (lit ''a:1'')), (2000, None), (3000, Some (lit ''a:1''))]" ob]
    by (simp add: Let_def example_continuity absent_client_epochs)
qed

lemma roaming_epochs:
  "length (route_epochs (coherence_points (\<lambda>x. x @ replicate 6 0)
     (example_snapshot [(1000, Some (lit ''a:1'')), (2000, Some (lit ''b:1''))]))) = 2"
  by (simp add: coherence_points_def example_snapshot_def history_coherence_point_def cmp_of_def
      route_epochs_def push_epoch_def endpoint_label_def Let_def)
    (simp add: stable_digest_label_def lit_def utf8_encode_def utf8_encode_char_def hex_bytes_def
      hex_byte_def hex_digit_def)

theorem roaming_decision_sound_witness:
  "let r = build_coherence_session_report (\<lambda>x. x @ replicate 6 0) \<lparr>node_name = lit ''n'', system_id = lit ''s''\<rparr>
         (example_snapshot [(1000, Some (lit ''a:1'')), (2000, Some (lit ''b:1''))]) in
     cr_kind r = Instrumented \<and> 0 < cc_route_shift_count (cr_continuity r)
     \<and> cc_recovery_after_drift (cr_continuity r)"
proof -
  have "1 < length (route_epochs (coherence_points (\<lambda>x. x @ replicate 6 0)
     (example_snapshot [(1000, Some (lit ''a:1'')), (2000, Some (lit ''b:1''))])))"
    by (simp add: roaming_epochs)
  from roaming_decision_sound [OF example_report_decision [OF this]] show ?thesis
    unfolding Let_def by blast
qed

text \<open>Two sessions that differ in pid, port, command line and metric values.\<close>

theorem coherence_redaction_witness:
  "let a = example_snapshot [(1000, Some (lit ''a:1''))];
       b = a\<lparr>sn_summary := (sn_summary a)\<lparr>ss_pid := 8, ss_cmdline := lit ''secret'', ss_udp_port := Some 1,
             ss_metrics := default_metrics\<lparr>sm_last_heard_age_ms := Some 99, sm_packets_rx_total := Some 1\<rparr>\<rparr>\<rparr>;
       ob = \<lparr>node_name = lit ''n'', system_id = lit ''s''\<rparr> in
     build_coherence_session_report (\<lambda>x. x) ob a = build_coherence_session_report (\<lambda>x. x) ob b"
proof -
  let ?a = "example_snapshot [(1000, Some (lit ''a:1''))]"
  let ?b = "?a\<lparr>sn_summary := (sn_summary ?a)\<lparr>ss_pid := 8, ss_cmdline := lit ''secret'', ss_udp_port := Some 1,
             ss_metrics := default_metrics\<lparr>sm_last_heard_age_ms := Some 99, sm_packets_rx_total := Some 1\<rparr>\<rparr>\<rparr>"
  let ?ob = "\<lparr>node_name = lit ''n'', system_id = lit ''s''\<rparr>"
  have "same_redacted_view (\<lambda>x. x) ?ob ?a ?ob ?b"
    by (simp add: same_redacted_view_def Let_def peer_label_def metrics_view_def)
      (simp add: example_snapshot_def default_metrics_def)
  from coherence_redaction [OF this] show ?thesis unfolding Let_def by blast
qed

end
