(* ===== verification/Line_Reader.thy ===== *)
theory Line_Reader
  imports Prelude
begin

text \<open>
  Bounded line reading as both \<open>history.rs\<close> and \<open>main.rs\<close> of \<open>moshwatchd\<close> do it over a
  buffered reader.  A reader is the list of what successive \<open>fill_buf\<close> calls would
  return: chunks of bytes, or a fault.  The contract that both implementations keep
  is stated once, as the locale \<open>bounded_line_reader\<close>, against a specification on the
  plain sequence of bytes in which chunks do not occur.
\<close>

section \<open>Buffered readers\<close>

datatype 'e read_chunk = Chunk bytes | Fault 'e

type_synonym 'e reader = "'e read_chunk list"

text \<open>\<open>fill_buf\<close>: the current chunk, empty at the end of the input; \<open>consume\<close> takes bytes off it.\<close>

fun consume :: "nat \<Rightarrow> 'e reader \<Rightarrow> 'e reader" where
  "consume n (Chunk c # r) = (if length c \<le> n then r else Chunk (drop n c) # r)"
| "consume n r = r"

text \<open>\<open>chunk.iter().position(|byte| *byte == b'\\n')\<close>\<close>

fun newline_index :: "bytes \<Rightarrow> nat option" where
  "newline_index [] = None"
| "newline_index (b # bs) = (if b = 10 then Some 0 else map_option Suc (newline_index bs))"

text \<open>What a bounded read of one line can come back with.\<close>

datatype line_outcome = EndOfInput | WholeLine bytes | TooLong nat

fun content :: "'e reader \<Rightarrow> bytes" where
  "content [] = []"
| "content (Chunk c # r) = c @ content r"
| "content (Fault e # r) = []"

definition clean_reader :: "'e reader \<Rightarrow> bool" where
  "clean_reader r \<longleftrightarrow> (\<forall>x \<in> set r. \<exists>c. x = Chunk c \<and> c \<noteq> [])"

section \<open>Specification on bytes\<close>

text \<open>The first physical line, its newline included, and what follows it.\<close>

fun split_line :: "bytes \<Rightarrow> bytes \<times> bytes" where
  "split_line [] = ([], [])"
| "split_line (b # bs) = (if b = 10 then ([b], bs) else (let (l, r) = split_line bs in (b # l, r)))"

definition next_line :: "nat \<Rightarrow> bytes \<Rightarrow> line_outcome \<times> bytes" where
  "next_line max_bytes bs =
     (if bs = [] then (EndOfInput, [])
      else let (l, r) = split_line bs
           in (if length l > max_bytes then TooLong (length l) else WholeLine l, r))"

text \<open>All physical lines of an input.\<close>

lemma split_line_append: "fst (split_line bs) @ snd (split_line bs) = bs"
  by (induction bs) (auto simp: case_prod_beta' Let_def)

lemma split_line_nonempty: "bs \<noteq> [] \<Longrightarrow> fst (split_line bs) \<noteq> []"
  by (cases bs) (auto simp: case_prod_beta' Let_def)

lemma snd_split_line_less: "bs \<noteq> [] \<Longrightarrow> length (snd (split_line bs)) < length bs"
proof -
  assume ne: "bs \<noteq> []"
  have "length (fst (split_line bs)) + length (snd (split_line bs)) = length bs"
    using split_line_append [of bs] by (metis length_append)
  moreover have "0 < length (fst (split_line bs))" using split_line_nonempty [OF ne] by simp
  ultimately show ?thesis by linarith
qed

function physical_lines :: "bytes \<Rightarrow> bytes list" where
  "physical_lines bs =
     (if bs = [] then [] else fst (split_line bs) # physical_lines (snd (split_line bs)))"
  by pat_completeness auto
termination by (relation "measure length") (auto intro: snd_split_line_less)

declare physical_lines.simps [simp del]

lemma concat_physical_lines: "concat (physical_lines bs) = bs"
proof (induction bs rule: physical_lines.induct)
  case (1 bs)
  then show ?case by (subst physical_lines.simps) (simp add: split_line_append)
qed

lemma split_line_newline:
  "newline_index bs = Some i \<Longrightarrow> split_line (bs @ rest) = (take (Suc i) bs, drop (Suc i) bs @ rest)"
  by (induction bs arbitrary: i) (auto split: if_splits)

lemma split_line_no_newline:
  "newline_index bs = None \<Longrightarrow> split_line (bs @ rest) = (bs @ fst (split_line rest), snd (split_line rest))"
  by (induction bs) (auto split: if_splits simp: case_prod_beta' Let_def)

lemma newline_index_less: "newline_index bs = Some i \<Longrightarrow> i < length bs"
  by (induction bs arbitrary: i) (auto split: if_splits)

lemma newline_index_append:
  "newline_index (a @ b) = (case newline_index a of Some i \<Rightarrow> Some i
     | None \<Rightarrow> map_option (\<lambda>i. i + length a) (newline_index b))"
  by (induction a) (auto split: option.splits simp: option.map_comp comp_def option.map_ident)

section \<open>The contract\<close>

locale bounded_line_reader =
  fixes read :: "nat \<Rightarrow> 'e reader \<Rightarrow> 'f + line_outcome \<times> 'e reader"
  assumes reads_next_line:
      "clean_reader r \<Longrightarrow>
       \<exists>r'. read max_bytes r = Inr (fst (next_line max_bytes (content r)), r')
          \<and> clean_reader r' \<and> content r' = snd (next_line max_bytes (content r))"
begin

text \<open>How the input is cut into chunks does not matter.\<close>

lemma chunking_irrelevant:
  assumes "clean_reader r" and "clean_reader s" and "content r = content s"
  shows "map_sum id fst (read max_bytes r) = map_sum id fst (read max_bytes s)"
  using reads_next_line [OF assms(1), of max_bytes] reads_next_line [OF assms(2), of max_bytes] assms(3) by auto

text \<open>A line that is delivered respects the bound, and one bad line does not touch the next.\<close>

lemma delivered_line_bounded:
  assumes "clean_reader r" and "read max_bytes r = Inr (WholeLine l, r')"
  shows "length l \<le> max_bytes \<and> l \<noteq> [] \<and> content r = l @ content r'"
proof -
  from reads_next_line [OF assms(1), of max_bytes] assms(2)
  have "WholeLine l = fst (next_line max_bytes (content r))"
    "content r' = snd (next_line max_bytes (content r))" by auto
  then show ?thesis
    using split_line_append [of "content r"] split_line_nonempty [of "content r"]
    by (auto simp: next_line_def Let_def case_prod_beta' split: if_splits)
qed

lemma oversized_line_skipped:
  assumes "clean_reader r" and "read max_bytes r = Inr (TooLong n, r')"
  shows "max_bytes < n \<and> (\<exists>l. length l = n \<and> content r = l @ content r')"
proof -
  from reads_next_line [OF assms(1), of max_bytes] assms(2)
  have "TooLong n = fst (next_line max_bytes (content r))"
    "content r' = snd (next_line max_bytes (content r))" by auto
  then show ?thesis
    using split_line_append [of "content r"]
    by (auto simp: next_line_def Let_def case_prod_beta' split: if_splits)
qed

end

section \<open>One pass over a chunk list\<close>

lemma clean_reader_simps [simp]:
  "clean_reader []"
  "clean_reader (Chunk c # r) \<longleftrightarrow> c \<noteq> [] \<and> clean_reader r"
  "\<not> clean_reader (Fault e # r)"
  by (auto simp: clean_reader_def)

lemma clean_consume: "clean_reader r \<Longrightarrow> clean_reader (consume n r)"
  by (cases r; cases "hd r") auto

fun reader_size :: "'e reader \<Rightarrow> nat" where
  "reader_size [] = 0"
| "reader_size (Chunk c # r) = length c + reader_size r"
| "reader_size (Fault e # r) = reader_size r"

lemma content_Nil_iff: "clean_reader r \<Longrightarrow> content r = [] \<longleftrightarrow> r = []"
  by (cases r; cases "hd r") auto

end
