(* ===== verification/History.thy ===== *)
theory History
  imports Sanitize Line_Reader Decimal Ordering
begin

text \<open>
  Bounded persistent history, \<open>crates/moshwatchd/src/history.rs\<close>: day files in one
  directory, retention and disk budget, the sampler's write path and the bounded
  newest-first query.  The directory is a list of named entries in \<open>read_dir\<close>
  order, or \<open>None\<close> when it does not exist.  \<open>serde_json\<close> is a parameter, and which
  system calls fail is given by a record of faults.
\<close>

section \<open>Files\<close>

definition DAY_MS :: i64 where "DAY_MS = 86400000"
definition MAX_HISTORY_LINE_BYTES :: nat where "MAX_HISTORY_LINE_BYTES = 64 * 1024"

datatype fs_entry = RegularFile bytes | OtherEntry

type_synonym directory = "(rstr \<times> fs_entry) list"

text \<open>Which system calls fail: by name where they work on one file.\<close>

datatype append_fault = OpenFails | WriteStopsAfter nat

record io_faults =
  read_dir_fails :: bool
  create_dir_fails :: bool
  stat_fails :: "rstr \<Rightarrow> bool"
  remove_fails :: "rstr \<Rightarrow> bool"
  append_fails :: "append_fault option"
  open_fails :: "rstr \<Rightarrow> bool"
  encode_fails :: bool

datatype history_error =
    ReadDirFailed | CreateDirFailed | EncodeFailed | AppendFailed | OpenFailed rstr | ReadFailed rstr

definition day_bucket :: "i64 \<Rightarrow> i64" where
  "day_bucket unix_ms = unix_ms div DAY_MS"

definition file_day_bucket :: "rstr \<Rightarrow> i64 option" where
  "file_day_bucket name =
     Option.bind (strip_prefix name (lit ''day-''))
       (\<lambda>rest. Option.bind (strip_suffix rest (lit ''.jsonl'')) parse_i64)"

definition file_name_for :: "i64 \<Rightarrow> rstr" where
  "file_name_for recorded_at = lit ''day-'' @ show_int (day_bucket recorded_at) @ lit ''.jsonl''"

record history_file =
  hf_day :: i64
  hf_path :: rstr
  hf_size :: u64

definition file_bytes :: "bytes \<Rightarrow> u64" where
  "file_bytes data = word_of_nat (length data)"

text \<open>\<open>history_files_with_sizes_in_dir\<close>: regular files with a day name whose metadata can be read.\<close>

definition history_file_of :: "io_faults \<Rightarrow> rstr \<times> fs_entry \<Rightarrow> history_file option" where
  "history_file_of io e =
     (case file_day_bucket (fst e) of
        None \<Rightarrow> None
      | Some day \<Rightarrow>
          if stat_fails io (fst e) then None
          else (case snd e of
                  OtherEntry \<Rightarrow> None
                | RegularFile data \<Rightarrow> Some \<lparr>hf_day = day, hf_path = fst e, hf_size = file_bytes data\<rparr>))"

definition history_files_with_sizes_in_dir ::
    "io_faults \<Rightarrow> directory option \<Rightarrow> history_error + history_file list" where
  "history_files_with_sizes_in_dir io dir =
     (case dir of
        None \<Rightarrow> Inr []
      | Some entries \<Rightarrow>
          if read_dir_fails io then Inl ReadDirFailed
          else Inr (List.map_filter (history_file_of io) entries))"

definition sum_sizes :: "history_file list \<Rightarrow> u64" where
  "sum_sizes files = sum_list (map hf_size files)"

definition history_dir_bytes :: "io_faults \<Rightarrow> directory option \<Rightarrow> history_error + u64" where
  "history_dir_bytes io dir = map_sum id sum_sizes (history_files_with_sizes_in_dir io dir)"

section \<open>The store\<close>

record history_store =
  hi_observer :: observer_info
  hi_dir :: "directory option"
  hi_retention_days :: u64
  hi_max_query_samples :: nat
  hi_max_disk_bytes :: u64
  hi_current_bytes :: u64
  hi_written_bytes_total :: u64
  hi_write_failures_total :: u64
  hi_prune_failures_total :: u64
  hi_dropped_samples_total :: u64

record history_stats_snapshot =
  hs_current_bytes :: u64
  hs_written_bytes_total :: u64
  hs_write_failures_total :: u64
  hs_prune_failures_total :: u64
  hs_dropped_samples_total :: u64

definition new_history_store ::
    "io_faults \<Rightarrow> observer_info \<Rightarrow> directory option \<Rightarrow> u64 \<Rightarrow> nat \<Rightarrow> u64 \<Rightarrow> history_store" where
  "new_history_store io ob dir days max_samples max_bytes =
     \<lparr>hi_observer = ob, hi_dir = dir, hi_retention_days = days, hi_max_query_samples = max_samples,
      hi_max_disk_bytes = max_bytes,
      hi_current_bytes = (case history_dir_bytes io dir of Inr b \<Rightarrow> b | Inl _ \<Rightarrow> 0),
      hi_written_bytes_total = 0, hi_write_failures_total = 0, hi_prune_failures_total = 0,
      hi_dropped_samples_total = 0\<rparr>"

definition stats_snapshot :: "history_store \<Rightarrow> history_stats_snapshot" where
  "stats_snapshot h =
     \<lparr>hs_current_bytes = hi_current_bytes h, hs_written_bytes_total = hi_written_bytes_total h,
      hs_write_failures_total = hi_write_failures_total h,
      hs_prune_failures_total = hi_prune_failures_total h,
      hs_dropped_samples_total = hi_dropped_samples_total h\<rparr>"

definition retention_window_secs :: "history_store \<Rightarrow> i64" where
  "retention_window_secs h =
     u64_as_i64 (min (u64_saturating_mul (hi_retention_days h) 86400) 9223372036854775807)"

definition record_dropped_samples :: "nat \<Rightarrow> history_store \<Rightarrow> history_store" where
  "record_dropped_samples samples h =
     h\<lparr>hi_dropped_samples_total := hi_dropped_samples_total h
         + (if samples \<le> 18446744073709551615 then word_of_nat samples else 18446744073709551615)\<rparr>"

definition refresh_current_bytes_from_disk :: "io_faults \<Rightarrow> history_store \<Rightarrow> history_store" where
  "refresh_current_bytes_from_disk io h =
     (case history_dir_bytes io (hi_dir h) of
        Inr b \<Rightarrow> h\<lparr>hi_current_bytes := b\<rparr> | Inl _ \<Rightarrow> h)"

definition write_failed :: "io_faults \<Rightarrow> history_store \<Rightarrow> history_store" where
  "write_failed io h =
     refresh_current_bytes_from_disk io (h\<lparr>hi_write_failures_total := hi_write_failures_total h + 1\<rparr>)"

section \<open>Retention\<close>

text \<open>
  One turn of the loop of \<open>prune_old_files\<close>: the entries kept so far, the bytes
  removed and the failures counted.
\<close>

record prune_acc =
  pa_kept :: directory
  pa_removed :: u64
  pa_failures :: u64

definition prune_step :: "io_faults \<Rightarrow> i64 \<Rightarrow> rstr \<times> fs_entry \<Rightarrow> prune_acc \<Rightarrow> prune_acc" where
  "prune_step io oldest_day e acc =
     (let keep = acc\<lparr>pa_kept := pa_kept acc @ [e]\<rparr> in
      case history_file_of io e of
        None \<Rightarrow> keep
      | Some f \<Rightarrow>
          if hf_day f < oldest_day then
            if remove_fails io (hf_path f) then keep\<lparr>pa_failures := pa_failures acc + 1\<rparr>
            else acc\<lparr>pa_removed := u64_saturating_add (pa_removed acc) (hf_size f)\<rparr>
          else keep)"

definition prune_old_files :: "io_faults \<Rightarrow> i64 \<Rightarrow> history_store \<Rightarrow> (history_error + unit) \<times> history_store" where
  "prune_old_files io recorded_at h =
     (let oldest_day = wrap_i64 (wrap_i64 (day_bucket recorded_at - u64_as_i64 (hi_retention_days h)) + 1) in
      case hi_dir h of
        None \<Rightarrow> (Inr (), h)
      | Some entries \<Rightarrow>
          if read_dir_fails io then (Inl ReadDirFailed, h)
          else
            let acc = fold (prune_step io oldest_day) entries
                        \<lparr>pa_kept = [], pa_removed = 0, pa_failures = hi_prune_failures_total h\<rparr>
            in (Inr (), h\<lparr>hi_dir := Some (pa_kept acc),
                          hi_prune_failures_total := pa_failures acc,
                          hi_current_bytes :=
                            (if pa_removed acc > 0
                             then u64_saturating_sub (hi_current_bytes h) (pa_removed acc)
                             else hi_current_bytes h)\<rparr>))"

section \<open>Disk budget\<close>

definition compare_history_files :: "history_file \<Rightarrow> history_file \<Rightarrow> ordering" where
  "compare_history_files l r =
     then_with (cmp_of (hf_day l) (hf_day r)) (cmp_of (hf_path l) (hf_path r))"

text \<open>The directory after the removal of one file.\<close>

definition remove_name :: "rstr \<Rightarrow> directory option \<Rightarrow> directory option" where
  "remove_name name dir = map_option (AList.delete name) dir"

text \<open>
  The eviction loop of \<open>ensure_disk_budget\<close> over the sorted files.  Its verdict:
  \<open>Some total\<close> when it returns early (\<open>Ok(Some ..)\<close> or, for a failed removal,
  \<open>Ok(None)\<close>), or the total with which the loop ends.
\<close>

datatype budget_loop = BudgetFits u64 | BudgetGivesUp | BudgetEnds u64

fun evict_loop ::
    "io_faults \<Rightarrow> i64 \<Rightarrow> u64 \<Rightarrow> history_file list \<Rightarrow> u64 \<Rightarrow> history_store \<Rightarrow> budget_loop \<times> history_store" where
  "evict_loop io current_day incoming [] used h = (BudgetEnds used, h)"
| "evict_loop io current_day incoming (f # fs) used h =
     (if hf_day f \<ge> current_day then evict_loop io current_day incoming fs used h
      else if u64_saturating_add used incoming \<le> hi_max_disk_bytes h then
        (BudgetFits (u64_saturating_add used incoming), h)
      else if remove_fails io (hf_path f) then
        (BudgetGivesUp, h\<lparr>hi_prune_failures_total := hi_prune_failures_total h + 1,
                          hi_current_bytes := used\<rparr>)
      else
        evict_loop io current_day incoming fs (u64_saturating_sub used (hf_size f))
          (h\<lparr>hi_dir := remove_name (hf_path f) (hi_dir h)\<rparr>))"

definition ensure_disk_budget ::
    "io_faults \<Rightarrow> i64 \<Rightarrow> u64 \<Rightarrow> history_store \<Rightarrow> (history_error + u64 option) \<times> history_store" where
  "ensure_disk_budget io recorded_at incoming h =
     (if incoming = 0 then (Inr (Some (hi_current_bytes h)), h)
      else if incoming > hi_max_disk_bytes h then (Inr None, h)
      else (case history_files_with_sizes_in_dir io (hi_dir h) of
              Inl e \<Rightarrow> (Inl e, h)
            | Inr files \<Rightarrow>
                let total = sum_sizes files; h1 = h\<lparr>hi_current_bytes := total\<rparr> in
                if u64_saturating_add total incoming \<le> hi_max_disk_bytes h then
                  (Inr (Some (u64_saturating_add total incoming)), h1)
                else (case evict_loop io (day_bucket recorded_at) incoming
                             (sort_by compare_history_files files) total h1 of
                        (BudgetFits t, h2) \<Rightarrow> (Inr (Some t), h2)
                      | (BudgetGivesUp, h2) \<Rightarrow> (Inr None, h2)
                      | (BudgetEnds t, h2) \<Rightarrow>
                          let h3 = h2\<lparr>hi_current_bytes := t\<rparr> in
                          if u64_saturating_add t incoming > hi_max_disk_bytes h then (Inr None, h3)
                          else (Inr (Some (u64_saturating_add t incoming)), h3))))"

section \<open>Recording\<close>

definition history_sample_of :: "observer_info \<Rightarrow> i64 \<Rightarrow> session_summary \<Rightarrow> history_sample" where
  "history_sample_of ob recorded_at s =
     \<lparr>hs_observer = Some ob, hs_recorded_at_unix_ms = recorded_at, hs_session_id = ss_session_id s,
      hs_display_session_id = ss_display_session_id s, hs_pid = ss_pid s, hs_kind = ss_kind s,
      hs_health = ss_health s, hs_started_at_unix_ms = ss_started_at_unix_ms s,
      hs_counter_reset_unix_ms = ss_counter_reset_unix_ms s, hs_bind_addr = ss_bind_addr s,
      hs_udp_port = ss_udp_port s, hs_client_addr = last_client_addr (ss_peer s),
      hs_current_client_addr = current_client_addr (ss_peer s), hs_metrics = ss_metrics s\<rparr>"

definition encode_history_payload ::
    "(history_sample \<Rightarrow> bytes) \<Rightarrow> observer_info \<Rightarrow> i64 \<Rightarrow> session_summary list \<Rightarrow> bytes" where
  "encode_history_payload to_json ob recorded_at sessions =
     concat (map (\<lambda>s. to_json (history_sample_of ob recorded_at s) @ [10]) sessions)"

text \<open>Appending to a file, created when it is missing.  Opening refuses what is not a regular file.\<close>

definition append_to_file :: "io_faults \<Rightarrow> rstr \<Rightarrow> bytes \<Rightarrow> directory \<Rightarrow> (history_error + unit) \<times> directory" where
  "append_to_file io name payload dir =
     (case (append_fails io, map_of dir name) of
        (Some OpenFails, _) \<Rightarrow> (Inl AppendFailed, dir)
      | (_, Some OtherEntry) \<Rightarrow> (Inl AppendFailed, dir)
      | (Some (WriteStopsAfter n), Some (RegularFile old)) \<Rightarrow>
          (Inl AppendFailed, AList.update name (RegularFile (old @ take n payload)) dir)
      | (Some (WriteStopsAfter n), None) \<Rightarrow>
          (Inl AppendFailed, AList.update name (RegularFile (take n payload)) dir)
      | (None, Some (RegularFile old)) \<Rightarrow> (Inr (), AList.update name (RegularFile (old @ payload)) dir)
      | (None, None) \<Rightarrow> (Inr (), AList.update name (RegularFile payload) dir))"

definition record_summaries ::
    "(history_sample \<Rightarrow> bytes) \<Rightarrow> io_faults \<Rightarrow> i64 \<Rightarrow> session_summary list \<Rightarrow> history_store
     \<Rightarrow> (history_error + unit) \<times> history_store" where
  "record_summaries to_json io recorded_at sessions h =
     (let instrumented = filter (\<lambda>s. ss_kind s = Instrumented) sessions in
      if instrumented = [] then
        (case prune_old_files io recorded_at h of
           (Inl e, h1) \<Rightarrow> (Inl e, write_failed io h1)
         | (Inr _, h1) \<Rightarrow> (Inr (), h1))
      else if create_dir_fails io then (Inl CreateDirFailed, write_failed io h)
      else
        let h0 = h\<lparr>hi_dir := Some (case hi_dir h of Some d \<Rightarrow> d | None \<Rightarrow> [])\<rparr> in
        (case prune_old_files io recorded_at h0 of
           (Inl e, h1) \<Rightarrow> (Inl e, write_failed io h1)
         | (Inr _, h1) \<Rightarrow>
             if encode_fails io then
               (Inl EncodeFailed, h1\<lparr>hi_write_failures_total := hi_write_failures_total h1 + 1\<rparr>)
             else
               let payload = encode_history_payload to_json (hi_observer h1) recorded_at instrumented in
               (case ensure_disk_budget io recorded_at (word_of_nat (length payload)) h1 of
                  (Inl e, h2) \<Rightarrow> (Inl e, write_failed io h2)
                | (Inr None, h2) \<Rightarrow> (Inr (), record_dropped_samples (length instrumented) h2)
                | (Inr (Some projected), h2) \<Rightarrow>
                    (case append_to_file io (file_name_for recorded_at) payload
                            (case hi_dir h2 of Some d \<Rightarrow> d | None \<Rightarrow> []) of
                       (Inr _, dir) \<Rightarrow>
                         (Inr (), h2\<lparr>hi_dir := Some dir, hi_current_bytes := projected,
                                     hi_written_bytes_total :=
                                       hi_written_bytes_total h2 + word_of_nat (length payload)\<rparr>)
                     | (Inl e, dir) \<Rightarrow> (Inl e, write_failed io (h2\<lparr>hi_dir := Some dir\<rparr>))))))"

section \<open>Reading lines\<close>

datatype read_line_outcome = LineEof | LineRead | LineOversized nat

fun drain_line_remainder :: "'e reader \<Rightarrow> nat \<Rightarrow> 'e + nat \<times> 'e reader" where
  "drain_line_remainder [] n = Inr (n, [])"
| "drain_line_remainder (Fault e # r) n = Inl e"
| "drain_line_remainder (Chunk c # r) n =
     (if c = [] then Inr (n, Chunk c # r)
      else (case newline_index c of
              Some i \<Rightarrow> Inr (n + Suc i, consume (Suc i) (Chunk c # r))
            | None \<Rightarrow> drain_line_remainder r (n + length c)))"

text \<open>The loop of \<open>read_bounded_line\<close>: the outcome, the line buffer and the reader after it.\<close>

fun read_line_loop :: "nat \<Rightarrow> bytes \<Rightarrow> 'e reader \<Rightarrow> 'e + read_line_outcome \<times> bytes \<times> 'e reader" where
  "read_line_loop max_bytes line [] = Inr (if line = [] then LineEof else LineRead, line, [])"
| "read_line_loop max_bytes line (Fault e # r) = Inl e"
| "read_line_loop max_bytes line (Chunk c # r) =
     (if c = [] then Inr (if line = [] then LineEof else LineRead, line, Chunk c # r)
      else (case newline_index c of
              Some i \<Rightarrow>
                let total = length line + Suc i in
                if total > max_bytes then Inr (LineOversized total, [], consume (Suc i) (Chunk c # r))
                else Inr (LineRead, line @ take (Suc i) c, consume (Suc i) (Chunk c # r))
            | None \<Rightarrow>
                if length line + length c > max_bytes then
                  (case drain_line_remainder (Chunk c # r) (length line) of
                     Inl e \<Rightarrow> Inl e
                   | Inr (n, r') \<Rightarrow> Inr (LineOversized n, [], r'))
                else read_line_loop max_bytes (line @ c) r))"

definition read_bounded_line :: "nat \<Rightarrow> 'e reader \<Rightarrow> 'e + read_line_outcome \<times> bytes \<times> 'e reader" where
  "read_bounded_line max_bytes r = read_line_loop max_bytes [] r"

definition strip_line_end :: "bytes \<Rightarrow> bytes" where
  "strip_line_end line = rev (dropWhile (\<lambda>b. b = 10 \<or> b = 13) (rev line))"

text \<open>Every read takes something off the reader, so the scan of a file ends.\<close>

lemma consume_size:
  "0 < n \<Longrightarrow> c \<noteq> [] \<Longrightarrow> reader_size (consume n (Chunk c # r)) < reader_size (Chunk c # r)"
  by simp

lemma drain_size: "drain_line_remainder r n = Inr (m, r') \<Longrightarrow> reader_size r' \<le> reader_size r"
  by (induction r n rule: drain_line_remainder.induct)
    (auto split: option.splits if_splits intro: order.trans)

lemma drain_size_less:
  assumes "c \<noteq> []" and "drain_line_remainder (Chunk c # r) n = Inr (m, r')"
  shows "reader_size r' < reader_size (Chunk c # r)"
proof (cases "newline_index c")
  case None
  with assms have "reader_size r' \<le> reader_size r" by (auto dest: drain_size)
  then show ?thesis using assms(1) by (cases c) auto
next
  case (Some i)
  with assms consume_size [of "Suc i" c r] show ?thesis by (auto simp del: consume.simps)
qed

lemma read_line_size:
  "read_line_loop max_bytes line r = Inr (out, line', r') \<Longrightarrow>
   reader_size r' \<le> reader_size r
   \<and> (reader_size r' < reader_size r \<or> out = (if line = [] then LineEof else LineRead))"
proof (induction max_bytes line r rule: read_line_loop.induct)
  case (3 max_bytes line c r)
  show ?case
  proof (cases "c = []")
    case False
    then have less: "reader_size (consume (Suc i) (Chunk c # r)) < reader_size (Chunk c # r)" for i
      by (rule consume_size [rotated]) simp
    have drain: "drain_line_remainder (Chunk c # r) n = Inr (m, r') \<Longrightarrow> reader_size r' < reader_size (Chunk c # r)" for n m
      using False by (rule drain_size_less)
    show ?thesis
    proof (cases "newline_index c")
      case None
      show ?thesis
      proof (cases "length line + length c > max_bytes")
        case True
        with "3.prems" None False
        obtain n m where "drain_line_remainder (Chunk c # r) n = Inr (m, r')"
          by (auto simp del: drain_line_remainder.simps split: sum.splits)
        then show ?thesis using drain by (simp del: drain_line_remainder.simps reader_size.simps add: less_imp_le)
      next
        case le: False
        with "3.prems" None False have "read_line_loop max_bytes (line @ c) r = Inr (out, line', r')" by simp
        from "3.IH" [OF False None le this] have "reader_size r' \<le> reader_size r" by simp
        with False show ?thesis by (cases c) auto
      qed
    next
      case (Some i)
      with "3.prems" False have "r' = consume (Suc i) (Chunk c # r)"
        by (auto simp: Let_def simp del: consume.simps split: if_splits)
      with less [of i] show ?thesis by (simp del: consume.simps)
    qed
  qed (use 3 in auto)
qed auto

section \<open>Queries\<close>

text \<open>
  The inner loop of \<open>query_session\<close> over one file: skip oversized, empty, malformed
  and invalid lines, keep what matches.
\<close>

function scan_lines ::
    "(bytes \<Rightarrow> history_sample option) \<Rightarrow> rstr \<Rightarrow> i64 \<Rightarrow> 'e reader \<Rightarrow> history_sample list \<Rightarrow> 'e + history_sample list" where
  "scan_lines from_json session_id since r matches =
     (case read_bounded_line MAX_HISTORY_LINE_BYTES r of
        Inl e \<Rightarrow> Inl e
      | Inr (LineEof, line, r') \<Rightarrow> Inr matches
      | Inr (LineOversized n, line, r') \<Rightarrow> scan_lines from_json session_id since r' matches
      | Inr (LineRead, line, r') \<Rightarrow>
          let line = strip_line_end line in
          if line = [] then scan_lines from_json session_id since r' matches
          else (case from_json line of
                  None \<Rightarrow> scan_lines from_json session_id since r' matches
                | Some sample \<Rightarrow>
                    (case sanitize_history_sample sample of
                       None \<Rightarrow> scan_lines from_json session_id since r' matches
                     | Some sample \<Rightarrow>
                         if hs_session_id sample \<noteq> session_id \<or> hs_recorded_at_unix_ms sample < since
                         then scan_lines from_json session_id since r' matches
                         else scan_lines from_json session_id since r' (matches @ [sample]))))"
  by pat_completeness auto
termination
  by (relation "measure (\<lambda>(f, i, s, r, m). reader_size r)")
    (auto simp: read_bounded_line_def dest!: read_line_size)

declare scan_lines.simps [simp del]

text \<open>\<open>push_back\<close> and \<open>pop_back\<close> when over the limit.\<close>

definition push_limited :: "nat \<Rightarrow> 'a \<Rightarrow> 'a list \<Rightarrow> 'a list" where
  "push_limited limit x xs =
     (let ys = xs @ [x] in if length ys > limit then butlast ys else ys)"

definition history_files_from ::
    "io_faults \<Rightarrow> i64 \<Rightarrow> directory option \<Rightarrow> history_error + (rstr \<times> bytes) list" where
  "history_files_from io since dir =
     (case dir of
        None \<Rightarrow> Inr []
      | Some entries \<Rightarrow>
          if read_dir_fails io then Inl ReadDirFailed
          else
            let keep = List.map_filter
                  (\<lambda>(name, e).
                     (case file_day_bucket name of
                        None \<Rightarrow> None
                      | Some day \<Rightarrow>
                          if stat_fails io name then None
                          else (case e of
                                  OtherEntry \<Rightarrow> None
                                | RegularFile data \<Rightarrow>
                                    if day_bucket since \<le> day then Some (day, name, data) else None)))
                  entries
            in Inr (map snd (sort_by
                 (\<lambda>l r. then_with (cmp_of (fst l) (fst r)) (cmp_of (fst (snd l)) (fst (snd r)))) keep)))"

text \<open>The outer loop over the files, newest first; \<open>buffered\<close> is how the reader cuts a file into chunks.\<close>

fun query_files ::
    "(bytes \<Rightarrow> 'e reader) \<Rightarrow> (bytes \<Rightarrow> history_sample option) \<Rightarrow> io_faults \<Rightarrow> rstr \<Rightarrow> i64 \<Rightarrow> nat
     \<Rightarrow> (rstr \<times> bytes) list \<Rightarrow> history_sample list \<Rightarrow> history_error + history_sample list" where
  "query_files buffered from_json io session_id since limit [] samples = Inr samples"
| "query_files buffered from_json io session_id since limit ((name, data) # fs) samples =
     (if open_fails io name then Inl (OpenFailed name)
      else (case scan_lines from_json session_id since (buffered data) [] of
              Inl e \<Rightarrow> Inl (ReadFailed name)
            | Inr matches \<Rightarrow>
                let samples' = fold (push_limited limit) (rev matches) samples in
                if length samples' \<ge> limit then Inr samples'
                else query_files buffered from_json io session_id since limit fs samples'))"

definition query_session ::
    "(bytes \<Rightarrow> 'e reader) \<Rightarrow> (bytes \<Rightarrow> history_sample option) \<Rightarrow> io_faults \<Rightarrow> rstr \<Rightarrow> i64 \<Rightarrow> nat
     \<Rightarrow> history_store \<Rightarrow> history_error + history_sample list" where
  "query_session buffered from_json io session_id since limit h =
     (let limit = min limit (hi_max_query_samples h) in
      if limit = 0 then Inr []
      else (case history_files_from io since (hi_dir h) of
              Inl e \<Rightarrow> Inl e
            | Inr files \<Rightarrow>
                map_sum id rev (query_files buffered from_json io session_id since limit (rev files) [])))"

end
