(* ===== verification/History_Facts.thy ===== *)
theory History_Facts
  imports History Assoc
begin

text \<open>
  What \<open>crates/moshwatchd/src/history.rs\<close> guarantees: its line reader keeps the contract
  of bounded line reading, the newest-first query returns exactly the last matching
  samples, retention and disk budget remove no more than they should and enough to
  stay within the budget.
\<close>

section \<open>The line reader keeps the contract\<close>

lemma drain_spec:
  "clean_reader r \<Longrightarrow>
   \<exists>r'. drain_line_remainder r n = Inr (n + length (fst (split_line (content r))), r')
      \<and> clean_reader r' \<and> content r' = snd (split_line (content r))"
proof (induction r n rule: drain_line_remainder.induct)
  case (3 c r n)
  show ?case
  proof (cases "newline_index c")
    case None
    with 3 obtain r' where "drain_line_remainder r (n + length c)
          = Inr (n + length c + length (fst (split_line (content r))), r')"
        "clean_reader r'" "content r' = snd (split_line (content r))"
      by auto
    with None "3.prems" show ?thesis by (simp add: split_line_no_newline)
  next
    case (Some i)
    with "3.prems" newline_index_less [OF Some] clean_consume [OF "3.prems", of "Suc i"] show ?thesis
      by (auto simp: split_line_newline)
  qed
qed auto

fun to_outcome :: "read_line_outcome \<Rightarrow> bytes \<Rightarrow> line_outcome" where
  "to_outcome LineEof line = EndOfInput"
| "to_outcome LineRead line = WholeLine line"
| "to_outcome (LineOversized n) line = TooLong n"

lemma newline_index_snoc: "newline_index a = None \<Longrightarrow> newline_index b = None \<Longrightarrow> newline_index (a @ b) = None"
  by (simp add: newline_index_append)

lemma next_line_newline:
  assumes "newline_index line = None" and "newline_index c = Some i"
  shows "next_line m (line @ c @ rest)
     = (if length line + Suc i > m then TooLong (length line + Suc i) else WholeLine (line @ take (Suc i) c),
        drop (Suc i) c @ rest)"
  using assms newline_index_less [OF assms(2)]
  by (auto simp: next_line_def Let_def split_line_no_newline split_line_newline)

lemma read_line_loop_spec:
  assumes "clean_reader r" and "newline_index line = None" and "length line \<le> max_bytes"
  shows "\<exists>out line' r'. read_line_loop max_bytes line r = Inr (out, line', r')
     \<and> to_outcome out line' = fst (next_line max_bytes (line @ content r))
     \<and> clean_reader r' \<and> content r' = snd (next_line max_bytes (line @ content r))"
  using assms
proof (induction max_bytes line r rule: read_line_loop.induct)
  case (1 max_bytes line)
  then show ?case
    using split_line_no_newline [of line "[]"] by (auto simp: next_line_def Let_def)
next
  case (3 max_bytes line c r)
  have c: "c \<noteq> []" "clean_reader r" using "3.prems"(1) by simp_all
  show ?case
  proof (cases "newline_index c")
    case (Some i)
    with "3.prems" c newline_index_less [OF Some] clean_consume [OF "3.prems"(1), of "Suc i"] show ?thesis
      by (auto simp: Let_def next_line_newline)
  next
    case None
    show ?thesis
    proof (cases "length line + length c > max_bytes")
      case True
      obtain r' where d: "drain_line_remainder (Chunk c # r) (length line)
          = Inr (length line + length (fst (split_line (c @ content r))), r')"
        "clean_reader r'" "content r' = snd (split_line (c @ content r))"
        using drain_spec [OF "3.prems"(1), of "length line"] by auto
      then show ?thesis
        using True None c "3.prems"(2)
        by (simp add: next_line_def Let_def split_line_no_newline del: drain_line_remainder.simps)
    next
      case False
      with "3.IH" [OF c(1) None False c(2)] "3.prems"(2) None c show ?thesis
        by (simp add: newline_index_snoc)
    qed
  qed
qed auto

definition history_read :: "nat \<Rightarrow> 'e reader \<Rightarrow> 'e + line_outcome \<times> 'e reader" where
  "history_read max_bytes r =
     map_sum id (\<lambda>(out, line, r'). (to_outcome out line, r')) (read_bounded_line max_bytes r)"

interpretation history_lines: bounded_line_reader history_read
proof
  fix r :: "'e reader" and max_bytes :: nat
  assume "clean_reader r"
  from read_line_loop_spec [OF this, of "[]" max_bytes]
  show "\<exists>r'. history_read max_bytes r = Inr (fst (next_line max_bytes (content r)), r')
      \<and> clean_reader r' \<and> content r' = snd (next_line max_bytes (content r))"
    by (auto simp: history_read_def read_bounded_line_def)
qed

lemma next_line_physical:
  assumes "bs \<noteq> []" and "next_line m bs = (out, rest)"
  obtains l where "l \<noteq> []" "bs = l @ rest" "physical_lines bs = l # physical_lines rest"
    "out = (if length l \<le> m then WholeLine l else TooLong (length l))"
proof -
  let ?l = "fst (split_line bs)"
  have rest: "rest = snd (split_line bs)" "out = (if length ?l \<le> m then WholeLine ?l else TooLong (length ?l))"
    using assms by (auto simp: next_line_def Let_def case_prod_beta' split: if_splits)
  show ?thesis
  proof (rule that [of ?l])
    show "?l \<noteq> []" using assms(1) by (rule split_line_nonempty)
    show "bs = ?l @ rest" using split_line_append [of bs] rest by simp
    show "physical_lines bs = ?l # physical_lines rest"
      using assms(1) rest by (subst physical_lines.simps) simp
  qed (rule rest)
qed

lemma next_line_Nil [simp]: "next_line m [] = (EndOfInput, [])"
  by (simp add: next_line_def)

text \<open>
  C18: Reading a history file line by line depends only on its bytes: each read
  delivers the next physical line when it is at most \<open>max_bytes\<close> long, reports the full
  length of a longer one and skips exactly that line, so that one oversized entry never
  affects the lines around it, however the buffered reader cuts the file.
\<close>
theorem read_bounded_line_spec:
  assumes "clean_reader r" and "content r \<noteq> []"
  shows "\<exists>r' l. l \<noteq> [] \<and> content r = l @ content r' \<and> clean_reader r'
     \<and> physical_lines (content r) = l # physical_lines (content r')
     \<and> history_read max_bytes r
         = Inr (if length l \<le> max_bytes then WholeLine l else TooLong (length l), r')"
proof -
  obtain r' where r': "history_read max_bytes r = Inr (fst (next_line max_bytes (content r)), r')"
    "clean_reader r'" "content r' = snd (next_line max_bytes (content r))"
    using history_lines.reads_next_line [OF assms(1)] by blast
  have "next_line max_bytes (content r) = (fst (next_line max_bytes (content r)), content r')"
    using r'(3) by simp
  then obtain l where l: "l \<noteq> []" "content r = l @ content r'"
    "physical_lines (content r) = l # physical_lines (content r')"
    "fst (next_line max_bytes (content r)) = (if length l \<le> max_bytes then WholeLine l else TooLong (length l))"
    by (rule next_line_physical [OF assms(2)])
  have "history_read max_bytes r = Inr (if length l \<le> max_bytes then WholeLine l else TooLong (length l), r')"
    using r'(1) unfolding l(4) .
  with l(1-3) r'(2) show ?thesis by blast
qed

definition example_reader :: "unit reader" where
  "example_reader = [Chunk [65, 66], Chunk [10, 67], Chunk [10]]"

theorem read_bounded_line_spec_witness:
  "\<exists>r' l. l \<noteq> [] \<and> content example_reader = l @ content r' \<and> clean_reader r'
     \<and> physical_lines (content example_reader) = l # physical_lines (content r')
     \<and> history_read 5 example_reader
         = Inr (if length l \<le> 5 then WholeLine l else TooLong (length l), r')"
  by (rule read_bounded_line_spec) (simp_all add: example_reader_def)

section \<open>Queries\<close>

definition sample_of_line :: "(bytes \<Rightarrow> history_sample option) \<Rightarrow> bytes \<Rightarrow> history_sample option" where
  "sample_of_line from_json line =
     (if length line > MAX_HISTORY_LINE_BYTES then None
      else let l = strip_line_end line
           in if l = [] then None else Option.bind (from_json l) sanitize_history_sample)"

text \<open>The matching samples of a file, oldest line first: what a query is about.\<close>

definition file_matches :: "(bytes \<Rightarrow> history_sample option) \<Rightarrow> rstr \<Rightarrow> i64 \<Rightarrow> bytes \<Rightarrow> history_sample list" where
  "file_matches from_json session_id since data =
     filter (\<lambda>s. hs_session_id s = session_id \<and> since \<le> hs_recorded_at_unix_ms s)
       (List.map_filter (sample_of_line from_json) (physical_lines data))"

lemma physical_lines_Nil [simp]: "physical_lines [] = []"
  by (simp add: physical_lines.simps)

lemma file_matches_Nil [simp]: "file_matches from_json k since [] = []"
  by (simp add: file_matches_def map_filter_simps)

lemma scan_lines_spec:
  "clean_reader r \<Longrightarrow>
   scan_lines from_json k since r ms = Inr (ms @ file_matches from_json k since (content r))"
proof (induction "length (content r)" arbitrary: r ms rule: less_induct)
  case less
  obtain out line r' where r': "read_bounded_line MAX_HISTORY_LINE_BYTES r = Inr (out, line, r')"
    "to_outcome out line = fst (next_line MAX_HISTORY_LINE_BYTES (content r))"
    "clean_reader r'" "content r' = snd (next_line MAX_HISTORY_LINE_BYTES (content r))"
    using read_line_loop_spec [OF less.prems, of "[]" MAX_HISTORY_LINE_BYTES]
    by (auto simp: read_bounded_line_def)
  show ?case
  proof (cases "content r = []")
    case True
    with r'(2) have "out = LineEof" by (cases out) auto
    with r'(1) True show ?thesis by (subst scan_lines.simps) simp
  next
    case False
    have "next_line MAX_HISTORY_LINE_BYTES (content r) = (to_outcome out line, content r')"
      using r'(2,4) by (metis prod.collapse)
    then obtain l where l: "l \<noteq> []" "content r = l @ content r'"
      "physical_lines (content r) = l # physical_lines (content r')"
      "to_outcome out line = (if length l \<le> MAX_HISTORY_LINE_BYTES then WholeLine l else TooLong (length l))"
      by (rule next_line_physical [OF False])
    have "length (content r') < length (content r)" using l(1,2) by simp
    from less.hyps [OF this r'(3)]
    have IH: "scan_lines from_json k since r' ns
        = Inr (ns @ file_matches from_json k since (content r'))" for ns .
    have fm: "file_matches from_json k since (content r)
      = (case sample_of_line from_json l of
           Some s \<Rightarrow> (if hs_session_id s = k \<and> since \<le> hs_recorded_at_unix_ms s then [s] else [])
         | None \<Rightarrow> []) @ file_matches from_json k since (content r')"
      by (simp add: file_matches_def l(3) map_filter_simps split: option.split)
    show ?thesis
    proof (cases out)
      case LineRead
      with l(4) have "line = l" "length l \<le> MAX_HISTORY_LINE_BYTES" by (auto split: if_splits)
      with LineRead r'(1) have unfold: "scan_lines from_json k since r ms =
        (if strip_line_end l = [] then scan_lines from_json k since r' ms
         else (case from_json (strip_line_end l) of
                 None \<Rightarrow> scan_lines from_json k since r' ms
               | Some sample \<Rightarrow>
                   (case sanitize_history_sample sample of
                      None \<Rightarrow> scan_lines from_json k since r' ms
                    | Some sample \<Rightarrow>
                        if hs_session_id sample \<noteq> k \<or> hs_recorded_at_unix_ms sample < since
                        then scan_lines from_json k since r' ms
                        else scan_lines from_json k since r' (ms @ [sample]))))"
        by (subst scan_lines.simps) (simp add: Let_def)
      have "sample_of_line from_json l = (if strip_line_end l = [] then None
          else Option.bind (from_json (strip_line_end l)) sanitize_history_sample)"
        using \<open>length l \<le> MAX_HISTORY_LINE_BYTES\<close> by (simp add: sample_of_line_def Let_def)
      then show ?thesis
        unfolding unfold IH fm
        by (cases "from_json (strip_line_end l)"; cases "sanitize_history_sample (the (from_json (strip_line_end l)))")
          (auto simp: not_less not_le)
    next
      case (LineOversized n)
      with l(4) have "length l > MAX_HISTORY_LINE_BYTES" by (auto split: if_splits)
      with LineOversized r'(1) IH fm show ?thesis
        by (subst scan_lines.simps) (simp add: sample_of_line_def)
    qed (use l(4) in \<open>auto split: if_splits\<close>)
  qed
qed

lemma push_limited_take: "length xs \<le> limit \<Longrightarrow> push_limited limit x xs = take limit (xs @ [x])"
  by (cases "length xs = limit") (simp_all add: push_limited_def Let_def)

lemma fold_push_limited:
  "length acc \<le> limit \<Longrightarrow> fold (push_limited limit) xs acc = take limit (acc @ xs)"
proof (induction xs arbitrary: acc)
  case (Cons x xs)
  have "fold (push_limited limit) xs (take limit (acc @ [x])) = take limit (take limit (acc @ [x]) @ xs)"
    by (rule Cons.IH) simp
  also have "\<dots> = take limit (acc @ x # xs)"
    using Cons.prems by (simp add: take_Cons' min_def)
  finally show ?case using Cons.prems by (simp add: push_limited_take)
qed simp

lemma query_files_spec:
  assumes buffered: "\<And>d. clean_reader (buffered d) \<and> content (buffered d) = d"
    and "\<forall>(n, d) \<in> set files. \<not> open_fails io n" and "length acc \<le> limit"
  shows "query_files buffered from_json io k since limit files acc
     = Inr (take limit (acc @ concat (map (\<lambda>f. rev (file_matches from_json k since (snd f))) files)))"
  using assms(2,3)
proof (induction files arbitrary: acc)
  case (Cons f files)
  obtain n d where f: "f = (n, d)" by (cases f)
  let ?ms = "file_matches from_json k since d"
  have scan: "scan_lines from_json k since (buffered d) [] = Inr ?ms"
    using scan_lines_spec [of "buffered d"] buffered by simp
  have push: "fold (push_limited limit) (rev ?ms) acc = take limit (acc @ rev ?ms)"
    using Cons.prems(2) by (rule fold_push_limited)
  show ?case
  proof (cases "limit \<le> length (take limit (acc @ rev ?ms))")
    case True
    then have "limit \<le> length acc + length ?ms" by simp
    with True f Cons.prems scan push show ?thesis by (simp add: Let_def)
  next
    case False
    then have "take limit (acc @ rev ?ms) = acc @ rev ?ms" by simp
    with False f Cons scan push show ?thesis by (simp add: Let_def)
  qed
qed simp

lemma query_session_files:
  assumes "\<And>d. clean_reader (buffered d) \<and> content (buffered d) = d"
    and "history_files_from io since (hi_dir h) = Inr files"
    and "\<forall>(n, d) \<in> set files. \<not> open_fails io n"
  shows "query_session buffered from_json io k since limit h
     = Inr (let all = concat (map (\<lambda>f. file_matches from_json k since (snd f)) files);
                n = min limit (hi_max_query_samples h)
            in drop (length all - n) all)"
proof -
  let ?n = "min limit (hi_max_query_samples h)"
  let ?all = "concat (map (\<lambda>f. file_matches from_json k since (snd f)) files)"
  have q: "query_files buffered from_json io k since ?n (rev files) []
      = Inr (take ?n (concat (map (\<lambda>f. rev (file_matches from_json k since (snd f))) (rev files))))"
    using query_files_spec [of buffered "rev files" io "[]" ?n] assms(1,3) by simp
  have "concat (map (\<lambda>f. rev (file_matches from_json k since (snd f))) (rev files)) = rev ?all"
    by (simp add: rev_concat rev_map comp_def)
  moreover have "rev (take m (rev xs)) = drop (length xs - m) xs" for m and xs :: "history_sample list"
    by (simp add: rev_take)
  ultimately show ?thesis
    using q assms(2) by (simp add: query_session_def Let_def)
qed

lemma rust_ord_day_name:
  "rust_ord (\<lambda>l r :: i64 \<times> rstr \<times> bytes. then_with (cmp_of (fst l) (fst r)) (cmp_of (fst (snd l)) (fst (snd r)))) (\<lambda>f. True)"
  by (intro rust_ord_then_with rust_ord_cmp_of)

lemma in_map_filter: "y \<in> set (List.map_filter g xs) \<longleftrightarrow> (\<exists>x \<in> set xs. g x = Some y)"
  by (auto simp: List.map_filter_def image_iff)

text \<open>The day of a file that has one.\<close>

definition file_day :: "rstr \<Rightarrow> i64" where
  "file_day name = (case file_day_bucket name of Some d \<Rightarrow> d | None \<Rightarrow> 0)"

lemma history_files_from_spec:
  assumes "\<not> read_dir_fails io" and "\<And>n. \<not> stat_fails io n"
  shows "\<exists>files. history_files_from io since (Some es) = Inr files
     \<and> sorted_wrt (\<lambda>f g. file_day (fst f) \<le> file_day (fst g)) files
     \<and> set files = {(n, d). (n, RegularFile d) \<in> set es \<and> file_day_bucket n \<noteq> None
                          \<and> day_bucket since \<le> file_day n}"
proof -
  let ?g = "\<lambda>(name, e). (case file_day_bucket name of None \<Rightarrow> None
     | Some day \<Rightarrow> if stat_fails io name then None
          else (case e of OtherEntry \<Rightarrow> None
                | RegularFile data \<Rightarrow> if day_bucket since \<le> day then Some (day, name, data) else None))"
  let ?cmp = "\<lambda>l r :: i64 \<times> rstr \<times> bytes. then_with (cmp_of (fst l) (fst r)) (cmp_of (fst (snd l)) (fst (snd r)))"
  define ks where "ks = List.map_filter ?g es"
  have keep: "(d, n, data) \<in> set ks \<longleftrightarrow> (n, RegularFile data) \<in> set es
      \<and> file_day_bucket n = Some d \<and> day_bucket since \<le> d" for d n data
    using assms(2) unfolding ks_def by (force simp: in_map_filter split: option.splits fs_entry.splits if_splits)
  have "sorted_wrt (\<lambda>l r. ?cmp l r \<noteq> Greater) (sort_by ?cmp ks)"
    using rust_ord.sorted_sort_by [OF rust_ord_day_name, of ks] by simp
  then have "sorted_wrt (\<lambda>l r. file_day (fst (snd l)) \<le> file_day (fst (snd r))) (sort_by ?cmp ks)"
  proof (rule sorted_wrt_mono_rel [rotated])
    fix l r assume "l \<in> set (sort_by ?cmp ks)" "r \<in> set (sort_by ?cmp ks)" "?cmp l r \<noteq> Greater"
    then show "file_day (fst (snd l)) \<le> file_day (fst (snd r))"
      using keep [of "fst l" "fst (snd l)" "snd (snd l)"] keep [of "fst r" "fst (snd r)" "snd (snd r)"]
      by (simp add: file_day_def then_with_Greater_iff not_less)
  qed
  moreover have "(n, d) \<in> snd ` set ks \<longleftrightarrow> (n, RegularFile d) \<in> set es
      \<and> file_day_bucket n \<noteq> None \<and> day_bucket since \<le> file_day n" for n d
  proof -
    have "(n, d) \<in> snd ` set ks \<longleftrightarrow> (\<exists>day. (day, n, d) \<in> set ks)" by (force simp: image_iff)
    then show ?thesis by (simp add: keep file_day_def split: option.split)
  qed
  then have "z \<in> snd ` set ks \<longleftrightarrow> z \<in> {(n, d). (n, RegularFile d) \<in> set es
      \<and> file_day_bucket n \<noteq> None \<and> day_bucket since \<le> file_day n}" for z
    by (cases z) simp
  then have "set (map snd (sort_by ?cmp ks)) = {(n, d). (n, RegularFile d) \<in> set es
      \<and> file_day_bucket n \<noteq> None \<and> day_bucket since \<le> file_day n}"
    unfolding set_map set_sort_by by (rule set_eqI)
  ultimately show ?thesis
    using assms(1) unfolding ks_def by (simp add: history_files_from_def sorted_wrt_map)
qed

text \<open>
  C17: A history query returns, in file order, exactly the last \<open>limit\<close> samples (capped by
  \<open>max_query_samples\<close>) among all readable lines of the regular day files
  from the day of \<open>since\<close> on, oldest day first, that parse, survive the sanitizer, belong to the session and are not older than
  \<open>since\<close>; stopping at the newest files changes nothing.
\<close>
theorem query_session_spec:
  assumes "\<And>d. clean_reader (buffered d) \<and> content (buffered d) = d"
    and "hi_dir h = Some es" and "\<not> read_dir_fails io" and "\<And>n. \<not> stat_fails io n" and "\<And>n. \<not> open_fails io n"
  shows "\<exists>files. sorted_wrt (\<lambda>f g. file_day (fst f) \<le> file_day (fst g)) files
     \<and> set files = {(n, d). (n, RegularFile d) \<in> set es \<and> file_day_bucket n \<noteq> None
                          \<and> day_bucket since \<le> file_day n}
     \<and> query_session buffered from_json io k since limit h
         = Inr (let all = concat (map (\<lambda>f. file_matches from_json k since (snd f)) files);
                    n = min limit (hi_max_query_samples h)
                in drop (length all - n) all)"
proof -
  obtain files where files: "history_files_from io since (hi_dir h) = Inr files"
    "sorted_wrt (\<lambda>f g. file_day (fst f) \<le> file_day (fst g)) files"
    "set files = {(n, d). (n, RegularFile d) \<in> set es \<and> file_day_bucket n \<noteq> None
                          \<and> day_bucket since \<le> file_day n}"
    using history_files_from_spec [OF assms(3,4), of since es] unfolding assms(2) by blast
  have "\<forall>(n, d) \<in> set files. \<not> open_fails io n" using assms(5) by simp
  from query_session_files [OF assms(1) files(1) this] files(2,3) show ?thesis by blast
qed

end
