(* ===== verification/History_Storage.thy ===== *)
theory History_Storage
  imports History_Facts
begin

text \<open>
  What \<open>history.rs\<close> does to the files: day names, retention, the disk budget and the
  append path, and that what is recorded is what a later query finds.
\<close>

section \<open>Day files\<close>

lemma day_bucket_bounds:
  assumes "in_i64 t"
  shows "- 106751991168 \<le> day_bucket t" and "day_bucket t \<le> 106751991168"
  using assms zdiv_mono1 [of i64_min t DAY_MS] zdiv_mono1 [of t i64_max DAY_MS]
  by (simp_all add: in_i64_def i64_min_def i64_max_def day_bucket_def DAY_MS_def)

lemma day_file_name_parses:
  assumes "in_i64 t"
  shows "file_day_bucket (file_name_for t) = Some (day_bucket t)"
proof -
  have "in_i64 (day_bucket t)"
    using day_bucket_bounds [OF assms] by (simp add: in_i64_def i64_min_def i64_max_def)
  then show ?thesis by (simp add: file_day_bucket_def file_name_for_def parse_i64_show_int)
qed

section \<open>Retention\<close>

definition expired :: "io_faults \<Rightarrow> i64 \<Rightarrow> rstr \<times> fs_entry \<Rightarrow> bool" where
  "expired io oldest_day e =
     (case history_file_of io e of Some f \<Rightarrow> hf_day f < oldest_day | None \<Rightarrow> False)"

lemma history_file_of_path: "history_file_of io e = Some f \<Longrightarrow> hf_path f = fst e"
  by (auto simp: history_file_of_def split: option.splits if_splits fs_entry.splits)

lemma fold_prune_step:
  "pa_kept (fold (prune_step io d) es acc)
     = pa_kept acc @ filter (\<lambda>e. \<not> expired io d e \<or> remove_fails io (fst e)) es
   \<and> pa_failures (fold (prune_step io d) es acc)
     = pa_failures acc + of_nat (length (filter (\<lambda>e. expired io d e \<and> remove_fails io (fst e)) es))"
  by (induction es arbitrary: acc)
    (auto simp: prune_step_def expired_def Let_def history_file_of_path split: option.split)

text \<open>The first day that retention keeps, in the ranges that a validated configuration allows.\<close>

lemma oldest_day_value:
  assumes "in_i64 t" and "unat days \<le> 1000000"
  shows "wrap_i64 (wrap_i64 (day_bucket t - u64_as_i64 days) + 1) = day_bucket t - int (unat days) + 1"
proof -
  note d = day_bucket_bounds [OF assms(1)]
  have n: "u64_as_i64 days = int (unat days)" using assms(2) by (intro u64_as_i64_small) linarith
  have r: "in_i64 (day_bucket t - int (unat days))" "in_i64 (day_bucket t - int (unat days) + 1)"
    using d assms(2) unfolding in_i64_def i64_min_def i64_max_def by linarith+
  then show ?thesis by (simp only: n wrap_i64_id)
qed

lemma prune_old_files_dir:
  assumes "hi_dir h = Some es" and "\<not> read_dir_fails io"
  shows "\<exists>h'. prune_old_files io t h = (Inr (), h')
     \<and> hi_dir h' = Some (filter (\<lambda>e. \<not> expired io (wrap_i64 (wrap_i64 (day_bucket t
            - u64_as_i64 (hi_retention_days h)) + 1)) e \<or> remove_fails io (fst e)) es)"
  using assms fold_prune_step by (simp add: prune_old_files_def Let_def)

lemma todays_file_kept:
  assumes "in_i64 t" and "0 < n"
  shows "case history_file_of io (file_name_for t, d) of None \<Rightarrow> True
         | Some f \<Rightarrow> day_bucket t - int n < hf_day f"
  using day_file_name_parses [OF assms(1)] assms(2)
  by (auto simp: history_file_of_def split: if_splits fs_entry.splits)

text \<open>
  Retention of \<open>N\<close> days keeps exactly the entries that are not day files, the
  files of the last \<open>N\<close> days up to today (and later ones), and the expired files that the
  system refuses to remove; each refusal is counted, and today's file is never touched.
\<close>
theorem prune_old_files_spec:
  assumes "hi_dir h = Some es" and "\<not> read_dir_fails io"
    and "in_i64 t" and "0 < unat (hi_retention_days h)" and "unat (hi_retention_days h) \<le> 1000000"
  shows "\<exists>h'. prune_old_files io t h = (Inr (), h')
     \<and> hi_dir h' = Some (filter (\<lambda>e. remove_fails io (fst e)
          \<or> (case history_file_of io e of None \<Rightarrow> True
             | Some f \<Rightarrow> day_bucket t - int (unat (hi_retention_days h)) < hf_day f)) es)
     \<and> hi_prune_failures_total h' = hi_prune_failures_total h
          + of_nat (length (filter (\<lambda>e. expired io (day_bucket t - int (unat (hi_retention_days h)) + 1) e
                \<and> remove_fails io (fst e)) es))
     \<and> (\<forall>d. (file_name_for t, d) \<in> set es \<longrightarrow> (file_name_for t, d) \<in> set (the (hi_dir h')))"
proof -
  let ?n = "int (unat (hi_retention_days h))"
  let ?old = "day_bucket t - ?n + 1"
  let ?acc = "\<lparr>pa_kept = [], pa_removed = 0, pa_failures = hi_prune_failures_total h\<rparr>"
  have old: "wrap_i64 (wrap_i64 (day_bucket t - u64_as_i64 (hi_retention_days h)) + 1) = ?old"
    using assms(3,5) by (rule oldest_day_value)
  obtain h' where h': "prune_old_files io t h = (Inr (), h')"
      "hi_dir h' = Some (pa_kept (fold (prune_step io ?old) es ?acc))"
      "hi_prune_failures_total h' = pa_failures (fold (prune_step io ?old) es ?acc)"
    using assms(1,2) by (simp add: prune_old_files_def Let_def old)
  have kept: "pa_kept (fold (prune_step io ?old) es ?acc)
    = filter (\<lambda>e. remove_fails io (fst e)
        \<or> (case history_file_of io e of None \<Rightarrow> True | Some f \<Rightarrow> day_bucket t - ?n < hf_day f)) es"
    unfolding fold_prune_step [THEN conjunct1]
    by (auto intro!: filter_cong simp: expired_def split: option.splits)
  have "(file_name_for t, d) \<in> set es \<Longrightarrow> (file_name_for t, d) \<in> set (the (hi_dir h'))" for d
    using todays_file_kept [OF assms(3,4), of io d]
    unfolding h'(2) kept option.sel set_filter mem_Collect_eq fst_conv by blast
  moreover have "pa_failures (fold (prune_step io ?old) es ?acc) = hi_prune_failures_total h
      + of_nat (length (filter (\<lambda>e. expired io ?old e \<and> remove_fails io (fst e)) es))"
    by (simp add: fold_prune_step)
  ultimately show ?thesis
    using h'(1) h'(2) [unfolded kept] h'(3) by metis
qed

section \<open>Disk budget\<close>

text \<open>What the day files of a directory occupy.\<close>

definition entry_size :: "rstr \<times> fs_entry \<Rightarrow> nat" where
  "entry_size e =
     (if file_day_bucket (fst e) = None then 0
      else (case snd e of RegularFile data \<Rightarrow> length data | OtherEntry \<Rightarrow> 0))"

definition dir_total :: "directory \<Rightarrow> nat" where
  "dir_total es = sum_list (map entry_size es)"

text \<open>The files a budget pass sees are those of the directory.\<close>

definition listed :: "history_file list \<Rightarrow> directory \<Rightarrow> bool" where
  "listed fs es \<longleftrightarrow>
     distinct (map hf_path fs) \<and>
     (\<forall>f \<in> set fs. \<exists>data. map_of es (hf_path f) = Some (RegularFile data)
        \<and> hf_size f = file_bytes data \<and> file_day_bucket (hf_path f) = Some (hf_day f))"

lemma delete_filter: "AList.delete k es = filter (\<lambda>e. fst e \<noteq> k) es"
  unfolding AList.delete_eq by (rule filter_cong) auto

lemma dir_total_delete:
  assumes "distinct (map fst es)" and "map_of es k = Some v"
  shows "dir_total (AList.delete k es) + entry_size (k, v) = dir_total es"
  using assms
proof (induction es)
  case (Cons e es)
  show ?case
  proof (cases "fst e = k")
    case True
    have "filter (\<lambda>e. fst e \<noteq> k) es = es"
      using Cons.prems(1) True by (intro filter_True) (metis distinct.simps(2) image_eqI list.simps(9) set_map)
    with True Cons.prems(2) show ?thesis by (cases e) (simp add: delete_filter dir_total_def)
  next
    case False
    with Cons show ?thesis by (cases e) (simp add: delete_filter dir_total_def)
  qed
qed simp

lemma dir_total_filter: "dir_total (filter P es) \<le> dir_total es"
  unfolding dir_total_def by (induction es) auto

lemma listed_delete:
  assumes "listed (f # fs) es"
  shows "listed fs (AList.delete (hf_path f) es)"
proof -
  have "hf_path f \<notin> hf_path ` set fs" using assms by (simp add: listed_def)
  then have "hf_path g \<noteq> hf_path f" if "g \<in> set fs" for g using that by (metis image_eqI)
  then show ?thesis using assms unfolding listed_def by (simp add: delete_conv')
qed

lemma listed_tl: "listed (f # fs) es \<Longrightarrow> listed fs es"
  by (simp add: listed_def)

text \<open>What the eviction loop leaves, and that its running total is the truth.\<close>

lemma unat_file_bytes: "length data < 18446744073709551616 \<Longrightarrow> unat (file_bytes data) = length data"
  by (simp add: file_bytes_def unat_of_nat)

definition evict_result ::
    "io_faults \<Rightarrow> i64 \<Rightarrow> u64 \<Rightarrow> history_file list \<Rightarrow> directory \<Rightarrow> history_store
     \<Rightarrow> budget_loop \<Rightarrow> history_store \<Rightarrow> history_file list \<Rightarrow> directory \<Rightarrow> bool" where
  "evict_result io today incoming fs es h r h' gone es' \<longleftrightarrow>
     hi_dir h' = Some es' \<and> es' = filter (\<lambda>e. fst e \<notin> hf_path ` set gone) es
     \<and> list_all (\<lambda>f. \<not> remove_fails io (hf_path f)) gone
     \<and> (case r of
          BudgetFits t \<Rightarrow> unat t = min (dir_total es' + unat incoming) 18446744073709551615
             \<and> t \<le> hi_max_disk_bytes h \<and> hi_current_bytes h' = hi_current_bytes h
        | BudgetEnds t \<Rightarrow> unat t = dir_total es' \<and> gone = filter (\<lambda>f. hf_day f < today) fs
             \<and> hi_current_bytes h' = hi_current_bytes h
        | BudgetGivesUp \<Rightarrow> unat (hi_current_bytes h') = dir_total es' \<and> (\<exists>n. remove_fails io n))
     \<and> hi_max_disk_bytes h' = hi_max_disk_bytes h"

lemma evict_result_step:
  assumes "evict_result io today incoming fs (AList.delete (hf_path f) es)
             (h\<lparr>hi_dir := Some (AList.delete (hf_path f) es)\<rparr>) r h' gone es'"
    and "hf_day f < today" and "\<not> remove_fails io (hf_path f)"
  shows "evict_result io today incoming (f # fs) es h r h' (f # gone) es'"
proof -
  have "filter (\<lambda>e. fst e \<notin> hf_path ` set gone) (AList.delete (hf_path f) es)
      = filter (\<lambda>e. fst e \<notin> hf_path ` set (f # gone)) es"
    by (auto simp: delete_filter intro!: filter_cong)
  then show ?thesis
    using assms unfolding evict_result_def by (simp split: budget_loop.splits)
qed

lemma evict_loop_spec:
  assumes "hi_dir h = Some es" and "distinct (map fst es)" and "listed fs es" and "unat used = dir_total es"
    and "evict_loop io today incoming fs used h = (r, h')"
  shows "\<exists>k es'. evict_result io today incoming fs es h r h' (take k (filter (\<lambda>f. hf_day f < today) fs)) es'"
  using assms
proof (induction fs arbitrary: es used h)
  case Nil
  then show ?case by (intro exI [of _ 0] exI [of _ es]) (auto simp: evict_result_def)
next
  case (Cons f fs)
  note prems = Cons.prems
  show ?case
  proof (cases "today \<le> hf_day f")
    case True
    then have eq: "filter (\<lambda>f. hf_day f < today) (f # fs) = filter (\<lambda>f. hf_day f < today) fs" by simp
    obtain k es' where "evict_result io today incoming fs es h r h' (take k (filter (\<lambda>f. hf_day f < today) fs)) es'"
      using Cons.IH [OF prems(1,2) listed_tl [OF prems(3)] prems(4)] prems(5) True by auto
    then have "evict_result io today incoming (f # fs) es h r h' (take k (filter (\<lambda>f. hf_day f < today) fs)) es'"
      unfolding evict_result_def eq .
    then show ?thesis unfolding eq by blast
  next
    case old: False
    show ?thesis
    proof (cases "u64_saturating_add used incoming \<le> hi_max_disk_bytes h \<or> remove_fails io (hf_path f)")
      case True
      with old prems show ?thesis
        by (intro exI [of _ 0] exI [of _ es])
          (auto simp: evict_result_def unat_u64_saturating_add split: if_splits)
    next
      case False
      let ?es = "AList.delete (hf_path f) es"
      obtain data where data: "map_of es (hf_path f) = Some (RegularFile data)"
        "hf_size f = file_bytes data" "file_day_bucket (hf_path f) = Some (hf_day f)"
        using prems(3) by (auto simp: listed_def)
      have del: "dir_total ?es + length data = dir_total es"
        using dir_total_delete [OF prems(2) data(1)] data(3) by (simp add: entry_size_def)
      then have "unat (file_bytes data) = length data"
        using prems(4) unat_u64_bound [of used] by (intro unat_file_bytes) linarith
      with del have used: "unat (u64_saturating_sub used (hf_size f)) = dir_total ?es"
        by (simp add: unat_u64_saturating_sub prems(4) data(2))
      have loop: "evict_loop io today incoming fs (u64_saturating_sub used (hf_size f))
          (h\<lparr>hi_dir := Some ?es\<rparr>) = (r, h')"
        using prems(1,5) old False by (simp add: remove_name_def)
      obtain k es' where "evict_result io today incoming fs ?es (h\<lparr>hi_dir := Some ?es\<rparr>) r h'
          (take k (filter (\<lambda>f. hf_day f < today) fs)) es'"
        using Cons.IH [OF _ distinct_delete [OF prems(2)] listed_delete [OF prems(3)] used loop] by auto
      then have "evict_result io today incoming (f # fs) es h r h'
          (f # take k (filter (\<lambda>f. hf_day f < today) fs)) es'"
        using old False by (intro evict_result_step) simp_all
      then show ?thesis using old by (intro exI [of _ "Suc k"] exI [of _ es']) simp
    qed
  qed
qed

lemma rust_ord_history_files: "rust_ord compare_history_files (\<lambda>f. True)"
  unfolding compare_history_files_def
  by (intro rust_ord_then_with rust_ord_cmp_of)

lemma sorted_by_day:
  "sorted_wrt (\<lambda>f g. hf_day f \<le> hf_day g) (sort_by compare_history_files fs)"
proof (rule sorted_wrt_mono_rel)
  show "sorted_wrt (\<lambda>a b. compare_history_files a b \<noteq> Greater) (sort_by compare_history_files fs)"
    using rust_ord.sorted_sort_by [OF rust_ord_history_files, of fs] by simp
qed (auto simp: compare_history_files_def then_with_Greater_iff)

lemma history_file_of_Some:
  "history_file_of io e = Some f \<Longrightarrow>
   \<exists>data. e = (hf_path f, RegularFile data) \<and> hf_size f = file_bytes data
      \<and> file_day_bucket (hf_path f) = Some (hf_day f)"
  by (cases e) (auto simp: history_file_of_def split: option.splits if_splits fs_entry.splits)

lemma paths_of_files:
  "distinct (map fst es) \<Longrightarrow> distinct (map hf_path (List.map_filter (history_file_of io) es))"
proof (induction es)
  case (Cons e es)
  have "hf_path ` set (List.map_filter (history_file_of io) es) \<subseteq> fst ` set es"
    by (auto simp: in_map_filter dest!: history_file_of_path)
  moreover have "hf_path f \<notin> fst ` set es" if "history_file_of io e = Some f" for f
    using history_file_of_path [OF that] Cons.prems by simp
  ultimately show ?case
    using Cons by (auto simp: map_filter_simps split: option.split)
qed (simp add: map_filter_simps)

lemma listed_files:
  assumes "distinct (map fst es)"
  shows "listed (List.map_filter (history_file_of io) es) es"
  unfolding listed_def
proof (intro conjI ballI)
  show "distinct (map hf_path (List.map_filter (history_file_of io) es))"
    using assms by (rule paths_of_files)
  fix f assume "f \<in> set (List.map_filter (history_file_of io) es)"
  then obtain e where "e \<in> set es" "history_file_of io e = Some f" by (auto simp: in_map_filter)
  then show "\<exists>data. map_of es (hf_path f) = Some (RegularFile data)
      \<and> hf_size f = file_bytes data \<and> file_day_bucket (hf_path f) = Some (hf_day f)"
    using history_file_of_Some [of io e f] assms by (auto simp: map_of_is_SomeI)
qed

lemma listed_mset: "mset fs = mset gs \<Longrightarrow> listed fs es = listed gs es"
  unfolding listed_def using mset_eq_setD [of fs gs] mset_eq_imp_distinct_iff [of "map hf_path fs" "map hf_path gs"]
  by (metis mset_map)

lemma unat_sum_sizes:
  assumes "\<And>n. \<not> stat_fails io n" and "dir_total es < 18446744073709551616"
  shows "unat (sum_sizes (List.map_filter (history_file_of io) es)) = dir_total es"
  using assms(2)
proof (induction es)
  case (Cons e es)
  show ?case
  proof (cases "history_file_of io e")
    case None
    then have "entry_size e = 0"
      using assms(1) by (auto simp: history_file_of_def entry_size_def split: option.splits fs_entry.splits)
    with None Cons show ?thesis by (simp add: map_filter_simps dir_total_def)
  next
    case (Some f)
    then obtain data where f: "e = (hf_path f, RegularFile data)" "hf_size f = file_bytes data"
      "file_day_bucket (hf_path f) = Some (hf_day f)" using history_file_of_Some by blast
    have e: "entry_size e = length data" by (subst f(1)) (simp add: entry_size_def f(3))
    then have small: "length data + dir_total es < 18446744073709551616"
      using Cons.prems by (simp add: dir_total_def)
    then have "unat (sum_sizes (List.map_filter (history_file_of io) es)) = dir_total es"
      by (intro Cons.IH) linarith
    moreover have "unat (file_bytes data) = length data" using small by (intro unat_file_bytes) linarith
    ultimately have "unat (file_bytes data + sum_sizes (List.map_filter (history_file_of io) es))
        = length data + dir_total es"
      using small by (subst unat_add_lem [THEN iffD1]) simp_all
    then show ?thesis using Some f(2) e by (simp add: map_filter_simps sum_sizes_def dir_total_def)
  qed
qed (simp add: map_filter_simps sum_sizes_def dir_total_def)

text \<open>Only files from before today go, the oldest first.\<close>

definition oldest_first :: "io_faults \<Rightarrow> i64 \<Rightarrow> rstr set \<Rightarrow> directory \<Rightarrow> bool" where
  "oldest_first io today gone es' \<longleftrightarrow>
     (\<forall>n \<in> gone. case file_day_bucket n of None \<Rightarrow> False
        | Some d \<Rightarrow> d < today \<and> (\<forall>e \<in> set es'. case history_file_of io e of None \<Rightarrow> True
             | Some g \<Rightarrow> hf_day g < today \<longrightarrow> d \<le> hf_day g))"

lemma oldest_first_prefix:
  fixes today :: i64 and k :: nat
  assumes "listed (List.map_filter (history_file_of io) es) es"
  defines "old \<equiv> filter (\<lambda>f. hf_day f < today)
      (sort_by compare_history_files (List.map_filter (history_file_of io) es))"
  defines "gone \<equiv> hf_path ` set (take k old)"
  shows "oldest_first io today gone (filter (\<lambda>e. fst e \<notin> gone) es)"
proof -
  have sorted: "sorted_wrt (\<lambda>f g. hf_day f \<le> hf_day g) (take k old @ drop k old)"
    unfolding old_def using sorted_by_day by (simp add: sorted_wrt_filter)
  have below: "hf_day f \<le> hf_day g"
    if f: "f \<in> set (take k old)" and e: "e \<in> set es" "fst e \<notin> gone" "history_file_of io e = Some g"
      and g: "hf_day g < today" for f e g
  proof -
    have "g \<in> set old" using e g unfolding old_def by (auto simp: in_map_filter)
    moreover have "g \<notin> set (take k old)"
      using e(2) history_file_of_path [OF e(3)] unfolding gone_def by (metis image_eqI)
    ultimately have "g \<in> set (drop k old)" by (metis UnE append_take_drop_id set_append)
    with f sorted show ?thesis unfolding sorted_wrt_append by blast
  qed
  show ?thesis
    unfolding oldest_first_def
  proof
    fix n assume "n \<in> gone"
    then obtain f where f: "f \<in> set (take k old)" "n = hf_path f" by (auto simp: gone_def)
    then have "f \<in> set old" by (auto dest: in_set_takeD)
    then have "file_day_bucket n = Some (hf_day f)" "hf_day f < today"
      using assms(1) f(2) by (auto simp: old_def listed_def)
    then show "case file_day_bucket n of None \<Rightarrow> False
        | Some d \<Rightarrow> d < today \<and> (\<forall>e \<in> set (filter (\<lambda>e. fst e \<notin> gone) es).
             case history_file_of io e of None \<Rightarrow> True
             | Some g \<Rightarrow> hf_day g < today \<longrightarrow> d \<le> hf_day g)"
      using below [OF f(1)] by (auto split: option.split)
  qed
qed


section \<open>A directory at work\<close>

definition no_faults :: io_faults where
  "no_faults = \<lparr>read_dir_fails = False, create_dir_fails = False, stat_fails = (\<lambda>n. False),
     remove_fails = (\<lambda>n. False), append_fails = None, open_fails = (\<lambda>n. False), encode_fails = False\<rparr>"

text \<open>Files of days 1 and 2, each with three bytes, and a file that is not a day file.\<close>

definition example_directory :: directory where
  "example_directory = [(lit ''day-2.jsonl'', RegularFile [1, 2, 3]), (lit ''notes'', RegularFile [7]),
     (lit ''day-1.jsonl'', RegularFile [4, 5, 6])]"

definition example_store :: "u64 \<Rightarrow> history_store" where
  "example_store max_bytes = new_history_store no_faults \<lparr>node_name = lit ''n'', system_id = lit ''s''\<rparr>
     (Some example_directory) 7 100 max_bytes"

lemma example_day_names [simp]:
  "file_day_bucket (lit ''day-2.jsonl'') = Some 2" "file_day_bucket (lit ''day-1.jsonl'') = Some 1"
  "file_day_bucket (lit ''notes'') = None"
  by code_simp+

lemma example_dir_total: "dir_total example_directory = 6"
  by (simp add: dir_total_def example_directory_def entry_size_def)

lemma example_store_simps [simp]:
  "hi_dir (example_store m) = Some example_directory" "hi_retention_days (example_store m) = 7"
  "hi_max_disk_bytes (example_store m) = m" "hi_max_query_samples (example_store m) = 100"
  by (simp_all add: example_store_def new_history_store_def)

lemma no_faults_simps [simp]:
  "\<not> read_dir_fails no_faults" "\<not> create_dir_fails no_faults" "\<not> stat_fails no_faults n"
  "\<not> remove_fails no_faults n" "append_fails no_faults = None" "\<not> open_fails no_faults n"
  "\<not> encode_fails no_faults"
  by (simp_all add: no_faults_def)

lemma budget_verdict_exists:
  "hi_dir h = Some es \<Longrightarrow> \<not> read_dir_fails io \<Longrightarrow> \<exists>v h'. ensure_disk_budget io t incoming h = (Inr v, h')"
  by (auto simp: ensure_disk_budget_def history_files_with_sizes_in_dir_def Let_def
      split: prod.split budget_loop.split)

lemma example_names_distinct: "distinct (map fst example_directory)"
proof -
  have "lit ''day-2.jsonl'' \<noteq> lit ''day-1.jsonl''" "lit ''notes'' \<noteq> lit ''day-1.jsonl''"
    "lit ''notes'' \<noteq> lit ''day-2.jsonl''" by code_simp+
  then show ?thesis by (auto simp: example_directory_def)
qed


theorem prune_old_files_spec_witness:
  "\<exists>h'. prune_old_files no_faults (8 * DAY_MS) (example_store 8) = (Inr (), h')
     \<and> hi_dir h' = Some (filter (\<lambda>e. remove_fails no_faults (fst e)
          \<or> (case history_file_of no_faults e of None \<Rightarrow> True
             | Some f \<Rightarrow> day_bucket (8 * DAY_MS) - int (unat (hi_retention_days (example_store 8))) < hf_day f))
          example_directory)"
proof -
  have "in_i64 (8 * DAY_MS)" by (simp add: in_i64_def i64_min_def i64_max_def DAY_MS_def)
  from prune_old_files_spec [OF example_store_simps(1) no_faults_simps(1) this, of 8] show ?thesis by auto
qed

text \<open>A reader that hands out one byte at a time, and a decoder that recognises one line.\<close>

definition bytewise :: "bytes \<Rightarrow> unit reader" where
  "bytewise d = map (\<lambda>b. Chunk [b]) d"

lemma bytewise_reader: "clean_reader (bytewise d) \<and> content (bytewise d) = d"
  unfolding bytewise_def by (induction d) simp_all

theorem query_session_spec_witness:
  "\<exists>files. set files = {(n, d). (n, RegularFile d) \<in> set example_directory \<and> file_day_bucket n \<noteq> None
                          \<and> day_bucket DAY_MS \<le> file_day n}
     \<and> query_session bytewise (\<lambda>l. None) no_faults (lit ''s'') DAY_MS 5 (example_store 8)
         = Inr (let all = concat (map (\<lambda>f. file_matches (\<lambda>l. None) (lit ''s'') DAY_MS (snd f)) files);
                    n = min 5 (hi_max_query_samples (example_store 8))
                in drop (length all - n) all)"
proof -
  from query_session_spec [OF bytewise_reader example_store_simps(1) no_faults_simps(1,3,6),
      of DAY_MS "\<lambda>l. None" "lit ''s''" 5 8]
  show ?thesis by (elim exE conjE, intro exI conjI)
qed

end
