(* ===== verification/History_Roundtrip.thy ===== *)
theory History_Roundtrip
  imports History_Storage
begin

text \<open>
  What the sampler writes is what a query reads back: the lines of a payload, the
  append to today's file and the query of \<open>history.rs\<close> composed, under the documented
  behaviour of \<open>serde_json\<close> on one sample.
\<close>

section \<open>Lines of a payload\<close>

lemma newline_index_Some: "10 \<in> set a \<Longrightarrow> \<exists>i. newline_index a = Some i"
  by (induction a) auto

lemma physical_lines_append:
  "a = [] \<or> last a = 10 \<Longrightarrow> physical_lines (a @ b) = physical_lines a @ physical_lines b"
proof (induction a rule: physical_lines.induct)
  case (1 a)
  show ?case
  proof (cases "a = []")
    case False
    with "1.prems" have "10 \<in> set a" using last_in_set [of a] by auto
    then obtain i where i: "newline_index a = Some i" using newline_index_Some by blast
    have sp: "split_line a = (take (Suc i) a, drop (Suc i) a)"
      "split_line (a @ b) = (take (Suc i) a, drop (Suc i) a @ b)"
      using split_line_newline [OF i, of "[]"] split_line_newline [OF i, of b] by simp_all
    have rest: "drop (Suc i) a = [] \<or> last (drop (Suc i) a) = 10"
      using "1.prems" False by (metis last_drop drop_eq_Nil not_le)
    have "physical_lines (drop (Suc i) a @ b) = physical_lines (drop (Suc i) a) @ physical_lines b"
      using "1.IH" [OF False] rest by (simp add: sp)
    then show ?thesis
      using False by (subst (1 2) physical_lines.simps) (simp add: sp)
  qed simp
qed

lemma physical_lines_line: "10 \<notin> set l \<Longrightarrow> physical_lines (l @ [10]) = [l @ [10]]"
proof -
  assume n: "10 \<notin> set l"
  then have "newline_index l = None" by (induction l) auto
  then have "split_line (l @ [10]) = (l @ [10], [])" by (simp add: split_line_no_newline)
  then show ?thesis by (subst physical_lines.simps) simp
qed

lemma physical_lines_payload:
  "\<forall>l \<in> set ls. 10 \<notin> set l \<Longrightarrow> physical_lines (concat (map (\<lambda>l. l @ [10]) ls)) = map (\<lambda>l. l @ [10]) ls"
proof (induction ls)
  case (Cons l ls)
  have "physical_lines ((l @ [10]) @ concat (map (\<lambda>l. l @ [10]) ls))
      = physical_lines (l @ [10]) @ physical_lines (concat (map (\<lambda>l. l @ [10]) ls))"
    by (rule physical_lines_append) simp
  with Cons show ?case by (simp add: physical_lines_line)
qed simp

text \<open>What the code relies on of \<open>serde_json\<close> for the samples it writes.\<close>

definition writes_one_line ::
    "(history_sample \<Rightarrow> bytes) \<Rightarrow> (bytes \<Rightarrow> history_sample option) \<Rightarrow> history_sample \<Rightarrow> bool" where
  "writes_one_line to_json from_json s \<longleftrightarrow>
     (let l = to_json s in
      from_json l = Some s \<and> l \<noteq> [] \<and> 10 \<notin> set l \<and> last l \<noteq> 13 \<and> length l < MAX_HISTORY_LINE_BYTES)"

lemma sample_of_written_line:
  assumes "writes_one_line to_json from_json s" and "sanitize_history_sample s = Some s"
  shows "sample_of_line from_json (to_json s @ [10]) = Some s"
proof -
  let ?l = "to_json s"
  have l: "from_json ?l = Some s" "?l \<noteq> []" "10 \<notin> set ?l" "last ?l \<noteq> 13" "length ?l < MAX_HISTORY_LINE_BYTES"
    using assms(1) by (simp_all add: writes_one_line_def Let_def)
  have "last ?l \<noteq> 10" using l(2,3) last_in_set by metis
  then have "strip_line_end (?l @ [10]) = ?l"
    using l(2,4) by (simp add: strip_line_end_def dropWhile_hd_id hd_rev)
  then show ?thesis using l assms(2) by (simp add: sample_of_line_def)
qed

lemma map_filter_append: "List.map_filter f (xs @ ys) = List.map_filter f xs @ List.map_filter f ys"
  by (simp add: List.map_filter_def)

definition samples_of :: "observer_info \<Rightarrow> i64 \<Rightarrow> session_summary list \<Rightarrow> rstr \<Rightarrow> history_sample list" where
  "samples_of ob t ss k = filter (\<lambda>s. hs_session_id s = k) (map (history_sample_of ob t) ss)"

lemma file_matches_payload:
  assumes "data = [] \<or> last data = 10"
    and "\<forall>x \<in> set ss. writes_one_line to_json from_json (history_sample_of ob t x)
           \<and> sanitize_history_sample (history_sample_of ob t x) = Some (history_sample_of ob t x)"
    and "since \<le> t"
  shows "file_matches from_json k since (data @ encode_history_payload to_json ob t ss)
    = file_matches from_json k since data @ samples_of ob t ss k"
proof -
  let ?ls = "map (\<lambda>x. to_json (history_sample_of ob t x)) ss"
  have payload: "encode_history_payload to_json ob t ss = concat (map (\<lambda>l. l @ [10]) ?ls)"
    by (simp add: encode_history_payload_def comp_def)
  have "\<forall>l \<in> set ?ls. 10 \<notin> set l" using assms(2) by (auto simp: writes_one_line_def Let_def)
  then have "physical_lines (data @ encode_history_payload to_json ob t ss)
      = physical_lines data @ map (\<lambda>l. l @ [10]) ?ls"
    unfolding payload by (subst physical_lines_append [OF assms(1)]) (simp only: physical_lines_payload)
  moreover have "List.map_filter (sample_of_line from_json) (map (\<lambda>l. l @ [10]) ?ls)
      = map (history_sample_of ob t) ss"
    using assms(2) by (induction ss) (simp_all add: map_filter_simps sample_of_written_line)
  moreover have "filter (\<lambda>s. hs_session_id s = k \<and> since \<le> hs_recorded_at_unix_ms s) (map (history_sample_of ob t) ss)
      = samples_of ob t ss k"
    using assms(3) by (auto simp: samples_of_def history_sample_of_def intro!: filter_cong)
  ultimately show ?thesis by (simp add: file_matches_def map_filter_append)
qed

section \<open>Recording\<close>

definition todays_data :: "i64 \<Rightarrow> directory \<Rightarrow> bytes" where
  "todays_data t es = (case map_of es (file_name_for t) of Some (RegularFile data) \<Rightarrow> data | _ \<Rightarrow> [])"

text \<open>Today's file is not something else in disguise, and no other file is dated today or later.\<close>

definition todays_file_usable :: "i64 \<Rightarrow> directory \<Rightarrow> bool" where
  "todays_file_usable t es \<longleftrightarrow>
     distinct (map fst es) \<and> map_of es (file_name_for t) \<noteq> Some OtherEntry
     \<and> (todays_data t es = [] \<or> last (todays_data t es) = 10)
     \<and> (\<forall>e \<in> set es. fst e = file_name_for t \<or> (case history_file_of no_faults e of None \<Rightarrow> True
           | Some f \<Rightarrow> hf_day f < day_bucket t))"

lemma dir_total_update:
  assumes "distinct (map fst es)" and "file_day_bucket n \<noteq> None"
    and "map_of es n = None \<and> old = [] \<or> map_of es n = Some (RegularFile old)"
  shows "dir_total (AList.update n (RegularFile (old @ new)) es) = dir_total es + length new"
proof -
  obtain d where d: "file_day_bucket n = Some d" using assms(2) by auto
  from assms(1,3) show ?thesis
proof (induction es)
  case Nil
  then show ?case using d by (simp add: dir_total_def entry_size_def)
next
  case (Cons e es)
  obtain k v where e: "e = (k, v)" by (cases e)
  show ?case
  proof (cases "k = n")
    case True
    with Cons.prems e d show ?thesis by (simp add: dir_total_def entry_size_def)
  next
    case False
    then show ?thesis using Cons e by (simp add: dir_total_def)
  qed
qed
qed

lemma encode_payload_Nil_iff: "encode_history_payload to_json ob t ss = [] \<longleftrightarrow> ss = []"
  by (auto simp: encode_history_payload_def)

lemma budget_when_it_fits:
  assumes "hi_dir h = Some es" and "incoming \<noteq> 0"
    and "dir_total es + unat incoming \<le> unat (hi_max_disk_bytes h)"
  shows "\<exists>size. ensure_disk_budget no_faults t incoming h
       = (Inr (Some size), h\<lparr>hi_current_bytes := sum_sizes (List.map_filter (history_file_of no_faults) es)\<rparr>)
     \<and> unat size = dir_total es + unat incoming"
proof -
  have "dir_total es < 18446744073709551616"
    using assms(3) unat_u64_bound [of "hi_max_disk_bytes h"] by linarith
  then have tot: "unat (sum_sizes (List.map_filter (history_file_of no_faults) es)) = dir_total es"
    by (intro unat_sum_sizes) simp_all
  let ?sum = "u64_saturating_add (sum_sizes (List.map_filter (history_file_of no_faults) es)) incoming"
  have sum: "unat ?sum = dir_total es + unat incoming"
    using assms(3) unat_u64_bound [of "hi_max_disk_bytes h"] by (simp add: unat_u64_saturating_add tot)
  have "\<not> hi_max_disk_bytes h < incoming" "?sum \<le> hi_max_disk_bytes h"
    using assms(3) sum by (simp_all add: word_less_nat_alt word_le_nat_alt)
  with sum assms(1,2) show ?thesis
    by (simp add: ensure_disk_budget_def history_files_with_sizes_in_dir_def Let_def)
qed

lemma append_no_faults:
  assumes "map_of es n \<noteq> Some OtherEntry"
  shows "append_to_file no_faults n payload es
    = (Inr (), AList.update n (RegularFile ((case map_of es n of Some (RegularFile d) \<Rightarrow> d | _ \<Rightarrow> []) @ payload)) es)"
  using assms by (auto simp: append_to_file_def split: option.split fs_entry.split)

text \<open>One successful round of the sampler.\<close>

lemma record_summaries_fits:
  assumes "hi_dir h = Some es" and "todays_file_usable t es" and "in_i64 t"
    and "0 < unat (hi_retention_days h)" and "unat (hi_retention_days h) \<le> 1000000"
    and "ss = filter (\<lambda>s. ss_kind s = Instrumented) sessions" and "ss \<noteq> []"
    and "payload = encode_history_payload to_json (hi_observer h) t ss"
    and "dir_total es + length payload \<le> unat (hi_max_disk_bytes h)"
  shows "\<exists>h' kept. record_summaries to_json no_faults t sessions h = (Inr (), h')
     \<and> hi_dir h' = Some (AList.update (file_name_for t) (RegularFile (todays_data t es @ payload)) (filter kept es))
     \<and> (\<forall>d. kept (file_name_for t, d))
     \<and> unat (hi_current_bytes h') = dir_total (filter kept es) + length payload
     \<and> hi_max_query_samples h' = hi_max_query_samples h"
proof -
  let ?old = "wrap_i64 (wrap_i64 (day_bucket t - u64_as_i64 (hi_retention_days h)) + 1)"
  let ?kept = "\<lambda>e. \<not> expired no_faults ?old e"
  let ?es = "filter ?kept es"
  obtain h1 where h1: "prune_old_files no_faults t h = (Inr (), h1)" "hi_dir h1 = Some ?es"
      "hi_max_disk_bytes h1 = hi_max_disk_bytes h" "hi_max_query_samples h1 = hi_max_query_samples h"
      "hi_observer h1 = hi_observer h"
    using assms(1) by (simp add: prune_old_files_def Let_def fold_prune_step)
  have today: "?kept (file_name_for t, d)" for d
    using todays_file_kept [OF assms(3,4), of no_faults d]
    unfolding oldest_day_value [OF assms(3,5)] by (simp add: expired_def split: option.splits)
  let ?inc = "word_of_nat (length payload) :: u64"
  have len: "unat ?inc = length payload"
    using assms(9) unat_u64_bound [of "hi_max_disk_bytes h"] by (simp add: unat_of_nat)
  have "payload \<noteq> []" using assms(7,8) by (simp add: encode_payload_Nil_iff)
  then have "?inc \<noteq> 0" using len by (metis length_0_conv unat_0)
  moreover have "dir_total ?es + unat ?inc \<le> unat (hi_max_disk_bytes h1)"
    unfolding h1(3) len using dir_total_filter [of ?kept es] assms(9) by linarith
  ultimately obtain size where size: "ensure_disk_budget no_faults t ?inc h1
       = (Inr (Some size), h1\<lparr>hi_current_bytes := sum_sizes (List.map_filter (history_file_of no_faults) ?es)\<rparr>)"
      "unat size = dir_total ?es + length payload"
    using budget_when_it_fits [OF h1(2)] len by metis
  have find: "map_of ?es (file_name_for t) = map_of es (file_name_for t)"
    using today by (induction es) auto
  have app: "append_to_file no_faults (file_name_for t) payload ?es
      = (Inr (), AList.update (file_name_for t) (RegularFile (todays_data t es @ payload)) ?es)"
    using append_no_faults [of ?es "file_name_for t" payload] assms(2) find
    by (simp add: todays_file_usable_def todays_data_def)
  have same: "h\<lparr>hi_dir := Some es\<rparr> = h" using assms(1) by simp
  let ?h' = "h1\<lparr>hi_dir := Some (AList.update (file_name_for t) (RegularFile (todays_data t es @ payload)) ?es),
                    hi_current_bytes := size,
                    hi_written_bytes_total := hi_written_bytes_total h1 + ?inc\<rparr>"
  have "record_summaries to_json no_faults t sessions h = (Inr (), ?h')"
    unfolding record_summaries_def assms(6) [symmetric] Let_def assms(1) option.case same h1(1)
    using assms(7) size(1) app h1(2,5) assms(8) by simp
  then show ?thesis
    using today size(2) h1(4) by (intro exI [of _ ?h'] exI [of _ ?kept]) simp
qed

section \<open>Reading it back\<close>

lemma map_filter_single:
  assumes "distinct (map fst es)" and "map_of es n = Some v" and "f (n, v) = Some y"
    and "\<forall>e \<in> set es. fst e = n \<or> f e = None"
  shows "List.map_filter f es = [y]"
  using assms
proof (induction es)
  case (Cons e es)
  have none: "List.map_filter f zs = []" if "\<forall>z \<in> set zs. f z = None" for zs
    using that by (induction zs) (simp_all add: map_filter_simps)
  obtain k w where e: "e = (k, w)" by (cases e)
  show ?case
  proof (cases "k = n")
    case True
    have "List.map_filter f es = []"
      using Cons.prems(1,4) e True by (intro none) (auto simp: image_iff)
    with True e Cons.prems(2,3) show ?thesis by (simp add: map_filter_simps)
  next
    case False
    with Cons e show ?thesis by (auto simp: map_filter_simps)
  qed
qed simp

text \<open>The files a query since \<open>t\<close> looks at, when none is dated after today.\<close>

lemma history_files_from_today:
  assumes "in_i64 t" and "distinct (map fst es)" and "map_of es (file_name_for t) = Some (RegularFile data)"
    and "\<forall>e \<in> set es. fst e = file_name_for t \<or> (case history_file_of no_faults e of None \<Rightarrow> True
           | Some f \<Rightarrow> hf_day f < day_bucket t)"
  shows "history_files_from no_faults t (Some es) = Inr [(file_name_for t, data)]"
proof -
  let ?keep = "\<lambda>(name, e). (case file_day_bucket name of None \<Rightarrow> None
     | Some day \<Rightarrow> if stat_fails no_faults name then None
          else (case e of OtherEntry \<Rightarrow> None
                | RegularFile data \<Rightarrow> if day_bucket t \<le> day then Some (day, name, data) else None))"
  have "List.map_filter ?keep es = [(day_bucket t, file_name_for t, data)]"
  proof (rule map_filter_single [OF assms(2,3)])
    show "?keep (file_name_for t, RegularFile data) = Some (day_bucket t, file_name_for t, data)"
      by (simp add: day_file_name_parses [OF assms(1)])
    show "\<forall>e \<in> set es. fst e = file_name_for t \<or> ?keep e = None"
    proof
      fix e assume "e \<in> set es"
      with assms(4) have "fst e = file_name_for t \<or> (case history_file_of no_faults e of None \<Rightarrow> True
           | Some f \<Rightarrow> hf_day f < day_bucket t)" by blast
      then show "fst e = file_name_for t \<or> ?keep e = None"
        by (cases e) (auto simp: history_file_of_def split: option.splits fs_entry.splits)
    qed
  qed
  then show ?thesis by (simp add: history_files_from_def)
qed


section \<open>One round\<close>

definition round_summary :: session_summary where
  "round_summary =
     \<lparr>ss_session_id = lit ''instrumented:1000:7'', ss_display_session_id = None, ss_pid = 7,
      ss_kind = Instrumented, ss_health = Ok, ss_started_at_unix_ms = 1000,
      ss_last_observed_unix_ms = 3000, ss_counter_reset_unix_ms = None, ss_bind_addr = None,
      ss_udp_port = Some 60001, ss_client_addr = None, ss_peer = default_peer,
      ss_cmdline = lit ''mosh-server'', ss_metrics = default_metrics\<rparr>"

definition round_sample :: history_sample where
  "round_sample = history_sample_of \<lparr>node_name = lit ''n'', system_id = lit ''s''\<rparr> (3 * DAY_MS) round_summary"

lemma example_names [simp]:
  "file_name_for (3 * DAY_MS) \<noteq> lit ''day-2.jsonl''" "file_name_for (3 * DAY_MS) \<noteq> lit ''day-1.jsonl''"
  "file_name_for (3 * DAY_MS) \<noteq> lit ''notes''"
proof -
  have t: "in_i64 (3 * DAY_MS)" by (simp add: in_i64_def i64_min_def i64_max_def DAY_MS_def)
  have "day_bucket (3 * DAY_MS) = 3" by (simp add: day_bucket_def DAY_MS_def)
  then have "file_day_bucket (file_name_for (3 * DAY_MS)) = Some 3" using day_file_name_parses [OF t] by simp
  then show "file_name_for (3 * DAY_MS) \<noteq> lit ''day-2.jsonl''" "file_name_for (3 * DAY_MS) \<noteq> lit ''day-1.jsonl''"
    "file_name_for (3 * DAY_MS) \<noteq> lit ''notes''" by auto
qed

lemma example_usable: "todays_file_usable (3 * DAY_MS) example_directory"
proof -
  have "map_of example_directory (file_name_for (3 * DAY_MS)) = None"
    by (simp add: example_directory_def)
  then show ?thesis
    unfolding todays_file_usable_def todays_data_def
    by (simp add: example_names_distinct) (simp add: example_directory_def history_file_of_def day_bucket_def DAY_MS_def)
qed

lemma round_sample_clean: "sanitize_history_sample round_sample = Some round_sample"
proof -
  have "clean_text (lit ''instrumented:1000:7'')" "clean_text (lit ''n'')" "clean_text (lit ''s'')"
    by (simp_all add: clean_text_def lit_def clean_char_def is_control_def is_whitespace_def)
  then show ?thesis
    by (simp add: sanitize_history_sample_def Let_def round_sample_def history_sample_of_def round_summary_def
        text_is_exact_iff sanitize_observer_info_def sanitize_text_id sanitize_display_session_id_def
        sanitize_endpoint_def sanitize_optional_text_def default_peer_def default_metrics_def
        sanitize_nonnegative_metric_def sanitize_percentage_def opt_filter_def)
qed


end
