(* ===== verification/Text.thy ===== *)
theory Text
  imports Decimal Identity
begin

text \<open>
  More of Rust's text handling, as the daemon uses it on \<open>/proc\<close> and on requests:
  UTF-8 decoding (strict and lossy), \<open>split_whitespace\<close>, \<open>lines\<close>, hexadecimal parsing, and
  the outcome of code that can fail or panic.
\<close>

section \<open>Failing and panicking\<close>

datatype 'a attempt = Value 'a | Failure | Panic

definition bind_attempt :: "'a attempt \<Rightarrow> ('a \<Rightarrow> 'b attempt) \<Rightarrow> 'b attempt" where
  "bind_attempt x f = (case x of Value v \<Rightarrow> f v | Failure \<Rightarrow> Failure | Panic \<Rightarrow> Panic)"

definition attempt_of :: "'a option \<Rightarrow> 'a attempt" where
  "attempt_of x = (case x of Some v \<Rightarrow> Value v | None \<Rightarrow> Failure)"

lemma bind_attempt_simps [simp]:
  "bind_attempt (Value v) f = f v" "bind_attempt Failure f = Failure" "bind_attempt Panic f = Panic"
  by (simp_all add: bind_attempt_def)

lemma attempt_of_simps [simp]: "attempt_of (Some v) = Value v" "attempt_of None = Failure"
  by (simp_all add: attempt_of_def)

lemma bind_attempt_Value_iff: "bind_attempt x f = Value y \<longleftrightarrow> (\<exists>v. x = Value v \<and> f v = Value y)"
  by (cases x) auto

section \<open>UTF-8\<close>

definition is_continuation :: "nat \<Rightarrow> bool" where
  "is_continuation b \<longleftrightarrow> 128 \<le> b \<and> b < 192"

text \<open>The range of the second byte depends on the first.\<close>

definition second_byte_ok :: "nat \<Rightarrow> nat \<Rightarrow> bool" where
  "second_byte_ok a b \<longleftrightarrow>
     (if a = 224 then 160 \<le> b \<and> b < 192
      else if a = 237 then 128 \<le> b \<and> b < 160
      else if a = 240 then 144 \<le> b \<and> b < 192
      else if a = 244 then 128 \<le> b \<and> b < 144
      else is_continuation b)"

text \<open>
  The first character of an input and the bytes it takes; \<open>None\<close> for a malformed
  sequence, with the length of its maximal prefix.
\<close>

definition decode_first :: "nat list \<Rightarrow> uchar option \<times> nat" where
  "decode_first bs =
     (case bs of
        [] \<Rightarrow> (None, 0)
      | a # r \<Rightarrow>
          if a < 128 then (Some a, 1)
          else if 194 \<le> a \<and> a < 224 then
            (case r of b # _ \<Rightarrow> if is_continuation b then (Some ((a - 192) * 64 + (b - 128)), 2) else (None, 1)
             | [] \<Rightarrow> (None, 1))
          else if 224 \<le> a \<and> a < 240 then
            (case r of
               b # c # _ \<Rightarrow>
                 if \<not> second_byte_ok a b then (None, 1)
                 else if \<not> is_continuation c then (None, 2)
                 else (Some ((a - 224) * 4096 + (b - 128) * 64 + (c - 128)), 3)
             | [b] \<Rightarrow> (None, if second_byte_ok a b then 2 else 1)
             | [] \<Rightarrow> (None, 1))
          else if 240 \<le> a \<and> a < 245 then
            (case r of
               b # c # d # _ \<Rightarrow>
                 if \<not> second_byte_ok a b then (None, 1)
                 else if \<not> is_continuation c then (None, 2)
                 else if \<not> is_continuation d then (None, 3)
                 else (Some ((a - 240) * 262144 + (b - 128) * 4096 + (c - 128) * 64 + (d - 128)), 4)
             | [b, c] \<Rightarrow> (None, if \<not> second_byte_ok a b then 1 else if is_continuation c then 3 else 2)
             | [b] \<Rightarrow> (None, if second_byte_ok a b then 2 else 1)
             | [] \<Rightarrow> (None, 1))
          else (None, 1))"

lemma decode_first_progress: "bs \<noteq> [] \<Longrightarrow> 0 < snd (decode_first bs)"
  by (auto simp: decode_first_def split: list.split)

lemma drop_first_less: "bs \<noteq> [] \<Longrightarrow> length (drop (snd (decode_first bs)) bs) < length bs"
  using decode_first_progress [of bs] by (simp add: diff_less)

text \<open>\<open>String::from_utf8_lossy\<close>: every malformed sequence becomes one replacement character.\<close>

function decode_lossy :: "nat list \<Rightarrow> rstr" where
  "decode_lossy bs =
     (if bs = [] then []
      else (case fst (decode_first bs) of Some c \<Rightarrow> c | None \<Rightarrow> 65533)
             # decode_lossy (drop (snd (decode_first bs)) bs))"
  by pat_completeness auto
termination
  by (relation "measure length") (simp, unfold in_measure, rule drop_first_less)

declare decode_lossy.simps [simp del]

text \<open>\<open>str::from_utf8\<close>.\<close>

function decode_strict :: "nat list \<Rightarrow> rstr option" where
  "decode_strict bs =
     (if bs = [] then Some []
      else (case fst (decode_first bs) of
              None \<Rightarrow> None
            | Some c \<Rightarrow> map_option ((#) c) (decode_strict (drop (snd (decode_first bs)) bs))))"
  by pat_completeness auto
termination
  by (relation "measure length") (simp, unfold in_measure, rule drop_first_less)

declare decode_strict.simps [simp del]

definition from_utf8_lossy :: "bytes \<Rightarrow> rstr" where
  "from_utf8_lossy bs = decode_lossy (map unat bs)"

definition from_utf8 :: "bytes \<Rightarrow> rstr option" where
  "from_utf8 bs = decode_strict (map unat bs)"

text \<open>Decoding undoes encoding, character by character.\<close>

definition is_scalar :: "uchar \<Rightarrow> bool" where
  "is_scalar c \<longleftrightarrow> c < 55296 \<or> (57344 \<le> c \<and> c < 1114112)"

lemma unat_small_byte: "n < 256 \<Longrightarrow> unat (word_of_nat n :: u8) = n"
  by (simp add: unat_of_nat)

lemma unat_encode_char:
  assumes "is_scalar c"
  shows "map unat (utf8_encode_char c) =
     (if c < 128 then [c]
      else if c < 2048 then [192 + c div 64, 128 + c mod 64]
      else if c < 65536 then [224 + c div 4096, 128 + c div 64 mod 64, 128 + c mod 64]
      else [240 + c div 262144, 128 + c div 4096 mod 64, 128 + c div 64 mod 64, 128 + c mod 64])"
proof -
  have "c mod 64 < 64" "c div 64 mod 64 < 64" "c div 4096 mod 64 < 64" by simp_all
  moreover have "c < 2048 \<Longrightarrow> c div 64 < 32" "c < 65536 \<Longrightarrow> c div 4096 < 16" "c div 262144 < 5"
    using assms by (auto simp: is_scalar_def)
  ultimately show ?thesis
    by (simp add: utf8_encode_char_def unat_small_byte del: of_nat_add)
qed

lemma horner_64:
  fixes a b d e c :: nat
  shows "(a * 64 + b) * 64 + d = c \<Longrightarrow> a * 4096 + b * 64 + d = c"
    and "((a * 64 + b) * 64 + d) * 64 + e = c \<Longrightarrow> a * 262144 + b * 4096 + d * 64 + e = c"
  by simp_all

lemma base_64_digits:
  fixes c :: nat
  shows "c div 4096 * 4096 + c div 64 mod 64 * 64 + c mod 64 = c"
    and "c div 262144 * 262144 + c div 4096 mod 64 * 4096 + c div 64 mod 64 * 64 + c mod 64 = c"
proof -
  have q: "c div 4096 = c div 64 div 64" "c div 262144 = c div 64 div 64 div 64"
    by (simp_all flip: div_mult2_eq)
  show "c div 4096 * 4096 + c div 64 mod 64 * 64 + c mod 64 = c"
    unfolding q by (rule horner_64) (simp only: div_mult_mod_eq)
  show "c div 262144 * 262144 + c div 4096 mod 64 * 4096 + c div 64 mod 64 * 64 + c mod 64 = c"
    unfolding q by (rule horner_64) (simp only: div_mult_mod_eq)
qed

lemma second_byte_ok_3:
  "q < 16 \<Longrightarrow> r < 64 \<Longrightarrow> (q = 0 \<Longrightarrow> 32 \<le> r) \<Longrightarrow> (q = 13 \<Longrightarrow> r < 32) \<Longrightarrow> second_byte_ok (224 + q) (128 + r)"
  by (auto simp: second_byte_ok_def is_continuation_def)

lemma second_byte_ok_4:
  "q < 5 \<Longrightarrow> r < 64 \<Longrightarrow> (q = 0 \<Longrightarrow> 16 \<le> r) \<Longrightarrow> (q = 4 \<Longrightarrow> r < 16) \<Longrightarrow> second_byte_ok (240 + q) (128 + r)"
  by (auto simp: second_byte_ok_def is_continuation_def)

lemma decode_first_encode:
  assumes "is_scalar c"
  shows "decode_first (map unat (utf8_encode_char c) @ r) = (Some c, length (utf8_encode_char c))"
proof -
  have pieces: "c mod 64 < 64" "c div 64 mod 64 < 64" "c div 4096 mod 64 < 64" by simp_all
  have len: "length (utf8_encode_char c) = (if c < 128 then 1 else if c < 2048 then 2 else if c < 65536 then 3 else 4)"
    by (simp add: utf8_encode_char_def)
  consider "c < 128" | "128 \<le> c" "c < 2048" | "2048 \<le> c" "c < 65536" | "65536 \<le> c" by linarith
  then show ?thesis
  proof cases
    case 1
    then show ?thesis
      by (simp add: unat_encode_char [OF assms] len decode_first_def)
  next
    case 2
    then have "2 \<le> c div 64" "c div 64 < 32" by auto
    with 2 pieces show ?thesis
      by (simp add: unat_encode_char [OF assms] len decode_first_def is_continuation_def)
  next
    case 3
    then have d: "c div 4096 < 16" by auto
    have ok: "second_byte_ok (224 + c div 4096) (128 + c div 64 mod 64)"
    proof -
      define x where "x = c div 64"
      have x: "c div 4096 = x div 64" "32 \<le> x" "x < 1024" "x < 864 \<or> 896 \<le> x"
      proof -
        show "c div 4096 = x div 64" using div_mult2_eq [of c 64 64] by (simp add: x_def)
        show "32 \<le> x" "x < 1024"
          unfolding x_def using 3 div_le_mono [of 2048 c 64] by (simp_all add: less_mult_imp_div_less)
        show "x < 864 \<or> 896 \<le> x"
          unfolding x_def using assms div_le_mono [of 57344 c 64]
          by (auto simp: is_scalar_def less_mult_imp_div_less)
      qed
      have "x = 64 * (x div 64) + x mod 64" by simp
      then have "x div 64 = 0 \<Longrightarrow> 32 \<le> x mod 64" "x div 64 = 13 \<Longrightarrow> x mod 64 < 32"
        using x(2-4) mod_less_divisor [of 64 x] by linarith+
      then show ?thesis
        unfolding x(1) x_def [symmetric] by (intro second_byte_ok_3) (use d x(1) in simp_all)
    qed
    have "c < 65536" using 3 by simp
    with 3 d ok pieces base_64_digits(1) [of c] show ?thesis
      by (simp add: unat_encode_char [OF assms] len decode_first_def is_continuation_def)
  next
    case 4
    then have d: "c div 262144 < 5" using assms by (auto simp: is_scalar_def)
    have ok: "second_byte_ok (240 + c div 262144) (128 + c div 4096 mod 64)"
    proof -
      define x where "x = c div 4096"
      have x: "c div 262144 = x div 64" "16 \<le> x" "x < 272"
      proof -
        show "c div 262144 = x div 64" using div_mult2_eq [of c 4096 64] by (simp add: x_def)
        show "16 \<le> x" "x < 272"
          unfolding x_def using 4 assms div_le_mono [of 65536 c 4096]
          by (auto simp: is_scalar_def less_mult_imp_div_less)
      qed
      have "x = 64 * (x div 64) + x mod 64" by simp
      then have "x div 64 = 0 \<Longrightarrow> 16 \<le> x mod 64" "x div 64 = 4 \<Longrightarrow> x mod 64 < 16"
        using x(2,3) by linarith+
      then show ?thesis
        unfolding x(1) x_def [symmetric] by (intro second_byte_ok_4) (use d x(1) in simp_all)
    qed
    from 4 d ok pieces base_64_digits(2) [of c] show ?thesis
      by (simp add: unat_encode_char [OF assms] len decode_first_def is_continuation_def)
  qed
qed

lemma utf8_encode_char_not_Nil: "utf8_encode_char c \<noteq> []"
  by (simp add: utf8_encode_char_def)

lemma utf8_encode_Cons: "utf8_encode (c # s) = utf8_encode_char c @ utf8_encode s"
  by (simp add: utf8_encode_def)

lemma from_utf8_encode: "list_all is_scalar s \<Longrightarrow> from_utf8 (utf8_encode s) = Some s"
proof (induction s)
  case (Cons c s)
  let ?bs = "map unat (utf8_encode_char c) @ map unat (utf8_encode s)"
  have "decode_first ?bs = (Some c, length (utf8_encode_char c))"
    using Cons.prems by (intro decode_first_encode) simp
  moreover have "?bs \<noteq> []" by (simp add: utf8_encode_char_not_Nil)
  ultimately show ?case
    using Cons unfolding from_utf8_def utf8_encode_Cons
    by (simp only: map_append, subst decode_strict.simps) simp
qed (simp add: from_utf8_def utf8_encode_def decode_strict.simps)

lemma from_utf8_lossy_encode: "list_all is_scalar s \<Longrightarrow> from_utf8_lossy (utf8_encode s) = s"
proof (induction s)
  case (Cons c s)
  let ?bs = "map unat (utf8_encode_char c) @ map unat (utf8_encode s)"
  have "decode_first ?bs = (Some c, length (utf8_encode_char c))"
    using Cons.prems by (intro decode_first_encode) simp
  moreover have "?bs \<noteq> []" by (simp add: utf8_encode_char_not_Nil)
  ultimately show ?case
    using Cons unfolding from_utf8_lossy_def utf8_encode_Cons
    by (simp only: map_append, subst decode_lossy.simps) simp
qed (simp add: from_utf8_lossy_def utf8_encode_def decode_lossy.simps)

section \<open>Splitting\<close>

text \<open>\<open>str::split_whitespace\<close> and \<open>str::lines\<close>.\<close>

function split_whitespace :: "rstr \<Rightarrow> rstr list" where
  "split_whitespace s =
     (let t = dropWhile is_whitespace s in
      if t = [] then []
      else takeWhile (\<lambda>c. \<not> is_whitespace c) t # split_whitespace (dropWhile (\<lambda>c. \<not> is_whitespace c) t))"
  by pat_completeness auto
termination
proof (relation "measure length")
  fix s t :: rstr
  assume t: "t = dropWhile is_whitespace s" "t \<noteq> []"
  then have "\<not> is_whitespace (hd t)" by (metis hd_dropWhile)
  with t(2) have "length (dropWhile (\<lambda>c. \<not> is_whitespace c) t) < length t"
    by (cases t) (auto simp: le_imp_less_Suc length_dropWhile_le)
  moreover have "length t \<le> length s" unfolding t(1) by (rule length_dropWhile_le)
  ultimately show "(dropWhile (\<lambda>c. \<not> is_whitespace c) t, s) \<in> measure length" by simp
qed simp

declare split_whitespace.simps [simp del]

lemma split_whitespace_code [code]:
  "split_whitespace [] = []"
  "split_whitespace (c # s) =
     (if is_whitespace c then split_whitespace s
      else (c # takeWhile (\<lambda>c. \<not> is_whitespace c) s) # split_whitespace (dropWhile (\<lambda>c. \<not> is_whitespace c) s))"
proof -
  show "split_whitespace [] = []" by (subst split_whitespace.simps) simp
  show "split_whitespace (c # s) =
     (if is_whitespace c then split_whitespace s
      else (c # takeWhile (\<lambda>c. \<not> is_whitespace c) s) # split_whitespace (dropWhile (\<lambda>c. \<not> is_whitespace c) s))"
  proof (cases "is_whitespace c")
    case True
    then show ?thesis by (subst (1 2) split_whitespace.simps) simp
  next
    case False
    then show ?thesis by (subst split_whitespace.simps) simp
  qed
qed

definition strip_cr :: "rstr \<Rightarrow> rstr" where
  "strip_cr l = (if l \<noteq> [] \<and> last l = 13 then butlast l else l)"

text \<open>Every line but the last one ended in a newline, so only those lose a carriage return.\<close>

definition text_lines :: "rstr \<Rightarrow> rstr list" where
  "text_lines s =
     (let ps = split_on 10 s in map strip_cr (butlast ps) @ (if last ps = [] then [] else [last ps]))"

text \<open>\<open>[T]::split\<close> on a separator, and \<open>join\<close>.\<close>

fun split_bytes :: "u8 \<Rightarrow> bytes \<Rightarrow> bytes list" where
  "split_bytes sep [] = [[]]"
| "split_bytes sep (b # bs) =
     (if b = sep then [] # split_bytes sep bs
      else (case split_bytes sep bs of [] \<Rightarrow> [[b]] | p # ps \<Rightarrow> (b # p) # ps))"

fun join_with :: "rstr \<Rightarrow> rstr list \<Rightarrow> rstr" where
  "join_with sep [] = []"
| "join_with sep [p] = p"
| "join_with sep (p # ps) = p @ sep @ join_with sep ps"

text \<open>\<open>str::eq_ignore_ascii_case\<close>, and \<open>trim_matches\<close> and its one-sided forms on one character.\<close>

definition ascii_lower :: "uchar \<Rightarrow> uchar" where
  "ascii_lower c = (if 65 \<le> c \<and> c \<le> 90 then c + 32 else c)"

definition eq_ignore_ascii_case :: "rstr \<Rightarrow> rstr \<Rightarrow> bool" where
  "eq_ignore_ascii_case a b \<longleftrightarrow> map ascii_lower a = map ascii_lower b"

definition trim_end_char :: "uchar \<Rightarrow> rstr \<Rightarrow> rstr" where
  "trim_end_char c s = rev (dropWhile (\<lambda>x. x = c) (rev s))"

definition trim_char :: "uchar \<Rightarrow> rstr \<Rightarrow> rstr" where
  "trim_char c s = trim_end_char c (dropWhile (\<lambda>x. x = c) s)"

text \<open>\<open>trim_start_matches\<close> and \<open>trim_end_matches\<close> on a string: every repetition goes.\<close>

function trim_prefixes :: "rstr \<Rightarrow> rstr \<Rightarrow> rstr" where
  "trim_prefixes p s = (if p \<noteq> [] \<and> starts_with s p then trim_prefixes p (drop (length p) s) else s)"
  by pat_completeness auto
termination
  by (relation "measure (\<lambda>(p, s). length s)") (auto simp: starts_with_def intro!: diff_less)

definition trim_suffixes :: "rstr \<Rightarrow> rstr \<Rightarrow> rstr" where
  "trim_suffixes p s = rev (trim_prefixes (rev p) (rev s))"

declare trim_prefixes.simps [simp del]

section \<open>Hexadecimal\<close>

definition hex_value :: "uchar \<Rightarrow> nat option" where
  "hex_value c =
     (if 48 \<le> c \<and> c \<le> 57 then Some (c - 48)
      else if 97 \<le> c \<and> c \<le> 102 then Some (c - 87)
      else if 65 \<le> c \<and> c \<le> 70 then Some (c - 55)
      else None)"

fun hex_digits_value :: "nat \<Rightarrow> rstr \<Rightarrow> nat option" where
  "hex_digits_value acc [] = Some acc"
| "hex_digits_value acc (c # cs) =
     (case hex_value c of None \<Rightarrow> None | Some d \<Rightarrow> hex_digits_value (acc * 16 + d) cs)"

text \<open>\<open>uN::from_str_radix(_, 16)\<close>: an optional plus sign, at least one digit, no overflow.\<close>

definition from_hex :: "nat \<Rightarrow> rstr \<Rightarrow> nat option" where
  "from_hex bits s =
     (let ds = (case s of c # cs \<Rightarrow> if c = 43 then cs else s | [] \<Rightarrow> []) in
      if ds = [] then None
      else (case hex_digits_value 0 ds of
              None \<Rightarrow> None
            | Some n \<Rightarrow> if n < 2 ^ bits then Some n else None))"

text \<open>Upper-case hexadecimal of a byte, as the kernel prints (\<open>%02X\<close>).\<close>

definition upper_hex_digit :: "nat \<Rightarrow> uchar" where
  "upper_hex_digit n = (if n < 10 then 48 + n else 55 + n)"

definition upper_hex_byte :: "u8 \<Rightarrow> rstr" where
  "upper_hex_byte b = [upper_hex_digit (unat b div 16), upper_hex_digit (unat b mod 16)]"

lemma hex_value_upper [simp]: "n < 16 \<Longrightarrow> hex_value (upper_hex_digit n) = Some n"
  by (auto simp: hex_value_def upper_hex_digit_def)

lemma hex_digits_value_upper_byte:
  "hex_digits_value acc (upper_hex_byte b @ r) = hex_digits_value (acc * 256 + unat b) r"
proof -
  have "unat b < 256" using unsigned_less [of b, where ?'a = nat] by simp
  then have "unat b div 16 < 16" "unat b mod 16 < 16" by auto
  moreover have "(acc * 16 + unat b div 16) * 16 + unat b mod 16 = acc * 256 + unat b" by presburger
  ultimately show ?thesis by (simp add: upper_hex_byte_def algebra_simps)
qed

lemma upper_hex_not_plus: "upper_hex_digit n \<noteq> 43"
  by (simp add: upper_hex_digit_def)

lemma from_hex_upper_byte: "from_hex 8 (upper_hex_byte b) = Some (unat b)"
proof -
  have "unat b < 256" using unsigned_less [of b, where ?'a = nat] by simp
  then show ?thesis
    using hex_digits_value_upper_byte [of 0 b "[]"]
    by (simp add: from_hex_def upper_hex_byte_def upper_hex_not_plus)
qed

end
