(* ===== verification/Discovery.thy ===== *)
theory Discovery
  imports Registry Text
begin

text \<open>
  Discovery of Mosh servers, \<open>crates/moshwatchd/src/discovery.rs\<close>: the socket tables
  of \<open>/proc/net\<close>, process metadata, the decision which executables count as Mosh
  servers, and the assembled list of sessions.  What \<open>/proc\<close> holds is a value: the texts
  and link targets that the reads return.  File names and link targets are byte
  strings, as \<open>OsStr\<close> is; paths are compared by their components, as \<open>Path\<close> is.
\<close>

section \<open>Paths\<close>

datatype path_component = RootDir | CurDir | ParentDir | Normal bytes

type_synonym path = "path_component list"

definition component_of :: "bytes \<Rightarrow> path_component" where
  "component_of b = (if b = [46] then CurDir else if b = [46, 46] then ParentDir else Normal b)"

text \<open>\<open>Path::components\<close>: repeated separators and inner dots vanish.\<close>

definition components :: "bytes \<Rightarrow> path" where
  "components raw =
     (let pieces = split_bytes 47 raw;
          rooted = (raw \<noteq> [] \<and> hd raw = 47);
          first = (if \<not> rooted \<and> hd pieces = [46] then [CurDir] else [])
      in (if rooted then [RootDir] else first)
         @ map component_of (filter (\<lambda>p. p \<noteq> [] \<and> p \<noteq> [46]) pieces))"

definition path_of :: "string \<Rightarrow> path" where
  "path_of s = components (utf8_encode (lit s))"

definition file_name :: "path \<Rightarrow> bytes option" where
  "file_name p = (if p = [] then None else (case last p of Normal b \<Rightarrow> Some b | _ \<Rightarrow> None))"

definition parent :: "path \<Rightarrow> path option" where
  "parent p = (if p = [] \<or> last p = RootDir then None else Some (butlast p))"

text \<open>\<open>PathBuf::push\<close> of a relative name and \<open>with_file_name\<close>.\<close>

definition join_name :: "path \<Rightarrow> bytes \<Rightarrow> path" where
  "join_name p name =
     (if name \<noteq> [] \<and> hd name = 47 then components name
      else p @ filter (\<lambda>c. p = [] \<or> c \<noteq> CurDir) (components name))"

definition with_file_name :: "path \<Rightarrow> bytes \<Rightarrow> path" where
  "with_file_name p name = join_name (if file_name p = None then p else butlast p) name"

definition component_bytes :: "path_component \<Rightarrow> bytes" where
  "component_bytes c =
     (case c of RootDir \<Rightarrow> [47] | CurDir \<Rightarrow> [46] | ParentDir \<Rightarrow> [46, 46] | Normal b \<Rightarrow> b)"

section \<open>Supported executables\<close>

definition file_name_str :: "path \<Rightarrow> rstr option" where
  "file_name_str p = Option.bind (file_name p) from_utf8"

definition is_supported_mosh_server_exe :: "rstr \<Rightarrow> bool" where
  "is_supported_mosh_server_exe exe_name \<longleftrightarrow>
     exe_name = lit ''mosh-server'' \<or> exe_name = lit ''mosh-server-real''"

text \<open>\<open>current_exe\<close> is what the daemon learns of its own path.\<close>

definition expected_instrumented_server_path :: "path option \<Rightarrow> path option" where
  "expected_instrumented_server_path current_exe =
     (case current_exe of
        None \<Rightarrow> None
      | Some daemon_path \<Rightarrow>
          map_option (\<lambda>dir. join_name dir (utf8_encode (lit ''mosh-server-real''))) (parent daemon_path))"

definition is_nix_store_mosh_server_path :: "path \<Rightarrow> bool" where
  "is_nix_store_mosh_server_path p =
     (case p of
        [a, b, c, d, e, f] \<Rightarrow>
          a = RootDir \<and> component_bytes b = utf8_encode (lit ''nix'') \<and> component_bytes c = utf8_encode (lit ''store'')
          \<and> component_bytes e = utf8_encode (lit ''bin'') \<and> component_bytes f = utf8_encode (lit ''mosh-server'')
      | _ \<Rightarrow> False)"

definition is_supported_stock_mosh_server_path :: "path \<Rightarrow> bool" where
  "is_supported_stock_mosh_server_path p \<longleftrightarrow>
     p = path_of ''/usr/bin/mosh-server'' \<or> p = path_of ''/usr/local/bin/mosh-server''
     \<or> p = path_of ''/bin/mosh-server'' \<or> is_nix_store_mosh_server_path p"

definition is_supported_mosh_server_path :: "path option \<Rightarrow> path \<Rightarrow> bool" where
  "is_supported_mosh_server_path current_exe p =
     (case file_name_str p of
        None \<Rightarrow> False
      | Some exe_name \<Rightarrow>
          if \<not> is_supported_mosh_server_exe exe_name then False
          else if exe_name = lit ''mosh-server-real'' then
            (case expected_instrumented_server_path current_exe of Some q \<Rightarrow> p = q | None \<Rightarrow> False)
          else if exe_name = lit ''mosh-server'' then is_supported_stock_mosh_server_path p
          else False)"

definition normalize_proc_exe_path :: "path \<Rightarrow> path" where
  "normalize_proc_exe_path p =
     (case file_name_str p of
        None \<Rightarrow> p
      | Some name \<Rightarrow>
          (case strip_suffix name (lit '' (deleted)'') of
             None \<Rightarrow> p
           | Some stripped \<Rightarrow> with_file_name p (utf8_encode stripped)))"

section \<open>Socket tables\<close>

text \<open>\<open>&s[a..b]\<close> on byte offsets; \<open>None\<close> is the panic off a character boundary.\<close>

fun at_byte :: "rstr \<Rightarrow> nat \<Rightarrow> nat option" where
  "at_byte s 0 = Some 0"
| "at_byte [] (Suc n) = None"
| "at_byte (c # s) (Suc n) =
     (if utf8_len_char c \<le> Suc n then map_option Suc (at_byte s (Suc n - utf8_len_char c)) else None)"

definition byte_slice :: "rstr \<Rightarrow> nat \<Rightarrow> nat \<Rightarrow> rstr option" where
  "byte_slice s a b =
     (case (at_byte s a, at_byte s b) of
        (Some i, Some j) \<Rightarrow> if i \<le> j then Some (take (j - i) (drop i s)) else None
      | _ \<Rightarrow> None)"

text \<open>Reading two digits at each of several places, stopping at the first that is not a byte.\<close>

fun decode_pairs :: "rstr \<Rightarrow> (nat \<times> nat) list \<Rightarrow> nat list attempt" where
  "decode_pairs value [] = Value []"
| "decode_pairs value ((a, b) # ps) =
     (case byte_slice value a b of
        None \<Rightarrow> Panic
      | Some t \<Rightarrow>
          bind_attempt (attempt_of (from_hex 8 t)) (\<lambda>n.
          bind_attempt (decode_pairs value ps) (\<lambda>ns. Value (n # ns))))"

definition dotted :: "nat list \<Rightarrow> rstr" where
  "dotted bs = join_with [46] (map show_nat bs)"

definition decode_ipv4 :: "rstr \<Rightarrow> rstr attempt" where
  "decode_ipv4 value =
     bind_attempt (decode_pairs value [(0, 2), (2, 4), (4, 6), (6, 8)]) (\<lambda>bs. Value (dotted (rev bs)))"

definition decode_ipv6_word :: "rstr \<Rightarrow> nat \<Rightarrow> nat list attempt" where
  "decode_ipv6_word value chunk =
     (case byte_slice value (chunk * 8) (chunk * 8 + 8) of
        None \<Rightarrow> Panic
      | Some w \<Rightarrow> decode_pairs w [(6, 8), (4, 6), (2, 4), (0, 2)])"

text \<open>Lower-case hexadecimal without leading zeros, and how \<open>Ipv6Addr\<close> is displayed.\<close>

fun show_hex :: "nat \<Rightarrow> rstr" where
  "show_hex n = (if n < 16 then [hex_digit n] else show_hex (n div 16) @ [hex_digit (n mod 16)])"

declare show_hex.simps [simp del]

fun ipv6_segments :: "nat list \<Rightarrow> nat list" where
  "ipv6_segments (a # b # r) = (a * 256 + b) # ipv6_segments r"
| "ipv6_segments _ = []"

text \<open>The first longest run of zero segments: its start and length.\<close>

fun zero_run :: "nat list \<Rightarrow> nat \<Rightarrow> nat \<times> nat \<Rightarrow> nat \<times> nat \<Rightarrow> nat \<times> nat" where
  "zero_run [] i current longest = longest"
| "zero_run (s # ss) i (start, len) longest =
     (if s = 0 then
        let current = (if len = 0 then i else start, Suc len) in
        zero_run ss (Suc i) current (if Suc len > snd longest then current else longest)
      else zero_run ss (Suc i) (0, 0) longest)"

definition show_segments :: "nat list \<Rightarrow> rstr" where
  "show_segments ss = join_with [58] (map show_hex ss)"

definition show_ipv6 :: "nat list \<Rightarrow> rstr" where
  "show_ipv6 bs =
     (let ss = ipv6_segments bs in
      if take 12 bs = [0, 0, 0, 0, 0, 0, 0, 0, 0, 0, 255, 255] then lit ''::ffff:'' @ dotted (drop 12 bs)
      else (let (start, len) = zero_run ss 0 (0, 0) (0, 0) in
            if len > 1 then show_segments (take start ss) @ lit ''::'' @ show_segments (drop (start + len) ss)
            else show_segments ss))"

definition decode_ipv6 :: "rstr \<Rightarrow> rstr attempt" where
  "decode_ipv6 value =
     bind_attempt (decode_ipv6_word value 0) (\<lambda>w0.
     bind_attempt (decode_ipv6_word value 1) (\<lambda>w1.
     bind_attempt (decode_ipv6_word value 2) (\<lambda>w2.
     bind_attempt (decode_ipv6_word value 3) (\<lambda>w3.
     Value (show_ipv6 (w0 @ w1 @ w2 @ w3))))))"

record udp_socket_info =
  us_bind_addr :: rstr
  us_udp_port :: u16

definition parse_local_endpoint :: "rstr \<Rightarrow> udp_socket_info attempt" where
  "parse_local_endpoint value =
     (case split_once value 58 of
        None \<Rightarrow> Failure
      | Some (addr_hex, port_hex) \<Rightarrow>
          (case from_hex 16 port_hex of
             None \<Rightarrow> Failure
           | Some port \<Rightarrow>
               bind_attempt
                 (if utf8_len addr_hex = 8 then decode_ipv4 addr_hex
                  else if utf8_len addr_hex = 32 then decode_ipv6 addr_hex
                  else Failure)
                 (\<lambda>addr. Value \<lparr>us_bind_addr = addr, us_udp_port = word_of_nat port\<rparr>)))"

type_synonym socket_table = "(nat \<times> udp_socket_info) list"

text \<open>One line of a socket table; short and malformed lines are skipped, a panic is not.\<close>

definition add_socket_line :: "rstr \<Rightarrow> socket_table \<Rightarrow> socket_table attempt" where
  "add_socket_line line table =
     (let parts = split_whitespace line in
      if length parts < 10 then Value table
      else (case parse_unsigned (parts ! 9) of
              None \<Rightarrow> Value table
            | Some inode \<Rightarrow>
                (case parse_local_endpoint (parts ! 1) of
                   Failure \<Rightarrow> Value table
                 | Panic \<Rightarrow> Panic
                 | Value info \<Rightarrow> Value (AList.update inode info table))))"

fun add_socket_lines :: "rstr list \<Rightarrow> socket_table \<Rightarrow> socket_table attempt" where
  "add_socket_lines [] table = Value table"
| "add_socket_lines (l # ls) table = bind_attempt (add_socket_line l table) (add_socket_lines ls)"

fun load_udp_sockets :: "rstr option list \<Rightarrow> socket_table \<Rightarrow> socket_table attempt" where
  "load_udp_sockets [] table = Value table"
| "load_udp_sockets (None # files) table = Failure"
| "load_udp_sockets (Some raw # files) table =
     bind_attempt (add_socket_lines (drop 1 (text_lines raw)) table) (load_udp_sockets files)"

definition socket_inode_from_fd_target :: "rstr \<Rightarrow> nat option" where
  "socket_inode_from_fd_target target =
     Option.bind (strip_prefix target (lit ''socket:[''))
       (\<lambda>rest. Option.bind (strip_suffix rest [93]) parse_unsigned)"

section \<open>Processes\<close>

text \<open>What the reads under \<open>/proc/<pid>\<close> return.\<close>

record proc_view =
  pv_exe :: "bytes option"
  pv_stat :: "rstr option"
  pv_cmdline :: "bytes option"
  pv_comm :: "rstr option"
  pv_fds :: "bytes option list option"

record process_metadata =
  pm_started_at_unix_ms :: i64
  pm_cmdline :: rstr
  pm_exe_name :: rstr
  pm_exe_path :: path

definition MAX_CMDLINE_BYTES :: nat where "MAX_CMDLINE_BYTES = 8 * 1024"

definition read_cmdline :: "proc_view \<Rightarrow> rstr option" where
  "read_cmdline p =
     (case pv_cmdline p of
        None \<Rightarrow> None
      | Some contents \<Rightarrow>
          let raw = take (MAX_CMDLINE_BYTES + 1) contents in
          if raw = [] then map_option trim (pv_comm p)
          else
            let truncated = length raw > MAX_CMDLINE_BYTES;
                raw = (if truncated then take MAX_CMDLINE_BYTES raw else raw);
                pieces = map from_utf8_lossy (filter (\<lambda>piece. piece \<noteq> []) (split_bytes 0 raw))
            in Some (join_with [32] pieces @ (if truncated then lit '' ...'' else [])))"

definition read_exe_path :: "proc_view \<Rightarrow> path option" where
  "read_exe_path p = map_option (\<lambda>raw. normalize_proc_exe_path (components raw)) (pv_exe p)"

text \<open>\<open>raw[end + 2..]\<close> panics when nothing, or not a one-byte character, follows the parenthesis.\<close>

definition read_started_at_unix_ms :: "rstr option \<Rightarrow> i64 \<Rightarrow> u64 \<Rightarrow> i64 attempt" where
  "read_started_at_unix_ms stat boot_time_seconds ticks_per_second =
     (case stat of
        None \<Rightarrow> Failure
      | Some raw \<Rightarrow>
          (case rsplit_once raw 41 of
             None \<Rightarrow> Failure
           | Some (before, []) \<Rightarrow> Panic
           | Some (before, c # rest) \<Rightarrow>
               if 128 \<le> c then Panic
               else
                 let fields = split_whitespace rest in
                 if length fields \<le> 19 then Failure
                 else (case parse_unsigned (fields ! 19) of
                         None \<Rightarrow> Failure
                       | Some start_ticks \<Rightarrow>
                           Value (wrap_i64 (wrap_i64 (boot_time_seconds * 1000)
                             + u64_as_i64 (word_of_nat start_ticks * 1000 div ticks_per_second))))))"

fun read_boot_time_lines :: "rstr list \<Rightarrow> i64 option" where
  "read_boot_time_lines [] = None"
| "read_boot_time_lines (l # ls) =
     (case strip_prefix l (lit ''btime '') of
        Some value \<Rightarrow> parse_i64 (trim value)
      | None \<Rightarrow> read_boot_time_lines ls)"

definition read_boot_time_seconds :: "rstr option \<Rightarrow> i64 option" where
  "read_boot_time_seconds stat = Option.bind stat (\<lambda>raw. read_boot_time_lines (text_lines raw))"

text \<open>\<open>sysconf(_SC_CLK_TCK)\<close>.\<close>

definition read_clock_ticks_per_second :: "int \<Rightarrow> u64 option" where
  "read_clock_ticks_per_second value = (if value \<le> 0 then None else Some (i64_as_u64 value))"

definition read_process_metadata_with_clock :: "proc_view \<Rightarrow> i64 \<Rightarrow> u64 \<Rightarrow> process_metadata attempt" where
  "read_process_metadata_with_clock p boot_time_seconds ticks_per_second =
     bind_attempt (attempt_of (read_exe_path p)) (\<lambda>exe_path.
     bind_attempt (attempt_of (opt_filter (\<lambda>n. n \<noteq> []) (file_name_str exe_path))) (\<lambda>exe_name.
     bind_attempt (read_started_at_unix_ms (pv_stat p) boot_time_seconds ticks_per_second) (\<lambda>started.
     bind_attempt (attempt_of (read_cmdline p)) (\<lambda>cmdline.
     Value \<lparr>pm_started_at_unix_ms = started, pm_cmdline = sanitize_cmdline cmdline,
            pm_exe_name = exe_name, pm_exe_path = exe_path\<rparr>))))"

text \<open>The whole of \<open>/proc\<close> as the daemon sees it.\<close>

record proc_fs =
  pf_entries :: "bytes list option"
  pf_process :: "i32 \<Rightarrow> proc_view"
  pf_udp_tables :: "rstr option list"
  pf_stat :: "rstr option"
  pf_clock_ticks :: int

definition read_process_metadata :: "proc_fs \<Rightarrow> i32 \<Rightarrow> process_metadata attempt" where
  "read_process_metadata fs pid =
     bind_attempt (attempt_of (read_boot_time_seconds (pf_stat fs))) (\<lambda>boot.
     bind_attempt (attempt_of (read_clock_ticks_per_second (pf_clock_ticks fs))) (\<lambda>ticks.
     read_process_metadata_with_clock (pf_process fs pid) boot ticks))"

definition is_supported_mosh_server_metadata :: "path option \<Rightarrow> process_metadata \<Rightarrow> bool" where
  "is_supported_mosh_server_metadata current_exe m =
     is_supported_mosh_server_path current_exe (pm_exe_path m)"

fun find_socket :: "bytes option list \<Rightarrow> socket_table \<Rightarrow> udp_socket_info option" where
  "find_socket [] sockets = None"
| "find_socket (None # ts) sockets = find_socket ts sockets"
| "find_socket (Some t # ts) sockets =
     (case socket_inode_from_fd_target (from_utf8_lossy t) of
        None \<Rightarrow> find_socket ts sockets
      | Some inode \<Rightarrow>
          (case map_of sockets inode of
             Some socket \<Rightarrow> Some socket
           | None \<Rightarrow> find_socket ts sockets))"

definition read_process_socket :: "proc_view \<Rightarrow> socket_table \<Rightarrow> udp_socket_info option" where
  "read_process_socket p sockets =
     (case pv_fds p of None \<Rightarrow> None | Some targets \<Rightarrow> find_socket targets sockets)"

definition parse_i32 :: "rstr \<Rightarrow> i32 option" where
  "parse_i32 s =
     (case parse_i64 s of
        Some i \<Rightarrow> if - 2147483648 \<le> i \<and> i \<le> 2147483647 then Some i else None
      | None \<Rightarrow> None)"

definition discover_entry ::
    "proc_fs \<Rightarrow> path option \<Rightarrow> socket_table \<Rightarrow> i64 \<Rightarrow> u64 \<Rightarrow> bytes \<Rightarrow> discovered_session option attempt" where
  "discover_entry fs current_exe sockets boot ticks name =
     (case Option.bind (from_utf8 name) parse_i32 of
        None \<Rightarrow> Value None
      | Some pid \<Rightarrow>
          (case read_process_metadata_with_clock (pf_process fs pid) boot ticks of
             Panic \<Rightarrow> Panic
           | Failure \<Rightarrow> Value None
           | Value m \<Rightarrow>
               if \<not> is_supported_mosh_server_metadata current_exe m then Value None
               else
                 let socket = read_process_socket (pf_process fs pid) sockets in
                 Value (Some \<lparr>ds_pid = pid, ds_started_at_unix_ms = pm_started_at_unix_ms m,
                              ds_bind_addr = map_option us_bind_addr socket,
                              ds_udp_port = map_option us_udp_port socket,
                              ds_cmdline = pm_cmdline m\<rparr>)))"

fun discover_entries ::
    "proc_fs \<Rightarrow> path option \<Rightarrow> socket_table \<Rightarrow> i64 \<Rightarrow> u64 \<Rightarrow> bytes list \<Rightarrow> discovered_session list attempt" where
  "discover_entries fs current_exe sockets boot ticks [] = Value []"
| "discover_entries fs current_exe sockets boot ticks (n # ns) =
     bind_attempt (discover_entry fs current_exe sockets boot ticks n) (\<lambda>found.
     bind_attempt (discover_entries fs current_exe sockets boot ticks ns) (\<lambda>rest.
     Value (case found of Some d \<Rightarrow> d # rest | None \<Rightarrow> rest)))"

definition discover_mosh_sessions :: "proc_fs \<Rightarrow> path option \<Rightarrow> discovered_session list attempt" where
  "discover_mosh_sessions fs current_exe =
     bind_attempt (load_udp_sockets (pf_udp_tables fs) []) (\<lambda>sockets.
     bind_attempt (attempt_of (read_boot_time_seconds (pf_stat fs))) (\<lambda>boot.
     bind_attempt (attempt_of (read_clock_ticks_per_second (pf_clock_ticks fs))) (\<lambda>ticks.
     bind_attempt (attempt_of (pf_entries fs)) (\<lambda>entries.
     bind_attempt (discover_entries fs current_exe sockets boot ticks entries) (\<lambda>found.
     Value (sort_by (\<lambda>a b. cmp_of (ds_pid a) (ds_pid b)) found))))))"

end
