(* ===== verification/Net_Addr.thy ===== *)
theory Net_Addr
  imports Text
begin

text \<open>
  Socket addresses as Rust's standard library parses and classifies them
  (\<open>str::parse::<SocketAddr>\<close>, \<open>IpAddr::is_loopback\<close>): what the listener policy of the
  daemon decides on.  Each parser takes the rest of the input and returns a value
  with what is left; a parser that fails consumes nothing.
\<close>

type_synonym 'a parser = "rstr \<Rightarrow> ('a \<times> rstr) option"

definition read_given_char :: "uchar \<Rightarrow> unit parser" where
  "read_given_char c s = (case s of x # r \<Rightarrow> if x = c then Some ((), r) else None | [] \<Rightarrow> None)"

definition radix_digit :: "nat \<Rightarrow> uchar \<Rightarrow> nat option" where
  "radix_digit radix c = (case hex_value c of Some d \<Rightarrow> if d < radix then Some d else None | None \<Rightarrow> None)"

text \<open>The digits of a number: value and count; \<open>None\<close> when the value leaves the type or there are too many.\<close>

fun read_digits :: "nat \<Rightarrow> nat \<Rightarrow> nat option \<Rightarrow> nat \<Rightarrow> nat \<Rightarrow> (nat \<times> nat) parser" where
  "read_digits radix bound max_digits acc k [] = Some ((acc, k), [])"
| "read_digits radix bound max_digits acc k (c # s) =
     (case radix_digit radix c of
        None \<Rightarrow> Some ((acc, k), c # s)
      | Some d \<Rightarrow>
          if acc * radix + d \<ge> bound \<or> (case max_digits of Some m \<Rightarrow> Suc k > m | None \<Rightarrow> False) then None
          else read_digits radix bound max_digits (acc * radix + d) (Suc k) s)"

definition read_number :: "nat \<Rightarrow> nat \<Rightarrow> nat option \<Rightarrow> bool \<Rightarrow> nat parser" where
  "read_number radix bound max_digits allow_zero_prefix s =
     (case read_digits radix bound max_digits 0 0 s of
        None \<Rightarrow> None
      | Some ((n, k), r) \<Rightarrow>
          if k = 0 then None
          else if \<not> allow_zero_prefix \<and> hd s = 48 \<and> k > 1 then None
          else Some (n, r))"

definition read_separator :: "uchar \<Rightarrow> nat \<Rightarrow> 'a parser \<Rightarrow> 'a parser" where
  "read_separator sep index inner s =
     (if index > 0 then Option.bind (read_given_char sep s) (\<lambda>(_, r). inner r) else inner s)"

definition read_ipv4_addr :: "nat list parser" where
  "read_ipv4_addr s =
     (let octet = read_number 10 256 (Some 3) False in
      Option.bind (read_separator 46 0 octet s) (\<lambda>(a, s).
      Option.bind (read_separator 46 1 octet s) (\<lambda>(b, s).
      Option.bind (read_separator 46 2 octet s) (\<lambda>(c, s).
      Option.bind (read_separator 46 3 octet s) (\<lambda>(d, s). Some ([a, b, c, d], s))))))"

text \<open>\<open>read_groups\<close>: from group \<open>i\<close> on, \<open>left\<close> groups remaining; the groups, and whether they ended in an IPv4 address.\<close>

fun read_groups :: "nat \<Rightarrow> nat \<Rightarrow> rstr \<Rightarrow> (nat list \<times> bool) \<times> rstr" where
  "read_groups i 0 s = (([], False), s)"
| "read_groups i (Suc left) s =
     (case (if left > 0 then read_separator 58 i read_ipv4_addr s else None) of
        Some (v4, r) \<Rightarrow> (([v4 ! 0 * 256 + v4 ! 1, v4 ! 2 * 256 + v4 ! 3], True), r)
      | None \<Rightarrow>
          (case read_separator 58 i (read_number 16 65536 (Some 4) True) s of
             None \<Rightarrow> (([], False), s)
           | Some (g, r) \<Rightarrow>
               let ((gs, v4), r') = read_groups (Suc i) left r in ((g # gs, v4), r')))"

definition read_ipv6_addr :: "nat list parser" where
  "read_ipv6_addr s =
     (let ((head, head_v4), r) = read_groups 0 8 s in
      if length head = 8 then Some (head, r)
      else if head_v4 then None
      else Option.bind (read_given_char 58 r) (\<lambda>(_, r).
           Option.bind (read_given_char 58 r) (\<lambda>(_, r).
           let ((tail, tail_v4), r') = read_groups 0 (8 - (length head + 1)) r
           in Some (head @ replicate (8 - length head - length tail) 0 @ tail, r'))))"

datatype ip_addr = V4 "nat list" | V6 "nat list"

type_synonym socket_addr = "ip_addr \<times> nat"

definition read_port :: "nat parser" where
  "read_port s = Option.bind (read_given_char 58 s) (\<lambda>(_, r). read_number 10 65536 None True r)"

definition read_socket_addr_v4 :: "socket_addr parser" where
  "read_socket_addr_v4 s =
     Option.bind (read_ipv4_addr s) (\<lambda>(ip, r).
     Option.bind (read_port r) (\<lambda>(port, r). Some ((V4 ip, port), r)))"

definition skip_scope_id :: "rstr \<Rightarrow> rstr" where
  "skip_scope_id s =
     (case Option.bind (read_given_char 37 s) (\<lambda>(_, r). read_number 10 4294967296 None True r) of
        Some (_, r) \<Rightarrow> r | None \<Rightarrow> s)"

definition read_socket_addr_v6 :: "socket_addr parser" where
  "read_socket_addr_v6 s =
     Option.bind (read_given_char 91 s) (\<lambda>(_, r).
     Option.bind (read_ipv6_addr r) (\<lambda>(ip, r).
     Option.bind (read_given_char 93 (skip_scope_id r)) (\<lambda>(_, r).
     Option.bind (read_port r) (\<lambda>(port, r). Some ((V6 ip, port), r)))))"

definition parse_socket_addr :: "rstr \<Rightarrow> socket_addr option" where
  "parse_socket_addr s =
     (case (case read_socket_addr_v4 s of Some x \<Rightarrow> Some x | None \<Rightarrow> read_socket_addr_v6 s) of
        Some (a, []) \<Rightarrow> Some a
      | _ \<Rightarrow> None)"

definition ip_is_loopback :: "ip_addr \<Rightarrow> bool" where
  "ip_is_loopback ip =
     (case ip of V4 bs \<Rightarrow> hd bs = 127 | V6 ss \<Rightarrow> ss = [0, 0, 0, 0, 0, 0, 0, 1])"

section \<open>Reading back what is printed\<close>

lemma radix_digit_decimal: "is_digit c \<Longrightarrow> radix_digit 10 c = Some (c - 48)"
proof -
  assume c: "is_digit c"
  then have "hex_value c = Some (c - 48)" by (simp add: hex_value_def is_digit_def)
  moreover have "c - 48 < 10" using c unfolding is_digit_def by linarith
  ultimately show ?thesis by (simp add: radix_digit_def)
qed

lemma digits_value_grows: "acc \<le> foldl (\<lambda>acc c. acc * 10 + (c - 48)) (acc :: nat) s"
proof (induction s arbitrary: acc)
  case (Cons c s)
  have "acc \<le> acc * 10 + (c - 48)" by simp
  also have "\<dots> \<le> foldl (\<lambda>acc c. acc * 10 + (c - 48)) (acc * 10 + (c - 48)) s" by (rule Cons.IH)
  finally show ?case by simp
qed simp

text \<open>Reading a run of digits that is followed by something else.\<close>

lemma read_digits_run:
  assumes "\<forall>c \<in> set ds. is_digit c" and "r = [] \<or> radix_digit 10 (hd r) = None"
    and "foldl (\<lambda>acc c. acc * 10 + (c - 48)) acc ds < bound"
    and "case m of Some m \<Rightarrow> k + length ds \<le> m | None \<Rightarrow> True"
  shows "read_digits 10 bound m acc k (ds @ r)
    = Some ((foldl (\<lambda>acc c. acc * 10 + (c - 48)) acc ds, k + length ds), r)"
  using assms
proof (induction ds arbitrary: acc k)
  case Nil
  then show ?case by (cases r) auto
next
  case (Cons c ds)
  have "acc * 10 + (c - 48) \<le> foldl (\<lambda>acc c. acc * 10 + (c - 48)) (acc * 10 + (c - 48)) ds"
    by (rule digits_value_grows)
  with Cons.prems(3) have "acc * 10 + (c - 48) < bound" by simp
  moreover have "\<not> (case m of Some m \<Rightarrow> Suc k > m | None \<Rightarrow> False)"
    using Cons.prems(4) by (auto split: option.splits)
  moreover have "read_digits 10 bound m (acc * 10 + (c - 48)) (Suc k) (ds @ r)
      = Some ((foldl (\<lambda>acc c. acc * 10 + (c - 48)) (acc * 10 + (c - 48)) ds, Suc k + length ds), r)"
    using Cons.prems by (intro Cons.IH) (auto split: option.splits)
  ultimately show ?case using Cons.prems(1) by (simp add: radix_digit_decimal)
qed

lemma show_nat_no_leading_zero: "0 < n \<Longrightarrow> hd (show_nat n) \<noteq> 48"
proof (induction n rule: show_nat.induct)
  case (1 n)
  then show ?case by (subst show_nat.simps) (auto simp: hd_append)
qed

lemma length_show_nat: "n < 10 ^ Suc k \<Longrightarrow> length (show_nat n) \<le> Suc k"
proof (induction k arbitrary: n)
  case 0
  then show ?case by (subst show_nat.simps) simp
next
  case (Suc k)
  then have "n div 10 < 10 ^ Suc k" by (simp add: less_mult_imp_div_less mult.commute)
  with Suc show ?case by (subst show_nat.simps) simp
qed

lemma read_number_show_nat:
  assumes "n < bound" and "r = [] \<or> radix_digit 10 (hd r) = None"
    and "case m of Some m \<Rightarrow> length (show_nat n) \<le> m | None \<Rightarrow> True"
  shows "read_number 10 bound m z (show_nat n @ r) = Some (n, r)"
proof -
  have val: "foldl (\<lambda>acc c. acc * 10 + (c - 48)) 0 (show_nat n) = n"
    using digits_value_show_nat [of n] by (simp add: digits_value_def)
  have "read_digits 10 bound m 0 0 (show_nat n @ r) = Some ((n, length (show_nat n)), r)"
    using read_digits_run [where ds = "show_nat n" and r = r and acc = 0 and bound = bound and m = m and k = 0]
      assms show_nat_digits val by (cases m) simp_all
  moreover have "length (show_nat n) > 1 \<Longrightarrow> hd (show_nat n) \<noteq> 48"
  proof (cases "n = 0")
    case True
    then show "length (show_nat n) > 1 \<Longrightarrow> hd (show_nat n) \<noteq> 48"
      by (subst (asm) show_nat.simps) simp
  qed (simp add: show_nat_no_leading_zero)
  ultimately show ?thesis by (auto simp: read_number_def)
qed

lemma not_decimal [simp]: "radix_digit 10 46 = None" "radix_digit 10 58 = None" "radix_digit 10 93 = None"
  by (simp_all add: radix_digit_def hex_value_def)

lemma read_octet:
  assumes "a < 256" and "r = [] \<or> radix_digit 10 (hd r) = None"
  shows "read_number 10 256 (Some 3) False (show_nat a @ r) = Some (a, r)"
  using assms length_show_nat [of a 2] by (intro read_number_show_nat) simp_all

lemma read_ipv4_shown:
  assumes "a < 256" "b < 256" "c < 256" "d < 256" and "r = [] \<or> radix_digit 10 (hd r) = None"
  shows "read_ipv4_addr (show_nat a @ 46 # show_nat b @ 46 # show_nat c @ 46 # show_nat d @ r) = Some ([a, b, c, d], r)"
  using assms
  by (simp add: read_ipv4_addr_def read_separator_def read_given_char_def read_octet Let_def)

lemma parse_socket_addr_shown:
  assumes "a < 256" "b < 256" "c < 256" "d < 256" and "p < 65536"
  shows "parse_socket_addr (show_nat a @ 46 # show_nat b @ 46 # show_nat c @ 46 # show_nat d @ 58 # show_nat p)
    = Some (V4 [a, b, c, d], p)"
proof -
  have "read_port (58 # show_nat p) = Some (p, [])"
    using read_number_show_nat [where n = p and bound = 65536 and r = "[]" and m = None and z = True] assms(5) by (simp add: read_port_def read_given_char_def)
  then have "read_socket_addr_v4 (show_nat a @ 46 # show_nat b @ 46 # show_nat c @ 46 # show_nat d @ 58 # show_nat p)
      = Some ((V4 [a, b, c, d], p), [])"
    using assms by (simp add: read_socket_addr_v4_def read_ipv4_shown)
  then show ?thesis by (simp add: parse_socket_addr_def)
qed

end
