(* ===== verification/Telemetry.thy ===== *)
theory Telemetry
  imports Discovery Line_Reader Net_Addr
begin

text \<open>
  The telemetry trust boundary and the task glue of \<open>crates/moshwatchd/src/main.rs\<close>:
  the bounded frame reader with its deadline, the verification of a peer, the loop that
  handles one telemetry connection, the metrics listener policy and the snapshot
  publisher.  Time that passes while the code waits is part of the input: a reader is a
  list of chunks, each with the milliseconds after which it arrives.
\<close>

definition MAX_TELEMETRY_FRAME_BYTES :: nat where "MAX_TELEMETRY_FRAME_BYTES = 16 * 1024"
definition INITIAL_TELEMETRY_FRAME_TIMEOUT :: nat where "INITIAL_TELEMETRY_FRAME_TIMEOUT = 5000"
definition TELEMETRY_FRAME_TIMEOUT :: nat where "TELEMETRY_FRAME_TIMEOUT = 40000"
definition MAX_INVALID_TELEMETRY_FRAMES :: nat where "MAX_INVALID_TELEMETRY_FRAMES = 8"

definition telemetry_frame_timeout :: "bool \<Rightarrow> nat" where
  "telemetry_frame_timeout valid_frame_seen =
     (if valid_frame_seen then TELEMETRY_FRAME_TIMEOUT else INITIAL_TELEMETRY_FRAME_TIMEOUT)"

section \<open>Frames\<close>

type_synonym 'e timed_reader = "(nat \<times> 'e read_chunk) list"

datatype telemetry_frame_read = FrameEof | Frame bytes | FrameOversized nat

datatype 'e telemetry_error = ReadTimedOut | ReadFailedWith 'e | TooManyInvalidFrames

fun timed_consume :: "nat \<Rightarrow> 'e timed_reader \<Rightarrow> 'e timed_reader" where
  "timed_consume n ((d, Chunk c) # r) = (if length c \<le> n then r else (0, Chunk (drop n c)) # r)"
| "timed_consume n r = r"

text \<open>
  \<open>left\<close> is the time to the deadline.  The result carries what is left of it; data that
  has arrived by the deadline is still taken (\<open>timeout_at\<close> polls the reader first).
\<close>

fun drain_telemetry_frame_remainder ::
    "nat \<Rightarrow> 'e timed_reader \<Rightarrow> nat \<Rightarrow> 'e telemetry_error + nat \<times> nat \<times> 'e timed_reader" where
  "drain_telemetry_frame_remainder left [] n = Inr (n, left, [])"
| "drain_telemetry_frame_remainder left ((d, x) # r) n =
     (if left < d then Inl ReadTimedOut
      else (case x of
              Fault e \<Rightarrow> Inl (ReadFailedWith e)
            | Chunk c \<Rightarrow>
                if c = [] then Inr (n, left - d, (0, Chunk c) # r)
                else (case newline_index c of
                        Some i \<Rightarrow> Inr (n + Suc i, left - d, timed_consume (Suc i) ((0, Chunk c) # r))
                      | None \<Rightarrow> drain_telemetry_frame_remainder (left - d) r (n + length c))))"

fun read_frame_loop ::
    "nat \<Rightarrow> nat \<Rightarrow> bytes \<Rightarrow> 'e timed_reader
     \<Rightarrow> 'e telemetry_error + telemetry_frame_read \<times> nat \<times> 'e timed_reader" where
  "read_frame_loop max_bytes left frame [] = Inr (if frame = [] then FrameEof else Frame frame, left, [])"
| "read_frame_loop max_bytes left frame ((d, x) # r) =
     (if left < d then Inl ReadTimedOut
      else (case x of
              Fault e \<Rightarrow> Inl (ReadFailedWith e)
            | Chunk c \<Rightarrow>
                if c = [] then Inr (if frame = [] then FrameEof else Frame frame, left - d, (0, Chunk c) # r)
                else (case newline_index c of
                        Some i \<Rightarrow>
                          let total_bytes = length frame + Suc i; r' = timed_consume (Suc i) ((0, Chunk c) # r) in
                          if total_bytes > max_bytes then Inr (FrameOversized total_bytes, left - d, r')
                          else Inr (Frame (frame @ take (Suc i) c), left - d, r')
                      | None \<Rightarrow>
                          if length frame + length c > max_bytes then
                            (case drain_telemetry_frame_remainder (left - d) ((0, Chunk c) # r) (length frame) of
                               Inl e \<Rightarrow> Inl e
                             | Inr (n, left', r') \<Rightarrow> Inr (FrameOversized n, left', r'))
                          else read_frame_loop max_bytes (left - d) (frame @ c) r)))"

definition read_bounded_telemetry_frame ::
    "'e timed_reader \<Rightarrow> nat \<Rightarrow> nat \<Rightarrow> 'e telemetry_error + telemetry_frame_read \<times> nat \<times> 'e timed_reader" where
  "read_bounded_telemetry_frame r max_bytes total_timeout = read_frame_loop max_bytes total_timeout [] r"

section \<open>Verified peers\<close>

record verified_telemetry_peer =
  vp_pid :: i32
  vp_started_at_unix_ms :: i64
  vp_cmdline :: rstr
  vp_exe_name :: rstr

record peer_credentials =
  cred_uid :: u32
  cred_pid :: i32

text \<open>\<open>credentials\<close> is what \<open>SO_PEERCRED\<close> yields, \<open>geteuid\<close> the daemon's own user.\<close>

definition verify_telemetry_peer ::
    "peer_credentials option \<Rightarrow> u32 \<Rightarrow> proc_fs \<Rightarrow> path option \<Rightarrow> verified_telemetry_peer attempt" where
  "verify_telemetry_peer credentials geteuid fs current_exe =
     bind_attempt (attempt_of credentials) (\<lambda>c.
     if cred_uid c \<noteq> geteuid then Failure
     else bind_attempt (read_process_metadata fs (cred_pid c)) (\<lambda>m.
          if \<not> is_supported_mosh_server_exe (pm_exe_name m) then Failure
          else bind_attempt (attempt_of (expected_instrumented_server_path current_exe)) (\<lambda>expected.
               if pm_exe_path m \<noteq> expected then Failure
               else Value \<lparr>vp_pid = cred_pid c, vp_started_at_unix_ms = pm_started_at_unix_ms m,
                           vp_cmdline = pm_cmdline m, vp_exe_name = pm_exe_name m\<rparr>)))"

section \<open>Events\<close>

definition telemetry_metric_is_plausible :: "f64 option \<Rightarrow> bool" where
  "telemetry_metric_is_plausible v =
     (case v of None \<Rightarrow> True | Some x \<Rightarrow> f64_is_finite x \<and> f64_ge x (F64_Fin 0))"

definition telemetry_event_is_plausible :: "i64 \<Rightarrow> telemetry_event \<Rightarrow> bool" where
  "telemetry_event_is_plausible now ev \<longleftrightarrow>
     wrap_i64 (now - 60000) \<le> ev_unix_ms ev \<and> ev_unix_ms ev \<le> wrap_i64 (now + 60000)
     \<and> telemetry_metric_is_plausible (ev_srtt_ms ev) \<and> telemetry_metric_is_plausible (ev_rttvar_ms ev)
     \<and> telemetry_metric_is_plausible (ev_last_rtt_ms ev)"

text \<open>\<open>i64::abs\<close> in a release build: the minimum is its own absolute value.\<close>

definition i64_abs :: "i64 \<Rightarrow> i64" where
  "i64_abs x = wrap_i64 (if x < 0 then - x else x)"

definition telemetry_event_matches_peer :: "i64 \<Rightarrow> telemetry_event \<Rightarrow> verified_telemetry_peer \<Rightarrow> bool" where
  "telemetry_event_matches_peer now ev peer =
     (if \<not> telemetry_event_is_plausible now ev then False
      else if ev_pid ev \<noteq> vp_pid peer then False
      else if \<not> is_supported_mosh_server_exe (vp_exe_name peer) then False
      else (case ev_started_at_unix_ms ev of
              Some started \<Rightarrow> \<not> i64_abs (wrap_i64 (vp_started_at_unix_ms peer - started)) > 10000
            | None \<Rightarrow> True))"

text \<open>Lines 575-579: identity comes from the verified peer, whatever the event says.\<close>

definition rewrite_identity :: "verified_telemetry_peer \<Rightarrow> telemetry_event \<Rightarrow> telemetry_event" where
  "rewrite_identity peer ev =
     ev\<lparr>ev_pid := vp_pid peer, ev_started_at_unix_ms := Some (vp_started_at_unix_ms peer),
        ev_cmdline := Some (vp_cmdline peer)\<rparr>"

definition trim_newlines :: "bytes \<Rightarrow> bytes" where
  "trim_newlines b = rev (dropWhile (\<lambda>x. x = 10 \<or> x = 13) (rev b))"

section \<open>A telemetry connection\<close>

text \<open>Every read that delivers something takes bytes off the reader, so a connection ends with its input.\<close>

fun timed_size :: "'e timed_reader \<Rightarrow> nat" where
  "timed_size [] = 0"
| "timed_size ((d, Chunk c) # r) = length c + timed_size r"
| "timed_size ((d, Fault e) # r) = timed_size r"

lemma timed_consume_size:
  "0 < n \<Longrightarrow> c \<noteq> [] \<Longrightarrow> timed_size (timed_consume n ((d, Chunk c) # r)) < length c + timed_size r"
  by simp

lemma drain_timed_size:
  "drain_telemetry_frame_remainder left r n = Inr (m, left', r') \<Longrightarrow> timed_size r' \<le> timed_size r"
proof (induction left r n rule: drain_telemetry_frame_remainder.induct)
  case (2 left d x r n)
  then show ?case
    by (cases x) (auto split: if_splits option.splits intro: order.trans)
qed auto

lemma drain_timed_size_less:
  assumes "c \<noteq> []" and "drain_telemetry_frame_remainder left ((d, Chunk c) # r) n = Inr (m, left', r')"
  shows "timed_size r' < length c + timed_size r"
proof (cases "newline_index c")
  case None
  with assms have "drain_telemetry_frame_remainder (left - d) r (n + length c) = Inr (m, left', r')"
    by (auto split: if_splits)
  from drain_timed_size [OF this] assms(1) show ?thesis by (cases c) auto
next
  case (Some i)
  with assms timed_consume_size [of "Suc i" c 0 r] show ?thesis
    by (auto split: if_splits simp del: timed_consume.simps)
qed

lemma read_frame_size:
  "read_frame_loop max_bytes left frame r = Inr (out, left', r') \<Longrightarrow>
   timed_size r' \<le> timed_size r \<and> (timed_size r' < timed_size r \<or> out = (if frame = [] then FrameEof else Frame frame))"
proof (induction max_bytes left frame r rule: read_frame_loop.induct)
  case (2 max_bytes left frame d x r)
  have ok: "\<not> left < d" using "2.prems" by auto
  show ?case
  proof (cases x)
    case (Chunk c)
    show ?thesis
    proof (cases "c = []")
      case False
      show ?thesis
      proof (cases "newline_index c")
        case None
        show ?thesis
        proof (cases "length frame + length c > max_bytes")
          case True
          then obtain n where "drain_telemetry_frame_remainder (left - d) ((0, Chunk c) # r) (length frame) = Inr (n, left', r')"
            using "2.prems" ok Chunk False None
            by (auto simp del: drain_telemetry_frame_remainder.simps split: sum.splits)
          from drain_timed_size_less [OF False this] Chunk show ?thesis by simp
        next
          case fits: False
          with "2.prems" ok Chunk False None have "read_frame_loop max_bytes (left - d) (frame @ c) r = Inr (out, left', r')"
            by simp
          from "2.IH" [OF ok Chunk False None fits this] False Chunk show ?thesis by (cases c) auto
        qed
      next
        case (Some i)
        with "2.prems" ok Chunk False timed_consume_size [of "Suc i" c 0 r] show ?thesis
          by (auto simp: Let_def simp del: timed_consume.simps split: if_splits)
      qed
    qed (use 2 Chunk in \<open>auto split: if_splits\<close>)
  qed (use 2 in \<open>auto split: if_splits\<close>)
qed auto

text \<open>
  The loop of \<open>handle_telemetry_stream\<close>.  \<open>clock k\<close> is the wall clock when the \<open>k\<close>-th
  frame is checked, \<open>from_json\<close> the decoder.  The result is how the loop ends together
  with the events that were applied, in order; each one is followed by a publish request.
\<close>

function telemetry_loop ::
    "(nat \<Rightarrow> i64) \<Rightarrow> (bytes \<Rightarrow> telemetry_event option) \<Rightarrow> verified_telemetry_peer \<Rightarrow> nat \<Rightarrow> nat \<Rightarrow> bool
     \<Rightarrow> 'e timed_reader \<Rightarrow> ('e telemetry_error + unit) \<times> (rstr \<times> telemetry_event) list" where
  "telemetry_loop clock from_json peer k invalid_frames valid_frame_seen r =
     (case read_bounded_telemetry_frame r MAX_TELEMETRY_FRAME_BYTES (telemetry_frame_timeout valid_frame_seen) of
        Inl e \<Rightarrow> (Inl e, [])
      | Inr (FrameEof, left, r') \<Rightarrow> (Inr (), [])
      | Inr (FrameOversized n, left, r') \<Rightarrow>
          if Suc invalid_frames \<ge> MAX_INVALID_TELEMETRY_FRAMES then (Inl TooManyInvalidFrames, [])
          else telemetry_loop clock from_json peer (Suc k) (Suc invalid_frames) valid_frame_seen r'
      | Inr (Frame raw, left, r') \<Rightarrow>
          let buffer = trim_newlines raw in
          if buffer = [] then telemetry_loop clock from_json peer (Suc k) invalid_frames valid_frame_seen r'
          else (case from_json buffer of
                  None \<Rightarrow>
                    if Suc invalid_frames \<ge> MAX_INVALID_TELEMETRY_FRAMES then (Inl TooManyInvalidFrames, [])
                    else telemetry_loop clock from_json peer (Suc k) (Suc invalid_frames) valid_frame_seen r'
                | Some ev \<Rightarrow>
                    if \<not> telemetry_event_matches_peer (clock k) ev peer then
                      if Suc invalid_frames \<ge> MAX_INVALID_TELEMETRY_FRAMES then (Inl TooManyInvalidFrames, [])
                      else telemetry_loop clock from_json peer (Suc k) (Suc invalid_frames) valid_frame_seen r'
                    else
                      let (end_result, applied) = telemetry_loop clock from_json peer (Suc k) 0 True r'
                      in (end_result,
                          (instrumented_session_id (vp_pid peer) (vp_started_at_unix_ms peer), rewrite_identity peer ev)
                          # applied)))"
  by pat_completeness auto
termination
  by (relation "measure (\<lambda>(cl, fj, p, k, i, v, r). timed_size r)")
    (auto simp: read_bounded_telemetry_frame_def trim_newlines_def dest!: read_frame_size)

declare telemetry_loop.simps [simp del]

definition handle_telemetry_stream ::
    "(nat \<Rightarrow> i64) \<Rightarrow> (bytes \<Rightarrow> telemetry_event option) \<Rightarrow> verified_telemetry_peer attempt \<Rightarrow> 'e timed_reader
     \<Rightarrow> ('e telemetry_error + unit) option \<times> (rstr \<times> telemetry_event) list" where
  "handle_telemetry_stream clock from_json verified r =
     (case verified of
        Value peer \<Rightarrow> (let (e, applied) = telemetry_loop clock from_json peer 0 0 False r in (Some e, applied))
      | _ \<Rightarrow> (None, []))"

section \<open>The metrics listener policy\<close>

definition split_once_str :: "rstr \<Rightarrow> uchar \<Rightarrow> uchar \<Rightarrow> (rstr \<times> rstr) option" where
  "split_once_str s a b =
     (case dropWhile (\<lambda>i. take 2 (drop i s) \<noteq> [a, b]) [0..<length s] of
        [] \<Rightarrow> None
      | i # _ \<Rightarrow> Some (take i s, drop (i + 2) s))"

definition split_host_port :: "rstr \<Rightarrow> (rstr \<times> rstr) option" where
  "split_host_port addr =
     (case strip_prefix addr [91] of
        Some rest \<Rightarrow> split_once_str rest 93 58
      | None \<Rightarrow> rsplit_once addr 58)"

definition metrics_listener_is_not_loopback :: "rstr option \<Rightarrow> bool" where
  "metrics_listener_is_not_loopback listen =
     (case listen of
        None \<Rightarrow> False
      | Some addr \<Rightarrow>
          (case parse_socket_addr addr of
             Some (ip, port) \<Rightarrow> \<not> ip_is_loopback ip
           | None \<Rightarrow>
               (case split_host_port addr of
                  None \<Rightarrow> True
                | Some (host, port) \<Rightarrow> \<not> eq_ignore_ascii_case host (lit ''localhost''))))"

text \<open>\<open>True\<close> when the daemon goes on, \<open>False\<close> when it refuses to start.\<close>

definition enforce_metrics_listener_policy :: "rstr option \<Rightarrow> bool \<Rightarrow> bool" where
  "enforce_metrics_listener_policy listen allow =
     (if metrics_listener_is_not_loopback listen then allow else True)"

section \<open>Configuration overrides\<close>

record args =
  arg_api_socket :: "path option"
  arg_telemetry_socket :: "path option"
  arg_metrics_listen :: "rstr option"
  arg_allow_public_metrics :: bool
  arg_no_write_config :: bool

text \<open>Lines 113-123: command-line overrides and the policy check on the result.\<close>

definition effective_config :: "args \<Rightarrow> app_config \<Rightarrow> app_config" where
  "effective_config a c =
     (let m = metrics_cfg c; p = mc_prometheus m;
          p1 = (case arg_metrics_listen a of Some l \<Rightarrow> p\<lparr>listen_addr := Some l\<rparr> | None \<Rightarrow> p);
          p2 = (if arg_allow_public_metrics a then p1\<lparr>allow_non_loopback := True\<rparr> else p1)
      in c\<lparr>metrics_cfg := m\<lparr>mc_prometheus := p2\<rparr>\<rparr>)"

definition startup_config :: "args \<Rightarrow> app_config \<Rightarrow> app_config option" where
  "startup_config a c =
     (let c' = effective_config a c; p = mc_prometheus (metrics_cfg c') in
      if enforce_metrics_listener_policy (listen_addr p) (allow_non_loopback p) then Some c' else None)"

end
