(* ===== verification/Telemetry_Facts.thy ===== *)
theory Telemetry_Facts
  imports Telemetry History_Facts Registry_Readers
begin

text \<open>
  What the telemetry side of \<open>main.rs\<close> guarantees: its frame reader keeps the contract
  of bounded line reading and its deadline, a connection is processed line by line,
  every applied event carries the identity of the verified peer, and the registry that
  only verified connections and discovery feed keeps its identities.
\<close>

section \<open>The frame reader keeps the contract\<close>

definition at_once :: "'e reader \<Rightarrow> 'e timed_reader" where
  "at_once r = map (Pair 0) r"

lemma at_once_simps [simp]: "at_once [] = []" "at_once (x # r) = (0, x) # at_once r"
  by (simp_all add: at_once_def)

lemma timed_consume_at_once: "timed_consume n (at_once r) = at_once (consume n r)"
  by (cases r; cases "hd r") auto

lemma drain_at_once:
  "drain_telemetry_frame_remainder left (at_once r) n =
     (case drain_line_remainder r n of
        Inl e \<Rightarrow> Inl (ReadFailedWith e) | Inr (m, r') \<Rightarrow> Inr (m, left, at_once r'))"
proof (induction r n rule: drain_line_remainder.induct)
  case (3 c r n)
  then show ?case by (auto split: option.split)
qed simp_all

fun frame_of :: "read_line_outcome \<Rightarrow> bytes \<Rightarrow> telemetry_frame_read" where
  "frame_of LineEof line = FrameEof"
| "frame_of LineRead line = Frame line"
| "frame_of (LineOversized n) line = FrameOversized n"

text \<open>When data never has to be waited for, this is the line reader of the history store.\<close>

lemma read_frame_at_once:
  "read_frame_loop max_bytes left frame (at_once r) =
     (case read_line_loop max_bytes frame r of
        Inl e \<Rightarrow> Inl (ReadFailedWith e)
      | Inr (out, line, r') \<Rightarrow> Inr (frame_of out line, left, at_once r'))"
proof (induction max_bytes frame r rule: read_line_loop.induct)
  case (3 max_bytes frame c r)
  show ?case
  proof (cases "newline_index c")
    case None
    have "drain_telemetry_frame_remainder left ((0, Chunk c) # at_once r) (length frame)
      = (case drain_line_remainder (Chunk c # r) (length frame) of
           Inl e \<Rightarrow> Inl (ReadFailedWith e) | Inr (m, r') \<Rightarrow> Inr (m, left, at_once r'))"
      using drain_at_once [of left "Chunk c # r"] by simp
    then show ?thesis
      using 3 None by (auto simp del: drain_telemetry_frame_remainder.simps drain_line_remainder.simps
          split: sum.split)
  next
    case (Some i)
    then show ?thesis
      using timed_consume_at_once [of "Suc i" "Chunk c # r"] by (simp add: Let_def)
  qed
qed simp_all

fun frame_outcome :: "telemetry_frame_read \<Rightarrow> line_outcome" where
  "frame_outcome FrameEof = EndOfInput"
| "frame_outcome (Frame b) = WholeLine b"
| "frame_outcome (FrameOversized n) = TooLong n"

definition telemetry_read :: "nat \<Rightarrow> 'e reader \<Rightarrow> 'e telemetry_error + line_outcome \<times> 'e reader" where
  "telemetry_read max_bytes r =
     map_sum id (\<lambda>(out, left, r'). (frame_outcome out, map snd r'))
       (read_bounded_telemetry_frame (at_once r) max_bytes TELEMETRY_FRAME_TIMEOUT)"

lemma snd_at_once [simp]: "map snd (at_once r) = r"
  by (simp add: at_once_def comp_def)

lemma frame_outcome_of: "frame_outcome (frame_of out line) = to_outcome out line"
  by (cases out) simp_all

interpretation telemetry_frames: bounded_line_reader telemetry_read
proof
  fix r :: "'e reader" and max_bytes :: nat
  assume "clean_reader r"
  from read_line_loop_spec [OF this, of "[]" max_bytes]
  show "\<exists>r'. telemetry_read max_bytes r = Inr (fst (next_line max_bytes (content r)), r')
      \<and> clean_reader r' \<and> content r' = snd (next_line max_bytes (content r))"
    by (auto simp: telemetry_read_def read_bounded_telemetry_frame_def read_frame_at_once frame_outcome_of)
qed

section \<open>The deadline\<close>

definition waiting :: "'e timed_reader \<Rightarrow> nat" where
  "waiting r = sum_list (map fst r)"

lemma waiting_simps [simp]: "waiting [] = 0" "waiting ((d, x) # r) = d + waiting r"
  by (simp_all add: waiting_def)

lemma waiting_consume [simp]: "waiting (timed_consume n ((0, Chunk c) # r)) = waiting r"
  by simp

lemma drain_waiting:
  "drain_telemetry_frame_remainder left r n = Inr (m, left', r') \<Longrightarrow>
   left' \<le> left \<and> waiting r = waiting r' + (left - left')"
proof (induction left r n rule: drain_telemetry_frame_remainder.induct)
  case (2 left d x r n)
  show ?case
  proof (cases x)
    case (Chunk c)
    show ?thesis
    proof (cases "c = []")
      case False
      show ?thesis
      proof (cases "newline_index c")
        case None
        from "2.prems" Chunk False None
        have ok: "\<not> left < d" and "drain_telemetry_frame_remainder (left - d) r (n + length c) = Inr (m, left', r')"
          by (auto split: if_splits)
        from "2.IH" [OF ok Chunk False None this(2)] ok show ?thesis by auto
      qed (use 2 Chunk False in \<open>auto split: if_splits simp del: timed_consume.simps\<close>)
    qed (use 2 Chunk in \<open>auto split: if_splits\<close>)
  qed (use 2 in \<open>auto split: if_splits\<close>)
qed simp

lemma read_frame_waiting:
  "read_frame_loop max_bytes left frame r = Inr (out, left', r') \<Longrightarrow>
   left' \<le> left \<and> waiting r = waiting r' + (left - left')"
proof (induction max_bytes left frame r rule: read_frame_loop.induct)
  case (2 max_bytes left frame d x r)
  have ok: "\<not> left < d" using "2.prems" by auto
  show ?case
  proof (cases x)
    case (Chunk c)
    show ?thesis
    proof (cases "c = []")
      case False
      show ?thesis
      proof (cases "newline_index c")
        case None
        show ?thesis
        proof (cases "length frame + length c > max_bytes")
          case True
          then obtain n where "drain_telemetry_frame_remainder (left - d) ((0, Chunk c) # r) (length frame) = Inr (n, left', r')"
            using "2.prems" ok Chunk False None
            by (auto simp del: drain_telemetry_frame_remainder.simps split: sum.splits)
          from drain_waiting [OF this] ok show ?thesis by auto
        next
          case fits: False
          with "2.prems" ok Chunk False None have "read_frame_loop max_bytes (left - d) (frame @ c) r = Inr (out, left', r')"
            by simp
          from "2.IH" [OF ok Chunk False None fits this] ok show ?thesis by auto
        qed
      qed (use 2 ok Chunk False in \<open>auto simp: Let_def split: if_splits simp del: timed_consume.simps\<close>)
    qed (use 2 ok Chunk in \<open>auto split: if_splits\<close>)
  qed (use 2 ok in \<open>auto split: if_splits\<close>)
qed simp

lemma drain_times_out:
  assumes "list_all (\<lambda>(d, x). \<exists>c. x = Chunk c \<and> c \<noteq> [] \<and> newline_index c = None) pre" and "left < waiting pre"
  shows "drain_telemetry_frame_remainder left (pre @ rest) n = Inl ReadTimedOut"
  using assms
proof (induction pre arbitrary: left n)
  case (Cons e pre)
  then obtain d c where e: "e = (d, Chunk c)" "c \<noteq> []" "newline_index c = None" by auto
  show ?case
  proof (cases "left < d")
    case False
    with Cons e have "drain_telemetry_frame_remainder (left - d) (pre @ rest) (n + length c) = Inl ReadTimedOut"
      by (intro Cons.IH) auto
    with e False show ?thesis by simp
  qed (simp add: e)
qed simp

lemma read_frame_times_out:
  assumes "list_all (\<lambda>(d, x). \<exists>c. x = Chunk c \<and> c \<noteq> [] \<and> newline_index c = None) pre" and "left < waiting pre"
  shows "read_frame_loop max_bytes left frame (pre @ rest) = Inl ReadTimedOut"
  using assms
proof (induction pre arbitrary: left frame)
  case (Cons e pre)
  then obtain d c where e: "e = (d, Chunk c)" "c \<noteq> []" "newline_index c = None" by auto
  show ?case
  proof (cases "left < d")
    case False
    have pre: "list_all (\<lambda>(d, x). \<exists>c. x = Chunk c \<and> c \<noteq> [] \<and> newline_index c = None) ((0, Chunk c) # pre)"
      "left - d < waiting ((0, Chunk c) # pre)" using Cons.prems e False by auto
    have "drain_telemetry_frame_remainder (left - d) (((0, Chunk c) # pre) @ rest) (length frame) = Inl ReadTimedOut"
      using pre by (rule drain_times_out)
    moreover have "read_frame_loop max_bytes (left - d) (frame @ c) (pre @ rest) = Inl ReadTimedOut"
      using Cons.prems e False by (intro Cons.IH) auto
    ultimately show ?thesis using e False by (simp del: drain_telemetry_frame_remainder.simps)
  qed (simp add: e)
qed simp

text \<open>
  C25: A telemetry frame is read within its deadline: a read that delivers anything has
  waited at most the timeout in total, however the peer spreads its bytes, and a peer
  that has not finished its line when the timeout passes is cut off with a timeout
  error, also while an oversized line is being skipped.
\<close>
theorem telemetry_frame_deadline:
  assumes "list_all (\<lambda>(d, x). \<exists>c. x = Chunk c \<and> c \<noteq> [] \<and> newline_index c = None) pre" and "timeout < waiting pre"
  shows "read_bounded_telemetry_frame (pre @ rest) max_bytes timeout = Inl ReadTimedOut
     \<and> (\<forall>r out left r'. read_bounded_telemetry_frame r max_bytes timeout = Inr (out, left, r')
            \<longrightarrow> waiting r \<le> waiting r' + timeout)"
  using read_frame_times_out [OF assms] read_frame_waiting
  unfolding read_bounded_telemetry_frame_def by fastforce

theorem telemetry_frame_deadline_witness:
  "read_bounded_telemetry_frame ([(3000, Chunk [65]), (3000, Chunk [66])] @ [(0, Chunk [10])]) 100 5000
     = (Inl ReadTimedOut :: unit telemetry_error + telemetry_frame_read \<times> nat \<times> unit timed_reader)"
  by (rule telemetry_frame_deadline [THEN conjunct1]) simp_all

section \<open>A connection, line by line\<close>

text \<open>What becomes of one line: the event that is applied, if any.\<close>

definition accepted_event ::
    "(bytes \<Rightarrow> telemetry_event option) \<Rightarrow> verified_telemetry_peer \<Rightarrow> i64 \<Rightarrow> bytes \<Rightarrow> telemetry_event option" where
  "accepted_event from_json peer now line =
     (if length line > MAX_TELEMETRY_FRAME_BYTES then None
      else Option.bind (from_json (trim_newlines line))
             (\<lambda>ev. if telemetry_event_matches_peer now ev peer then Some ev else None))"

definition blank_line :: "bytes \<Rightarrow> bool" where
  "blank_line line \<longleftrightarrow> length line \<le> MAX_TELEMETRY_FRAME_BYTES \<and> trim_newlines line = []"

fun connection_spec ::
    "(nat \<Rightarrow> i64) \<Rightarrow> (bytes \<Rightarrow> telemetry_event option) \<Rightarrow> verified_telemetry_peer \<Rightarrow> nat \<Rightarrow> nat \<Rightarrow> bytes list
     \<Rightarrow> ('e telemetry_error + unit) \<times> (rstr \<times> telemetry_event) list" where
  "connection_spec clock from_json peer k invalid [] = (Inr (), [])"
| "connection_spec clock from_json peer k invalid (l # ls) =
     (if blank_line l then connection_spec clock from_json peer (Suc k) invalid ls
      else (case accepted_event from_json peer (clock k) l of
              None \<Rightarrow>
                if Suc invalid \<ge> MAX_INVALID_TELEMETRY_FRAMES then (Inl TooManyInvalidFrames, [])
                else connection_spec clock from_json peer (Suc k) (Suc invalid) ls
            | Some ev \<Rightarrow>
                (let (res, applied) = connection_spec clock from_json peer (Suc k) 0 ls
                 in (res, (instrumented_session_id (vp_pid peer) (vp_started_at_unix_ms peer),
                           rewrite_identity peer ev) # applied))))"

lemma telemetry_loop_lines:
  "clean_reader r \<Longrightarrow>
   telemetry_loop clock from_json peer k invalid seen (at_once r)
     = connection_spec clock from_json peer k invalid (physical_lines (content r))"
proof (induction "length (content r)" arbitrary: r k invalid seen rule: less_induct)
  case less
  let ?m = MAX_TELEMETRY_FRAME_BYTES
  obtain out line r' where r': "read_line_loop ?m [] r = Inr (out, line, r')"
    "to_outcome out line = fst (next_line ?m (content r))"
    "clean_reader r'" "content r' = snd (next_line ?m (content r))"
    using read_line_loop_spec [OF less.prems, of "[]" ?m] by auto
  have frame: "read_bounded_telemetry_frame (at_once r) ?m t = Inr (frame_of out line, t, at_once r')" for t
    by (simp add: read_bounded_telemetry_frame_def read_frame_at_once r'(1))
  show ?case
  proof (cases "content r = []")
    case True
    with r'(2) have "out = LineEof" by (cases out) auto
    with frame True show ?thesis by (subst telemetry_loop.simps) simp
  next
    case False
    have "next_line ?m (content r) = (to_outcome out line, content r')"
      using r'(2,4) by (metis prod.collapse)
    then obtain l where l: "l \<noteq> []" "content r = l @ content r'"
      "physical_lines (content r) = l # physical_lines (content r')"
      "to_outcome out line = (if length l \<le> ?m then WholeLine l else TooLong (length l))"
      by (rule next_line_physical [OF False])
    have "length (content r') < length (content r)" using l(1,2) by simp
    from less.hyps [OF this r'(3)]
    have IH: "telemetry_loop clock from_json peer k' inv' seen' (at_once r')
        = connection_spec clock from_json peer k' inv' (physical_lines (content r'))" for k' inv' seen' .
    show ?thesis
    proof (cases out)
      case LineRead
      with l(4) have line: "line = l" "length l \<le> ?m" "\<not> ?m < length l" by (auto split: if_splits)
      show ?thesis
        unfolding l(3) connection_spec.simps
        by (subst telemetry_loop.simps)
          (simp add: frame LineRead line IH Let_def blank_line_def accepted_event_def
            split: option.split)
    next
      case (LineOversized n)
      with l(4) have "\<not> length l \<le> ?m" by (auto split: if_splits)
      then show ?thesis
        unfolding l(3) connection_spec.simps
        by (subst telemetry_loop.simps)
          (simp add: frame LineOversized IH blank_line_def accepted_event_def)
    qed (use l(4) in \<open>auto split: if_splits\<close>)
  qed
qed

text \<open>
  C23: A telemetry connection refines the plain reading of its lines: whatever chunks the
  peer's bytes arrive in, its lines are judged one by one, each accepted one is applied in
  order and clears the count of invalid frames, blank lines count for nothing, and a line
  beyond the size limit counts as one invalid frame without touching the next.
\<close>
theorem telemetry_connection_spec:
  assumes "clean_reader r"
  shows "handle_telemetry_stream clock from_json (Value peer) (at_once r)
    = (let (res, applied) = connection_spec clock from_json peer 0 0 (physical_lines (content r))
       in (Some res, applied))"
  by (simp add: handle_telemetry_stream_def telemetry_loop_lines [OF assms])

end
