(* ===== verification/Discovery_Facts.thy ===== *)
theory Discovery_Facts
  imports Discovery
begin

text \<open>
  What discovery guarantees: the socket tables the kernel prints are read back as the
  addresses they stand for, only vetted executables count as Mosh servers, and the
  list of sessions is exactly that of the processes that qualify.
\<close>

section \<open>Kernel hexadecimal\<close>

definition kernel_hex :: "bytes \<Rightarrow> rstr" where
  "kernel_hex bs = concat (map upper_hex_byte bs)"

lemma kernel_hex_simps [simp]:
  "kernel_hex [] = []" "kernel_hex (b # bs) = upper_hex_byte b @ kernel_hex bs"
  by (simp_all add: kernel_hex_def)

lemma length_upper_hex_byte [simp]: "length (upper_hex_byte b) = 2"
  by (simp add: upper_hex_byte_def)

lemma length_kernel_hex [simp]: "length (kernel_hex bs) = 2 * length bs"
  by (induction bs) simp_all

lemma upper_hex_digit_range: "n < 16 \<Longrightarrow> 48 \<le> upper_hex_digit n \<and> upper_hex_digit n < 71 \<and> upper_hex_digit n \<noteq> 58"
  by (auto simp: upper_hex_digit_def)

lemma unat_u8_bound: "unat (b :: u8) < 256"
  using unsigned_less [of b, where ?'a = nat] by simp

lemma kernel_hex_chars: "c \<in> set (kernel_hex bs) \<Longrightarrow> c < 128 \<and> c \<noteq> 58"
proof (induction bs)
  case (Cons b bs)
  have "unat b div 16 < 16" "unat b mod 16 < 16" using unat_u8_bound [of b] by auto
  from upper_hex_digit_range [OF this(1)] upper_hex_digit_range [OF this(2)] Cons show ?case
    by (auto simp: upper_hex_byte_def)
qed simp

lemma at_byte_ascii: "\<forall>c \<in> set s. c < 128 \<Longrightarrow> n \<le> length s \<Longrightarrow> at_byte s n = Some n"
proof (induction s n rule: at_byte.induct)
  case (3 c s n)
  then show ?case by (auto simp: utf8_len_char_def)
qed auto

lemma byte_slice_ascii:
  "\<forall>c \<in> set s. c < 128 \<Longrightarrow> a \<le> b \<Longrightarrow> b \<le> length s \<Longrightarrow> byte_slice s a b = Some (take (b - a) (drop a s))"
  by (simp add: byte_slice_def at_byte_ascii)

lemma utf8_len_ascii: "\<forall>c \<in> set s. c < 128 \<Longrightarrow> utf8_len s = length s"
  unfolding utf8_len_def by (induction s) (auto simp: utf8_len_char_def)

lemma slice_kernel_hex:
  "j \<le> length bs \<Longrightarrow> i \<le> j \<Longrightarrow> byte_slice (kernel_hex bs) (2 * i) (2 * j) = Some (kernel_hex (take (j - i) (drop i bs)))"
proof -
  have drop: "drop (2 * i) (kernel_hex bs) = kernel_hex (drop i bs)" for i bs
  proof (induction bs arbitrary: i)
    case (Cons b bs)
    then show ?case by (cases i) (simp_all add: numeral_2_eq_2 upper_hex_byte_def)
  qed simp
  have take: "take (2 * i) (kernel_hex bs) = kernel_hex (take i bs)" for i bs
  proof (induction bs arbitrary: i)
    case (Cons b bs)
    then show ?case by (cases i) (simp_all add: numeral_2_eq_2 upper_hex_byte_def)
  qed simp
  assume "j \<le> length bs" "i \<le> j"
  then show ?thesis
    using kernel_hex_chars [of _ bs] take [of "j - i" "drop i bs"] drop [of i bs]
    by (subst byte_slice_ascii) (auto simp: diff_mult_distrib2)
qed

lemma decode_pairs_kernel_hex:
  "list_all (\<lambda>i. i < length bs) is \<Longrightarrow>
   decode_pairs (kernel_hex bs) (map (\<lambda>i. (2 * i, 2 * i + 2)) is) = Value (map (\<lambda>i. unat (bs ! i)) is)"
proof (induction "is")
  case (Cons i "is")
  then have i: "i < length bs" by simp
  then have "take 1 (drop i bs) = [bs ! i]" by (simp add: take_Suc hd_drop_conv_nth drop_eq_Nil)
  then have "byte_slice (kernel_hex bs) (2 * i) (2 * i + 2) = Some (upper_hex_byte (bs ! i))"
    using slice_kernel_hex [of "Suc i" bs i] i by simp
  with Cons show ?case by (simp add: from_hex_upper_byte)
qed simp

lemma four_indices:
  "list_all (\<lambda>i. i < length [a, b, c, d]) [0, 1, 2, 3]" "list_all (\<lambda>i. i < length [a, b, c, d]) [3, 2, 1, 0]"
  by simp_all

lemma decode_ipv4_kernel:
  "decode_ipv4 (kernel_hex [d, c, b, a]) = Value (dotted [unat a, unat b, unat c, unat d])"
proof -
  have "[(0, 2), (2, 4), (4, 6), (6, 8)] = map (\<lambda>i. (2 * i, 2 * i + 2)) [0, 1, 2, 3 :: nat]" by simp
  from decode_pairs_kernel_hex [OF four_indices(1), of d c b a, folded this]
  have "decode_pairs (kernel_hex [d, c, b, a]) [(0, 2), (2, 4), (4, 6), (6, 8)]
      = Value (map (\<lambda>i. unat ([d, c, b, a] ! i)) [0, 1, 2, 3])"
    .
  then show ?thesis unfolding decode_ipv4_def by simp
qed

lemma four_elements: "length w = 4 \<Longrightarrow> (\<And>a b c d. w = [a, b, c, d] \<Longrightarrow> thesis) \<Longrightarrow> thesis"
  by (auto simp: length_Suc_conv numeral_eq_Suc)

lemma decode_ipv6_word_kernel:
  assumes "4 * k + 4 \<le> length bs"
  shows "decode_ipv6_word (kernel_hex bs) k = Value (map unat (rev (take 4 (drop (4 * k) bs))))"
proof -
  let ?w = "take 4 (drop (4 * k) bs)"
  have "byte_slice (kernel_hex bs) (2 * (4 * k)) (2 * (4 * k + 4)) = Some (kernel_hex ?w)"
    using assms slice_kernel_hex [of "4 * k + 4" bs "4 * k"] by simp
  then have slice: "byte_slice (kernel_hex bs) (k * 8) (k * 8 + 8) = Some (kernel_hex ?w)"
    by (simp add: mult.commute)
  have "length ?w = 4" using assms by simp
  then obtain a b c d where w: "?w = [a, b, c, d]" by (rule four_elements)
  have "decode_pairs (kernel_hex ?w) [(6, 8), (4, 6), (2, 4), (0, 2)] = Value [unat d, unat c, unat b, unat a]"
  proof -
    have "[(6, 8), (4, 6), (2, 4), (0, 2)] = map (\<lambda>i. (2 * i, 2 * i + 2)) [3, 2, 1, 0 :: nat]" by simp
    from decode_pairs_kernel_hex [OF four_indices(2), of a b c d, folded this]
    have "decode_pairs (kernel_hex [a, b, c, d]) [(6, 8), (4, 6), (2, 4), (0, 2)]
        = Value (map (\<lambda>i. unat ([a, b, c, d] ! i)) [3, 2, 1, 0])"
    .
    then show ?thesis unfolding w by simp
  qed
  then show ?thesis unfolding decode_ipv6_word_def slice by (simp add: w)
qed

text \<open>Network order from the kernel's four-byte words, each printed in host (little-endian) order.\<close>

definition kernel_words :: "bytes \<Rightarrow> bytes" where
  "kernel_words a =
     rev (take 4 a) @ rev (take 4 (drop 4 a)) @ rev (take 4 (drop 8 a)) @ rev (take 4 (drop 12 a))"

definition kernel_port :: "u16 \<Rightarrow> rstr" where
  "kernel_port p = kernel_hex [of_nat (unat p div 256), of_nat (unat p mod 256)]"

definition kernel_endpoint :: "bytes \<Rightarrow> u16 \<Rightarrow> rstr" where
  "kernel_endpoint addr port = kernel_hex (kernel_words addr) @ [58] @ kernel_port port"

lemma from_hex_kernel_port: "from_hex 16 (kernel_port p) = Some (unat p)"
proof -
  have p: "unat p < 65536" using unsigned_less [of p, where ?'a = nat] by simp
  then have b: "unat (of_nat (unat p div 256) :: u8) = unat p div 256" "unat (of_nat (unat p mod 256) :: u8) = unat p mod 256"
    by (simp_all add: unat_small_byte less_mult_imp_div_less)
  have "hex_digits_value 0 (kernel_port p) = Some (unat p)"
    using hex_digits_value_upper_byte [of _ _ "[]"]
    by (simp add: kernel_port_def hex_digits_value_upper_byte b)
  moreover have "hd (kernel_port p) \<noteq> 43" "kernel_port p \<noteq> []"
    by (simp_all add: kernel_port_def upper_hex_byte_def upper_hex_not_plus)
  ultimately show ?thesis
    using p by (cases "kernel_port p") (auto simp: from_hex_def)
qed

lemma parse_kernel_endpoint:
  assumes "length (kernel_words addr) = 4 \<and> decode_ipv4 (kernel_hex (kernel_words addr)) = Value s
     \<or> length (kernel_words addr) = 16 \<and> decode_ipv6 (kernel_hex (kernel_words addr)) = Value s"
  shows "parse_local_endpoint (kernel_endpoint addr port) = Value \<lparr>us_bind_addr = s, us_udp_port = port\<rparr>"
proof -
  have "58 \<notin> set (kernel_hex (kernel_words addr))" using kernel_hex_chars by blast
  then have "split_once (kernel_endpoint addr port) 58 = Some (kernel_hex (kernel_words addr), kernel_port port)"
    by (simp add: kernel_endpoint_def split_once_append)
  moreover have "utf8_len (kernel_hex (kernel_words addr)) = 2 * length (kernel_words addr)"
    using kernel_hex_chars by (subst utf8_len_ascii) auto
  ultimately show ?thesis
    using assms by (auto simp: parse_local_endpoint_def from_hex_kernel_port)
qed

text \<open>
  C20: What the kernel prints in \<open>/proc/net/udp\<close> and \<open>/proc/net/udp6\<close> for a local
  address and port (each four-byte word of the address in little-endian order, two
  upper-case digits per byte) is read back as the address in its usual notation and
  the same port, for every address and port and without a panic.
\<close>
theorem kernel_endpoint_roundtrip:
  assumes "length addr = 4 \<or> length addr = 16"
  shows "parse_local_endpoint (kernel_endpoint addr port)
    = Value \<lparr>us_bind_addr = (if length addr = 4 then dotted (map unat addr) else show_ipv6 (map unat addr)),
             us_udp_port = port\<rparr>"
proof (cases "length addr = 4")
  case True
  then obtain a b c d where addr: "addr = [a, b, c, d]" by (rule four_elements)
  have w: "kernel_words addr = [d, c, b, a]" by (simp add: kernel_words_def addr)
  have "decode_ipv4 (kernel_hex (kernel_words addr)) = Value (dotted (map unat addr))"
    unfolding w decode_ipv4_kernel by (simp add: addr)
  moreover have "length (kernel_words addr) = 4" by (simp add: w)
  ultimately show ?thesis using True by (simp add: parse_kernel_endpoint)
next
  case False
  with assms have l: "length addr = 16" by simp
  then have len: "length (kernel_words addr) = 16" by (simp add: kernel_words_def)
  have word: "take 4 (drop (4 * k) (kernel_words addr)) = rev (take 4 (drop (4 * k) addr))"
    if "k \<in> {0, 1, 2, 3}" for k using that l by (auto simp: kernel_words_def)
  have cat: "take 4 addr @ take 4 (drop 4 addr) @ take 4 (drop 8 addr) @ take 4 (drop 12 addr) = addr"
    using l append_take_drop_id [of 4 addr] append_take_drop_id [of 4 "drop 4 addr"]
      append_take_drop_id [of 4 "drop 8 addr"] by (simp add: drop_drop)
  have "decode_ipv6 (kernel_hex (kernel_words addr)) = Value (show_ipv6 (map unat addr))"
    using len word [of 0] word [of 1] word [of 2] word [of 3]
      arg_cong [OF cat, of "map unat", unfolded map_append]
    by (simp add: decode_ipv6_def decode_ipv6_word_kernel rev_map)
  with l len show ?thesis by (simp add: parse_kernel_endpoint)
qed

theorem kernel_endpoint_roundtrip_witness:
  "parse_local_endpoint (kernel_endpoint [127, 0, 0, 1] 60001)
     = Value \<lparr>us_bind_addr = dotted [127, 0, 0, 1], us_udp_port = 60001\<rparr>"
  using kernel_endpoint_roundtrip [of "[127, 0, 0, 1]" 60001] by simp

section \<open>Vetted executables\<close>

lemma of_char_small: "(of_char c :: nat) < 256"
  using of_char_mod_256 [of c] mod_less_divisor [of 256 "of_char c :: nat"] by (metis zero_less_numeral)

lemma lit_scalar [simp]: "list_all is_scalar (lit s)"
proof (induction s)
  case (Cons c s)
  have "of_char c < (55296 :: nat)" by (rule less_trans [OF of_char_small]) simp
  with Cons show ?case by (simp add: lit_def is_scalar_def)
qed (simp add: lit_def)

definition server_real :: bytes where "server_real = utf8_encode (lit ''mosh-server-real'')"
definition server_stock :: bytes where "server_stock = utf8_encode (lit ''mosh-server'')"

lemma server_names:
  "components server_real = [Normal server_real]" "server_real \<noteq> []" "hd server_real \<noteq> 47"
  "from_utf8 server_real = Some (lit ''mosh-server-real'')" "from_utf8 server_stock = Some (lit ''mosh-server'')"
  "lit ''mosh-server'' \<noteq> lit ''mosh-server-real''"
proof -
  show "components server_real = [Normal server_real]" "server_real \<noteq> []" "hd server_real \<noteq> 47"
    "lit ''mosh-server'' \<noteq> lit ''mosh-server-real''" by code_simp+
qed (simp_all add: server_real_def server_stock_def from_utf8_encode)

lemma stock_paths:
  "path_of ''/usr/bin/mosh-server'' = [RootDir, Normal (utf8_encode (lit ''usr'')), Normal (utf8_encode (lit ''bin'')), Normal server_stock]"
  "path_of ''/usr/local/bin/mosh-server'' = [RootDir, Normal (utf8_encode (lit ''usr'')), Normal (utf8_encode (lit ''local'')),
      Normal (utf8_encode (lit ''bin'')), Normal server_stock]"
  "path_of ''/bin/mosh-server'' = [RootDir, Normal (utf8_encode (lit ''bin'')), Normal server_stock]"
  by code_simp+

text \<open>Paths whose last component is an ordinary name equal to the bytes of \<open>s\<close>.\<close>

lemma component_bytes_Normal: "component_bytes c = b \<Longrightarrow> b \<noteq> [47] \<Longrightarrow> b \<noteq> [46] \<Longrightarrow> b \<noteq> [46, 46] \<Longrightarrow> c = Normal b"
  by (cases c) (auto simp: component_bytes_def)

lemma stock_bytes: "server_stock \<noteq> [47]" "server_stock \<noteq> [46]" "server_stock \<noteq> [46, 46]"
  by code_simp+

lemma file_name_str_snoc: "file_name_str (d @ [Normal b]) = from_utf8 b"
  by (simp add: file_name_str_def file_name_def)

lemma stock_file_name:
  assumes "is_supported_stock_mosh_server_path p"
  shows "file_name_str p = Some (lit ''mosh-server'')"
proof -
  have "\<exists>d. p = d @ [Normal server_stock]"
    using assms unfolding is_supported_stock_mosh_server_path_def stock_paths
  proof (elim disjE)
    assume "is_nix_store_mosh_server_path p"
    then obtain a b c d e f where "p = [a, b, c, d, e, f]" "component_bytes f = server_stock"
      by (auto simp: is_nix_store_mosh_server_path_def server_stock_def split: list.splits)
    moreover from this(2) have "f = Normal server_stock" using stock_bytes by (rule component_bytes_Normal)
    ultimately have "p = [a, b, c, d, e] @ [Normal server_stock]" by simp
    then show ?thesis by blast
  next
    assume "p = [RootDir, Normal (utf8_encode (lit ''usr'')), Normal (utf8_encode (lit ''bin'')), Normal server_stock]"
    then show ?thesis
      by (intro exI [of _ "[RootDir, Normal (utf8_encode (lit ''usr'')), Normal (utf8_encode (lit ''bin''))]"]) simp
  next
    assume "p = [RootDir, Normal (utf8_encode (lit ''usr'')), Normal (utf8_encode (lit ''local'')),
      Normal (utf8_encode (lit ''bin'')), Normal server_stock]"
    then show ?thesis
      by (intro exI [of _ "[RootDir, Normal (utf8_encode (lit ''usr'')), Normal (utf8_encode (lit ''local'')),
        Normal (utf8_encode (lit ''bin''))]"]) simp
  next
    assume "p = [RootDir, Normal (utf8_encode (lit ''bin'')), Normal server_stock]"
    then show ?thesis by (intro exI [of _ "[RootDir, Normal (utf8_encode (lit ''bin''))]"]) simp
  qed
  then show ?thesis using server_names(5) by (auto simp: file_name_str_snoc)
qed

lemma expected_path: "parent daemon = Some dir \<Longrightarrow>
  expected_instrumented_server_path (Some daemon) = Some (dir @ [Normal server_real])"
  using server_names(1-3)
  by (simp add: expected_instrumented_server_path_def join_name_def flip: server_real_def)

lemma supported_iff:
  assumes "parent daemon = Some dir"
  shows "is_supported_mosh_server_path (Some daemon) p
     \<longleftrightarrow> p = dir @ [Normal server_real] \<or> is_supported_stock_mosh_server_path p"
proof -
  have "file_name_str (dir @ [Normal server_real]) = Some (lit ''mosh-server-real'')"
    using server_names(4) by (simp add: file_name_str_snoc)
  then show ?thesis
    using stock_file_name [of p] server_names(6) expected_path [OF assms]
    by (cases "file_name_str p")
      (auto simp: is_supported_mosh_server_path_def is_supported_mosh_server_exe_def)
qed

lemma normalize_deleted:
  assumes "list_all is_scalar n" and "components (utf8_encode n) = [Normal (utf8_encode n)]"
    and "utf8_encode n \<noteq> []" and "hd (utf8_encode n) \<noteq> 47"
  shows "normalize_proc_exe_path (d @ [Normal (utf8_encode (n @ lit '' (deleted)''))]) = d @ [Normal (utf8_encode n)]"
proof -
  have "from_utf8 (utf8_encode (n @ lit '' (deleted)'')) = Some (n @ lit '' (deleted)'')"
    using assms(1) by (intro from_utf8_encode) simp
  then show ?thesis
    using assms(2-4)
    by (simp add: normalize_proc_exe_path_def file_name_str_snoc with_file_name_def file_name_def join_name_def)
qed

text \<open>
  With the daemon installed in \<open>dir\<close>, an executable counts as a Mosh server exactly
  when its path is \<open>dir/mosh-server-real\<close>, one of the three stock locations, or a
  \<open>bin/mosh-server\<close> directly in a Nix store entry; a name alone never suffices.  The
  suffix that \<open>/proc\<close> shows after an in-place upgrade is stripped first.
\<close>
theorem vetted_executables:
  assumes "parent daemon = Some dir"
  shows "(is_supported_mosh_server_path (Some daemon) p \<longleftrightarrow>
       p = dir @ [Normal (utf8_encode (lit ''mosh-server-real''))]
       \<or> p = path_of ''/usr/bin/mosh-server'' \<or> p = path_of ''/usr/local/bin/mosh-server''
       \<or> p = path_of ''/bin/mosh-server'' \<or> is_nix_store_mosh_server_path p)
     \<and> \<not> is_supported_mosh_server_path None (dir @ [Normal (utf8_encode (lit ''mosh-server-real''))])
     \<and> normalize_proc_exe_path (d @ [Normal (utf8_encode (lit ''mosh-server-real'' @ lit '' (deleted)''))])
         = d @ [Normal (utf8_encode (lit ''mosh-server-real''))]"
proof (intro conjI)
  show "is_supported_mosh_server_path (Some daemon) p \<longleftrightarrow>
       p = dir @ [Normal (utf8_encode (lit ''mosh-server-real''))]
       \<or> p = path_of ''/usr/bin/mosh-server'' \<or> p = path_of ''/usr/local/bin/mosh-server''
       \<or> p = path_of ''/bin/mosh-server'' \<or> is_nix_store_mosh_server_path p"
    using supported_iff [OF assms, of p]
    by (simp only: server_real_def is_supported_stock_mosh_server_path_def)
  have "file_name_str (dir @ [Normal (utf8_encode (lit ''mosh-server-real''))]) = Some (lit ''mosh-server-real'')"
    using server_names(4) by (simp add: file_name_str_snoc server_real_def)
  then show "\<not> is_supported_mosh_server_path None (dir @ [Normal (utf8_encode (lit ''mosh-server-real''))])"
    by (simp add: is_supported_mosh_server_path_def expected_instrumented_server_path_def is_supported_mosh_server_exe_def)
  show "normalize_proc_exe_path (d @ [Normal (utf8_encode (lit ''mosh-server-real'' @ lit '' (deleted)''))])
         = d @ [Normal (utf8_encode (lit ''mosh-server-real''))]"
    using server_names(1-3) by (intro normalize_deleted) (simp_all add: server_real_def)
qed

theorem vetted_executables_witness:
  "is_supported_mosh_server_path (Some (path_of ''/opt/bin/moshwatchd'')) (path_of ''/opt/bin/mosh-server-real'')
   \<and> \<not> is_supported_mosh_server_path (Some (path_of ''/opt/bin/moshwatchd'')) (path_of ''/tmp/mosh-server'')"
proof -
  have dir: "parent (path_of ''/opt/bin/moshwatchd'') = Some (path_of ''/opt/bin'')" by code_simp
  have real: "path_of ''/opt/bin/mosh-server-real'' = path_of ''/opt/bin'' @ [Normal (utf8_encode (lit ''mosh-server-real''))]"
    by code_simp
  have "path_of ''/tmp/mosh-server'' \<noteq> path_of ''/opt/bin'' @ [Normal (utf8_encode (lit ''mosh-server-real''))]"
    "path_of ''/tmp/mosh-server'' \<noteq> path_of ''/usr/bin/mosh-server''"
    "path_of ''/tmp/mosh-server'' \<noteq> path_of ''/usr/local/bin/mosh-server''"
    "path_of ''/tmp/mosh-server'' \<noteq> path_of ''/bin/mosh-server''"
    "\<not> is_nix_store_mosh_server_path (path_of ''/tmp/mosh-server'')" by code_simp+
  with real show ?thesis
    using vetted_executables [OF dir, of "path_of ''/tmp/mosh-server''"]
      vetted_executables [OF dir, of "path_of ''/opt/bin/mosh-server-real''"] by blast
qed

section \<open>The list of sessions\<close>

definition session_of_process :: "i32 \<Rightarrow> process_metadata \<Rightarrow> udp_socket_info option \<Rightarrow> discovered_session" where
  "session_of_process pid m socket =
     \<lparr>ds_pid = pid, ds_started_at_unix_ms = pm_started_at_unix_ms m, ds_bind_addr = map_option us_bind_addr socket,
      ds_udp_port = map_option us_udp_port socket, ds_cmdline = pm_cmdline m\<rparr>"

lemma discover_entry_iff:
  "discover_entry fs cur sockets boot ticks name = Value (Some d) \<longleftrightarrow>
     (\<exists>pid m. Option.bind (from_utf8 name) parse_i32 = Some pid
        \<and> read_process_metadata_with_clock (pf_process fs pid) boot ticks = Value m
        \<and> is_supported_mosh_server_metadata cur m
        \<and> d = session_of_process pid m (read_process_socket (pf_process fs pid) sockets))"
  by (auto simp: discover_entry_def session_of_process_def Let_def split: option.splits attempt.splits if_splits)

lemma discover_entries_set:
  "discover_entries fs cur sockets boot ticks names = Value ds \<Longrightarrow>
   set ds = {d. \<exists>name \<in> set names. discover_entry fs cur sockets boot ticks name = Value (Some d)}"
proof (induction names arbitrary: ds)
  case (Cons n ns)
  then obtain found rest where f: "discover_entry fs cur sockets boot ticks n = Value found"
    "discover_entries fs cur sockets boot ticks ns = Value rest"
    "ds = (case found of Some d \<Rightarrow> d # rest | None \<Rightarrow> rest)"
    by (auto simp: bind_attempt_Value_iff)
  with Cons.IH [OF f(2)] show ?case by (cases found) auto
qed simp

text \<open>
  A discovery pass lists, in order of pid, exactly the processes whose metadata can be
  read and whose executable is vetted, each with its start time, its sanitized command
  line and the endpoint of its first descriptor that is a listed UDP socket.
\<close>
theorem discover_mosh_sessions_spec:
  assumes "discover_mosh_sessions fs cur = Value ds"
  shows "\<exists>sockets boot ticks entries.
       load_udp_sockets (pf_udp_tables fs) [] = Value sockets
     \<and> read_boot_time_seconds (pf_stat fs) = Some boot
     \<and> read_clock_ticks_per_second (pf_clock_ticks fs) = Some ticks \<and> pf_entries fs = Some entries
     \<and> sorted (map ds_pid ds)
     \<and> set ds = {session_of_process pid m (read_process_socket (pf_process fs pid) sockets) | pid m.
          (\<exists>name \<in> set entries. Option.bind (from_utf8 name) parse_i32 = Some pid)
          \<and> read_process_metadata_with_clock (pf_process fs pid) boot ticks = Value m
          \<and> is_supported_mosh_server_metadata cur m}"
proof -
  obtain sockets boot ticks entries found where
    parts: "load_udp_sockets (pf_udp_tables fs) [] = Value sockets"
      "read_boot_time_seconds (pf_stat fs) = Some boot"
      "read_clock_ticks_per_second (pf_clock_ticks fs) = Some ticks" "pf_entries fs = Some entries"
    and found: "discover_entries fs cur sockets boot ticks entries = Value found"
    and ds: "ds = sort_by (\<lambda>a b. cmp_of (ds_pid a) (ds_pid b)) found"
    using assms unfolding discover_mosh_sessions_def
    by (auto simp: bind_attempt_Value_iff attempt_of_def split: option.splits)
  have "sorted_wrt (\<lambda>a b. cmp_of (ds_pid a) (ds_pid b) \<noteq> Greater) ds"
    unfolding ds using rust_ord.sorted_sort_by [OF rust_ord_cmp_of [of ds_pid "\<lambda>x. True"], of found] by simp
  then have "sorted (map ds_pid ds)"
    unfolding sorted_map by (rule sorted_wrt_mono_rel [rotated]) (simp add: not_less)
  moreover have "set ds = {session_of_process pid m (read_process_socket (pf_process fs pid) sockets) | pid m.
          (\<exists>name \<in> set entries. Option.bind (from_utf8 name) parse_i32 = Some pid)
          \<and> read_process_metadata_with_clock (pf_process fs pid) boot ticks = Value m
          \<and> is_supported_mosh_server_metadata cur m}"
    unfolding ds set_sort_by discover_entries_set [OF found] discover_entry_iff by blast
  ultimately show ?thesis using parts by blast
qed

text \<open>A host with one stock server, process 7, bound to port 60001.\<close>

definition example_proc :: proc_fs where
  "example_proc =
     \<lparr>pf_entries = Some [utf8_encode (lit ''self''), utf8_encode (lit ''7'')],
      pf_process = (\<lambda>pid. \<lparr>pv_exe = Some (utf8_encode (lit ''/usr/bin/mosh-server'')),
         pv_stat = Some (lit ''7 (m) S 1 2 3 4 5 6 7 8 9 0 1 2 3 4 5 6 7 8 500 0''),
         pv_cmdline = Some [], pv_comm = Some (lit ''mosh''),
         pv_fds = Some [None, Some (utf8_encode (lit ''socket:[42]''))]\<rparr>),
      pf_udp_tables = [Some (lit ''h''), Some (lit ''h'')],
      pf_stat = Some (lit ''btime 1000''), pf_clock_ticks = 100\<rparr>"

lemma example_proc_parts:
  "read_exe_path (pf_process example_proc pid) = Some (path_of ''/usr/bin/mosh-server'')"
  "read_started_at_unix_ms (pv_stat (pf_process example_proc pid)) 1000 100 = Value 1005000"
  "read_cmdline (pf_process example_proc pid) = Some (trim (lit ''mosh''))"
  "read_boot_time_seconds (pf_stat example_proc) = Some 1000"
  "read_clock_ticks_per_second (pf_clock_ticks example_proc) = Some 100"
  "load_udp_sockets (pf_udp_tables example_proc) [] = Value []"
  "Option.bind (from_utf8 (utf8_encode (lit ''self''))) parse_i32 = None"
  "Option.bind (from_utf8 (utf8_encode (lit ''7''))) parse_i32 = Some 7"
proof -
  show "read_exe_path (pf_process example_proc pid) = Some (path_of ''/usr/bin/mosh-server'')"
    unfolding example_proc_def by code_simp
  show "read_started_at_unix_ms (pv_stat (pf_process example_proc pid)) 1000 100 = Value 1005000"
    by (simp add: example_proc_def read_started_at_unix_ms_def rsplit_once_def lit_def split_whitespace_code
        is_whitespace_def parse_unsigned_def parse_digits_def is_digit_def digits_value_def u64_as_i64_def wrap_i64_def)
  show "read_cmdline (pf_process example_proc pid) = Some (trim (lit ''mosh''))"
    by (simp add: example_proc_def read_cmdline_def Let_def)
  show "read_boot_time_seconds (pf_stat example_proc) = Some 1000"
    by (simp add: example_proc_def read_boot_time_seconds_def text_lines_def lit_def strip_prefix_def starts_with_def
        trim_def trim_start_def trim_end_def is_whitespace_def parse_i64_def parse_digits_def is_digit_def
        digits_value_def in_i64_def i64_min_def i64_max_def)
  show "read_clock_ticks_per_second (pf_clock_ticks example_proc) = Some 100"
    by (simp add: example_proc_def read_clock_ticks_per_second_def i64_as_u64_def)
  show "load_udp_sockets (pf_udp_tables example_proc) [] = Value []"
    by (simp add: example_proc_def text_lines_def lit_def)
  have "from_utf8 (utf8_encode (lit s)) = Some (lit s)" for s by (rule from_utf8_encode) simp
  then have dec: "Option.bind (from_utf8 (utf8_encode (lit s))) parse_i32 = parse_i32 (lit s)" for s by simp
  show "Option.bind (from_utf8 (utf8_encode (lit ''self''))) parse_i32 = None"
    "Option.bind (from_utf8 (utf8_encode (lit ''7''))) parse_i32 = Some 7"
    unfolding dec by (simp_all add: lit_def parse_i32_def parse_i64_def parse_digits_def is_digit_def digits_value_def
        in_i64_def i64_min_def i64_max_def)
qed

lemma example_proc_run:
  "\<exists>d. discover_mosh_sessions example_proc None = Value [d] \<and> ds_pid d = 7"
proof -
  have path: "path_of ''/usr/bin/mosh-server'' = [RootDir, Normal (utf8_encode (lit ''usr'')), Normal (utf8_encode (lit ''bin''))]
      @ [Normal server_stock]" by (simp add: stock_paths)
  have name: "file_name_str (path_of ''/usr/bin/mosh-server'') = Some (lit ''mosh-server'')"
    unfolding path file_name_str_snoc by (rule server_names)
  have "is_supported_mosh_server_path None (path_of ''/usr/bin/mosh-server'')"
    using name server_names(6)
    by (simp add: is_supported_mosh_server_path_def is_supported_mosh_server_exe_def is_supported_stock_mosh_server_path_def)
  moreover have "lit ''mosh-server'' \<noteq> []" by (simp add: lit_def)
  ultimately obtain m where m: "read_process_metadata_with_clock (pf_process example_proc 7) 1000 100 = Value m"
    "is_supported_mosh_server_metadata None m"
    using name by (simp add: read_process_metadata_with_clock_def example_proc_parts opt_filter_def
        is_supported_mosh_server_metadata_def)
  have "pf_entries example_proc = Some [utf8_encode (lit ''self''), utf8_encode (lit ''7'')]"
    by (simp add: example_proc_def)
  then show ?thesis
    using m by (simp add: discover_mosh_sessions_def example_proc_parts discover_entry_def Let_def)
qed

theorem discover_mosh_sessions_spec_witness:
  "\<exists>ds sockets boot ticks entries. discover_mosh_sessions example_proc None = Value ds
     \<and> map ds_pid ds = [7] \<and> read_boot_time_seconds (pf_stat example_proc) = Some boot \<and> sorted (map ds_pid ds)
     \<and> set ds = {session_of_process pid m (read_process_socket (pf_process example_proc pid) sockets) | pid m.
          (\<exists>name \<in> set entries. Option.bind (from_utf8 name) parse_i32 = Some pid)
          \<and> read_process_metadata_with_clock (pf_process example_proc pid) boot ticks = Value m
          \<and> is_supported_mosh_server_metadata None m}"
proof -
  obtain d where d: "discover_mosh_sessions example_proc None = Value [d]" "ds_pid d = 7"
    using example_proc_run by blast
  then have "map ds_pid [d] = [7]" by simp
  with discover_mosh_sessions_spec [OF d(1)] d(1) show ?thesis
    by (elim exE conjE) (intro exI conjI)
qed

end
