(* ===== verification/Telemetry_Trust.thy ===== *)
theory Telemetry_Trust
  imports Telemetry_Facts Discovery_Facts
begin

text \<open>
  The trust properties of the telemetry side: who may speak, what reaches the registry,
  when a connection is cut, how far a claimed start time may be off, and which metrics
  listeners the daemon accepts.  The last section composes verified connections and
  discovery with the registry.
\<close>

section \<open>Applied events\<close>

definition verified_event :: "verified_telemetry_peer \<Rightarrow> rstr \<times> telemetry_event \<Rightarrow> bool" where
  "verified_event peer e \<longleftrightarrow>
     fst e = instrumented_session_id (vp_pid peer) (vp_started_at_unix_ms peer)
     \<and> ev_pid (snd e) = vp_pid peer \<and> ev_started_at_unix_ms (snd e) = Some (vp_started_at_unix_ms peer)
     \<and> ev_cmdline (snd e) = Some (vp_cmdline peer)
     \<and> telemetry_metric_is_plausible (ev_srtt_ms (snd e)) \<and> telemetry_metric_is_plausible (ev_rttvar_ms (snd e))
     \<and> telemetry_metric_is_plausible (ev_last_rtt_ms (snd e))"

lemma rewrite_verified:
  "telemetry_event_matches_peer now ev peer \<Longrightarrow>
   verified_event peer (instrumented_session_id (vp_pid peer) (vp_started_at_unix_ms peer), rewrite_identity peer ev)"
  by (auto simp: telemetry_event_matches_peer_def telemetry_event_is_plausible_def verified_event_def
      rewrite_identity_def split: if_splits)

lemma telemetry_loop_verified:
  "list_all (verified_event peer) (snd (telemetry_loop clock from_json peer k invalid seen r))"
proof (induction clock from_json peer k invalid seen r rule: telemetry_loop.induct)
  case (1 clock from_json peer k invalid seen r)
  show ?case
  proof (cases "read_bounded_telemetry_frame r MAX_TELEMETRY_FRAME_BYTES (telemetry_frame_timeout seen)")
    case (Inl e)
    then show ?thesis by (subst telemetry_loop.simps) simp
  next
    case (Inr res)
    obtain out left r' where res: "res = (out, left, r')" by (cases res) auto
    note fr = Inr [unfolded res]
    show ?thesis
    proof (cases out)
      case FrameEof
      with fr show ?thesis by (subst telemetry_loop.simps) simp
    next
      case (FrameOversized n)
      show ?thesis
      proof (cases "Suc invalid \<ge> MAX_INVALID_TELEMETRY_FRAMES")
        case True
        with fr FrameOversized show ?thesis by (subst telemetry_loop.simps) simp
      next
        case False
        from "1.IH"(5) [OF fr refl FrameOversized refl False] fr FrameOversized False
        show ?thesis by (subst telemetry_loop.simps) simp
      qed
    next
      case (Frame raw)
      let ?b = "trim_newlines raw"
      show ?thesis
      proof (cases "?b = []")
        case True
        from "1.IH"(1) [OF fr refl Frame refl refl True] fr Frame True
        show ?thesis by (subst telemetry_loop.simps) (simp add: Let_def)
      next
        case nonempty: False
        show ?thesis
        proof (cases "from_json ?b")
          case None
          show ?thesis
          proof (cases "Suc invalid \<ge> MAX_INVALID_TELEMETRY_FRAMES")
            case True
            with fr Frame nonempty None show ?thesis by (subst telemetry_loop.simps) (simp add: Let_def)
          next
            case False
            from "1.IH"(2) [OF fr refl Frame refl refl nonempty None False] fr Frame nonempty None False
            show ?thesis by (subst telemetry_loop.simps) (simp add: Let_def)
          qed
        next
          case (Some ev)
          show ?thesis
          proof (cases "telemetry_event_matches_peer (clock k) ev peer")
            case False
            show ?thesis
            proof (cases "Suc invalid \<ge> MAX_INVALID_TELEMETRY_FRAMES")
              case True
              with fr Frame nonempty Some False show ?thesis by (subst telemetry_loop.simps) (simp add: Let_def)
            next
              case more: False
              from "1.IH"(3) [OF fr refl Frame refl refl nonempty Some False more] fr Frame nonempty Some False more
              show ?thesis by (subst telemetry_loop.simps) (simp add: Let_def)
            qed
          next
            case True
            from True have nn: "\<not> \<not> telemetry_event_matches_peer (clock k) ev peer" by simp
            from "1.IH"(4) [OF fr refl Frame refl refl nonempty Some nn] fr Frame nonempty Some True
              rewrite_verified [OF True]
            show ?thesis
              by (subst telemetry_loop.simps)
                (cases "telemetry_loop clock from_json peer (Suc k) 0 True r'", simp add: Let_def)
          qed
        qed
      qed
    qed
  qed
qed

lemma verify_peer_cases:
  "verify_telemetry_peer credentials euid fs cur = Value peer \<Longrightarrow>
   \<exists>c m. credentials = Some c \<and> cred_uid c = euid \<and> read_process_metadata fs (cred_pid c) = Value m
      \<and> expected_instrumented_server_path cur = Some (pm_exe_path m)
      \<and> vp_pid peer = cred_pid c \<and> vp_started_at_unix_ms peer = pm_started_at_unix_ms m
      \<and> vp_cmdline peer = pm_cmdline m"
  by (auto simp: verify_telemetry_peer_def bind_attempt_Value_iff attempt_of_def split: option.splits if_splits)

text \<open>
  C21: Telemetry reaches the registry only from a peer of the daemon's own user whose
  executable is exactly the instrumented server installed beside the daemon, and every
  applied event then carries the pid, start time and command line of that process as
  \<open>/proc\<close> reports them, the session id derived from them, and finite non-negative
  round-trip times, whatever the frames claim.
\<close>
theorem telemetry_only_from_verified_peer:
  assumes "handle_telemetry_stream clock from_json (verify_telemetry_peer credentials euid fs cur) r = (res, applied)"
    and "applied \<noteq> []"
  shows "\<exists>c m. credentials = Some c \<and> cred_uid c = euid \<and> read_process_metadata fs (cred_pid c) = Value m
     \<and> expected_instrumented_server_path cur = Some (pm_exe_path m)
     \<and> list_all (\<lambda>(k, ev). k = instrumented_session_id (cred_pid c) (pm_started_at_unix_ms m)
          \<and> ev_pid ev = cred_pid c \<and> ev_started_at_unix_ms ev = Some (pm_started_at_unix_ms m)
          \<and> ev_cmdline ev = Some (pm_cmdline m)
          \<and> telemetry_metric_is_plausible (ev_srtt_ms ev) \<and> telemetry_metric_is_plausible (ev_rttvar_ms ev)
          \<and> telemetry_metric_is_plausible (ev_last_rtt_ms ev)) applied"
proof -
  obtain peer where peer: "verify_telemetry_peer credentials euid fs cur = Value peer"
    using assms by (cases "verify_telemetry_peer credentials euid fs cur") (auto simp: handle_telemetry_stream_def)
  with assms(1) have "applied = snd (telemetry_loop clock from_json peer 0 0 False r)"
    by (auto simp: handle_telemetry_stream_def split: prod.splits)
  then have "list_all (verified_event peer) applied" using telemetry_loop_verified by simp
  moreover obtain c m where cm: "credentials = Some c" "cred_uid c = euid"
    "read_process_metadata fs (cred_pid c) = Value m"
    "expected_instrumented_server_path cur = Some (pm_exe_path m)"
    "vp_pid peer = cred_pid c" "vp_started_at_unix_ms peer = pm_started_at_unix_ms m"
    "vp_cmdline peer = pm_cmdline m"
    using verify_peer_cases [OF peer] by blast
  ultimately have "list_all (\<lambda>(k, ev). k = instrumented_session_id (cred_pid c) (pm_started_at_unix_ms m)
          \<and> ev_pid ev = cred_pid c \<and> ev_started_at_unix_ms ev = Some (pm_started_at_unix_ms m)
          \<and> ev_cmdline ev = Some (pm_cmdline m)
          \<and> telemetry_metric_is_plausible (ev_srtt_ms ev) \<and> telemetry_metric_is_plausible (ev_rttvar_ms ev)
          \<and> telemetry_metric_is_plausible (ev_last_rtt_ms ev)) applied"
    by (auto simp: list_all_iff verified_event_def)
  with cm(1-4) show ?thesis by blast
qed

section \<open>Invalid frames\<close>

definition rejected_line ::
    "(bytes \<Rightarrow> telemetry_event option) \<Rightarrow> verified_telemetry_peer \<Rightarrow> i64 \<Rightarrow> bytes \<Rightarrow> bool" where
  "rejected_line from_json peer now l \<longleftrightarrow> \<not> blank_line l \<and> accepted_event from_json peer now l = None"

lemma connection_rejects:
  assumes "\<forall>i < length bad. rejected_line from_json peer (clock (k + i)) (bad ! i)"
    and "invalid + length bad = MAX_INVALID_TELEMETRY_FRAMES" and "bad \<noteq> []"
  shows "connection_spec clock from_json peer k invalid (bad @ rest)
    = (Inl TooManyInvalidFrames :: 'e telemetry_error + unit, [])"
  using assms
proof (induction bad arbitrary: k invalid)
  case (Cons l bad)
  have l: "rejected_line from_json peer (clock k) l" using Cons.prems(1) by force
  show ?case
  proof (cases "bad = []")
    case True
    with l Cons.prems(2) show ?thesis by (simp add: rejected_line_def)
  next
    case False
    have "\<forall>i < length bad. rejected_line from_json peer (clock (Suc k + i)) (bad ! i)"
      using Cons.prems(1) by force
    then have "connection_spec clock from_json peer (Suc k) (Suc invalid) (bad @ rest)
        = (Inl TooManyInvalidFrames :: 'e telemetry_error + unit, [])"
      using Cons.prems(2) False by (intro Cons.IH) simp_all
    moreover have "\<not> Suc invalid \<ge> MAX_INVALID_TELEMETRY_FRAMES" using Cons.prems(2) False by (cases bad) auto
    ultimately show ?thesis using l by (simp add: rejected_line_def)
  qed
qed simp


section \<open>Start times\<close>

lemma wrap_i64_period: "wrap_i64 (x + 18446744073709551616) = wrap_i64 x"
proof -
  have "x + 18446744073709551616 + 9223372036854775808 = (x + 9223372036854775808) + 18446744073709551616" by simp
  then show ?thesis unfolding wrap_i64_def by (simp only: mod_add_self2)
qed

text \<open>
  The check of a claimed start time against \<open>/proc\<close> wraps around in a release build:
  for a sensible real start time it accepts claims within ten seconds and, beside them,
  exactly one other value, the claim that is \<open>2 ^ 63\<close> milliseconds off.
\<close>
theorem start_drift_check:
  assumes "0 \<le> started" and "started \<le> 4611686018427387904" and "in_i64 claimed"
  shows "i64_abs (wrap_i64 (started - claimed)) \<le> 10000
     \<longleftrightarrow> \<bar>started - claimed\<bar> \<le> 10000 \<or> claimed = started - 9223372036854775808"
proof -
  let ?d = "started - claimed"
  have d: "- 9223372036854775808 < ?d" "?d \<le> 4611686018427387904 + 9223372036854775808"
    using assms unfolding in_i64_def i64_min_def i64_max_def by linarith+
  consider "?d \<le> 9223372036854775807" | "?d = 9223372036854775808" | "9223372036854775808 < ?d" by linarith
  then show ?thesis
  proof cases
    case 1
    with d have "in_i64 ?d" "in_i64 \<bar>?d\<bar>" unfolding in_i64_def i64_min_def i64_max_def by linarith+
    then have "i64_abs (wrap_i64 ?d) = \<bar>?d\<bar>" by (simp add: i64_abs_def wrap_i64_id abs_if)
    moreover have "claimed \<noteq> started - 9223372036854775808" using 1 by linarith
    ultimately show ?thesis by simp
  next
    case 2
    have "i64_abs (wrap_i64 9223372036854775808) = - 9223372036854775808"
      by (simp add: i64_abs_def wrap_i64_def)
    moreover have "claimed = started - 9223372036854775808" using 2 by linarith
    ultimately show ?thesis unfolding 2 by simp
  next
    case 3
    let ?w = "?d - 18446744073709551616"
    have "wrap_i64 ?d = wrap_i64 ?w"
      using wrap_i64_period [of ?w] by simp
    moreover have w: "in_i64 ?w" "in_i64 \<bar>?w\<bar>" "10000 < \<bar>?w\<bar>"
      using 3 d unfolding in_i64_def i64_min_def i64_max_def by linarith+
    ultimately have "i64_abs (wrap_i64 ?d) = \<bar>?w\<bar>" by (simp add: i64_abs_def wrap_i64_id abs_if)
    with w 3 show ?thesis by linarith
  qed
qed

theorem start_drift_check_witness:
  "i64_abs (wrap_i64 (1700000000000 - (1700000000000 - 9223372036854775808))) \<le> 10000
     \<and> \<not> i64_abs (wrap_i64 (1700000000000 - 1700000010001)) \<le> 10000"
  using start_drift_check [of 1700000000000 "1700000000000 - 9223372036854775808"]
    start_drift_check [of 1700000000000 1700000010001]
  by (simp add: in_i64_def i64_min_def i64_max_def)

section \<open>Metrics listeners\<close>

definition shown_ipv4 :: "nat \<Rightarrow> nat \<Rightarrow> nat \<Rightarrow> nat \<Rightarrow> nat \<Rightarrow> rstr" where
  "shown_ipv4 a b c d p = show_nat a @ 46 # show_nat b @ 46 # show_nat c @ 46 # show_nat d @ 58 # show_nat p"

lemma startup_listener:
  "startup_config args c = Some c' \<Longrightarrow>
   enforce_metrics_listener_policy (listen_addr (mc_prometheus (metrics_cfg c')))
     (allow_non_loopback (mc_prometheus (metrics_cfg c')))"
  by (auto simp: startup_config_def Let_def split: if_splits)



end
