(* ===== verification/Daemon.thy ===== *)
theory Daemon
  imports Telemetry_Trust Registry_Lifecycle
begin

text \<open>
  The daemon put together: the registry as verified telemetry connections and discovery
  passes change it, in any interleaving, and the snapshot publisher of \<open>main.rs\<close>.
\<close>

section \<open>Registries that the daemon can reach\<close>

text \<open>
  Each step is one write-locked section: one event that some connection applies, or one
  discovery pass.  Connections, clocks, decoders and \<open>/proc\<close> are arbitrary at each step.
\<close>

inductive daemon_reachable :: "app_config \<Rightarrow> service_state \<Rightarrow> bool" for c where
  daemon_start: "daemon_reachable c (new_state c)"
| daemon_telemetry: "daemon_reachable c st \<Longrightarrow>
    handle_telemetry_stream clock from_json (verify_telemetry_peer credentials euid fs cur) (r :: unit timed_reader)
      = (res, applied) \<Longrightarrow>
    (k, ev) \<in> set applied \<Longrightarrow> daemon_reachable c (apply_telemetry st k ev now)"
| daemon_discovery: "daemon_reachable c st \<Longrightarrow> discover_mosh_sessions fs cur = Value ds \<Longrightarrow>
    daemon_reachable c (refresh_discovery st ds now)"

lemma daemon_reachable_reachable: "daemon_reachable c st \<Longrightarrow> reachable c st"
  by (induction rule: daemon_reachable.induct) (auto simp: apply_telemetry_def intro: reachable_ops)

section \<open>Identities\<close>

definition identity_ok :: "rstr \<Rightarrow> session_record \<Rightarrow> bool" where
  "identity_ok k r \<longleftrightarrow>
     (let s = sr_summary r in
      k = (if ss_kind s = Instrumented then instrumented_session_id (ss_pid s) (ss_started_at_unix_ms s)
           else legacy_session_id (ss_pid s) (ss_started_at_unix_ms s))
      \<and> telemetry_metric_is_plausible (sm_srtt_ms (ss_metrics s)))"

lemma session_kind_cases: "kind \<noteq> Instrumented \<longleftrightarrow> kind = LegacyKind"
  by (cases kind) simp_all

text \<open>An invariant of all entries that any updated record satisfies is kept by the writers.\<close>

lemma store_record_entries:
  "entries_ok P m \<Longrightarrow> P k r \<Longrightarrow> entries_ok P (st_sessions (store_record st k r m))"
  by (simp add: store_record_def enforce_session_cap_sessions enforce_loop_entries entries_intros)

lemma apply_telemetry_entries:
  assumes "entries_ok P (st_sessions st)" and "\<And>r. P k (apply_event (st_config st) k ev received r)"
  shows "entries_ok P (st_sessions (apply_telemetry_at st k ev received))"
proof (cases rule: telemetry_cases [where st = st and k = k and ev = ev and received = received])
  case (known r)
  with assms show ?thesis by (simp add: apply_telemetry_known store_record_entries)
next
  case (upgrade r)
  with assms show ?thesis by (simp add: apply_telemetry_upgrade store_record_entries entries_intros)
next
  case new
  with assms show ?thesis by (simp add: apply_telemetry_new store_record_entries)
qed

lemma refresh_discovery_entries:
  assumes "entries_ok P (st_sessions st)"
    and "\<And>ms d. entries_ok P (fst ms) \<Longrightarrow> entries_ok P (fst (note_discovered (thresholds (st_config st)) now d ms))"
  shows "entries_ok P (st_sessions (refresh_discovery st ds now))"
proof -
  have "entries_ok P (fst (fold (note_discovered (thresholds (st_config st)) now) ds ms))"
    if "entries_ok P (fst ms)" for ms
    using that by (induction ds arbitrary: ms) (simp_all add: assms(2))
  then have "entries_ok P (fst (fold (note_discovered (thresholds (st_config st)) now) ds (st_sessions st, [])))"
    using assms(1) by simp
  then show ?thesis
    by (simp add: refresh_discovery_eq Let_def enforce_session_cap_sessions enforce_loop_entries entries_intros)
qed

lemma verified_event_identity:
  assumes "k = instrumented_session_id (ev_pid ev) started" and "ev_started_at_unix_ms ev = Some started"
    and "telemetry_metric_is_plausible (ev_srtt_ms ev)"
  shows "identity_ok k (apply_event c k ev received r)"
  using assms
  by (simp add: identity_ok_def apply_event_def Let_def event_started_at_def unwrap_or_def
      record_sample_def set_windows_def merge_metrics_def)

lemma merge_discovered_identity:
  assumes "identity_ok k r" and "k = discovered_id m d"
  shows "identity_ok k (merge_discovered t d now r)"
proof (cases "ss_kind (sr_summary r) = Instrumented")
  case True
  then have "k = instrumented_session_id (ss_pid (sr_summary r)) (ss_started_at_unix_ms (sr_summary r))"
    using assms(1) by (simp add: identity_ok_def Let_def)
  then have "ss_pid (sr_summary r) = ds_pid d"
    using assms(2) by (auto simp: discovered_id_def Let_def split: if_splits)
  with True assms(1) show ?thesis by (simp add: identity_ok_def merge_discovered_def Let_def)
next
  case False
  then have "ss_kind (sr_summary r) = LegacyKind" by (simp add: session_kind_cases)
  moreover from this have "k = legacy_session_id (ss_pid (sr_summary r)) (ss_started_at_unix_ms (sr_summary r))"
    using assms(1) by (simp add: identity_ok_def Let_def)
  moreover from this have "k = legacy_session_id (ds_pid d) (ds_started_at_unix_ms d)"
    using assms(2) by (auto simp: discovered_id_def Let_def split: if_splits)
  ultimately show ?thesis using assms(1) by (simp add: identity_ok_def merge_discovered_def Let_def)
qed

lemma note_discovered_identity:
  assumes "entries_ok identity_ok (fst ms)"
  shows "entries_ok identity_ok (fst (note_discovered t now d ms))"
proof -
  obtain m seen where ms: "ms = (m, seen)" by (cases ms)
  let ?k = "discovered_id m d"
  have "identity_ok ?k (merge_discovered t d now
      (case map_of m ?k of Some r \<Rightarrow> r | None \<Rightarrow> fresh_legacy_record ?k d now))"
  proof (cases "map_of m ?k")
    case None
    then have "?k = legacy_session_id (ds_pid d) (ds_started_at_unix_ms d)"
      by (auto simp: discovered_id_def contains_key_def Let_def split: if_splits)
    then have "identity_ok ?k (fresh_legacy_record ?k d now)"
      by (simp add: identity_ok_def fresh_legacy_record_def Let_def default_metrics_def
          telemetry_metric_is_plausible_def)
    with None show ?thesis by (simp add: merge_discovered_identity [OF _ refl])
  next
    case (Some r)
    with assms ms have "identity_ok ?k r" by (auto dest: entries_okD)
    with Some show ?thesis by (simp add: merge_discovered_identity [OF _ refl])
  qed
  with assms ms show ?thesis by (simp add: Let_def entries_intros)
qed

section \<open>No process twice\<close>

definition twin_free :: "sessions_map \<Rightarrow> bool" where
  "twin_free m \<longleftrightarrow>
     (\<forall>p t. contains_key m (instrumented_session_id p t) \<longrightarrow> \<not> contains_key m (legacy_session_id p t))"

lemma contains_key_iff: "contains_key m k \<longleftrightarrow> k \<in> fst ` set m"
  by (simp add: contains_key_def map_of_eq_None_iff)

lemma twin_free_subset: "twin_free m \<Longrightarrow> set m' \<subseteq> set m \<Longrightarrow> twin_free m'"
  unfolding twin_free_def contains_key_iff by blast

lemma contains_key_update: "contains_key (AList.update k r m) x \<longleftrightarrow> x = k \<or> contains_key m x"
  by (simp add: contains_key_def update_conv')

lemma contains_key_delete: "contains_key (AList.delete k m) x \<longleftrightarrow> x \<noteq> k \<and> contains_key m x"
  by (simp add: contains_key_def delete_conv')

lemma store_record_twin_free:
  "twin_free (AList.update k r m) \<Longrightarrow> twin_free (st_sessions (store_record st k r m))"
  unfolding store_record_def enforce_session_cap_sessions
  by (erule twin_free_subset) (use enforce_loop_subset in force)

lemma apply_telemetry_twin_free:
  assumes "twin_free (st_sessions st)" and "k = instrumented_session_id (ev_pid ev) (event_started_at ev received)"
  shows "twin_free (st_sessions (apply_telemetry_at st k ev received))"
proof (cases rule: telemetry_cases [where st = st and k = k and ev = ev and received = received])
  case (known r)
  with assms have "twin_free (AList.update k (apply_event (st_config st) k ev received r) (st_sessions st))"
    by (auto simp: twin_free_def contains_key_update) (simp add: contains_key_def)
  with known show ?thesis by (simp add: apply_telemetry_known store_record_twin_free)
next
  case (upgrade r)
  from assms have "twin_free (AList.update k (apply_event (st_config st) k ev received (promote k r))
      (AList.delete (telemetry_legacy_id ev received) (st_sessions st)))"
    by (auto simp: twin_free_def contains_key_update contains_key_delete telemetry_legacy_id_def)
  with upgrade show ?thesis by (simp add: apply_telemetry_upgrade store_record_twin_free)
next
  case new
  then have "\<not> contains_key (st_sessions st) (telemetry_legacy_id ev received)"
    using assms(2) by (auto simp: contains_key_def telemetry_legacy_id_def)
  with assms have "twin_free (AList.update k (apply_event (st_config st) k ev received
      (fresh_instrumented_record k ev received)) (st_sessions st))"
    by (auto simp: twin_free_def contains_key_update telemetry_legacy_id_def)
  with new assms(1) show ?thesis by (simp add: apply_telemetry_new store_record_twin_free)
qed

lemma note_discovered_twin_free:
  assumes "twin_free (fst ms)"
  shows "twin_free (fst (note_discovered t now d ms))"
proof -
  obtain m seen where ms: "ms = (m, seen)" by (cases ms)
  have "twin_free (AList.update (discovered_id m d) r m)" for r
    using assms ms by (auto simp: twin_free_def contains_key_update discovered_id_def Let_def split: if_splits)
  with ms show ?thesis by (simp add: Let_def)
qed

lemma fold_note_discovered_twin_free:
  "twin_free (fst ms) \<Longrightarrow> twin_free (fst (fold (note_discovered t now) ds ms))"
  by (induction ds arbitrary: ms) (simp_all add: note_discovered_twin_free)

lemma refresh_discovery_twin_free:
  assumes "twin_free (st_sessions st)"
  shows "twin_free (st_sessions (refresh_discovery st ds now))"
proof -
  let ?ms = "fold (note_discovered (thresholds (st_config st)) now) ds (st_sessions st, [])"
  have "twin_free (fst ?ms)" using assms by (intro fold_note_discovered_twin_free) simp
  then show ?thesis
    unfolding refresh_discovery_eq Let_def enforce_session_cap_sessions
    by (rule twin_free_subset) (use enforce_loop_subset in force)
qed

text \<open>What a verified connection applies.\<close>

lemma applied_event:
  assumes "handle_telemetry_stream clock from_json verified r = (res, applied)" and "(k, ev) \<in> set applied"
  obtains peer where "verified = Value peer" "verified_event peer (k, ev)"
proof -
  obtain peer where "verified = Value peer" "applied = snd (telemetry_loop clock from_json peer 0 0 False r)"
    using assms by (cases verified) (auto simp: handle_telemetry_stream_def split: prod.splits)
  with telemetry_loop_verified [of peer clock from_json 0 0 False r] assms(2) that show ?thesis
    by (auto simp: list_all_iff)
qed

lemma daemon_invariant:
  "daemon_reachable c st \<Longrightarrow> entries_ok identity_ok (st_sessions st) \<and> twin_free (st_sessions st)"
proof (induction rule: daemon_reachable.induct)
  case daemon_start
  then show ?case by (simp add: new_state_def entries_intros twin_free_def contains_key_def)
next
  case (daemon_telemetry st clock from_json credentials euid fs cur r res applied k ev now)
  obtain peer where "verified_event peer (k, ev)"
    using daemon_telemetry.hyps(2,3) by (rule applied_event)
  then have ev: "k = instrumented_session_id (ev_pid ev) (vp_started_at_unix_ms peer)"
    "ev_started_at_unix_ms ev = Some (vp_started_at_unix_ms peer)" "telemetry_metric_is_plausible (ev_srtt_ms ev)"
    by (simp_all add: verified_event_def)
  then have "k = instrumented_session_id (ev_pid ev) (event_started_at ev now)"
    by (simp add: event_started_at_def unwrap_or_def)
  then show ?case
    using daemon_telemetry.IH verified_event_identity [OF ev]
    by (simp add: apply_telemetry_def apply_telemetry_entries apply_telemetry_twin_free)
next
  case (daemon_discovery st fs cur ds now)
  then show ?case
    using note_discovered_identity by (simp add: refresh_discovery_entries refresh_discovery_twin_free)
qed

text \<open>
  C22: In every registry that verified connections and discovery passes can produce, in any
  interleaving, a session is filed under the id made of its kind, pid and start time, no
  process appears both as a verified and as a discovered session, and every round-trip time
  is a finite non-negative number, so that the orderings of the listings are total.
\<close>
theorem daemon_sessions_identified:
  assumes "daemon_reachable c st"
  shows "reachable c st \<and> rtts_ok st
     \<and> (\<forall>(k, r) \<in> set (st_sessions st).
          k = (if ss_kind (sr_summary r) = Instrumented
               then instrumented_session_id (ss_pid (sr_summary r)) (ss_started_at_unix_ms (sr_summary r))
               else legacy_session_id (ss_pid (sr_summary r)) (ss_started_at_unix_ms (sr_summary r)))
          \<and> telemetry_metric_is_plausible (sm_srtt_ms (ss_metrics (sr_summary r))))
     \<and> distinct (map (\<lambda>(k, r). (ss_pid (sr_summary r), ss_started_at_unix_ms (sr_summary r))) (st_sessions st))"
proof -
  have inv: "entries_ok identity_ok (st_sessions st)" "twin_free (st_sessions st)"
    using daemon_invariant [OF assms] by simp_all
  then have ids: "\<forall>(k, r) \<in> set (st_sessions st).
          k = (if ss_kind (sr_summary r) = Instrumented
               then instrumented_session_id (ss_pid (sr_summary r)) (ss_started_at_unix_ms (sr_summary r))
               else legacy_session_id (ss_pid (sr_summary r)) (ss_started_at_unix_ms (sr_summary r)))
          \<and> telemetry_metric_is_plausible (sm_srtt_ms (ss_metrics (sr_summary r)))"
    by (auto simp: entries_ok_def identity_ok_def Let_def)
  have dist: "distinct (map fst (st_sessions st))" using inv(1) by (rule entries_ok_distinct)
  have "inj_on (\<lambda>(k, r). (ss_pid (sr_summary r), ss_started_at_unix_ms (sr_summary r))) (set (st_sessions st))"
  proof (rule inj_onI)
    fix e f
    assume e: "e \<in> set (st_sessions st)" and f: "f \<in> set (st_sessions st)"
      and eq: "(\<lambda>(k, r). (ss_pid (sr_summary r), ss_started_at_unix_ms (sr_summary r))) e
             = (\<lambda>(k, r). (ss_pid (sr_summary r), ss_started_at_unix_ms (sr_summary r))) f"
    obtain k r l q where kr: "e = (k, r)" "f = (l, q)" by (cases e; cases f)
    have keys: "contains_key (st_sessions st) k" "contains_key (st_sessions st) l"
      using e f kr by (force simp: contains_key_iff)+
    have "k = l"
    proof (rule ccontr)
      assume "k \<noteq> l"
      have same: "ss_pid (sr_summary r) = ss_pid (sr_summary q)"
        "ss_started_at_unix_ms (sr_summary r) = ss_started_at_unix_ms (sr_summary q)"
        using eq kr by simp_all
      have "k = (if ss_kind (sr_summary r) = Instrumented
                 then instrumented_session_id (ss_pid (sr_summary q)) (ss_started_at_unix_ms (sr_summary q))
                 else legacy_session_id (ss_pid (sr_summary q)) (ss_started_at_unix_ms (sr_summary q)))"
        using bspec [OF ids e] kr same by simp
      moreover have "l = (if ss_kind (sr_summary q) = Instrumented
                 then instrumented_session_id (ss_pid (sr_summary q)) (ss_started_at_unix_ms (sr_summary q))
                 else legacy_session_id (ss_pid (sr_summary q)) (ss_started_at_unix_ms (sr_summary q)))"
        using bspec [OF ids f] kr by simp
      ultimately show False
        using \<open>k \<noteq> l\<close> keys inv(2) by (auto simp: twin_free_def split: if_splits)
    qed
    with dist e f kr show "e = f" by (auto dest: eq_key_imp_eq_value)
  qed
  then have "distinct (map (\<lambda>(k, r). (ss_pid (sr_summary r), ss_started_at_unix_ms (sr_summary r))) (st_sessions st))"
    using dist by (simp add: distinct_map)
  moreover have "rtts_ok st"
    using ids by (auto simp: rtts_ok_def rtt_ok_def telemetry_metric_is_plausible_def)
  ultimately show ?thesis using ids daemon_reachable_reachable [OF assms] by blast
qed

end
