(* ===== verification/Daemon_Examples.thy ===== *)
theory Daemon_Examples
  imports Daemon
begin

text \<open>
  A verified connection on concrete bytes, and what the theorems on connections and on the
  daemon say of it.
\<close>

section \<open>An example connection\<close>

text \<open>
  The peer is process 7 of the example \<open>/proc\<close>, running the instrumented server in \<open>/opt/bin\<close>;
  the decoder knows one line, \<open>A\<close>, and takes every other one for malformed.
\<close>

definition example_peer :: verified_telemetry_peer where
  "example_peer = \<lparr>vp_pid = 7, vp_started_at_unix_ms = 1005000, vp_cmdline = [], vp_exe_name = lit ''mosh-server-real''\<rparr>"

definition example_event :: telemetry_event where
  "example_event = (blank_event SessionTick 7 2000000)\<lparr>ev_started_at_unix_ms := None\<rparr>"

definition example_decoder :: "bytes \<Rightarrow> telemetry_event option" where
  "example_decoder l = (if l = [65] then Some example_event else None)"

lemma example_matches:
  "telemetry_event_matches_peer 2000001 example_event
     \<lparr>vp_pid = 7, vp_started_at_unix_ms = s, vp_cmdline = c, vp_exe_name = lit ''mosh-server-real''\<rparr>"
  by (simp add: telemetry_event_matches_peer_def telemetry_event_is_plausible_def example_event_def blank_event_def
      telemetry_metric_is_plausible_def is_supported_mosh_server_exe_def wrap_i64_def)

lemma example_line:
  "trim_newlines [65, 10] = [65]" "trim_newlines [10] = []" "trim_newlines [66, 10] = [66]"
  "physical_lines [65, 10, 10] = [[65, 10], [10]]"
  by code_simp+

lemma example_accepted: "accepted_event example_decoder example_peer 2000001 [65, 10] = Some example_event"
  by (simp add: accepted_event_def example_line example_decoder_def example_peer_def example_matches
      MAX_TELEMETRY_FRAME_BYTES_def)

theorem telemetry_connection_spec_witness:
  "handle_telemetry_stream (\<lambda>_. 2000001) example_decoder (Value example_peer)
       (at_once ([Chunk [65], Chunk [10, 10]] :: unit reader))
     = (Some (Inr ()), [(instrumented_session_id 7 1005000, rewrite_identity example_peer example_event)])"
proof -
  have clean: "clean_reader [Chunk [65], Chunk [10, 10]]" by simp
  have "vp_pid example_peer = 7" "vp_started_at_unix_ms example_peer = 1005000"
    by (simp_all add: example_peer_def)
  then show ?thesis unfolding telemetry_connection_spec [OF clean]
    by (simp add: example_line example_accepted blank_line_def MAX_TELEMETRY_FRAME_BYTES_def)
qed


definition example_host :: proc_fs where
  "example_host = example_proc\<lparr>pf_process := \<lambda>pid.
     (pf_process example_proc pid)\<lparr>pv_exe := Some (utf8_encode (lit ''/opt/bin/mosh-server-real''))\<rparr>\<rparr>"

lemma example_host_metadata:
  "\<exists>c. read_process_metadata example_host 7 = Value
     \<lparr>pm_started_at_unix_ms = 1005000, pm_cmdline = c, pm_exe_name = lit ''mosh-server-real'',
      pm_exe_path = path_of ''/opt/bin/mosh-server-real''\<rparr>"
proof -
  have "read_exe_path (pf_process example_host 7) = Some (path_of ''/opt/bin/mosh-server-real'')"
    unfolding example_host_def example_proc_def by code_simp
  moreover have "file_name_str (path_of ''/opt/bin/mosh-server-real'') = Some (lit ''mosh-server-real'')"
  proof -
    have "path_of ''/opt/bin/mosh-server-real''
        = [RootDir, Normal (utf8_encode (lit ''opt'')), Normal (utf8_encode (lit ''bin''))] @ [Normal server_real]"
      by code_simp
    then show ?thesis by (simp add: file_name_str_snoc server_names(4) del: append.simps)
  qed
  moreover have "lit ''mosh-server-real'' \<noteq> []" by (simp add: lit_def)
  moreover have "pv_cmdline (pf_process example_host 7) = pv_cmdline (pf_process example_proc 7)"
    "pv_comm (pf_process example_host 7) = pv_comm (pf_process example_proc 7)"
    by (simp_all add: example_host_def)
  then have "read_cmdline (pf_process example_host 7) = read_cmdline (pf_process example_proc 7)"
    by (simp only: read_cmdline_def)
  moreover have "pv_stat (pf_process example_host 7) = pv_stat (pf_process example_proc 7)"
    "pf_stat example_host = pf_stat example_proc" "pf_clock_ticks example_host = pf_clock_ticks example_proc"
    by (simp_all add: example_host_def)
  ultimately show ?thesis
    using example_proc_parts
    by (simp add: read_process_metadata_def read_process_metadata_with_clock_def opt_filter_def)
qed

lemma example_expected:
  "expected_instrumented_server_path (Some (path_of ''/opt/bin/moshwatchd''))
     = Some (path_of ''/opt/bin/mosh-server-real'')"
  by code_simp

lemma example_verified:
  "\<exists>c. verify_telemetry_peer (Some \<lparr>cred_uid = 1000, cred_pid = 7\<rparr>) 1000 example_host (Some (path_of ''/opt/bin/moshwatchd''))
     = Value \<lparr>vp_pid = 7, vp_started_at_unix_ms = 1005000, vp_cmdline = c, vp_exe_name = lit ''mosh-server-real''\<rparr>"
  using example_host_metadata
  by (auto simp: verify_telemetry_peer_def example_expected is_supported_mosh_server_exe_def)

lemma example_applied:
  "\<exists>ev. handle_telemetry_stream (\<lambda>_. 2000001) example_decoder
      (verify_telemetry_peer (Some \<lparr>cred_uid = 1000, cred_pid = 7\<rparr>) 1000 example_host
        (Some (path_of ''/opt/bin/moshwatchd'')))
      (at_once ([Chunk [65], Chunk [10, 10]] :: unit reader))
    = (Some (Inr ()), [(instrumented_session_id 7 1005000, ev)])"
proof -
  obtain c where c: "verify_telemetry_peer (Some \<lparr>cred_uid = 1000, cred_pid = 7\<rparr>) 1000 example_host
        (Some (path_of ''/opt/bin/moshwatchd''))
     = Value \<lparr>vp_pid = 7, vp_started_at_unix_ms = 1005000, vp_cmdline = c, vp_exe_name = lit ''mosh-server-real''\<rparr>"
    using example_verified by blast
  have clean: "clean_reader [Chunk [65], Chunk [10, 10]]" by simp
  show ?thesis unfolding c handle_telemetry_stream_def telemetry_loop_lines [OF clean]
    by (simp add: example_line accepted_event_def example_decoder_def
        example_matches blank_line_def MAX_TELEMETRY_FRAME_BYTES_def)
qed

theorem telemetry_only_from_verified_peer_witness:
  "\<exists>m. read_process_metadata example_host 7 = Value m
     \<and> expected_instrumented_server_path (Some (path_of ''/opt/bin/moshwatchd'')) = Some (pm_exe_path m)"
proof -
  obtain ev where run: "handle_telemetry_stream (\<lambda>_. 2000001) example_decoder
      (verify_telemetry_peer (Some \<lparr>cred_uid = 1000, cred_pid = 7\<rparr>) 1000 example_host
        (Some (path_of ''/opt/bin/moshwatchd'')))
      (at_once ([Chunk [65], Chunk [10, 10]] :: unit reader))
    = (Some (Inr ()), [(instrumented_session_id 7 1005000, ev)])"
    using example_applied by blast
  have "[(instrumented_session_id 7 1005000, ev)] \<noteq> []" by simp
  from telemetry_only_from_verified_peer [OF run this] show ?thesis by auto
qed

theorem daemon_sessions_identified_witness:
  "\<exists>ev. let st = apply_telemetry (new_state default_config) (instrumented_session_id 7 1005000) ev 2000001
    in reachable default_config st \<and> rtts_ok st
     \<and> distinct (map (\<lambda>(k, r). (ss_pid (sr_summary r), ss_started_at_unix_ms (sr_summary r))) (st_sessions st))"
proof -
  obtain ev where run: "handle_telemetry_stream (\<lambda>_. 2000001) example_decoder
      (verify_telemetry_peer (Some \<lparr>cred_uid = 1000, cred_pid = 7\<rparr>) 1000 example_host
        (Some (path_of ''/opt/bin/moshwatchd'')))
      (at_once ([Chunk [65], Chunk [10, 10]] :: unit reader))
    = (Some (Inr ()), [(instrumented_session_id 7 1005000, ev)])"
    using example_applied by blast
  have "daemon_reachable default_config (apply_telemetry (new_state default_config) (instrumented_session_id 7 1005000) ev 2000001)"
    by (rule daemon_telemetry [OF daemon_start run]) simp
  from daemon_sessions_identified [OF this] show ?thesis unfolding Let_def by blast
qed

text \<open>A reachable registry with that session.\<close>

lemma example_daemon_session:
  "\<exists>st r. daemon_reachable default_config st \<and> (instrumented_session_id 7 1005000, r) \<in> set (st_sessions st)"
proof -
  obtain ev where run: "handle_telemetry_stream (\<lambda>_. 2000001) example_decoder
      (verify_telemetry_peer (Some \<lparr>cred_uid = 1000, cred_pid = 7\<rparr>) 1000 example_host
        (Some (path_of ''/opt/bin/moshwatchd'')))
      (at_once ([Chunk [65], Chunk [10, 10]] :: unit reader))
    = (Some (Inr ()), [(instrumented_session_id 7 1005000, ev)])"
    using example_applied by blast
  let ?st = "apply_telemetry (new_state default_config) (instrumented_session_id 7 1005000) ev 2000001"
  have new: "st_sessions (new_state default_config) = []" "st_config (new_state default_config) = default_config"
    by (simp_all add: new_state_def)
  have cap: "max_tracked_sessions default_config = 2048" by (simp add: default_config_def)
  have "\<not> fst (reject_new_active_instrumented_session (new_state default_config) b)" for b
    by (simp add: reject_new_active_instrumented_session_def new cap)
  then have "\<exists>r. st_sessions ?st = [(instrumented_session_id 7 1005000, r)]"
    unfolding apply_telemetry_def
    by (subst apply_telemetry_new)
      (simp_all add: new cap store_record_def enforce_session_cap_def enforce_loop_id)
  moreover have "daemon_reachable default_config ?st"
    by (rule daemon_telemetry [OF daemon_start run]) simp
  ultimately show ?thesis by (intro exI [of _ ?st]) auto
qed

end
