(* ===== verification/Publisher.thy ===== *)
theory Publisher
  imports Prelude
begin

text \<open>
  The snapshot publisher of \<open>main.rs\<close> (\<open>spawn_snapshot_publisher\<close>, \<open>SnapshotTrigger\<close>) as a
  step relation, with the coalescing of requests, the rate limit and the absence of lost
  wake-ups.
\<close>

section \<open>Steps\<close>

text \<open>
  The publisher task and \<open>request_publish\<close> of the other tasks, as atomic steps: a
  request stores the dirty flag and then notifies, and other steps may come in between
  (\<open>pub_pending\<close> counts the requests that have not notified yet).  \<open>Notify\<close> keeps one
  permit, stored by \<open>notify_one\<close> and taken by the worker's next \<open>notified().await\<close>.
\<close>

datatype publisher_pc = CheckDirty | AwaitNotify | Publishing | Resting nat

record publisher =
  pub_pc :: publisher_pc
  pub_dirty :: bool
  pub_permit :: bool
  pub_pending :: nat

definition new_publisher :: publisher where
  "new_publisher = \<lparr>pub_pc = CheckDirty, pub_dirty = False, pub_permit = False, pub_pending = 0\<rparr>"

datatype publisher_op =
  StoreDirty | NotifyOne | SwapDirty | WakeUp | PublishNow nat | DrainPermit | DeadlineAt nat

inductive publisher_step :: "nat \<Rightarrow> publisher \<Rightarrow> publisher_op \<Rightarrow> publisher \<Rightarrow> bool" for interval where
  store_dirty: "publisher_step interval p StoreDirty (p\<lparr>pub_dirty := True, pub_pending := Suc (pub_pending p)\<rparr>)"
| notify_one: "0 < pub_pending p \<Longrightarrow>
    publisher_step interval p NotifyOne (p\<lparr>pub_permit := True, pub_pending := pub_pending p - 1\<rparr>)"
| swap_dirty: "pub_pc p = CheckDirty \<Longrightarrow>
    publisher_step interval p SwapDirty
      (p\<lparr>pub_dirty := False, pub_pc := (if pub_dirty p then Publishing else AwaitNotify)\<rparr>)"
| wake_up: "pub_pc p = AwaitNotify \<Longrightarrow> pub_permit p \<Longrightarrow>
    publisher_step interval p WakeUp (p\<lparr>pub_permit := False, pub_pc := CheckDirty\<rparr>)"
| publish_now: "pub_pc p = Publishing \<Longrightarrow>
    publisher_step interval p (PublishNow now) (p\<lparr>pub_pc := Resting (now + interval)\<rparr>)"
| drain_permit: "pub_pc p = Resting deadline \<Longrightarrow> pub_permit p \<Longrightarrow>
    publisher_step interval p DrainPermit (p\<lparr>pub_permit := False\<rparr>)"
| deadline_at: "pub_pc p = Resting deadline \<Longrightarrow> deadline \<le> now \<Longrightarrow>
    publisher_step interval p (DeadlineAt now) (p\<lparr>pub_pc := CheckDirty\<rparr>)"

inductive_cases publisher_stepE: "publisher_step interval p op p'"

inductive_simps publisher_step_simps:
  "publisher_step interval p StoreDirty p'"
  "publisher_step interval p NotifyOne p'"
  "publisher_step interval p SwapDirty p'"
  "publisher_step interval p WakeUp p'"
  "publisher_step interval p (PublishNow now) p'"
  "publisher_step interval p DrainPermit p'"
  "publisher_step interval p (DeadlineAt now) p'"

text \<open>Finite runs with their operations, and the states they reach.\<close>

inductive publisher_run :: "nat \<Rightarrow> publisher \<Rightarrow> publisher_op list \<Rightarrow> publisher \<Rightarrow> bool" for interval where
  run_nil: "publisher_run interval p [] p"
| run_cons: "publisher_step interval p op p' \<Longrightarrow> publisher_run interval p' ops p'' \<Longrightarrow>
    publisher_run interval p (op # ops) p''"

inductive_simps publisher_run_simps:
  "publisher_run interval p [] p'"
  "publisher_run interval p (op # ops) p'"

section \<open>Invariants of runs\<close>

lemma run_append:
  "publisher_run interval p (xs @ ys) q \<longleftrightarrow> (\<exists>m. publisher_run interval p xs m \<and> publisher_run interval m ys q)"
  by (induction xs arbitrary: p) (auto simp: publisher_run_simps)

lemma run_snoc:
  "publisher_run interval p (xs @ [x]) q \<longleftrightarrow> (\<exists>m. publisher_run interval p xs m \<and> publisher_step interval m x q)"
  by (auto simp: run_append publisher_run_simps)

text \<open>A request that is not yet answered still has a notification to come.\<close>

definition no_lost_wakeup :: "publisher \<Rightarrow> bool" where
  "no_lost_wakeup p \<longleftrightarrow> (pub_dirty p \<and> pub_pc p = AwaitNotify \<longrightarrow> pub_permit p \<or> 0 < pub_pending p)"

lemma no_lost_wakeup_step: "publisher_step interval p op q \<Longrightarrow> no_lost_wakeup p \<Longrightarrow> no_lost_wakeup q"
  by (erule publisher_stepE) (auto simp: no_lost_wakeup_def)

lemma no_lost_wakeup_run: "publisher_run interval p ops q \<Longrightarrow> no_lost_wakeup p \<Longrightarrow> no_lost_wakeup q"
  by (induction rule: publisher_run.induct) (auto dest: no_lost_wakeup_step)

lemma new_publisher_simps [simp]:
  "pub_pc new_publisher = CheckDirty" "\<not> pub_dirty new_publisher" "\<not> pub_permit new_publisher"
  "pub_pending new_publisher = 0" "no_lost_wakeup new_publisher"
  by (simp_all add: new_publisher_def no_lost_wakeup_def)

text \<open>Without new requests every step uses up something.\<close>

fun pc_weight :: "publisher_pc \<Rightarrow> nat" where
  "pc_weight AwaitNotify = 0"
| "pc_weight CheckDirty = 1"
| "pc_weight (Resting t) = 2"
| "pc_weight Publishing = 3"

definition work_left :: "publisher \<Rightarrow> nat" where
  "work_left p = 4 * pub_pending p + (if pub_permit p then 3 else 0) + (if pub_dirty p then 5 else 0)
     + pc_weight (pub_pc p)"

lemma work_left_step: "publisher_step interval p op q \<Longrightarrow> op \<noteq> StoreDirty \<Longrightarrow> work_left q < work_left p"
  by (erule publisher_stepE) (auto simp: work_left_def)

lemma work_left_run: "publisher_run interval p ops q \<Longrightarrow> StoreDirty \<notin> set ops \<Longrightarrow> length ops + work_left q \<le> work_left p"
  by (induction rule: publisher_run.induct) (auto dest: work_left_step)

lemma work_left_bound: "work_left p \<le> 4 * pub_pending p + 11"
  by (cases "pub_pc p") (auto simp: work_left_def)

text \<open>A publication that answers a request comes after the worker has taken the flag.\<close>

definition answered :: "publisher_op list \<Rightarrow> bool" where
  "answered ops \<longleftrightarrow> (\<exists>xs t ys. ops = xs @ PublishNow t # ys \<and> SwapDirty \<in> set xs)"

lemma answered_snoc: "answered (ops @ [op]) \<longleftrightarrow> answered ops \<or> (\<exists>t. op = PublishNow t) \<and> SwapDirty \<in> set ops"
proof
  assume "answered (ops @ [op])"
  then obtain xs t ys where eq: "ops @ [op] = xs @ PublishNow t # ys" and "SwapDirty \<in> set xs"
    by (auto simp: answered_def)
  then show "answered ops \<or> (\<exists>t. op = PublishNow t) \<and> SwapDirty \<in> set ops"
    by (cases ys rule: rev_cases) (auto simp: answered_def)
next
  assume "answered ops \<or> (\<exists>t. op = PublishNow t) \<and> SwapDirty \<in> set ops"
  then show "answered (ops @ [op])" unfolding answered_def by fastforce
qed

lemma unanswered_run:
  "publisher_run interval p ops q \<Longrightarrow> pub_dirty p \<Longrightarrow> \<not> answered ops \<Longrightarrow>
   pub_dirty q \<and> SwapDirty \<notin> set ops \<or> SwapDirty \<in> set ops \<and> pub_pc q = Publishing"
proof (induction ops arbitrary: q rule: rev_induct)
  case (snoc op ops)
  then obtain m where m: "publisher_run interval p ops m" "publisher_step interval m op q"
    by (auto simp: run_snoc)
  with snoc have "pub_dirty m \<and> SwapDirty \<notin> set ops \<or> SwapDirty \<in> set ops \<and> pub_pc m = Publishing"
    by (auto simp: answered_snoc)
  with m(2) snoc.prems(3) show ?case by (auto simp: answered_snoc elim!: publisher_stepE)
qed (auto simp: publisher_run_simps)

lemma progress:
  assumes "no_lost_wakeup p" and "pub_dirty p \<or> pub_pc p = Publishing"
  shows "\<exists>op q. op \<noteq> StoreDirty \<and> publisher_step interval p op q"
proof (cases "pub_pc p")
  case CheckDirty
  then show ?thesis using swap_dirty by blast
next
  case AwaitNotify
  then have "pub_permit p \<or> 0 < pub_pending p" using assms by (simp add: no_lost_wakeup_def)
  then show ?thesis using AwaitNotify wake_up notify_one by blast
next
  case Publishing
  then show ?thesis using publish_now by blast
next
  case (Resting d)
  then show ?thesis using deadline_at [OF Resting order_refl] by blast
qed

text \<open>
  No wake-up is lost and no request goes unanswered: after a request, however it
  interleaves with the worker's check of the flag, its waiting and its draining of
  permits, every continuation takes boundedly many steps unless new requests come, and it
  can always go on until a snapshot has been published by a worker that saw the flag.
\<close>
theorem publisher_answers_requests:
  assumes "publisher_run interval new_publisher before p" and "pub_dirty p"
    and "publisher_run interval p ops q" and "StoreDirty \<notin> set ops"
  shows "length ops \<le> 4 * pub_pending p + 11
     \<and> ((\<exists>xs t ys. ops = xs @ PublishNow t # ys \<and> SwapDirty \<in> set xs)
        \<or> (\<exists>op q'. op \<noteq> StoreDirty \<and> publisher_step interval q op q'))"
proof
  show "length ops \<le> 4 * pub_pending p + 11"
    using work_left_run [OF assms(3,4)] work_left_bound [of p] by linarith
  have "no_lost_wakeup q" using no_lost_wakeup_run assms(1,3) by fastforce
  then show "(\<exists>xs t ys. ops = xs @ PublishNow t # ys \<and> SwapDirty \<in> set xs)
        \<or> (\<exists>op q'. op \<noteq> StoreDirty \<and> publisher_step interval q op q')"
    using unanswered_run [OF assms(3,2)] progress [of q] unfolding answered_def by blast
qed

theorem publisher_answers_requests_witness:
  "\<exists>p q. publisher_run 250 new_publisher [SwapDirty, StoreDirty] p
     \<and> publisher_run 250 p [NotifyOne, WakeUp, SwapDirty] q
     \<and> (\<exists>op q'. op \<noteq> StoreDirty \<and> publisher_step 250 q op q')"
proof -
  let ?p = "\<lparr>pub_pc = AwaitNotify, pub_dirty = True, pub_permit = False, pub_pending = 1\<rparr>"
  let ?q = "\<lparr>pub_pc = Publishing, pub_dirty = False, pub_permit = False, pub_pending = 0\<rparr>"
  have p: "publisher_run 250 new_publisher [SwapDirty, StoreDirty] ?p"
    by (simp add: publisher_run_simps publisher_step_simps new_publisher_def)
  have q: "publisher_run 250 ?p [NotifyOne, WakeUp, SwapDirty] ?q"
    by (simp add: publisher_run_simps publisher_step_simps)
  have "\<not> answered [NotifyOne, WakeUp, SwapDirty]"
    by (auto simp: answered_def append_eq_Cons_conv Cons_eq_append_conv)
  moreover have "pub_dirty ?p" "StoreDirty \<notin> set [NotifyOne, WakeUp, SwapDirty]" by simp_all
  note publisher_answers_requests [OF p this(1) q this(2), THEN conjunct2]
  ultimately have "\<exists>op q'. op \<noteq> StoreDirty \<and> publisher_step 250 ?q op q'" unfolding answered_def by blast
  with p q show ?thesis by blast
qed

section \<open>The rate of publications\<close>

fun stores :: "publisher_op list \<Rightarrow> nat" where
  "stores [] = 0"
| "stores (StoreDirty # ops) = Suc (stores ops)"
| "stores (_ # ops) = stores ops"

fun publications :: "publisher_op list \<Rightarrow> nat" where
  "publications [] = 0"
| "publications (PublishNow t # ops) = Suc (publications ops)"
| "publications (_ # ops) = publications ops"

lemma run_coalesces:
  "publisher_run interval p ops q \<Longrightarrow>
   publications ops + of_bool (pub_dirty q) + of_bool (pub_pc q = Publishing)
     \<le> stores ops + of_bool (pub_dirty p) + of_bool (pub_pc p = Publishing)"
proof (induction rule: publisher_run.induct)
  case (run_cons p op p' ops p'')
  from run_cons.hyps(1) run_cons.IH show ?case by (cases rule: publisher_step.cases) auto
qed simp

lemma resting_run:
  "publisher_run interval p ops q \<Longrightarrow> pub_pc p = Resting d \<Longrightarrow>
   pub_pc q = Resting d \<or> (\<exists>t \<ge> d. DeadlineAt t \<in> set ops)"
proof (induction rule: publisher_run.induct)
  case (run_cons p op p' ops p'')
  from run_cons.hyps(1) run_cons.prems have "pub_pc p' = Resting d \<or> (\<exists>t \<ge> d. op = DeadlineAt t)"
    by (cases rule: publisher_step.cases) auto
  with run_cons.IH show ?case by auto
qed simp

lemma stores_append [simp]: "stores (xs @ ys) = stores xs + stores ys"
  by (induction xs rule: stores.induct) simp_all

text \<open>
  Publications are coalesced and rate limited: a run publishes at most once per
  request, and between two publications the worker's timer has run at least the
  configured interval past the first one, however many requests arrive.
\<close>
theorem publisher_rate_limited:
  assumes "publisher_run interval new_publisher (before @ PublishNow s # between @ [PublishNow t]) q"
  shows "(\<exists>u \<ge> s + interval. DeadlineAt u \<in> set between)
     \<and> publications (before @ PublishNow s # between @ [PublishNow t]) \<le> stores before + stores between"
proof
  obtain p p' r where run: "publisher_run interval new_publisher before p" "publisher_step interval p (PublishNow s) p'"
    "publisher_run interval p' between r" "publisher_step interval r (PublishNow t) q"
    using assms by (auto simp: run_append publisher_run_simps)
  then have "pub_pc p' = Resting (s + interval)" "pub_pc r = Publishing"
    by (auto simp: publisher_step_simps)
  with resting_run [OF run(3)] show "\<exists>u \<ge> s + interval. DeadlineAt u \<in> set between" by auto
  show "publications (before @ PublishNow s # between @ [PublishNow t]) \<le> stores before + stores between"
    using run_coalesces [OF assms] by simp
qed

theorem publisher_rate_limited_witness:
  "\<exists>q. publisher_run 250 new_publisher ([StoreDirty, StoreDirty, StoreDirty, SwapDirty] @ PublishNow 7
       # [NotifyOne, StoreDirty, DrainPermit, DeadlineAt 260, SwapDirty] @ [PublishNow 261]) q
     \<and> publications ([StoreDirty, StoreDirty, StoreDirty, SwapDirty] @ PublishNow 7
       # [NotifyOne, StoreDirty, DrainPermit, DeadlineAt 260, SwapDirty] @ [PublishNow 261])
       \<le> stores [StoreDirty, StoreDirty, StoreDirty, SwapDirty]
          + stores [NotifyOne, StoreDirty, DrainPermit, DeadlineAt 260, SwapDirty]"
proof -
  have "\<exists>q. publisher_run 250 new_publisher ([StoreDirty, StoreDirty, StoreDirty, SwapDirty] @ PublishNow 7
       # [NotifyOne, StoreDirty, DrainPermit, DeadlineAt 260, SwapDirty] @ [PublishNow 261]) q"
    by (simp add: publisher_run_simps publisher_step_simps new_publisher_def)
  then show ?thesis by (elim exE) (intro exI conjI, assumption, rule publisher_rate_limited [THEN conjunct2])
qed

end
