(* ===== verification/Protocol_Api.thy ===== *)
theory Protocol_Api
  imports Coherence
begin

text \<open>
  The response bodies of the API and the frames of its event stream
  (\<open>moshwatch-core/src/protocol.rs\<close>), as they are handed to \<open>serde_json\<close>.
\<close>

record api_sessions_response =
  sr1_schema_version :: u32
  sr1_observer :: observer_info
  sr1_generated_at_unix_ms :: i64
  sr1_total_sessions :: nat
  sr1_truncated_session_count :: nat
  sr1_dropped_sessions_total :: u64
  sr1_sessions :: "session_summary list"

record api_session_response =
  sr2_schema_version :: u32
  sr2_observer :: observer_info
  sr2_generated_at_unix_ms :: i64
  sr2_session :: session_snapshot

record api_session_control_response =
  cr_schema_version :: u32
  cr_observer :: observer_info
  cr_generated_at_unix_ms :: i64
  cr_session_id :: rstr
  cr_pid :: i32
  cr_action :: session_control_action

record api_metrics_config =
  am_listen_addr :: "rstr option"
  am_allow_non_loopback :: bool
  am_detail_tier :: metrics_detail_tier
  am_otlp :: otlp_config

definition default_api_metrics :: api_metrics_config where
  "default_api_metrics = \<lparr>am_listen_addr = None, am_allow_non_loopback = False,
     am_detail_tier = PerSession, am_otlp = default_otlp\<rparr>"

record api_app_config =
  aa_refresh_ms :: u64
  aa_discovery_interval_ms :: u64
  aa_cleanup_interval_ms :: u64
  aa_history_secs :: u64
  aa_max_tracked_sessions :: nat
  aa_max_session_detail_points :: nat
  aa_thresholds :: health_thresholds
  aa_stream :: event_stream_config
  aa_persistence :: persistence_config
  aa_metrics :: api_metrics_config

definition api_config_of :: "app_config \<Rightarrow> api_app_config" where
  "api_config_of c =
     (let p = mc_prometheus (metrics_cfg c) in
      \<lparr>aa_refresh_ms = refresh_ms c, aa_discovery_interval_ms = discovery_interval_ms c,
       aa_cleanup_interval_ms = cleanup_interval_ms c, aa_history_secs = history_secs c,
       aa_max_tracked_sessions = max_tracked_sessions c,
       aa_max_session_detail_points = max_session_detail_points c,
       aa_thresholds = thresholds c, aa_stream = stream_cfg c, aa_persistence = persistence c,
       aa_metrics = \<lparr>am_listen_addr = listen_addr p, am_allow_non_loopback = allow_non_loopback p,
                     am_detail_tier = prom_detail_tier p, am_otlp = mc_otlp (metrics_cfg c)\<rparr>\<rparr>)"

record api_config_response =
  cf_schema_version :: u32
  cf_observer :: observer_info
  cf_generated_at_unix_ms :: i64
  cf_config :: api_app_config

record api_history_response =
  hr_schema_version :: u32
  hr_observer :: observer_info
  hr_generated_at_unix_ms :: i64
  hr_session_id :: rstr
  hr_samples :: "history_sample list"

record api_coherence_sessions_response =
  cs_schema_version :: u32
  cs_observer :: observer_info
  cs_generated_at_unix_ms :: i64
  cs_total_sessions :: nat
  cs_truncated_session_count :: nat
  cs_sessions :: "coherence_session_report list"

record api_coherence_session_response =
  c1_schema_version :: u32
  c1_observer :: observer_info
  c1_generated_at_unix_ms :: i64
  c1_session :: coherence_session_report

record api_coherence_export_response =
  cx_schema_version :: u32
  cx_observer :: observer_info
  cx_generated_at_unix_ms :: i64
  cx_export :: coherence_export_envelope

record api_adapter_capabilities_response =
  ac_schema_version :: u32
  ac_observer :: observer_info
  ac_generated_at_unix_ms :: i64
  ac_adapter_contract_version :: rstr
  ac_daemon_loads_external_code :: bool
  ac_export_surfaces :: "adapter_export_surface list"

record event_stream_frame =
  fr_schema_version :: u32
  fr_observer :: observer_info
  fr_event :: event_stream_event
  fr_sequence :: "u64 option"
  fr_generated_at_unix_ms :: i64
  fr_total_sessions :: "nat option"
  fr_truncated_session_count :: "nat option"
  fr_dropped_sessions_total :: "u64 option"
  fr_sessions :: "session_summary list option"
  fr_coherence_sessions :: "coherence_session_snapshot list option"

end
