(* ===== verification/Observability.thy ===== *)
theory Observability
  imports Config
begin

text \<open>
  The metric contract of \<open>moshwatch-core/src/observability.rs\<close>: detail tiers, metric ids,
  descriptors and the catalog, in the order of the source.
\<close>

datatype metric_kind = Gauge | Counter | Info

datatype metric_cardinality = StaticCardinality | LowCardinality | PerSessionCardinality

datatype metric_privacy = FleetSafe | OperatorSensitive

datatype metric_label_schema =
  NoLabels | BuildVersion | Observer | Kind | KindHealth | Loop | Severity | ExportResult
  | ExporterDetailTier | SessionValue | SessionInfoLabels | SessionWindow

datatype metric_id =
    IdBuildInfo | IdObserverInfo | IdSessions | IdSessionsByHealth | IdMetricsRenderedSessions
  | IdMetricsTruncatedSessions | IdRuntimeDroppedSessionsTotal | IdRuntimeWorkerThreads
  | IdRuntimeLoopIntervalMs | IdRuntimeLoopLastDurationMs | IdRuntimeLoopOverrunsTotal
  | IdHistoryCurrentBytes | IdHistoryWrittenBytesTotal | IdHistoryWriteFailuresTotal
  | IdHistoryPruneFailuresTotal | IdHistoryDroppedSamplesTotal | IdThresholdRttMs
  | IdThresholdRetransmitPct | IdThresholdSilenceMs | IdOtlpExportEnabled | IdOtlpExportsTotal
  | IdOtlpExportLastDurationMs | IdOtlpExportLastSuccessUnixMs | IdOtlpExportLastFailureUnixMs
  | IdOtlpExportLastPayloadBytes | IdSessionInfo | IdSessionHealthLevel | IdSessionSrttMs
  | IdSessionRttvarMs | IdSessionLastRttMs | IdSessionLastHeardAgeMs
  | IdSessionRemoteStateAgeMs | IdSessionRetransmitPct10s | IdSessionRetransmitPct60s
  | IdSessionRetransmitWindowComplete | IdSessionRetransmitWindowTransmissions
  | IdSessionRetransmitWindowRetransmits | IdSessionRetransmitWindowStateUpdates
  | IdSessionRetransmitWindowEmptyAcks | IdSessionPacketsTxTotal | IdSessionPacketsRxTotal
  | IdSessionRetransmitsTotal

record metric_descriptor =
  md_id :: metric_id
  md_name :: rstr
  md_help :: rstr
  md_kind :: metric_kind
  md_unit :: rstr
  md_cardinality :: metric_cardinality
  md_privacy :: metric_privacy
  md_labels :: metric_label_schema
  md_minimum_detail_tier :: metrics_detail_tier

section \<open>The catalog\<close>

definition daemon_metrics :: "metric_descriptor list" where
  "daemon_metrics =
     [
      \<lparr>md_id = IdBuildInfo, md_name = lit ''moshwatch_build_info'',
       md_help = lit ''Build information for moshwatchd.'',
       md_kind = Info, md_unit = lit ''1'', md_cardinality = StaticCardinality, md_privacy = FleetSafe,
       md_labels = BuildVersion, md_minimum_detail_tier = AggregateOnly\<rparr>,
      \<lparr>md_id = IdObserverInfo, md_name = lit ''moshwatch_observer_info'',
       md_help = lit ''Host identity for this moshwatchd instance.'',
       md_kind = Info, md_unit = lit ''1'', md_cardinality = StaticCardinality, md_privacy = OperatorSensitive,
       md_labels = Observer, md_minimum_detail_tier = PerSession\<rparr>,
      \<lparr>md_id = IdSessions, md_name = lit ''moshwatch_sessions'',
       md_help = lit ''Number of sessions by kind.'',
       md_kind = Gauge, md_unit = lit ''1'', md_cardinality = LowCardinality, md_privacy = FleetSafe,
       md_labels = Kind, md_minimum_detail_tier = AggregateOnly\<rparr>,
      \<lparr>md_id = IdSessionsByHealth, md_name = lit ''moshwatch_sessions_by_health'',
       md_help = lit ''Number of sessions by kind and derived health state.'',
       md_kind = Gauge, md_unit = lit ''1'', md_cardinality = LowCardinality, md_privacy = FleetSafe,
       md_labels = KindHealth, md_minimum_detail_tier = AggregateOnly\<rparr>,
      \<lparr>md_id = IdMetricsRenderedSessions, md_name = lit ''moshwatch_metrics_rendered_sessions'',
       md_help = lit ''Number of session series rendered into the export.'',
       md_kind = Gauge, md_unit = lit ''1'', md_cardinality = StaticCardinality, md_privacy = FleetSafe,
       md_labels = NoLabels, md_minimum_detail_tier = AggregateOnly\<rparr>,
      \<lparr>md_id = IdMetricsTruncatedSessions, md_name = lit ''moshwatch_metrics_truncated_sessions'',
       md_help = lit ''Number of sessions omitted from the export due to render caps.'',
       md_kind = Gauge, md_unit = lit ''1'', md_cardinality = StaticCardinality, md_privacy = FleetSafe,
       md_labels = NoLabels, md_minimum_detail_tier = AggregateOnly\<rparr>,
      \<lparr>md_id = IdRuntimeDroppedSessionsTotal, md_name = lit ''moshwatch_runtime_dropped_sessions_total'',
       md_help = lit ''Number of session tracking admissions or records dropped due to capacity limits.'',
       md_kind = Counter, md_unit = lit ''1'', md_cardinality = StaticCardinality, md_privacy = FleetSafe,
       md_labels = NoLabels, md_minimum_detail_tier = AggregateOnly\<rparr>,
      \<lparr>md_id = IdRuntimeWorkerThreads, md_name = lit ''moshwatch_runtime_worker_threads'',
       md_help = lit ''Configured Tokio worker threads for moshwatchd.'',
       md_kind = Gauge, md_unit = lit ''1'', md_cardinality = StaticCardinality, md_privacy = FleetSafe,
       md_labels = NoLabels, md_minimum_detail_tier = AggregateOnly\<rparr>]"

definition loop_and_history_metrics :: "metric_descriptor list" where
  "loop_and_history_metrics =
     [
      \<lparr>md_id = IdRuntimeLoopIntervalMs, md_name = lit ''moshwatch_runtime_loop_interval_ms'',
       md_help = lit ''Configured interval for periodic daemon loops in milliseconds.'',
       md_kind = Gauge, md_unit = lit ''ms'', md_cardinality = LowCardinality, md_privacy = FleetSafe,
       md_labels = Loop, md_minimum_detail_tier = AggregateOnly\<rparr>,
      \<lparr>md_id = IdRuntimeLoopLastDurationMs, md_name = lit ''moshwatch_runtime_loop_last_duration_ms'',
       md_help = lit ''Last observed runtime for a periodic daemon loop in milliseconds.'',
       md_kind = Gauge, md_unit = lit ''ms'', md_cardinality = LowCardinality, md_privacy = FleetSafe,
       md_labels = Loop, md_minimum_detail_tier = AggregateOnly\<rparr>,
      \<lparr>md_id = IdRuntimeLoopOverrunsTotal, md_name = lit ''moshwatch_runtime_loop_overruns_total'',
       md_help = lit ''Number of times a periodic daemon loop took longer than its configured interval.'',
       md_kind = Counter, md_unit = lit ''1'', md_cardinality = LowCardinality, md_privacy = FleetSafe,
       md_labels = Loop, md_minimum_detail_tier = AggregateOnly\<rparr>,
      \<lparr>md_id = IdHistoryCurrentBytes, md_name = lit ''moshwatch_history_current_bytes'',
       md_help = lit ''Current on-disk bytes retained in persistent history.'',
       md_kind = Gauge, md_unit = lit ''By'', md_cardinality = StaticCardinality, md_privacy = FleetSafe,
       md_labels = NoLabels, md_minimum_detail_tier = AggregateOnly\<rparr>,
      \<lparr>md_id = IdHistoryWrittenBytesTotal, md_name = lit ''moshwatch_history_written_bytes_total'',
       md_help = lit ''Total history bytes successfully written to disk.'',
       md_kind = Counter, md_unit = lit ''By'', md_cardinality = StaticCardinality, md_privacy = FleetSafe,
       md_labels = NoLabels, md_minimum_detail_tier = AggregateOnly\<rparr>,
      \<lparr>md_id = IdHistoryWriteFailuresTotal, md_name = lit ''moshwatch_history_write_failures_total'',
       md_help = lit ''Number of failed persistent history writes.'',
       md_kind = Counter, md_unit = lit ''1'', md_cardinality = StaticCardinality, md_privacy = FleetSafe,
       md_labels = NoLabels, md_minimum_detail_tier = AggregateOnly\<rparr>,
      \<lparr>md_id = IdHistoryPruneFailuresTotal, md_name = lit ''moshwatch_history_prune_failures_total'',
       md_help = lit ''Number of expired history files that failed to prune.'',
       md_kind = Counter, md_unit = lit ''1'', md_cardinality = StaticCardinality, md_privacy = FleetSafe,
       md_labels = NoLabels, md_minimum_detail_tier = AggregateOnly\<rparr>,
      \<lparr>md_id = IdHistoryDroppedSamplesTotal, md_name = lit ''moshwatch_history_dropped_samples_total'',
       md_help = lit ''Number of history samples dropped because persistence exceeded its disk budget.'',
       md_kind = Counter, md_unit = lit ''1'', md_cardinality = StaticCardinality, md_privacy = FleetSafe,
       md_labels = NoLabels, md_minimum_detail_tier = AggregateOnly\<rparr>]"

definition threshold_metrics :: "metric_descriptor list" where
  "threshold_metrics =
     [
      \<lparr>md_id = IdThresholdRttMs, md_name = lit ''moshwatch_threshold_rtt_ms'',
       md_help = lit ''Configured RTT threshold in milliseconds.'',
       md_kind = Gauge, md_unit = lit ''ms'', md_cardinality = LowCardinality, md_privacy = FleetSafe,
       md_labels = Severity, md_minimum_detail_tier = AggregateOnly\<rparr>,
      \<lparr>md_id = IdThresholdRetransmitPct, md_name = lit ''moshwatch_threshold_retransmit_pct'',
       md_help = lit ''Configured retransmit threshold as a percentage.'',
       md_kind = Gauge, md_unit = lit ''%'', md_cardinality = LowCardinality, md_privacy = FleetSafe,
       md_labels = Severity, md_minimum_detail_tier = AggregateOnly\<rparr>,
      \<lparr>md_id = IdThresholdSilenceMs, md_name = lit ''moshwatch_threshold_silence_ms'',
       md_help = lit ''Configured silence threshold in milliseconds.'',
       md_kind = Gauge, md_unit = lit ''ms'', md_cardinality = LowCardinality, md_privacy = FleetSafe,
       md_labels = Severity, md_minimum_detail_tier = AggregateOnly\<rparr>]"

definition otlp_metrics :: "metric_descriptor list" where
  "otlp_metrics =
     [
      \<lparr>md_id = IdOtlpExportEnabled, md_name = lit ''moshwatch_otlp_export_enabled'',
       md_help = lit ''Whether OTLP metrics export is enabled for the daemon.'',
       md_kind = Gauge, md_unit = lit ''1'', md_cardinality = LowCardinality, md_privacy = FleetSafe,
       md_labels = ExporterDetailTier, md_minimum_detail_tier = AggregateOnly\<rparr>,
      \<lparr>md_id = IdOtlpExportsTotal, md_name = lit ''moshwatch_otlp_exports_total'',
       md_help = lit ''Number of OTLP metrics export attempts by result.'',
       md_kind = Counter, md_unit = lit ''1'', md_cardinality = LowCardinality, md_privacy = FleetSafe,
       md_labels = ExportResult, md_minimum_detail_tier = AggregateOnly\<rparr>,
      \<lparr>md_id = IdOtlpExportLastDurationMs, md_name = lit ''moshwatch_otlp_export_last_duration_ms'',
       md_help = lit ''Duration of the last OTLP metrics export attempt in milliseconds.'',
       md_kind = Gauge, md_unit = lit ''ms'', md_cardinality = StaticCardinality, md_privacy = FleetSafe,
       md_labels = NoLabels, md_minimum_detail_tier = AggregateOnly\<rparr>,
      \<lparr>md_id = IdOtlpExportLastSuccessUnixMs, md_name = lit ''moshwatch_otlp_export_last_success_unix_ms'',
       md_help = lit ''Unix timestamp in milliseconds of the most recent successful OTLP metrics export.'',
       md_kind = Gauge, md_unit = lit ''ms'', md_cardinality = StaticCardinality, md_privacy = FleetSafe,
       md_labels = NoLabels, md_minimum_detail_tier = AggregateOnly\<rparr>,
      \<lparr>md_id = IdOtlpExportLastFailureUnixMs, md_name = lit ''moshwatch_otlp_export_last_failure_unix_ms'',
       md_help = lit ''Unix timestamp in milliseconds of the most recent failed OTLP metrics export.'',
       md_kind = Gauge, md_unit = lit ''ms'', md_cardinality = StaticCardinality, md_privacy = FleetSafe,
       md_labels = NoLabels, md_minimum_detail_tier = AggregateOnly\<rparr>,
      \<lparr>md_id = IdOtlpExportLastPayloadBytes, md_name = lit ''moshwatch_otlp_export_last_payload_bytes'',
       md_help = lit ''Size in bytes of the most recent OTLP metrics export payload.'',
       md_kind = Gauge, md_unit = lit ''By'', md_cardinality = StaticCardinality, md_privacy = FleetSafe,
       md_labels = NoLabels, md_minimum_detail_tier = AggregateOnly\<rparr>]"

definition session_value_metrics :: "metric_descriptor list" where
  "session_value_metrics =
     [
      \<lparr>md_id = IdSessionInfo, md_name = lit ''moshwatch_session_info'',
       md_help = lit ''Static session metadata kept intentionally small for metrics joins.'',
       md_kind = Info, md_unit = lit ''1'', md_cardinality = PerSessionCardinality, md_privacy = OperatorSensitive,
       md_labels = SessionInfoLabels, md_minimum_detail_tier = PerSession\<rparr>,
      \<lparr>md_id = IdSessionHealthLevel, md_name = lit ''moshwatch_session_health_level'',
       md_help = lit ''Session health severity: ok=0, degraded=1, critical=2, legacy=3.'',
       md_kind = Gauge, md_unit = lit ''1'', md_cardinality = PerSessionCardinality, md_privacy = OperatorSensitive,
       md_labels = SessionValue, md_minimum_detail_tier = PerSession\<rparr>,
      \<lparr>md_id = IdSessionSrttMs, md_name = lit ''moshwatch_session_srtt_ms'',
       md_help = lit ''Smoothed round-trip time in milliseconds.'',
       md_kind = Gauge, md_unit = lit ''ms'', md_cardinality = PerSessionCardinality, md_privacy = OperatorSensitive,
       md_labels = SessionValue, md_minimum_detail_tier = PerSession\<rparr>,
      \<lparr>md_id = IdSessionRttvarMs, md_name = lit ''moshwatch_session_rttvar_ms'',
       md_help = lit ''RTT variance in milliseconds.'',
       md_kind = Gauge, md_unit = lit ''ms'', md_cardinality = PerSessionCardinality, md_privacy = OperatorSensitive,
       md_labels = SessionValue, md_minimum_detail_tier = PerSession\<rparr>,
      \<lparr>md_id = IdSessionLastRttMs, md_name = lit ''moshwatch_session_last_rtt_ms'',
       md_help = lit ''Latest RTT sample in milliseconds.'',
       md_kind = Gauge, md_unit = lit ''ms'', md_cardinality = PerSessionCardinality, md_privacy = OperatorSensitive,
       md_labels = SessionValue, md_minimum_detail_tier = PerSession\<rparr>,
      \<lparr>md_id = IdSessionLastHeardAgeMs, md_name = lit ''moshwatch_session_last_heard_age_ms'',
       md_help = lit ''Age in milliseconds since the daemon last heard any packet from the peer.'',
       md_kind = Gauge, md_unit = lit ''ms'', md_cardinality = PerSessionCardinality, md_privacy = OperatorSensitive,
       md_labels = SessionValue, md_minimum_detail_tier = PerSession\<rparr>,
      \<lparr>md_id = IdSessionRemoteStateAgeMs, md_name = lit ''moshwatch_session_remote_state_age_ms'',
       md_help = lit ''Age in milliseconds since the peer last sent a new remote state.'',
       md_kind = Gauge, md_unit = lit ''ms'', md_cardinality = PerSessionCardinality, md_privacy = OperatorSensitive,
       md_labels = SessionValue, md_minimum_detail_tier = PerSession\<rparr>,
      \<lparr>md_id = IdSessionRetransmitPct10s, md_name = lit ''moshwatch_session_retransmit_pct_10s'',
       md_help = lit ''Retransmit ratio over the last 10 seconds.'',
       md_kind = Gauge, md_unit = lit ''%'', md_cardinality = PerSessionCardinality, md_privacy = OperatorSensitive,
       md_labels = SessionValue, md_minimum_detail_tier = PerSession\<rparr>,
      \<lparr>md_id = IdSessionRetransmitPct60s, md_name = lit ''moshwatch_session_retransmit_pct_60s'',
       md_help = lit ''Retransmit ratio over the last 60 seconds.'',
       md_kind = Gauge, md_unit = lit ''%'', md_cardinality = PerSessionCardinality, md_privacy = OperatorSensitive,
       md_labels = SessionValue, md_minimum_detail_tier = PerSession\<rparr>]"

definition session_window_metrics :: "metric_descriptor list" where
  "session_window_metrics =
     [
      \<lparr>md_id = IdSessionRetransmitWindowComplete, md_name = lit ''moshwatch_session_retransmit_window_complete'',
       md_help = lit ''Whether the retransmit window is fully populated for a given session and window.'',
       md_kind = Gauge, md_unit = lit ''1'', md_cardinality = PerSessionCardinality, md_privacy = OperatorSensitive,
       md_labels = SessionWindow, md_minimum_detail_tier = PerSession\<rparr>,
      \<lparr>md_id = IdSessionRetransmitWindowTransmissions, md_name = lit ''moshwatch_session_retransmit_window_transmissions'',
       md_help = lit ''Number of transmissions counted inside the retransmit lookback window.'',
       md_kind = Gauge, md_unit = lit ''1'', md_cardinality = PerSessionCardinality, md_privacy = OperatorSensitive,
       md_labels = SessionWindow, md_minimum_detail_tier = PerSession\<rparr>,
      \<lparr>md_id = IdSessionRetransmitWindowRetransmits, md_name = lit ''moshwatch_session_retransmit_window_retransmits'',
       md_help = lit ''Number of retransmits counted inside the retransmit lookback window.'',
       md_kind = Gauge, md_unit = lit ''1'', md_cardinality = PerSessionCardinality, md_privacy = OperatorSensitive,
       md_labels = SessionWindow, md_minimum_detail_tier = PerSession\<rparr>,
      \<lparr>md_id = IdSessionRetransmitWindowStateUpdates, md_name = lit ''moshwatch_session_retransmit_window_state_updates'',
       md_help = lit ''Number of state-update transmissions counted inside the retransmit lookback window.'',
       md_kind = Gauge, md_unit = lit ''1'', md_cardinality = PerSessionCardinality, md_privacy = OperatorSensitive,
       md_labels = SessionWindow, md_minimum_detail_tier = PerSession\<rparr>,
      \<lparr>md_id = IdSessionRetransmitWindowEmptyAcks, md_name = lit ''moshwatch_session_retransmit_window_empty_acks'',
       md_help = lit ''Number of empty-ack transmissions counted inside the retransmit lookback window.'',
       md_kind = Gauge, md_unit = lit ''1'', md_cardinality = PerSessionCardinality, md_privacy = OperatorSensitive,
       md_labels = SessionWindow, md_minimum_detail_tier = PerSession\<rparr>]"

definition session_counter_metrics :: "metric_descriptor list" where
  "session_counter_metrics =
     [
      \<lparr>md_id = IdSessionPacketsTxTotal, md_name = lit ''moshwatch_session_packets_tx_total'',
       md_help = lit ''Total transmitted packets seen by the session.'',
       md_kind = Counter, md_unit = lit ''1'', md_cardinality = PerSessionCardinality, md_privacy = OperatorSensitive,
       md_labels = SessionValue, md_minimum_detail_tier = PerSession\<rparr>,
      \<lparr>md_id = IdSessionPacketsRxTotal, md_name = lit ''moshwatch_session_packets_rx_total'',
       md_help = lit ''Total received packets seen by the session.'',
       md_kind = Counter, md_unit = lit ''1'', md_cardinality = PerSessionCardinality, md_privacy = OperatorSensitive,
       md_labels = SessionValue, md_minimum_detail_tier = PerSession\<rparr>,
      \<lparr>md_id = IdSessionRetransmitsTotal, md_name = lit ''moshwatch_session_retransmits_total'',
       md_help = lit ''Total retransmits seen by the session.'',
       md_kind = Counter, md_unit = lit ''1'', md_cardinality = PerSessionCardinality, md_privacy = OperatorSensitive,
       md_labels = SessionValue, md_minimum_detail_tier = PerSession\<rparr>]"

definition metric_catalog :: "metric_descriptor list" where
  "metric_catalog = daemon_metrics @ loop_and_history_metrics @ threshold_metrics @ otlp_metrics
     @ session_value_metrics @ session_window_metrics @ session_counter_metrics"

text \<open>\<open>METRIC_CATALOG.iter().find(...).expect(...)\<close>: \<open>None\<close> is the panic.\<close>

definition find_metric_descriptor :: "metric_id \<Rightarrow> metric_descriptor option" where
  "find_metric_descriptor mid = List.find (\<lambda>d. md_id d = mid) metric_catalog"

end
