(* ===== verification/Float_Text.thy ===== *)
theory Float_Text
  imports Text Float64
begin

text \<open>
  Floats as text: what \<open>str::parse\<close> reads and what \<open>Display\<close> prints, which is the shortest
  decimal number, without an exponent, that reads back as the same value.
\<close>

section \<open>Reading\<close>

text \<open>The grammar of \<open>str::parse\<close> for floats; the exact value, not yet rounded.\<close>

definition parse_exponent :: "rstr \<Rightarrow> int option" where
  "parse_exponent s =
     (case s of
        [] \<Rightarrow> None
      | c # ds \<Rightarrow>
          if c = 43 then map_option int (parse_digits ds)
          else if c = 45 then map_option (\<lambda>n. - int n) (parse_digits ds)
          else map_option int (parse_digits s))"

text \<open>Digits with at most one point among them: the value without the point, and its scale.\<close>

definition parse_mantissa :: "rstr \<Rightarrow> (nat \<times> nat) option" where
  "parse_mantissa s =
     (case split_once s 46 of
        None \<Rightarrow> map_option (\<lambda>n. (n, 0)) (parse_digits s)
      | Some (whole, fraction) \<Rightarrow>
          map_option (\<lambda>n. (n, length fraction)) (parse_digits (whole @ fraction)))"

definition power_10 :: "int \<Rightarrow> rat" where
  "power_10 k = (if 0 \<le> k then 10 ^ nat k else 1 / 10 ^ nat (- k))"

definition parse_unsigned_number :: "rstr \<Rightarrow> rat option" where
  "parse_unsigned_number s =
     (let mantissa = takeWhile (\<lambda>c. c \<noteq> 69 \<and> c \<noteq> 101) s; tail = drop (length mantissa) s in
      case parse_mantissa mantissa of
        None \<Rightarrow> None
      | Some (n, k) \<Rightarrow>
          (case tail of
             [] \<Rightarrow> Some (of_nat n * power_10 (- int k))
           | _ # ex \<Rightarrow>
               map_option (\<lambda>e. of_nat n * power_10 (e - int k)) (parse_exponent ex)))"

datatype parsed_float = Parsed_NaN | Parsed_Inf bool | Parsed rat

definition parse_unsigned_float :: "bool \<Rightarrow> rstr \<Rightarrow> parsed_float option" where
  "parse_unsigned_float negative s =
     (case parse_unsigned_number s of
        Some q \<Rightarrow> Some (Parsed (if negative then - q else q))
      | None \<Rightarrow>
          if eq_ignore_ascii_case s (lit ''inf'') \<or> eq_ignore_ascii_case s (lit ''infinity'')
          then Some (Parsed_Inf negative)
          else if eq_ignore_ascii_case s (lit ''nan'') then Some Parsed_NaN
          else None)"

definition parse_float :: "rstr \<Rightarrow> parsed_float option" where
  "parse_float s =
     (case s of
        [] \<Rightarrow> None
      | c # cs \<Rightarrow>
          if c = 45 then parse_unsigned_float True cs
          else if c = 43 then parse_unsigned_float False cs
          else parse_unsigned_float False s)"

section \<open>Printing\<close>

text \<open>The decimal exponent: \<open>power_10 e \<le> q < power_10 (e + 1)\<close>.\<close>

definition decade :: "rat \<Rightarrow> int" where
  "decade q =
     (if 1 \<le> q then int (length (show_nat (nat \<lfloor>q\<rfloor>))) - 1
      else - int (length (show_nat (nat (\<lceil>1 / q\<rceil> - 1)))))"

text \<open>
  With \<open>n\<close> significant digits: the two neighbours of \<open>q\<close>, kept when they round to \<open>q\<close>; of
  two, the nearer one, and the upper one of a tie.
\<close>

definition decimal_candidate :: "rat \<Rightarrow> nat \<Rightarrow> (nat \<times> int) option" where
  "decimal_candidate q n =
     (let k = decade q - int n + 1; unit = power_10 k;
          lo = nat \<lfloor>q / unit\<rfloor>; hi = lo + 1;
          down = (f64_round (of_nat lo * unit) = F64_Fin q);
          up = (f64_round (of_nat hi * unit) = F64_Fin q)
      in if up \<and> (\<not> down \<or> of_nat lo + of_nat hi \<le> 2 * (q / unit)) then Some (hi, k)
         else if down then Some (lo, k)
         else None)"

text \<open>Seventeen digits are always enough for 53 bits.\<close>

fun first_candidate :: "rat \<Rightarrow> nat list \<Rightarrow> (nat \<times> int) option" where
  "first_candidate q [] = None"
| "first_candidate q (n # ns) =
     (case decimal_candidate q n of Some d \<Rightarrow> Some d | None \<Rightarrow> first_candidate q ns)"

definition strip_zeros :: "rstr \<Rightarrow> rstr" where
  "strip_zeros s = rev (dropWhile (\<lambda>c. c = 48) (rev s))"

text \<open>\<open>c * 10 ^ k\<close> in positional notation.\<close>

definition show_decimal :: "nat \<Rightarrow> int \<Rightarrow> rstr" where
  "show_decimal c k =
     (if 0 \<le> k then show_nat (c * 10 ^ nat k)
      else let p = nat (- k); digits = show_nat (c mod 10 ^ p);
               fraction = strip_zeros (replicate (p - length digits) 48 @ digits)
           in show_nat (c div 10 ^ p) @ (if fraction = [] then [] else 46 # fraction))"

definition f64_display_pos :: "rat \<Rightarrow> rstr" where
  "f64_display_pos q =
     (case first_candidate q [1..<18] of Some (c, k) \<Rightarrow> show_decimal c k | None \<Rightarrow> [])"

fun f64_display :: "f64 \<Rightarrow> rstr" where
  "f64_display F64_NaN = lit ''NaN''"
| "f64_display (F64_Inf negative) = (if negative then lit ''-inf'' else lit ''inf'')"
| "f64_display (F64_Fin q) =
     (if q = 0 then [48] else if q < 0 then 45 # f64_display_pos (- q) else f64_display_pos q)"

end
