(* ===== verification/Negotiation.thy ===== *)
theory Negotiation
  imports Float_Text
begin

text \<open>
  Content negotiation of the metrics endpoint (\<open>metrics.rs\<close>): the \<open>Accept\<close> header, its
  media ranges, qualities and parameters, and the format that is chosen.
\<close>

section \<open>Qualities\<close>

text \<open>The type \<open>f32\<close>: 24 significant bits, least exponent -149.\<close>

definition f32_quantum :: "rat \<Rightarrow> rat" where
  "f32_quantum q = pow2 (max (binade q - 23) (- 149))"

text \<open>A finite \<open>f32\<close> as a rational, or \<open>None\<close> when the rounding overflows.\<close>

definition f32_round :: "rat \<Rightarrow> rat option" where
  "f32_round q =
     (if q = 0 then Some 0
      else let r = of_int (round_half_even (\<bar>q\<bar> / f32_quantum \<bar>q\<bar>)) * f32_quantum \<bar>q\<bar>
           in if pow2 128 \<le> r then None else Some (if q < 0 then - r else r))"

text \<open>\<open>(0.0..=1.0).contains(&parsed)\<close>; a quality is kept as the exact value of the \<open>f32\<close>.\<close>

definition parse_quality :: "rstr \<Rightarrow> rat option" where
  "parse_quality s =
     (case parse_float s of
        Some (Parsed q) \<Rightarrow>
          (case f32_round q of Some r \<Rightarrow> if 0 \<le> r \<and> r \<le> 1 then Some r else None | None \<Rightarrow> None)
      | _ \<Rightarrow> None)"

section \<open>Media ranges\<close>

record accept_match =
  am_quality :: rat
  am_specificity :: nat

record accept_preference =
  ap_openmetrics :: "accept_match option"
  ap_text_plain :: "accept_match option"

definition no_preference :: accept_preference where
  "no_preference = \<lparr>ap_openmetrics = None, ap_text_plain = None\<rparr>"

datatype metrics_text_format = PrometheusText | OpenMetricsText

definition accept_media_type_matches :: "rstr \<Rightarrow> rstr \<Rightarrow> nat option" where
  "accept_media_type_matches candidate expected =
     (case (split_once candidate 47, split_once expected 47) of
        (Some (ct, cs), Some (et, es)) \<Rightarrow>
          let ct = trim ct; cs = trim cs in
          if ct = lit ''*'' \<and> cs = lit ''*'' then Some 0
          else if cs = lit ''*'' \<and> eq_ignore_ascii_case ct et then Some 1
          else if eq_ignore_ascii_case ct et \<and> eq_ignore_ascii_case cs es then Some 2
          else None
      | _ \<Rightarrow> None)"

record range_parameters =
  rp_quality :: rat
  rp_version :: "rstr option"
  rp_charset :: "rstr option"

text \<open>The loop over the parameters; a malformed one or a quality outside 0..1 rejects the range.\<close>

fun range_parameters_of :: "rstr list \<Rightarrow> range_parameters \<Rightarrow> range_parameters option" where
  "range_parameters_of [] p = Some p"
| "range_parameters_of (parameter # rest) p =
     (case split_once parameter 61 of
        None \<Rightarrow> None
      | Some (raw_name, raw_value) \<Rightarrow>
          let name = trim raw_name; v = trim_char 34 (trim raw_value) in
          if eq_ignore_ascii_case name (lit ''q'') then
            (case parse_quality v of
               None \<Rightarrow> None
             | Some q \<Rightarrow> range_parameters_of rest (p\<lparr>rp_quality := q\<rparr>))
          else if eq_ignore_ascii_case name (lit ''version'') then
            range_parameters_of rest (p\<lparr>rp_version := Some v\<rparr>)
          else if eq_ignore_ascii_case name (lit ''charset'') then
            range_parameters_of rest (p\<lparr>rp_charset := Some v\<rparr>)
          else range_parameters_of rest p)"

definition accept_item_quality :: "rstr \<Rightarrow> rstr \<Rightarrow> rstr \<Rightarrow> accept_match option" where
  "accept_item_quality item expected_media_type expected_version =
     (let parts = split_on 59 item; media_type = trim (hd parts) in
      if media_type = [] then None
      else (case accept_media_type_matches media_type expected_media_type of
              None \<Rightarrow> None
            | Some specificity \<Rightarrow>
                (case range_parameters_of (tl parts) \<lparr>rp_quality = 1, rp_version = None, rp_charset = None\<rparr> of
                   None \<Rightarrow> None
                 | Some p \<Rightarrow>
                     if (case rp_version p of Some v \<Rightarrow> v \<noteq> expected_version | None \<Rightarrow> False) then None
                     else if (case rp_charset p of Some c \<Rightarrow> \<not> eq_ignore_ascii_case c (lit ''utf-8'') | None \<Rightarrow> False)
                     then None
                     else Some \<lparr>am_quality = rp_quality p, am_specificity = specificity\<rparr>)))"

section \<open>Preferences\<close>

definition is_candidate_preferred_over :: "accept_match \<Rightarrow> accept_match \<Rightarrow> bool" where
  "is_candidate_preferred_over a b \<longleftrightarrow>
     am_specificity a > am_specificity b
     \<or> (am_specificity a = am_specificity b \<and> am_quality a > am_quality b)"

definition is_finally_preferred_over :: "accept_match \<Rightarrow> accept_match \<Rightarrow> bool" where
  "is_finally_preferred_over a b \<longleftrightarrow>
     am_quality a > am_quality b
     \<or> (am_quality a = am_quality b \<and> am_specificity a > am_specificity b)"

fun merge_accept_match :: "accept_match option \<Rightarrow> accept_match option \<Rightarrow> accept_match option" where
  "merge_accept_match (Some current) (Some candidate) =
     (if is_candidate_preferred_over candidate current then Some candidate else Some current)"
| "merge_accept_match (Some current) None = Some current"
| "merge_accept_match None (Some candidate) = Some candidate"
| "merge_accept_match None None = None"

definition prefers_openmetrics :: "accept_preference \<Rightarrow> bool" where
  "prefers_openmetrics p =
     (case (ap_openmetrics p, ap_text_plain p) of
        (Some om, Some tp) \<Rightarrow> is_finally_preferred_over om tp
      | (Some om, None) \<Rightarrow> am_quality om > 0
      | _ \<Rightarrow> False)"

definition openmetrics_type :: rstr where "openmetrics_type = lit ''application/openmetrics-text''"
definition text_plain_type :: rstr where "text_plain_type = lit ''text/plain''"
definition OPENMETRICS_TEXT_VERSION :: rstr where "OPENMETRICS_TEXT_VERSION = lit ''1.0.0''"
definition PROMETHEUS_TEXT_VERSION :: rstr where "PROMETHEUS_TEXT_VERSION = lit ''0.0.4''"

definition add_accept_item :: "rstr \<Rightarrow> accept_preference \<Rightarrow> accept_preference" where
  "add_accept_item item p =
     p\<lparr>ap_openmetrics :=
          (case accept_item_quality item openmetrics_type OPENMETRICS_TEXT_VERSION of
             Some c \<Rightarrow> merge_accept_match (ap_openmetrics p) (Some c) | None \<Rightarrow> ap_openmetrics p),
       ap_text_plain :=
          (case accept_item_quality item text_plain_type PROMETHEUS_TEXT_VERSION of
             Some c \<Rightarrow> merge_accept_match (ap_text_plain p) (Some c) | None \<Rightarrow> ap_text_plain p)\<rparr>"

definition accept_header_preference :: "rstr \<Rightarrow> accept_preference" where
  "accept_header_preference v = fold add_accept_item (split_on 44 v) no_preference"

text \<open>The header lines up to the first empty one; \<open>saw\<close> remembers whether any was \<open>Accept\<close>.\<close>

fun scan_accept_headers :: "rstr list \<Rightarrow> accept_preference \<Rightarrow> bool \<Rightarrow> accept_preference \<times> bool" where
  "scan_accept_headers [] p saw = (p, saw)"
| "scan_accept_headers (raw # rest) p saw =
     (let line = trim_end_char 13 raw in
      if line = [] then (p, saw)
      else (case split_once line 58 of
              None \<Rightarrow> scan_accept_headers rest p saw
            | Some (name, v) \<Rightarrow>
                if \<not> eq_ignore_ascii_case name (lit ''accept'') then scan_accept_headers rest p saw
                else let parsed = accept_header_preference v in
                     scan_accept_headers rest
                       \<lparr>ap_openmetrics = merge_accept_match (ap_openmetrics p) (ap_openmetrics parsed),
                        ap_text_plain = merge_accept_match (ap_text_plain p) (ap_text_plain parsed)\<rparr> True))"

definition requested_metrics_format :: "rstr \<Rightarrow> metrics_text_format option" where
  "requested_metrics_format request =
     (let (p, saw) = scan_accept_headers (drop 1 (text_lines request)) no_preference False in
      if prefers_openmetrics p then Some OpenMetricsText
      else if (case ap_text_plain p of Some tp \<Rightarrow> am_quality tp > 0 | None \<Rightarrow> False) then Some PrometheusText
      else if \<not> saw then Some PrometheusText
      else None)"

definition metrics_content_type :: "metrics_text_format \<Rightarrow> rstr" where
  "metrics_content_type f =
     (case f of
        PrometheusText \<Rightarrow> lit ''text/plain; version=0.0.4; charset=utf-8''
      | OpenMetricsText \<Rightarrow> lit ''application/openmetrics-text; version=1.0.0; charset=utf-8'')"

end
