(* ===== verification/Runtime_Stats.thy ===== *)
theory Runtime_Stats
  imports Prelude
begin

text \<open>
  The daemon's own loop statistics (\<open>moshwatchd/src/runtime_stats.rs\<close>).  Each atomic is a
  field; durations are given in milliseconds, as \<open>as_millis\<close> yields them (a \<open>u128\<close>).
\<close>

definition DAEMON_WORKER_THREADS :: u64 where "DAEMON_WORKER_THREADS = 2"

record loop_stats =
  ls_interval_ms :: u64
  ls_last_duration_ms :: u64
  ls_overruns_total :: u64

record runtime_stats =
  rt_discovery :: loop_stats
  rt_history :: loop_stats
  rt_snapshot :: loop_stats

definition new_loop :: "u64 \<Rightarrow> loop_stats" where
  "new_loop interval = \<lparr>ls_interval_ms = interval, ls_last_duration_ms = 0, ls_overruns_total = 0\<rparr>"

definition new_runtime_stats :: "u64 \<Rightarrow> u64 option \<Rightarrow> u64 \<Rightarrow> runtime_stats" where
  "new_runtime_stats discovery history snapshot =
     \<lparr>rt_discovery = new_loop discovery,
      rt_history = new_loop (case history of Some v \<Rightarrow> v | None \<Rightarrow> 0),
      rt_snapshot = new_loop snapshot\<rparr>"

text \<open>\<open>fetch_add\<close> wraps around.\<close>

definition record_loop :: "nat \<Rightarrow> loop_stats \<Rightarrow> loop_stats" where
  "record_loop elapsed_millis l =
     (let elapsed_ms = (if elapsed_millis < 2 ^ 64 then of_nat elapsed_millis else - 1);
          l1 = l\<lparr>ls_last_duration_ms := elapsed_ms\<rparr>
      in if ls_interval_ms l1 > 0 \<and> elapsed_ms > ls_interval_ms l1
         then l1\<lparr>ls_overruns_total := ls_overruns_total l1 + 1\<rparr> else l1)"

definition record_discovery :: "nat \<Rightarrow> runtime_stats \<Rightarrow> runtime_stats" where
  "record_discovery elapsed s = s\<lparr>rt_discovery := record_loop elapsed (rt_discovery s)\<rparr>"

definition record_history :: "nat \<Rightarrow> runtime_stats \<Rightarrow> runtime_stats" where
  "record_history elapsed s = s\<lparr>rt_history := record_loop elapsed (rt_history s)\<rparr>"

definition record_snapshot :: "nat \<Rightarrow> runtime_stats \<Rightarrow> runtime_stats" where
  "record_snapshot elapsed s = s\<lparr>rt_snapshot := record_loop elapsed (rt_snapshot s)\<rparr>"

record runtime_stats_snapshot =
  rs_discovery_interval_ms :: u64
  rs_discovery_last_duration_ms :: u64
  rs_discovery_overruns_total :: u64
  rs_history_interval_ms :: u64
  rs_history_last_duration_ms :: u64
  rs_history_overruns_total :: u64
  rs_snapshot_interval_ms :: u64
  rs_snapshot_last_duration_ms :: u64
  rs_snapshot_overruns_total :: u64

definition runtime_snapshot :: "runtime_stats \<Rightarrow> runtime_stats_snapshot" where
  "runtime_snapshot s =
     \<lparr>rs_discovery_interval_ms = ls_interval_ms (rt_discovery s),
      rs_discovery_last_duration_ms = ls_last_duration_ms (rt_discovery s),
      rs_discovery_overruns_total = ls_overruns_total (rt_discovery s),
      rs_history_interval_ms = ls_interval_ms (rt_history s),
      rs_history_last_duration_ms = ls_last_duration_ms (rt_history s),
      rs_history_overruns_total = ls_overruns_total (rt_history s),
      rs_snapshot_interval_ms = ls_interval_ms (rt_snapshot s),
      rs_snapshot_last_duration_ms = ls_last_duration_ms (rt_snapshot s),
      rs_snapshot_overruns_total = ls_overruns_total (rt_snapshot s)\<rparr>"

end
