(* ===== verification/Metrics.thy ===== *)
theory Metrics
  imports Observability Negotiation Registry History Runtime_Stats
begin

text \<open>
  The metrics of \<open>moshwatchd/src/metrics.rs\<close>: collection from the registry, the history store
  and the loops, the text formats, and the OTLP request.  The version string of the
  package is a parameter; the sample map goes from metric ids to series.
\<close>

definition MAX_METRICS_RENDERED_SESSIONS :: nat where "MAX_METRICS_RENDERED_SESSIONS = 256"

section \<open>Samples\<close>

type_synonym labels = "(rstr \<times> rstr) list"

record metric_sample =
  ms_labels :: labels
  ms_value :: f64
  ms_start_time_unix_nano :: "u64 option"

type_synonym sample_map = "metric_id \<Rightarrow> metric_sample list option"

record collection_options =
  co_detail_tier :: metrics_detail_tier
  co_include_observer_info :: bool

record otlp_stats =
  os_success_total :: u64
  os_failure_total :: u64
  os_last_duration_ms :: "u64 option"
  os_last_success_unix_ms :: "i64 option"
  os_last_failure_unix_ms :: "i64 option"
  os_last_payload_bytes :: "u64 option"

definition f64_of_usize :: "nat \<Rightarrow> f64" where "f64_of_usize n = f64_round (of_nat n)"
definition f64_of_i64 :: "i64 \<Rightarrow> f64" where "f64_of_i64 i = f64_round (of_int i)"

definition unix_nanos :: "i64 \<Rightarrow> u64" where
  "unix_nanos unix_ms = u64_saturating_mul (i64_as_u64 (max unix_ms 0)) 1000000"

text \<open>
  The \<open>add_\<close> functions append to the series of an id.  Here each yields the additions it
  makes, in order, and \<open>store_samples\<close> performs them.
\<close>

type_synonym additions = "(metric_id \<times> metric_sample) list"

definition add_sample_with_start_time :: "metric_id \<Rightarrow> labels \<Rightarrow> f64 \<Rightarrow> u64 option \<Rightarrow> additions" where
  "add_sample_with_start_time mid ls v start =
     [(mid, \<lparr>ms_labels = ls, ms_value = v, ms_start_time_unix_nano = start\<rparr>)]"

definition add_sample :: "metric_id \<Rightarrow> labels \<Rightarrow> f64 \<Rightarrow> additions" where
  "add_sample mid ls v = add_sample_with_start_time mid ls v None"

definition add_optional_sample :: "metric_id \<Rightarrow> labels \<Rightarrow> f64 option \<Rightarrow> additions" where
  "add_optional_sample mid ls v = (case v of Some x \<Rightarrow> add_sample mid ls x | None \<Rightarrow> [])"

definition add_optional_counter_sample :: "metric_id \<Rightarrow> labels \<Rightarrow> i64 \<Rightarrow> f64 option \<Rightarrow> additions" where
  "add_optional_counter_sample mid ls start_unix_ms v =
     (case v of Some x \<Rightarrow> add_sample_with_start_time mid ls x (Some (unix_nanos start_unix_ms)) | None \<Rightarrow> [])"

definition store_sample :: "metric_id \<times> metric_sample \<Rightarrow> sample_map \<Rightarrow> sample_map" where
  "store_sample e m =
     m(fst e \<mapsto> (case m (fst e) of Some series \<Rightarrow> series @ [snd e] | None \<Rightarrow> [snd e]))"

definition store_samples :: "additions \<Rightarrow> sample_map" where
  "store_samples adds = fold store_sample adds Map.empty"

section \<open>Labels\<close>

fun kind_label :: "session_kind \<Rightarrow> rstr" where
  "kind_label Instrumented = lit ''instrumented''"
| "kind_label LegacyKind = lit ''legacy''"

fun health_label :: "health_state \<Rightarrow> rstr" where
  "health_label Ok = lit ''ok''"
| "health_label Degraded = lit ''degraded''"
| "health_label Critical = lit ''critical''"
| "health_label LegacyHealth = lit ''legacy''"

fun health_level :: "health_state \<Rightarrow> nat" where
  "health_level Ok = 0"
| "health_level Degraded = 1"
| "health_level Critical = 2"
| "health_level LegacyHealth = 3"

fun detail_tier_label :: "metrics_detail_tier \<Rightarrow> rstr" where
  "detail_tier_label AggregateOnly = lit ''aggregate_only''"
| "detail_tier_label PerSession = lit ''per_session''"

definition session_info_labels :: "session_summary \<Rightarrow> labels" where
  "session_info_labels s =
     [(lit ''session_id'', ss_session_id s),
      (lit ''display_session_id'', case ss_display_session_id s of Some d \<Rightarrow> d | None \<Rightarrow> []),
      (lit ''kind'', kind_label (ss_kind s)),
      (lit ''pid'', show_int (ss_pid s)),
      (lit ''started_at_unix_ms'', show_int (ss_started_at_unix_ms s))]"

definition session_value_labels :: "session_summary \<Rightarrow> labels" where
  "session_value_labels s =
     [(lit ''session_id'', ss_session_id s), (lit ''kind'', kind_label (ss_kind s))]"

definition window_labels :: "labels \<Rightarrow> string \<Rightarrow> labels" where
  "window_labels ls window = ls @ [(lit ''window'', lit window)]"

section \<open>Collection\<close>

definition add_runtime_loop_samples :: "string \<Rightarrow> u64 \<Rightarrow> u64 \<Rightarrow> u64 \<Rightarrow> additions" where
  "add_runtime_loop_samples loop_name interval last_duration overruns =
     (if interval = 0 then []
      else let ls = [(lit ''loop'', lit loop_name)] in
        add_sample IdRuntimeLoopIntervalMs ls (f64_of_u64 interval)
        @ add_sample IdRuntimeLoopLastDurationMs ls (f64_of_u64 last_duration)
        @ add_sample IdRuntimeLoopOverrunsTotal ls (f64_of_u64 overruns))"

definition inventory_samples ::
    "rstr \<Rightarrow> observer_info \<Rightarrow> exported_summaries \<Rightarrow> collection_options \<Rightarrow> additions" where
  "inventory_samples version ob ex opts =
     add_sample IdBuildInfo [(lit ''version'', version)] (F64_Fin 1)
     @ (if co_include_observer_info opts then
          add_sample IdObserverInfo
            [(lit ''node_name'', node_name ob), (lit ''system_id'', system_id ob)] (F64_Fin 1)
        else [])
     @ add_sample IdSessions [(lit ''kind'', lit ''instrumented'')] (f64_of_usize (ex_instrumented_sessions ex))
     @ add_sample IdSessions [(lit ''kind'', lit ''legacy'')] (f64_of_usize (ex_legacy_sessions ex))
     @ concat (map (\<lambda>hc. add_sample IdSessionsByHealth
            [(lit ''kind'', kind_label (hc_kind hc)), (lit ''health'', health_label (hc_health hc))]
            (f64_of_usize (hc_sessions hc))) (ex_health_counts ex))
     @ add_sample IdMetricsRenderedSessions []
         (f64_of_usize (if includes_sessions (co_detail_tier opts) then length (ex_sessions ex) else 0))
     @ add_sample IdMetricsTruncatedSessions []
         (f64_of_usize (if includes_sessions (co_detail_tier opts) then ex_truncated_session_count ex else 0))
     @ add_sample IdRuntimeDroppedSessionsTotal [] (f64_of_u64 (ex_dropped_sessions_total ex))
     @ add_sample IdRuntimeWorkerThreads [] (f64_of_u64 DAEMON_WORKER_THREADS)"

definition runtime_samples :: "runtime_stats_snapshot \<Rightarrow> additions" where
  "runtime_samples rt =
     add_runtime_loop_samples ''discovery'' (rs_discovery_interval_ms rt)
         (rs_discovery_last_duration_ms rt) (rs_discovery_overruns_total rt)
     @ add_runtime_loop_samples ''history'' (rs_history_interval_ms rt)
         (rs_history_last_duration_ms rt) (rs_history_overruns_total rt)
     @ add_runtime_loop_samples ''snapshot'' (rs_snapshot_interval_ms rt)
         (rs_snapshot_last_duration_ms rt) (rs_snapshot_overruns_total rt)"

definition history_samples :: "history_stats_snapshot option \<Rightarrow> additions" where
  "history_samples history =
     (let h = (case history of Some h \<Rightarrow> h
               | None \<Rightarrow> \<lparr>hs_current_bytes = 0, hs_written_bytes_total = 0, hs_write_failures_total = 0,
                          hs_prune_failures_total = 0, hs_dropped_samples_total = 0\<rparr>) in
      add_sample IdHistoryCurrentBytes [] (f64_of_u64 (hs_current_bytes h))
      @ add_sample IdHistoryWrittenBytesTotal [] (f64_of_u64 (hs_written_bytes_total h))
      @ add_sample IdHistoryWriteFailuresTotal [] (f64_of_u64 (hs_write_failures_total h))
      @ add_sample IdHistoryPruneFailuresTotal [] (f64_of_u64 (hs_prune_failures_total h))
      @ add_sample IdHistoryDroppedSamplesTotal [] (f64_of_u64 (hs_dropped_samples_total h)))"

definition threshold_samples :: "health_thresholds \<Rightarrow> additions" where
  "threshold_samples t =
     add_sample IdThresholdRttMs [(lit ''severity'', lit ''warn'')] (f64_of_u64 (warn_rtt_ms t))
     @ add_sample IdThresholdRttMs [(lit ''severity'', lit ''critical'')] (f64_of_u64 (critical_rtt_ms t))
     @ add_sample IdThresholdRetransmitPct [(lit ''severity'', lit ''warn'')] (warn_retransmit_pct t)
     @ add_sample IdThresholdRetransmitPct [(lit ''severity'', lit ''critical'')] (critical_retransmit_pct t)
     @ add_sample IdThresholdSilenceMs [(lit ''severity'', lit ''warn'')] (f64_of_u64 (warn_silence_ms t))
     @ add_sample IdThresholdSilenceMs [(lit ''severity'', lit ''critical'')] (f64_of_u64 (critical_silence_ms t))"

definition otlp_samples :: "otlp_config \<Rightarrow> otlp_stats \<Rightarrow> additions" where
  "otlp_samples otl st =
     add_sample IdOtlpExportEnabled [(lit ''detail_tier'', detail_tier_label (otlp_detail_tier otl))]
         (if otlp_enabled otl then F64_Fin 1 else F64_Fin 0)
     @ add_sample IdOtlpExportsTotal [(lit ''result'', lit ''success'')] (f64_of_u64 (os_success_total st))
     @ add_sample IdOtlpExportsTotal [(lit ''result'', lit ''failure'')] (f64_of_u64 (os_failure_total st))
     @ add_optional_sample IdOtlpExportLastDurationMs [] (map_option f64_of_u64 (os_last_duration_ms st))
     @ add_optional_sample IdOtlpExportLastSuccessUnixMs [] (map_option f64_of_i64 (os_last_success_unix_ms st))
     @ add_optional_sample IdOtlpExportLastFailureUnixMs [] (map_option f64_of_i64 (os_last_failure_unix_ms st))
     @ add_optional_sample IdOtlpExportLastPayloadBytes [] (map_option f64_of_u64 (os_last_payload_bytes st))"

definition window_samples :: "session_metrics \<Rightarrow> labels \<Rightarrow> additions" where
  "window_samples m ls =
     (let w10 = window_labels ls ''10s''; w60 = window_labels ls ''60s'';
          b10 = sm_retransmit_window_10s_breakdown m; b60 = sm_retransmit_window_60s_breakdown m in
      add_sample IdSessionRetransmitWindowComplete w10
          (if sm_retransmit_window_10s_complete m then F64_Fin 1 else F64_Fin 0)
      @ add_sample IdSessionRetransmitWindowComplete w60
          (if sm_retransmit_window_60s_complete m then F64_Fin 1 else F64_Fin 0)
      @ add_optional_sample IdSessionRetransmitWindowTransmissions w10 (map_option f64_of_u64 (rb_transmissions_total b10))
      @ add_optional_sample IdSessionRetransmitWindowTransmissions w60 (map_option f64_of_u64 (rb_transmissions_total b60))
      @ add_optional_sample IdSessionRetransmitWindowRetransmits w10 (map_option f64_of_u64 (rb_retransmits_total b10))
      @ add_optional_sample IdSessionRetransmitWindowRetransmits w60 (map_option f64_of_u64 (rb_retransmits_total b60))
      @ add_optional_sample IdSessionRetransmitWindowStateUpdates w10 (map_option f64_of_u64 (rb_state_updates_total b10))
      @ add_optional_sample IdSessionRetransmitWindowStateUpdates w60 (map_option f64_of_u64 (rb_state_updates_total b60))
      @ add_optional_sample IdSessionRetransmitWindowEmptyAcks w10 (map_option f64_of_u64 (rb_empty_acks_total b10))
      @ add_optional_sample IdSessionRetransmitWindowEmptyAcks w60 (map_option f64_of_u64 (rb_empty_acks_total b60)))"

definition session_samples :: "session_summary \<Rightarrow> additions" where
  "session_samples s =
     (let m = ss_metrics s; ls = session_value_labels s;
          start = (case ss_counter_reset_unix_ms s of Some t \<Rightarrow> t | None \<Rightarrow> ss_started_at_unix_ms s) in
      add_sample IdSessionInfo (session_info_labels s) (F64_Fin 1)
      @ add_sample IdSessionHealthLevel ls (f64_of_usize (health_level (ss_health s)))
      @ add_optional_sample IdSessionSrttMs ls (sm_srtt_ms m)
      @ add_optional_sample IdSessionRttvarMs ls (sm_rttvar_ms m)
      @ add_optional_sample IdSessionLastRttMs ls (sm_last_rtt_ms m)
      @ add_optional_sample IdSessionLastHeardAgeMs ls (map_option f64_of_u64 (sm_last_heard_age_ms m))
      @ add_optional_sample IdSessionRemoteStateAgeMs ls (map_option f64_of_u64 (sm_remote_state_age_ms m))
      @ add_optional_sample IdSessionRetransmitPct10s ls (sm_retransmit_pct_10s m)
      @ add_optional_sample IdSessionRetransmitPct60s ls (sm_retransmit_pct_60s m)
      @ window_samples m ls
      @ add_optional_counter_sample IdSessionPacketsTxTotal ls start (map_option f64_of_u64 (sm_packets_tx_total m))
      @ add_optional_counter_sample IdSessionPacketsRxTotal ls start (map_option f64_of_u64 (sm_packets_rx_total m))
      @ add_optional_counter_sample IdSessionRetransmitsTotal ls start (map_option f64_of_u64 (sm_retransmits_total m)))"

definition collect_additions ::
    "rstr \<Rightarrow> app_config \<Rightarrow> observer_info \<Rightarrow> exported_summaries \<Rightarrow> history_stats_snapshot option
     \<Rightarrow> runtime_stats_snapshot \<Rightarrow> otlp_stats \<Rightarrow> collection_options \<Rightarrow> additions" where
  "collect_additions version c ob ex history rt otlp opts =
     inventory_samples version ob ex opts @ runtime_samples rt @ history_samples history
     @ threshold_samples (thresholds c) @ otlp_samples (mc_otlp (metrics_cfg c)) otlp
     @ (if includes_sessions (co_detail_tier opts) then concat (map session_samples (ex_sessions ex)) else [])"

definition collect_metric_samples ::
    "rstr \<Rightarrow> app_config \<Rightarrow> observer_info \<Rightarrow> exported_summaries \<Rightarrow> history_stats_snapshot option
     \<Rightarrow> runtime_stats_snapshot \<Rightarrow> otlp_stats \<Rightarrow> collection_options \<Rightarrow> sample_map" where
  "collect_metric_samples version c ob ex history rt otlp opts =
     store_samples (collect_additions version c ob ex history rt otlp opts)"

section \<open>The text formats\<close>

text \<open>\<open>str::replace\<close> of one character, in the order of the source.\<close>

definition replace_char :: "uchar \<Rightarrow> rstr \<Rightarrow> rstr \<Rightarrow> rstr" where
  "replace_char c r s = concat (map (\<lambda>x. if x = c then r else [x]) s)"

definition escape_label :: "rstr \<Rightarrow> rstr" where
  "escape_label v = replace_char 34 [92, 34] (replace_char 10 [92, 110] (replace_char 92 [92, 92] v))"

definition render_label :: "rstr \<times> rstr \<Rightarrow> rstr" where
  "render_label l = fst l @ [61, 34] @ escape_label (snd l) @ [34]"

definition sample_line :: "metric_descriptor \<Rightarrow> metric_sample \<Rightarrow> rstr" where
  "sample_line d s =
     (if ms_labels s = [] then md_name d @ [32] @ f64_display (ms_value s)
      else md_name d @ [123] @ join_with [44] (map render_label (ms_labels s)) @ [125, 32]
           @ f64_display (ms_value s))"

definition render_metric_sample :: "metric_descriptor \<Rightarrow> metric_sample \<Rightarrow> rstr" where
  "render_metric_sample d s = sample_line d s @ [10]"

fun metric_type_text :: "metric_kind \<Rightarrow> metrics_text_format \<Rightarrow> rstr" where
  "metric_type_text Gauge f = lit ''gauge''"
| "metric_type_text Counter f = lit ''counter''"
| "metric_type_text Info PrometheusText = lit ''gauge''"
| "metric_type_text Info OpenMetricsText = lit ''info''"

definition render_family :: "sample_map \<Rightarrow> metrics_text_format \<Rightarrow> metric_descriptor \<Rightarrow> rstr" where
  "render_family samples f d =
     (case samples (md_id d) of
        None \<Rightarrow> []
      | Some series \<Rightarrow>
          lit ''# HELP '' @ md_name d @ [32] @ md_help d @ [10]
          @ lit ''# TYPE '' @ md_name d @ [32] @ metric_type_text (md_kind d) f @ [10]
          @ concat (map (render_metric_sample d) series))"

definition render_metric_samples :: "sample_map \<Rightarrow> metrics_text_format \<Rightarrow> rstr" where
  "render_metric_samples samples f =
     concat (map (render_family samples f) metric_catalog)
     @ (if f = OpenMetricsText then lit ''# EOF'' @ [10] else [])"

definition render_metrics ::
    "rstr \<Rightarrow> app_config \<Rightarrow> observer_info \<Rightarrow> exported_summaries \<Rightarrow> history_stats_snapshot option
     \<Rightarrow> runtime_stats_snapshot \<Rightarrow> otlp_stats \<Rightarrow> metrics_text_format \<Rightarrow> rstr" where
  "render_metrics version c ob ex history rt otlp f =
     (let tier = prom_detail_tier (mc_prometheus (metrics_cfg c)) in
      render_metric_samples
        (collect_metric_samples version c ob ex history rt otlp
           \<lparr>co_detail_tier = tier, co_include_observer_info = includes_sessions tier\<rparr>) f)"

end
