(* ===== verification/Http.thy ===== *)
theory Http
  imports Text Line_Reader
begin

text \<open>
  The hand-written HTTP of \<open>moshwatchd\<close>: reading a request head, taking the request line
  apart, header lines, query strings, and response heads.  \<open>api.rs\<close> and \<open>metrics.rs\<close> have
  the same head reader and slightly different response writers.
\<close>

section \<open>Request heads\<close>

definition MAX_REQUEST_HEAD_BYTES :: nat where "MAX_REQUEST_HEAD_BYTES = 16 * 1024"

datatype 'e head_error = HeadTooLong | HeadCutShort | HeadReadFailed 'e

definition head_end :: bytes where "head_end = [13, 10, 13, 10]"

text \<open>\<open>buffer.windows(4).any(|window| window == b"\r\n\r\n")\<close>\<close>

definition head_complete :: "bytes \<Rightarrow> bool" where
  "head_complete buffer \<longleftrightarrow> list_ex (\<lambda>i. take 4 (drop i buffer) = head_end) [0..<length buffer]"

text \<open>One \<open>read\<close> into 1024 bytes takes what the current chunk has, and nothing at the end.\<close>

function read_head_loop :: "bytes \<Rightarrow> 'e reader \<Rightarrow> 'e head_error + rstr" where
  "read_head_loop buffer r =
     (if head_complete buffer then Inr (from_utf8_lossy buffer)
      else if length buffer \<ge> MAX_REQUEST_HEAD_BYTES then Inl HeadTooLong
      else (case r of
              Fault e # _ \<Rightarrow> Inl (HeadReadFailed e)
            | Chunk (b # bs) # _ \<Rightarrow> read_head_loop (buffer @ take 1024 (b # bs)) (consume 1024 r)
            | _ \<Rightarrow> (if buffer = [] then Inr [] else Inl HeadCutShort)))"
  by pat_completeness auto
termination
  by (relation "measure (\<lambda>(buffer, r). MAX_REQUEST_HEAD_BYTES - length buffer)") auto

declare read_head_loop.simps [simp del]

definition read_request_head :: "'e reader \<Rightarrow> 'e head_error + rstr" where
  "read_request_head r = read_head_loop [] r"

text \<open>\<open>metrics.rs\<close> has the same function again.\<close>

definition metrics_read_request_head :: "'e reader \<Rightarrow> 'e head_error + rstr" where
  "metrics_read_request_head r = read_head_loop [] r"

text \<open>The first line, its first two words.\<close>

definition request_line_parts :: "rstr \<Rightarrow> rstr \<times> rstr" where
  "request_line_parts request =
     (let line = (case text_lines request of [] \<Rightarrow> [] | l # _ \<Rightarrow> l);
          parts = split_whitespace line
      in (case parts of [] \<Rightarrow> ([], []) | [m] \<Rightarrow> (m, []) | m # t # _ \<Rightarrow> (m, t)))"

definition split_target :: "rstr \<Rightarrow> rstr \<times> rstr option" where
  "split_target target =
     (case split_once target 63 of Some (path, query) \<Rightarrow> (path, Some query) | None \<Rightarrow> (target, None))"

section \<open>Queries\<close>

fun find_query_value :: "rstr \<Rightarrow> rstr list \<Rightarrow> rstr option" where
  "find_query_value key [] = None"
| "find_query_value key (pair # pairs) =
     (if pair = [] then find_query_value key pairs
      else let (name, value) = (case split_once pair 61 of Some nv \<Rightarrow> nv | None \<Rightarrow> (pair, []))
           in if name = key then Some value else find_query_value key pairs)"

definition parse_query_value :: "rstr option \<Rightarrow> rstr \<Rightarrow> rstr option" where
  "parse_query_value query key = Option.bind query (\<lambda>q. find_query_value key (split_on 38 q))"

datatype query_error = InvalidParameter rstr | MustBeNonNegative rstr | MustBePositive rstr

definition parse_nonnegative_i64_query :: "rstr option \<Rightarrow> rstr \<Rightarrow> query_error + i64 option" where
  "parse_nonnegative_i64_query query key =
     (case parse_query_value query key of
        None \<Rightarrow> Inr None
      | Some v \<Rightarrow>
          (case parse_i64 v of
             None \<Rightarrow> Inl (InvalidParameter key)
           | Some i \<Rightarrow> if i < 0 then Inl (MustBeNonNegative key) else Inr (Some i)))"

definition parse_usize_query :: "rstr option \<Rightarrow> rstr \<Rightarrow> query_error + nat option" where
  "parse_usize_query query key =
     (case parse_query_value query key of
        None \<Rightarrow> Inr None
      | Some v \<Rightarrow>
          (case parse_unsigned v of
             None \<Rightarrow> Inl (InvalidParameter key)
           | Some n \<Rightarrow> if n = 0 then Inl (MustBePositive key) else Inr (Some n)))"

text \<open>How an error prints: only the outermost context.\<close>

fun query_error_text :: "query_error \<Rightarrow> rstr" where
  "query_error_text (InvalidParameter key) = lit ''invalid '' @ key @ lit '' query parameter''"
| "query_error_text (MustBeNonNegative key) = key @ lit '' must be non-negative''"
| "query_error_text (MustBePositive key) = key @ lit '' must be greater than zero''"

section \<open>Response heads\<close>

definition crlf :: rstr where "crlf = [13, 10]"

definition status_text :: "nat \<Rightarrow> rstr" where
  "status_text status =
     (if status = 200 then lit ''OK''
      else if status = 400 then lit ''Bad Request''
      else if status = 404 then lit ''Not Found''
      else if status = 409 then lit ''Conflict''
      else if status = 405 then lit ''Method Not Allowed''
      else if status = 406 then lit ''Not Acceptable''
      else if status = 408 then lit ''Request Timeout''
      else if status = 501 then lit ''Not Implemented''
      else if status = 503 then lit ''Service Unavailable''
      else lit ''Internal Server Error'')"

definition response_head :: "nat \<Rightarrow> rstr \<Rightarrow> nat option \<Rightarrow> rstr" where
  "response_head status content_type content_length =
     lit ''HTTP/1.1 '' @ show_nat status @ lit '' '' @ status_text status @ crlf
     @ lit ''Content-Type: '' @ content_type @ crlf
     @ lit ''Connection: close'' @ crlf @ lit ''Cache-Control: no-store'' @ crlf
     @ (case content_length of None \<Rightarrow> [] | Some n \<Rightarrow> lit ''Content-Length: '' @ show_nat n @ crlf)
     @ crlf"

text \<open>What a client receives when every write succeeds.\<close>

definition write_response :: "nat \<Rightarrow> bytes \<Rightarrow> rstr \<Rightarrow> bytes" where
  "write_response status body content_type =
     utf8_encode (response_head status content_type (Some (length body))) @ body"

definition metrics_status_text :: "nat \<Rightarrow> rstr" where
  "metrics_status_text status =
     (if status = 200 then lit ''OK''
      else if status = 401 then lit ''Unauthorized''
      else if status = 404 then lit ''Not Found''
      else if status = 405 then lit ''Method Not Allowed''
      else if status = 406 then lit ''Not Acceptable''
      else if status = 408 then lit ''Request Timeout''
      else if status = 503 then lit ''Service Unavailable''
      else lit ''Internal Server Error'')"

definition write_response_with_headers :: "nat \<Rightarrow> bytes \<Rightarrow> rstr \<Rightarrow> (rstr \<times> rstr) list \<Rightarrow> bytes" where
  "write_response_with_headers status body content_type headers =
     utf8_encode
       (lit ''HTTP/1.1 '' @ show_nat status @ lit '' '' @ metrics_status_text status @ crlf
        @ lit ''Content-Type: '' @ content_type @ crlf
        @ lit ''Content-Length: '' @ show_nat (length body) @ crlf
        @ lit ''Connection: close'' @ crlf @ lit ''Cache-Control: no-store'' @ crlf
        @ concat (map (\<lambda>(name, value). name @ lit '': '' @ value @ crlf) headers) @ crlf)
     @ body"

definition metrics_write_response :: "nat \<Rightarrow> bytes \<Rightarrow> rstr \<Rightarrow> bytes" where
  "metrics_write_response status body content_type = write_response_with_headers status body content_type []"

end
