(* ===== verification/Metrics_Server.thy ===== *)
theory Metrics_Server
  imports Metrics Http
begin

text \<open>
  The TCP metrics listener (\<open>metrics.rs\<close>): bearer authorization and the handling of one
  connection.  The request head reader and the response writer are those of \<open>Http\<close>.
\<close>

section \<open>Authorization\<close>

text \<open>What the closure of \<open>find_map\<close> yields for one header line.\<close>

definition bearer_token_of_line :: "rstr \<Rightarrow> rstr option" where
  "bearer_token_of_line raw =
     (let line = trim_end_char 13 raw in
      if line = [] then None
      else (case split_once line 58 of
              None \<Rightarrow> None
            | Some (name, v) \<Rightarrow>
                if \<not> eq_ignore_ascii_case name (lit ''authorization'') then None
                else (case split_once (trim v) 32 of
                        None \<Rightarrow> None
                      | Some (scheme, token) \<Rightarrow>
                          if \<not> eq_ignore_ascii_case scheme (lit ''bearer'') then None
                          else Some (trim token))))"

fun find_bearer_token :: "rstr list \<Rightarrow> rstr option" where
  "find_bearer_token [] = None"
| "find_bearer_token (l # ls) =
     (case bearer_token_of_line l of Some t \<Rightarrow> Some t | None \<Rightarrow> find_bearer_token ls)"

definition extract_bearer_token :: "rstr \<Rightarrow> rstr option" where
  "extract_bearer_token request = find_bearer_token (drop 1 (text_lines request))"

text \<open>
  The comparison looks at every byte of the longer side and never stops early; lengths and
  bytes are \<open>usize\<close> values, here natural numbers with the bit operations of \<open>nat\<close>.
\<close>

definition byte_or_zero :: "bytes \<Rightarrow> nat \<Rightarrow> u8" where
  "byte_or_zero bs i = (if i < length bs then bs ! i else 0)"

definition constant_time_eq :: "bytes \<Rightarrow> bytes \<Rightarrow> bool" where
  "constant_time_eq left right =
     (fold (\<lambda>i diff. or diff (unat (xor (byte_or_zero left i) (byte_or_zero right i))))
        [0..<max (length left) (length right)] (xor (length left) (length right)) = 0)"

definition metrics_request_is_authorized :: "rstr \<Rightarrow> rstr \<Rightarrow> bool" where
  "metrics_request_is_authorized request expected_token =
     (case extract_bearer_token request of
        None \<Rightarrow> False
      | Some token \<Rightarrow> constant_time_eq (utf8_encode token) (utf8_encode expected_token))"

section \<open>A connection\<close>

text \<open>What the handler reads besides the request.\<close>

record metrics_context =
  mx_version :: rstr
  mx_state :: service_state
  mx_history :: "history_store option"
  mx_runtime :: runtime_stats
  mx_observer :: observer_info
  mx_auth_token :: rstr
  mx_otlp_stats :: otlp_stats

definition json_error :: "string \<Rightarrow> bytes" where
  "json_error message = utf8_encode ([123, 34] @ lit ''error'' @ [34, 58, 34] @ lit message @ [34, 125])"

definition json_type :: rstr where "json_type = lit ''application/json''"

definition challenge :: "(rstr \<times> rstr) list" where
  "challenge = [(lit ''WWW-Authenticate'', lit ''Bearer realm='' @ [34] @ lit ''moshwatch-metrics'' @ [34])]"

definition handle_metrics_request :: "metrics_context \<Rightarrow> i64 \<Rightarrow> rstr \<Rightarrow> bytes option" where
  "handle_metrics_request mx now request =
     (if trim request = [] then None
      else let (method, path) = request_line_parts request in
      if method \<noteq> lit ''GET'' then
        Some (metrics_write_response 405 (json_error ''method not allowed'') json_type)
      else if path \<noteq> lit ''/metrics'' then
        Some (metrics_write_response 404 (json_error ''not found'') json_type)
      else if \<not> metrics_request_is_authorized request (mx_auth_token mx) then
        Some (write_response_with_headers 401 (json_error ''unauthorized'') json_type challenge)
      else
        let export = export_summaries (mx_state mx) now MAX_METRICS_RENDERED_SESSIONS;
            config = st_config (mx_state mx)
        in (case requested_metrics_format request of
              None \<Rightarrow> Some (metrics_write_response 406 (json_error ''not acceptable'') json_type)
            | Some f \<Rightarrow>
                Some (metrics_write_response 200
                  (utf8_encode (render_metrics (mx_version mx) config (mx_observer mx) export
                     (map_option stats_snapshot (mx_history mx)) (runtime_snapshot (mx_runtime mx))
                     (mx_otlp_stats mx) f))
                  (metrics_content_type f))))"

text \<open>
  The connection as a whole: \<open>head\<close> is what reading the head came to, \<open>None\<close> when two
  seconds pass first.  \<open>None\<close> is a connection closed without a response.
\<close>

definition handle_metrics_connection ::
    "metrics_context \<Rightarrow> i64 \<Rightarrow> ('e head_error + rstr) option \<Rightarrow> bytes option" where
  "handle_metrics_connection mx now head =
     (case head of
        Some (Inr request) \<Rightarrow> handle_metrics_request mx now request
      | _ \<Rightarrow> None)"

definition METRICS_CONNECTION_SLOTS :: nat where "METRICS_CONNECTION_SLOTS = 64"

text \<open>An accepted connection, with \<open>busy\<close> others being served.\<close>

definition accept_metrics ::
    "metrics_context \<Rightarrow> nat \<Rightarrow> i64 \<Rightarrow> ('e head_error + rstr) option \<Rightarrow> bytes option" where
  "accept_metrics mx busy now head =
     (if busy \<ge> METRICS_CONNECTION_SLOTS then
        Some (metrics_write_response 503 (json_error ''metrics server busy'') json_type)
      else handle_metrics_connection mx now head)"

end
