(* ===== verification/Api.thy ===== *)
theory Api
  imports Protocol_Api Metrics_Server Discovery
begin

text \<open>
  The owner-only API of \<open>moshwatchd/src/api.rs\<close>: the snapshot hub and event stream, routing,
  every response, and session termination.  \<open>serde_json\<close>, SHA-256, the file system, \<open>/proc\<close>
  and \<open>kill\<close> are given by their outcomes.
\<close>

definition MAX_EXPORTED_SESSIONS :: nat where "MAX_EXPORTED_SESSIONS = 512"

section \<open>The snapshot hub\<close>

text \<open>
  The watch channel holds one frame and counts its replacements; a receiver remembers the
  count it has seen.
\<close>

record snapshot_hub =
  hub_observer :: observer_info
  hub_sequence :: u64
  hub_frame :: event_stream_frame
  hub_version :: nat

definition new_hub :: "observer_info \<Rightarrow> i64 \<Rightarrow> snapshot_hub" where
  "new_hub ob now =
     \<lparr>hub_observer = ob, hub_sequence = 0,
      hub_frame = \<lparr>fr_schema_version = API_SCHEMA_VERSION, fr_observer = ob, fr_event = Snapshot,
        fr_sequence = Some 0, fr_generated_at_unix_ms = now, fr_total_sessions = Some 0,
        fr_truncated_session_count = Some 0, fr_dropped_sessions_total = Some 0,
        fr_sessions = Some [], fr_coherence_sessions = Some []\<rparr>,
      hub_version = 0\<rparr>"

definition publish_snapshot ::
    "(bytes \<Rightarrow> bytes) \<Rightarrow> exported_summaries \<Rightarrow> i64 \<Rightarrow> snapshot_hub \<Rightarrow> snapshot_hub" where
  "publish_snapshot sha256 ex now hub =
     (let sequence = hub_sequence hub + 1 in
      hub\<lparr>hub_sequence := sequence,
          hub_frame := \<lparr>fr_schema_version = API_SCHEMA_VERSION, fr_observer = hub_observer hub,
            fr_event = Snapshot, fr_sequence = Some sequence, fr_generated_at_unix_ms = now,
            fr_total_sessions = Some (ex_total_sessions ex),
            fr_truncated_session_count = Some (ex_truncated_session_count ex),
            fr_dropped_sessions_total = Some (ex_dropped_sessions_total ex),
            fr_sessions = Some (ex_sessions ex),
            fr_coherence_sessions =
              Some (map (build_coherence_snapshot_from_summary sha256) (ex_sessions ex))\<rparr>,
          hub_version := Suc (hub_version hub)\<rparr>)"

definition heartbeat_frame :: "snapshot_hub \<Rightarrow> i64 \<Rightarrow> event_stream_frame" where
  "heartbeat_frame hub now =
     \<lparr>fr_schema_version = API_SCHEMA_VERSION, fr_observer = hub_observer hub, fr_event = Heartbeat,
      fr_sequence = None, fr_generated_at_unix_ms = now, fr_total_sessions = None,
      fr_truncated_session_count = None, fr_dropped_sessions_total = None,
      fr_sessions = None, fr_coherence_sessions = None\<rparr>"

definition publish_snapshot_now ::
    "(bytes \<Rightarrow> bytes) \<Rightarrow> service_state \<Rightarrow> i64 \<Rightarrow> snapshot_hub \<Rightarrow> snapshot_hub" where
  "publish_snapshot_now sha256 st now hub =
     publish_snapshot sha256 (export_summaries st now MAX_EXPORTED_SESSIONS) now hub"

section \<open>An event stream\<close>

text \<open>
  One subscriber, from \<open>subscribe\<close> on: the first frame is a plain \<open>borrow\<close>; \<open>changed\<close> marks the
  newest version as seen and the frame is borrowed after that, so other steps may come in
  between.  Publications belong to another task.
\<close>

datatype stream_pc = Subscribed | Idle | Changed

record stream =
  st_pc :: stream_pc
  st_seen :: nat
  st_hub :: snapshot_hub
  st_sent :: "event_stream_frame list"

definition subscribe :: "snapshot_hub \<Rightarrow> stream" where
  "subscribe hub = \<lparr>st_pc = Subscribed, st_seen = hub_version hub, st_hub = hub, st_sent = []\<rparr>"

inductive stream_step :: "(bytes \<Rightarrow> bytes) \<Rightarrow> stream \<Rightarrow> stream \<Rightarrow> bool" for sha256 where
  stream_publish: "stream_step sha256 s (s\<lparr>st_hub := publish_snapshot sha256 ex now (st_hub s)\<rparr>)"
| stream_initial: "st_pc s = Subscribed \<Longrightarrow>
    stream_step sha256 s (s\<lparr>st_sent := st_sent s @ [hub_frame (st_hub s)], st_pc := Idle\<rparr>)"
| stream_changed: "st_pc s = Idle \<Longrightarrow> st_seen s \<noteq> hub_version (st_hub s) \<Longrightarrow>
    stream_step sha256 s (s\<lparr>st_seen := hub_version (st_hub s), st_pc := Changed\<rparr>)"
| stream_snapshot: "st_pc s = Changed \<Longrightarrow>
    stream_step sha256 s (s\<lparr>st_sent := st_sent s @ [hub_frame (st_hub s)], st_pc := Idle\<rparr>)"
| stream_heartbeat: "st_pc s = Idle \<Longrightarrow>
    stream_step sha256 s (s\<lparr>st_sent := st_sent s @ [heartbeat_frame (st_hub s) now]\<rparr>)"

inductive stream_reachable :: "(bytes \<Rightarrow> bytes) \<Rightarrow> snapshot_hub \<Rightarrow> stream \<Rightarrow> bool" for sha256 hub where
  stream_start: "stream_reachable sha256 hub (subscribe hub)"
| stream_next: "stream_reachable sha256 hub s \<Longrightarrow> stream_step sha256 s s' \<Longrightarrow> stream_reachable sha256 hub s'"

inductive_cases stream_stepE: "stream_step sha256 s s'"

section \<open>Requests\<close>

datatype api_payload =
    SessionsBody api_sessions_response
  | CoherenceSessionsBody api_coherence_sessions_response
  | CapabilitiesBody api_adapter_capabilities_response
  | CoherenceSessionBody api_coherence_session_response
  | CoherenceExportBody api_coherence_export_response
  | ConfigBody api_config_response
  | SessionBody api_session_response
  | HistoryBody api_history_response
  | ControlBody api_session_control_response

datatype kill_outcome = SignalSent | NoSuchProcess | SignalFailed

record 'e api_environment =
  ae_encode :: "api_payload \<Rightarrow> bytes option"
  ae_sha256 :: "bytes \<Rightarrow> bytes"
  ae_report_json :: "coherence_session_report \<Rightarrow> bytes"
  ae_buffered :: "bytes \<Rightarrow> 'e reader"
  ae_from_json :: "bytes \<Rightarrow> history_sample option"
  ae_faults :: io_faults
  ae_proc :: proc_fs
  ae_current_exe :: "path option"
  ae_kill :: "i32 \<Rightarrow> kill_outcome"

text \<open>\<open>AppContext\<close>, with the slots for history queries and event streams that are free.\<close>

record app_context =
  cx_observer_info :: observer_info
  cx_state :: service_state
  cx_history :: "history_store option"
  cx_runtime :: runtime_stats
  cx_otlp_stats :: otlp_stats
  cx_version :: rstr
  cx_free_history_slots :: nat
  cx_free_stream_slots :: nat

type_synonym response = "nat \<times> bytes \<times> rstr"

definition error_response :: "nat \<Rightarrow> string \<Rightarrow> response" where
  "error_response status message = (status, json_error message, json_type)"

definition json_response :: "'e api_environment \<Rightarrow> api_payload \<Rightarrow> response attempt" where
  "json_response env payload =
     bind_attempt (attempt_of (ae_encode env payload)) (\<lambda>body. Value (200, body, json_type))"

definition session_not_found :: response where
  "session_not_found = error_response 404 ''session not found''"

text \<open>The response and the pids that were signalled.\<close>

definition terminate_session ::
    "'e api_environment \<Rightarrow> app_context \<Rightarrow> rstr \<Rightarrow> i64 \<Rightarrow> response attempt \<times> i32 list" where
  "terminate_session env cx session_id now =
     (case session_summary_of (cx_state cx) session_id now of
        None \<Rightarrow> (Value session_not_found, [])
      | Some summary \<Rightarrow>
          (case read_process_metadata (ae_proc env) (ss_pid summary) of
             Panic \<Rightarrow> (Panic, [])
           | Failure \<Rightarrow> (Value (error_response 409 ''tracked process is no longer available''), [])
           | Value metadata \<Rightarrow>
               if pm_started_at_unix_ms metadata \<noteq> ss_started_at_unix_ms summary then
                 (Value (error_response 409 ''tracked pid no longer matches the recorded session''), [])
               else if \<not> is_supported_mosh_server_metadata (ae_current_exe env) metadata then
                 (Value (error_response 409 ''tracked pid is no longer a supported mosh server''), [])
               else
                 ((case ae_kill env (ss_pid summary) of
                     NoSuchProcess \<Rightarrow> Value (error_response 409 ''tracked process exited before signal delivery'')
                   | SignalFailed \<Rightarrow> Failure
                   | SignalSent \<Rightarrow>
                       json_response env (ControlBody
                         \<lparr>cr_schema_version = API_SCHEMA_VERSION, cr_observer = cx_observer_info cx,
                          cr_generated_at_unix_ms = now, cr_session_id = ss_session_id summary,
                          cr_pid = ss_pid summary, cr_action = Terminate\<rparr>)),
                  [ss_pid summary])))"

section \<open>Responses\<close>

definition sessions_response :: "'e api_environment \<Rightarrow> app_context \<Rightarrow> i64 \<Rightarrow> response attempt" where
  "sessions_response env cx now =
     (let ex = export_summaries (cx_state cx) now MAX_EXPORTED_SESSIONS in
      json_response env (SessionsBody
        \<lparr>sr1_schema_version = API_SCHEMA_VERSION, sr1_observer = cx_observer_info cx,
         sr1_generated_at_unix_ms = now, sr1_total_sessions = ex_total_sessions ex,
         sr1_truncated_session_count = ex_truncated_session_count ex,
         sr1_dropped_sessions_total = ex_dropped_sessions_total ex, sr1_sessions = ex_sessions ex\<rparr>))"

definition coherence_sessions_response :: "'e api_environment \<Rightarrow> app_context \<Rightarrow> i64 \<Rightarrow> response attempt" where
  "coherence_sessions_response env cx now =
     (let ex = export_summaries (cx_state cx) now MAX_EXPORTED_SESSIONS;
          details = List.map_filter (\<lambda>s. session_detail (cx_state cx) (ss_session_id s) now) (ex_sessions ex)
      in json_response env (CoherenceSessionsBody
        \<lparr>cs_schema_version = API_SCHEMA_VERSION, cs_observer = cx_observer_info cx,
         cs_generated_at_unix_ms = now, cs_total_sessions = ex_total_sessions ex,
         cs_truncated_session_count = ex_truncated_session_count ex,
         cs_sessions = map (build_coherence_session_report (ae_sha256 env) (cx_observer_info cx)) details\<rparr>))"

definition capabilities_response :: "'e api_environment \<Rightarrow> app_context \<Rightarrow> i64 \<Rightarrow> response attempt" where
  "capabilities_response env cx now =
     json_response env (CapabilitiesBody
       \<lparr>ac_schema_version = API_SCHEMA_VERSION, ac_observer = cx_observer_info cx,
        ac_generated_at_unix_ms = now, ac_adapter_contract_version = ADAPTER_CONTRACT_VERSION,
        ac_daemon_loads_external_code = False, ac_export_surfaces = adapter_export_surfaces\<rparr>)"

definition coherence_session_response ::
    "'e api_environment \<Rightarrow> app_context \<Rightarrow> rstr \<Rightarrow> i64 \<Rightarrow> response attempt" where
  "coherence_session_response env cx session_id now =
     (case session_detail (cx_state cx) session_id now of
        None \<Rightarrow> Value session_not_found
      | Some session \<Rightarrow>
          json_response env (CoherenceSessionBody
            \<lparr>c1_schema_version = API_SCHEMA_VERSION, c1_observer = cx_observer_info cx,
             c1_generated_at_unix_ms = now,
             c1_session = build_coherence_session_report (ae_sha256 env) (cx_observer_info cx) session\<rparr>))"

definition coherence_export_response ::
    "'e api_environment \<Rightarrow> app_context \<Rightarrow> rstr \<Rightarrow> i64 \<Rightarrow> response attempt" where
  "coherence_export_response env cx session_id now =
     (case session_detail (cx_state cx) session_id now of
        None \<Rightarrow> Value session_not_found
      | Some session \<Rightarrow>
          json_response env (CoherenceExportBody
            \<lparr>cx_schema_version = API_SCHEMA_VERSION, cx_observer = cx_observer_info cx,
             cx_generated_at_unix_ms = now,
             cx_export = build_coherence_export (ae_sha256 env) (ae_report_json env) (cx_observer_info cx)
                           now session\<rparr>))"

definition config_response :: "'e api_environment \<Rightarrow> app_context \<Rightarrow> i64 \<Rightarrow> response attempt" where
  "config_response env cx now =
     json_response env (ConfigBody
       \<lparr>cf_schema_version = API_SCHEMA_VERSION, cf_observer = cx_observer_info cx,
        cf_generated_at_unix_ms = now, cf_config = api_config_of (st_config (cx_state cx))\<rparr>)"

definition metrics_response :: "app_context \<Rightarrow> metrics_text_format option \<Rightarrow> i64 \<Rightarrow> response attempt" where
  "metrics_response cx metrics_format now =
     (case metrics_format of
        None \<Rightarrow> Value (error_response 406 ''not acceptable'')
      | Some f \<Rightarrow>
          let export = export_summaries (cx_state cx) now MAX_METRICS_RENDERED_SESSIONS in
          Value (200,
            utf8_encode (render_metrics (cx_version cx) (st_config (cx_state cx)) (cx_observer_info cx) export
              (map_option stats_snapshot (cx_history cx)) (runtime_snapshot (cx_runtime cx)) (cx_otlp_stats cx) f),
            metrics_content_type f))"

definition session_response :: "'e api_environment \<Rightarrow> app_context \<Rightarrow> rstr \<Rightarrow> i64 \<Rightarrow> response attempt" where
  "session_response env cx session_id now =
     (case session_detail (cx_state cx) session_id now of
        None \<Rightarrow> Value session_not_found
      | Some session \<Rightarrow>
          json_response env (SessionBody
            \<lparr>sr2_schema_version = API_SCHEMA_VERSION, sr2_observer = cx_observer_info cx,
             sr2_generated_at_unix_ms = now, sr2_session = session\<rparr>))"

definition bad_request :: "rstr \<Rightarrow> response" where
  "bad_request message =
     (400, utf8_encode ([123, 34] @ lit ''error'' @ [34, 58, 34] @ lit ''bad request: '' @ message @ [34, 125]),
      json_type)"

definition history_response ::
    "'e api_environment \<Rightarrow> app_context \<Rightarrow> rstr \<Rightarrow> rstr option \<Rightarrow> i64 \<Rightarrow> response attempt" where
  "history_response env cx session_id query now =
     (case cx_history cx of
        None \<Rightarrow> Value (error_response 501 ''history persistence is disabled'')
      | Some history \<Rightarrow>
          if cx_free_history_slots cx = 0 then Value (error_response 503 ''history query busy'')
          else (case parse_nonnegative_i64_query query (lit ''since_seconds'') of
             Inl e \<Rightarrow> Value (bad_request (query_error_text e))
           | Inr since \<Rightarrow>
               let since_seconds = min (case since of Some v \<Rightarrow> v | None \<Rightarrow> 3600) (retention_window_secs history) in
               (case parse_usize_query query (lit ''limit'') of
                  Inl e \<Rightarrow> Value (bad_request (query_error_text e))
                | Inr limit \<Rightarrow>
                    let since_unix_ms = i64_saturating_sub now (i64_saturating_mul since_seconds 1000) in
                    (case query_session (ae_buffered env) (ae_from_json env) (ae_faults env) session_id
                            since_unix_ms (case limit of Some v \<Rightarrow> v | None \<Rightarrow> 1000) history of
                       Inl _ \<Rightarrow> Failure
                     | Inr samples \<Rightarrow>
                         json_response env (HistoryBody
                           \<lparr>hr_schema_version = API_SCHEMA_VERSION, hr_observer = cx_observer_info cx,
                            hr_generated_at_unix_ms = now, hr_session_id = session_id,
                            hr_samples = samples\<rparr>)))))"

definition build_response ::
    "'e api_environment \<Rightarrow> app_context \<Rightarrow> i64 \<Rightarrow> rstr \<Rightarrow> rstr \<Rightarrow> rstr option \<Rightarrow> metrics_text_format option
     \<Rightarrow> response attempt \<times> i32 list" where
  "build_response env cx now verb path query metrics_format =
     (let get = (verb = lit ''GET'');
          rest = (\<lambda>prefix. trim_prefixes (lit prefix) path)
      in
      if get \<and> path = lit ''/v1/sessions'' then (sessions_response env cx now, [])
      else if get \<and> path = lit ''/v1/coherence/sessions'' then (coherence_sessions_response env cx now, [])
      else if get \<and> path = lit ''/v1/adapter/capabilities'' then (capabilities_response env cx now, [])
      else if get \<and> starts_with path (lit ''/v1/coherence/sessions/'') then
        (coherence_session_response env cx (rest ''/v1/coherence/sessions/'') now, [])
      else if get \<and> starts_with path (lit ''/v1/coherence/exports/'') then
        (coherence_export_response env cx (rest ''/v1/coherence/exports/'') now, [])
      else if get \<and> path = lit ''/v1/config'' then (config_response env cx now, [])
      else if get \<and> path = lit ''/metrics'' then (metrics_response cx metrics_format now, [])
      else if get \<and> starts_with path (lit ''/v1/sessions/'') then
        (session_response env cx (rest ''/v1/sessions/'') now, [])
      else if verb = lit ''POST'' \<and> starts_with path (lit ''/v1/sessions/'') \<and> ends_with path (lit ''/terminate'')
      then terminate_session env cx
             (trim_end_char 47 (trim_suffixes (lit ''/terminate'') (rest ''/v1/sessions/''))) now
      else if get \<and> starts_with path (lit ''/v1/history/'') then
        (history_response env cx (rest ''/v1/history/'') query now, [])
      else (Value (error_response 404 ''not found''), []))"

section \<open>Connections\<close>

text \<open>
  How a connection ends: closed without a word, with response bytes, or as an event
  stream that begins with the given head; \<open>Crashed\<close> is a panic of its task.  \<open>head\<close> is what reading the head came to, \<open>None\<close>
  when two seconds pass first.
\<close>

datatype api_reply = ClosedSilently | Responded bytes | EventStream bytes | Crashed

fun head_error_text :: "'e head_error \<Rightarrow> rstr" where
  "head_error_text HeadTooLong = lit ''request head exceeded 16384 bytes''"
| "head_error_text HeadCutShort = lit ''unexpected eof while reading request''"
| "head_error_text (HeadReadFailed e) = lit ''read request''"

definition respond :: "response \<Rightarrow> api_reply" where
  "respond r = (case r of (status, body, content_type) \<Rightarrow> Responded (write_response status body content_type))"

definition streaming_headers :: bytes where
  "streaming_headers = utf8_encode (response_head 200 (lit ''application/x-ndjson'') None)"

definition stream_events :: "app_context \<Rightarrow> api_reply" where
  "stream_events cx =
     (if cx_free_stream_slots cx = 0 then respond (error_response 503 ''event stream busy'')
      else EventStream streaming_headers)"

text \<open>The line a frame is sent as, if it can be encoded.\<close>

definition ndjson_frame :: "(event_stream_frame \<Rightarrow> bytes option) \<Rightarrow> event_stream_frame \<Rightarrow> bytes option" where
  "ndjson_frame encode frame = map_option (\<lambda>line. line @ [10]) (encode frame)"

definition handle_connection ::
    "'e api_environment \<Rightarrow> app_context \<Rightarrow> i64 \<Rightarrow> ('f head_error + rstr) option \<Rightarrow> api_reply \<times> i32 list" where
  "handle_connection env cx now head =
     (case head of
        None \<Rightarrow> (respond (error_response 408 ''request timeout''), [])
      | Some (Inl e) \<Rightarrow> (respond (bad_request (head_error_text e)), [])
      | Some (Inr request) \<Rightarrow>
          if trim request = [] then (ClosedSilently, [])
          else let (verb, target) = request_line_parts request in
          if verb \<noteq> lit ''GET'' \<and> verb \<noteq> lit ''POST'' then
            (respond (error_response 405 ''method not allowed''), [])
          else let (path, query) = split_target target in
          if path = lit ''/v1/events/stream'' then (stream_events cx, [])
          else (case build_response env cx now verb path query (requested_metrics_format request) of
                  (outcome, signalled) \<Rightarrow>
                    ((case outcome of
                        Value r \<Rightarrow> respond r
                      | Failure \<Rightarrow> respond (error_response 500 ''internal server error'')
                      | Panic \<Rightarrow> Crashed), signalled)))"

definition API_CONNECTION_SLOTS :: nat where "API_CONNECTION_SLOTS = 64"

text \<open>An accepted connection, with \<open>busy\<close> others being served.\<close>

definition accept_api ::
    "'e api_environment \<Rightarrow> app_context \<Rightarrow> nat \<Rightarrow> i64 \<Rightarrow> ('f head_error + rstr) option \<Rightarrow> api_reply \<times> i32 list" where
  "accept_api env cx busy now head =
     (if busy \<ge> API_CONNECTION_SLOTS then (respond (error_response 503 ''api server busy''), [])
      else handle_connection env cx now head)"

end
