(* ===== verification/Api_Facts.thy ===== *)
theory Api_Facts
  imports Api History_Facts Registry_Readers Daemon_Examples
begin

text \<open>
  The API's safety and error behaviour: which processes a request can signal, what an event
  stream delivers, and how the history route answers.
\<close>

section \<open>Termination of sessions\<close>

lemma materialized_pid [simp]:
  "ss_pid (materialize_summary c r now) = ss_pid (sr_summary r)"
  "ss_started_at_unix_ms (materialize_summary c r now) = ss_started_at_unix_ms (sr_summary r)"
  by (simp_all add: materialize_summary_def Let_def)

lemma terminate_session_signals:
  assumes "pid \<in> set (snd (terminate_session env cx k now))"
  shows "snd (terminate_session env cx k now) = [pid]
     \<and> (\<exists>r m. map_of (st_sessions (cx_state cx)) k = Some r \<and> ss_pid (sr_summary r) = pid
          \<and> read_process_metadata (ae_proc env) pid = Value m
          \<and> pm_started_at_unix_ms m = ss_started_at_unix_ms (sr_summary r)
          \<and> is_supported_mosh_server_metadata (ae_current_exe env) m)"
  using assms
  by (auto simp: terminate_session_def session_summary_of_def split: option.splits attempt.splits if_splits)

lemma only_one_route_signals:
  assumes "x \<in> set (snd (if a1 then (r1, []) else if a2 then (r2, []) else if a3 then (r3, []) else if a4 then (r4, [])
     else if a5 then (r5, []) else if a6 then (r6, []) else if a7 then (r7, []) else if a8 then (r8, [])
     else if p then t else if a9 then (r9, []) else (r10, [])))"
  shows "p \<and> snd (if a1 then (r1, []) else if a2 then (r2, []) else if a3 then (r3, []) else if a4 then (r4, [])
     else if a5 then (r5, []) else if a6 then (r6, []) else if a7 then (r7, []) else if a8 then (r8, [])
     else if p then t else if a9 then (r9, []) else (r10, [])) = snd t"
  using assms by (simp split: if_splits)

lemma build_response_signals:
  assumes "pid \<in> set (snd (build_response env cx now verb path query f))"
  shows "verb = lit ''POST'' \<and> starts_with path (lit ''/v1/sessions/'') \<and> ends_with path (lit ''/terminate'')
     \<and> snd (build_response env cx now verb path query f)
         = snd (terminate_session env cx
             (trim_end_char 47 (trim_suffixes (lit ''/terminate'') (trim_prefixes (lit ''/v1/sessions/'') path))) now)"
proof -
  have "(verb = lit ''POST'' \<and> starts_with path (lit ''/v1/sessions/'') \<and> ends_with path (lit ''/terminate''))
     \<and> snd (build_response env cx now verb path query f)
         = snd (terminate_session env cx
             (trim_end_char 47 (trim_suffixes (lit ''/terminate'') (trim_prefixes (lit ''/v1/sessions/'') path))) now)"
    using assms unfolding build_response_def Let_def by (rule only_one_route_signals)
  then show ?thesis by blast
qed

text \<open>
  C27: The only effect a request has outside the daemon is SIGTERM to at most one process:
  a \<open>POST\<close> to the terminate route of a tracked session signals the pid that the registry
  holds for the session named in the path, and only if \<open>/proc\<close> shows at that moment a
  process with this pid, the recorded start time and a vetted executable; no other
  request, and no recycled pid, is ever signalled.
\<close>
theorem terminate_only_tracked_process:
  assumes "accept_api env cx busy now head = (reply, pids)" and "pid \<in> set pids"
  shows "pids = [pid]
     \<and> (\<exists>request target path query r m. head = Some (Inr request)
          \<and> request_line_parts request = (lit ''POST'', target) \<and> split_target target = (path, query)
          \<and> starts_with path (lit ''/v1/sessions/'') \<and> ends_with path (lit ''/terminate'')
          \<and> map_of (st_sessions (cx_state cx))
              (trim_end_char 47 (trim_suffixes (lit ''/terminate'') (trim_prefixes (lit ''/v1/sessions/'') path))) = Some r
          \<and> ss_pid (sr_summary r) = pid \<and> read_process_metadata (ae_proc env) pid = Value m
          \<and> pm_started_at_unix_ms m = ss_started_at_unix_ms (sr_summary r)
          \<and> is_supported_mosh_server_metadata (ae_current_exe env) m)"
proof -
  obtain request where request: "head = Some (Inr request)"
    using assms by (auto simp: accept_api_def handle_connection_def split: option.splits sum.splits if_splits)
  obtain verb target where parts: "request_line_parts request = (verb, target)" by fastforce
  obtain path query where target: "split_target target = (path, query)" by fastforce
  let ?f = "requested_metrics_format request"
  have pids: "pids = snd (build_response env cx now verb path query ?f)"
    using assms request parts target
    by (auto simp: accept_api_def handle_connection_def Let_def split: if_splits prod.splits)
  have "pid \<in> set (snd (build_response env cx now verb path query ?f))" using assms(2) pids by blast
  note route = build_response_signals [OF this, folded pids]
  from assms(2) have "pid \<in> set (snd (terminate_session env cx
      (trim_end_char 47 (trim_suffixes (lit ''/terminate'') (trim_prefixes (lit ''/v1/sessions/'') path))) now))"
    unfolding conjunct2 [OF conjunct2 [OF conjunct2 [OF route]]] .
  note signalled = terminate_session_signals [OF this, folded conjunct2 [OF conjunct2 [OF conjunct2 [OF route]]]]
  have "request_line_parts request = (lit ''POST'', target)" using parts route by (simp only:)
  with request target route signalled show ?thesis by blast
qed

section \<open>Event streams\<close>

definition snapshots_sent :: "stream \<Rightarrow> event_stream_frame list" where
  "snapshots_sent s = filter (\<lambda>f. fr_event f = Snapshot) (st_sent s)"

text \<open>A hub as its construction and publications leave it.\<close>

definition hub_ok :: "snapshot_hub \<Rightarrow> bool" where
  "hub_ok hub \<longleftrightarrow> hub_sequence hub = of_nat (hub_version hub) \<and> fr_event (hub_frame hub) = Snapshot
     \<and> fr_sequence (hub_frame hub) = Some (hub_sequence hub)"

lemma hub_ok_new: "hub_ok (new_hub ob now)"
  by (simp add: hub_ok_def new_hub_def)

lemma hub_ok_publish: "hub_ok hub \<Longrightarrow> hub_ok (publish_snapshot sha256 ex now hub)"
  by (simp add: hub_ok_def publish_snapshot_def Let_def)

lemma heartbeat_is_no_snapshot [simp]: "fr_event (heartbeat_frame hub now) = Heartbeat"
  by (simp add: heartbeat_frame_def)

text \<open>
  The snapshots sent are those of a rising list of versions; an idle stream has sent a
  snapshot at least as new as the version it has seen.
\<close>

definition stream_ok :: "stream \<Rightarrow> nat list \<Rightarrow> bool" where
  "stream_ok s vs \<longleftrightarrow> hub_ok (st_hub s) \<and> st_seen s \<le> hub_version (st_hub s)
     \<and> map fr_sequence (snapshots_sent s) = map (\<lambda>v. Some (of_nat v)) vs
     \<and> sorted vs \<and> (\<forall>v \<in> set vs. v \<le> hub_version (st_hub s))
     \<and> (st_pc s \<noteq> Subscribed \<longrightarrow> vs \<noteq> [])
     \<and> (st_pc s = Idle \<longrightarrow> st_seen s \<le> last vs)
     \<and> (vs \<noteq> [] \<longrightarrow> last vs = hub_version (st_hub s) \<longrightarrow> last (snapshots_sent s) = hub_frame (st_hub s))"

lemma stream_ok_sends:
  assumes "stream_ok s vs" and "st_pc s \<noteq> Idle"
  shows "stream_ok (s\<lparr>st_sent := st_sent s @ [hub_frame (st_hub s)], st_pc := Idle\<rparr>) (vs @ [hub_version (st_hub s)])"
  using assms by (auto simp: stream_ok_def snapshots_sent_def hub_ok_def sorted_append)

lemma stream_ok_step:
  assumes "stream_step sha256 s s'" and "stream_ok s vs"
  shows "\<exists>vs'. stream_ok s' vs'"
  using assms(1)
proof (cases rule: stream_step.cases)
  case (stream_publish ex now)
  have "hub_version (publish_snapshot sha256 ex now (st_hub s)) = Suc (hub_version (st_hub s))"
    by (simp add: publish_snapshot_def Let_def)
  moreover have "last vs \<noteq> Suc (hub_version (st_hub s))" if "vs \<noteq> []"
    using assms(2) last_in_set [OF that] by (auto simp: stream_ok_def)
  ultimately have "stream_ok s' vs"
    using assms(2) stream_publish by (auto simp: stream_ok_def snapshots_sent_def hub_ok_publish le_SucI)
  then show ?thesis by blast
next
  case stream_initial
  then show ?thesis using stream_ok_sends [OF assms(2)] by auto
next
  case stream_changed
  then have "stream_ok s' vs" using assms(2) by (auto simp: stream_ok_def snapshots_sent_def)
  then show ?thesis by blast
next
  case stream_snapshot
  then show ?thesis using stream_ok_sends [OF assms(2)] by auto
next
  case (stream_heartbeat now)
  then have "stream_ok s' vs" using assms(2) by (auto simp: stream_ok_def snapshots_sent_def)
  then show ?thesis by blast
qed

lemma stream_reachable_ok:
  assumes "stream_reachable sha256 hub s" and "hub_ok hub"
  shows "\<exists>vs. stream_ok s vs"
  using assms
proof (induction rule: stream_reachable.induct)
  case stream_start
  then have "stream_ok (subscribe hub) []" by (simp add: stream_ok_def subscribe_def snapshots_sent_def)
  then show ?case by blast
qed (use stream_ok_step in blast)

lemma sorted_unat_versions:
  assumes "sorted vs" and "\<forall>v \<in> set vs. v < 2 ^ 64"
  shows "sorted (map (\<lambda>v. unat (of_nat v :: u64)) vs)"
proof -
  have "map (\<lambda>v. unat (of_nat v :: u64)) vs = vs"
    using assms(2) by (intro map_idI) (simp add: unat_of_nat take_bit_nat_eq_self)
  with assms(1) show ?thesis by simp
qed

text \<open>
  C28: An event stream delivers the latest state: however publications interleave with it,
  the sequence numbers of its snapshots never go back, and whenever it waits, either the
  last snapshot it sent is the newest one, or it is able to wake up and send it.
\<close>
theorem stream_delivers_latest:
  assumes "stream_reachable sha256 hub s" and "hub_ok hub" and "hub_version (st_hub s) < 2 ^ 64"
  shows "sorted (map (\<lambda>f. unat (the (fr_sequence f))) (snapshots_sent s))
     \<and> (st_pc s = Idle \<longrightarrow>
          snapshots_sent s \<noteq> [] \<and> last (snapshots_sent s) = hub_frame (st_hub s)
          \<or> (\<exists>s' s''. stream_step sha256 s s' \<and> stream_step sha256 s' s''
               \<and> last (snapshots_sent s'') = hub_frame (st_hub s)))"
proof -
  obtain vs where ok: "stream_ok s vs" using stream_reachable_ok [OF assms(1,2)] by blast
  have "map (\<lambda>f. unat (the (fr_sequence f))) (snapshots_sent s) = map (\<lambda>v. unat (of_nat v :: u64)) vs"
  proof -
    have "map (\<lambda>q. unat (the q)) (map fr_sequence (snapshots_sent s)) = map (\<lambda>q. unat (the q)) (map (\<lambda>v. Some (of_nat v :: u64)) vs)"
      using ok by (simp only: stream_ok_def)
    then show ?thesis by (simp add: comp_def)
  qed
  moreover have "sorted (map (\<lambda>v. unat (of_nat v :: u64)) vs)"
    using ok assms(3) by (intro sorted_unat_versions) (auto simp: stream_ok_def)
  moreover have "\<exists>s' s''. stream_step sha256 s s' \<and> stream_step sha256 s' s'' \<and> last (snapshots_sent s'') = hub_frame (st_hub s)"
    if "st_pc s = Idle" "st_seen s \<noteq> hub_version (st_hub s)"
  proof -
    let ?s = "s\<lparr>st_seen := hub_version (st_hub s), st_pc := Changed\<rparr>"
    have "stream_step sha256 s ?s" using that by (rule stream_changed)
    moreover have "stream_step sha256 ?s (?s\<lparr>st_sent := st_sent ?s @ [hub_frame (st_hub ?s)], st_pc := Idle\<rparr>)"
      by (rule stream_snapshot) simp
    moreover have "fr_event (hub_frame (st_hub s)) = Snapshot" using ok by (simp add: stream_ok_def hub_ok_def)
    ultimately show ?thesis by (fastforce simp: snapshots_sent_def)
  qed
  moreover have "snapshots_sent s \<noteq> [] \<and> last (snapshots_sent s) = hub_frame (st_hub s)"
    if "st_pc s = Idle" "st_seen s = hub_version (st_hub s)"
    using ok that last_in_set [of vs] by (auto simp: stream_ok_def le_antisym)
  ultimately show ?thesis by metis
qed

text \<open>
  Against the comment on the stream, a snapshot is not always newer than the one before: one
  published between subscribing and the first frame is sent twice.
\<close>

theorem snapshot_sent_twice:
  "\<exists>s. stream_reachable sha256 (new_hub ob t) s \<and> (\<exists>f. snapshots_sent s = [f, f])"
proof -
  let ?s0 = "subscribe (new_hub ob t)"
  let ?s1 = "?s0\<lparr>st_hub := publish_snapshot sha256 ex now (st_hub ?s0)\<rparr>"
  let ?s2 = "?s1\<lparr>st_sent := st_sent ?s1 @ [hub_frame (st_hub ?s1)], st_pc := Idle\<rparr>"
  let ?s3 = "?s2\<lparr>st_seen := hub_version (st_hub ?s2), st_pc := Changed\<rparr>"
  let ?s4 = "?s3\<lparr>st_sent := st_sent ?s3 @ [hub_frame (st_hub ?s3)], st_pc := Idle\<rparr>"
  have "stream_step sha256 ?s0 ?s1" by (rule stream_publish)
  moreover have "stream_step sha256 ?s1 ?s2" by (rule stream_initial) (simp add: subscribe_def)
  moreover have "stream_step sha256 ?s2 ?s3"
    by (rule stream_changed) (simp_all add: subscribe_def publish_snapshot_def Let_def)
  moreover have "stream_step sha256 ?s3 ?s4" by (rule stream_snapshot) simp
  ultimately have "stream_reachable sha256 (new_hub ob t) ?s4"
    by (meson stream_reachable.intros)
  moreover have "\<exists>f. snapshots_sent ?s4 = [f, f]"
    by (simp add: snapshots_sent_def subscribe_def publish_snapshot_def Let_def)
  ultimately show ?thesis by blast
qed

theorem stream_delivers_latest_witness:
  "\<exists>s :: stream. st_pc s = Idle \<and> (snapshots_sent s \<noteq> [] \<and> last (snapshots_sent s) = hub_frame (st_hub s)
     \<or> (\<exists>s' s''. stream_step (\<lambda>b. b) s s' \<and> stream_step (\<lambda>b. b) s' s''
          \<and> last (snapshots_sent s'') = hub_frame (st_hub s)))"
proof -
  let ?hub = "new_hub \<lparr>node_name = [], system_id = []\<rparr> 0"
  let ?s0 = "subscribe ?hub"
  let ?s1 = "?s0\<lparr>st_sent := st_sent ?s0 @ [hub_frame (st_hub ?s0)], st_pc := Idle\<rparr>"
  have "stream_step (\<lambda>b. b) ?s0 ?s1" by (rule stream_initial) (simp add: subscribe_def)
  then have run: "stream_reachable (\<lambda>b. b) ?hub ?s1" by (rule stream_next [OF stream_start])
  have "hub_version (st_hub ?s1) < 2 ^ 64" "st_pc ?s1 = Idle"
    by (simp_all add: subscribe_def new_hub_def)
  with stream_delivers_latest [OF run hub_ok_new] show ?thesis by blast
qed

section \<open>Example\<close>

definition example_request :: rstr where "example_request = lit ''POST /v1/sessions/a/terminate''"

definition tracked_state :: service_state where
  "tracked_state = (new_state default_config)\<lparr>st_sessions :=
     [(lit ''a'', fresh_legacy_record (lit ''a'')
        \<lparr>ds_pid = 7, ds_started_at_unix_ms = 1005000, ds_bind_addr = None, ds_udp_port = None, ds_cmdline = []\<rparr> 0)]\<rparr>"

lemma example_request_parts:
  "trim example_request \<noteq> []"
  "request_line_parts example_request = (lit ''POST'', lit ''/v1/sessions/a/terminate'')"
  by (simp_all add: example_request_def lit_def request_line_parts_def text_lines_def trim_def
      is_whitespace_def trim_start_def trim_end_def split_whitespace_code)

lemma example_target:
  "split_target (lit ''/v1/sessions/a/terminate'') = (lit ''/v1/sessions/a/terminate'', None)"
  by code_simp

lemma example_routes:
  "lit ''POST'' \<noteq> lit ''GET''" "lit ''/v1/sessions/a/terminate'' \<noteq> lit ''/v1/events/stream''"
  "starts_with (lit ''/v1/sessions/a/terminate'') (lit ''/v1/sessions/'')"
  "ends_with (lit ''/v1/sessions/a/terminate'') (lit ''/terminate'')"
  "trim_end_char 47 (trim_suffixes (lit ''/terminate'') (trim_prefixes (lit ''/v1/sessions/'') (lit ''/v1/sessions/a/terminate''))) = lit ''a''"
  by code_simp+

lemma example_vetted:
  assumes "pm_exe_path m = path_of ''/opt/bin/mosh-server-real''"
  shows "is_supported_mosh_server_metadata (Some (path_of ''/opt/bin/moshwatchd'')) m"
proof -
  have "path_of ''/opt/bin/mosh-server-real''
      = [RootDir, Normal (utf8_encode (lit ''opt'')), Normal (utf8_encode (lit ''bin''))] @ [Normal server_real]"
    by code_simp
  then have "file_name_str (path_of ''/opt/bin/mosh-server-real'') = Some (lit ''mosh-server-real'')"
    by (simp add: file_name_str_snoc server_names(4) del: append.simps)
  then show ?thesis
    using assms example_expected server_names(6)
    by (simp add: is_supported_mosh_server_metadata_def is_supported_mosh_server_path_def
        is_supported_mosh_server_exe_def)
qed

lemma example_terminate:
  "snd (terminate_session (env\<lparr>ae_proc := example_host, ae_current_exe := Some (path_of ''/opt/bin/moshwatchd'')\<rparr>)
      (cx\<lparr>cx_state := tracked_state\<rparr>) (lit ''a'') now) = [7]"
proof -
  obtain c where "read_process_metadata example_host 7 = Value
     \<lparr>pm_started_at_unix_ms = 1005000, pm_cmdline = c, pm_exe_name = lit ''mosh-server-real'',
      pm_exe_path = path_of ''/opt/bin/mosh-server-real''\<rparr>"
    using example_host_metadata by blast
  then show ?thesis
    by (simp add: terminate_session_def session_summary_of_def tracked_state_def fresh_legacy_record_def
        example_vetted)
qed

theorem terminate_only_tracked_process_witness:
  "\<forall>(env :: unit api_environment) cx now. \<exists>reply m. accept_api (env\<lparr>ae_proc := example_host, ae_current_exe := Some (path_of ''/opt/bin/moshwatchd'')\<rparr>)
       (cx\<lparr>cx_state := tracked_state\<rparr>) 0 now (Some (Inr example_request :: unit head_error + rstr)) = (reply, [7])
     \<and> read_process_metadata example_host 7 = Value m"
proof (intro allI)
  fix env :: "unit api_environment" and cx :: app_context and now
  let ?env = "env\<lparr>ae_proc := example_host, ae_current_exe := Some (path_of ''/opt/bin/moshwatchd'')\<rparr>"
  let ?cx = "cx\<lparr>cx_state := tracked_state\<rparr>"
  have "build_response ?env ?cx now (lit ''POST'') (lit ''/v1/sessions/a/terminate'') None f
      = terminate_session ?env ?cx (lit ''a'') now" for f
    unfolding build_response_def Let_def example_routes(5) using example_routes(1,3,4) by (simp only: if_True if_False simp_thms)
  then obtain reply where run: "accept_api ?env ?cx 0 now (Some (Inr example_request :: unit head_error + rstr)) = (reply, [7])"
    using example_request_parts example_target example_routes(1,2) example_terminate [of env cx now]
    by (cases "terminate_session ?env ?cx (lit ''a'') now")
      (simp add: accept_api_def API_CONNECTION_SLOTS_def handle_connection_def)
  have "7 \<in> set [7 :: i32]" by simp
  from terminate_only_tracked_process [OF run this]
  obtain m where "read_process_metadata example_host 7 = Value m" by auto
  with run show "\<exists>reply m. accept_api ?env ?cx 0 now (Some (Inr example_request :: unit head_error + rstr)) = (reply, [7])
     \<and> read_process_metadata example_host 7 = Value m" by blast
qed

end
