(* ===== verification/Otlp.thy ===== *)
theory Otlp
  imports Metrics Line_Reader
begin

text \<open>
  The OTLP exporter (\<open>metrics.rs\<close>): request headers, the export request, the collector's
  response and one cycle of the export loop.  The protobuf types are records with the
  fields the source sets; their encoding and decoding are parameters.
\<close>

section \<open>Statistics\<close>

definition no_otlp_stats :: otlp_stats where
  "no_otlp_stats = \<lparr>os_success_total = 0, os_failure_total = 0, os_last_duration_ms = None,
     os_last_success_unix_ms = None, os_last_failure_unix_ms = None, os_last_payload_bytes = None\<rparr>"

definition record_success :: "u64 \<Rightarrow> i64 \<Rightarrow> u64 \<Rightarrow> otlp_stats \<Rightarrow> otlp_stats" where
  "record_success duration finished payload s =
     s\<lparr>os_success_total := os_success_total s + 1, os_last_duration_ms := Some duration,
       os_last_success_unix_ms := Some finished, os_last_payload_bytes := Some payload\<rparr>"

definition record_failure :: "u64 \<Rightarrow> i64 \<Rightarrow> u64 \<Rightarrow> otlp_stats \<Rightarrow> otlp_stats" where
  "record_failure duration finished payload s =
     s\<lparr>os_failure_total := os_failure_total s + 1, os_last_duration_ms := Some duration,
       os_last_failure_unix_ms := Some finished, os_last_payload_bytes := Some payload\<rparr>"

section \<open>Headers\<close>

text \<open>
  \<open>HeaderMap::insert\<close> replaces; a name is its normal form.  The error is the configured
  name whose name or value the \<open>http\<close> crate refuses.
\<close>

type_synonym header_map = "(rstr \<times> rstr) list"

fun insert_headers :: "http_crate \<Rightarrow> (rstr \<times> rstr) list \<Rightarrow> header_map \<Rightarrow> rstr + header_map" where
  "insert_headers http [] m = Inr m"
| "insert_headers http ((name, v) # hs) m =
     (case header_name http name of
        None \<Rightarrow> Inl name
      | Some n \<Rightarrow> if header_value_ok http v then insert_headers http hs (AList.update n v m) else Inl name)"

definition protobuf_type :: rstr where "protobuf_type = lit ''application/x-protobuf''"

definition make_otlp_headers :: "http_crate \<Rightarrow> app_config \<Rightarrow> rstr + header_map" where
  "make_otlp_headers http c =
     (case insert_headers http (otlp_headers (mc_otlp (metrics_cfg c))) [] of
        Inl e \<Rightarrow> Inl e
      | Inr m \<Rightarrow>
          Inr (AList.update (lit ''accept'') protobuf_type
                (AList.update (lit ''content-type'') protobuf_type m)))"

section \<open>The request\<close>

record number_data_point =
  dp_attributes :: labels
  dp_start_time_unix_nano :: u64
  dp_time_unix_nano :: u64
  dp_as_double :: f64

datatype otlp_data = OtlpSum "number_data_point list" (sum_cumulative: bool) (sum_is_monotonic: bool)
  | OtlpGauge "number_data_point list"

record otlp_metric =
  om_name :: rstr
  om_description :: rstr
  om_unit :: rstr
  om_data :: otlp_data

record export_request =
  er_resource_attributes :: labels
  er_scope_name :: rstr
  er_scope_version :: rstr
  er_metrics :: "otlp_metric list"

definition data_point :: "metric_descriptor \<Rightarrow> u64 \<Rightarrow> u64 \<Rightarrow> metric_sample \<Rightarrow> number_data_point" where
  "data_point d now_nano started_nano s =
     \<lparr>dp_attributes = ms_labels s,
      dp_start_time_unix_nano =
        (if md_kind d = Counter
         then (case ms_start_time_unix_nano s of Some t \<Rightarrow> t | None \<Rightarrow> started_nano) else 0),
      dp_time_unix_nano = now_nano, dp_as_double = ms_value s\<rparr>"

definition metric_to_otlp :: "metric_descriptor \<Rightarrow> metric_sample list \<Rightarrow> u64 \<Rightarrow> u64 \<Rightarrow> otlp_metric" where
  "metric_to_otlp d samples now_nano started_nano =
     (let points = map (data_point d now_nano started_nano) samples in
      \<lparr>om_name = md_name d, om_description = md_help d, om_unit = md_unit d,
       om_data = (case md_kind d of
                    Counter \<Rightarrow> OtlpSum points True True
                  | Gauge \<Rightarrow> OtlpGauge points
                  | Info \<Rightarrow> OtlpGauge points)\<rparr>)"

definition exported_metrics :: "sample_map \<Rightarrow> u64 \<Rightarrow> u64 \<Rightarrow> otlp_metric list" where
  "exported_metrics samples now_nano started_nano =
     List.map_filter
       (\<lambda>d. map_option (\<lambda>series. metric_to_otlp d series now_nano started_nano)
              (opt_filter (\<lambda>series. series \<noteq> []) (samples (md_id d))))
       metric_catalog"

text \<open>\<open>ensure!\<close> in the loop over the configured attributes: the error is the first reserved key.\<close>

fun push_attributes :: "(rstr \<times> rstr) list \<Rightarrow> labels \<Rightarrow> rstr + labels" where
  "push_attributes [] acc = Inr acc"
| "push_attributes ((k, v) # kvs) acc =
     (if is_reserved_otlp_resource_attribute_key k then Inl k else push_attributes kvs (acc @ [(k, v)]))"

definition builtin_attributes :: "rstr \<Rightarrow> observer_info \<Rightarrow> metrics_detail_tier \<Rightarrow> labels" where
  "builtin_attributes version ob tier =
     [(lit ''service.name'', lit ''moshwatchd''), (lit ''service.version'', version)]
     @ (if includes_sessions tier then
          [(lit ''service.instance.id'', system_id ob),
           (lit ''moshwatch.observer.node_name'', node_name ob),
           (lit ''moshwatch.observer.system_id'', system_id ob)]
        else [])"

definition OTLP_INSTRUMENTATION_SCOPE :: rstr where
  "OTLP_INSTRUMENTATION_SCOPE = lit ''moshwatchd.metrics''"

definition otlp_request ::
    "rstr \<Rightarrow> observer_info \<Rightarrow> app_config \<Rightarrow> sample_map \<Rightarrow> i64 \<Rightarrow> u64 \<Rightarrow> rstr + export_request" where
  "otlp_request version ob c samples now started_nano =
     (let otl = mc_otlp (metrics_cfg c) in
      case push_attributes (resource_attributes otl) (builtin_attributes version ob (otlp_detail_tier otl)) of
        Inl k \<Rightarrow> Inl k
      | Inr attributes \<Rightarrow>
          Inr \<lparr>er_resource_attributes = attributes, er_scope_name = OTLP_INSTRUMENTATION_SCOPE,
               er_scope_version = version, er_metrics = exported_metrics samples (unix_nanos now) started_nano\<rparr>)"

definition encode_otlp_metrics ::
    "(export_request \<Rightarrow> bytes) \<Rightarrow> rstr \<Rightarrow> observer_info \<Rightarrow> app_config \<Rightarrow> sample_map \<Rightarrow> i64 \<Rightarrow> u64
     \<Rightarrow> rstr + bytes" where
  "encode_otlp_metrics encode version ob c samples now started_nano =
     map_sum id encode (otlp_request version ob c samples now started_nano)"

section \<open>The response\<close>

definition MAX_OTLP_RESPONSE_BYTES :: nat where "MAX_OTLP_RESPONSE_BYTES = 64 * 1024"

datatype 'e otlp_error =
  BodyTooLarge | ChunkFailed 'e | CollectorStatus nat | UndecodableResponse | RejectedDataPoints i64

record partial_success =
  rejected_data_points :: i64
  error_message :: rstr

fun read_body_loop :: "bytes \<Rightarrow> 'e reader \<Rightarrow> 'e otlp_error + bytes" where
  "read_body_loop body [] = Inr body"
| "read_body_loop body (Fault e # r) = Inl (ChunkFailed e)"
| "read_body_loop body (Chunk c # r) =
     (let body' = body @ c in
      if length body' > MAX_OTLP_RESPONSE_BYTES then Inl BodyTooLarge else read_body_loop body' r)"

definition read_otlp_response_body :: "nat option \<Rightarrow> 'e reader \<Rightarrow> 'e otlp_error + bytes" where
  "read_otlp_response_body content_length r =
     (if (case content_length of Some n \<Rightarrow> n > MAX_OTLP_RESPONSE_BYTES | None \<Rightarrow> False)
      then Inl BodyTooLarge else read_body_loop [] r)"

definition handle_otlp_partial_success :: "partial_success option \<Rightarrow> 'e otlp_error + unit" where
  "handle_otlp_partial_success p =
     (case p of
        None \<Rightarrow> Inr ()
      | Some p \<Rightarrow> if rejected_data_points p > 0 then Inl (RejectedDataPoints (rejected_data_points p)) else Inr ())"

record 'e otlp_response =
  or_status :: nat
  or_content_length :: "nat option"
  or_chunks :: "'e reader"

definition handle_otlp_response ::
    "(bytes \<Rightarrow> partial_success option option) \<Rightarrow> 'e otlp_response \<Rightarrow> 'e otlp_error + unit" where
  "handle_otlp_response decode response =
     (case read_otlp_response_body (or_content_length response) (or_chunks response) of
        Inl e \<Rightarrow> Inl e
      | Inr body \<Rightarrow>
          if \<not> (200 \<le> or_status response \<and> or_status response < 300) then Inl (CollectorStatus (or_status response))
          else if body = [] then Inr ()
          else (case decode body of
                  None \<Rightarrow> Inl UndecodableResponse
                | Some partial \<Rightarrow> handle_otlp_partial_success partial))"

section \<open>One export cycle\<close>

text \<open>
  \<open>outcome\<close> is what sending came to (\<open>None\<close>: the request failed).  The cycle yields the
  payload and the statistics after it; an error ends the exporter.
\<close>

record export_inputs =
  xi_version :: rstr
  xi_config :: app_config
  xi_observer :: observer_info
  xi_started_nano :: u64

definition export_cycle ::
    "(export_request \<Rightarrow> bytes) \<Rightarrow> (bytes \<Rightarrow> partial_success option option) \<Rightarrow> export_inputs
     \<Rightarrow> service_state \<Rightarrow> history_store option \<Rightarrow> runtime_stats
     \<Rightarrow> i64 \<Rightarrow> 'e otlp_response option \<Rightarrow> u64 \<Rightarrow> i64 \<Rightarrow> otlp_stats \<Rightarrow> rstr + bytes \<times> otlp_stats" where
  "export_cycle encode decode xi st history rt now outcome duration finished stats =
     (let c = xi_config xi; tier = otlp_detail_tier (mc_otlp (metrics_cfg c));
          export = export_summaries st now MAX_METRICS_RENDERED_SESSIONS;
          samples = collect_metric_samples (xi_version xi) c (xi_observer xi) export
                      (map_option stats_snapshot history) (runtime_snapshot rt) stats
                      \<lparr>co_detail_tier = tier, co_include_observer_info = includes_sessions tier\<rparr>
      in case encode_otlp_metrics encode (xi_version xi) (xi_observer xi) c samples now (xi_started_nano xi) of
           Inl e \<Rightarrow> Inl e
         | Inr payload \<Rightarrow>
             let payload_bytes = of_nat (length payload) in
             Inr (payload,
               (case outcome of
                  Some response \<Rightarrow>
                    (case handle_otlp_response decode response of
                       Inl _ \<Rightarrow> record_failure duration finished payload_bytes stats
                     | Inr _ \<Rightarrow> record_success duration finished payload_bytes stats)
                | None \<Rightarrow> record_failure duration finished payload_bytes stats)))"

end
