(* ===== verification/Otlp_Facts.thy ===== *)
theory Otlp_Facts
  imports Otlp
begin

text \<open>The exporter under a validated configuration, and its bounded reading of responses.\<close>

section \<open>Headers\<close>

definition normal_headers :: "http_crate \<Rightarrow> (rstr \<times> rstr) list \<Rightarrow> header_map" where
  "normal_headers http hs = map (\<lambda>(name, v). (the (header_name http name), v)) hs"

lemma insert_headers_ok:
  assumes "\<forall>(name, v) \<in> set hs. header_name http name \<noteq> None \<and> header_value_ok http v"
  shows "\<exists>m'. insert_headers http hs m = Inr m' \<and> map_of m' = map_of m ++ map_of (rev (normal_headers http hs))"
  using assms
proof (induction hs arbitrary: m)
  case (Cons h hs)
  obtain name v where h: "h = (name, v)" by (cases h)
  then obtain n where n: "header_name http name = Some n" "header_value_ok http v" using Cons.prems by auto
  have "\<exists>m'. insert_headers http hs (AList.update n v m) = Inr m'
      \<and> map_of m' = map_of (AList.update n v m) ++ map_of (rev (normal_headers http hs))"
    using Cons.prems by (intro Cons.IH) simp
  moreover have "map_of m ++ map_of (rev (normal_headers http (h # hs)))
      = map_of (AList.update n v m) ++ map_of (rev (normal_headers http hs))"
    using h n by (simp add: normal_headers_def update_conv')
  ultimately show ?case using h n by simp
qed (simp add: normal_headers_def)

section \<open>Attributes\<close>

lemma push_attributes_ok:
  "\<forall>(k, v) \<in> set kvs. \<not> is_reserved_otlp_resource_attribute_key k \<Longrightarrow> push_attributes kvs acc = Inr (acc @ kvs)"
  by (induction kvs arbitrary: acc) auto

section \<open>Responses\<close>

lemma read_body_loop_bounded:
  "read_body_loop body r = Inr b \<Longrightarrow> length body \<le> MAX_OTLP_RESPONSE_BYTES \<Longrightarrow>
   length b \<le> MAX_OTLP_RESPONSE_BYTES \<and> b = body @ content r"
  by (induction body r rule: read_body_loop.induct) (auto simp: Let_def split: if_splits)

section \<open>The exporter\<close>

lemma otlp_headers_ok:
  assumes "validate http c = Inr ()"
  shows "\<exists>m. make_otlp_headers http c = Inr m
     \<and> map_of m (lit ''content-type'') = Some protobuf_type \<and> map_of m (lit ''accept'') = Some protobuf_type
     \<and> (\<forall>n. n \<noteq> lit ''content-type'' \<longrightarrow> n \<noteq> lit ''accept'' \<longrightarrow>
          map_of m n = map_of (rev (normal_headers http (otlp_headers (mc_otlp (metrics_cfg c))))) n)"
proof -
  have "\<forall>(name, v) \<in> set (otlp_headers (mc_otlp (metrics_cfg c))). header_name http name \<noteq> None \<and> header_value_ok http v"
    using validate_otlp_headersD [OF assms] by fastforce
  from insert_headers_ok [OF this, of "[]"] obtain m where
    m: "insert_headers http (otlp_headers (mc_otlp (metrics_cfg c))) [] = Inr m"
       "map_of m = map_of (rev (normal_headers http (otlp_headers (mc_otlp (metrics_cfg c)))))" by auto
  have "lit ''accept'' \<noteq> lit ''content-type''" by (simp add: lit_def)
  with m show ?thesis by (simp add: make_otlp_headers_def update_conv')
qed

lemma otlp_request_ok:
  assumes "validate http c = Inr ()"
  shows "\<exists>req. otlp_request version ob c samples now started = Inr req
     \<and> er_resource_attributes req
         = builtin_attributes version ob (otlp_detail_tier (mc_otlp (metrics_cfg c))) @ resource_attributes (mc_otlp (metrics_cfg c))"
proof -
  have "\<forall>(k, v) \<in> set (resource_attributes (mc_otlp (metrics_cfg c))). \<not> is_reserved_otlp_resource_attribute_key k"
    using validate_otlp_attributesD(1) [OF assms] by auto
  from push_attributes_ok [OF this] show ?thesis by (simp add: otlp_request_def Let_def)
qed

text \<open>
  C32: Under a validated configuration the OTLP exporter never stops by itself: its headers
  are built, carry every configured header and the forced protobuf content types, and each
  cycle, whatever the collector answers or fails to answer, encodes a payload and counts
  exactly one success or one failure, remembering the duration and the payload size.
\<close>
theorem otlp_exporter_keeps_going:
  assumes "validate http (xi_config xi) = Inr ()"
  shows "(\<exists>m. make_otlp_headers http (xi_config xi) = Inr m
        \<and> map_of m (lit ''content-type'') = Some protobuf_type \<and> map_of m (lit ''accept'') = Some protobuf_type
        \<and> (\<forall>n. n \<noteq> lit ''content-type'' \<longrightarrow> n \<noteq> lit ''accept'' \<longrightarrow>
             map_of m n = map_of (rev (normal_headers http (otlp_headers (mc_otlp (metrics_cfg (xi_config xi)))))) n))
     \<and> (\<exists>payload stats'. export_cycle encode decode xi st history rt now outcome duration finished stats = Inr (payload, stats')
        \<and> os_last_duration_ms stats' = Some duration \<and> os_last_payload_bytes stats' = Some (of_nat (length payload))
        \<and> (os_success_total stats' = os_success_total stats + 1 \<and> os_failure_total stats' = os_failure_total stats
              \<and> os_last_success_unix_ms stats' = Some finished
           \<or> os_failure_total stats' = os_failure_total stats + 1 \<and> os_success_total stats' = os_success_total stats
              \<and> os_last_failure_unix_ms stats' = Some finished))"
proof -
  define tier where "tier = otlp_detail_tier (mc_otlp (metrics_cfg (xi_config xi)))"
  define samples where "samples = collect_metric_samples (xi_version xi) (xi_config xi) (xi_observer xi)
      (export_summaries st now MAX_METRICS_RENDERED_SESSIONS) (map_option stats_snapshot history)
      (runtime_snapshot rt) stats \<lparr>co_detail_tier = tier, co_include_observer_info = includes_sessions tier\<rparr>"
  obtain payload where "encode_otlp_metrics encode (xi_version xi) (xi_observer xi) (xi_config xi) samples now
      (xi_started_nano xi) = Inr payload"
    using otlp_request_ok [OF assms, of "xi_version xi" "xi_observer xi" samples now "xi_started_nano xi"]
    by (auto simp: encode_otlp_metrics_def)
  then have "export_cycle encode decode xi st history rt now outcome duration finished stats
      = Inr (payload, case outcome of
                  Some response \<Rightarrow>
                    (case handle_otlp_response decode response of
                       Inl _ \<Rightarrow> record_failure duration finished (of_nat (length payload)) stats
                     | Inr _ \<Rightarrow> record_success duration finished (of_nat (length payload)) stats)
                | None \<Rightarrow> record_failure duration finished (of_nat (length payload)) stats)"
    by (simp add: export_cycle_def Let_def samples_def tier_def)
  then show ?thesis
    using otlp_headers_ok [OF assms]
    by (auto simp: record_success_def record_failure_def split: option.splits sum.splits)
qed

theorem otlp_exporter_keeps_going_witness:
  "\<forall>http st. \<exists>payload stats'.
     export_cycle (\<lambda>req. [1, 2]) (\<lambda>b. None)
       \<lparr>xi_version = lit ''0.3.0'', xi_config = default_config, xi_observer = \<lparr>node_name = [], system_id = []\<rparr>,
        xi_started_nano = 0\<rparr>
       st None (new_runtime_stats 5000 None 1000) 1000 (None :: unit otlp_response option) 3 1003 no_otlp_stats
       = Inr (payload, stats')
     \<and> (\<exists>m. make_otlp_headers http default_config = Inr m \<and> map_of m (lit ''accept'') = Some protobuf_type)"
proof (intro allI)
  fix http st
  have "validate http (xi_config \<lparr>xi_version = lit ''0.3.0'', xi_config = default_config,
      xi_observer = \<lparr>node_name = [], system_id = []\<rparr>, xi_started_nano = 0\<rparr>) = Inr ()"
    by (simp add: default_config_valid)
  from otlp_exporter_keeps_going [OF this, of "\<lambda>req. [1, 2]" "\<lambda>b. None" st None "new_runtime_stats 5000 None 1000" 1000
      "None :: unit otlp_response option" 3 1003 no_otlp_stats]
  show "\<exists>payload stats'.
     export_cycle (\<lambda>req. [1, 2]) (\<lambda>b. None)
       \<lparr>xi_version = lit ''0.3.0'', xi_config = default_config, xi_observer = \<lparr>node_name = [], system_id = []\<rparr>,
        xi_started_nano = 0\<rparr>
       st None (new_runtime_stats 5000 None 1000) 1000 (None :: unit otlp_response option) 3 1003 no_otlp_stats
       = Inr (payload, stats')
     \<and> (\<exists>m. make_otlp_headers http default_config = Inr m \<and> map_of m (lit ''accept'') = Some protobuf_type)"
    by (simp only: export_inputs.select_convs) blast
qed

end
