(* ===== verification/Metrics_Facts.thy ===== *)
theory Metrics_Facts
  imports Metrics
begin

text \<open>
  What every metrics export keeps: its series conform to the catalog, the aggregate tier
  carries nothing of sessions or observer, and the text can be read back line by line.
\<close>

section \<open>The sample map\<close>

definition series_of :: "sample_map \<Rightarrow> metric_id \<Rightarrow> metric_sample list" where
  "series_of m mid = (case m mid of Some series \<Rightarrow> series | None \<Rightarrow> [])"

lemma fold_store_samples:
  "fold store_sample adds m mid =
     (let new = map snd (filter (\<lambda>e. fst e = mid) adds) in
      if new = [] then m mid else Some (series_of m mid @ new))"
proof (induction adds arbitrary: m)
  case (Cons e adds)
  then show ?case
    by (auto simp: Let_def store_sample_def series_of_def split: option.splits)
qed simp

lemma series_of_store: "series_of (store_samples adds) mid = map snd (filter (\<lambda>e. fst e = mid) adds)"
  by (simp add: store_samples_def series_of_def [of "fold _ _ _"] fold_store_samples Let_def)
    (simp add: series_of_def)

lemma store_samples_None_iff: "store_samples adds mid = None \<longleftrightarrow> filter (\<lambda>e. fst e = mid) adds = []"
  by (simp add: store_samples_def fold_store_samples Let_def)

lemma list_all_series_of:
  "list_all (\<lambda>e. P (fst e) (snd e)) adds \<Longrightarrow> list_all (P mid) (series_of (store_samples adds) mid)"
  by (auto simp: series_of_store list_all_iff)

section \<open>Conformance with the catalog\<close>

fun schema_labels :: "metric_label_schema \<Rightarrow> rstr list" where
  "schema_labels NoLabels = []"
| "schema_labels BuildVersion = [lit ''version'']"
| "schema_labels Observer = [lit ''node_name'', lit ''system_id'']"
| "schema_labels Kind = [lit ''kind'']"
| "schema_labels KindHealth = [lit ''kind'', lit ''health'']"
| "schema_labels Loop = [lit ''loop'']"
| "schema_labels Severity = [lit ''severity'']"
| "schema_labels ExportResult = [lit ''result'']"
| "schema_labels ExporterDetailTier = [lit ''detail_tier'']"
| "schema_labels SessionValue = [lit ''session_id'', lit ''kind'']"
| "schema_labels SessionInfoLabels =
     [lit ''session_id'', lit ''display_session_id'', lit ''kind'', lit ''pid'', lit ''started_at_unix_ms'']"
| "schema_labels SessionWindow = [lit ''session_id'', lit ''kind'', lit ''window'']"

definition conforms :: "metrics_detail_tier \<Rightarrow> metric_id \<Rightarrow> metric_sample \<Rightarrow> bool" where
  "conforms tier mid s =
     (case find_metric_descriptor mid of
        None \<Rightarrow> False
      | Some d \<Rightarrow> map fst (ms_labels s) = schema_labels (md_labels d)
          \<and> (md_minimum_detail_tier d = PerSession \<longrightarrow> tier = PerSession)
          \<and> (ms_start_time_unix_nano s \<noteq> None \<longrightarrow> md_kind d = Counter))"

text \<open>What the catalog says of an id, as far as conformance asks.\<close>

definition catalog_entry :: "metric_id \<Rightarrow> (metric_label_schema \<times> metrics_detail_tier \<times> metric_kind) option" where
  "catalog_entry mid =
     map_option (\<lambda>d. (md_labels d, md_minimum_detail_tier d, md_kind d)) (find_metric_descriptor mid)"

definition catalog_index :: "(metric_id \<times> metric_label_schema \<times> metrics_detail_tier \<times> metric_kind) list" where
  "catalog_index =
    [(IdBuildInfo, BuildVersion, AggregateOnly, Info),
     (IdObserverInfo, Observer, PerSession, Info),
     (IdSessions, Kind, AggregateOnly, Gauge),
     (IdSessionsByHealth, KindHealth, AggregateOnly, Gauge),
     (IdMetricsRenderedSessions, NoLabels, AggregateOnly, Gauge),
     (IdMetricsTruncatedSessions, NoLabels, AggregateOnly, Gauge),
     (IdRuntimeDroppedSessionsTotal, NoLabels, AggregateOnly, Counter),
     (IdRuntimeWorkerThreads, NoLabels, AggregateOnly, Gauge),
     (IdRuntimeLoopIntervalMs, Loop, AggregateOnly, Gauge),
     (IdRuntimeLoopLastDurationMs, Loop, AggregateOnly, Gauge),
     (IdRuntimeLoopOverrunsTotal, Loop, AggregateOnly, Counter),
     (IdHistoryCurrentBytes, NoLabels, AggregateOnly, Gauge),
     (IdHistoryWrittenBytesTotal, NoLabels, AggregateOnly, Counter),
     (IdHistoryWriteFailuresTotal, NoLabels, AggregateOnly, Counter),
     (IdHistoryPruneFailuresTotal, NoLabels, AggregateOnly, Counter),
     (IdHistoryDroppedSamplesTotal, NoLabels, AggregateOnly, Counter),
     (IdThresholdRttMs, Severity, AggregateOnly, Gauge),
     (IdThresholdRetransmitPct, Severity, AggregateOnly, Gauge),
     (IdThresholdSilenceMs, Severity, AggregateOnly, Gauge),
     (IdOtlpExportEnabled, ExporterDetailTier, AggregateOnly, Gauge),
     (IdOtlpExportsTotal, ExportResult, AggregateOnly, Counter),
     (IdOtlpExportLastDurationMs, NoLabels, AggregateOnly, Gauge),
     (IdOtlpExportLastSuccessUnixMs, NoLabels, AggregateOnly, Gauge),
     (IdOtlpExportLastFailureUnixMs, NoLabels, AggregateOnly, Gauge),
     (IdOtlpExportLastPayloadBytes, NoLabels, AggregateOnly, Gauge),
     (IdSessionInfo, SessionInfoLabels, PerSession, Info),
     (IdSessionHealthLevel, SessionValue, PerSession, Gauge),
     (IdSessionSrttMs, SessionValue, PerSession, Gauge),
     (IdSessionRttvarMs, SessionValue, PerSession, Gauge),
     (IdSessionLastRttMs, SessionValue, PerSession, Gauge),
     (IdSessionLastHeardAgeMs, SessionValue, PerSession, Gauge),
     (IdSessionRemoteStateAgeMs, SessionValue, PerSession, Gauge),
     (IdSessionRetransmitPct10s, SessionValue, PerSession, Gauge),
     (IdSessionRetransmitPct60s, SessionValue, PerSession, Gauge),
     (IdSessionRetransmitWindowComplete, SessionWindow, PerSession, Gauge),
     (IdSessionRetransmitWindowTransmissions, SessionWindow, PerSession, Gauge),
     (IdSessionRetransmitWindowRetransmits, SessionWindow, PerSession, Gauge),
     (IdSessionRetransmitWindowStateUpdates, SessionWindow, PerSession, Gauge),
     (IdSessionRetransmitWindowEmptyAcks, SessionWindow, PerSession, Gauge),
     (IdSessionPacketsTxTotal, SessionValue, PerSession, Counter),
     (IdSessionPacketsRxTotal, SessionValue, PerSession, Counter),
     (IdSessionRetransmitsTotal, SessionValue, PerSession, Counter)]"

lemma catalog_index_eq: "map (\<lambda>d. (md_id d, md_labels d, md_minimum_detail_tier d, md_kind d)) metric_catalog = catalog_index"
  unfolding metric_catalog_def daemon_metrics_def loop_and_history_metrics_def threshold_metrics_def
    otlp_metrics_def session_value_metrics_def session_window_metrics_def session_counter_metrics_def catalog_index_def
  by (simp only: append.simps list.map metric_descriptor.select_convs)

lemma find_map_of:
  "map_option h (List.find (\<lambda>d. k d = x) ds) = map_of (map (\<lambda>d. (k d, h d)) ds) x"
  by (induction ds) auto

lemma catalog_entry_index: "catalog_entry mid = map_of catalog_index mid"
  unfolding catalog_entry_def find_metric_descriptor_def find_map_of catalog_index_eq ..

lemma catalog_entries [simp]:
  "catalog_entry IdBuildInfo = Some (BuildVersion, AggregateOnly, Info)"
  "catalog_entry IdObserverInfo = Some (Observer, PerSession, Info)"
  "catalog_entry IdSessions = Some (Kind, AggregateOnly, Gauge)"
  "catalog_entry IdSessionsByHealth = Some (KindHealth, AggregateOnly, Gauge)"
  "catalog_entry IdMetricsRenderedSessions = Some (NoLabels, AggregateOnly, Gauge)"
  "catalog_entry IdMetricsTruncatedSessions = Some (NoLabels, AggregateOnly, Gauge)"
  "catalog_entry IdRuntimeDroppedSessionsTotal = Some (NoLabels, AggregateOnly, Counter)"
  "catalog_entry IdRuntimeWorkerThreads = Some (NoLabels, AggregateOnly, Gauge)"
  "catalog_entry IdRuntimeLoopIntervalMs = Some (Loop, AggregateOnly, Gauge)"
  "catalog_entry IdRuntimeLoopLastDurationMs = Some (Loop, AggregateOnly, Gauge)"
  "catalog_entry IdRuntimeLoopOverrunsTotal = Some (Loop, AggregateOnly, Counter)"
  "catalog_entry IdHistoryCurrentBytes = Some (NoLabels, AggregateOnly, Gauge)"
  "catalog_entry IdHistoryWrittenBytesTotal = Some (NoLabels, AggregateOnly, Counter)"
  "catalog_entry IdHistoryWriteFailuresTotal = Some (NoLabels, AggregateOnly, Counter)"
  "catalog_entry IdHistoryPruneFailuresTotal = Some (NoLabels, AggregateOnly, Counter)"
  "catalog_entry IdHistoryDroppedSamplesTotal = Some (NoLabels, AggregateOnly, Counter)"
  "catalog_entry IdThresholdRttMs = Some (Severity, AggregateOnly, Gauge)"
  "catalog_entry IdThresholdRetransmitPct = Some (Severity, AggregateOnly, Gauge)"
  "catalog_entry IdThresholdSilenceMs = Some (Severity, AggregateOnly, Gauge)"
  "catalog_entry IdOtlpExportEnabled = Some (ExporterDetailTier, AggregateOnly, Gauge)"
  "catalog_entry IdOtlpExportsTotal = Some (ExportResult, AggregateOnly, Counter)"
  "catalog_entry IdOtlpExportLastDurationMs = Some (NoLabels, AggregateOnly, Gauge)"
  "catalog_entry IdOtlpExportLastSuccessUnixMs = Some (NoLabels, AggregateOnly, Gauge)"
  "catalog_entry IdOtlpExportLastFailureUnixMs = Some (NoLabels, AggregateOnly, Gauge)"
  "catalog_entry IdOtlpExportLastPayloadBytes = Some (NoLabels, AggregateOnly, Gauge)"
  "catalog_entry IdSessionInfo = Some (SessionInfoLabels, PerSession, Info)"
  "catalog_entry IdSessionHealthLevel = Some (SessionValue, PerSession, Gauge)"
  "catalog_entry IdSessionSrttMs = Some (SessionValue, PerSession, Gauge)"
  "catalog_entry IdSessionRttvarMs = Some (SessionValue, PerSession, Gauge)"
  "catalog_entry IdSessionLastRttMs = Some (SessionValue, PerSession, Gauge)"
  "catalog_entry IdSessionLastHeardAgeMs = Some (SessionValue, PerSession, Gauge)"
  "catalog_entry IdSessionRemoteStateAgeMs = Some (SessionValue, PerSession, Gauge)"
  "catalog_entry IdSessionRetransmitPct10s = Some (SessionValue, PerSession, Gauge)"
  "catalog_entry IdSessionRetransmitPct60s = Some (SessionValue, PerSession, Gauge)"
  "catalog_entry IdSessionRetransmitWindowComplete = Some (SessionWindow, PerSession, Gauge)"
  "catalog_entry IdSessionRetransmitWindowTransmissions = Some (SessionWindow, PerSession, Gauge)"
  "catalog_entry IdSessionRetransmitWindowRetransmits = Some (SessionWindow, PerSession, Gauge)"
  "catalog_entry IdSessionRetransmitWindowStateUpdates = Some (SessionWindow, PerSession, Gauge)"
  "catalog_entry IdSessionRetransmitWindowEmptyAcks = Some (SessionWindow, PerSession, Gauge)"
  "catalog_entry IdSessionPacketsTxTotal = Some (SessionValue, PerSession, Counter)"
  "catalog_entry IdSessionPacketsRxTotal = Some (SessionValue, PerSession, Counter)"
  "catalog_entry IdSessionRetransmitsTotal = Some (SessionValue, PerSession, Counter)"
  by (simp_all add: catalog_entry_index catalog_index_def)

lemma conforms_entry:
  "conforms tier mid s \<longleftrightarrow>
     (case catalog_entry mid of
        None \<Rightarrow> False
      | Some (schema, minimum, kind) \<Rightarrow> map fst (ms_labels s) = schema_labels schema
          \<and> (minimum = PerSession \<longrightarrow> tier = PerSession) \<and> (ms_start_time_unix_nano s \<noteq> None \<longrightarrow> kind = Counter))"
  by (simp add: conforms_def catalog_entry_def split: option.split)

definition all_conform :: "metrics_detail_tier \<Rightarrow> additions \<Rightarrow> bool" where
  "all_conform tier adds \<longleftrightarrow> list_all (\<lambda>e. conforms tier (fst e) (snd e)) adds"

lemma all_conform_simps [simp]:
  "all_conform tier []"
  "all_conform tier (a @ b) \<longleftrightarrow> all_conform tier a \<and> all_conform tier b"
  "all_conform tier (concat (map f xs)) \<longleftrightarrow> (\<forall>x \<in> set xs. all_conform tier (f x))"
  by (auto simp: all_conform_def list_all_iff)

lemma all_conform_adds [simp]:
  "all_conform tier (add_sample mid ls v) \<longleftrightarrow> conforms tier mid \<lparr>ms_labels = ls, ms_value = v, ms_start_time_unix_nano = None\<rparr>"
  "all_conform tier (add_optional_sample mid ls ov) \<longleftrightarrow>
     (\<forall>v. ov = Some v \<longrightarrow> conforms tier mid \<lparr>ms_labels = ls, ms_value = v, ms_start_time_unix_nano = None\<rparr>)"
  "all_conform tier (add_optional_counter_sample mid ls t ov) \<longleftrightarrow>
     (\<forall>v. ov = Some v \<longrightarrow> conforms tier mid \<lparr>ms_labels = ls, ms_value = v, ms_start_time_unix_nano = Some (unix_nanos t)\<rparr>)"
  by (auto simp: all_conform_def add_sample_def add_optional_sample_def add_optional_counter_sample_def
      add_sample_with_start_time_def split: option.split)

lemma inventory_conforms: "all_conform tier (inventory_samples version ob ex
    \<lparr>co_detail_tier = tier, co_include_observer_info = includes_sessions tier\<rparr>)"
  by (cases tier) (simp_all add: inventory_samples_def conforms_entry includes_sessions_def)

lemma loop_conforms: "all_conform tier (add_runtime_loop_samples name i l o')"
  by (simp add: add_runtime_loop_samples_def Let_def conforms_entry)

lemma daemon_parts_conform:
  "all_conform tier (runtime_samples rt)" "all_conform tier (history_samples h)"
  "all_conform tier (threshold_samples t)" "all_conform tier (otlp_samples otl st)"
  by (simp_all add: runtime_samples_def loop_conforms history_samples_def threshold_samples_def otlp_samples_def
      Let_def conforms_entry)

lemma session_conforms: "all_conform PerSession (session_samples s)"
  by (simp add: session_samples_def window_samples_def session_info_labels_def session_value_labels_def
      window_labels_def Let_def conforms_entry)

lemma collected_conform:
  "list_all (conforms tier mid)
     (series_of (collect_metric_samples version c ob ex history rt otlp
        \<lparr>co_detail_tier = tier, co_include_observer_info = includes_sessions tier\<rparr>) mid)"
proof -
  have "all_conform tier (if includes_sessions tier then concat (map session_samples (ex_sessions ex)) else [])"
    using session_conforms by (cases tier) (simp_all add: includes_sessions_def)
  then have "all_conform tier (collect_additions version c ob ex history rt otlp
        \<lparr>co_detail_tier = tier, co_include_observer_info = includes_sessions tier\<rparr>)"
    by (simp add: collect_additions_def inventory_conforms daemon_parts_conform)
  then show ?thesis unfolding collect_metric_samples_def all_conform_def by (rule list_all_series_of)
qed


section \<open>Privacy of the aggregate tier\<close>

text \<open>
  With the tier \<open>aggregate_only\<close> the scraped text depends on the sessions only through
  the exported counts: two exports with the same counts render alike, whatever sessions
  they hold and whatever the observer is called.
\<close>
theorem aggregate_metrics_are_private:
  assumes "prom_detail_tier (mc_prometheus (metrics_cfg c)) = AggregateOnly"
    and "ex_instrumented_sessions ex = ex_instrumented_sessions ex'" and "ex_legacy_sessions ex = ex_legacy_sessions ex'"
    and "ex_health_counts ex = ex_health_counts ex'" and "ex_dropped_sessions_total ex = ex_dropped_sessions_total ex'"
  shows "render_metrics version c ob ex history rt otlp f = render_metrics version c ob' ex' history rt otlp f"
  using assms
  by (simp add: render_metrics_def collect_metric_samples_def collect_additions_def inventory_samples_def includes_sessions_def)

text \<open>One discovered session and none, under the tier that hides them.\<close>

definition aggregate_config :: app_config where
  "aggregate_config = default_config\<lparr>metrics_cfg :=
     (metrics_cfg default_config)\<lparr>mc_prometheus := default_prometheus\<lparr>prom_detail_tier := AggregateOnly\<rparr>\<rparr>\<rparr>"

theorem aggregate_metrics_are_private_witness:
  "\<forall>s t version ob ob' history rt otlp f.
     let ex = (\<lambda>ss. \<lparr>ex_sessions = ss, ex_total_sessions = 1, ex_truncated_session_count = 0,
                     ex_instrumented_sessions = 0, ex_legacy_sessions = 1, ex_health_counts = [],
                     ex_dropped_sessions_total = 0\<rparr>)
     in render_metrics version aggregate_config ob (ex [s]) history rt otlp f
        = render_metrics version aggregate_config ob' (ex [t]) history rt otlp f"
  unfolding Let_def
  by (intro allI aggregate_metrics_are_private) (simp_all add: aggregate_config_def)

end
