(* ===== verification/Metrics_Text.thy ===== *)
theory Metrics_Text
  imports Metrics_Facts
begin

text \<open>
  The text formats read back: every sample is one line, whatever the labels hold, and a
  reader of the exposition format recovers the name, the labels and the value from it.
\<close>

section \<open>A reader\<close>

fun read_quoted :: "rstr \<Rightarrow> (rstr \<times> rstr) option" where
  "read_quoted [] = None"
| "read_quoted (c # cs) =
     (if c = 34 then Some ([], cs)
      else if c = 92 then
        (case cs of
           [] \<Rightarrow> None
         | e # es \<Rightarrow> map_option (\<lambda>(v, r). ((if e = 110 then 10 else e) # v, r)) (read_quoted es))
      else map_option (\<lambda>(v, r). (c # v, r)) (read_quoted cs))"

text \<open>The labels up to the closing brace; the number bounds how many there are.\<close>

fun read_labels :: "nat \<Rightarrow> rstr \<Rightarrow> (labels \<times> rstr) option" where
  "read_labels 0 s = None"
| "read_labels (Suc n) s =
     (case split_once s 61 of
        Some (name, q # r) \<Rightarrow>
          if q \<noteq> 34 then None
          else (case read_quoted r of
                  Some (v, sep # t) \<Rightarrow>
                    if sep = 125 then Some ([(name, v)], t)
                    else if sep = 44 then map_option (\<lambda>(ls, u). ((name, v) # ls, u)) (read_labels n t)
                    else None
                | _ \<Rightarrow> None)
      | _ \<Rightarrow> None)"

definition read_sample :: "rstr \<Rightarrow> (rstr \<times> labels \<times> rstr) option" where
  "read_sample line =
     (let name = takeWhile (\<lambda>c. c \<noteq> 32 \<and> c \<noteq> 123) line in
      case drop (length name) line of
        [] \<Rightarrow> None
      | c # r \<Rightarrow>
          if c = 32 then Some (name, [], r)
          else (case read_labels (length r) r of
                  Some (ls, b # v) \<Rightarrow> if b = 32 then Some (name, ls, v) else None
                | _ \<Rightarrow> None))"

section \<open>Escaping\<close>

definition escape_char :: "uchar \<Rightarrow> rstr" where
  "escape_char x = (if x = 92 then [92, 92] else if x = 10 then [92, 110] else if x = 34 then [92, 34] else [x])"

lemma escape_label_Cons: "escape_label (x # v) = escape_char x @ escape_label v"
  by (simp add: escape_label_def replace_char_def escape_char_def)

lemma escape_label_Nil: "escape_label [] = []"
  by (simp add: escape_label_def replace_char_def)

lemma escape_label_no_newline: "10 \<notin> set (escape_label v)"
  by (induction v) (auto simp: escape_label_Cons escape_label_Nil escape_char_def)

lemma read_quoted_escape: "read_quoted (escape_label v @ 34 # rest) = Some (v, rest)"
  by (induction v) (auto simp: escape_label_Cons escape_label_Nil escape_char_def)

lemma read_rendered_labels:
  "ls \<noteq> [] \<Longrightarrow> length ls \<le> n \<Longrightarrow> list_all (\<lambda>l. 61 \<notin> set (fst l)) ls \<Longrightarrow>
   read_labels n (join_with [44] (map render_label ls) @ 125 # rest) = Some (ls, rest)"
proof (induction ls arbitrary: n)
  case (Cons l ls)
  then obtain m where n: "n = Suc m" "length ls \<le> m" by (cases n) auto
  obtain name v where l: "l = (name, v)" by (cases l)
  have split: "split_once (render_label l @ t) 61 = Some (name, 34 # escape_label v @ 34 # t)" for t
    using Cons.prems(3) l by (simp add: render_label_def split_once_append)
  show ?case
  proof (cases ls)
    case Nil
    then show ?thesis using n l split [of "125 # rest"] by (simp add: read_quoted_escape)
  next
    case (Cons k ks)
    have "join_with [44] (map render_label (l # ls)) @ 125 # rest
        = render_label l @ 44 # join_with [44] (map render_label ls) @ 125 # rest" using Cons by simp
    then show ?thesis 
      using n l Cons Cons.IH [of m] Cons.prems(3) split [of "44 # join_with [44] (map render_label ls) @ 125 # rest"]
      by (simp add: read_quoted_escape)
  qed
qed simp

lemma length_join_render: "length ls \<le> length (join_with [44] (map render_label ls))"
proof (induction ls)
  case (Cons l ls)
  then show ?case by (cases ls) (simp_all add: render_label_def)
qed simp

lemma read_sample_line:
  assumes "32 \<notin> set (md_name d)" and "123 \<notin> set (md_name d)" and "list_all (\<lambda>l. 61 \<notin> set (fst l)) (ms_labels s)"
  shows "read_sample (sample_line d s) = Some (md_name d, ms_labels s, f64_display (ms_value s))"
proof -
  have name: "takeWhile (\<lambda>c. c \<noteq> 32 \<and> c \<noteq> 123) (md_name d @ c # r) = md_name d" if "c = 32 \<or> c = 123" for c r
    using assms(1,2) that by (auto simp: takeWhile_append)
  show ?thesis
  proof (cases "ms_labels s")
    case Nil
    then show ?thesis by (simp add: read_sample_def sample_line_def name)
  next
    case (Cons l ls)
    let ?t = "[32] @ f64_display (ms_value s)"
    have "read_labels (length (join_with [44] (map render_label (ms_labels s)) @ 125 # ?t))
        (join_with [44] (map render_label (ms_labels s)) @ 125 # ?t) = Some (ms_labels s, ?t)"
      using Cons assms(3) length_join_render [of "ms_labels s"] by (intro read_rendered_labels) simp_all
    then show ?thesis using Cons by (simp add: read_sample_def sample_line_def name)
  qed
qed

section \<open>Lines\<close>

lemma strip_zeros_subset: "set (strip_zeros s) \<subseteq> set s"
  by (auto simp: strip_zeros_def dest!: set_dropWhileD)

lemma show_nat_no_newline [simp]: "10 \<notin> set (show_nat n)"
  using show_nat_digits [of 10 n] by (auto simp: is_digit_def)

lemma f64_display_no_newline [simp]: "10 \<notin> set (f64_display x)"
proof -
  have "10 \<notin> set (show_decimal c k)" for c k
    using strip_zeros_subset [of "replicate (nat (- k) - length (show_nat (c mod 10 ^ nat (- k)))) 48
        @ show_nat (c mod 10 ^ nat (- k))"]
    by (auto simp: show_decimal_def Let_def)
  then have "10 \<notin> set (f64_display_pos q)" for q by (auto simp: f64_display_pos_def split: option.split)
  then show ?thesis by (cases x rule: f64_display.cases) (auto simp: lit_def)
qed

lemma split_on_line: "10 \<notin> set l \<Longrightarrow> split_on 10 (l @ 10 # rest) = l # split_on 10 rest"
  by (induction l) auto

lemma split_on_lines: "list_all (\<lambda>l. 10 \<notin> set l) ls \<Longrightarrow> split_on 10 (concat (map (\<lambda>l. l @ [10]) ls)) = ls @ [[]]"
  by (induction ls) (simp_all add: split_on_line)

definition help_line :: "metric_descriptor \<Rightarrow> rstr" where
  "help_line d = lit ''# HELP '' @ md_name d @ [32] @ md_help d"

definition type_line :: "metric_descriptor \<Rightarrow> metrics_text_format \<Rightarrow> rstr" where
  "type_line d f = lit ''# TYPE '' @ md_name d @ [32] @ metric_type_text (md_kind d) f"

definition family_lines :: "sample_map \<Rightarrow> metrics_text_format \<Rightarrow> metric_descriptor \<Rightarrow> rstr list" where
  "family_lines m f d =
     (case m (md_id d) of None \<Rightarrow> [] | Some series \<Rightarrow> help_line d # type_line d f # map (sample_line d) series)"

definition text_of_lines :: "rstr list \<Rightarrow> rstr" where
  "text_of_lines ls = concat (map (\<lambda>l. l @ [10]) ls)"

lemma text_of_lines_simps [simp]:
  "text_of_lines [] = []" "text_of_lines (l # ls) = l @ 10 # text_of_lines ls"
  "text_of_lines (a @ b) = text_of_lines a @ text_of_lines b"
  by (simp_all add: text_of_lines_def)

lemma render_family_lines: "render_family m f d = text_of_lines (family_lines m f d)"
  by (simp add: render_family_def family_lines_def help_line_def type_line_def text_of_lines_def comp_def
      render_metric_sample_def [abs_def] split: option.split)

lemma render_lines:
  "render_metric_samples m f
     = text_of_lines (concat (map (family_lines m f) metric_catalog) @ (if f = OpenMetricsText then [lit ''# EOF''] else []))"
proof -
  have "concat (map (render_family m f) ds) = text_of_lines (concat (map (family_lines m f) ds))" for ds
    by (induction ds) (simp_all add: render_family_lines)
  then show ?thesis by (simp add: render_metric_samples_def)
qed

text \<open>Names and help texts of the catalog keep to one line, and names to the characters of a metric name.\<close>

definition plain_descriptor :: "metric_descriptor \<Rightarrow> bool" where
  "plain_descriptor d \<longleftrightarrow> list_all (\<lambda>c. c \<noteq> 10 \<and> c \<noteq> 32 \<and> c \<noteq> 123) (md_name d) \<and> list_all (\<lambda>c. c \<noteq> 10) (md_help d)"

lemma catalog_plain: "list_all plain_descriptor metric_catalog"
proof -
  have "list_all plain_descriptor daemon_metrics" "list_all plain_descriptor loop_and_history_metrics"
    "list_all plain_descriptor threshold_metrics" "list_all plain_descriptor otlp_metrics"
    "list_all plain_descriptor session_value_metrics" "list_all plain_descriptor session_window_metrics"
    "list_all plain_descriptor session_counter_metrics"
    by (simp_all add: plain_descriptor_def lit_def daemon_metrics_def loop_and_history_metrics_def
        threshold_metrics_def otlp_metrics_def session_value_metrics_def session_window_metrics_def
        session_counter_metrics_def)
  then show ?thesis by (simp add: metric_catalog_def)
qed

lemma schema_label_chars: "list_all (\<lambda>n. 61 \<notin> set n \<and> 10 \<notin> set n) (schema_labels schema)"
  by (cases schema) (simp_all add: lit_def)

lemma conforming_labels:
  "conforms tier mid s \<Longrightarrow> list_all (\<lambda>l. 61 \<notin> set (fst l) \<and> 10 \<notin> set (fst l)) (ms_labels s)"
proof -
  assume "conforms tier mid s"
  then obtain schema where "map fst (ms_labels s) = schema_labels schema"
    by (auto simp: conforms_entry split: option.splits)
  then have "list_all (\<lambda>n. 61 \<notin> set n \<and> 10 \<notin> set n) (map fst (ms_labels s))"
    using schema_label_chars by simp
  then show ?thesis by (simp add: list_all_iff)
qed

lemma set_join_with: "set (join_with sep ps) \<subseteq> set sep \<union> \<Union> (set ` set ps)"
  by (induction sep ps rule: join_with.induct) auto

lemma sample_line_no_newline:
  assumes "plain_descriptor d" and "conforms tier mid s"
  shows "10 \<notin> set (sample_line d s)"
proof -
  have "10 \<notin> set (join_with [44] (map render_label (ms_labels s)))"
    using set_join_with [of "[44]" "map render_label (ms_labels s)"] conforming_labels [OF assms(2)]
    by (fastforce simp: render_label_def escape_label_no_newline list_all_iff)
  with assms(1) show ?thesis by (auto simp: sample_line_def plain_descriptor_def list_all_iff)
qed

lemma type_text_no_newline: "10 \<notin> set (metric_type_text k f)"
  by (cases k; cases f) (simp_all add: lit_def)

lemma family_lines_no_newline:
  assumes "plain_descriptor d" and "list_all (conforms tier (md_id d)) (series_of m (md_id d))"
  shows "list_all (\<lambda>l. 10 \<notin> set l) (family_lines m f d)"
proof (cases "m (md_id d)")
  case (Some series)
  have "10 \<notin> set (help_line d)" "10 \<notin> set (type_line d f)"
    using assms(1) type_text_no_newline by (auto simp: help_line_def type_line_def plain_descriptor_def lit_def list_all_iff)
  moreover have "list_all (\<lambda>l. 10 \<notin> set l) (map (sample_line d) series)"
    using assms Some sample_line_no_newline by (auto simp: series_of_def list_all_iff)
  ultimately show ?thesis using Some by (simp add: family_lines_def)
qed (simp add: family_lines_def)

text \<open>
  C30: A scrape cannot be confused by what sessions are called: in both formats the text is
  exactly the lines of the catalog's families, one line per sample, and each sample line
  reads back as its metric name, its labels and its value, whatever characters the label
  values hold.
\<close>
theorem metrics_text_roundtrip:
  "let m = collect_metric_samples version c ob ex history rt otlp
             \<lparr>co_detail_tier = tier, co_include_observer_info = includes_sessions tier\<rparr> in
   split_on 10 (render_metric_samples m f)
     = concat (map (family_lines m f) metric_catalog) @ (if f = OpenMetricsText then [lit ''# EOF''] else []) @ [[]]
   \<and> list_all (\<lambda>d. list_all (\<lambda>s. read_sample (sample_line d s) = Some (md_name d, ms_labels s, f64_display (ms_value s)))
                    (series_of m (md_id d))) metric_catalog"
proof -
  define m where "m = collect_metric_samples version c ob ex history rt otlp
             \<lparr>co_detail_tier = tier, co_include_observer_info = includes_sessions tier\<rparr>"
  have conform: "list_all (conforms tier mid) (series_of m mid)" for mid
    unfolding m_def by (rule collected_conform)
  have "list_all (\<lambda>l. 10 \<notin> set l) (concat (map (family_lines m f) metric_catalog))"
    using catalog_plain family_lines_no_newline [OF _ conform, where f = f]
    by (fastforce simp: list_all_iff)
  then have "split_on 10 (render_metric_samples m f)
     = concat (map (family_lines m f) metric_catalog) @ (if f = OpenMetricsText then [lit ''# EOF''] else []) @ [[]]"
    unfolding render_lines text_of_lines_def by (subst split_on_lines) (auto simp: lit_def)
  moreover have "read_sample (sample_line d s) = Some (md_name d, ms_labels s, f64_display (ms_value s))"
    if "d \<in> set metric_catalog" "s \<in> set (series_of m (md_id d))" for d s
  proof (rule read_sample_line)
    show "32 \<notin> set (md_name d)" "123 \<notin> set (md_name d)"
      using catalog_plain that(1) by (auto simp: list_all_iff plain_descriptor_def)
    show "list_all (\<lambda>l. 61 \<notin> set (fst l)) (ms_labels s)"
      using conforming_labels [of tier "md_id d" s] conform that(2) by (auto simp: list_all_iff)
  qed
  ultimately show ?thesis unfolding Let_def m_def [symmetric] by (auto simp: list_all_iff)
qed

end
