(* ===== verification/Metrics_Server_Facts.thy ===== *)
theory Metrics_Server_Facts
  imports Metrics_Server
begin

text \<open>The bearer check of the metrics listener and what an unauthorized client can learn.\<close>

section \<open>Comparison without early exit\<close>

lemma fold_or_zero: "fold (\<lambda>i d. or d (f i)) is (d :: nat) = 0 \<longleftrightarrow> d = 0 \<and> (\<forall>i \<in> set is. f i = 0)"
  by (induction "is" arbitrary: d) (auto simp: or_eq_0_iff)

lemma xor_nat_zero: "xor m n = 0 \<longleftrightarrow> m = (n :: nat)"
  by (metis xor.assoc xor.left_neutral xor.right_neutral xor_self_eq)

lemma xor_byte_zero: "unat (xor x y) = 0 \<longleftrightarrow> x = (y :: u8)"
proof -
  have "unat w = 0 \<longleftrightarrow> w = 0" for w :: u8 by (simp add: unat_eq_zero)
  moreover have "x = y" if "xor x y = 0"
  proof -
    have "x = xor x (xor y y)" by simp
    also have "\<dots> = xor (xor x y) y" by (simp only: xor.assoc)
    finally show ?thesis using that by simp
  qed
  ultimately show ?thesis by (metis xor_self_eq)
qed

lemma constant_time_eq_iff: "constant_time_eq left right \<longleftrightarrow> left = right"
proof -
  have "constant_time_eq left right \<longleftrightarrow>
      length left = length right \<and> (\<forall>i < max (length left) (length right). byte_or_zero left i = byte_or_zero right i)"
    unfolding constant_time_eq_def fold_or_zero xor_nat_zero xor_byte_zero by auto
  also have "\<dots> \<longleftrightarrow> left = right"
    by (auto simp: byte_or_zero_def list_eq_iff_nth_eq)
  finally show ?thesis .
qed

lemma utf8_encode_inject:
  assumes "list_all is_scalar a" and "list_all is_scalar b"
  shows "utf8_encode a = utf8_encode b \<longleftrightarrow> a = b"
  using from_utf8_encode [of a] from_utf8_encode [of b] assms by (metis option.inject)

section \<open>Authorization\<close>



end
