(* ===== verification/Negotiation_Facts.thy ===== *)
theory Negotiation_Facts
  imports Negotiation
begin

text \<open>
  Negotiation against its specification: of all media ranges of all \<open>Accept\<close> headers, the most
  specific one that applies to a format decides, the best quality among equals.
\<close>

section \<open>The best match\<close>

definition best_match :: "accept_match list \<Rightarrow> accept_match option" where
  "best_match ms = fold (\<lambda>m best. merge_accept_match best (Some m)) ms None"

text \<open>Merging is the maximum of a linear order on matches, so it forms a semilattice with \<open>None\<close>.\<close>

lemma accept_match_eqI:
  "am_quality a = am_quality b \<Longrightarrow> am_specificity a = am_specificity b \<Longrightarrow> a = (b :: accept_match)"
  by simp

lemma merge_None [simp]: "merge_accept_match None b = b" "merge_accept_match a None = a"
  by (cases b, simp_all) (cases a, simp_all)

lemma merge_self [simp]: "merge_accept_match a a = a"
  by (cases a) simp_all

lemma merge_commute: "merge_accept_match a b = merge_accept_match b a"
  by (cases a; cases b) (auto simp: is_candidate_preferred_over_def intro: accept_match_eqI)

lemma merge_assoc: "merge_accept_match (merge_accept_match a b) c = merge_accept_match a (merge_accept_match b c)"
  by (cases a; cases b; cases c) (auto simp: is_candidate_preferred_over_def)

interpretation merging: semilattice merge_accept_match
  by standard (rule merge_assoc merge_commute merge_self)+

lemma fold_merge: "fold (\<lambda>m best. merge_accept_match best (Some m)) ms a = merge_accept_match a (best_match ms)"
proof (induction ms arbitrary: a)
  case (Cons m ms)
  have "best_match (m # ms) = merge_accept_match (Some m) (best_match ms)"
    using Cons [of "Some m"] by (simp add: best_match_def [of "m # ms"])
  then show ?case using Cons [of "merge_accept_match a (Some m)"] by (simp add: merge_assoc)
qed (simp add: best_match_def)

lemma best_match_append: "best_match (xs @ ys) = merge_accept_match (best_match xs) (best_match ys)"
  by (simp add: best_match_def [of "xs @ ys"] fold_merge)

lemma best_match_simps [simp]:
  "best_match [] = None" "best_match (m # ms) = merge_accept_match (Some m) (best_match ms)"
  by (simp add: best_match_def) (simp add: best_match_def [of "m # ms"] fold_merge)

lemma best_match_None_iff [simp]: "best_match ms = None \<longleftrightarrow> ms = []"
  by (cases ms; cases "best_match (tl ms)") auto

lemma best_match_Some_iff:
  "best_match ms = Some m \<longleftrightarrow> m \<in> set ms \<and> (\<forall>x \<in> set ms. \<not> is_candidate_preferred_over x m)"
proof (induction ms arbitrary: m)
  case (Cons a ms)
  show ?case
  proof (cases "best_match ms")
    case None
    then show ?thesis by (auto simp: is_candidate_preferred_over_def)
  next
    case (Some b)
    with Cons.IH have b: "b \<in> set ms" "\<forall>x \<in> set ms. \<not> is_candidate_preferred_over x b" by auto
    have "m = b" if "m \<in> set ms" "\<forall>x \<in> set ms. \<not> is_candidate_preferred_over x m"
      using Cons.IH [of m] that Some by simp
    moreover have "\<not> is_candidate_preferred_over x a" if "is_candidate_preferred_over a b" "x \<in> set ms" for x
      using b(2) that by (fastforce simp: is_candidate_preferred_over_def)
    moreover have "\<not> is_candidate_preferred_over b a \<Longrightarrow> \<not> is_candidate_preferred_over a b \<Longrightarrow> a = b"
      by (auto simp: is_candidate_preferred_over_def intro: accept_match_eqI)
    ultimately show ?thesis using Some b
      by (auto simp: is_candidate_preferred_over_def)
  qed
qed simp

section \<open>Accept headers\<close>

text \<open>The values of the \<open>Accept\<close> headers of a request, and all their media ranges.\<close>

fun accept_values :: "rstr list \<Rightarrow> rstr list" where
  "accept_values [] = []"
| "accept_values (raw # rest) =
     (let line = trim_end_char 13 raw in
      if line = [] then []
      else (case split_once line 58 of
              Some (name, v) \<Rightarrow>
                if eq_ignore_ascii_case name (lit ''accept'') then v # accept_values rest else accept_values rest
            | None \<Rightarrow> accept_values rest))"

definition accept_ranges :: "rstr \<Rightarrow> rstr list" where
  "accept_ranges request = concat (map (split_on 44) (accept_values (drop 1 (text_lines request))))"

fun range_match :: "metrics_text_format \<Rightarrow> rstr \<Rightarrow> accept_match option" where
  "range_match OpenMetricsText i = accept_item_quality i openmetrics_type OPENMETRICS_TEXT_VERSION"
| "range_match PrometheusText i = accept_item_quality i text_plain_type PROMETHEUS_TEXT_VERSION"

definition range_matches :: "rstr list \<Rightarrow> metrics_text_format \<Rightarrow> accept_match list" where
  "range_matches items f = List.map_filter (range_match f) items"

definition preference_of :: "rstr list \<Rightarrow> accept_preference" where
  "preference_of items =
     \<lparr>ap_openmetrics = best_match (range_matches items OpenMetricsText),
      ap_text_plain = best_match (range_matches items PrometheusText)\<rparr>"

lemma range_matches_simps [simp]:
  "range_matches [] f = []"
  "range_matches (a @ b) f = range_matches a f @ range_matches b f"
  by (simp_all add: range_matches_def List.map_filter_def)

definition merge_preferences :: "accept_preference \<Rightarrow> accept_preference \<Rightarrow> accept_preference" where
  "merge_preferences p q =
     \<lparr>ap_openmetrics = merge_accept_match (ap_openmetrics p) (ap_openmetrics q),
      ap_text_plain = merge_accept_match (ap_text_plain p) (ap_text_plain q)\<rparr>"

lemma merge_preferences_assoc:
  "merge_preferences (merge_preferences p q) r = merge_preferences p (merge_preferences q r)"
  by (simp add: merge_preferences_def merge_assoc)

lemma merge_no_preference [simp]:
  "merge_preferences no_preference p = p" "merge_preferences p no_preference = p"
  by (simp_all add: merge_preferences_def no_preference_def)

lemma preference_of_simps [simp]:
  "preference_of [] = no_preference"
  "preference_of (a @ b) = merge_preferences (preference_of a) (preference_of b)"
  by (simp_all add: preference_of_def merge_preferences_def no_preference_def best_match_append)

lemma add_accept_item_merge: "add_accept_item i p = merge_preferences p (preference_of [i])"
  by (auto simp: add_accept_item_def merge_preferences_def preference_of_def range_matches_def
      List.map_filter_def split: option.split)

lemma fold_accept_items: "fold add_accept_item items p = merge_preferences p (preference_of items)"
proof (induction items arbitrary: p)
  case (Cons i items)
  have "preference_of (i # items) = merge_preferences (preference_of [i]) (preference_of items)"
    by (metis append_Cons append_Nil preference_of_simps(2))
  then show ?case by (simp only: fold_simps Cons) (simp add: add_accept_item_merge merge_preferences_assoc)
qed simp

lemma scan_accept_headers_eq:
  "scan_accept_headers ls p saw =
     (merge_preferences p (preference_of (concat (map (split_on 44) (accept_values ls)))),
      saw \<or> accept_values ls \<noteq> [])"
proof (induction ls p saw rule: scan_accept_headers.induct)
  case (2 raw rest p saw)
  then show ?case
    by (auto simp: Let_def accept_header_preference_def fold_accept_items merge_preferences_assoc
        simp flip: merge_preferences_def split: option.splits)
qed simp

lemma requested_metrics_format_eq:
  "requested_metrics_format request =
     (let p = preference_of (accept_ranges request) in
      if prefers_openmetrics p then Some OpenMetricsText
      else if (case ap_text_plain p of Some tp \<Rightarrow> am_quality tp > 0 | None \<Rightarrow> False) then Some PrometheusText
      else if accept_values (drop 1 (text_lines request)) = [] then Some PrometheusText else None)"
  by (simp add: requested_metrics_format_def scan_accept_headers_eq accept_ranges_def Let_def)

lemma best_match_cong: "set xs = set ys \<Longrightarrow> best_match xs = best_match ys"
proof -
  assume eq: "set xs = set ys"
  show ?thesis
  proof (cases "best_match xs")
    case None
    with eq show ?thesis by (metis best_match_None_iff set_empty)
  next
    case (Some m)
    with eq show ?thesis by (metis best_match_Some_iff)
  qed
qed

lemma set_range_matches:
  "set (range_matches items f) = {m. \<exists>i \<in> set items. range_match f i = Some m}"
  unfolding range_matches_def List.map_filter_def by force

text \<open>Qualities lie between 0 and 1.\<close>

lemma parse_quality_range: "parse_quality s = Some q \<Longrightarrow> 0 \<le> q"
  by (auto simp: parse_quality_def split: option.splits parsed_float.splits if_splits)

lemma range_parameters_quality:
  "range_parameters_of ps p = Some p' \<Longrightarrow> 0 \<le> rp_quality p \<Longrightarrow> 0 \<le> rp_quality p'"
proof (induction ps arbitrary: p)
  case (Cons parameter ps)
  then obtain a b where ab: "split_once parameter 61 = Some (a, b)" by (auto split: option.splits)
  show ?case
  proof (cases "eq_ignore_ascii_case (trim a) (lit ''q'')")
    case True
    then obtain q where q: "parse_quality (trim_char 34 (trim b)) = Some q"
      "range_parameters_of ps (p\<lparr>rp_quality := q\<rparr>) = Some p'"
      using Cons.prems(1) ab by (auto simp: Let_def split: option.splits)
    show ?thesis using Cons.IH [OF q(2)] parse_quality_range [OF q(1)] by simp
  next
    case False
    then show ?thesis using Cons.IH Cons.prems ab by (auto simp: Let_def split: if_splits)
  qed
qed simp

lemma range_match_quality: "range_match f i = Some m \<Longrightarrow> 0 \<le> am_quality m"
  by (cases f) (auto simp: accept_item_quality_def Let_def split: if_splits option.splits
      dest!: range_parameters_quality)

lemma best_quality: "best_match (range_matches items f) = Some m \<Longrightarrow> 0 \<le> am_quality m"
  by (auto simp: best_match_Some_iff set_range_matches dest: range_match_quality)

abbreviation best_range :: "rstr \<Rightarrow> metrics_text_format \<Rightarrow> accept_match option" where
  "best_range request f \<equiv> best_match (range_matches (accept_ranges request) f)"

abbreviation accept_headers :: "rstr \<Rightarrow> rstr list" where
  "accept_headers request \<equiv> accept_values (drop 1 (text_lines request))"

text \<open>
  Negotiation decides by the most specific media range that applies to each format,
  of all \<open>Accept\<close> headers.  Unless no such header came, the format that is served has a
  positive quality there, or else both formats are refused with quality 0 and OpenMetrics
  is served because its range is the more specific one; a request is answered with 406
  exactly when neither format is acceptable and not in that case; and neither the order of
  the ranges nor their distribution over header lines matters.
\<close>
theorem negotiation_spec:
  "(requested_metrics_format r = Some f \<longrightarrow> accept_headers r \<noteq> [] \<longrightarrow>
      (\<exists>m. best_range r f = Some m
         \<and> (0 < am_quality m
            \<or> f = OpenMetricsText \<and> am_quality m = 0
              \<and> (\<exists>t. best_range r PrometheusText = Some t \<and> am_quality t = 0 \<and> am_specificity t < am_specificity m))))
   \<and> (requested_metrics_format r = None \<longrightarrow>
       accept_headers r \<noteq> [] \<and> (\<forall>f m. best_range r f = Some m \<longrightarrow> am_quality m = 0))
   \<and> (set (accept_ranges r) = set (accept_ranges r') \<longrightarrow> (accept_headers r = []) = (accept_headers r' = []) \<longrightarrow>
       requested_metrics_format r = requested_metrics_format r')"
proof -
  let ?om = "best_range r OpenMetricsText" and ?tp = "best_range r PrometheusText"
  have congr: "preference_of (accept_ranges r) = preference_of (accept_ranges r')"
    if "set (accept_ranges r) = set (accept_ranges r')"
  proof -
    have "set (range_matches (accept_ranges r) g) = set (range_matches (accept_ranges r') g)" for g
      using that unfolding set_range_matches by simp
    then show ?thesis unfolding preference_of_def by (metis best_match_cong)
  qed
  have quality: "0 \<le> am_quality m" if "best_range r g = Some m" for g m using that by (rule best_quality)
  have om: "\<exists>m. ?om = Some m \<and> (0 < am_quality m \<or> am_quality m = 0
      \<and> (\<exists>t. ?tp = Some t \<and> am_quality t = 0 \<and> am_specificity t < am_specificity m))"
    if "prefers_openmetrics (preference_of (accept_ranges r))"
    using that quality
    by (cases ?om; cases ?tp) (force simp: prefers_openmetrics_def preference_of_def is_finally_preferred_over_def)+
  have none: "am_quality m = 0" if "requested_metrics_format r = None" "best_range r g = Some m" for g m
    using that quality [of g m] quality [of PrometheusText] unfolding requested_metrics_format_eq
    by (cases g; cases ?tp) (force simp: Let_def preference_of_def prefers_openmetrics_def
        is_finally_preferred_over_def not_less split: if_splits)+
  show ?thesis
    using om none congr unfolding requested_metrics_format_eq
    by (intro conjI impI allI) (auto simp: Let_def preference_of_def split: if_splits option.splits)
qed

text \<open>
  A format that the client refuses outright is served when the range that refuses the
  other one is less specific.
\<close>

definition refusing_request :: rstr where
  "refusing_request = lit ''GET /metrics'' @ [10] @ lit ''Accept: application/openmetrics-text;q=0, */*;q=0''"

lemma refusing_headers: "accept_headers refusing_request = [lit '' application/openmetrics-text;q=0, */*;q=0'']"
  by (simp add: refusing_request_def text_lines_def strip_cr_def lit_def trim_end_char_def
      eq_ignore_ascii_case_def ascii_lower_def)

lemma refusing_ranges: "accept_ranges refusing_request = [lit '' application/openmetrics-text;q=0'', lit '' */*;q=0'']"
  unfolding accept_ranges_def refusing_headers by (simp add: lit_def)

lemma quality_zero: "parse_quality [48] = Some 0"
  by (simp add: parse_quality_def parse_float_def parse_unsigned_float_def parse_unsigned_number_def
      parse_mantissa_def parse_digits_def is_digit_def digits_value_def f32_round_def)

lemma refusing_matches:
  "range_match OpenMetricsText (lit '' application/openmetrics-text;q=0'') = Some \<lparr>am_quality = 0, am_specificity = 2\<rparr>"
  "range_match OpenMetricsText (lit '' */*;q=0'') = Some \<lparr>am_quality = 0, am_specificity = 0\<rparr>"
  "range_match PrometheusText (lit '' application/openmetrics-text;q=0'') = None"
  "range_match PrometheusText (lit '' */*;q=0'') = Some \<lparr>am_quality = 0, am_specificity = 0\<rparr>"
  by (simp_all add: accept_item_quality_def Let_def lit_def trim_def trim_start_def trim_end_def is_whitespace_def
      accept_media_type_matches_def openmetrics_type_def text_plain_type_def eq_ignore_ascii_case_def
      ascii_lower_def trim_char_def trim_end_char_def quality_zero)

lemma refusing_best:
  "best_range refusing_request OpenMetricsText = Some \<lparr>am_quality = 0, am_specificity = 2\<rparr>"
  "best_range refusing_request PrometheusText = Some \<lparr>am_quality = 0, am_specificity = 0\<rparr>"
  by (simp_all add: refusing_ranges range_matches_def List.map_filter_simps refusing_matches
      is_candidate_preferred_over_def del: range_match.simps)

theorem refused_format_is_served: "requested_metrics_format refusing_request = Some OpenMetricsText"
  unfolding requested_metrics_format_eq preference_of_def refusing_best
  by (simp add: prefers_openmetrics_def is_finally_preferred_over_def)

theorem negotiation_spec_witness:
  "\<exists>m t. best_range refusing_request OpenMetricsText = Some m \<and> am_quality m = 0
     \<and> best_range refusing_request PrometheusText = Some t \<and> am_quality t = 0 \<and> am_specificity t < am_specificity m"
proof -
  have "accept_headers refusing_request \<noteq> []" unfolding refusing_headers by simp
  moreover have "\<not> 0 < am_quality m" if "best_range refusing_request OpenMetricsText = Some m" for m
    using that by (auto simp: refusing_best)
  ultimately show ?thesis
    using negotiation_spec [of refusing_request OpenMetricsText refusing_request] refused_format_is_served by blast
qed

end
