(* ===== verification/Http_Facts.thy ===== *)
theory Http_Facts
  imports Http
begin

text \<open>
  The request head reader against the plain bytes of the connection: when it succeeds,
  when it gives up, and how much it ever holds.
\<close>

lemma head_complete_append: "head_complete a \<Longrightarrow> head_complete (a @ b)"
proof -
  assume "head_complete a"
  then obtain i where i: "i < length a" "take 4 (drop i a) = head_end"
    by (auto simp: head_complete_def list_ex_iff)
  then have "4 \<le> length (drop i a)" by (auto simp: head_end_def dest!: arg_cong [where f = length])
  then have "take 4 (drop i (a @ b)) = take 4 (drop i a)" by simp
  with i show ?thesis unfolding head_complete_def list_ex_iff by (intro bexI [of _ i]) simp_all
qed

lemma head_complete_take: "head_complete (take n bs) \<Longrightarrow> n \<le> m \<Longrightarrow> head_complete (take m bs)"
proof -
  assume "head_complete (take n bs)" "n \<le> m"
  moreover have "take m bs = take n bs @ take (m - n) (drop n bs)" using \<open>n \<le> m\<close> by (metis le_add_diff_inverse take_add)
  ultimately show ?thesis by (simp add: head_complete_append)
qed

lemma head_incomplete_Nil [simp]: "\<not> head_complete []"
  by (simp add: head_complete_def)

lemma content_consume: "c \<noteq> [] \<Longrightarrow> content (Chunk c # r) = take n c @ content (consume n (Chunk c # r))"
  by simp

definition head_read_ok :: "bytes \<Rightarrow> bytes \<Rightarrow> 'e head_error + rstr \<Rightarrow> bool" where
  "head_read_ok buffer rest result \<longleftrightarrow>
     (case result of
        Inr s \<Rightarrow> buffer = [] \<and> rest = [] \<and> s = []
                \<or> (\<exists>n. length buffer + n < MAX_REQUEST_HEAD_BYTES + 1024
                       \<and> head_complete (buffer @ take n rest) \<and> s = from_utf8_lossy (buffer @ take n rest))
      | Inl HeadTooLong \<Rightarrow> (\<exists>n. MAX_REQUEST_HEAD_BYTES \<le> length buffer + n \<and> n \<le> length rest
                                \<and> \<not> head_complete (buffer @ take n rest))
      | Inl HeadCutShort \<Rightarrow> \<not> head_complete (buffer @ rest) \<and> length (buffer @ rest) < MAX_REQUEST_HEAD_BYTES
                           \<and> buffer @ rest \<noteq> []
      | Inl (HeadReadFailed e) \<Rightarrow> False)"

lemma head_read_ok_step:
  assumes "head_read_ok (buffer @ a) b result" and "a \<noteq> []"
  shows "head_read_ok buffer (a @ b) result"
proof (cases result)
  case (Inl e)
  show ?thesis
  proof (cases e)
    case HeadTooLong
    with Inl assms obtain n where n: "MAX_REQUEST_HEAD_BYTES \<le> length (buffer @ a) + n" "n \<le> length b"
      "\<not> head_complete (buffer @ a @ take n b)" by (auto simp: head_read_ok_def)
    then have "MAX_REQUEST_HEAD_BYTES \<le> length buffer + (length a + n) \<and> length a + n \<le> length (a @ b)
        \<and> \<not> head_complete (buffer @ take (length a + n) (a @ b))" by simp
    then show ?thesis unfolding Inl HeadTooLong head_read_ok_def sum.case head_error.case by (rule exI)
  qed (use Inl assms in \<open>auto simp: head_read_ok_def\<close>)
next
  case (Inr s)
  with assms obtain n where "length (buffer @ a) + n < MAX_REQUEST_HEAD_BYTES + 1024"
    "head_complete (buffer @ a @ take n b)" "s = from_utf8_lossy (buffer @ a @ take n b)"
    by (auto simp: head_read_ok_def)
  with Inr show ?thesis by (auto simp: head_read_ok_def intro!: exI [of _ "length a + n"])
qed

lemma read_head_loop_ok:
  assumes "clean_reader r" and "length buffer < MAX_REQUEST_HEAD_BYTES + 1024"
  shows "head_read_ok buffer (content r) (read_head_loop buffer r)"
  using assms
proof (induction "MAX_REQUEST_HEAD_BYTES - length buffer" arbitrary: buffer r rule: less_induct)
  case less
  consider "head_complete buffer" | "\<not> head_complete buffer" "MAX_REQUEST_HEAD_BYTES \<le> length buffer"
    | "\<not> head_complete buffer" "length buffer < MAX_REQUEST_HEAD_BYTES" "r = []"
    | b bs r' where "\<not> head_complete buffer" "length buffer < MAX_REQUEST_HEAD_BYTES" "r = Chunk (b # bs) # r'"
    using less.prems(1)
    by (cases r rule: content.cases; cases "head_complete buffer"; cases "MAX_REQUEST_HEAD_BYTES \<le> length buffer")
      (auto simp: neq_Nil_conv not_le)
  then show ?case
  proof cases
    case 4
    let ?a = "take 1024 (b # bs)" and ?r = "consume 1024 (Chunk (b # bs) # r')"
    have step: "read_head_loop buffer r = read_head_loop (buffer @ ?a) ?r"
      using 4 by (subst read_head_loop.simps) simp
    have "head_read_ok (buffer @ ?a) (content ?r) (read_head_loop (buffer @ ?a) ?r)"
      using 4 less.prems by (intro less.hyps) (auto simp: clean_consume simp del: consume.simps)
    then have "head_read_ok buffer (?a @ content ?r) (read_head_loop (buffer @ ?a) ?r)"
      by (rule head_read_ok_step) simp
    moreover have "content r = ?a @ content ?r"
      unfolding 4(3) by (rule content_consume) simp
    ultimately show ?thesis by (simp only: step)
  qed (use less.prems in \<open>subst read_head_loop.simps, auto simp: head_read_ok_def intro: exI [of _ 0]\<close>)+
qed

text \<open>
  Reading a request head refines a decision on the bytes of the connection, however
  they arrive: a head that ends within the 16 KiB limit is always read, what is delivered
  is a prefix shorter than the limit plus one read that contains the end of the head, a
  peer that closes early is told apart from one that sends too much, and an unlimited
  stream without an end of head is refused.
\<close>
theorem request_head_spec:
  assumes "clean_reader r"
  shows "(head_complete (take MAX_REQUEST_HEAD_BYTES (content r)) \<longrightarrow> (\<exists>s. read_request_head r = Inr s))
    \<and> (\<forall>s. read_request_head r = Inr s \<longrightarrow>
          content r = [] \<and> s = []
          \<or> (\<exists>n < MAX_REQUEST_HEAD_BYTES + 1024.
               head_complete (take n (content r)) \<and> s = from_utf8_lossy (take n (content r))))
    \<and> (\<not> head_complete (take (MAX_REQUEST_HEAD_BYTES + 1023) (content r)) \<longrightarrow>
          read_request_head r = (if content r = [] then Inr []
            else if length (content r) < MAX_REQUEST_HEAD_BYTES then Inl HeadCutShort else Inl HeadTooLong))"
proof -
  have ok: "head_read_ok [] (content r) (read_request_head r)"
    unfolding read_request_head_def using assms
    by (intro read_head_loop_ok) (simp_all add: MAX_REQUEST_HEAD_BYTES_def)
  have limit: "read_request_head r \<noteq> Inl HeadTooLong" "read_request_head r \<noteq> Inl HeadCutShort"
    if "head_complete (take MAX_REQUEST_HEAD_BYTES (content r))"
    using ok head_complete_take [OF that] that head_complete_append [OF that, of "drop MAX_REQUEST_HEAD_BYTES (content r)"]
    by (auto simp: head_read_ok_def)
  have no_fault: "read_request_head r \<noteq> Inl (HeadReadFailed e)" for e
    using ok by (auto simp: head_read_ok_def)
  show ?thesis
  proof (intro conjI impI allI)
    assume "head_complete (take MAX_REQUEST_HEAD_BYTES (content r))"
    with limit no_fault show "\<exists>s. read_request_head r = Inr s"
      by (cases "read_request_head r") (auto intro: head_error.exhaust)
  next
    fix s assume "read_request_head r = Inr s"
    with ok show "content r = [] \<and> s = []
          \<or> (\<exists>n < MAX_REQUEST_HEAD_BYTES + 1024.
               head_complete (take n (content r)) \<and> s = from_utf8_lossy (take n (content r)))"
      by (auto simp: head_read_ok_def)
  next
    assume none: "\<not> head_complete (take (MAX_REQUEST_HEAD_BYTES + 1023) (content r))"
    have "\<not> head_complete (take n (content r))" if "n < MAX_REQUEST_HEAD_BYTES + 1024" for n
      using none head_complete_take [of n "content r" "MAX_REQUEST_HEAD_BYTES + 1023"] that by auto
    with ok no_fault show "read_request_head r = (if content r = [] then Inr []
            else if length (content r) < MAX_REQUEST_HEAD_BYTES then Inl HeadCutShort else Inl HeadTooLong)"
      by (cases "read_request_head r")
        (auto simp: head_read_ok_def MAX_REQUEST_HEAD_BYTES_def split: head_error.splits)
  qed
qed

theorem request_head_spec_witness:
  "\<exists>s. read_request_head [Chunk [71, 13], Chunk [10, 13, 10, 65]] = (Inr s :: unit head_error + rstr)"
proof -
  have "head_complete (take MAX_REQUEST_HEAD_BYTES (content [Chunk [71, 13], Chunk [10, 13, 10, 65]]))"
    by (simp add: MAX_REQUEST_HEAD_BYTES_def) code_simp
  with request_head_spec [of "[Chunk [71, 13], Chunk [10, 13, 10, 65]] :: unit reader"] show ?thesis by simp
qed

end
