(* ===== verification/Ui_Format.thy ===== *)
theory Ui_Format
  imports Protocol Float_Text
begin

text \<open>
  What \<open>moshwatch-ui/src/main.rs\<close> computes from session data before it draws anything: number
  and duration formats, labels, the reasons for a health state, window explanations,
  history diagnostics and layout modes.
\<close>

section \<open>Numbers\<close>

text \<open>\<open>{value:.1}\<close>: the exact value to one decimal, ties to even.\<close>

definition fixed1_pos :: "rat \<Rightarrow> rstr" where
  "fixed1_pos q = (let n = nat (round_half_even (q * 10)) in show_nat (n div 10) @ 46 # show_nat (n mod 10))"

fun fixed1 :: "f64 \<Rightarrow> rstr" where
  "fixed1 F64_NaN = lit ''NaN''"
| "fixed1 (F64_Inf negative) = (if negative then lit ''-inf'' else lit ''inf'')"
| "fixed1 (F64_Fin q) = (if q < 0 then 45 # fixed1_pos (- q) else fixed1_pos q)"

definition fmt_f64 :: "f64 option \<Rightarrow> string \<Rightarrow> rstr" where
  "fmt_f64 v suffix = (case v of Some x \<Rightarrow> fixed1 x @ lit suffix | None \<Rightarrow> lit ''-'')"

definition fmt_windowed_pct :: "f64 option \<Rightarrow> bool \<Rightarrow> rstr" where
  "fmt_windowed_pct v whole = (if \<not> whole then lit ''warming'' else fmt_f64 v ''%'')"

definition show_u64 :: "u64 \<Rightarrow> rstr" where
  "show_u64 v = show_nat (unat v)"

definition fmt_u64 :: "u64 option \<Rightarrow> string \<Rightarrow> rstr" where
  "fmt_u64 v suffix = (case v of Some x \<Rightarrow> show_u64 x @ lit suffix | None \<Rightarrow> lit ''-'')"

definition fmt_duration_ms :: "u64 option \<Rightarrow> rstr" where
  "fmt_duration_ms v =
     (case v of
        None \<Rightarrow> lit ''-''
      | Some x \<Rightarrow>
          if x < 1000 then show_u64 x @ lit ''ms''
          else if x < 60000 then fixed1 (f64_div (f64_of_u64 x) (F64_Fin 1000)) @ lit ''s''
          else if x < 3600000 then fixed1 (f64_div (f64_of_u64 x) (F64_Fin 60000)) @ lit ''m''
          else fixed1 (f64_div (f64_of_u64 x) (F64_Fin 3600000)) @ lit ''h'')"

text \<open>\<open>f64::round\<close> goes away from zero on a tie; \<open>as u64\<close> saturates.\<close>

fun f64_round_as_u64 :: "f64 \<Rightarrow> u64" where
  "f64_round_as_u64 F64_NaN = 0"
| "f64_round_as_u64 (F64_Inf negative) = (if negative then 0 else - 1)"
| "f64_round_as_u64 (F64_Fin q) =
     (if q < 0 then 0
      else let n = \<lfloor>q + 1 / 2\<rfloor> in if n < 18446744073709551616 then word_of_int n else - 1)"

fun clamp_pct :: "f64 \<Rightarrow> f64" where
  "clamp_pct (F64_Fin q) = F64_Fin (max 0 (min q 100))"
| "clamp_pct v = v"

definition sparkline_point_from_pct :: "f64 option \<Rightarrow> u64 option" where
  "sparkline_point_from_pct v =
     Option.bind v (\<lambda>x. if \<not> f64_is_finite x then None else Some (f64_round_as_u64 (clamp_pct x)))"

definition rtt_spark_point :: "metric_point \<Rightarrow> u64" where
  "rtt_spark_point p =
     f64_round_as_u64 (case mp_srtt_ms p of Some v \<Rightarrow> v | None \<Rightarrow> F64_Fin 0)"

text \<open>\<open>i64::checked_sub\<close> and \<open>u64::try_from\<close>.\<close>

definition observed_age_ms :: "i64 \<Rightarrow> i64 \<Rightarrow> u64 option" where
  "observed_age_ms later earlier =
     (let delta = later - earlier in if in_i64 delta \<and> 0 \<le> delta then Some (word_of_int delta) else None)"

definition snapshot_age_ms :: "i64 \<Rightarrow> i64 \<Rightarrow> u64 option" where
  "snapshot_age_ms now generated = observed_age_ms now generated"

definition format_unix_age :: "i64 option \<Rightarrow> i64 option \<Rightarrow> rstr" where
  "format_unix_age now event =
     (case (now, event) of
        (Some n, Some t) \<Rightarrow>
          (case observed_age_ms n t of Some age \<Rightarrow> fmt_duration_ms (Some age) | None \<Rightarrow> lit ''-'')
      | _ \<Rightarrow> lit ''-'')"

section \<open>Texts\<close>

definition truncate_text :: "rstr \<Rightarrow> nat \<Rightarrow> rstr" where
  "truncate_text s max_chars =
     (if length s \<le> max_chars then s
      else if max_chars \<le> 3 then take max_chars s
      else take (max_chars - 3) s @ lit ''...'')"

fun ui_health_label :: "health_state \<Rightarrow> rstr" where
  "ui_health_label Ok = lit ''ok''"
| "ui_health_label Degraded = lit ''degraded''"
| "ui_health_label Critical = lit ''critical''"
| "ui_health_label LegacyHealth = lit ''legacy''"

definition session_label :: "session_summary \<Rightarrow> rstr" where
  "session_label s = (case ss_display_session_id s of Some d \<Rightarrow> d | None \<Rightarrow> ss_session_id s)"

definition display_session_label :: "session_summary \<Rightarrow> rstr option \<Rightarrow> rstr" where
  "display_session_label s current =
     (if current = Some (ss_session_id s) then session_label s @ lit '' [here]'' else session_label s)"

definition compact_session_label :: "session_summary \<Rightarrow> rstr option \<Rightarrow> nat \<Rightarrow> rstr" where
  "compact_session_label s current max_chars =
     (let label = truncate_text (session_label s) max_chars in
      if current = Some (ss_session_id s) then lit ''* '' @ label else label)"

definition peer_state_label :: "session_summary \<Rightarrow> health_thresholds \<Rightarrow> i64 option \<Rightarrow> rstr" where
  "peer_state_label s t generated =
     (if ss_kind s = LegacyKind then lit ''legacy''
      else if current_client_addr (ss_peer s) \<noteq> None then
        (if opt_u64_ge (sm_last_heard_age_ms (ss_metrics s)) (warn_silence_ms t)
         then lit ''quiet '' @ fmt_duration_ms (sm_last_heard_age_ms (ss_metrics s))
         else lit ''active'')
      else if last_client_addr (ss_peer s) \<noteq> None then
        lit ''no peer '' @ format_unix_age generated (last_client_seen_at_unix_ms (ss_peer s))
      else lit ''no peer yet'')"

definition format_client_roam :: "session_summary \<Rightarrow> i64 option \<Rightarrow> rstr option" where
  "format_client_roam s generated =
     (case previous_client_addr (ss_peer s) of
        None \<Rightarrow> None
      | Some previous \<Rightarrow>
          (case (case current_client_addr (ss_peer s) of
                   Some a \<Rightarrow> Some a | None \<Rightarrow> last_client_addr (ss_peer s)) of
             None \<Rightarrow> None
           | Some current \<Rightarrow>
               if previous = current then None
               else Some (previous @ lit '' -> '' @ current @ lit '' (''
                      @ format_unix_age generated (client_addr_changed_at_unix_ms (ss_peer s)) @ lit '' ago)'')))"

section \<open>Retransmission windows\<close>

datatype color = Red | Yellow | Green | DarkGray | Cyan | Blue

definition retransmit_color :: "session_metrics \<Rightarrow> health_thresholds \<Rightarrow> color" where
  "retransmit_color m t =
     (let has_retransmit_value = (sm_retransmit_pct_10s m \<noteq> None \<or> sm_retransmit_pct_60s m \<noteq> None);
          critical = (sm_retransmit_window_60s_complete m
                      \<and> opt_ge (sm_retransmit_pct_60s m) (critical_retransmit_pct t));
          warn = (sm_retransmit_window_10s_complete m
                    \<and> opt_ge (sm_retransmit_pct_10s m) (warn_retransmit_pct t)
                  \<or> sm_retransmit_window_60s_complete m
                    \<and> opt_ge (sm_retransmit_pct_60s m) (warn_retransmit_pct t))
      in if critical then Red
         else if warn then Yellow
         else if sm_retransmit_window_10s_complete m \<and> has_retransmit_value then Green
         else DarkGray)"

definition count_or :: "rstr \<Rightarrow> u64 option \<Rightarrow> rstr" where
  "count_or missing v = (case v of Some n \<Rightarrow> show_u64 n | None \<Rightarrow> missing)"

definition format_retransmit_window ::
    "u64 \<Rightarrow> f64 option \<Rightarrow> bool \<Rightarrow> retransmit_window_breakdown \<Rightarrow> rstr" where
  "format_retransmit_window window_secs pct whole b =
     (if \<not> whole then lit ''warming (<'' @ show_u64 window_secs @ lit ''s history)''
      else let has_breakdown = (rb_transmissions_total b \<noteq> None \<or> rb_retransmits_total b \<noteq> None
                 \<or> rb_state_updates_total b \<noteq> None \<or> rb_empty_acks_total b \<noteq> None);
               known = count_or (lit ''?'')
      in (case (pct, rb_transmissions_total b) of
            (Some v, Some tx) \<Rightarrow>
              if tx = 0 then fixed1 v @ lit ''% = idle window (0 tx)''
              else fixed1 v @ lit ''% = '' @ known (rb_retransmits_total b) @ lit '' resend / '' @ show_u64 tx
                   @ lit '' tx (updates '' @ known (rb_state_updates_total b)
                   @ lit '', empty ack '' @ known (rb_empty_acks_total b) @ lit '')''
          | (Some v, None) \<Rightarrow> fixed1 v @ lit ''%''
          | (None, tx) \<Rightarrow>
              if tx = Some 0 then lit ''idle window (0 tx)''
              else if has_breakdown then
                lit ''unknown (tx '' @ known tx @ lit '', resend '' @ known (rb_retransmits_total b)
                @ lit '', updates '' @ known (rb_state_updates_total b)
                @ lit '', empty ack '' @ known (rb_empty_acks_total b) @ lit '')''
              else lit ''unknown (counter fields missing)''))"

section \<open>Reasons for a health state\<close>

definition silence_reasons :: "session_metrics \<Rightarrow> health_thresholds \<Rightarrow> rstr list" where
  "silence_reasons m t =
     (case sm_last_heard_age_ms m of
        None \<Rightarrow> []
      | Some v \<Rightarrow>
          if critical_silence_ms t \<le> v then
            [lit ''silence '' @ fmt_duration_ms (Some v) @ lit '' >= crit '' @ fmt_duration_ms (Some (critical_silence_ms t))]
          else if warn_silence_ms t \<le> v then
            [lit ''silence '' @ fmt_duration_ms (Some v) @ lit '' >= warn '' @ fmt_duration_ms (Some (warn_silence_ms t))]
          else [])"

definition rtt_reasons :: "session_metrics \<Rightarrow> health_thresholds \<Rightarrow> rstr list" where
  "rtt_reasons m t =
     (case sm_srtt_ms m of
        None \<Rightarrow> []
      | Some v \<Rightarrow>
          if f64_ge v (f64_of_u64 (critical_rtt_ms t)) then
            [lit ''RTT '' @ fmt_f64 (Some v) ''ms'' @ lit '' >= crit '' @ fmt_u64 (Some (critical_rtt_ms t)) ''ms'']
          else if f64_ge v (f64_of_u64 (warn_rtt_ms t)) then
            [lit ''RTT '' @ fmt_f64 (Some v) ''ms'' @ lit '' >= warn '' @ fmt_u64 (Some (warn_rtt_ms t)) ''ms'']
          else [])"

definition rtx60_reasons :: "session_metrics \<Rightarrow> health_thresholds \<Rightarrow> rstr list" where
  "rtx60_reasons m t =
     (case (if sm_retransmit_window_60s_complete m then sm_retransmit_pct_60s m else None) of
        None \<Rightarrow> []
      | Some v \<Rightarrow>
          if f64_ge v (critical_retransmit_pct t) then
            [lit ''RTX60 '' @ fmt_f64 (Some v) ''%'' @ lit '' >= crit '' @ fmt_f64 (Some (critical_retransmit_pct t)) ''%'']
          else if f64_ge v (warn_retransmit_pct t) then
            [lit ''RTX60 '' @ fmt_f64 (Some v) ''%'' @ lit '' >= warn '' @ fmt_f64 (Some (warn_retransmit_pct t)) ''%'']
          else [])"

definition rtx10_reasons :: "session_metrics \<Rightarrow> health_thresholds \<Rightarrow> rstr list" where
  "rtx10_reasons m t =
     (case (if sm_retransmit_window_10s_complete m then sm_retransmit_pct_10s m else None) of
        None \<Rightarrow> []
      | Some v \<Rightarrow>
          if f64_ge v (warn_retransmit_pct t) then
            [lit ''RTX10 '' @ fmt_f64 (Some v) ''%'' @ lit '' >= warn '' @ fmt_f64 (Some (warn_retransmit_pct t)) ''%'']
          else [])"

definition quiet_reasons :: "session_metrics \<Rightarrow> rstr list" where
  "quiet_reasons m =
     (if \<not> sm_retransmit_window_10s_complete m \<or> \<not> sm_retransmit_window_60s_complete m then
        [lit ''RTX windows warming'']
      else if rb_transmissions_total (sm_retransmit_window_10s_breakdown m) = Some 0
          \<and> rb_transmissions_total (sm_retransmit_window_60s_breakdown m) = Some 0 then
        [lit ''RTX windows idle'']
      else if sm_retransmit_pct_10s m = None \<and> sm_retransmit_pct_60s m = None then
        [lit ''RTX counters missing'']
      else [])"

definition health_reasons :: "session_summary \<Rightarrow> health_thresholds \<Rightarrow> rstr list" where
  "health_reasons s t =
     (if ss_kind s = LegacyKind then [lit ''legacy session (no verified telemetry)'']
      else
        let m = ss_metrics s;
            reasons = silence_reasons m t @ rtt_reasons m t @ rtx60_reasons m t @ rtx10_reasons m t
        in if reasons = [] then quiet_reasons m else reasons)"

section \<open>History diagnostics\<close>

record history_diagnostics =
  hd_shown_points :: nat
  hd_span_ms :: "u64 option"
  hd_largest_gap_ms :: "u64 option"
  hd_max_rtt_ms :: "f64 option"
  hd_max_retransmit_pct :: "f64 option"

definition f64_max :: "f64 \<Rightarrow> f64 \<Rightarrow> f64" where
  "f64_max a b = (if a = F64_NaN then b else if f64_gt b a then b else a)"

definition max_f64 :: "f64 list \<Rightarrow> f64 option" where
  "max_f64 vs =
     fold (\<lambda>v best. Some (case best of None \<Rightarrow> v | Some b \<Rightarrow> f64_max b v))
       (filter (\<lambda>v. f64_is_finite v \<and> f64_ge v (F64_Fin 0)) vs) None"

definition max_u64 :: "u64 list \<Rightarrow> u64 option" where
  "max_u64 vs = fold (\<lambda>v best. Some (case best of None \<Rightarrow> v | Some b \<Rightarrow> max b v)) vs None"

text \<open>\<open>windows(2)\<close> are the pairs of neighbours.\<close>

definition summarize_history :: "session_snapshot \<Rightarrow> history_diagnostics" where
  "summarize_history d =
     (let h = sn_history d in
      \<lparr>hd_shown_points = length h,
       hd_span_ms = (if h = [] then None else observed_age_ms (mp_unix_ms (last h)) (mp_unix_ms (hd h))),
       hd_largest_gap_ms =
         max_u64 (List.map_filter (\<lambda>(p, q). observed_age_ms (mp_unix_ms q) (mp_unix_ms p)) (zip h (tl h))),
       hd_max_rtt_ms = max_f64 (List.map_filter mp_srtt_ms h),
       hd_max_retransmit_pct = max_f64 (List.map_filter mp_retransmit_pct_10s h)\<rparr>)"

section \<open>Layout\<close>

datatype body_layout_mode = Columns | Stacked
datatype session_table_mode = Wide | CompactTable | UltraCompact
datatype detail_layout_mode = FullDetail | CompactDetail

definition body_layout_mode_of :: "nat \<Rightarrow> body_layout_mode" where
  "body_layout_mode_of width = (if width < 120 then Stacked else Columns)"

definition session_table_height :: "nat \<Rightarrow> nat" where
  "session_table_height session_count = max 4 (min session_count 6 + 3)"

definition session_table_mode_of :: "nat \<Rightarrow> session_table_mode" where
  "session_table_mode_of width =
     (if width < 78 then UltraCompact else if width < 108 then CompactTable else Wide)"

definition detail_layout_mode_of :: "nat \<Rightarrow> nat \<Rightarrow> detail_layout_mode" where
  "detail_layout_mode_of width height = (if width < 100 \<or> height < 20 then CompactDetail else FullDetail)"

end
