(* ===== verification/Ui_Health.thy ===== *)
theory Ui_Health
  imports Ui_Format Registry_Readers Registry_Windows Registry_Lifecycle Protocol_Api
begin

text \<open>
  The reasons the terminal interface gives for a health state, against the classification
  of the daemon: what an operator reads is what the daemon decided on.
\<close>

section \<open>Texts without a comparison sign\<close>

abbreviation no_sign :: "rstr \<Rightarrow> bool" where
  "no_sign s \<equiv> 62 \<notin> set s"

lemma no_sign_show_nat [simp]: "no_sign (show_nat n)"
  by (auto dest: show_nat_digits simp: is_digit_def)

lemma no_sign_show_u64 [simp]: "no_sign (show_u64 v)"
  by (simp add: show_u64_def)

lemma no_sign_fixed1 [simp]: "no_sign (fixed1 v)"
  by (cases v) (auto simp: fixed1_pos_def Let_def lit_def)

lemma no_sign_fmt [simp]:
  "no_sign (lit suffix) \<Longrightarrow> no_sign (fmt_f64 v suffix)"
  "no_sign (lit suffix) \<Longrightarrow> no_sign (fmt_u64 w suffix)"
  "no_sign (fmt_duration_ms w)"
  by (auto simp: fmt_f64_def fmt_u64_def fmt_duration_ms_def lit_def split: option.splits)

text \<open>The word behind the comparison sign of a reason: the threshold that was reached.\<close>

definition threshold_word :: "rstr \<Rightarrow> rstr" where
  "threshold_word reason = take 4 (drop 3 (dropWhile (\<lambda>c. c \<noteq> 62) reason))"

lemma threshold_word_sign:
  assumes "no_sign a"
  shows "threshold_word (a @ lit '' >= crit '' @ b) = lit ''crit''"
    and "threshold_word (a @ lit '' >= warn '' @ b) = lit ''warn''"
proof -
  have "dropWhile (\<lambda>c. c \<noteq> 62) (a @ 32 # 62 # s) = 62 # s" for s
    using assms by (subst dropWhile_append2) auto
  then show "threshold_word (a @ lit '' >= crit '' @ b) = lit ''crit''"
    and "threshold_word (a @ lit '' >= warn '' @ b) = lit ''warn''"
    by (simp_all add: threshold_word_def lit_def)
qed

lemma threshold_word_no_sign: "no_sign s \<Longrightarrow> threshold_word s = []"
  by (induction s) (auto simp: threshold_word_def)

text \<open>A reason as the sources build it: a signal, its value, the threshold and its value.\<close>

lemma threshold_word_reason [simp]:
  assumes "no_sign (lit signal)" and "no_sign shown"
  shows "threshold_word (lit signal @ shown @ lit '' >= crit '' @ b) = lit ''crit''"
    and "threshold_word (lit signal @ shown @ lit '' >= warn '' @ b) = lit ''warn''"
  using assms threshold_word_sign [of "lit signal @ shown" b] by simp_all

definition breach_named :: "string \<Rightarrow> rstr list \<Rightarrow> bool" where
  "breach_named word reasons \<longleftrightarrow> list_ex (\<lambda>r. threshold_word r = lit word) reasons"

lemma breach_named_append [simp]: "breach_named w (a @ b) \<longleftrightarrow> breach_named w a \<or> breach_named w b"
  by (simp add: breach_named_def)

lemma crit_not_warn: "lit ''crit'' \<noteq> lit ''warn''" "lit ''warn'' \<noteq> lit ''crit''"
  by (simp_all add: lit_def)

lemma signal_words:
  "no_sign (lit ''silence '')" "no_sign (lit ''RTT '')" "no_sign (lit ''RTX60 '')" "no_sign (lit ''RTX10 '')"
  "no_sign (lit ''ms'')" "no_sign (lit ''%'')"
  by (simp_all add: lit_def)

lemma breach_named_Nil [simp]: "\<not> breach_named w []"
  by (simp add: breach_named_def)

lemma silence_named:
  "breach_named ''crit'' (silence_reasons m t) \<longleftrightarrow> opt_u64_ge (sm_last_heard_age_ms m) (critical_silence_ms t)"
  "breach_named ''warn'' (silence_reasons m t) \<longleftrightarrow> opt_u64_ge (sm_last_heard_age_ms m) (warn_silence_ms t)
     \<and> \<not> opt_u64_ge (sm_last_heard_age_ms m) (critical_silence_ms t)"
  by (auto simp: silence_reasons_def breach_named_def opt_u64_ge_def crit_not_warn signal_words split: option.splits)

lemma rtt_named:
  "breach_named ''crit'' (rtt_reasons m t) \<longleftrightarrow> opt_ge (sm_srtt_ms m) (f64_of_u64 (critical_rtt_ms t))"
  "breach_named ''warn'' (rtt_reasons m t) \<longleftrightarrow> opt_ge (sm_srtt_ms m) (f64_of_u64 (warn_rtt_ms t))
     \<and> \<not> opt_ge (sm_srtt_ms m) (f64_of_u64 (critical_rtt_ms t))"
  by (auto simp: rtt_reasons_def breach_named_def opt_ge_def crit_not_warn signal_words split: option.splits)

lemma rtx60_named:
  "breach_named ''crit'' (rtx60_reasons m t) \<longleftrightarrow> sm_retransmit_window_60s_complete m
     \<and> opt_ge (sm_retransmit_pct_60s m) (critical_retransmit_pct t)"
  "breach_named ''warn'' (rtx60_reasons m t) \<longleftrightarrow> sm_retransmit_window_60s_complete m
     \<and> opt_ge (sm_retransmit_pct_60s m) (warn_retransmit_pct t)
     \<and> \<not> opt_ge (sm_retransmit_pct_60s m) (critical_retransmit_pct t)"
  by (auto simp: rtx60_reasons_def breach_named_def opt_ge_def crit_not_warn signal_words split: option.splits)

lemma rtx10_named:
  "\<not> breach_named ''crit'' (rtx10_reasons m t)"
  "breach_named ''warn'' (rtx10_reasons m t) \<longleftrightarrow> sm_retransmit_window_10s_complete m
     \<and> opt_ge (sm_retransmit_pct_10s m) (warn_retransmit_pct t)"
  by (auto simp: rtx10_reasons_def breach_named_def opt_ge_def crit_not_warn signal_words split: option.splits)

text \<open>A reason always names a breach.\<close>

lemma named_iff_some:
  "silence_reasons m t = [] \<longleftrightarrow> \<not> breach_named ''crit'' (silence_reasons m t) \<and> \<not> breach_named ''warn'' (silence_reasons m t)"
  "rtt_reasons m t = [] \<longleftrightarrow> \<not> breach_named ''crit'' (rtt_reasons m t) \<and> \<not> breach_named ''warn'' (rtt_reasons m t)"
  "rtx60_reasons m t = [] \<longleftrightarrow> \<not> breach_named ''crit'' (rtx60_reasons m t) \<and> \<not> breach_named ''warn'' (rtx60_reasons m t)"
  "rtx10_reasons m t = [] \<longleftrightarrow> \<not> breach_named ''crit'' (rtx10_reasons m t) \<and> \<not> breach_named ''warn'' (rtx10_reasons m t)"
  by (auto simp: silence_reasons_def rtt_reasons_def rtx60_reasons_def rtx10_reasons_def breach_named_def
      signal_words split: option.splits)

lemma quiet_named: "\<not> breach_named ''crit'' (quiet_reasons m)" "\<not> breach_named ''warn'' (quiet_reasons m)"
  by (simp_all add: quiet_reasons_def breach_named_def threshold_word_def lit_def)

lemmas reasons_named = silence_named rtt_named rtx60_named rtx10_named

section \<open>Sessions of a reachable registry\<close>

lemma complete_window:
  assumes "windows_ok r"
  shows "sm_retransmit_pct_10s (ss_metrics (sr_summary r)) \<noteq> None \<Longrightarrow> sm_retransmit_window_10s_complete (ss_metrics (sr_summary r))"
    and "sm_retransmit_pct_60s (ss_metrics (sr_summary r)) \<noteq> None \<Longrightarrow> sm_retransmit_window_60s_complete (ss_metrics (sr_summary r))"
proof -
  let ?m = "ss_metrics (sr_summary r)"
  have whole: "rw_complete (retransmit_pct cs w)" if "rw_pct (retransmit_pct cs w) \<noteq> None" for cs w
    using that retransmit_pct_Some by (metis not_None_eq rw_complete_simps(3))
  have m: "?m = set_windows ?m (retransmit_pct (sr_counters r) 10000) (retransmit_pct (sr_counters r) 60000)"
    using assms by (simp add: windows_ok_def Let_def)
  have "sm_retransmit_pct_10s ?m = rw_pct (retransmit_pct (sr_counters r) 10000)"
    "sm_retransmit_window_10s_complete ?m = rw_complete (retransmit_pct (sr_counters r) 10000)"
    "sm_retransmit_pct_60s ?m = rw_pct (retransmit_pct (sr_counters r) 60000)"
    "sm_retransmit_window_60s_complete ?m = rw_complete (retransmit_pct (sr_counters r) 60000)"
    by (subst m, simp add: set_windows_def)+
  then show "sm_retransmit_pct_10s ?m \<noteq> None \<Longrightarrow> sm_retransmit_window_10s_complete ?m"
    "sm_retransmit_pct_60s ?m \<noteq> None \<Longrightarrow> sm_retransmit_window_60s_complete ?m"
    using whole by auto
qed

lemma materialize_windows [simp]:
  "sm_retransmit_pct_10s (ss_metrics (materialize_summary c r now)) = sm_retransmit_pct_10s (ss_metrics (sr_summary r))"
  "sm_retransmit_pct_60s (ss_metrics (materialize_summary c r now)) = sm_retransmit_pct_60s (ss_metrics (sr_summary r))"
  "sm_retransmit_window_10s_complete (ss_metrics (materialize_summary c r now)) = sm_retransmit_window_10s_complete (ss_metrics (sr_summary r))"
  "sm_retransmit_window_60s_complete (ss_metrics (materialize_summary c r now)) = sm_retransmit_window_60s_complete (ss_metrics (sr_summary r))"
  by (simp_all add: materialize_summary_def Let_def age_metrics_def)

lemma materialize_classified:
  "ss_health (materialize_summary c r now)
     = classify_health (ss_kind (materialize_summary c r now)) (ss_metrics (materialize_summary c r now)) (thresholds c)"
  by (simp add: materialize_summary_def Let_def)

lemma export_step_subset:
  "set (ea_sessions (export_step n s acc)) \<subseteq> insert s (set (ea_sessions acc))"
  by (cases "ss_kind s") (auto simp: export_step_def Let_def dest: in_set_butlastD)

lemma export_fold_subset:
  "set (ea_sessions (fold (\<lambda>r. export_step n (f r)) rs acc)) \<subseteq> f ` set rs \<union> set (ea_sessions acc)"
  by (induction rs arbitrary: acc) (use export_step_subset in \<open>fastforce+\<close>)

lemma exported_session:
  assumes "s \<in> set (ex_sessions (export_summaries st now n))"
  obtains k r where "(k, r) \<in> set (st_sessions st)" and "s = materialize_summary (st_config st) r now"
  using assms export_fold_subset [of n "\<lambda>r. materialize_summary (st_config st) r now" "map snd (st_sessions st)"]
  by (fastforce simp: export_summaries_def Let_def)

text \<open>What the reasons name, when every percentage comes from a complete window.\<close>

lemma reasons_explain:
  assumes "ss_kind s = Instrumented" and "ss_health s = classify_health (ss_kind s) (ss_metrics s) t"
    and "sm_retransmit_pct_10s (ss_metrics s) \<noteq> None \<Longrightarrow> sm_retransmit_window_10s_complete (ss_metrics s)"
    and "sm_retransmit_pct_60s (ss_metrics s) \<noteq> None \<Longrightarrow> sm_retransmit_window_60s_complete (ss_metrics s)"
  shows "(ss_health s = Critical \<longleftrightarrow> breach_named ''crit'' (health_reasons s t))
    \<and> (ss_health s = Degraded \<longleftrightarrow> breach_named ''warn'' (health_reasons s t) \<and> \<not> breach_named ''crit'' (health_reasons s t))
    \<and> (ss_health s = Ok \<longleftrightarrow> health_reasons s t = quiet_reasons (ss_metrics s))"
proof -
  let ?m = "ss_metrics s"
  let ?rs = "silence_reasons ?m t @ rtt_reasons ?m t @ rtx60_reasons ?m t @ rtx10_reasons ?m t"
  have pct: "opt_ge (sm_retransmit_pct_10s ?m) v \<Longrightarrow> sm_retransmit_window_10s_complete ?m"
    "opt_ge (sm_retransmit_pct_60s ?m) v \<Longrightarrow> sm_retransmit_window_60s_complete ?m" for v
    using assms(3,4) by (auto simp: opt_ge_def split: option.splits)
  have crit: "breach_named ''crit'' ?rs \<longleftrightarrow> breaches_critical ?m t"
    using pct by (auto simp: reasons_named breaches_critical_def)
  have warn: "breach_named ''warn'' ?rs \<or> breach_named ''crit'' ?rs \<longleftrightarrow> breaches_warning ?m t \<or> breaches_critical ?m t"
    using pct by (auto simp: reasons_named breaches_critical_def breaches_warning_def)
  have none: "?rs = [] \<longleftrightarrow> \<not> breaches_warning ?m t \<and> \<not> breaches_critical ?m t"
    using crit warn named_iff_some [of ?m t] by auto
  define rs where "rs = ?rs"
  note facts = crit [folded rs_def] warn [folded rs_def] none [folded rs_def]
  have quiet: "rs \<noteq> [] \<Longrightarrow> rs \<noteq> quiet_reasons ?m"
    using quiet_named [of ?m] facts by metis
  have shown: "health_reasons s t = (if rs = [] then quiet_reasons ?m else rs)"
    using assms(1) by (simp add: health_reasons_def Let_def rs_def)
  have state: "ss_health s = (if breaches_critical ?m t then Critical else if breaches_warning ?m t then Degraded else Ok)"
    using assms(1,2) by (simp add: classify_health_Instrumented)
  show ?thesis
  proof (cases "rs = []")
    case True
    with facts shown state quiet_named [of ?m] show ?thesis by simp
  next
    case False
    have "health_reasons s t = rs" using False shown by simp
    moreover have "breaches_warning ?m t \<or> breaches_critical ?m t" using False facts(3) by blast
    ultimately show ?thesis using facts(1,2) quiet [OF False] state by auto
  qed
qed

text \<open>
  C33: The terminal interface explains the health the daemon decided on.  For every session
  of any reachable registry, listed or shown in detail, and the thresholds the daemon
  hands out: a critical threshold is named as reached exactly for critical sessions; a
  warning threshold and no critical one exactly for degraded ones; no breach is named
  exactly for healthy ones; and a legacy session is called what it is.
\<close>
theorem displayed_health_is_explained:
  assumes "reachable c st" and "s \<in> set (ex_sessions (export_summaries st now n))"
  shows "let rs = health_reasons s (aa_thresholds (api_config_of (st_config st))) in
     (case ss_kind s of
        Instrumented \<Rightarrow>
          (ss_health s = Critical \<longleftrightarrow> breach_named ''crit'' rs)
          \<and> (ss_health s = Degraded \<longleftrightarrow> breach_named ''warn'' rs \<and> \<not> breach_named ''crit'' rs)
          \<and> (ss_health s = Ok \<longleftrightarrow> rs = quiet_reasons (ss_metrics s))
      | LegacyKind \<Rightarrow> ss_health s = LegacyHealth \<and> rs = [lit ''legacy session (no verified telemetry)''])"
proof -
  obtain k r where r: "(k, r) \<in> set (st_sessions st)" "s = materialize_summary (st_config st) r now"
    using assms(2) by (rule exported_session)
  have "windows_ok r"
    using reachable_state_ok [OF assms(1)] r(1) by (auto simp: state_ok_def entries_ok_def record_ok_def)
  note complete = complete_window [OF this]
  have classified: "ss_health s = classify_health (ss_kind s) (ss_metrics s) (thresholds (st_config st))"
    unfolding r(2) by (rule materialize_classified)
  have t: "aa_thresholds (api_config_of (st_config st)) = thresholds (st_config st)"
    by (simp add: api_config_of_def Let_def)
  show ?thesis
  proof (cases "ss_kind s")
    case Instrumented
    have "sm_retransmit_pct_10s (ss_metrics s) \<noteq> None \<Longrightarrow> sm_retransmit_window_10s_complete (ss_metrics s)"
      "sm_retransmit_pct_60s (ss_metrics s) \<noteq> None \<Longrightarrow> sm_retransmit_window_60s_complete (ss_metrics s)"
      using complete by (simp_all add: r(2))
    from reasons_explain [OF Instrumented classified this] show ?thesis
      by (simp add: t Let_def Instrumented)
  next
    case LegacyKind
    with classified show ?thesis by (simp add: t health_reasons_def)
  qed
qed

section \<open>Example\<close>

text \<open>One session that has just opened.\<close>

definition one_session :: service_state where
  "one_session = apply_telemetry_at (new_state default_config) (instrumented_session_id 7 1000)
     (blank_event SessionOpen 7 1600) 1601"

lemma one_session_reachable: "reachable default_config one_session"
  unfolding one_session_def by (intro reachable_ops)

lemma one_session_sessions:
  "\<exists>r. st_sessions one_session = [(instrumented_session_id 7 1000, r)] \<and> ss_kind (sr_summary r) = Instrumented"
proof -
  have new: "st_sessions (new_state default_config) = []" "st_config (new_state default_config) = default_config"
    by (simp_all add: new_state_def)
  have cap: "max_tracked_sessions default_config = 2048" by (simp add: default_config_def)
  have "\<not> fst (reject_new_active_instrumented_session (new_state default_config) b)" for b
    by (simp add: reject_new_active_instrumented_session_def new cap)
  then show ?thesis
    unfolding one_session_def
    by (subst apply_telemetry_new)
      (simp_all add: new cap store_record_def enforce_session_cap_def enforce_loop_id)
qed

theorem displayed_health_is_explained_witness:
  "\<exists>s. ss_kind s = Instrumented \<and> ex_sessions (export_summaries one_session 1601 5) = [s]
     \<and> (ss_health s = Ok \<longleftrightarrow> health_reasons s (aa_thresholds (api_config_of (st_config one_session))) = quiet_reasons (ss_metrics s))"
proof -
  obtain r where r: "st_sessions one_session = [(instrumented_session_id 7 1000, r)]" "ss_kind (sr_summary r) = Instrumented"
    using one_session_sessions by blast
  let ?s = "materialize_summary (st_config one_session) r 1601"
  have ex: "ex_sessions (export_summaries one_session 1601 5) = [?s]"
    by (simp add: export_summaries_def Let_def r export_step_def)
  have "?s \<in> set (ex_sessions (export_summaries one_session 1601 5))" by (simp add: ex)
  from displayed_health_is_explained [OF one_session_reachable this] r(2)
  have "ss_health ?s = Ok \<longleftrightarrow> health_reasons ?s (aa_thresholds (api_config_of (st_config one_session))) = quiet_reasons (ss_metrics ?s)"
    by (simp add: Let_def)
  with ex r(2) show ?thesis by (intro exI [of _ ?s]) simp
qed

end
