(* ===== verification/Ui_Process.thy ===== *)
theory Ui_Process
  imports Discovery
begin

text \<open>
  How the terminal interface finds out which session it runs in: it reads process identities
  from \<open>/proc\<close> as the daemon does, and walks up the ancestors of the tmux client or of itself
  until it meets a listed session (\<open>moshwatch-ui/src/main.rs\<close>).  A panic is the value \<open>Panic\<close>.
\<close>

section \<open>Process identities\<close>

record process_identity =
  pi_pid :: i32
  pi_parent_pid :: i32
  pi_started_at_unix_ms :: i64

record proc_clock =
  pc_boot_time_seconds :: i64
  pc_ticks_per_second :: u64

definition read_process_identity :: "rstr option \<Rightarrow> i32 \<Rightarrow> proc_clock \<Rightarrow> process_identity attempt" where
  "read_process_identity stat pid clock =
     (case stat of
        None \<Rightarrow> Failure
      | Some raw \<Rightarrow>
          (case rsplit_once raw 41 of
             None \<Rightarrow> Failure
           | Some (before, []) \<Rightarrow> Panic
           | Some (before, c # rest) \<Rightarrow>
               if 128 \<le> c then Panic
               else
                 let fields = split_whitespace rest in
                 if length fields \<le> 1 then Failure
                 else (case parse_i32 (fields ! 1) of
                         None \<Rightarrow> Failure
                       | Some parent_pid \<Rightarrow>
                           if length fields \<le> 19 then Failure
                           else (case parse_unsigned (fields ! 19) of
                                   None \<Rightarrow> Failure
                                 | Some start_ticks \<Rightarrow>
                                     Value \<lparr>pi_pid = pid, pi_parent_pid = parent_pid,
                                            pi_started_at_unix_ms =
                                              wrap_i64 (wrap_i64 (pc_boot_time_seconds clock * 1000)
                                                + u64_as_i64 (word_of_nat start_ticks * 1000
                                                    div pc_ticks_per_second clock))\<rparr>))))"

text \<open>\<open>find_map\<close>: lines that do not parse are passed over.\<close>

fun ui_boot_time_lines :: "rstr list \<Rightarrow> i64 option" where
  "ui_boot_time_lines [] = None"
| "ui_boot_time_lines (l # ls) =
     (case Option.bind (strip_prefix l (lit ''btime '')) (\<lambda>v. parse_i64 (trim v)) of
        Some b \<Rightarrow> Some b
      | None \<Rightarrow> ui_boot_time_lines ls)"

definition ui_boot_time_seconds :: "rstr option \<Rightarrow> i64 option" where
  "ui_boot_time_seconds stat = Option.bind stat (\<lambda>raw. ui_boot_time_lines (text_lines raw))"

definition ui_clock_ticks_per_second :: "int \<Rightarrow> u64 option" where
  "ui_clock_ticks_per_second value = (if value > 0 then Some (i64_as_u64 value) else None)"

definition read_proc_clock :: "proc_fs \<Rightarrow> proc_clock option" where
  "read_proc_clock fs =
     Option.bind (ui_boot_time_seconds (pf_stat fs)) (\<lambda>boot.
     Option.bind (ui_clock_ticks_per_second (pf_clock_ticks fs)) (\<lambda>ticks.
     Some \<lparr>pc_boot_time_seconds = boot, pc_ticks_per_second = ticks\<rparr>))"

text \<open>A cached lookup: the first answer for a pid is kept.\<close>

type_synonym identity_cache = "i32 \<Rightarrow> process_identity option option"

definition cached_process_identity ::
    "(i32 \<Rightarrow> process_identity attempt) \<Rightarrow> i32 \<Rightarrow> identity_cache \<Rightarrow> process_identity option attempt \<times> identity_cache" where
  "cached_process_identity read pid cache =
     (case cache pid of
        Some identity \<Rightarrow> (Value identity, cache)
      | None \<Rightarrow>
          (case read pid of
             Panic \<Rightarrow> (Panic, cache)
           | Failure \<Rightarrow> (Value None, cache(pid \<mapsto> None))
           | Value identity \<Rightarrow> (Value (Some identity), cache(pid \<mapsto> Some identity))))"

section \<open>The walk up the ancestors\<close>

definition listed_session :: "session_summary list \<Rightarrow> process_identity \<Rightarrow> rstr option" where
  "listed_session sessions identity =
     map_option ss_session_id
       (find (\<lambda>s. ss_pid s = pi_pid identity \<and> ss_started_at_unix_ms s = pi_started_at_unix_ms identity) sessions)"

text \<open>
  \<open>None\<close> is a walk that does not end; the cache goes along.  The closure is handed on by
  reference, so one cache serves both walks of a resolution.
\<close>

partial_function (option) match_walk ::
    "(i32 \<Rightarrow> process_identity attempt) \<Rightarrow> session_summary list \<Rightarrow> i32 list \<Rightarrow> i32 \<Rightarrow> identity_cache
     \<Rightarrow> (rstr option attempt \<times> identity_cache) option" where
  "match_walk read sessions visited pid cache =
     (if pid \<in> set visited then Some (Value None, cache)
      else (case cached_process_identity read pid cache of
              (Panic, cache) \<Rightarrow> Some (Panic, cache)
            | (Failure, cache) \<Rightarrow> Some (Failure, cache)
            | (Value None, cache) \<Rightarrow> Some (Value None, cache)
            | (Value (Some identity), cache) \<Rightarrow>
                (case listed_session sessions identity of
                   Some session_id \<Rightarrow> Some (Value (Some session_id), cache)
                 | None \<Rightarrow>
                     if pi_parent_pid identity \<le> 0 \<or> pi_parent_pid identity = pi_pid identity
                     then Some (Value None, cache)
                     else match_walk read sessions (pid # visited) (pi_parent_pid identity) cache)))"

definition match_session_by_ancestry ::
    "(i32 \<Rightarrow> process_identity attempt) \<Rightarrow> session_summary list \<Rightarrow> i32 \<Rightarrow> identity_cache
     \<Rightarrow> (rstr option attempt \<times> identity_cache) option" where
  "match_session_by_ancestry read sessions start_pid cache = match_walk read sessions [] start_pid cache"

definition match_by_display_id :: "session_summary list \<Rightarrow> rstr option \<Rightarrow> rstr option" where
  "match_by_display_id sessions explicit =
     Option.bind explicit (\<lambda>d. map_option ss_session_id (find (\<lambda>s. ss_display_session_id s = Some d) sessions))"

definition resolve_current_session_id ::
    "(i32 \<Rightarrow> process_identity attempt) \<Rightarrow> session_summary list \<Rightarrow> rstr option \<Rightarrow> i32 option \<Rightarrow> i32
     \<Rightarrow> rstr option attempt option" where
  "resolve_current_session_id read sessions explicit tmux_client_pid current_pid =
     Option.bind
       (case tmux_client_pid of
          None \<Rightarrow> Some (Value None, Map.empty)
        | Some pid \<Rightarrow> match_session_by_ancestry read sessions pid Map.empty)
       (\<lambda>(outcome, cache).
          (case outcome of
             Value (Some session_id) \<Rightarrow> Some (Value (Some session_id))
           | Panic \<Rightarrow> Some Panic
           | _ \<Rightarrow>
               (case match_by_display_id sessions explicit of
                  Some session_id \<Rightarrow> Some (Value (Some session_id))
                | None \<Rightarrow>
                    map_option fst (match_session_by_ancestry read sessions current_pid cache))))"

text \<open>What \<open>tmux\<close> printed, if it ran and succeeded.\<close>

definition parse_pid_output :: "bytes \<Rightarrow> i32 option" where
  "parse_pid_output stdout = opt_filter (\<lambda>pid. pid > 0) (parse_i32 (trim (from_utf8_lossy stdout)))"

definition detect_current_session_id ::
    "proc_fs \<Rightarrow> session_summary list \<Rightarrow> rstr option \<Rightarrow> bytes option \<Rightarrow> i32 \<Rightarrow> rstr option attempt option" where
  "detect_current_session_id fs sessions env_session_id tmux_output current_pid =
     (case read_proc_clock fs of
        None \<Rightarrow> Some (Value None)
      | Some clock \<Rightarrow>
          resolve_current_session_id
            (\<lambda>pid. read_process_identity (pv_stat (pf_process fs pid)) pid clock) sessions
            (opt_filter (\<lambda>v. trim v \<noteq> []) env_session_id)
            (Option.bind tmux_output parse_pid_output) current_pid)"

end
