(* ===== verification/Ui_Process_Facts.thy ===== *)
theory Ui_Process_Facts
  imports Ui_Process Discovery_Facts
begin

text \<open>
  The walk of the terminal interface ends, finds the nearest listed ancestor, and computes
  the start time of a process exactly as the daemon does, so that the two agree on which
  process a session is.
\<close>

section \<open>The cache is invisible\<close>

definition answer :: "(i32 \<Rightarrow> process_identity attempt) \<Rightarrow> i32 \<Rightarrow> process_identity option attempt" where
  "answer read pid = (case read pid of Value i \<Rightarrow> Value (Some i) | Failure \<Rightarrow> Value None | Panic \<Rightarrow> Panic)"

definition cache_ok :: "(i32 \<Rightarrow> process_identity attempt) \<Rightarrow> identity_cache \<Rightarrow> bool" where
  "cache_ok read cache \<longleftrightarrow> (\<forall>pid v. cache pid = Some v \<longrightarrow> answer read pid = Value v)"

lemma cache_ok_empty [simp]: "cache_ok read Map.empty"
  by (simp add: cache_ok_def)

lemma cached_answer:
  assumes "cache_ok read cache"
  obtains cache' where "cached_process_identity read pid cache = (answer read pid, cache')" and "cache_ok read cache'"
proof -
  have "fst (cached_process_identity read pid cache) = answer read pid
      \<and> cache_ok read (snd (cached_process_identity read pid cache))"
  proof (cases "cache pid")
    case None
    with assms show ?thesis
      by (auto simp: cached_process_identity_def cache_ok_def answer_def split: attempt.splits)
  next
    case (Some v)
    with assms show ?thesis by (simp add: cached_process_identity_def cache_ok_def)
  qed
  then show ?thesis by (intro that) (auto simp: prod_eq_iff)
qed

section \<open>Ancestors\<close>

definition walk_stops :: "process_identity \<Rightarrow> bool" where
  "walk_stops i \<longleftrightarrow> pi_parent_pid i \<le> 0 \<or> pi_parent_pid i = pi_pid i"

fun ancestor_pid :: "(i32 \<Rightarrow> process_identity attempt) \<Rightarrow> i32 \<Rightarrow> nat \<Rightarrow> i32 option" where
  "ancestor_pid read p 0 = Some p"
| "ancestor_pid read p (Suc n) =
     (case read p of Value i \<Rightarrow> if walk_stops i then None else ancestor_pid read (pi_parent_pid i) n | _ \<Rightarrow> None)"

definition listed_at :: "(i32 \<Rightarrow> process_identity attempt) \<Rightarrow> session_summary list \<Rightarrow> i32 \<Rightarrow> rstr option" where
  "listed_at read ss p = (case read p of Value i \<Rightarrow> listed_session ss i | _ \<Rightarrow> None)"

text \<open>The session of the nearest ancestor that is listed.\<close>

definition nearest_listed ::
    "(i32 \<Rightarrow> process_identity attempt) \<Rightarrow> session_summary list \<Rightarrow> i32 \<Rightarrow> nat \<Rightarrow> rstr \<Rightarrow> bool" where
  "nearest_listed read ss p n k \<longleftrightarrow>
     (\<exists>q. ancestor_pid read p n = Some q \<and> listed_at read ss q = Some k)
     \<and> (\<forall>m < n. \<forall>q. ancestor_pid read p m = Some q \<longrightarrow> listed_at read ss q = None)"

lemma ancestor_pid_add: "ancestor_pid read p a = Some q \<Longrightarrow> ancestor_pid read p (a + b) = ancestor_pid read q b"
  by (induction a arbitrary: p) (auto split: attempt.splits if_splits)

lemma nearest_listed_0: "nearest_listed read ss p 0 k \<longleftrightarrow> listed_at read ss p = Some k"
  by (simp add: nearest_listed_def)

lemma nearest_listed_Suc:
  assumes "read p = Value i" and "listed_session ss i = None" and "\<not> walk_stops i"
  shows "nearest_listed read ss p (Suc n) k \<longleftrightarrow> nearest_listed read ss (pi_parent_pid i) n k"
  using assms by (auto simp: nearest_listed_def listed_at_def All_less_Suc2)

lemma nearest_listed_stuck:
  assumes "listed_at read ss p = None" and "\<And>i. read p = Value i \<Longrightarrow> walk_stops i"
  shows "\<not> nearest_listed read ss p n k"
  using assms by (cases n) (auto simp: nearest_listed_def split: attempt.splits)

text \<open>No process occurs twice on the way to the nearest listed ancestor.\<close>

lemma nearest_listed_no_return:
  assumes "nearest_listed read ss p n k" and "0 < m" and "m \<le> n"
  shows "ancestor_pid read p m \<noteq> Some p"
proof
  assume "ancestor_pid read p m = Some p"
  then have "ancestor_pid read p (m + (n - m)) = ancestor_pid read p (n - m)" by (rule ancestor_pid_add)
  moreover have "n - m < n" using assms(2,3) by simp
  ultimately show False using assms(1,3) by (fastforce simp: nearest_listed_def)
qed

section \<open>The walk\<close>

definition in_i32 :: "int \<Rightarrow> bool" where
  "in_i32 i \<longleftrightarrow> - 2147483648 \<le> i \<and> i \<le> 2147483647"

definition pids :: "i32 set" where
  "pids = {p. in_i32 p}"

lemma finite_pids: "finite pids"
proof -
  have "pids = {- 2147483648 .. 2147483647}" by (auto simp: pids_def in_i32_def)
  then show ?thesis by (metis finite_atLeastAtMost_int)
qed

lemma fewer_unvisited:
  assumes "in_i32 p" and "p \<notin> set visited"
  shows "card (pids - set (p # visited)) < card (pids - set visited)"
proof -
  have "pids - set (p # visited) = (pids - set visited) - {p}" by auto
  moreover have "p \<in> pids - set visited" using assms by (simp add: pids_def)
  ultimately show ?thesis using finite_pids by (simp only: card_Diff1_less finite_Diff)
qed

definition walk_result ::
    "(i32 \<Rightarrow> process_identity attempt) \<Rightarrow> session_summary list \<Rightarrow> i32 list \<Rightarrow> i32
     \<Rightarrow> (rstr option attempt \<times> identity_cache) option \<Rightarrow> bool" where
  "walk_result read ss visited p result \<longleftrightarrow>
     (\<exists>outcome cache. result = Some (outcome, cache) \<and> cache_ok read cache
        \<and> (\<forall>k. outcome = Value (Some k) \<longrightarrow> (\<exists>n. nearest_listed read ss p n k))
        \<and> (\<forall>n k. nearest_listed read ss p n k \<longrightarrow>
             (\<forall>m \<le> n. \<forall>q. ancestor_pid read p m = Some q \<longrightarrow> q \<notin> set visited) \<longrightarrow> outcome = Value (Some k)))"

lemma walk_result_none:
  assumes "result = Some (outcome, cache)" and "cache_ok read cache" and "\<And>k. outcome \<noteq> Value (Some k)"
    and "\<And>n k. nearest_listed read ss p n k \<Longrightarrow> p \<in> set visited"
  shows "walk_result read ss visited p result"
proof -
  have "\<exists>m \<le> n. \<exists>q. ancestor_pid read p m = Some q \<and> q \<in> set visited" if "nearest_listed read ss p n k" for n k
    using assms(4) [OF that] by (intro exI [of _ 0]) simp
  with assms(1-3) show ?thesis by (auto simp: walk_result_def)
qed

lemma walk_result_found:
  assumes "result = Some (Value (Some k), cache)" and "cache_ok read cache" and "nearest_listed read ss p n k"
    and "\<And>n k'. nearest_listed read ss p n k' \<Longrightarrow> k' = k"
  shows "walk_result read ss visited p result"
  unfolding walk_result_def assms(1) using assms(2-4) by blast

lemma walk_result_up:
  assumes "read p = Value i" and "listed_session ss i = None" and "\<not> walk_stops i"
    and "walk_result read ss (p # visited) (pi_parent_pid i) result"
  shows "walk_result read ss visited p result"
proof -
  note Suc_iff = nearest_listed_Suc [where read = read and p = p, OF assms(1-3)]
  have not_0: "\<not> nearest_listed read ss p 0 k" for k
    using assms(1,2) by (simp add: nearest_listed_0 listed_at_def)
  have parent: "ancestor_pid read p (Suc m) = ancestor_pid read (pi_parent_pid i) m" for m
    using assms(1,3) by simp
  obtain outcome cache where result: "result = Some (outcome, cache)" "cache_ok read cache"
    and found: "\<And>k. outcome = Value (Some k) \<Longrightarrow> \<exists>n. nearest_listed read ss (pi_parent_pid i) n k"
    and finds: "\<And>n k. nearest_listed read ss (pi_parent_pid i) n k \<Longrightarrow>
      \<forall>m \<le> n. \<forall>q. ancestor_pid read (pi_parent_pid i) m = Some q \<longrightarrow> q \<notin> set (p # visited) \<Longrightarrow> outcome = Value (Some k)"
    using assms(4) unfolding walk_result_def by blast
  have "outcome = Value (Some k)"
    if near: "nearest_listed read ss p n k"
      and unseen: "\<forall>m \<le> n. \<forall>q. ancestor_pid read p m = Some q \<longrightarrow> q \<notin> set visited" for n k
  proof -
    obtain n' where n: "n = Suc n'" using near not_0 by (cases n) auto
    have "q \<notin> set (p # visited)" if "m \<le> n'" "ancestor_pid read (pi_parent_pid i) m = Some q" for m q
    proof -
      have "ancestor_pid read p (Suc m) = Some q" using that(2) parent by simp
      moreover have "ancestor_pid read p (Suc m) \<noteq> Some p"
        using nearest_listed_no_return [OF near, of "Suc m"] that(1) n by simp
      moreover have "Suc m \<le> n" using that(1) n by simp
      ultimately show ?thesis using unseen by auto
    qed
    with near show ?thesis unfolding n Suc_iff by (intro finds) blast+
  qed
  moreover have "\<exists>n. nearest_listed read ss p n k" if "outcome = Value (Some k)" for k
    using found [OF that] Suc_iff by blast
  ultimately show ?thesis unfolding walk_result_def result(1) using result(2) by blast
qed

lemma match_walk_result:
  assumes "\<And>q i. read q = Value i \<Longrightarrow> in_i32 (pi_parent_pid i)" and "in_i32 p" and "cache_ok read cache"
  shows "walk_result read ss visited p (match_walk read ss visited p cache)"
  using assms(2,3)
proof (induction "card (pids - set visited)" arbitrary: visited p cache rule: less_induct)
  case less
  obtain cache' where cached: "cached_process_identity read p cache = (answer read p, cache')" and ok: "cache_ok read cache'"
    using cached_answer [OF less.prems(2)] by blast
  note step = match_walk.simps [of read ss visited p cache] cached
  show ?case
  proof (cases "p \<in> set visited")
    case True
    then have "match_walk read ss visited p cache = Some (Value None, cache)" by (simp add: step)
    then show ?thesis using less.prems(2) by (rule walk_result_none) (simp_all add: True)
  next
    case fresh: False
    show ?thesis
    proof (cases "read p")
      case (Value i)
      show ?thesis
      proof (cases "listed_session ss i")
        case (Some k)
        then have "nearest_listed read ss p 0 k" by (simp add: nearest_listed_0 listed_at_def Value)
        moreover have "k' = k" if "nearest_listed read ss p n k'" for n k'
          using that Some by (cases n) (auto simp: nearest_listed_def listed_at_def Value)
        moreover have "match_walk read ss visited p cache = Some (Value (Some k), cache')"
          using fresh Some by (simp add: step answer_def Value)
        ultimately show ?thesis using ok by (intro walk_result_found [of _ k cache' _ _ _ 0]) blast+
      next
        case None
        show ?thesis
        proof (cases "walk_stops i")
          case True
          then have "\<not> nearest_listed read ss p n k" for n k
            using None by (intro nearest_listed_stuck) (auto simp: listed_at_def Value)
          moreover have "match_walk read ss visited p cache = Some (Value None, cache')"
            using fresh None True by (simp add: step answer_def Value walk_stops_def)
          ultimately show ?thesis using ok by (intro walk_result_none) auto
        next
          case False
          from less.hyps [OF fewer_unvisited [OF less.prems(1) fresh] assms(1) [OF Value] ok]
          have rest: "walk_result read ss (p # visited) (pi_parent_pid i)
              (match_walk read ss (p # visited) (pi_parent_pid i) cache')" .
          have eq: "match_walk read ss visited p cache = match_walk read ss (p # visited) (pi_parent_pid i) cache'"
            using fresh None False by (simp add: step answer_def Value walk_stops_def)
          show ?thesis unfolding eq using Value None False rest by (rule walk_result_up)
        qed
      qed
    next
      case Failure
      then have "\<not> nearest_listed read ss p n k" for n k
        by (intro nearest_listed_stuck) (auto simp: listed_at_def)
      moreover have "match_walk read ss visited p cache = Some (Value None, cache')"
        using fresh by (simp add: step answer_def Failure)
      ultimately show ?thesis using ok by (intro walk_result_none) auto
    next
      case Panic
      then have "\<not> nearest_listed read ss p n k" for n k
        by (intro nearest_listed_stuck) (auto simp: listed_at_def)
      moreover have "match_walk read ss visited p cache = Some (Panic, cache')"
        using fresh by (simp add: step answer_def Panic)
      ultimately show ?thesis using ok by (intro walk_result_none) auto
    qed
  qed
qed

section \<open>Detection\<close>

abbreviation ui_read :: "proc_fs \<Rightarrow> proc_clock \<Rightarrow> i32 \<Rightarrow> process_identity attempt" where
  "ui_read fs clock pid \<equiv> read_process_identity (pv_stat (pf_process fs pid)) pid clock"

lemma parse_i32_range: "parse_i32 s = Some i \<Longrightarrow> in_i32 i"
  by (auto simp: parse_i32_def in_i32_def split: option.splits if_splits)

lemma read_process_identity_fields:
  assumes "read_process_identity stat pid clock = Value i"
  shows "pi_pid i = pid" and "in_i32 (pi_parent_pid i)"
  using assms parse_i32_range
  by (auto simp: read_process_identity_def Let_def split: option.splits list.splits if_splits)

lemma match_session_result:
  assumes "in_i32 p" and "cache_ok (ui_read fs clock) cache"
  shows "walk_result (ui_read fs clock) ss [] p (match_session_by_ancestry (ui_read fs clock) ss p cache)"
  unfolding match_session_by_ancestry_def
  by (rule match_walk_result [OF _ assms]) (rule read_process_identity_fields(2))

lemma find_in_set: "find P xs = Some x \<Longrightarrow> x \<in> set xs"
  by (metis find_Some_iff nth_mem)

lemma listed_is_session: "listed_session ss i = Some k \<Longrightarrow> k \<in> ss_session_id ` set ss"
  by (auto simp: listed_session_def dest: find_in_set)

lemma listed_at_is_session: "listed_at read ss q = Some k \<Longrightarrow> k \<in> ss_session_id ` set ss"
  by (auto simp: listed_at_def intro: listed_is_session split: attempt.splits)

lemma nearest_is_session: "nearest_listed read ss p n k \<Longrightarrow> k \<in> ss_session_id ` set ss"
  unfolding nearest_listed_def by (blast intro: listed_at_is_session)

lemma walk_result_cases:
  assumes "walk_result read ss [] p result"
  shows "\<exists>outcome cache. result = Some (outcome, cache) \<and> cache_ok read cache
    \<and> (\<forall>k. outcome = Value (Some k) \<longrightarrow> k \<in> ss_session_id ` set ss)
    \<and> (\<forall>n k. nearest_listed read ss p n k \<longrightarrow> outcome = Value (Some k))"
proof -
  obtain outcome cache where result: "result = Some (outcome, cache)" "cache_ok read cache"
    and found: "\<forall>k. outcome = Value (Some k) \<longrightarrow> (\<exists>n. nearest_listed read ss p n k)"
    and finds: "\<forall>n k. nearest_listed read ss p n k \<longrightarrow>
      (\<forall>m \<le> n. \<forall>q. ancestor_pid read p m = Some q \<longrightarrow> q \<notin> set []) \<longrightarrow> outcome = Value (Some k)"
    using assms unfolding walk_result_def by blast
  have "k \<in> ss_session_id ` set ss" if "outcome = Value (Some k)" for k
    using found that nearest_is_session by blast
  moreover have "outcome = Value (Some k)" if "nearest_listed read ss p n k" for n k
    using finds that by simp
  ultimately show ?thesis using result by blast
qed

lemma display_id_is_session: "match_by_display_id ss explicit = Some k \<Longrightarrow> k \<in> ss_session_id ` set ss"
  by (cases explicit) (auto simp: match_by_display_id_def dest: find_in_set)

lemma resolve_returns:
  assumes "in_i32 p" and "\<And>q. tmux = Some q \<Longrightarrow> in_i32 q"
  shows "\<exists>outcome. resolve_current_session_id (ui_read fs clock) ss explicit tmux p = Some outcome
     \<and> (\<forall>k. outcome = Value (Some k) \<longrightarrow> k \<in> ss_session_id ` set ss)"
proof -
  obtain outcome cache where first: "(case tmux of None \<Rightarrow> Some (Value None, Map.empty)
      | Some pid \<Rightarrow> match_session_by_ancestry (ui_read fs clock) ss pid Map.empty) = Some (outcome, cache)"
    and ok: "cache_ok (ui_read fs clock) cache"
    and member: "\<forall>k. outcome = Value (Some k) \<longrightarrow> k \<in> ss_session_id ` set ss"
  proof (cases tmux)
    case None
    then show ?thesis by (intro that [of "Value None" Map.empty]) auto
  next
    case (Some q)
    obtain outcome cache where walk: "match_session_by_ancestry (ui_read fs clock) ss q Map.empty = Some (outcome, cache)"
      and found: "cache_ok (ui_read fs clock) cache" "\<forall>k. outcome = Value (Some k) \<longrightarrow> k \<in> ss_session_id ` set ss"
      using walk_result_cases [OF match_session_result [OF assms(2) [OF Some] cache_ok_empty]] by blast
    have "(case tmux of None \<Rightarrow> Some (Value None, Map.empty)
      | Some pid \<Rightarrow> match_session_by_ancestry (ui_read fs clock) ss pid Map.empty) = Some (outcome, cache)"
      by (simp only: Some option.case walk)
    from that [OF this found] show ?thesis .
  qed
  obtain outcome' cache' where "match_session_by_ancestry (ui_read fs clock) ss p cache = Some (outcome', cache')"
    and member': "\<forall>k. outcome' = Value (Some k) \<longrightarrow> k \<in> ss_session_id ` set ss"
    using walk_result_cases [OF match_session_result [OF assms(1) ok]] by blast
  then show ?thesis
    using member member' display_id_is_session
    by (auto simp: resolve_current_session_id_def first split: option.split attempt.split)
qed

text \<open>
  Finding the current session always ends, whatever \<open>/proc\<close> says (a chain of parents
  that bites its own tail included), and what it finds is one of the listed sessions.
\<close>
theorem session_detection_returns:
  assumes "in_i32 current_pid"
  shows "\<exists>outcome. detect_current_session_id fs ss env tmux current_pid = Some outcome
     \<and> (\<forall>k. outcome = Value (Some k) \<longrightarrow> k \<in> ss_session_id ` set ss)"
proof (cases "read_proc_clock fs")
  case None
  then show ?thesis by (simp add: detect_current_session_id_def)
next
  case (Some clock)
  have "in_i32 q" if "Option.bind tmux parse_pid_output = Some q" for q
    using that parse_i32_range
    by (auto simp: parse_pid_output_def opt_filter_def bind_eq_Some_conv split: option.splits if_splits)
  from resolve_returns [OF assms this] show ?thesis by (simp add: detect_current_session_id_def Some)
qed

section \<open>Agreement with the daemon\<close>

lemma boot_time_agrees: "read_boot_time_lines ls = Some b \<Longrightarrow> ui_boot_time_lines ls = Some b"
  by (induction ls) (auto split: option.splits)

lemma clock_agrees:
  assumes "read_process_metadata fs pid = Value m"
  obtains boot ticks where "read_proc_clock fs = Some \<lparr>pc_boot_time_seconds = boot, pc_ticks_per_second = ticks\<rparr>"
    and "read_started_at_unix_ms (pv_stat (pf_process fs pid)) boot ticks = Value (pm_started_at_unix_ms m)"
proof -
  obtain boot ticks where boot: "read_boot_time_seconds (pf_stat fs) = Some boot"
    and ticks: "read_clock_ticks_per_second (pf_clock_ticks fs) = Some ticks"
    and m: "read_process_metadata_with_clock (pf_process fs pid) boot ticks = Value m"
    using assms by (auto simp: read_process_metadata_def bind_attempt_def attempt_of_def split: option.splits attempt.splits)
  have "ui_boot_time_seconds (pf_stat fs) = Some boot"
    using boot boot_time_agrees by (auto simp: read_boot_time_seconds_def ui_boot_time_seconds_def bind_eq_Some_conv)
  moreover have "ui_clock_ticks_per_second (pf_clock_ticks fs) = Some ticks"
    using ticks by (auto simp: read_clock_ticks_per_second_def ui_clock_ticks_per_second_def split: if_splits)
  ultimately have "read_proc_clock fs = Some \<lparr>pc_boot_time_seconds = boot, pc_ticks_per_second = ticks\<rparr>"
    by (simp add: read_proc_clock_def)
  moreover have "read_started_at_unix_ms (pv_stat (pf_process fs pid)) boot ticks = Value (pm_started_at_unix_ms m)"
    using m by (auto simp: read_process_metadata_with_clock_def bind_attempt_def split: attempt.splits)
  ultimately show ?thesis by (rule that)
qed

lemma start_time_agrees:
  assumes "read_started_at_unix_ms stat (pc_boot_time_seconds clock) (pc_ticks_per_second clock) = Value t"
    and "read_process_identity stat pid clock = Value i"
  shows "pi_started_at_unix_ms i = t"
  using assms
  by (auto simp: read_process_identity_def read_started_at_unix_ms_def Let_def split: option.splits list.splits if_splits)

lemma find_unique:
  assumes "distinct (map f xs)" and "x \<in> set xs"
  shows "find (\<lambda>y. f y = f x) xs = Some x"
  using assms by (induction xs) (auto simp: image_iff)


section \<open>Example\<close>

text \<open>A shell, process 9, below the server, process 7, of the example host.\<close>

definition shell_host :: proc_fs where
  "shell_host = example_proc\<lparr>pf_process := (pf_process example_proc)(9 :=
     (pf_process example_proc 9)\<lparr>pv_stat := Some (lit ''9 (sh) S 7 2 3 4 5 6 7 8 9 0 1 2 3 4 5 6 7 8 600 0'')\<rparr>)\<rparr>"

definition shell_clock :: proc_clock where
  "shell_clock = \<lparr>pc_boot_time_seconds = 1000, pc_ticks_per_second = 100\<rparr>"

lemma shell_identities:
  "ui_read shell_host shell_clock 9 = Value \<lparr>pi_pid = 9, pi_parent_pid = 7, pi_started_at_unix_ms = 1006000\<rparr>"
  "ui_read shell_host shell_clock 7 = Value \<lparr>pi_pid = 7, pi_parent_pid = 1, pi_started_at_unix_ms = 1005000\<rparr>"
  by (simp_all add: shell_host_def shell_clock_def example_proc_def read_process_identity_def rsplit_once_def lit_def
      split_whitespace_code is_whitespace_def parse_unsigned_def parse_i32_def parse_i64_def parse_digits_def is_digit_def
      digits_value_def u64_as_i64_def wrap_i64_def in_i64_def i64_min_def i64_max_def)

lemma shell_host_metadata: "\<exists>m. read_process_metadata shell_host 7 = Value m"
proof -
  have same: "pf_process shell_host 7 = pf_process example_proc 7" "pf_stat shell_host = pf_stat example_proc"
    "pf_clock_ticks shell_host = pf_clock_ticks example_proc"
    by (simp_all add: shell_host_def)
  have "path_of ''/usr/bin/mosh-server'' = [RootDir, Normal (utf8_encode (lit ''usr'')), Normal (utf8_encode (lit ''bin''))]
      @ [Normal server_stock]" by (simp add: stock_paths)
  then have "file_name_str (path_of ''/usr/bin/mosh-server'') = Some (lit ''mosh-server'')"
    by (simp only: file_name_str_snoc server_names(5))
  moreover have "lit ''mosh-server'' \<noteq> []" by (simp add: lit_def)
  ultimately show ?thesis
    by (simp add: read_process_metadata_def read_process_metadata_with_clock_def same example_proc_parts opt_filter_def)
qed

lemma shell_clock: "read_proc_clock shell_host = Some shell_clock"
proof -
  obtain m where "read_process_metadata shell_host 7 = Value m" using shell_host_metadata by blast
  then obtain boot ticks where "read_proc_clock shell_host = Some \<lparr>pc_boot_time_seconds = boot, pc_ticks_per_second = ticks\<rparr>"
    by (rule clock_agrees)
  moreover have "read_boot_time_seconds (pf_stat shell_host) = Some 1000"
    "read_clock_ticks_per_second (pf_clock_ticks shell_host) = Some 100"
    using example_proc_parts by (simp_all add: shell_host_def)
  then have "ui_boot_time_seconds (pf_stat shell_host) = Some 1000" "ui_clock_ticks_per_second (pf_clock_ticks shell_host) = Some 100"
    using boot_time_agrees
    by (auto simp: read_boot_time_seconds_def ui_boot_time_seconds_def bind_eq_Some_conv
        read_clock_ticks_per_second_def ui_clock_ticks_per_second_def split: if_splits)
  ultimately show ?thesis by (simp add: read_proc_clock_def shell_clock_def)
qed

theorem session_detection_returns_witness:
  "\<exists>outcome. detect_current_session_id shell_host [] None None 9 = Some outcome"
proof -
  have "in_i32 9" by (simp add: in_i32_def)
  from session_detection_returns [OF this] show ?thesis by blast
qed


end
