(* ===== verification/Ui_Client.thy ===== *)
theory Ui_Client
  imports Http
begin

text \<open>
  The small HTTP client of \<open>moshwatch-ui/src/main.rs\<close>: the request it writes, the bounded
  reading of the response and what it takes from it.  Connecting, writing and the two
  seconds of each step are given by outcomes; a read that fails or comes too late is a
  fault of the reader.
\<close>

definition MAX_HTTP_RESPONSE_BYTES :: nat where "MAX_HTTP_RESPONSE_BYTES = 4 * 1024 * 1024"

datatype client_error =
    ConnectFailed | WriteFailed | ReadFailed | ResponseTooLarge | MalformedResponse
  | RequestFailed rstr | UndecodableBody

definition request_text :: "rstr \<Rightarrow> rstr \<Rightarrow> rstr" where
  "request_text verb path =
     verb @ lit '' '' @ path @ lit '' HTTP/1.1'' @ crlf @ lit ''Host: localhost'' @ crlf
     @ lit ''Connection: close'' @ crlf @ crlf"

text \<open>One \<open>read\<close> takes at most 8192 bytes of what has arrived, and nothing at the end.\<close>

function read_bounded_loop :: "bytes \<Rightarrow> 'e reader \<Rightarrow> client_error + bytes" where
  "read_bounded_loop response r =
     (case r of
        Fault e # _ \<Rightarrow> Inl ReadFailed
      | Chunk (b # bs) # _ \<Rightarrow>
          (let response' = response @ take 8192 (b # bs) in
           if length response' > MAX_HTTP_RESPONSE_BYTES then Inl ResponseTooLarge
           else read_bounded_loop response' (consume 8192 r))
      | _ \<Rightarrow> Inr response)"
  by pat_completeness auto
termination
  by (relation "measure (\<lambda>(response, r). Suc MAX_HTTP_RESPONSE_BYTES - length response)") auto

declare read_bounded_loop.simps [simp del]

definition read_bounded_response :: "'e reader \<Rightarrow> client_error + bytes" where
  "read_bounded_response r = read_bounded_loop [] r"

text \<open>\<open>windows(4).position(|window| window == b"\r\n\r\n")\<close>\<close>

fun head_end_position :: "bytes \<Rightarrow> nat option" where
  "head_end_position [] = None"
| "head_end_position (b # bs) =
     (if take 4 (b # bs) = head_end then Some 0 else map_option Suc (head_end_position bs))"

definition split_response :: "bytes \<Rightarrow> client_error + bytes" where
  "split_response response =
     (case head_end_position response of
        None \<Rightarrow> Inl MalformedResponse
      | Some split \<Rightarrow>
          let header = from_utf8_lossy (take split response) in
          if \<not> starts_with header (lit ''HTTP/1.1 200'') \<and> \<not> starts_with header (lit ''HTTP/1.0 200'')
          then Inl (RequestFailed (case text_lines header of [] \<Rightarrow> [] | l # _ \<Rightarrow> l))
          else Inr (drop (split + 4) response))"

text \<open>
  \<open>exchange\<close> is what the request meets: the bytes of the request that arrived are answered
  by a reader, or connecting or writing fails.
\<close>

definition request_json_with_method ::
    "(bytes \<Rightarrow> client_error + 'e reader) \<Rightarrow> (bytes \<Rightarrow> 'a option) \<Rightarrow> rstr \<Rightarrow> rstr \<Rightarrow> client_error + 'a" where
  "request_json_with_method exchange decode verb path =
     (case exchange (utf8_encode (request_text verb path)) of
        Inl e \<Rightarrow> Inl e
      | Inr r \<Rightarrow>
          (case read_bounded_response r of
             Inl e \<Rightarrow> Inl e
           | Inr response \<Rightarrow>
               (case split_response response of
                  Inl e \<Rightarrow> Inl e
                | Inr body \<Rightarrow> (case decode body of None \<Rightarrow> Inl UndecodableBody | Some v \<Rightarrow> Inr v))))"

definition request_json ::
    "(bytes \<Rightarrow> client_error + 'e reader) \<Rightarrow> (bytes \<Rightarrow> 'a option) \<Rightarrow> rstr \<Rightarrow> client_error + 'a" where
  "request_json exchange decode path = request_json_with_method exchange decode (lit ''GET'') path"

end
