(* ===== verification/Ui_App.thy ===== *)
theory Ui_App
  imports Ui_Format Ui_Client Protocol_Api
begin

text \<open>
  The state of the terminal interface and what its keys do (\<open>moshwatch-ui/src/main.rs\<close>).  A
  request is given by its outcome, an error by its text; every operation also yields the
  requests it sent.  Instants are milliseconds of a
  monotonic clock; the first refresh is due at once, whatever the period.
\<close>

section \<open>State\<close>

record pending_terminate =
  pt_session_id :: rstr
  pt_pid :: i32
  pt_label :: rstr

record ui_app =
  ap_refresh_ms :: nat
  ap_thresholds :: health_thresholds
  ap_snapshot_stale :: bool
  ap_generated_at :: "i64 option"
  ap_total_sessions :: nat
  ap_truncated_session_count :: nat
  ap_dropped_sessions_total :: u64
  ap_summaries :: "session_summary list"
  ap_detail :: "session_snapshot option"
  ap_current_session_id :: "rstr option"
  ap_initial_selection_resolved :: bool
  ap_selected :: nat
  ap_pending :: "pending_terminate option"
  ap_notice :: "rstr option"
  ap_error :: "rstr option"
  ap_last_refresh :: int

definition new_app :: "nat \<Rightarrow> int \<Rightarrow> ui_app" where
  "new_app refresh started =
     \<lparr>ap_refresh_ms = refresh, ap_thresholds = default_thresholds, ap_snapshot_stale = False,
      ap_generated_at = None, ap_total_sessions = 0, ap_truncated_session_count = 0,
      ap_dropped_sessions_total = 0, ap_summaries = [], ap_detail = None,
      ap_current_session_id = None, ap_initial_selection_resolved = False, ap_selected = 0,
      ap_pending = None, ap_notice = None, ap_error = None, ap_last_refresh = started - int refresh\<rparr>"

definition selected_summary :: "ui_app \<Rightarrow> session_summary option" where
  "selected_summary a =
     (if ap_selected a < length (ap_summaries a) then Some (ap_summaries a ! ap_selected a) else None)"

definition selected_id :: "ui_app \<Rightarrow> rstr option" where
  "selected_id a = map_option ss_session_id (selected_summary a)"

fun session_position :: "rstr \<Rightarrow> session_summary list \<Rightarrow> nat option" where
  "session_position k [] = None"
| "session_position k (s # ss) = (if ss_session_id s = k then Some 0 else map_option Suc (session_position k ss))"

definition next_selected_index ::
    "session_summary list \<Rightarrow> rstr option \<Rightarrow> rstr option \<Rightarrow> nat \<Rightarrow> bool \<Rightarrow> nat \<times> bool" where
  "next_selected_index ss previous_id current_id selected initial_resolved =
     (if ss = [] then (0, initial_resolved)
      else (case (if initial_resolved then None else Option.bind current_id (\<lambda>k. session_position k ss)) of
              Some position \<Rightarrow> (position, True)
            | None \<Rightarrow>
                (case Option.bind previous_id (\<lambda>k. session_position k ss) of
                   Some position \<Rightarrow> (position, True)
                 | None \<Rightarrow> (min selected (length ss - 1), True))))"

section \<open>Requests and refreshing\<close>

text \<open>Outcomes of the requests and of the detection of the current session.\<close>

record ui_world =
  uw_sessions :: "rstr + api_sessions_response"
  uw_config :: "rstr + api_config_response"
  uw_current :: "session_summary list \<Rightarrow> rstr option"
  uw_detail :: "rstr \<Rightarrow> rstr + api_session_response"
  uw_terminate :: "rstr \<Rightarrow> rstr + api_session_control_response"

datatype ui_request = Get rstr | Post rstr

definition detail_path :: "rstr \<Rightarrow> rstr" where
  "detail_path session_id = lit ''/v1/sessions/'' @ session_id"

definition terminate_path :: "rstr \<Rightarrow> rstr" where
  "terminate_path session_id = lit ''/v1/sessions/'' @ session_id @ lit ''/terminate''"

definition refresh_detail :: "ui_world \<Rightarrow> rstr option \<Rightarrow> session_snapshot option \<Rightarrow> ui_app \<Rightarrow> ui_app \<times> ui_request list" where
  "refresh_detail w previous_id previous_detail a =
     (case selected_id a of
        None \<Rightarrow> (a\<lparr>ap_detail := None, ap_error := None\<rparr>, [])
      | Some session_id \<Rightarrow>
          ((case uw_detail w (detail_path session_id) of
              Inr d \<Rightarrow>
                a\<lparr>ap_generated_at := Some (sr2_generated_at_unix_ms d), ap_detail := Some (sr2_session d),
                  ap_error := None\<rparr>
            | Inl e \<Rightarrow>
                a\<lparr>ap_detail := (if previous_id = Some session_id then previous_detail else None),
                  ap_error := Some (lit ''detail refresh failed: '' @ e)\<rparr>),
           [Get (detail_path session_id)]))"

definition refresh :: "ui_world \<Rightarrow> int \<Rightarrow> ui_app \<Rightarrow> ui_app \<times> ui_request list" where
  "refresh w now a =
     (case uw_sessions w of
        Inl e \<Rightarrow>
          (a\<lparr>ap_error := Some (lit ''session refresh failed: '' @ e), ap_snapshot_stale := True,
             ap_last_refresh := now\<rparr>, [Get (lit ''/v1/sessions'')])
      | Inr response \<Rightarrow>
          let previous_id = selected_id a;
              ss = sr1_sessions response;
              current = uw_current w ss;
              (selected, resolved) =
                next_selected_index ss previous_id current (ap_selected a) (ap_initial_selection_resolved a);
              a1 = a\<lparr>ap_generated_at := Some (sr1_generated_at_unix_ms response),
                     ap_thresholds := (case uw_config w of
                        Inr c \<Rightarrow> aa_thresholds (cf_config c) | Inl _ \<Rightarrow> ap_thresholds a),
                     ap_total_sessions := sr1_total_sessions response,
                     ap_truncated_session_count := sr1_truncated_session_count response,
                     ap_dropped_sessions_total := sr1_dropped_sessions_total response,
                     ap_snapshot_stale := False, ap_summaries := ss, ap_current_session_id := current,
                     ap_selected := selected, ap_initial_selection_resolved := resolved\<rparr>;
              (a2, requests) = refresh_detail w previous_id (ap_detail a) a1
          in (a2\<lparr>ap_last_refresh := now\<rparr>,
              [Get (lit ''/v1/sessions''), Get (lit ''/v1/config'')] @ requests))"

section \<open>Terminating a session\<close>

definition arm_terminate :: "ui_app \<Rightarrow> ui_app" where
  "arm_terminate a =
     (case selected_summary a of
        None \<Rightarrow> a\<lparr>ap_notice := Some (lit ''no session selected'')\<rparr>
      | Some s \<Rightarrow>
          a\<lparr>ap_pending := Some \<lparr>pt_session_id = ss_session_id s, pt_pid = ss_pid s,
                                pt_label = display_session_label s (ap_current_session_id a)\<rparr>,
            ap_notice := None, ap_error := None\<rparr>)"

definition cancel_terminate :: "ui_app \<Rightarrow> ui_app" where
  "cancel_terminate a = a\<lparr>ap_pending := None, ap_notice := Some (lit ''terminate cancelled''), ap_error := None\<rparr>"

text \<open>\<open>Terminate\<close> is the only action there is, so the check of the answer's action never fails.\<close>

definition confirm_terminate :: "ui_world \<Rightarrow> int \<Rightarrow> ui_app \<Rightarrow> ui_app \<times> ui_request list" where
  "confirm_terminate w now a =
     (case ap_pending a of
        None \<Rightarrow> (a\<lparr>ap_notice := Some (lit ''no terminate action pending'')\<rparr>, [])
      | Some p \<Rightarrow>
          let a0 = a\<lparr>ap_pending := None\<rparr>; path = terminate_path (pt_session_id p);
              who = show_int (pt_pid p) @ lit '' ('' @ pt_label p @ lit '')''
          in (case uw_terminate w path of
                Inr response \<Rightarrow>
                  if cr_action response \<noteq> Terminate then
                    (a0\<lparr>ap_error := Some (lit ''terminate failed: unexpected control response'')\<rparr>, [Post path])
                  else
                    let (a1, requests) = refresh w now
                          (a0\<lparr>ap_notice := Some (lit ''SIGTERM requested for pid '' @ who), ap_error := None\<rparr>)
                    in (a1, Post path # requests)
              | Inl e \<Rightarrow>
                  (a0\<lparr>ap_error := Some (lit ''terminate failed for pid '' @ who @ lit '': '' @ e)\<rparr>, [Post path])))"

definition move_selection :: "int \<Rightarrow> ui_app \<Rightarrow> ui_app" where
  "move_selection delta a =
     (if ap_summaries a = [] then a\<lparr>ap_selected := 0\<rparr>
      else a\<lparr>ap_selected := nat (max 0 (min (int (ap_selected a) + delta) (int (length (ap_summaries a)) - 1)))\<rparr>)"

section \<open>The loop\<close>

datatype ui_key = KeyChar uchar | KeyEnter | KeyEsc | KeyDown | KeyUp | KeyOther

text \<open>What a poll of 100 milliseconds brings: nothing, another event, or a pressed key.\<close>

datatype ui_input = NoInput | OtherInput | Pressed ui_key

definition is_confirm_key :: "ui_key \<Rightarrow> bool" where
  "is_confirm_key k \<longleftrightarrow> k = KeyChar 121 \<or> k = KeyEnter"

definition is_cancel_key :: "ui_key \<Rightarrow> bool" where
  "is_cancel_key k \<longleftrightarrow> k = KeyChar 110 \<or> k = KeyEsc"

text \<open>A pressed key; \<open>None\<close> leaves the loop.\<close>

definition handle_key :: "ui_world \<Rightarrow> int \<Rightarrow> ui_key \<Rightarrow> ui_app \<Rightarrow> ui_app option \<times> ui_request list" where
  "handle_key w now k a =
     (if ap_pending a \<noteq> None then
        (if is_confirm_key k then map_prod Some id (confirm_terminate w now a)
         else if is_cancel_key k then (Some (cancel_terminate a), [])
         else (Some a, []))
      else if k = KeyChar 113 then (None, [])
      else if k = KeyDown \<or> k = KeyChar 106 then map_prod Some id (refresh w now (move_selection 1 a))
      else if k = KeyUp \<or> k = KeyChar 107 then map_prod Some id (refresh w now (move_selection (- 1) a))
      else if k = KeyChar 103 then map_prod Some id (refresh w now (a\<lparr>ap_selected := 0\<rparr>))
      else if k = KeyChar 71 then
        (if ap_summaries a = [] then (Some a, [])
         else map_prod Some id (refresh w now (a\<lparr>ap_selected := length (ap_summaries a) - 1\<rparr>)))
      else if k = KeyChar 120 then (Some (arm_terminate a), [])
      else if k = KeyChar 114 then map_prod Some id (refresh w now a)
      else (Some a, []))"

text \<open>One round of the loop: drawing changes nothing, a refresh comes when it is due.\<close>

record ui_round =
  ur_world :: ui_world
  ur_tick_world :: ui_world
  ur_now :: int
  ur_input :: ui_input

definition due_refresh :: "ui_round \<Rightarrow> ui_app \<Rightarrow> ui_app \<times> ui_request list" where
  "due_refresh r a =
     (if nat (ur_now r - ap_last_refresh a) \<ge> ap_refresh_ms a then refresh (ur_tick_world r) (ur_now r) a else (a, []))"

definition run_round :: "ui_round \<Rightarrow> ui_app \<Rightarrow> ui_app option \<times> ui_request list" where
  "run_round r a =
     (let (a1, requests) = due_refresh r a in
      case ur_input r of
        Pressed k \<Rightarrow>
          (case handle_key (ur_world r) (ur_now r) k a1 of (outcome, sent) \<Rightarrow> (outcome, requests @ sent))
      | _ \<Rightarrow> (Some a1, requests))"

text \<open>The rounds so far, newest first, with what each sent, and the state after them.\<close>

inductive ui_run :: "ui_app \<Rightarrow> (ui_round \<times> ui_app \<times> ui_request list) list \<Rightarrow> ui_app \<Rightarrow> bool" for start where
  ui_start: "ui_run start [] start"
| ui_round: "ui_run start rounds a \<Longrightarrow> run_round r a = (Some a', requests) \<Longrightarrow>
    ui_run start ((r, a, requests) # rounds) a'"

inductive_cases ui_runE: "ui_run start (e # rounds) a"

end
