(* ===== verification/Ui_App_Facts.thy ===== *)
theory Ui_App_Facts
  imports Ui_App
begin

text \<open>
  The loop of the terminal interface: what may send a terminate request, where the selection
  goes, and the detail it can show for the wrong session.
\<close>

fun is_post :: "ui_request \<Rightarrow> bool" where
  "is_post (Post p) = True"
| "is_post (Get p) = False"

definition posts :: "ui_request list \<Rightarrow> ui_request list" where
  "posts requests = filter is_post requests"

lemma posts_simps [simp]:
  "posts [] = []" "posts (Get p # requests) = posts requests" "posts (Post p # requests) = Post p # posts requests"
  "posts (xs @ ys) = posts xs @ posts ys"
  by (simp_all add: posts_def)

lemma Post_in_posts: "Post p \<in> set requests \<longleftrightarrow> Post p \<in> set (posts requests)"
  by (simp add: posts_def)

section \<open>Refreshing\<close>

lemma refresh_detail_facts [simp]:
  "ap_pending (fst (refresh_detail w k d a)) = ap_pending a"
  "ap_summaries (fst (refresh_detail w k d a)) = ap_summaries a"
  "ap_selected (fst (refresh_detail w k d a)) = ap_selected a"
  "posts (snd (refresh_detail w k d a)) = []"
  by (simp_all add: refresh_detail_def split: option.split sum.split)

lemma refresh_facts [simp]:
  "ap_pending (fst (refresh w now a)) = ap_pending a"
  "posts (snd (refresh w now a)) = []"
  by (simp_all add: refresh_def Let_def split_beta split: sum.split)

lemma due_refresh_facts [simp]:
  "ap_pending (fst (due_refresh r a)) = ap_pending a"
  "posts (snd (due_refresh r a)) = []"
  by (simp_all add: due_refresh_def)

section \<open>Rounds\<close>

definition armed_by :: "ui_round \<Rightarrow> ui_app \<Rightarrow> pending_terminate \<Rightarrow> bool" where
  "armed_by r a p \<longleftrightarrow>
     ap_pending a = None \<and> ur_input r = Pressed (KeyChar 120)
     \<and> (\<exists>s. selected_summary (fst (due_refresh r a)) = Some s
          \<and> pt_session_id p = ss_session_id s \<and> pt_pid p = ss_pid s)"

definition confirms :: "ui_round \<Rightarrow> bool" where
  "confirms r \<longleftrightarrow> (\<exists>k. ur_input r = Pressed k \<and> is_confirm_key k)"

definition cancels :: "ui_round \<Rightarrow> bool" where
  "cancels r \<longleftrightarrow> (\<exists>k. ur_input r = Pressed k \<and> is_cancel_key k)"

lemma confirm_terminate_pending:
  assumes "ap_pending a = Some p"
  shows "ap_pending (fst (confirm_terminate w now a)) = None"
    and "posts (snd (confirm_terminate w now a)) = [Post (terminate_path (pt_session_id p))]"
  using assms
  by (simp_all add: confirm_terminate_def Let_def split_beta split: sum.split)

lemma move_selection_pending [simp]: "ap_pending (move_selection delta a) = ap_pending a"
  by (simp add: move_selection_def)

lemma arm_terminate_pending:
  assumes "ap_pending a = None" "ap_pending (arm_terminate a) = Some p"
  shows "\<exists>s. selected_summary a = Some s \<and> pt_session_id p = ss_session_id s \<and> pt_pid p = ss_pid s"
  using assms by (auto simp: arm_terminate_def split: option.splits)

lemma handle_key_idle:
  assumes "ap_pending a = None" "handle_key w now k a = (outcome, requests)"
  shows "posts requests = []"
    and "outcome = Some a' \<Longrightarrow> ap_pending a' = Some p \<Longrightarrow> k = KeyChar 120 \<and> a' = arm_terminate a"
proof -
  have "posts requests = [] \<and> (\<forall>a'. outcome = Some a' \<longrightarrow> ap_pending a' = None \<or> k = KeyChar 120 \<and> a' = arm_terminate a)"
    using assms unfolding handle_key_def
    by (simp add: map_prod_def split_beta split: if_split_asm) auto
  then show "posts requests = []"
    and "outcome = Some a' \<Longrightarrow> ap_pending a' = Some p \<Longrightarrow> k = KeyChar 120 \<and> a' = arm_terminate a"
    by auto
qed

lemma handle_key_pending:
  assumes "ap_pending a = Some p"
  shows "handle_key w now k a =
    (if is_confirm_key k then map_prod Some id (confirm_terminate w now a)
     else if is_cancel_key k then (Some (cancel_terminate a), []) else (Some a, []))"
  using assms by (simp add: handle_key_def)

text \<open>A round without a prompt sends no terminate request and can at most open a prompt.\<close>

lemma run_round_idle:
  assumes "run_round r a = (outcome, requests)" "ap_pending a = None"
  shows "posts requests = []"
    and "outcome = Some a' \<Longrightarrow> ap_pending a' = Some p \<Longrightarrow> armed_by r a p"
proof -
  obtain a1 q1 where d: "due_refresh r a = (a1, q1)" by fastforce
  have a1: "ap_pending a1 = None" "posts q1 = []"
    using assms(2) due_refresh_facts [of r a] d by simp_all
  have "posts requests = [] \<and> (outcome = Some a' \<longrightarrow> ap_pending a' = Some p \<longrightarrow> armed_by r a p)"
  proof (cases "ur_input r")
    case (Pressed k)
    obtain out sent where h: "handle_key (ur_world r) (ur_now r) k a1 = (out, sent)" by fastforce
    have "outcome = out" "requests = q1 @ sent"
      using assms(1) d h Pressed by (simp_all add: run_round_def)
    moreover have "posts sent = []" by (rule handle_key_idle(1) [OF a1(1) h])
    moreover have "armed_by r a p" if "out = Some a'" "ap_pending a' = Some p"
    proof -
      have k: "k = KeyChar 120" and a': "a' = arm_terminate a1"
        using handle_key_idle(2) [OF a1(1) h that] by simp_all
      from arm_terminate_pending [OF a1(1)] a' that(2)
      show ?thesis using assms(2) Pressed k d by (simp add: armed_by_def)
    qed
    ultimately show ?thesis using a1(2) by simp
  qed (use assms(1) d a1 in \<open>auto simp: run_round_def\<close>)
  then show "posts requests = []"
    and "outcome = Some a' \<Longrightarrow> ap_pending a' = Some p \<Longrightarrow> armed_by r a p" by blast+
qed

text \<open>A round with a prompt keeps it, unless a key decides on it.\<close>

lemma run_round_pending:
  assumes "run_round r a = (outcome, requests)" "ap_pending a = Some p"
  shows "(\<exists>a'. outcome = Some a' \<and> ap_pending a' = (if confirms r \<or> cancels r then None else Some p))
    \<and> posts requests = (if confirms r then [Post (terminate_path (pt_session_id p))] else [])"
proof -
  obtain a1 q1 where d: "due_refresh r a = (a1, q1)" by fastforce
  have a1: "ap_pending a1 = Some p" "posts q1 = []"
    using assms(2) due_refresh_facts [of r a] d by simp_all
  show ?thesis
  proof (cases "ur_input r")
    case (Pressed k)
    have c: "confirms r \<longleftrightarrow> is_confirm_key k" "cancels r \<longleftrightarrow> is_cancel_key k"
      using Pressed by (simp_all add: confirms_def cancels_def)
    show ?thesis
      using assms(1) d Pressed a1 confirm_terminate_pending [OF a1(1)]
      unfolding c by (auto simp: run_round_def handle_key_pending split_beta cancel_terminate_def)
  qed (use assms(1) d a1 in \<open>auto simp: run_round_def confirms_def cancels_def\<close>)
qed

section \<open>Who may terminate a session\<close>

lemma pending_was_armed:
  assumes "ui_run start rounds a" "ap_pending start = None" "ap_pending a = Some p"
  shows "\<exists>later r b q earlier. rounds = later @ (r, b, q) # earlier \<and> armed_by r b p
    \<and> (\<forall>(r', b', q') \<in> set later. ap_pending b' = Some p \<and> \<not> confirms r' \<and> \<not> cancels r' \<and> posts q' = [])"
  using assms
proof (induction rule: ui_run.induct)
  case ui_start
  then show ?case by simp
next
  case (ui_round rounds a r a' requests)
  show ?case
  proof (cases "ap_pending a")
    case None
    then have "armed_by r a p" using run_round_idle(2) ui_round by blast
    then show ?thesis by (intro exI [of _ "[]"]) auto
  next
    case (Some p')
    from run_round_pending [OF ui_round.hyps(2) this] ui_round.prems(2)
    have keeps: "p' = p" "\<not> confirms r" "\<not> cancels r" "posts requests = []"
      by (auto split: if_splits)
    from ui_round.IH [OF ui_round.prems(1)] Some keeps(1)
    obtain later r1 b q earlier where
      "rounds = later @ (r1, b, q) # earlier" "armed_by r1 b p"
      "\<forall>(r', b', q') \<in> set later. ap_pending b' = Some p \<and> \<not> confirms r' \<and> \<not> cancels r' \<and> posts q' = []"
      by blast
    then show ?thesis using Some keeps by (intro exI [of _ "(r, a, requests) # later"]) auto
  qed
qed

text \<open>
  C12: A terminate request leaves the terminal interface only in a round whose screen showed the
  prompt and in which a confirming key was pressed; it is the only one of that round and names
  the session of the prompt.  The prompt was opened by pressing x in an earlier round, when that
  session was the selected one, and since then every round showed this prompt, no key confirmed
  or cancelled it and no terminate request was sent: a confirmation is never used twice.
\<close>
theorem terminate_needs_confirmation:
  assumes "ui_run start rounds a" "ap_pending start = None"
    and "run_round r a = (outcome, requests)" "Post path \<in> set requests"
  shows "\<exists>p later r' b q earlier. ap_pending a = Some p \<and> confirms r
    \<and> path = terminate_path (pt_session_id p) \<and> posts requests = [Post path]
    \<and> rounds = later @ (r', b, q) # earlier \<and> armed_by r' b p
    \<and> (\<forall>(r'', b'', q'') \<in> set later. ap_pending b'' = Some p \<and> \<not> confirms r'' \<and> \<not> cancels r'' \<and> posts q'' = [])"
proof (cases "ap_pending a")
  case None
  then show ?thesis using run_round_idle(1) [OF assms(3)] assms(4) by (simp add: Post_in_posts)
next
  case (Some p)
  have "confirms r" "posts requests = [Post (terminate_path (pt_session_id p))]"
    using run_round_pending [OF assms(3) Some] assms(4) by (auto simp: Post_in_posts split: if_splits)
  moreover from this have "path = terminate_path (pt_session_id p)"
    using assms(4) by (simp add: Post_in_posts)
  ultimately show ?thesis using pending_was_armed [OF assms(1,2) Some] Some by blast
qed

definition ui_example_summary :: "rstr \<Rightarrow> session_summary" where
  "ui_example_summary k =
     \<lparr>ss_session_id = k, ss_display_session_id = None, ss_pid = 7, ss_kind = Instrumented, ss_health = Ok,
      ss_started_at_unix_ms = 1000, ss_last_observed_unix_ms = 1000, ss_counter_reset_unix_ms = None,
      ss_bind_addr = None, ss_udp_port = None, ss_client_addr = None, ss_peer = default_peer,
      ss_cmdline = lit ''mosh-server'', ss_metrics = default_metrics\<rparr>"

definition ui_example_world :: ui_world where
  "ui_example_world = \<lparr>uw_sessions = Inl [], uw_config = Inl [], uw_current = (\<lambda>ss. None),
     uw_detail = (\<lambda>path. Inl []), uw_terminate = (\<lambda>path. Inl [])\<rparr>"

definition ui_example_app :: ui_app where
  "ui_example_app = (new_app 1000 1000)\<lparr>ap_summaries := [ui_example_summary (lit ''a''), ui_example_summary (lit ''b'')],
     ap_selected := 1, ap_initial_selection_resolved := True, ap_last_refresh := 1000\<rparr>"

definition press :: "ui_key \<Rightarrow> ui_round" where
  "press k = \<lparr>ur_world = ui_example_world, ur_tick_world = ui_example_world, ur_now = 1100, ur_input = Pressed k\<rparr>"

lemmas ui_example_defs = ui_example_app_def ui_example_summary_def ui_example_world_def press_def new_app_def

lemma press_x: "run_round (press (KeyChar 120)) ui_example_app = (Some (arm_terminate ui_example_app), [])"
  by (simp add: ui_example_defs run_round_def due_refresh_def handle_key_def)

lemma armed_example:
  "ap_pending (arm_terminate ui_example_app) = Some \<lparr>pt_session_id = lit ''b'', pt_pid = 7, pt_label = lit ''b''\<rparr>"
  by (simp add: ui_example_defs arm_terminate_def selected_summary_def display_session_label_def session_label_def)

lemma press_y:
  "\<exists>outcome. run_round (press KeyEnter) (arm_terminate ui_example_app) = (outcome, [Post (terminate_path (lit ''b''))])"
proof -
  have "\<not> 1000 \<le> nat (1100 - ap_last_refresh (arm_terminate ui_example_app))"
    "ap_refresh_ms (arm_terminate ui_example_app) = 1000"
    by (simp_all add: arm_terminate_def ui_example_defs selected_summary_def)
  then show ?thesis
    by (simp add: press_def run_round_def due_refresh_def handle_key_def armed_example is_confirm_key_def
        confirm_terminate_def Let_def ui_example_world_def)
qed

theorem terminate_needs_confirmation_witness:
  "\<exists>p. ap_pending (arm_terminate ui_example_app) = Some p \<and> terminate_path (lit ''b'') = terminate_path (pt_session_id p)
     \<and> armed_by (press (KeyChar 120)) ui_example_app p"
proof -
  obtain outcome where y: "run_round (press KeyEnter) (arm_terminate ui_example_app) = (outcome, [Post (terminate_path (lit ''b''))])"
    using press_y by blast
  have run: "ui_run ui_example_app [(press (KeyChar 120), ui_example_app, [])] (arm_terminate ui_example_app)"
    by (rule ui_round [OF ui_start press_x])
  have none: "ap_pending ui_example_app = None" by (simp add: ui_example_defs)
  from terminate_needs_confirmation [OF run none y, of "terminate_path (lit ''b'')"]
  show ?thesis by (auto simp: Cons_eq_append_conv)
qed

section \<open>The selection\<close>

definition selection_ok :: "ui_app \<Rightarrow> bool" where
  "selection_ok a \<longleftrightarrow> ap_selected a \<le> length (ap_summaries a) - 1"

lemma selected_id_None_iff: "selection_ok a \<Longrightarrow> selected_id a = None \<longleftrightarrow> ap_summaries a = []"
  by (cases "ap_summaries a") (auto simp: selection_ok_def selected_id_def selected_summary_def)

lemma session_position_Some:
  "session_position k ss = Some i \<Longrightarrow> i < length ss \<and> ss_session_id (ss ! i) = k"
  by (induction ss arbitrary: i) (auto split: if_splits)

lemma session_position_finds: "k \<in> ss_session_id ` set ss \<Longrightarrow> \<exists>i. session_position k ss = Some i"
  by (induction ss) auto

lemma next_selected_index_range:
  "fst (next_selected_index ss previous current i resolved) \<le> length ss - 1"
proof (cases "ss = []")
  case False
  have "session_position k ss = Some j \<Longrightarrow> j \<le> length ss - 1" for k j
    using session_position_Some [of k ss j] by linarith
  then show ?thesis using False
    by (auto simp: next_selected_index_def bind_eq_Some_conv split: option.splits if_splits)
qed (simp add: next_selected_index_def)

lemma next_selected_index_current:
  assumes "\<not> resolved" "current = Some k" "k \<in> ss_session_id ` set ss"
  shows "\<exists>i < length ss. next_selected_index ss previous current n resolved = (i, True) \<and> ss_session_id (ss ! i) = k"
proof -
  obtain i where "session_position k ss = Some i" using session_position_finds [OF assms(3)] by blast
  moreover have "ss \<noteq> []" using assms(3) by auto
  ultimately show ?thesis using assms session_position_Some [of k ss i] by (auto simp: next_selected_index_def)
qed

lemma next_selected_index_follows:
  assumes "resolved" "k \<in> ss_session_id ` set ss"
  shows "\<exists>i < length ss. next_selected_index ss (Some k) current n resolved = (i, True) \<and> ss_session_id (ss ! i) = k"
proof -
  obtain i where "session_position k ss = Some i" using session_position_finds [OF assms(2)] by blast
  moreover have "ss \<noteq> []" using assms(2) by auto
  ultimately show ?thesis using assms session_position_Some [of k ss i] by (auto simp: next_selected_index_def)
qed

lemma refresh_selection:
  assumes "uw_sessions w = Inr response"
  shows "ap_summaries (fst (refresh w now a)) = sr1_sessions response"
    and "ap_selected (fst (refresh w now a)) = fst (next_selected_index (sr1_sessions response) (selected_id a)
      (uw_current w (sr1_sessions response)) (ap_selected a) (ap_initial_selection_resolved a))"
  using assms by (simp_all add: refresh_def Let_def split_beta)

lemma refresh_failed:
  assumes "uw_sessions w = Inl e"
  shows "ap_summaries (fst (refresh w now a)) = ap_summaries a" "ap_selected (fst (refresh w now a)) = ap_selected a"
  using assms by (simp_all add: refresh_def)

lemma selection_ok_refresh: "selection_ok a \<Longrightarrow> selection_ok (fst (refresh w now a))"
  using next_selected_index_range
  by (cases "uw_sessions w") (simp_all add: selection_ok_def refresh_selection refresh_failed)

lemma selection_ok_move: "selection_ok (move_selection delta a)"
  by (cases "ap_summaries a") (auto simp: selection_ok_def move_selection_def)

lemma selection_ok_updates [simp]:
  "selection_ok (a\<lparr>ap_pending := p\<rparr>) = selection_ok a" "selection_ok (a\<lparr>ap_notice := n\<rparr>) = selection_ok a"
  "selection_ok (a\<lparr>ap_error := e\<rparr>) = selection_ok a"
  by (simp_all add: selection_ok_def)

lemma selection_ok_confirm: "selection_ok a \<Longrightarrow> selection_ok (fst (confirm_terminate w now a))"
  by (simp add: confirm_terminate_def Let_def split_beta selection_ok_refresh split: option.split sum.split)

lemma selection_ok_arm: "selection_ok a \<Longrightarrow> selection_ok (arm_terminate a)"
  by (simp add: arm_terminate_def split: option.split)

lemma selection_ok_handle_key:
  assumes "selection_ok a" "fst (handle_key w now k a) = Some a'"
  shows "selection_ok a'"
proof -
  have "selection_ok (a\<lparr>ap_selected := 0\<rparr>)" "selection_ok (a\<lparr>ap_selected := length (ap_summaries a) - 1\<rparr>)"
    by (simp_all add: selection_ok_def)
  then show ?thesis
    using assms selection_ok_arm [OF assms(1)] selection_ok_confirm [OF assms(1)] unfolding handle_key_def
    by (auto simp: map_prod_def split_beta selection_ok_refresh selection_ok_move cancel_terminate_def
        split: if_split_asm)
qed

lemma selection_ok_round:
  assumes "selection_ok a" "run_round r a = (Some a', requests)"
  shows "selection_ok a'"
proof -
  have "selection_ok (fst (due_refresh r a))" using assms(1) by (simp add: due_refresh_def selection_ok_refresh)
  then show ?thesis using assms(2) selection_ok_handle_key
    by (cases "ur_input r") (fastforce simp: run_round_def split_beta)+
qed

lemma selection_ok_run: "ui_run start rounds a \<Longrightarrow> selection_ok start \<Longrightarrow> selection_ok a"
  by (induction rule: ui_run.induct) (auto intro: selection_ok_round)

text \<open>
  C35: In every run of the terminal interface the selection stays inside the list.  After a
  refresh that got a list, a session is selected unless the list is empty; the first time, it is
  the session the interface itself runs in, when that one is listed; afterwards the selection
  follows the session that was selected wherever it moved to in the list, as long as it is listed.
\<close>
theorem selection_follows_session:
  assumes "ui_run start rounds a" "selection_ok start" "uw_sessions w = Inr response"
  shows "selection_ok a
    \<and> (let ids = ss_session_id ` set (sr1_sessions response); chosen = selected_id (fst (refresh w now a)) in
       (chosen = None \<longleftrightarrow> sr1_sessions response = [])
       \<and> (\<forall>k \<in> ids.
            (\<not> ap_initial_selection_resolved a \<and> uw_current w (sr1_sessions response) = Some k \<longrightarrow> chosen = Some k)
            \<and> (ap_initial_selection_resolved a \<and> selected_id a = Some k \<longrightarrow> chosen = Some k)))"
proof -
  have ok: "selection_ok a" by (rule selection_ok_run [OF assms(1,2)])
  note sel = refresh_selection [OF assms(3), of now a]
  have at: "selected_id (fst (refresh w now a)) = Some k"
    if "\<exists>i < length (sr1_sessions response). next_selected_index (sr1_sessions response) (selected_id a)
      (uw_current w (sr1_sessions response)) (ap_selected a) (ap_initial_selection_resolved a) = (i, True)
      \<and> ss_session_id (sr1_sessions response ! i) = k" for k
    using that sel by (auto simp: selected_id_def selected_summary_def)
  have "selected_id (fst (refresh w now a)) = None \<longleftrightarrow> sr1_sessions response = []"
    using selected_id_None_iff [OF selection_ok_refresh [OF ok]] sel(1) by simp
  moreover have "selected_id (fst (refresh w now a)) = Some k"
    if "k \<in> ss_session_id ` set (sr1_sessions response)" "\<not> ap_initial_selection_resolved a"
      "uw_current w (sr1_sessions response) = Some k" for k
    by (rule at) (rule next_selected_index_current [OF that(2,3,1)])
  moreover have "selected_id (fst (refresh w now a)) = Some k"
    if k: "k \<in> ss_session_id ` set (sr1_sessions response)" "ap_initial_selection_resolved a" "selected_id a = Some k" for k
    by (rule at, unfold k(3)) (rule next_selected_index_follows [OF k(2,1)])
  ultimately show ?thesis using ok unfolding Let_def by blast
qed

theorem selection_follows_session_witness:
  "selected_id (fst (refresh (ui_example_world\<lparr>uw_sessions :=
      Inr \<lparr>sr1_schema_version = 2, sr1_observer = \<lparr>node_name = lit ''n'', system_id = lit ''s''\<rparr>,
           sr1_generated_at_unix_ms = 5, sr1_total_sessions = 2, sr1_truncated_session_count = 0,
           sr1_dropped_sessions_total = 0,
           sr1_sessions = [ui_example_summary (lit ''b''), ui_example_summary (lit ''a'')]\<rparr>\<rparr>) 1100 ui_example_app))
    = Some (lit ''b'')"
proof -
  have ok: "selection_ok ui_example_app" by (simp add: ui_example_defs selection_ok_def)
  have now: "ap_initial_selection_resolved ui_example_app" "selected_id ui_example_app = Some (lit ''b'')"
    by (simp_all add: ui_example_defs selected_id_def selected_summary_def)
  let ?response = "\<lparr>sr1_schema_version = 2, sr1_observer = \<lparr>node_name = lit ''n'', system_id = lit ''s''\<rparr>,
           sr1_generated_at_unix_ms = 5, sr1_total_sessions = 2, sr1_truncated_session_count = 0,
           sr1_dropped_sessions_total = 0,
           sr1_sessions = [ui_example_summary (lit ''b''), ui_example_summary (lit ''a'')]\<rparr>"
  have "lit ''b'' \<in> ss_session_id ` set (sr1_sessions ?response)" by (simp add: ui_example_summary_def)
  then show ?thesis
    using selection_follows_session [OF ui_start ok, of "ui_example_world\<lparr>uw_sessions := Inr ?response\<rparr>" ?response 1100] now
    by (simp add: Let_def)
qed

section \<open>The detail of another session\<close>

text \<open>
  The detail is kept over a failed request when the session selected before the refresh is
  selected after it; but the keys that move the selection move it first.  So after such a key,
  and a failed request, the detail of the session left stays on the screen under the new one.
\<close>

lemma stale_detail_after_move:
  assumes "uw_sessions w = Inr response" "sr1_sessions response = ap_summaries a"
    and "ap_initial_selection_resolved a" "ap_pending a = None"
    and "length (ap_summaries a) = 2" "ap_selected a = 0" "distinct (map ss_session_id (ap_summaries a))"
    and "uw_detail w (detail_path (ss_session_id (ap_summaries a ! 1))) = Inl e"
  shows "\<exists>a'. fst (handle_key w now KeyDown a) = Some a' \<and> ap_selected a' = 1 \<and> ap_detail a' = ap_detail a"
proof -
  obtain s t where st: "ap_summaries a = [s, t]" "ss_session_id s \<noteq> ss_session_id t"
    using assms(5,7) by (auto simp: length_Suc_conv numeral_2_eq_2)
  show ?thesis using assms st
    by (simp add: handle_key_def map_prod_def split_beta move_selection_def refresh_def Let_def
        selected_id_def selected_summary_def next_selected_index_def refresh_detail_def)
qed

end
