(* ===== verification/Ui_Wire.thy ===== *)
theory Ui_Wire
  imports Ui_App Api_Facts Http_Facts Metrics_Text
begin

text \<open>
  The terminal interface and the API server across the socket between them: the request text
  through the server's head reader and router, the server's response through the client's
  bounded reader and head parser, whatever pieces either side's bytes arrive in.
\<close>

section \<open>Heads made of lines\<close>

definition head_bytes :: "bytes list \<Rightarrow> bytes" where
  "head_bytes ls = concat (map (\<lambda>l. l @ [13, 10]) ls)"

lemma head_end_position_skip:
  "13 \<notin> set l \<Longrightarrow> head_end_position (l @ s) = map_option ((+) (length l)) (head_end_position s)"
  by (cases "head_end_position s"; induction l) (simp_all add: head_end_def)

lemma head_end_position_line:
  assumes "c \<noteq> 13"
  shows "head_end_position (13 # 10 # c # s) = map_option ((+) 2) (head_end_position (c # s))"
  using assms by (simp add: head_end_def option.map_comp o_def)

lemma head_end_position_lines:
  assumes "ls \<noteq> []" "\<forall>l \<in> set ls. l \<noteq> [] \<and> 13 \<notin> set l"
  shows "head_end_position (head_bytes ls @ 13 # 10 # rest) = Some (length (head_bytes ls) - 2)"
  using assms
proof (induction ls)
  case (Cons l ls)
  have l: "l \<noteq> []" "13 \<notin> set l" using Cons.prems by simp_all
  show ?case
  proof (cases ls)
    case Nil
    then show ?thesis using l by (simp add: head_bytes_def head_end_position_skip head_end_def)
  next
    case (Cons l' ls')
    then have "head_end_position (head_bytes ls @ 13 # 10 # rest) = Some (length (head_bytes ls) - 2)"
      using Cons.IH Cons.prems by simp
    moreover obtain c s where c: "head_bytes ls @ 13 # 10 # rest = c # s" "c \<noteq> 13"
      using Cons Cons.prems by (cases l') (auto simp: head_bytes_def)
    moreover have "2 \<le> length (head_bytes ls)" using Cons by (simp add: head_bytes_def)
    moreover have "head_bytes (l # ls) @ 13 # 10 # rest = l @ 13 # 10 # c # s"
      using c(1) by (simp add: head_bytes_def)
    ultimately show ?thesis
      using l head_end_position_line [OF c(2), of s] by (simp add: head_end_position_skip head_bytes_def)
  qed
qed simp

lemma head_end_position_first:
  "take 4 (drop j bs) = head_end \<Longrightarrow> \<exists>i \<le> j. head_end_position bs = Some i"
proof (induction bs arbitrary: j)
  case (Cons b bs)
  show ?case
  proof (cases j)
    case (Suc j')
    then have "take 4 (drop j' bs) = head_end" using Cons.prems by simp
    from Cons.IH [OF this] Suc show ?thesis by fastforce
  qed (use Cons.prems in simp)
qed (simp add: head_end_def)

lemma head_complete_take_position:
  assumes "head_complete (take n bs)" "head_end_position bs = Some i"
  shows "i + 4 \<le> n"
proof -
  obtain j where "take 4 (drop j (take n bs)) = head_end"
    using assms(1) by (auto simp: head_complete_def list_ex_iff)
  moreover from this have "4 \<le> length (drop j (take n bs))"
    by (auto simp: head_end_def dest!: arg_cong [where f = length])
  ultimately have "take 4 (drop j bs) = head_end" "j + 4 \<le> n"
    by (simp_all add: drop_take min_def split: if_split_asm)
  with head_end_position_first [of j bs] assms(2) show ?thesis by auto
qed

lemma head_complete_ending:
  assumes "bs = a @ [13, 10, 13, 10]"
  shows "head_complete bs"
  unfolding head_complete_def list_ex_iff assms by (intro bexI [of _ "length a"]) (simp_all add: head_end_def)

section \<open>The request at the server\<close>

text \<open>Visible ASCII characters without the question mark.\<close>

definition plain_char :: "uchar \<Rightarrow> bool" where
  "plain_char c \<longleftrightarrow> 33 \<le> c \<and> c \<le> 126 \<and> c \<noteq> 63"

lemma plain_char_facts: "plain_char c \<Longrightarrow> is_scalar c \<and> c < 128 \<and> \<not> is_whitespace c \<and> c \<noteq> 13 \<and> c \<noteq> 10"
  by (auto simp: plain_char_def is_scalar_def is_whitespace_def)

lemma utf8_ascii: "\<forall>c \<in> set s. c < 128 \<Longrightarrow> utf8_encode s = map word_of_nat s"
  by (induction s) (simp_all add: utf8_encode_def utf8_encode_char_def)

lemma ascii_no_cr: "\<forall>c \<in> set s. c < 128 \<and> c \<noteq> 13 \<Longrightarrow> 13 \<notin> set (utf8_encode s)"
proof
  assume s: "\<forall>c \<in> set s. c < 128 \<and> c \<noteq> 13" and "13 \<in> set (utf8_encode s)"
  then obtain c where c: "c \<in> set s" "(13 :: u8) = word_of_nat c" by (auto simp: utf8_ascii)
  have "c < 256" "c \<noteq> 13" using s c(1) by fastforce+
  moreover have "unat (13 :: u8) = unat (word_of_nat c :: u8)" using c(2) by (rule arg_cong)
  ultimately show False by (simp only: unat_small_byte) simp
qed

lemma utf8_encode_append: "utf8_encode (a @ b) = utf8_encode a @ utf8_encode b"
  by (simp add: utf8_encode_def)

definition request_lines :: "rstr \<Rightarrow> rstr \<Rightarrow> rstr list" where
  "request_lines verb path = [verb @ lit '' '' @ path @ lit '' HTTP/1.1'', lit ''Host: localhost'', lit ''Connection: close'']"

lemma utf8_crlf [simp]: "utf8_encode crlf = [13, 10]"
  by code_simp

lemma request_text_lines:
  "utf8_encode (request_text verb path) = head_bytes (map utf8_encode (request_lines verb path)) @ [13, 10]"
  by (simp add: request_text_def request_lines_def head_bytes_def utf8_encode_append)

lemma request_lines_chars:
  assumes "verb = lit ''GET'' \<or> verb = lit ''POST''" "list_all plain_char path" "l \<in> set (request_lines verb path)"
  shows "l \<noteq> []" "\<forall>c \<in> set l. c < 128 \<and> c \<noteq> 13 \<and> c \<noteq> 10"
proof -
  have "list_all (\<lambda>c. c < 128 \<and> c \<noteq> 13 \<and> c \<noteq> 10) path"
    using assms(2) plain_char_facts by (auto simp: list_all_iff)
  then have "list_all (\<lambda>c. c < 128 \<and> c \<noteq> 13 \<and> c \<noteq> 10) l"
    using assms(1,3) by (auto simp: request_lines_def lit_def)
  then show "\<forall>c \<in> set l. c < 128 \<and> c \<noteq> 13 \<and> c \<noteq> 10" by (simp add: list_all_iff)
  show "l \<noteq> []" using assms(1,3) by (auto simp: request_lines_def lit_def)
qed

lemma request_text_chars:
  assumes "verb = lit ''GET'' \<or> verb = lit ''POST''" "list_all plain_char path"
  shows "\<forall>c \<in> set (request_text verb path). c < 128"
proof -
  have "list_all (\<lambda>c. c < 128) path" using assms(2) plain_char_facts by (auto simp: list_all_iff)
  then have "list_all (\<lambda>c. c < 128) (request_text verb path)"
    using assms(1) by (auto simp: request_text_def lit_def crlf_def)
  then show ?thesis by (simp add: list_all_iff)
qed

lemma server_reads_request:
  assumes verb: "verb = lit ''GET'' \<or> verb = lit ''POST''" and path: "list_all plain_char path" "length path \<le> 16000"
    and r: "clean_reader r" "content r = utf8_encode (request_text verb path)"
  shows "read_request_head r = Inr (request_text verb path)"
proof -
  let ?bs = "utf8_encode (request_text verb path)" and ?ls = "map utf8_encode (request_lines verb path)"
  note chars = request_lines_chars [OF verb path(1)]
  have ls: "?ls \<noteq> []" "\<forall>l \<in> set ?ls. l \<noteq> [] \<and> 13 \<notin> set l"
  proof -
    have "utf8_encode l \<noteq> [] \<and> 13 \<notin> set (utf8_encode l)" if "l \<in> set (request_lines verb path)" for l
      using chars [OF that] ascii_no_cr [of l] by (cases l) (auto simp: utf8_encode_Cons utf8_encode_char_not_Nil)
    then show "\<forall>l \<in> set ?ls. l \<noteq> [] \<and> 13 \<notin> set l" by simp
  qed (simp add: request_lines_def)
  have position: "head_end_position ?bs = Some (length (head_bytes ?ls) - 2)"
    using head_end_position_lines [OF ls, of "[]"] by (simp add: request_text_lines)
  have len: "length (head_bytes ?ls) = length ?bs - 2" "4 \<le> length ?bs"
    by (simp_all add: request_text_lines head_bytes_def request_lines_def)
  have whole: "take n ?bs = ?bs" if "head_complete (take n ?bs)" for n
    using head_complete_take_position [OF that position] len by simp
  have ascii: "\<forall>c \<in> set (request_text verb path). c < 128" by (rule request_text_chars [OF verb path(1)])
  then have bytes: "?bs = map word_of_nat (request_text verb path)" by (rule utf8_ascii)
  have "?bs = (utf8_encode (verb @ lit '' '' @ path @ lit '' HTTP/1.1'' @ crlf @ lit ''Host: localhost'' @ crlf @ lit ''Connection: close''))
      @ [13, 10, 13, 10]"
    by (simp add: request_text_def utf8_encode_append)
  then have "head_complete ?bs" by (rule head_complete_ending)
  moreover have "length ?bs \<le> MAX_REQUEST_HEAD_BYTES"
    using verb path(2) unfolding bytes by (auto simp: MAX_REQUEST_HEAD_BYTES_def request_text_def crlf_def lit_def)
  moreover have "head_read_ok [] ?bs (read_request_head r)"
    unfolding read_request_head_def r(2) [symmetric]
    by (rule read_head_loop_ok [OF r(1)]) (simp add: MAX_REQUEST_HEAD_BYTES_def)
  ultimately have "\<exists>s. read_request_head r = Inr s \<and> s = from_utf8_lossy ?bs"
    using whole len(2) head_complete_append
    by (auto simp: head_read_ok_def split: sum.splits head_error.splits)
  moreover have "list_all is_scalar (request_text verb path)"
    using ascii by (auto simp: list_all_iff is_scalar_def)
  ultimately show ?thesis by (simp add: from_utf8_lossy_encode)
qed

lemma split_on_not_Nil: "split_on c s \<noteq> []"
  by (induction s) (auto split: list.split)

lemma text_lines_first:
  "10 \<notin> set l \<Longrightarrow> \<exists>ls. text_lines (l @ 13 # 10 # rest) = l # ls"
  using split_on_line [of "l @ [13]" rest] split_on_not_Nil [of 10 rest]
  by (cases "split_on 10 rest") (auto simp: text_lines_def Let_def strip_cr_def)

lemma split_whitespace_word:
  assumes "w \<noteq> []" "\<forall>c \<in> set w. \<not> is_whitespace c"
  shows "split_whitespace (w @ 32 # s) = w # split_whitespace s"
proof -
  have "takeWhile (\<lambda>c. \<not> is_whitespace c) (w' @ 32 # s) = w'" "dropWhile (\<lambda>c. \<not> is_whitespace c) (w' @ 32 # s) = 32 # s"
    if "\<forall>c \<in> set w'. \<not> is_whitespace c" for w' using that by (induction w') auto
  then show ?thesis using assms by (cases w) (simp_all add: split_whitespace_code(2))
qed

lemma request_parts:
  assumes "verb = lit ''GET'' \<or> verb = lit ''POST''" "list_all plain_char path" "path \<noteq> []"
  shows "request_line_parts (request_text verb path) = (verb, path)"
    and "trim (request_text verb path) \<noteq> []" and "split_target path = (path, None)"
proof -
  have words: "list_all plain_char verb" "verb \<noteq> []" using assms(1) by (auto simp: lit_def plain_char_def)
  have words_ok: "\<forall>c \<in> set verb. \<not> is_whitespace c" "\<forall>c \<in> set path. \<not> is_whitespace c"
    using words(1) assms(2) plain_char_facts by (simp_all add: list_all_iff)
  have "10 \<notin> set (verb @ lit '' '' @ path @ lit '' HTTP/1.1'')"
    using request_lines_chars(2) [OF assms(1,2), of "verb @ lit '' '' @ path @ lit '' HTTP/1.1''"]
    by (auto simp: request_lines_def)
  from text_lines_first [OF this, of "lit ''Host: localhost'' @ crlf @ lit ''Connection: close'' @ crlf @ crlf"]
  obtain ls where "text_lines ((verb @ lit '' '' @ path @ lit '' HTTP/1.1'') @ 13 # 10 # lit ''Host: localhost'' @ crlf @ lit ''Connection: close'' @ crlf @ crlf)
      = (verb @ lit '' '' @ path @ lit '' HTTP/1.1'') # ls"
    by blast
  moreover have "(verb @ lit '' '' @ path @ lit '' HTTP/1.1'') @ 13 # 10 # lit ''Host: localhost'' @ crlf @ lit ''Connection: close'' @ crlf @ crlf
      = request_text verb path"
    by (simp only: request_text_def crlf_def append_assoc append.simps)
  ultimately have "text_lines (request_text verb path) = (verb @ lit '' '' @ path @ lit '' HTTP/1.1'') # ls"
    by (simp only:)
  moreover have "split_whitespace (verb @ lit '' '' @ path @ lit '' HTTP/1.1'') = [verb, path, lit ''HTTP/1.1'']"
  proof -
    have "split_whitespace (verb @ 32 # path @ 32 # lit ''HTTP/1.1'') = verb # path # split_whitespace (lit ''HTTP/1.1'')"
      by (simp only: split_whitespace_word [OF words(2) words_ok(1)] split_whitespace_word [OF assms(3) words_ok(2)])
    moreover have "split_whitespace (lit ''HTTP/1.1'') = [lit ''HTTP/1.1'']"
      by (simp add: lit_def split_whitespace_code is_whitespace_def)
    moreover have "lit '' '' = [32]" "lit '' HTTP/1.1'' = 32 # lit ''HTTP/1.1''" by (simp_all add: lit_def)
    ultimately show ?thesis by (simp only: append.simps)
  qed
  ultimately show "request_line_parts (request_text verb path) = (verb, path)"
    by (simp add: request_line_parts_def)
  show "split_target path = (path, None)"
    using assms(2) split_once_None_iff [of path 63] by (auto simp: split_target_def list_all_iff plain_char_def)
  obtain c s where "request_text verb path = c # s" "\<not> is_whitespace c"
    using words plain_char_facts by (cases verb) (auto simp: request_text_def)
  then show "trim (request_text verb path) \<noteq> []"
    by (auto simp: trim_def trim_start_def trim_end_def)
qed

section \<open>The response at the client\<close>

lemma read_bounded_loop_content:
  assumes "clean_reader r" "length response \<le> MAX_HTTP_RESPONSE_BYTES"
  shows "read_bounded_loop response r =
    (if length response + length (content r) > MAX_HTTP_RESPONSE_BYTES then Inl ResponseTooLarge
     else Inr (response @ content r))"
  using assms
proof (induction "length (content r)" arbitrary: response r rule: less_induct)
  case less
  show ?case
  proof (cases r)
    case Nil
    then show ?thesis using less.prems by (subst read_bounded_loop.simps) simp
  next
    case (Cons x r')
    then obtain b bs where x: "x = Chunk (b # bs)"
      using less.prems(1) by (auto simp: clean_reader_def neq_Nil_conv)
    let ?a = "take 8192 (b # bs)" and ?r = "consume 8192 r"
    have split: "content r = ?a @ content ?r" unfolding Cons x by (rule content_consume) simp
    then have size: "length (content r) = length ?a + length (content ?r)" by simp
    have shorter: "length (content ?r) < length (content r)" unfolding size by simp
    have step: "read_bounded_loop response r =
        (if length (response @ ?a) > MAX_HTTP_RESPONSE_BYTES then Inl ResponseTooLarge
         else read_bounded_loop (response @ ?a) ?r)"
      unfolding Cons x by (subst read_bounded_loop.simps) (simp add: Let_def)
    show ?thesis
    proof (cases "length (response @ ?a) > MAX_HTTP_RESPONSE_BYTES")
      case True
      then show ?thesis unfolding step size by simp
    next
      case False
      then have "read_bounded_loop (response @ ?a) ?r =
          (if length (response @ ?a) + length (content ?r) > MAX_HTTP_RESPONSE_BYTES then Inl ResponseTooLarge
           else Inr ((response @ ?a) @ content ?r))"
        using less.prems(1) shorter by (intro less.hyps) (simp_all add: clean_consume)
      with False show ?thesis unfolding step split by simp
    qed
  qed
qed

lemma read_bounded_response_content:
  "clean_reader r \<Longrightarrow> read_bounded_response r =
    (if length (content r) > MAX_HTTP_RESPONSE_BYTES then Inl ResponseTooLarge else Inr (content r))"
  using read_bounded_loop_content [of r "[]"] by (simp add: read_bounded_response_def MAX_HTTP_RESPONSE_BYTES_def)

definition api_statuses :: "nat set" where
  "api_statuses = {200, 400, 404, 405, 406, 408, 409, 500, 501, 503}"

definition header_ok :: "rstr \<Rightarrow> bool" where
  "header_ok s \<longleftrightarrow> (\<forall>c \<in> set s. c < 128 \<and> c \<noteq> 13 \<and> c \<noteq> 10)"

lemma header_ok_simps [simp]:
  "header_ok []" "header_ok (a @ b) \<longleftrightarrow> header_ok a \<and> header_ok b"
  "header_ok (c # s) \<longleftrightarrow> c < 128 \<and> c \<noteq> 13 \<and> c \<noteq> 10 \<and> header_ok s"
  by (auto simp: header_ok_def)

lemma header_ok_show_nat [simp]: "header_ok (show_nat n)"
  using show_nat_digits [of _ n] by (fastforce simp: header_ok_def is_digit_def)

lemma header_ok_status [simp]: "header_ok (status_text status)"
  by (simp add: status_text_def lit_def)

definition status_line_of :: "nat \<Rightarrow> rstr" where
  "status_line_of status = lit ''HTTP/1.1 '' @ show_nat status @ lit '' '' @ status_text status"

definition response_lines :: "nat \<Rightarrow> rstr \<Rightarrow> nat \<Rightarrow> rstr list" where
  "response_lines status content_type n =
     [lit ''Content-Type: '' @ content_type, lit ''Connection: close'', lit ''Cache-Control: no-store'',
      lit ''Content-Length: '' @ show_nat n]"

lemma write_response_lines:
  "write_response status body ct =
     head_bytes (map utf8_encode (status_line_of status # response_lines status ct (length body))) @ 13 # 10 # body"
  by (simp add: write_response_def response_head_def response_lines_def status_line_of_def head_bytes_def utf8_encode_append)

lemma header_ok_encoded: "header_ok l \<Longrightarrow> l \<noteq> [] \<Longrightarrow> utf8_encode l \<noteq> [] \<and> 13 \<notin> set (utf8_encode l)"
  using ascii_no_cr [of l] by (cases l) (auto simp: header_ok_def utf8_encode_Cons utf8_encode_char_not_Nil)

lemma show_nat_statuses:
  "show_nat 200 = [50, 48, 48]"
  "show_nat 400 = [52, 48, 48]"
  "show_nat 404 = [52, 48, 52]"
  "show_nat 405 = [52, 48, 53]"
  "show_nat 406 = [52, 48, 54]"
  "show_nat 408 = [52, 48, 56]"
  "show_nat 409 = [52, 48, 57]"
  "show_nat 500 = [53, 48, 48]"
  "show_nat 501 = [53, 48, 49]"
  "show_nat 503 = [53, 48, 51]"
  by code_simp+

lemma status_line_prefix:
  "status \<in> api_statuses \<Longrightarrow>
     starts_with (status_line_of status @ rest) (lit ''HTTP/1.1 200'') \<longleftrightarrow> status = 200"
  "status \<in> api_statuses \<Longrightarrow> \<not> starts_with (status_line_of status @ rest) (lit ''HTTP/1.0 200'')"
  by (auto simp: api_statuses_def status_line_of_def starts_with_def lit_def show_nat_statuses)

lemma client_splits_response:
  assumes "status \<in> api_statuses" "header_ok ct"
  shows "split_response (write_response status body ct) =
    (if status = 200 then Inr body else Inl (RequestFailed (status_line_of status)))"
proof -
  let ?n = "length body"
  let ?ls = "map utf8_encode (status_line_of status # response_lines status ct ?n)"
  define tail where "tail = lit ''Content-Type: '' @ ct @ crlf @ lit ''Connection: close'' @ crlf
      @ lit ''Cache-Control: no-store'' @ crlf @ lit ''Content-Length: '' @ show_nat ?n"
  define hdr where "hdr = status_line_of status @ 13 # 10 # tail"
  have line: "header_ok (status_line_of status)" "status_line_of status \<noteq> []"
    by (simp_all add: status_line_of_def lit_def)
  have "\<forall>l \<in> set (status_line_of status # response_lines status ct ?n). header_ok l \<and> l \<noteq> []"
    using line assms(2) by (simp add: response_lines_def lit_def)
  then have ls: "?ls \<noteq> []" "\<forall>l \<in> set ?ls. l \<noteq> [] \<and> 13 \<notin> set l"
    using header_ok_encoded by auto
  have bytes: "head_bytes ?ls = utf8_encode hdr @ [13, 10]"
    by (simp add: hdr_def tail_def head_bytes_def response_lines_def utf8_encode_append crlf_def)
      (simp add: utf8_encode_Cons utf8_encode_append utf8_encode_char_def utf8_encode_def)
  have position: "head_end_position (write_response status body ct) = Some (length (utf8_encode hdr))"
    using head_end_position_lines [OF ls, of body] unfolding write_response_lines bytes by simp
  have whole: "write_response status body ct = utf8_encode hdr @ [13, 10, 13, 10] @ body"
    unfolding write_response_lines bytes by simp
  have "list_all is_scalar hdr"
    using line(1) assms(2) header_ok_show_nat [of ?n]
    by (auto simp: hdr_def tail_def header_ok_def list_all_iff is_scalar_def lit_def crlf_def)
  then have header: "from_utf8_lossy (take (length (utf8_encode hdr)) (write_response status body ct)) = hdr"
    by (simp add: whole from_utf8_lossy_encode)
  have "10 \<notin> set (status_line_of status)" using line(1) by (auto simp: header_ok_def)
  from text_lines_first [OF this, of tail] obtain more_lines where
    "text_lines hdr = status_line_of status # more_lines" by (auto simp: hdr_def)
  moreover have "drop (length (utf8_encode hdr) + 4) (write_response status body ct) = body"
    by (simp add: whole)
  moreover have "starts_with hdr (lit ''HTTP/1.1 200'') \<longleftrightarrow> status = 200" "\<not> starts_with hdr (lit ''HTTP/1.0 200'')"
    unfolding hdr_def by (rule status_line_prefix [OF assms(1)])+
  ultimately show ?thesis unfolding split_response_def position option.case Let_def header by auto
qed

section \<open>Request and answer\<close>

text \<open>Every response of the API has a known status and a content type that is a plain header value.\<close>

definition response_ok :: "response \<Rightarrow> bool" where
  "response_ok r \<longleftrightarrow> (case r of (status, body, ct) \<Rightarrow> status \<in> api_statuses \<and> header_ok ct)"

definition outcome_ok :: "response attempt \<Rightarrow> bool" where
  "outcome_ok a \<longleftrightarrow> (\<forall>r. a = Value r \<longrightarrow> response_ok r)"

lemma outcome_ok_simps [simp]:
  "outcome_ok Failure" "outcome_ok Panic" "outcome_ok (Value r) \<longleftrightarrow> response_ok r"
  by (simp_all add: outcome_ok_def)

lemma header_ok_json [simp]: "header_ok json_type"
  by (simp add: json_type_def lit_def)

lemma outcome_ok_json [simp]: "outcome_ok (json_response env payload)"
  by (cases "ae_encode env payload")
    (simp_all add: json_response_def response_ok_def api_statuses_def)

lemma response_ok_errors [simp]:
  "response_ok (error_response status m) \<longleftrightarrow> status \<in> api_statuses" "response_ok session_not_found" "response_ok (bad_request t)"
  by (simp_all add: response_ok_def error_response_def session_not_found_def bad_request_def api_statuses_def)

lemma api_statuses_simps [simp]:
  "200 \<in> api_statuses" "404 \<in> api_statuses" "405 \<in> api_statuses" "406 \<in> api_statuses" "408 \<in> api_statuses"
  "409 \<in> api_statuses" "500 \<in> api_statuses" "501 \<in> api_statuses" "503 \<in> api_statuses"
  by (simp_all add: api_statuses_def)

lemma header_ok_metrics [simp]: "header_ok (metrics_content_type f)"
  by (cases f) (simp_all add: metrics_content_type_def lit_def)

lemma outcome_ok_terminate: "outcome_ok (fst (terminate_session env cx k now))"
  by (simp add: terminate_session_def split: option.split attempt.split kill_outcome.split)

lemma outcome_ok_routes [simp]:
  "outcome_ok (sessions_response env cx now)" "outcome_ok (coherence_sessions_response env cx now)"
  "outcome_ok (capabilities_response env cx now)" "outcome_ok (coherence_session_response env cx k now)"
  "outcome_ok (coherence_export_response env cx k now)" "outcome_ok (config_response env cx now)"
  "outcome_ok (session_response env cx k now)"
  by (simp_all add: sessions_response_def coherence_sessions_response_def capabilities_response_def Let_def
      coherence_session_response_def coherence_export_response_def config_response_def session_response_def
      split: option.split)

lemma outcome_ok_metrics [simp]: "outcome_ok (metrics_response cx f now)"
  by (simp add: metrics_response_def Let_def split: option.split) (simp add: response_ok_def)

lemma outcome_ok_history [simp]: "outcome_ok (history_response env cx k query now)"
  by (simp add: history_response_def Let_def split: option.split sum.split)

lemma outcome_ok_build_response: "outcome_ok (fst (build_response env cx now verb path query f))"
  by (simp add: build_response_def Let_def outcome_ok_terminate)

text \<open>
  A connection of the client that the server accepts: \<open>arrive\<close> and \<open>return\<close> cut what one side
  wrote into the pieces the other side reads; a connection that is closed without an answer ends
  the response at once.
\<close>

definition api_exchange ::
    "(bytes \<Rightarrow> unit reader) \<Rightarrow> (bytes \<Rightarrow> unit reader) \<Rightarrow> 'e api_environment \<Rightarrow> app_context \<Rightarrow> nat \<Rightarrow> i64
     \<Rightarrow> bytes \<Rightarrow> client_error + unit reader" where
  "api_exchange arrive return env cx busy now sent =
     (case fst (accept_api env cx busy now (Some (read_request_head (arrive sent)))) of
        Responded out \<Rightarrow> Inr (return out)
      | EventStream out \<Rightarrow> Inr (return out)
      | _ \<Rightarrow> Inr [])"

definition cuts :: "(bytes \<Rightarrow> unit reader) \<Rightarrow> bool" where
  "cuts f \<longleftrightarrow> (\<forall>bs. clean_reader (f bs) \<and> content (f bs) = bs)"

text \<open>What the client makes of an outcome of the router.\<close>

definition read_by_client :: "(bytes \<Rightarrow> 'a option) \<Rightarrow> response \<Rightarrow> client_error + 'a" where
  "read_by_client decode r =
     (case r of (status, body, content_type) \<Rightarrow>
        if MAX_HTTP_RESPONSE_BYTES < length (write_response status body content_type) then Inl ResponseTooLarge
        else if status \<noteq> 200 then Inl (RequestFailed (status_line_of status))
        else (case decode body of None \<Rightarrow> Inl UndecodableBody | Some v \<Rightarrow> Inr v))"

definition client_view :: "(bytes \<Rightarrow> 'a option) \<Rightarrow> response attempt \<Rightarrow> client_error + 'a" where
  "client_view decode outcome =
     (case outcome of
        Value r \<Rightarrow> read_by_client decode r
      | Failure \<Rightarrow> read_by_client decode (error_response 500 ''internal server error'')
      | Panic \<Rightarrow> Inl MalformedResponse)"

lemma client_reads_response:
  assumes "cuts return" "exchange (utf8_encode (request_text verb path)) = Inr (return (write_response status body ct))"
    and "response_ok (status, body, ct)"
  shows "request_json_with_method exchange decode verb path = read_by_client decode (status, body, ct)"
  using assms
  by (simp add: request_json_with_method_def read_by_client_def cuts_def read_bounded_response_content
      response_ok_def client_splits_response)

lemma accept_plain_request:
  assumes "verb = lit ''GET'' \<or> verb = lit ''POST''" "list_all plain_char path" "path \<noteq> []" "length path \<le> 16000"
    and "path \<noteq> lit ''/v1/events/stream''" "busy < API_CONNECTION_SLOTS" "cuts arrive"
  shows "accept_api env cx busy now (Some (read_request_head (arrive (utf8_encode (request_text verb path))))) =
    (case build_response env cx now verb path None (requested_metrics_format (request_text verb path)) of
       (outcome, signalled) \<Rightarrow>
         ((case outcome of Value r \<Rightarrow> respond r
           | Failure \<Rightarrow> respond (error_response 500 ''internal server error'') | Panic \<Rightarrow> Crashed), signalled))"
proof -
  have "read_request_head (arrive (utf8_encode (request_text verb path))) = Inr (request_text verb path)"
    using assms(7) by (intro server_reads_request [OF assms(1,2,4)]) (simp_all add: cuts_def)
  then show ?thesis
    using assms(1,5,6) request_parts [OF assms(1,2,3)]
    by (simp only: accept_api_def handle_connection_def option.case sum.case Let_def prod.case if_False not_le [symmetric]) auto
qed

lemma request_answered:
  assumes "verb = lit ''GET'' \<or> verb = lit ''POST''" "list_all plain_char path" "path \<noteq> []" "length path \<le> 16000"
    and "path \<noteq> lit ''/v1/events/stream''" "busy < API_CONNECTION_SLOTS" "cuts arrive" "cuts return"
  defines "f \<equiv> requested_metrics_format (request_text verb path)"
  shows "request_json_with_method (api_exchange arrive return env cx busy now) decode verb path
        = client_view decode (fst (build_response env cx now verb path None f))
      \<and> snd (accept_api env cx busy now (Some (read_request_head (arrive (utf8_encode (request_text verb path))))))
        = snd (build_response env cx now verb path None f)"
proof -
  obtain outcome signalled where route: "build_response env cx now verb path None f = (outcome, signalled)"
    by fastforce
  note accept = accept_plain_request [OF assms(1-7), of env cx now, folded f_def, unfolded route prod.case]
  have ok: "outcome_ok outcome"
    using outcome_ok_build_response [of env cx now verb path None f] route by simp
  have "request_json_with_method (api_exchange arrive return env cx busy now) decode verb path = client_view decode outcome"
  proof (cases outcome)
    case (Value r)
    obtain status body ct where r: "r = (status, body, ct)" by (cases r)
    have "api_exchange arrive return env cx busy now (utf8_encode (request_text verb path)) = Inr (return (write_response status body ct))"
      unfolding api_exchange_def accept Value r by (simp add: respond_def)
    from client_reads_response [where exchange = "api_exchange arrive return env cx busy now", OF assms(8) this]
    show ?thesis using ok Value r by (simp add: client_view_def)
  next
    case Failure
    let ?body = "json_error ''internal server error''"
    have "api_exchange arrive return env cx busy now (utf8_encode (request_text verb path)) = Inr (return (write_response 500 ?body json_type))"
      unfolding api_exchange_def accept Failure by (simp add: respond_def error_response_def)
    from client_reads_response [where exchange = "api_exchange arrive return env cx busy now", OF assms(8) this]
    show ?thesis by (simp add: client_view_def Failure error_response_def response_ok_def)
  next
    case Panic
    have "api_exchange arrive return env cx busy now (utf8_encode (request_text verb path)) = Inr []"
      unfolding api_exchange_def accept Panic by simp
    then show ?thesis
      using Panic by (simp add: request_json_with_method_def read_bounded_response_content split_response_def client_view_def)
  qed
  moreover have "snd (accept_api env cx busy now (Some (read_request_head (arrive (utf8_encode (request_text verb path))))))
      = signalled" unfolding accept by simp
  ultimately show ?thesis using route by simp
qed

text \<open>
  C14: A request of the terminal interface and its answer fit together over any splitting of the
  bytes on the socket: what the interface gets for a \<open>GET\<close> or \<open>POST\<close> of a plain path is exactly
  what the daemon's router computes for this verb and path without a query, with the signals
  the router sends: the decoded body when the status is 200, the status line of any other
  status (500 for an internal failure), and an error when the whole response exceeds 4 MiB.
\<close>
theorem client_and_server_agree:
  assumes "verb = lit ''GET'' \<or> verb = lit ''POST''" "list_all plain_char path" "path \<noteq> []" "length path \<le> 16000"
    and "path \<noteq> lit ''/v1/events/stream''" "busy < API_CONNECTION_SLOTS" "cuts arrive" "cuts return"
  shows "\<exists>f. request_json_with_method (api_exchange arrive return env cx busy now) decode verb path
        = client_view decode (fst (build_response env cx now verb path None f))
      \<and> snd (accept_api env cx busy now (Some (read_request_head (arrive (utf8_encode (request_text verb path))))))
        = snd (build_response env cx now verb path None f)"
  using request_answered [OF assms] by blast

definition in_one_piece :: "bytes \<Rightarrow> unit reader" where
  "in_one_piece bs = (if bs = [] then [] else [Chunk bs])"

lemma cuts_in_one_piece: "cuts in_one_piece"
  by (simp add: cuts_def in_one_piece_def)

theorem client_and_server_agree_witness:
  "\<forall>(env :: unit api_environment) cx now decode.
     request_json_with_method (api_exchange in_one_piece in_one_piece env cx 0 now) decode (lit ''GET'') (lit ''/v1/config'')
       = client_view decode (config_response env cx now)"
proof (intro allI)
  fix env :: "unit api_environment" and cx now and decode :: "bytes \<Rightarrow> 'b option"
  have "list_all plain_char (lit ''/v1/config'')" "lit ''/v1/config'' \<noteq> []" "length (lit ''/v1/config'') \<le> 16000"
    "lit ''/v1/config'' \<noteq> lit ''/v1/events/stream''"
    by (simp_all add: lit_def plain_char_def)
  from client_and_server_agree [of "lit ''GET''", OF _ this, of 0 in_one_piece in_one_piece env cx now decode]
  obtain f where "request_json_with_method (api_exchange in_one_piece in_one_piece env cx 0 now) decode (lit ''GET'') (lit ''/v1/config'')
      = client_view decode (fst (build_response env cx now (lit ''GET'') (lit ''/v1/config'') None f))"
    by (auto simp: API_CONNECTION_SLOTS_def cuts_in_one_piece)
  moreover have "build_response env cx now (lit ''GET'') (lit ''/v1/config'') None f = (config_response env cx now, [])"
    by (simp add: build_response_def lit_def starts_with_def)
  ultimately show "request_json_with_method (api_exchange in_one_piece in_one_piece env cx 0 now) decode (lit ''GET'') (lit ''/v1/config'')
       = client_view decode (config_response env cx now)" by simp
qed

section \<open>Terminating a session from the interface\<close>

text \<open>Ids that survive the way through the path.\<close>

definition plain_id :: "rstr \<Rightarrow> bool" where
  "plain_id k \<longleftrightarrow> k \<noteq> [] \<and> hd k \<noteq> 47 \<and> is_digit (last k) \<and> list_all plain_char k"

lemma plain_show_int: "list_all plain_char (show_int i)" "is_digit (last (show_int i))"
proof -
  show "list_all plain_char (show_int i)"
    using show_int_chars [of _ i] by (fastforce simp: list_all_iff plain_char_def is_digit_def)
  have "is_digit (last (show_nat n))" for n using show_nat_digits [of "last (show_nat n)" n] by simp
  then show "is_digit (last (show_int i))" by (simp add: show_int_def)
qed

lemma plain_id_instrumented: "plain_id (instrumented_session_id pid started)"
  and plain_id_legacy: "plain_id (legacy_session_id pid started)"
  using plain_show_int [of started] plain_show_int [of pid]
  by (simp_all add: plain_id_def instrumented_session_id_def legacy_session_id_def lit_def plain_char_def)

lemma trim_prefixes_once:
  assumes "p \<noteq> []" "\<not> starts_with s p"
  shows "trim_prefixes p (p @ s) = s"
proof -
  have "trim_prefixes p s = s" using assms(2) by (subst trim_prefixes.simps) simp
  then show ?thesis using assms(1) by (subst trim_prefixes.simps) (simp add: starts_with_def)
qed

lemma starts_with_other: "s \<noteq> [] \<Longrightarrow> p \<noteq> [] \<Longrightarrow> hd s \<noteq> hd p \<Longrightarrow> \<not> starts_with s p"
  by (cases s; cases p) (auto simp: starts_with_def)

lemma route_of_terminate:
  assumes "plain_id k"
  shows "build_response env cx now (lit ''POST'') (terminate_path k) None f = terminate_session env cx k now"
proof -
  have k: "k \<noteq> []" "hd k \<noteq> 47" "is_digit (last k)" using assms by (simp_all add: plain_id_def)
  have "\<not> starts_with (k @ lit ''/terminate'') (lit ''/v1/sessions/'')"
    using k by (intro starts_with_other) (simp_all add: lit_def)
  from trim_prefixes_once [OF _ this]
  have prefix: "trim_prefixes (lit ''/v1/sessions/'') (terminate_path k) = k @ lit ''/terminate''"
    by (simp add: terminate_path_def lit_def)
  have "\<not> starts_with (rev k) (rev (lit ''/terminate''))"
    using k by (intro starts_with_other) (auto simp: lit_def hd_rev is_digit_def)
  from trim_prefixes_once [OF _ this]
  have suffix: "trim_suffixes (lit ''/terminate'') (k @ lit ''/terminate'') = k"
    by (simp add: trim_suffixes_def lit_def)
  have "trim_end_char 47 k = k"
    using k dropWhile_hd_id [of "rev k" "\<lambda>x. x = 47"] by (auto simp: trim_end_char_def hd_rev is_digit_def)
  moreover have "starts_with (terminate_path k) (lit ''/v1/sessions/'')" "ends_with (terminate_path k) (lit ''/terminate'')"
    by (simp_all add: starts_with_def ends_with_def terminate_path_def)
  moreover have "lit ''POST'' \<noteq> lit ''GET''" by (simp add: lit_def)
  ultimately show ?thesis by (simp add: build_response_def Let_def prefix suffix)
qed

lemma daemon_plain_id:
  assumes "daemon_reachable c st" "(k, r) \<in> set (st_sessions st)"
  shows "plain_id k"
proof -
  have "identity_ok k r" using daemon_invariant [OF assms(1)] assms(2) by (auto simp: entries_ok_def)
  then show ?thesis by (auto simp: identity_ok_def Let_def plain_id_instrumented plain_id_legacy split: if_splits)
qed

text \<open>
  C13: The terminate request of the terminal interface for a session that the daemon lists does,
  over any splitting of the bytes, exactly what terminating the session filed under that id
  does: no part of an id is taken for a part of the path, the same signals are sent, and the
  interface reads back the answer to them.
\<close>
theorem terminate_reaches_session:
  assumes "daemon_reachable c (cx_state cx)" "(k, r) \<in> set (st_sessions (cx_state cx))" "length k \<le> 15000"
    and "busy < API_CONNECTION_SLOTS" "cuts arrive" "cuts return"
  shows "request_json_with_method (api_exchange arrive return env cx busy now) decode (lit ''POST'') (terminate_path k)
        = client_view decode (fst (terminate_session env cx k now))
    \<and> snd (accept_api env cx busy now
            (Some (read_request_head (arrive (utf8_encode (request_text (lit ''POST'') (terminate_path k)))))))
        = snd (terminate_session env cx k now)"
proof -
  have k: "plain_id k" by (rule daemon_plain_id [OF assms(1,2)])
  have "list_all plain_char (terminate_path k)" using k by (simp add: terminate_path_def plain_id_def lit_def plain_char_def)
  moreover have "length (terminate_path k) \<le> 16000" using assms(3) by (simp add: terminate_path_def lit_def)
  moreover have "terminate_path k \<noteq> []" by (simp add: terminate_path_def lit_def)
  moreover have "terminate_path k \<noteq> lit ''/v1/events/stream''" by (simp add: terminate_path_def lit_def)
  ultimately show ?thesis
    using request_answered [of "lit ''POST''" "terminate_path k" busy arrive return env cx now decode] assms(4-6)
      route_of_terminate [OF k, of env cx now] by simp
qed

theorem terminate_reaches_session_witness:
  "\<exists>st. \<forall>(env :: unit api_environment) (cx :: app_context) now decode.
     request_json_with_method (api_exchange in_one_piece in_one_piece env (cx\<lparr>cx_state := st\<rparr>) 0 now) decode
         (lit ''POST'') (terminate_path (instrumented_session_id 7 1005000))
       = client_view decode (fst (terminate_session env (cx\<lparr>cx_state := st\<rparr>) (instrumented_session_id 7 1005000) now))"
proof -
  obtain st r where st: "daemon_reachable default_config st" "(instrumented_session_id 7 1005000, r) \<in> set (st_sessions st)"
    using example_daemon_session by blast
  have "show_int 1005000 = lit ''1005000''" "show_int 7 = lit ''7''"
    by (simp_all add: show_int_def lit_def show_nat.simps)
  then have small: "length (instrumented_session_id 7 1005000) \<le> 15000"
    by (simp add: instrumented_session_id_def lit_def)
  show ?thesis
  proof (rule exI [of _ st], intro allI)
    fix env :: "unit api_environment" and cx :: app_context and now and decode :: "bytes \<Rightarrow> 'b option"
    have "daemon_reachable default_config (cx_state (cx\<lparr>cx_state := st\<rparr>))"
      "(instrumented_session_id 7 1005000, r) \<in> set (st_sessions (cx_state (cx\<lparr>cx_state := st\<rparr>)))" "0 < API_CONNECTION_SLOTS"
      using st by (simp_all add: API_CONNECTION_SLOTS_def)
    from terminate_reaches_session [OF this(1,2) small this(3) cuts_in_one_piece cuts_in_one_piece]
    show "request_json_with_method (api_exchange in_one_piece in_one_piece env (cx\<lparr>cx_state := st\<rparr>) 0 now) decode
         (lit ''POST'') (terminate_path (instrumented_session_id 7 1005000))
       = client_view decode (fst (terminate_session env (cx\<lparr>cx_state := st\<rparr>) (instrumented_session_id 7 1005000) now))"
      by (rule conjunct1)
  qed
qed

end
