(* ===== verification/Ui_View.thy ===== *)
theory Ui_View
  imports Ui_App
begin

text \<open>
  What the terminal interface draws (\<open>draw\<close>, \<open>draw_table\<close>, \<open>draw_detail\<close> and \<open>status_line\<close> of
  \<open>moshwatch-ui/src/main.rs\<close>): the texts, styles and chart data that are handed to \<open>ratatui\<close>,
  which places and paints them.  \<open>now\<close> is the clock that ages are taken from.
\<close>

section \<open>Styled text\<close>

record style =
  sy_fg :: "color option"
  sy_bg :: "color option"
  sy_bold :: bool

definition plain_style :: style where
  "plain_style = \<lparr>sy_fg = None, sy_bg = None, sy_bold = False\<rparr>"

definition bold_style :: style where
  "bold_style = plain_style\<lparr>sy_bold := True\<rparr>"

definition fg_style :: "color \<Rightarrow> style" where
  "fg_style c = plain_style\<lparr>sy_fg := Some c\<rparr>"

type_synonym span = "rstr \<times> style"
type_synonym line = "span list"

definition raw :: "rstr \<Rightarrow> span" where "raw t = (t, plain_style)"
definition bold :: "string \<Rightarrow> span" where "bold s = (lit s, bold_style)"
definition gap :: span where "gap = raw (lit ''  '')"

definition health_color :: "health_state \<Rightarrow> color" where
  "health_color h = (case h of Ok \<Rightarrow> Green | Degraded \<Rightarrow> Yellow | Critical \<Rightarrow> Red | LegacyHealth \<Rightarrow> DarkGray)"

definition row_style :: "session_summary \<Rightarrow> bool \<Rightarrow> style" where
  "row_style s selected =
     (let base = fg_style (health_color (ss_health s))
      in if selected then base\<lparr>sy_bg := Some Blue, sy_bold := True\<rparr> else base)"

section \<open>The status line\<close>

definition status_message_text :: "nat \<Rightarrow> rstr \<Rightarrow> rstr" where
  "status_message_text width message =
     (if width \<le> 95 then truncate_text message 32
      else if width \<le> 139 then truncate_text message 64
      else message)"

definition format_status_messages :: "nat \<Rightarrow> rstr option \<Rightarrow> rstr option \<Rightarrow> rstr" where
  "format_status_messages width notice failure =
     (case notice of None \<Rightarrow> [] | Some n \<Rightarrow> lit '' | '' @ status_message_text width n)
     @ (case failure of None \<Rightarrow> [] | Some e \<Rightarrow> lit '' | '' @ status_message_text width e)"

text \<open>\<open>socket\<close> is the displayed path of the API socket.\<close>

definition status_line :: "i64 \<Rightarrow> rstr \<Rightarrow> nat \<Rightarrow> ui_app \<Rightarrow> rstr" where
  "status_line now socket width a =
     (let session_summary =
            (if ap_truncated_session_count a > 0 then
               show_nat (length (ap_summaries a)) @ lit '' shown / '' @ show_nat (ap_total_sessions a)
               @ lit '' total ('' @ show_nat (ap_truncated_session_count a) @ lit '' hidden)''
             else show_nat (ap_total_sessions a) @ lit '' sessions'');
          drop_note = (if ap_dropped_sessions_total a > 0 then lit '' | shed '' @ show_u64 (ap_dropped_sessions_total a) else []);
          snapshot_note =
            (case Option.bind (ap_generated_at a) (snapshot_age_ms now) of
               None \<Rightarrow> [] | Some age \<Rightarrow> lit '' | snapshot '' @ fmt_duration_ms (Some age));
          stale_note = (if ap_snapshot_stale a then lit '' | stale'' else []);
          notice_or_error = format_status_messages width (ap_notice a) (ap_error a);
          start = session_summary @ drop_note @ snapshot_note @ stale_note
      in (case ap_pending a of
            Some p \<Rightarrow>
              start @ notice_or_error
              @ (if width \<le> 95 then lit '' | terminate '' @ truncate_text (pt_label p) 12 @ lit ''? y/n''
                 else lit '' | terminate '' @ pt_label p @ lit '' (pid '' @ show_int (pt_pid p) @ lit '')? y confirm | n cancel'')
          | None \<Rightarrow>
              if width \<le> 95 then start @ notice_or_error @ lit '' | x term | q quit''
              else if width \<le> 139 then start @ notice_or_error @ lit '' | x terminate | r refresh | q quit''
              else start @ lit '' | socket '' @ socket @ notice_or_error @ lit '' | x terminate | r refresh | q quit''))"

section \<open>The session table\<close>

definition port_text :: "u16 option \<Rightarrow> rstr" where
  "port_text p = (case p of None \<Rightarrow> lit ''-'' | Some v \<Rightarrow> show_nat (unat v))"

definition rtx10_text :: "session_metrics \<Rightarrow> rstr" where
  "rtx10_text m = fmt_windowed_pct (sm_retransmit_pct_10s m) (sm_retransmit_window_10s_complete m)"

definition rtx60_text :: "session_metrics \<Rightarrow> rstr" where
  "rtx60_text m = fmt_windowed_pct (sm_retransmit_pct_60s m) (sm_retransmit_window_60s_complete m)"

definition table_cells :: "session_table_mode \<Rightarrow> ui_app \<Rightarrow> session_summary \<Rightarrow> rstr list" where
  "table_cells mode a s =
     (let m = ss_metrics s in
      case mode of
        Wide \<Rightarrow>
          [ui_health_label (ss_health s), show_int (ss_pid s), port_text (ss_udp_port s),
           peer_state_label s (ap_thresholds a) (ap_generated_at a), fmt_f64 (sm_srtt_ms m) ''ms'',
           rtx10_text m, fmt_u64 (sm_last_heard_age_ms m) ''ms'',
           display_session_label s (ap_current_session_id a)]
      | CompactTable \<Rightarrow>
          [ui_health_label (ss_health s), show_int (ss_pid s), fmt_f64 (sm_srtt_ms m) ''ms'',
           rtx10_text m, fmt_u64 (sm_last_heard_age_ms m) ''ms'',
           compact_session_label s (ap_current_session_id a) 16]
      | UltraCompact \<Rightarrow>
          [ui_health_label (ss_health s), fmt_f64 (sm_srtt_ms m) ''ms'', rtx10_text m,
           compact_session_label s (ap_current_session_id a) 12])"

datatype layout_constraint = LengthC nat | MinC nat | PercentageC nat

definition table_header :: "session_table_mode \<Rightarrow> rstr list" where
  "table_header mode =
     (case mode of
        Wide \<Rightarrow> map lit [''State'', ''PID'', ''Port'', ''Peer'', ''RTT'', ''RTX10'', ''Heard'', ''Session'']
      | CompactTable \<Rightarrow> map lit [''State'', ''PID'', ''RTT'', ''RTX10'', ''Heard'', ''Session'']
      | UltraCompact \<Rightarrow> map lit [''State'', ''RTT'', ''RTX10'', ''Session''])"

definition table_widths :: "session_table_mode \<Rightarrow> layout_constraint list" where
  "table_widths mode =
     (case mode of
        Wide \<Rightarrow> map LengthC [9, 7, 7, 15, 9, 9, 10] @ [MinC 10]
      | CompactTable \<Rightarrow> map LengthC [9, 7, 9, 9, 9] @ [MinC 12]
      | UltraCompact \<Rightarrow> map LengthC [9, 9, 9] @ [MinC 12])"

record table_view =
  tv_title :: rstr
  tv_header :: "rstr list"
  tv_widths :: "layout_constraint list"
  tv_rows :: "(rstr list \<times> style) list"

definition draw_table :: "nat \<Rightarrow> ui_app \<Rightarrow> table_view" where
  "draw_table width a =
     (let mode = session_table_mode_of width in
      \<lparr>tv_title = lit ''Sessions'', tv_header = table_header mode, tv_widths = table_widths mode,
       tv_rows = map (\<lambda>(index, s). (table_cells mode a s, row_style s (index = ap_selected a)))
                   (enumerate 0 (ap_summaries a))\<rparr>)"

section \<open>The detail pane\<close>

definition counter_text :: "u64 option \<Rightarrow> rstr" where
  "counter_text v = count_or (lit ''-'') v"

definition addr_text :: "rstr option \<Rightarrow> rstr" where
  "addr_text v = (case v of Some t \<Rightarrow> t | None \<Rightarrow> lit ''-'')"

definition health_reason_text :: "session_summary \<Rightarrow> health_thresholds \<Rightarrow> rstr" where
  "health_reason_text s t =
     (let reasons = health_reasons s t in
      if reasons = [] then lit ''no active threshold breach'' else join_with (lit '', '') reasons)"

definition age_text :: "u64 option \<Rightarrow> rstr" where
  "age_text v = (case v of Some age \<Rightarrow> fmt_duration_ms (Some age) | None \<Rightarrow> lit ''-'')"

definition snapshot_age_text :: "i64 \<Rightarrow> ui_app \<Rightarrow> rstr" where
  "snapshot_age_text now a = age_text (Option.bind (ap_generated_at a) (snapshot_age_ms now))"

definition last_sample_text :: "ui_app \<Rightarrow> session_summary \<Rightarrow> rstr" where
  "last_sample_text a s =
     age_text (Option.bind (ap_generated_at a) (\<lambda>g. observed_age_ms g (ss_last_observed_unix_ms s)))"

definition roam_text :: "ui_app \<Rightarrow> session_summary \<Rightarrow> rstr" where
  "roam_text a s =
     (case format_client_roam s (ap_generated_at a) of Some t \<Rightarrow> t | None \<Rightarrow> lit ''no client roam recorded'')"

definition last_peer_seen_text :: "ui_app \<Rightarrow> session_summary \<Rightarrow> rstr" where
  "last_peer_seen_text a s = format_unix_age (ap_generated_at a) (last_client_seen_at_unix_ms (ss_peer s))"

definition client_changed_text :: "ui_app \<Rightarrow> session_summary \<Rightarrow> rstr" where
  "client_changed_text a s = format_unix_age (ap_generated_at a) (client_addr_changed_at_unix_ms (ss_peer s))"

text \<open>The lines that the narrow and the wide pane begin with.\<close>

definition identity_lines :: "ui_app \<Rightarrow> session_summary \<Rightarrow> line list" where
  "identity_lines a s =
     [[bold ''Session '', raw (display_session_label s (ap_current_session_id a)), gap,
       bold ''Health '', raw (ui_health_label (ss_health s)), gap,
       bold ''Peer '', raw (peer_state_label s (ap_thresholds a) (ap_generated_at a))],
      [bold ''Identity '', raw (ss_session_id s)],
      [bold ''PID '', raw (show_int (ss_pid s)), gap, bold ''Bind '', raw (addr_text (ss_bind_addr s)),
       raw (lit '':''), raw (port_text (ss_udp_port s))]]"

definition compact_lines :: "ui_app \<Rightarrow> session_snapshot \<Rightarrow> line list" where
  "compact_lines a d =
     (let s = sn_summary d; m = ss_metrics s; p = ss_peer s; h = summarize_history d;
          rtx = fg_style (retransmit_color m (ap_thresholds a))
      in identity_lines a s @
       [[bold ''Current Peer '', raw (addr_text (current_client_addr p))],
        [bold ''Last Peer '', raw (addr_text (last_client_addr p)), gap, bold ''Seen '', raw (last_peer_seen_text a s)],
        [bold ''RTT '', raw (fmt_f64 (sm_srtt_ms m) ''ms''), gap, bold ''RTTVAR '', raw (fmt_f64 (sm_rttvar_ms m) ''ms''),
         gap, bold ''Last '', raw (fmt_f64 (sm_last_rtt_ms m) ''ms'')],
        [bold ''RTX10 '', (rtx10_text m, rtx), gap, bold ''RTX60 '', (rtx60_text m, rtx), gap,
         bold ''Heard '', raw (fmt_u64 (sm_last_heard_age_ms m) ''ms''), gap,
         bold ''Remote '', raw (fmt_u64 (sm_remote_state_age_ms m) ''ms'')],
        [bold ''TX '', raw (counter_text (sm_packets_tx_total m)), gap,
         bold ''RX '', raw (counter_text (sm_packets_rx_total m)), gap,
         bold ''Resends '', raw (counter_text (sm_retransmits_total m)), gap,
         bold ''ACKs '', raw (counter_text (sm_empty_acks_tx_total m))],
        [bold ''Updates '', raw (counter_text (sm_state_updates_tx_total m)), raw (lit ''/''),
         raw (counter_text (sm_state_updates_rx_total m)), gap,
         bold ''Dup '', raw (counter_text (sm_duplicate_states_rx_total m)), gap,
         bold ''OOO '', raw (counter_text (sm_out_of_order_states_rx_total m))],
        [bold ''Why '', raw (health_reason_text s (ap_thresholds a))],
        [bold ''History '', raw (show_nat (hd_shown_points h) @ lit '' shown / '' @ show_nat (sn_total_history_points d)
           @ lit '' total over '' @ fmt_duration_ms (hd_span_ms h) @ lit '' | max RTT '' @ fmt_f64 (hd_max_rtt_ms h) ''ms''
           @ lit '' | max RTX10 '' @ fmt_f64 (hd_max_retransmit_pct h) ''%'')],
        [bold ''Roam '', raw (roam_text a s)],
        [bold ''Command '', raw (ss_cmdline s)],
        [bold ''Charts '', raw (lit ''hidden on narrow terminals; widen for RTT/RTX sparklines'')]])"

definition info_lines :: "i64 \<Rightarrow> ui_app \<Rightarrow> session_snapshot \<Rightarrow> line list" where
  "info_lines now a d =
     (let s = sn_summary d; m = ss_metrics s; p = ss_peer s;
          rtx = fg_style (retransmit_color m (ap_thresholds a))
      in identity_lines a s @
       [[bold ''Current Peer '', raw (addr_text (current_client_addr p)), gap,
         bold ''Last Peer '', raw (addr_text (last_client_addr p))],
        [bold ''Last Peer Seen '', raw (last_peer_seen_text a s), gap,
         bold ''Client Changed '', raw (client_changed_text a s)],
        [bold ''Roam '', raw (roam_text a s)],
        [bold ''RTT '', raw (fmt_f64 (sm_srtt_ms m) ''ms''), gap, bold ''RTTVAR '', raw (fmt_f64 (sm_rttvar_ms m) ''ms''),
         gap, bold ''Last RTT '', raw (fmt_f64 (sm_last_rtt_ms m) ''ms'')],
        [bold ''Snapshot '', raw (snapshot_age_text now a), gap, bold ''Last Sample '', raw (last_sample_text a s), gap,
         bold ''RTX10 '', (rtx10_text m, rtx), gap, bold ''RTX60 '', (rtx60_text m, rtx)],
        [bold ''Last Heard '', raw (fmt_u64 (sm_last_heard_age_ms m) ''ms''), gap,
         bold ''Remote State '', raw (fmt_u64 (sm_remote_state_age_ms m) ''ms'')],
        [bold ''TX '', raw (counter_text (sm_packets_tx_total m)), gap,
         bold ''RX '', raw (counter_text (sm_packets_rx_total m)), gap,
         bold ''Resends '', raw (counter_text (sm_retransmits_total m)), gap,
         bold ''Empty ACKs '', raw (counter_text (sm_empty_acks_tx_total m))],
        [bold ''State Updates '', raw (counter_text (sm_state_updates_tx_total m)), raw (lit ''/''),
         raw (counter_text (sm_state_updates_rx_total m)), gap,
         bold ''Dup RX '', raw (counter_text (sm_duplicate_states_rx_total m)), gap,
         bold ''OOO RX '', raw (counter_text (sm_out_of_order_states_rx_total m))],
        [bold ''Command '', raw (ss_cmdline s)]])"

definition diagnostics_lines :: "ui_app \<Rightarrow> session_snapshot \<Rightarrow> line list" where
  "diagnostics_lines a d =
     (let s = sn_summary d; m = ss_metrics s; h = summarize_history d in
       [[bold ''Why '', raw (health_reason_text s (ap_thresholds a))],
        [bold ''RTX10 Math '', raw (format_retransmit_window 10 (sm_retransmit_pct_10s m)
           (sm_retransmit_window_10s_complete m) (sm_retransmit_window_10s_breakdown m))],
        [bold ''RTX60 Math '', raw (format_retransmit_window 60 (sm_retransmit_pct_60s m)
           (sm_retransmit_window_60s_complete m) (sm_retransmit_window_60s_breakdown m))],
        [bold ''History '', raw (show_nat (hd_shown_points h) @ lit '' shown / '' @ show_nat (sn_total_history_points d)
           @ lit '' total over '' @ fmt_duration_ms (hd_span_ms h) @ lit '' | largest gap '' @ fmt_duration_ms (hd_largest_gap_ms h)
           @ lit '' | max RTT '' @ fmt_f64 (hd_max_rtt_ms h) ''ms''
           @ lit '' | max RTX10 '' @ fmt_f64 (hd_max_retransmit_pct h) ''%'')],
        [bold ''Graphs '', raw (lit ''right=newest | RTT auto-scale | RTX fixed 0..100% | spacing follows telemetry events | RTX warn ''
           @ fixed1 (warn_retransmit_pct (ap_thresholds a)) @ lit ''% / crit ''
           @ fixed1 (critical_retransmit_pct (ap_thresholds a)) @ lit ''%'')]])"

text \<open>A chart: its title, its points with the newest first, the top of its scale and its colour.\<close>

record chart =
  ch_title :: rstr
  ch_data :: "u64 option list"
  ch_max :: "nat option"
  ch_color :: color

definition rtt_chart :: "session_snapshot \<Rightarrow> chart" where
  "rtt_chart d =
     \<lparr>ch_title = lit ''RTT History (right=newest, auto, peak '' @ fmt_f64 (hd_max_rtt_ms (summarize_history d)) ''ms'' @ lit '')'',
      ch_data = map (Some \<circ> rtt_spark_point) (rev (sn_history d)), ch_max = None, ch_color = Cyan\<rparr>"

definition retransmit_chart :: "ui_app \<Rightarrow> session_snapshot \<Rightarrow> chart" where
  "retransmit_chart a d =
     \<lparr>ch_title = lit ''RTX10 History (right=newest, 0..100%, peak ''
        @ fmt_f64 (hd_max_retransmit_pct (summarize_history d)) ''%'' @ lit '')'',
      ch_data = map (sparkline_point_from_pct \<circ> mp_retransmit_pct_10s) (rev (sn_history d)), ch_max = Some 100,
      ch_color = retransmit_color (ss_metrics (sn_summary d)) (ap_thresholds a)\<rparr>"

datatype detail_view =
    NoDetail rstr
  | CompactPane "line list"
  | FullPane "line list" chart chart "line list"

definition draw_detail :: "i64 \<Rightarrow> nat \<Rightarrow> nat \<Rightarrow> ui_app \<Rightarrow> detail_view" where
  "draw_detail now width height a =
     (case ap_detail a of
        None \<Rightarrow> NoDetail (lit ''No session selected.'')
      | Some d \<Rightarrow>
          if detail_layout_mode_of width height = CompactDetail then CompactPane (compact_lines a d)
          else FullPane (info_lines now a d) (rtt_chart d) (retransmit_chart a d) (diagnostics_lines a d))"

section \<open>The screen\<close>

text \<open>
  \<open>split\<close> is \<open>ratatui\<close>'s layout: the areas that constraints along a direction cut a given area
  into.  Areas are given by width and height.
\<close>

datatype layout_direction = Vertical | Horizontal

type_synonym area = "nat \<times> nat"

definition body_areas ::
    "(layout_direction \<Rightarrow> layout_constraint list \<Rightarrow> area \<Rightarrow> area list) \<Rightarrow> ui_app \<Rightarrow> area \<Rightarrow> area list" where
  "body_areas split a body =
     (case body_layout_mode_of (fst body) of
        Columns \<Rightarrow> split Horizontal [PercentageC 48, PercentageC 52] body
      | Stacked \<Rightarrow> split Vertical [LengthC (session_table_height (length (ap_summaries a))), MinC 1] body)"

definition draw ::
    "(layout_direction \<Rightarrow> layout_constraint list \<Rightarrow> area \<Rightarrow> area list) \<Rightarrow> i64 \<Rightarrow> rstr \<Rightarrow> area \<Rightarrow> ui_app
     \<Rightarrow> rstr \<times> table_view \<times> detail_view" where
  "draw split now socket frame a =
     (let layout = split Vertical [LengthC 3, MinC 1] frame;
          body = body_areas split a (layout ! 1)
      in (status_line now socket (fst (layout ! 0)) a,
          draw_table (fst (body ! 0)) a,
          draw_detail now (fst (body ! 1)) (snd (body ! 1)) a))"

end
