(* ===== verification/Clean_Text.thy ===== *)
theory Clean_Text
  imports Daemon Discovery_Facts
begin

text \<open>
  The texts the daemon keeps of a session are free of control characters, whatever the
  processes, the peers and the telemetry say: an invariant of every registry that the daemon
  can reach, which rests on the sanitizers of \<open>sanitize.rs\<close> and on how \<open>discovery.rs\<close> writes
  addresses.
\<close>

section \<open>Printable text\<close>

definition printable :: "rstr \<Rightarrow> bool" where
  "printable s \<longleftrightarrow> list_all (\<lambda>c. \<not> is_control c) s"

definition printable_opt :: "rstr option \<Rightarrow> bool" where
  "printable_opt v \<longleftrightarrow> (\<forall>t. v = Some t \<longrightarrow> printable t)"

lemma printable_simps [simp]:
  "printable []" "printable (c # s) \<longleftrightarrow> \<not> is_control c \<and> printable s"
  "printable (a @ b) \<longleftrightarrow> printable a \<and> printable b"
  by (simp_all add: printable_def)

lemma printable_lit: "printable (lit s) \<longleftrightarrow> list_all (\<lambda>c. \<not> is_control (of_char c)) s"
  by (simp add: printable_def lit_def list_all_iff)

lemma printable_opt_simps [simp]: "printable_opt None" "printable_opt (Some t) \<longleftrightarrow> printable t"
  by (simp_all add: printable_opt_def)

lemma printable_opt_or [intro]: "printable_opt a \<Longrightarrow> printable_opt b \<Longrightarrow> printable_opt (opt_or a b)"
  by (cases a) (simp_all add: opt_or_def)

lemma clean_printable: "clean_text s \<Longrightarrow> printable s"
  by (auto simp: clean_text_def clean_char_def printable_def list_all_iff)

lemma sanitized_printable [simp]:
  "printable_opt (sanitize_display_session_id v)" "printable_opt (sanitize_endpoint v)"
  "printable (sanitize_cmdline t)"
  using sanitize_optional_text_clean [of v] sanitize_cmdline_clean [of t]
  by (auto simp: printable_opt_def sanitize_display_session_id_def sanitize_endpoint_def clean_printable)

lemma not_control_digit: "is_digit c \<Longrightarrow> \<not> is_control c"
  by (auto simp: is_digit_def is_control_def)

lemma printable_show_nat [simp]: "printable (show_nat n)"
  unfolding printable_def list_all_iff by (intro ballI not_control_digit show_nat_digits)

lemma printable_show_int [simp]: "printable (show_int i)"
  using show_int_chars [of _ i] not_control_digit by (fastforce simp: printable_def list_all_iff is_control_def)

lemma printable_join: "printable sep \<Longrightarrow> list_all printable ps \<Longrightarrow> printable (join_with sep ps)"
  by (induction sep ps rule: join_with.induct) auto

section \<open>Addresses from discovery\<close>

lemma printable_dotted [simp]: "printable (dotted bs)"
  unfolding dotted_def by (rule printable_join) (simp_all add: is_control_def list_all_iff)

lemma printable_show_hex [simp]: "printable (show_hex n)"
proof (induction n rule: less_induct)
  case (less n)
  have "\<not> is_control (hex_digit m)" if "m < 16" for m
    using that by (simp add: hex_digit_def is_control_def)
  with less show ?case by (subst show_hex.simps) simp
qed

lemma printable_segments [simp]: "printable (show_segments ss)"
  unfolding show_segments_def by (rule printable_join) (simp_all add: is_control_def list_all_iff)

lemma printable_ipv6 [simp]: "printable (show_ipv6 bs)"
  by (simp add: show_ipv6_def Let_def split_beta printable_lit is_control_def)

lemma parse_local_endpoint_printable:
  assumes "parse_local_endpoint v = Value u"
  shows "printable (us_bind_addr u)"
  using assms
  by (auto simp: parse_local_endpoint_def decode_ipv4_def decode_ipv6_def bind_attempt_Value_iff
      split: option.splits if_splits)

definition table_printable :: "socket_table \<Rightarrow> bool" where
  "table_printable table \<longleftrightarrow> (\<forall>(inode, u) \<in> set table. printable (us_bind_addr u))"

lemma set_update_subset: "set (AList.update k v m) \<subseteq> insert (k, v) (set m)"
  by (induction m) auto

lemma table_printable_update:
  "table_printable table \<Longrightarrow> printable (us_bind_addr u) \<Longrightarrow> table_printable (AList.update inode u table)"
  using set_update_subset [of inode u table] by (fastforce simp: table_printable_def)

lemma add_socket_line_printable:
  "add_socket_line l table = Value table' \<Longrightarrow> table_printable table \<Longrightarrow> table_printable table'"
  by (auto simp: add_socket_line_def Let_def intro: table_printable_update parse_local_endpoint_printable
      split: if_splits option.splits attempt.splits)

lemma add_socket_lines_printable:
  "add_socket_lines ls table = Value table' \<Longrightarrow> table_printable table \<Longrightarrow> table_printable table'"
  by (induction ls arbitrary: table) (auto simp: bind_attempt_Value_iff dest: add_socket_line_printable)

lemma load_udp_sockets_printable:
  "load_udp_sockets files table = Value table' \<Longrightarrow> table_printable table \<Longrightarrow> table_printable table'"
  by (induction files table rule: load_udp_sockets.induct)
    (auto simp: bind_attempt_Value_iff dest: add_socket_lines_printable)

lemma find_socket_printable:
  "find_socket ts table = Some u \<Longrightarrow> table_printable table \<Longrightarrow> printable (us_bind_addr u)"
  by (induction ts table rule: find_socket.induct)
    (auto simp: table_printable_def dest: map_of_SomeD split: option.splits)

definition sighting_printable :: "discovered_session \<Rightarrow> bool" where
  "sighting_printable d \<longleftrightarrow> printable_opt (ds_bind_addr d) \<and> printable (ds_cmdline d)"

lemma discover_entry_printable:
  assumes "discover_entry fs cur table boot ticks name = Value (Some d)" "table_printable table"
  shows "sighting_printable d"
proof -
  have "printable_opt (map_option us_bind_addr (read_process_socket p table))" for p
    using find_socket_printable [OF _ assms(2)]
    by (auto simp: printable_opt_def read_process_socket_def split: option.splits)
  moreover have "printable (pm_cmdline m)" if "read_process_metadata_with_clock p boot ticks = Value m" for p m
    using that by (auto simp: read_process_metadata_with_clock_def bind_attempt_Value_iff)
  ultimately show ?thesis
    using assms(1) by (auto simp: discover_entry_def sighting_printable_def Let_def split: option.splits attempt.splits if_splits)
qed

lemma discover_entries_printable:
  "discover_entries fs cur table boot ticks ns = Value ds \<Longrightarrow> table_printable table \<Longrightarrow> list_all sighting_printable ds"
  by (induction ns arbitrary: ds)
    (auto simp: bind_attempt_Value_iff dest: discover_entry_printable split: option.splits)

lemma discovered_printable:
  assumes "discover_mosh_sessions fs cur = Value ds"
  shows "list_all sighting_printable ds"
proof -
  obtain table boot ticks entries found where "load_udp_sockets (pf_udp_tables fs) [] = Value table"
    "discover_entries fs cur table boot ticks entries = Value found"
    "ds = sort_by (\<lambda>a b. cmp_of (ds_pid a) (ds_pid b)) found"
    using assms by (auto simp: discover_mosh_sessions_def bind_attempt_Value_iff)
  moreover from this(1) have "table_printable table"
    by (rule load_udp_sockets_printable) (simp add: table_printable_def)
  ultimately show ?thesis using discover_entries_printable by (auto simp: list_all_iff set_sort_by)
qed

section \<open>The records\<close>

definition texts_ok :: "session_summary \<Rightarrow> bool" where
  "texts_ok s \<longleftrightarrow>
     printable (ss_session_id s) \<and> printable_opt (ss_display_session_id s) \<and> printable_opt (ss_bind_addr s)
     \<and> printable_opt (ss_client_addr s) \<and> printable_opt (current_client_addr (ss_peer s))
     \<and> printable_opt (last_client_addr (ss_peer s)) \<and> printable_opt (previous_client_addr (ss_peer s))
     \<and> printable (ss_cmdline s)"

definition record_printable :: "rstr \<Rightarrow> session_record \<Rightarrow> bool" where
  "record_printable k r \<longleftrightarrow> printable k \<and> texts_ok (sr_summary r)"

lemma texts_ok_updates [simp]:
  "texts_ok (s\<lparr>ss_metrics := m\<rparr>) = texts_ok s" "texts_ok (s\<lparr>ss_health := h\<rparr>) = texts_ok s"
  "texts_ok (s\<lparr>ss_counter_reset_unix_ms := t\<rparr>) = texts_ok s"
  "texts_ok (s\<lparr>ss_pid := p\<rparr>) = texts_ok s" "texts_ok (s\<lparr>ss_kind := kind\<rparr>) = texts_ok s"
  "texts_ok (s\<lparr>ss_started_at_unix_ms := t1\<rparr>) = texts_ok s" "texts_ok (s\<lparr>ss_last_observed_unix_ms := t1\<rparr>) = texts_ok s"
  "texts_ok (s\<lparr>ss_udp_port := p16\<rparr>) = texts_ok s"
  by (simp_all add: texts_ok_def)

lemma texts_ok_set:
  "texts_ok s \<Longrightarrow> printable k \<Longrightarrow> texts_ok (s\<lparr>ss_session_id := k\<rparr>)"
  "texts_ok s \<Longrightarrow> printable_opt d \<Longrightarrow> texts_ok (s\<lparr>ss_display_session_id := d\<rparr>)"
  "texts_ok s \<Longrightarrow> printable_opt b \<Longrightarrow> texts_ok (s\<lparr>ss_bind_addr := opt_or b (ss_bind_addr s)\<rparr>)"
  "texts_ok s \<Longrightarrow> printable t \<Longrightarrow> texts_ok (s\<lparr>ss_cmdline := t\<rparr>)"
  by (auto simp: texts_ok_def)

lemma printable_ids [simp]:
  "printable (instrumented_session_id p t)" "printable (legacy_session_id p t)"
  by (simp_all add: instrumented_session_id_def legacy_session_id_def printable_lit is_control_def)

lemma apply_client_peer_texts:
  assumes "texts_ok s" "printable_opt addr"
  shows "texts_ok (apply_client_peer s addr t)"
  using assms by (cases addr) (auto simp: apply_client_peer_def texts_ok_def Let_def split: bool.split option.split)

lemma merge_identity_texts:
  assumes "texts_ok s" "printable k"
  shows "texts_ok (merge_identity s k ev received t)"
proof -
  define s1 where "s1 = s\<lparr>ss_session_id := k, ss_pid := ev_pid ev, ss_kind := Instrumented,
    ss_started_at_unix_ms := event_started_at ev received, ss_last_observed_unix_ms := t\<rparr>"
  define s2 where "s2 = (if ss_display_session_id s1 = None
    then s1\<lparr>ss_display_session_id := sanitize_display_session_id (ev_display_session_id ev)\<rparr> else s1)"
  define s3 where "s3 = s2\<lparr>ss_bind_addr := opt_or (sanitize_endpoint (ev_bind_addr ev)) (ss_bind_addr s2),
    ss_udp_port := opt_or (ev_udp_port ev) (ss_udp_port s2)\<rparr>"
  have "texts_ok s1" using assms by (simp add: s1_def texts_ok_set)
  then have "texts_ok s2" by (simp add: s2_def texts_ok_set)
  then have "texts_ok s3" by (simp add: s3_def texts_ok_set)
  then have "texts_ok (apply_client_peer s3 (sanitize_endpoint (ev_client_addr ev)) t)"
    by (rule apply_client_peer_texts) simp
  then show ?thesis
    unfolding merge_identity_def Let_def s1_def [symmetric] s2_def [symmetric] s3_def [symmetric]
    by (simp add: texts_ok_set split: option.split)
qed

lemma apply_event_texts:
  assumes "record_printable k r"
  shows "record_printable k (apply_event c k ev received r)"
proof -
  have "texts_ok (sr_summary (reset_on_regression r ev t))" for t
    using assms by (simp add: reset_on_regression_def record_printable_def)
  moreover have "texts_ok (sr_summary (record_sample r' ev t n)) = texts_ok (sr_summary r')" for r' t n
    by (simp add: record_sample_def Let_def)
  moreover have "texts_ok (sr_summary (finish_record r' ev t)) = texts_ok (sr_summary r')" for r' t
    by (simp add: finish_record_def Let_def split: option.split)
  ultimately show ?thesis
    using assms by (simp add: apply_event_def record_printable_def Let_def merge_identity_texts)
qed

lemma fresh_records_texts:
  "printable k \<Longrightarrow> record_printable k (fresh_instrumented_record k ev received)"
  "printable k \<Longrightarrow> sighting_printable d \<Longrightarrow> record_printable k (fresh_legacy_record k d now)"
  by (auto simp: record_printable_def texts_ok_def fresh_instrumented_record_def fresh_legacy_record_def
      default_peer_def sighting_printable_def unwrap_or_def printable_lit is_control_def split: option.split)

lemma promote_texts: "record_printable l r \<Longrightarrow> printable k \<Longrightarrow> record_printable k (promote k r)"
  by (simp add: record_printable_def promote_def texts_ok_def)

lemma merge_discovered_texts:
  "record_printable k r \<Longrightarrow> sighting_printable d \<Longrightarrow> record_printable k (merge_discovered t d now r)"
  by (auto simp: record_printable_def merge_discovered_def sighting_printable_def texts_ok_def Let_def)

section \<open>The registry\<close>

lemma apply_telemetry_texts:
  assumes ok: "entries_ok record_printable (st_sessions st)" and k: "printable k"
  shows "entries_ok record_printable (st_sessions (apply_telemetry_at st k ev received))"
proof (cases rule: telemetry_cases [where st = st and k = k and ev = ev and received = received])
  case (known r)
  with entries_okD [OF ok known] ok show ?thesis
    by (simp add: apply_telemetry_known store_record_entries apply_event_texts)
next
  case (upgrade r)
  have "record_printable k (promote k r)" by (rule promote_texts [OF entries_okD [OF ok upgrade(3)] k])
  with upgrade ok show ?thesis
    by (simp add: apply_telemetry_upgrade store_record_entries entries_intros apply_event_texts)
next
  case new
  with ok k show ?thesis
    by (simp add: apply_telemetry_new store_record_entries apply_event_texts fresh_records_texts)
qed

lemma note_discovered_texts:
  assumes "entries_ok record_printable (fst ms)" "sighting_printable d"
  shows "entries_ok record_printable (fst (note_discovered t now d ms))"
proof -
  obtain m seen where ms: "ms = (m, seen)" by (cases ms)
  have "printable (discovered_id m d)" by (simp add: discovered_id_def Let_def)
  then have "record_printable (discovered_id m d) (case map_of m (discovered_id m d) of
      Some r \<Rightarrow> r | None \<Rightarrow> fresh_legacy_record (discovered_id m d) d now)"
    using assms ms by (auto simp: fresh_records_texts dest: entries_okD split: option.split)
  then show ?thesis using assms ms by (simp add: Let_def entries_intros merge_discovered_texts)
qed

lemma refresh_discovery_texts:
  assumes "entries_ok record_printable (st_sessions st)" "list_all sighting_printable ds"
  shows "entries_ok record_printable (st_sessions (refresh_discovery st ds now))"
proof -
  have "entries_ok record_printable (fst (fold (note_discovered t now) ds ms))"
    if "entries_ok record_printable (fst ms)" for t ms
    using assms(2) that by (induction ds arbitrary: ms) (simp_all add: note_discovered_texts)
  then show ?thesis
    using assms(1)
    by (simp add: refresh_discovery_eq Let_def enforce_session_cap_sessions enforce_loop_entries entries_intros)
qed

lemma daemon_texts_ok: "daemon_reachable c st \<Longrightarrow> entries_ok record_printable (st_sessions st)"
proof (induction rule: daemon_reachable.induct)
  case daemon_start
  then show ?case by (simp add: new_state_def entries_intros)
next
  case (daemon_telemetry st clock from_json credentials euid fs cur r res applied k ev now)
  obtain peer where "verified_event peer (k, ev)"
    using daemon_telemetry.hyps(2,3) by (rule applied_event)
  then have "printable k" by (simp add: verified_event_def)
  with daemon_telemetry.IH show ?case by (simp add: apply_telemetry_def apply_telemetry_texts)
next
  case (daemon_discovery st fs cur ds now)
  then show ?case by (simp add: refresh_discovery_texts discovered_printable)
qed

lemma materialized_texts [simp]: "texts_ok (materialize_summary c r now) = texts_ok (sr_summary r)"
  by (simp add: materialize_summary_def Let_def)

end
