(* ===== verification/Ui_View_Facts.thy ===== *)
theory Ui_View_Facts
  imports Ui_View Ui_Health Ui_App_Facts Clean_Text Daemon_Examples
begin

text \<open>
  Everything the terminal interface puts on the screen is free of control characters, over whole
  runs against the daemon: formats and labels, the state of the interface, and the drawing.
\<close>

section \<open>Formats and labels\<close>

lemma printable_fixed1 [simp]: "printable (fixed1 v)"
  by (cases v) (simp_all add: fixed1_pos_def Let_def printable_lit is_control_def)

lemma printable_numbers [simp]:
  "printable (show_u64 n)" "printable (fmt_windowed_pct v b)" "printable (fmt_f64 v ''ms'')" "printable (fmt_f64 v ''%'')"
  "printable (fmt_u64 w ''ms'')" "printable (fmt_duration_ms w)" "printable (format_unix_age x y)"
  by (simp_all add: show_u64_def fmt_windowed_pct_def fmt_f64_def fmt_u64_def fmt_duration_ms_def
      format_unix_age_def printable_lit is_control_def split: option.split)

lemma printable_take [simp]: "printable s \<Longrightarrow> printable (take n s)"
  by (auto simp: printable_def list_all_iff dest: in_set_takeD)

lemma printable_truncate [simp]: "printable s \<Longrightarrow> printable (truncate_text s n)"
  by (simp add: truncate_text_def printable_lit is_control_def)

lemma printable_session_label: "texts_ok s \<Longrightarrow> printable (session_label s)"
  by (auto simp: session_label_def texts_ok_def split: option.split)

lemma printable_client_roam:
  assumes "texts_ok s"
  shows "printable_opt (format_client_roam s g)"
proof -
  have "printable_opt (current_client_addr (ss_peer s))" "printable_opt (last_client_addr (ss_peer s))"
    "printable_opt (previous_client_addr (ss_peer s))"
    using assms by (simp_all add: texts_ok_def)
  then show ?thesis
    by (cases "previous_client_addr (ss_peer s)"; cases "current_client_addr (ss_peer s)"; cases "last_client_addr (ss_peer s)")
      (simp_all add: format_client_roam_def printable_lit is_control_def)
qed

lemma printable_labels:
  assumes "texts_ok s"
  shows "printable (session_label s)" "printable (display_session_label s current)"
    "printable (compact_session_label s current n)" "printable (peer_state_label s t g)"
    "printable_opt (format_client_roam s g)"
  using printable_session_label [OF assms] printable_client_roam [OF assms]
  by (simp_all add: display_session_label_def compact_session_label_def Let_def
      peer_state_label_def printable_lit is_control_def)

lemma printable_health_label [simp]: "printable (ui_health_label h)"
  by (cases h) (simp_all add: printable_lit is_control_def)

lemma printable_reason_parts:
  "list_all printable (silence_reasons m t)" "list_all printable (rtt_reasons m t)"
  "list_all printable (rtx60_reasons m t)" "list_all printable (rtx10_reasons m t)"
  "list_all printable (quiet_reasons m)"
  by (simp_all add: silence_reasons_def rtt_reasons_def rtx60_reasons_def rtx10_reasons_def quiet_reasons_def
      printable_lit is_control_def split: option.split)

lemma printable_reasons: "list_all printable (health_reasons s t)"
  using printable_reason_parts
  by (simp add: health_reasons_def Let_def printable_lit is_control_def)

lemma printable_count_or [simp]: "printable m \<Longrightarrow> printable (count_or m v)"
  by (simp add: count_or_def split: option.split)

lemma printable_window [simp]: "printable (format_retransmit_window n v b w)"
  by (cases b; cases v; cases "rb_transmissions_total w")
    (simp_all only: format_retransmit_window_def Let_def option.case prod.case if_True if_False not_True_eq_False not_False_eq_True
      printable_simps printable_fixed1 printable_numbers printable_count_or if_distrib [of printable],
      simp_all add: printable_lit is_control_def)

section \<open>Drawing\<close>

definition line_printable :: "line \<Rightarrow> bool" where
  "line_printable l \<longleftrightarrow> list_all (\<lambda>(t, style). printable t) l"

lemma line_printable_simps [simp]:
  "line_printable []" "line_printable ((t, y) # l) \<longleftrightarrow> printable t \<and> line_printable l"
  by (simp_all add: line_printable_def)

lemma span_simps [simp]:
  "line_printable (raw t # l) \<longleftrightarrow> printable t \<and> line_printable l"
  "line_printable (bold b # l) \<longleftrightarrow> printable (lit b) \<and> line_printable l" "line_printable (gap # l) \<longleftrightarrow> line_printable l"
  by (simp_all add: raw_def bold_def gap_def printable_lit is_control_def)

fun chart_printable :: "chart \<Rightarrow> bool" where
  "chart_printable c \<longleftrightarrow> printable (ch_title c)"

definition table_view_printable :: "table_view \<Rightarrow> bool" where
  "table_view_printable v \<longleftrightarrow>
     printable (tv_title v) \<and> list_all printable (tv_header v) \<and> list_all (\<lambda>(cells, y). list_all printable cells) (tv_rows v)"

fun detail_printable :: "detail_view \<Rightarrow> bool" where
  "detail_printable (NoDetail t) \<longleftrightarrow> printable t"
| "detail_printable (CompactPane ls) \<longleftrightarrow> list_all line_printable ls"
| "detail_printable (FullPane ls c1 c2 ds) \<longleftrightarrow>
     list_all line_printable ls \<and> chart_printable c1 \<and> chart_printable c2 \<and> list_all line_printable ds"

lemma printable_cells:
  assumes "texts_ok s"
  shows "list_all printable (table_cells mode a s)"
  using printable_labels [OF assms]
  by (cases mode) (simp_all add: table_cells_def Let_def port_text_def rtx10_text_def printable_lit is_control_def split: option.split)

lemma draw_table_printable:
  assumes "list_all texts_ok (ap_summaries a)"
  shows "table_view_printable (draw_table width a)"
proof -
  have "list_all printable (table_header mode)" for mode
    by (cases mode) (simp_all add: table_header_def printable_lit is_control_def)
  moreover have "texts_ok s" if "(i, s) \<in> set (enumerate 0 (ap_summaries a))" for i s
    using assms that by (auto simp: list_all_iff in_set_enumerate_eq)
  then have "list_all printable (table_cells mode a s)" if "(i, s) \<in> set (enumerate 0 (ap_summaries a))" for mode i s
    using that printable_cells by blast
  ultimately show ?thesis
    by (auto simp: table_view_printable_def draw_table_def Let_def list_all_iff printable_lit is_control_def)
qed

lemma printable_texts [simp]:
  "printable (counter_text v)" "printable (health_reason_text s t)" "printable (age_text w)"
  "printable (snapshot_age_text now a)" "printable (last_sample_text a s)" "printable (last_peer_seen_text a s)"
  "printable (client_changed_text a s)" "printable (port_text p)" "printable (rtx10_text m)" "printable (rtx60_text m)"
  using printable_reasons [of s t]
  by (simp_all add: counter_text_def health_reason_text_def age_text_def snapshot_age_text_def last_sample_text_def
      last_peer_seen_text_def client_changed_text_def port_text_def rtx10_text_def rtx60_text_def Let_def
      printable_join printable_lit is_control_def split: option.split)

lemma printable_summary_texts:
  assumes "texts_ok s"
  shows "printable (roam_text a s)" "printable (addr_text (ss_bind_addr s))"
    "printable (addr_text (current_client_addr (ss_peer s)))" "printable (addr_text (last_client_addr (ss_peer s)))"
    "printable (ss_cmdline s)" "printable (ss_session_id s)"
  using assms printable_labels(5) [OF assms]
  by (auto simp: roam_text_def addr_text_def texts_ok_def printable_opt_def printable_lit is_control_def split: option.split)

lemma draw_detail_printable:
  assumes "\<forall>d. ap_detail a = Some d \<longrightarrow> texts_ok (sn_summary d)"
  shows "detail_printable (draw_detail now width height a)"
proof (cases "ap_detail a")
  case None
  then show ?thesis by (simp add: draw_detail_def printable_lit is_control_def)
next
  case (Some d)
  then have ok: "texts_ok (sn_summary d)" using assms by simp
  note labels = printable_labels [OF ok] printable_summary_texts [OF ok]
  have "list_all line_printable (identity_lines a (sn_summary d))"
    using labels by (simp add: identity_lines_def printable_lit is_control_def)
  then have "list_all line_printable (compact_lines a d)" "list_all line_printable (info_lines now a d)"
    using labels by (simp_all add: compact_lines_def info_lines_def Let_def printable_lit is_control_def)
  moreover have "list_all line_printable (diagnostics_lines a d)"
    by (simp add: diagnostics_lines_def Let_def printable_lit is_control_def)
  moreover have "chart_printable (rtt_chart d)" "chart_printable (retransmit_chart a d)"
    by (simp_all add: rtt_chart_def retransmit_chart_def printable_lit is_control_def)
  ultimately show ?thesis using Some by (simp add: draw_detail_def)
qed

section \<open>Runs against the daemon\<close>

definition app_texts_ok :: "ui_app \<Rightarrow> bool" where
  "app_texts_ok a \<longleftrightarrow>
     list_all texts_ok (ap_summaries a) \<and> (\<forall>d. ap_detail a = Some d \<longrightarrow> texts_ok (sn_summary d))
     \<and> (\<forall>p. ap_pending a = Some p \<longrightarrow> printable (pt_label p)) \<and> printable_opt (ap_notice a) \<and> printable_opt (ap_error a)"

text \<open>Lists and details come from registries of the daemon; errors print as plain text.\<close>

definition daemon_answers :: "app_config \<Rightarrow> ui_world \<Rightarrow> bool" where
  "daemon_answers c w \<longleftrightarrow>
     (\<forall>response s. uw_sessions w = Inr response \<and> s \<in> set (sr1_sessions response) \<longrightarrow>
        (\<exists>st now n. daemon_reachable c st \<and> s \<in> set (ex_sessions (export_summaries st now n))))
     \<and> (\<forall>path response. uw_detail w path = Inr response \<longrightarrow>
        (\<exists>st k now. daemon_reachable c st \<and> session_detail st k now = Some (sr2_session response)))"

definition printable_failures :: "ui_world \<Rightarrow> bool" where
  "printable_failures w \<longleftrightarrow>
     (\<forall>e. uw_sessions w = Inl e \<longrightarrow> printable e) \<and> (\<forall>path e. uw_detail w path = Inl e \<longrightarrow> printable e)
     \<and> (\<forall>path e. uw_terminate w path = Inl e \<longrightarrow> printable e)"

definition world_ok :: "app_config \<Rightarrow> ui_world \<Rightarrow> bool" where
  "world_ok c w \<longleftrightarrow> daemon_answers c w \<and> printable_failures w"

lemma daemon_record_texts:
  assumes "daemon_reachable c st" "(k, r) \<in> set (st_sessions st)"
  shows "texts_ok (sr_summary r)"
  using daemon_texts_ok [OF assms(1)] assms(2) by (auto simp: entries_ok_def record_printable_def)

lemma answered_texts:
  assumes "daemon_answers c w"
  shows "uw_sessions w = Inr response \<Longrightarrow> list_all texts_ok (sr1_sessions response)"
    and "uw_detail w path = Inr detail \<Longrightarrow> texts_ok (sn_summary (sr2_session detail))"
proof -
  assume "uw_sessions w = Inr response"
  show "list_all texts_ok (sr1_sessions response)"
  proof (unfold list_all_iff, rule ballI)
    fix s assume "s \<in> set (sr1_sessions response)"
    with assms \<open>uw_sessions w = Inr response\<close> obtain st now n where
      st: "daemon_reachable c st" "s \<in> set (ex_sessions (export_summaries st now n))"
      unfolding daemon_answers_def by blast
    from st(2) obtain k r where "(k, r) \<in> set (st_sessions st)" "s = materialize_summary (st_config st) r now"
      by (rule exported_session)
    with daemon_record_texts [OF st(1)] show "texts_ok s" by simp
  qed
next
  assume "uw_detail w path = Inr detail"
  with assms obtain st k now where
    st: "daemon_reachable c st" "session_detail st k now = Some (sr2_session detail)"
    unfolding daemon_answers_def by blast
  from st(2) obtain r p t h where r: "map_of (st_sessions st) k = Some r"
    "with_history (materialize_summary (st_config st) r now) p t h = sr2_session detail"
    by (auto simp: session_detail_def Let_def)
  have "sn_summary (sr2_session detail) = materialize_summary (st_config st) r now"
    unfolding r(2) [symmetric] by (simp add: with_history_def)
  with daemon_record_texts [OF st(1) map_of_SomeD [OF r(1)]] show "texts_ok (sn_summary (sr2_session detail))" by simp
qed

lemma refresh_texts:
  assumes "app_texts_ok a" "world_ok c w"
  shows "app_texts_ok (fst (refresh w now a))"
proof -
  note answers = answered_texts [of c w]
  have w: "daemon_answers c w" "printable_failures w" using assms(2) by (simp_all add: world_ok_def)
  show ?thesis
  proof (cases "uw_sessions w")
    case (Inl e)
    then show ?thesis
      using assms(1) w(2) by (simp add: refresh_def app_texts_ok_def printable_failures_def printable_lit is_control_def)
  next
    case (Inr response)
    have detail: "app_texts_ok (fst (refresh_detail w k d b))"
      if "app_texts_ok (b\<lparr>ap_detail := d\<rparr>)" for k d b
      using that answers(2) [OF w(1)] w(2)
      by (auto simp: refresh_detail_def app_texts_ok_def printable_failures_def printable_lit is_control_def
          split: option.split sum.split)
    have "app_texts_ok (b\<lparr>ap_last_refresh := now\<rparr>) = app_texts_ok b" for b by (simp add: app_texts_ok_def)
    then show ?thesis
      using Inr assms(1) answers(1) [OF w(1) Inr]
      by (simp add: refresh_def Let_def split_beta) (rule detail, simp add: app_texts_ok_def)
  qed
qed

lemma app_texts_updates [simp]:
  "app_texts_ok (a\<lparr>ap_selected := n\<rparr>) = app_texts_ok a"
  "app_texts_ok a \<Longrightarrow> app_texts_ok (a\<lparr>ap_pending := None\<rparr>)"
  "app_texts_ok a \<Longrightarrow> printable_opt t \<Longrightarrow> app_texts_ok (a\<lparr>ap_notice := t\<rparr>)"
  "app_texts_ok a \<Longrightarrow> printable_opt t \<Longrightarrow> app_texts_ok (a\<lparr>ap_error := t\<rparr>)"
  by (simp_all add: app_texts_ok_def)

lemma arm_terminate_texts:
  assumes "app_texts_ok a"
  shows "app_texts_ok (arm_terminate a)"
proof (cases "selected_summary a")
  case (Some s)
  then have "texts_ok s" using assms by (auto simp: selected_summary_def app_texts_ok_def list_all_length split: if_splits)
  with assms Some show ?thesis by (simp add: arm_terminate_def app_texts_ok_def printable_labels)
qed (use assms in \<open>simp add: arm_terminate_def printable_lit is_control_def\<close>)

lemma confirm_terminate_texts:
  assumes "app_texts_ok a" "world_ok c w"
  shows "app_texts_ok (fst (confirm_terminate w now a))"
proof (cases "ap_pending a")
  case (Some p)
  then have "printable (pt_label p)" "\<And>path e. uw_terminate w path = Inl e \<Longrightarrow> printable e"
    using assms by (simp_all add: app_texts_ok_def world_ok_def printable_failures_def)
  with assms Some show ?thesis
    by (simp add: confirm_terminate_def Let_def split_beta refresh_texts printable_lit is_control_def split: sum.split)
qed (use assms in \<open>simp add: confirm_terminate_def printable_lit is_control_def\<close>)

lemma handle_key_texts:
  assumes "app_texts_ok a" "world_ok c w" "fst (handle_key w now k a) = Some a'"
  shows "app_texts_ok a'"
proof -
  have "app_texts_ok (move_selection d a)" for d using assms(1) by (simp add: move_selection_def)
  then show ?thesis
    using assms arm_terminate_texts [OF assms(1)] confirm_terminate_texts [OF assms(1,2)] unfolding handle_key_def
    by (auto simp: map_prod_def split_beta cancel_terminate_def printable_lit is_control_def
        intro: refresh_texts [OF _ assms(2)] split: if_split_asm)
qed

lemma run_round_texts:
  assumes "app_texts_ok a" "world_ok c (ur_world r)" "world_ok c (ur_tick_world r)" "run_round r a = (Some a', requests)"
  shows "app_texts_ok a'"
proof -
  have "app_texts_ok (fst (due_refresh r a))"
    using assms(1,3) by (simp add: due_refresh_def refresh_texts)
  then show ?thesis using assms(2,4) handle_key_texts
    by (cases "ur_input r") (fastforce simp: run_round_def split_beta)+
qed

lemma ui_run_texts:
  assumes "ui_run start rounds a" "app_texts_ok start"
    and "\<forall>(r, b, q) \<in> set rounds. world_ok c (ur_world r) \<and> world_ok c (ur_tick_world r)"
  shows "app_texts_ok a"
  using assms by (induction rule: ui_run.induct) (auto intro: run_round_texts)

lemma status_line_printable:
  assumes "app_texts_ok a" "printable socket"
  shows "printable (status_line now socket width a)"
proof -
  have "printable (status_message_text width t)" if "printable t" for t
    using that by (simp add: status_message_text_def)
  then have "printable (format_status_messages width (ap_notice a) (ap_error a))"
    using assms(1) by (simp add: format_status_messages_def app_texts_ok_def printable_opt_def printable_lit is_control_def split: option.split)
  with assms show ?thesis
    by (simp add: status_line_def Let_def app_texts_ok_def printable_lit is_control_def split: option.split)
qed

text \<open>
  C11: Whatever other users' processes, peers and telemetry put into a session's texts, in every
  run of the terminal interface whose lists and details come from registries that the daemon can
  reach, no text on the screen, neither the status line and its prompt nor a table cell, a detail
  or a chart title, contains a control character, so that no session can send escape sequences to
  the terminal; the texts of failed requests and the path of the socket are taken to be free of them.
\<close>
theorem drawn_text_is_printable:
  assumes "ui_run (fst (refresh w0 t0 (new_app period started))) rounds a"
    and "world_ok c w0" "\<forall>(r, b, q) \<in> set rounds. world_ok c (ur_world r) \<and> world_ok c (ur_tick_world r)"
    and "printable socket"
  shows "case draw split now socket frame a of (status, sessions, detail) \<Rightarrow>
    printable status \<and> table_view_printable sessions \<and> detail_printable detail"
proof -
  have "app_texts_ok (new_app period started)" by (simp add: app_texts_ok_def new_app_def)
  then have "app_texts_ok (fst (refresh w0 t0 (new_app period started)))" using assms(2) by (rule refresh_texts)
  then have ok: "app_texts_ok a" using ui_run_texts [OF assms(1) _ assms(3)] by blast
  then have "list_all texts_ok (ap_summaries a)" "\<forall>d. ap_detail a = Some d \<longrightarrow> texts_ok (sn_summary d)"
    by (simp_all add: app_texts_ok_def)
  then show ?thesis
    using status_line_printable [OF ok assms(4)] draw_table_printable draw_detail_printable
    by (simp add: draw_def Let_def)
qed

definition listing_world :: "service_state \<Rightarrow> ui_world" where
  "listing_world st = ui_example_world\<lparr>uw_sessions :=
     Inr \<lparr>sr1_schema_version = 2, sr1_observer = \<lparr>node_name = lit ''n'', system_id = lit ''s''\<rparr>,
          sr1_generated_at_unix_ms = 2000001, sr1_total_sessions = 1, sr1_truncated_session_count = 0,
          sr1_dropped_sessions_total = 0, sr1_sessions = ex_sessions (export_summaries st 2000001 5)\<rparr>\<rparr>"

theorem drawn_text_is_printable_witness:
  "\<exists>st. daemon_reachable default_config st \<and> st_sessions st \<noteq> []
     \<and> (\<forall>split. case draw split 0 (lit ''/run/s'') (80, 24) (fst (refresh (listing_world st) 1000 (new_app 1000 1000)))
          of (status, sessions, detail) \<Rightarrow> printable status \<and> table_view_printable sessions \<and> detail_printable detail)"
proof -
  obtain st r where st: "daemon_reachable default_config st" "(instrumented_session_id 7 1005000, r) \<in> set (st_sessions st)"
    using example_daemon_session by blast
  have "daemon_answers default_config (listing_world st)" "printable_failures (listing_world st)"
    using st(1) by (auto simp: listing_world_def ui_example_world_def daemon_answers_def printable_failures_def)
  then have "world_ok default_config (listing_world st)" by (simp add: world_ok_def)
  moreover have "printable (lit ''/run/s'')" by (simp add: printable_lit is_control_def)
  ultimately have "case draw split 0 (lit ''/run/s'') (80, 24) (fst (refresh (listing_world st) 1000 (new_app 1000 1000)))
      of (status, sessions, detail) \<Rightarrow> printable status \<and> table_view_printable sessions \<and> detail_printable detail" for split
    by (intro drawn_text_is_printable [OF ui_start]) simp_all
  moreover have "st_sessions st \<noteq> []" using st(2) by auto
  ultimately show ?thesis using st(1) by blast
qed

end
