(* ===== verification/Secure_Files.thy ===== *)
theory Secure_Files
  imports Config Discovery Identity
begin

text \<open>
  The owner-only files and directories of \<open>moshwatch-core/src/config.rs\<close>: where they are, how
  they are created, read and replaced, and the bearer token of the metrics listener.

  A disk maps paths to nodes; a path names its node directly, which is how the code uses the
  directories that \<open>create_secure_dir\<close> has checked for links.  Which system calls fail, how many
  bytes a failing write leaves behind, and the answers of \<open>getrandom\<close> are given by the
  environment.  An operation yields a value, or nothing for an error, and the disk after it.
\<close>

unbundle bit_operations_syntax

section \<open>The disk\<close>

type_synonym file_mode = "16 word"

datatype node_kind = RegularFile bytes | Directory | Symlink | SocketNode | OtherNode

record node =
  nd_kind :: node_kind
  nd_mode :: file_mode

datatype random_answer = Interrupted | RandomFailed | RandomBytes bytes

record disk =
  dk_nodes :: "path \<Rightarrow> node option"
  dk_random :: "random_answer list"

datatype system_call =
  Stat path | Mkdir path | Chmod path | OpenRead path | ReadFile path | CreateFile path | WriteFile path
  | StatOpen path | ChmodOpen path | Rename path path | Unlink path | BindSocket path

record fs_env =
  fe_fails :: "system_call \<Rightarrow> bool"
  fe_torn :: "path \<Rightarrow> nat"
  fe_umask :: file_mode

type_synonym 'a on_disk = "disk \<Rightarrow> 'a option \<times> disk"

definition node_at :: "disk \<Rightarrow> path \<Rightarrow> node option" where
  "node_at d p = dk_nodes d p"

definition set_node :: "path \<Rightarrow> node option \<Rightarrow> disk \<Rightarrow> disk" where
  "set_node p n d = d\<lparr>dk_nodes := (dk_nodes d)(p := n)\<rparr>"

definition succeed :: "'a \<Rightarrow> 'a on_disk" where "succeed v d = (Some v, d)"
definition fail :: "'a on_disk" where "fail d = (None, d)"

definition on_success :: "'a on_disk \<Rightarrow> ('a \<Rightarrow> 'b on_disk) \<Rightarrow> 'b on_disk" where
  "on_success f g d = (case f d of (None, d') \<Rightarrow> (None, d') | (Some v, d') \<Rightarrow> g v d')"

text \<open>\<open>symlink_metadata\<close>: an error, nothing there, or the node.\<close>

definition stat_node :: "fs_env \<Rightarrow> path \<Rightarrow> node option on_disk" where
  "stat_node e p d = (if fe_fails e (Stat p) then fail d else succeed (node_at d p) d)"

definition set_permissions :: "fs_env \<Rightarrow> path \<Rightarrow> file_mode \<Rightarrow> unit on_disk" where
  "set_permissions e p mode d =
     (if fe_fails e (Chmod p) then fail d
      else (case node_at d p of
              None \<Rightarrow> fail d
            | Some n \<Rightarrow> succeed () (set_node p (Some (n\<lparr>nd_mode := mode\<rparr>)) d)))"

section \<open>Directories\<close>

fun secure_components :: "fs_env \<Rightarrow> path \<Rightarrow> path \<Rightarrow> unit on_disk" where
  "secure_components e current [] d = succeed () d"
| "secure_components e current (c # cs) d =
     on_success (stat_node e (current @ [c]))
       (\<lambda>found. case found of
          Some n \<Rightarrow>
            if nd_kind n \<noteq> Directory then fail
            else secure_components e (current @ [c]) cs
        | None \<Rightarrow>
            if fe_fails e (Mkdir (current @ [c])) then fail
            else (\<lambda>d'. secure_components e (current @ [c]) cs
                    (set_node (current @ [c]) (Some \<lparr>nd_kind = Directory, nd_mode = 511 AND NOT (fe_umask e)\<rparr>) d'))) d"

definition create_secure_dir :: "fs_env \<Rightarrow> path \<Rightarrow> unit on_disk" where
  "create_secure_dir e p = on_success (secure_components e [] p) (\<lambda>_. set_permissions e p 448)"

definition path_exists :: "fs_env \<Rightarrow> path \<Rightarrow> bool on_disk" where
  "path_exists e p = on_success (stat_node e p) (\<lambda>found. succeed (found \<noteq> None))"

section \<open>Files\<close>

definition open_text_file_for_read :: "fs_env \<Rightarrow> path \<Rightarrow> bytes on_disk" where
  "open_text_file_for_read e p d =
     (if fe_fails e (OpenRead p) \<or> fe_fails e (StatOpen p) then fail d
      else (case node_at d p of
              None \<Rightarrow> fail d
            | Some n \<Rightarrow> (case nd_kind n of RegularFile bs \<Rightarrow> succeed bs d | _ \<Rightarrow> fail d)))"

definition read_text_file_securely :: "fs_env \<Rightarrow> path \<Rightarrow> nat \<Rightarrow> rstr on_disk" where
  "read_text_file_securely e p max_bytes =
     on_success (open_text_file_for_read e p)
       (\<lambda>bs. if fe_fails e (ReadFile p) then fail
            else let buffer = take (max_bytes + 1) bs in
              if length buffer > max_bytes then fail
              else (case from_utf8 buffer of None \<Rightarrow> fail | Some s \<Rightarrow> succeed s))"

definition write_new_text_file_securely :: "fs_env \<Rightarrow> path \<Rightarrow> bytes \<Rightarrow> unit on_disk" where
  "write_new_text_file_securely e p contents d =
     (if fe_fails e (CreateFile p) \<or> node_at d p \<noteq> None then fail d
      else let file = (\<lambda>bs mode. set_node p (Some \<lparr>nd_kind = RegularFile bs, nd_mode = mode\<rparr>) d);
               created = 384 AND NOT (fe_umask e)
           in if fe_fails e (WriteFile p) then fail (file (take (fe_torn e p) contents) created)
              else if fe_fails e (StatOpen p) \<or> fe_fails e (ChmodOpen p) then fail (file contents created)
              else succeed () (file contents 384))"

definition normalize_owner_only_regular_file :: "fs_env \<Rightarrow> path \<Rightarrow> unit on_disk" where
  "normalize_owner_only_regular_file e p =
     on_success (stat_node e p)
       (\<lambda>found. case found of
          None \<Rightarrow> fail
        | Some n \<Rightarrow> (case nd_kind n of RegularFile bs \<Rightarrow> set_permissions e p 384 | _ \<Rightarrow> fail))"

definition rename :: "fs_env \<Rightarrow> path \<Rightarrow> path \<Rightarrow> unit on_disk" where
  "rename e from to d =
     (if fe_fails e (Rename from to) then fail d
      else (case (node_at d from, node_at d to) of
              (None, _) \<Rightarrow> fail d
            | (Some n, target) \<Rightarrow>
                if map_option nd_kind target = Some Directory then fail d
                else succeed () (set_node from None (set_node to (Some n) d))))"

definition remove_file :: "fs_env \<Rightarrow> path \<Rightarrow> disk \<Rightarrow> disk" where
  "remove_file e p d = (if fe_fails e (Unlink p) then d else set_node p None d)"

section \<open>Randomness\<close>

text \<open>\<open>getrandom\<close> until the buffer is full; a list of answers that ends stands for a call that fails.\<close>

fun fill_from :: "nat \<Rightarrow> random_answer list \<Rightarrow> bytes option \<times> random_answer list" where
  "fill_from 0 answers = (Some [], answers)"
| "fill_from (Suc n) [] = (None, [])"
| "fill_from (Suc n) (Interrupted # answers) = fill_from (Suc n) answers"
| "fill_from (Suc n) (RandomFailed # answers) = (None, answers)"
| "fill_from (Suc n) (RandomBytes bs # answers) =
     (case fill_from (Suc n - length bs) answers of
        (None, rest) \<Rightarrow> (None, rest)
      | (Some more_bytes, rest) \<Rightarrow> (Some (take (Suc n) bs @ more_bytes), rest))"

definition fill_random_bytes :: "nat \<Rightarrow> bytes on_disk" where
  "fill_random_bytes n d =
     (case fill_from n (dk_random d) of (filled, answers) \<Rightarrow> (filled, d\<lparr>dk_random := answers\<rparr>))"

section \<open>Replacing a file\<close>

definition temporary_name :: "bytes \<Rightarrow> bytes \<Rightarrow> bytes" where
  "temporary_name file random =
     utf8_encode (lit ''.'' @ from_utf8_lossy file @ lit ''.'' @ hex_bytes random @ lit ''.tmp'')"

fun temporary_attempts :: "fs_env \<Rightarrow> path \<Rightarrow> bytes \<Rightarrow> nat \<Rightarrow> path on_disk" where
  "temporary_attempts e dir file 0 = fail"
| "temporary_attempts e dir file (Suc n) =
     on_success (fill_random_bytes 6)
       (\<lambda>random. let candidate = join_name dir (temporary_name file random) in
          on_success (path_exists e candidate)
            (\<lambda>there. if there then temporary_attempts e dir file n else succeed candidate))"

definition unique_temporary_path_in_same_dir :: "fs_env \<Rightarrow> path \<Rightarrow> path on_disk" where
  "unique_temporary_path_in_same_dir e p =
     (case (parent p, file_name p) of
        (Some dir, Some file) \<Rightarrow> temporary_attempts e dir file 32
      | _ \<Rightarrow> fail)"

definition write_text_file_securely_replace :: "fs_env \<Rightarrow> path \<Rightarrow> bytes \<Rightarrow> unit on_disk" where
  "write_text_file_securely_replace e p contents =
     on_success (unique_temporary_path_in_same_dir e p)
       (\<lambda>temporary d.
          (case on_success (write_new_text_file_securely e temporary contents) (\<lambda>_. rename e temporary p) d of
             (None, d') \<Rightarrow> (None, remove_file e temporary d')
           | (Some u, d') \<Rightarrow> (Some u, d')))"

section \<open>Where the files are\<close>

record runtime_paths =
  rp_runtime_dir :: path
  rp_state_dir :: path
  rp_history_dir :: path
  rp_metrics_token_path :: path
  rp_telemetry_socket :: path
  rp_api_socket :: path
  rp_config_path :: path

text \<open>
  The environment variables, the directories that \<open>ProjectDirs\<close> names, and \<open>/run/user/<uid>\<close>
  when that is a directory.
\<close>

record path_sources =
  ps_var :: "string \<Rightarrow> bytes option"
  ps_project_config :: "path option"
  ps_project_data :: "path option"
  ps_run_user :: "path option"

definition join_str :: "path \<Rightarrow> string \<Rightarrow> path" where
  "join_str p s = join_name p (utf8_encode (lit s))"

definition ends_with_name :: "path \<Rightarrow> string \<Rightarrow> bool" where
  "ends_with_name p s \<longleftrightarrow> p \<noteq> [] \<and> last p = Normal (utf8_encode (lit s))"

definition discover_paths :: "path_sources \<Rightarrow> runtime_paths" where
  "discover_paths s =
     (let var = (\<lambda>name. map_option components (ps_var s name));
          home = (\<lambda>below. map_option (\<lambda>h. join_str h below) (var ''HOME''));
          config_root =
            unwrap_or (opt_or (var ''XDG_CONFIG_HOME'') (opt_or (home ''.config'') (ps_project_config s)))
              (path_of ''/tmp'');
          runtime_root =
            unwrap_or (opt_or (var ''XDG_RUNTIME_DIR'') (opt_or (ps_run_user s) (home ''.local/state/moshwatch/runtime'')))
              (path_of ''/tmp/moshwatch-runtime'');
          state_root =
            unwrap_or (opt_or (var ''XDG_STATE_HOME'') (opt_or (home ''.local/state'') (ps_project_data s)))
              (path_of ''/tmp'');
          runtime_dir = (if ends_with_name runtime_root ''runtime'' then runtime_root else join_str runtime_root ''moshwatch'');
          state_dir = (if ends_with_name state_root ''moshwatch'' then state_root else join_str state_root ''moshwatch'')
      in \<lparr>rp_runtime_dir = runtime_dir, rp_state_dir = state_dir, rp_history_dir = join_str state_dir ''history'',
          rp_metrics_token_path = join_str state_dir ''metrics.token'',
          rp_telemetry_socket = join_str runtime_dir ''telemetry.sock'',
          rp_api_socket = join_str runtime_dir ''api.sock'',
          rp_config_path = join_str (join_str config_root ''moshwatch'') ''moshwatch.toml''\<rparr>)"

definition ensure_runtime_dir :: "fs_env \<Rightarrow> runtime_paths \<Rightarrow> unit on_disk" where
  "ensure_runtime_dir e ps = create_secure_dir e (rp_runtime_dir ps)"

definition ensure_state_dir :: "fs_env \<Rightarrow> runtime_paths \<Rightarrow> unit on_disk" where
  "ensure_state_dir e ps =
     on_success (create_secure_dir e (rp_state_dir ps)) (\<lambda>_. create_secure_dir e (rp_history_dir ps))"

section \<open>The configuration file\<close>

text \<open>\<open>from_toml\<close> and \<open>to_toml\<close> are the TOML crate.\<close>

definition load_config :: "fs_env \<Rightarrow> http_crate \<Rightarrow> (rstr \<Rightarrow> app_config option) \<Rightarrow> runtime_paths \<Rightarrow> app_config on_disk" where
  "load_config e http from_toml ps =
     on_success (path_exists e (rp_config_path ps))
       (\<lambda>there. if \<not> there then succeed default_config
          else on_success (read_text_file_securely e (rp_config_path ps) (1024 * 1024))
            (\<lambda>raw. case from_toml raw of
               None \<Rightarrow> fail
             | Some parsed \<Rightarrow> (case validate http parsed of Inl err \<Rightarrow> fail | Inr u \<Rightarrow> succeed parsed)))"

definition ensure_config_parent :: "fs_env \<Rightarrow> runtime_paths \<Rightarrow> unit on_disk" where
  "ensure_config_parent e ps =
     (case parent (rp_config_path ps) of None \<Rightarrow> succeed () | Some dir \<Rightarrow> create_secure_dir e dir)"

definition maybe_write_default_config :: "fs_env \<Rightarrow> (app_config \<Rightarrow> rstr option) \<Rightarrow> runtime_paths \<Rightarrow> unit on_disk" where
  "maybe_write_default_config e to_toml ps =
     on_success (ensure_config_parent e ps)
       (\<lambda>_. on_success (path_exists e (rp_config_path ps))
          (\<lambda>there. if there then succeed ()
             else (case to_toml default_config of
                     None \<Rightarrow> fail
                   | Some text' \<Rightarrow> write_new_text_file_securely e (rp_config_path ps) (utf8_encode text'))))"

section \<open>The metrics token\<close>

definition is_ascii_hexdigit :: "uchar \<Rightarrow> bool" where
  "is_ascii_hexdigit c \<longleftrightarrow> (48 \<le> c \<and> c \<le> 57) \<or> (97 \<le> c \<and> c \<le> 102) \<or> (65 \<le> c \<and> c \<le> 70)"

definition validate_metrics_auth_token :: "rstr \<Rightarrow> rstr option" where
  "validate_metrics_auth_token token =
     (if utf8_len token \<noteq> 64 then None
      else if \<not> list_all is_ascii_hexdigit token then None
      else Some (to_ascii_lowercase token))"

definition generate_metrics_auth_token :: "rstr on_disk" where
  "generate_metrics_auth_token = on_success (fill_random_bytes 32) (\<lambda>bs. succeed (hex_bytes bs))"

definition of_option :: "'a option \<Rightarrow> 'a on_disk" where
  "of_option v d = (v, d)"

definition create_metrics_auth_token_file :: "fs_env \<Rightarrow> path \<Rightarrow> rstr on_disk" where
  "create_metrics_auth_token_file e p =
     on_success generate_metrics_auth_token
       (\<lambda>token. on_success (write_new_text_file_securely e p (utf8_encode token))
          (\<lambda>_. of_option (validate_metrics_auth_token token)))"

definition replace_text_file_securely :: "fs_env \<Rightarrow> path \<Rightarrow> rstr on_disk \<Rightarrow> rstr on_disk" where
  "replace_text_file_securely e p generate_contents =
     on_success (stat_node e p)
       (\<lambda>found. case found of
          None \<Rightarrow> fail
        | Some n \<Rightarrow>
            (case nd_kind n of
               RegularFile bs \<Rightarrow>
                 on_success generate_contents
                   (\<lambda>contents. on_success (of_option (validate_metrics_auth_token contents))
                      (\<lambda>validated. on_success (write_text_file_securely_replace e p (utf8_encode contents))
                         (\<lambda>_. succeed validated)))
             | _ \<Rightarrow> fail))"

definition load_or_create_metrics_auth_token :: "fs_env \<Rightarrow> runtime_paths \<Rightarrow> rstr on_disk" where
  "load_or_create_metrics_auth_token e ps =
     (let p = rp_metrics_token_path ps in
      on_success (ensure_state_dir e ps)
        (\<lambda>_. on_success (path_exists e p)
           (\<lambda>there.
              if there then
                on_success (normalize_owner_only_regular_file e p)
                  (\<lambda>_. on_success (read_text_file_securely e p 256)
                     (\<lambda>token. case validate_metrics_auth_token (trim token) of
                        Some valid \<Rightarrow> succeed valid
                      | None \<Rightarrow> replace_text_file_securely e p generate_metrics_auth_token))
              else create_metrics_auth_token_file e p)))"

definition ensure_metrics_auth_token_file_matches :: "fs_env \<Rightarrow> runtime_paths \<Rightarrow> rstr \<Rightarrow> bool on_disk" where
  "ensure_metrics_auth_token_file_matches e ps expected =
     (let p = rp_metrics_token_path ps in
      on_success (ensure_state_dir e ps)
        (\<lambda>_. on_success (of_option (validate_metrics_auth_token expected))
           (\<lambda>token. on_success (path_exists e p)
              (\<lambda>there.
                 if there then
                   on_success (normalize_owner_only_regular_file e p)
                     (\<lambda>_. on_success (read_text_file_securely e p 256)
                        (\<lambda>found.
                           if validate_metrics_auth_token (trim found) = Some token then succeed False
                           else on_success (write_text_file_securely_replace e p (utf8_encode token)) (\<lambda>_. succeed True)))
                 else on_success (write_new_text_file_securely e p (utf8_encode token)) (\<lambda>_. succeed True)))))"

section \<open>Sockets\<close>

definition remove_socket_if_present :: "fs_env \<Rightarrow> path \<Rightarrow> unit on_disk" where
  "remove_socket_if_present e p =
     on_success (stat_node e p)
       (\<lambda>found. case found of
          None \<Rightarrow> succeed ()
        | Some n \<Rightarrow>
            if nd_kind n \<noteq> SocketNode \<or> fe_fails e (Unlink p) then fail
            else (\<lambda>d. succeed () (set_node p None d)))"

definition set_socket_owner_only :: "fs_env \<Rightarrow> path \<Rightarrow> unit on_disk" where
  "set_socket_owner_only e p =
     on_success (stat_node e p)
       (\<lambda>found. case found of
          None \<Rightarrow> fail
        | Some n \<Rightarrow> if nd_kind n \<noteq> SocketNode then fail else set_permissions e p 384)"

end
