(* ===== verification/Daemon_Process.thy ===== *)
theory Daemon_Process
  imports Secure_Files Daemon Publisher Api
begin

text \<open>
  The process of \<open>moshwatchd/src/main.rs\<close>: the start-up from arguments and configuration to a
  running daemon, the bodies of its background loops, their interleaving as a step relation, and
  the end of the process.

  Tasks interleave at their awaits: the writers hold the lock of the registry for one update and
  ask for a snapshot after it; the publisher exports under the lock and sends the frame after it.
\<close>

section \<open>Start-up\<close>

definition startup_paths :: "args \<Rightarrow> runtime_paths \<Rightarrow> runtime_paths" where
  "startup_paths a ps =
     (let ps1 = (case arg_api_socket a of Some p \<Rightarrow> ps\<lparr>rp_api_socket := p\<rparr> | None \<Rightarrow> ps)
      in case arg_telemetry_socket a of Some p \<Rightarrow> ps1\<lparr>rp_telemetry_socket := p\<rparr> | None \<Rightarrow> ps1)"

text \<open>\<open>UnixListener::bind\<close>, and the restriction of the socket to its owner that follows it.\<close>

definition bind_socket :: "fs_env \<Rightarrow> path \<Rightarrow> unit on_disk" where
  "bind_socket e p d =
     (if fe_fails e (BindSocket p) \<or> node_at d p \<noteq> None then fail d
      else succeed () (set_node p (Some \<lparr>nd_kind = SocketNode, nd_mode = 511 AND NOT (fe_umask e)\<rparr>) d))"

definition bind_owner_only_socket :: "fs_env \<Rightarrow> path \<Rightarrow> unit on_disk" where
  "bind_owner_only_socket e p = on_success (bind_socket e p) (\<lambda>_. set_socket_owner_only e p)"

text \<open>The beginning of \<open>run_api\<close>, in its own task.\<close>

definition open_api_socket :: "fs_env \<Rightarrow> path \<Rightarrow> unit on_disk" where
  "open_api_socket e p = on_success (remove_socket_if_present e p) (\<lambda>_. bind_owner_only_socket e p)"

text \<open>What start-up reads besides arguments and disk; the last two are the history directory.\<close>

record host =
  ho_http :: http_crate
  ho_from_toml :: "rstr \<Rightarrow> app_config option"
  ho_to_toml :: "app_config \<Rightarrow> rstr option"
  ho_sha256 :: "bytes \<Rightarrow> bytes"
  ho_hostname :: "rstr option"
  ho_machine_ids :: "file_read list"
  ho_history_io :: io_faults
  ho_history_dir :: "directory option"

record daemon =
  dm_paths :: runtime_paths
  dm_config :: app_config
  dm_observer :: observer_info
  dm_state :: service_state
  dm_hub :: snapshot_hub
  dm_stats :: runtime_stats
  dm_history :: "history_store option"
  dm_token :: "rstr option"
  dm_publisher :: publisher
  dm_export :: "(exported_summaries \<times> i64) option"
  dm_unsignalled :: nat
  dm_connections :: nat

definition startup_history :: "host \<Rightarrow> observer_info \<Rightarrow> app_config \<Rightarrow> history_store option" where
  "startup_history ho observer c =
     (let p = persistence c in
      if pc_enabled p then
        Some (new_history_store (ho_history_io ho) observer (ho_history_dir ho)
          (retention_days p) (max_query_samples p) (max_disk_bytes p))
      else None)"

definition startup_token :: "fs_env \<Rightarrow> runtime_paths \<Rightarrow> app_config \<Rightarrow> rstr option on_disk" where
  "startup_token e ps c =
     (case listen_addr (mc_prometheus (metrics_cfg c)) of
        None \<Rightarrow> succeed None
      | Some _ \<Rightarrow> on_success (load_or_create_metrics_auth_token e ps) (\<lambda>t. succeed (Some t)))"

definition new_daemon :: "host \<Rightarrow> runtime_paths \<Rightarrow> app_config \<Rightarrow> rstr option \<Rightarrow> i64 \<Rightarrow> daemon" where
  "new_daemon ho ps c token now =
     (let observer = discover_observer_info (ho_sha256 ho) (ho_hostname ho) (ho_machine_ids ho);
          st = new_state c
      in \<lparr>dm_paths = ps, dm_config = c, dm_observer = observer, dm_state = st,
          dm_hub = publish_snapshot_now (ho_sha256 ho) st now (new_hub observer now),
          dm_stats = new_runtime_stats (discovery_interval_ms c)
            (if pc_enabled (persistence c) then Some (sample_interval_ms (persistence c)) else None) (refresh_ms c),
          dm_history = startup_history ho observer c, dm_token = token,
          dm_publisher = new_publisher, dm_export = None, dm_unsignalled = 0, dm_connections = 0\<rparr>)"

text \<open>Everything before the tasks: the configuration that is in force and the bearer token.\<close>

definition prepare_daemon :: "fs_env \<Rightarrow> host \<Rightarrow> args \<Rightarrow> runtime_paths \<Rightarrow> (app_config \<times> rstr option) on_disk" where
  "prepare_daemon e ho a ps =
     on_success (ensure_runtime_dir e ps) (\<lambda>_.
     on_success (ensure_state_dir e ps) (\<lambda>_.
     on_success (if arg_no_write_config a then succeed () else maybe_write_default_config e (ho_to_toml ho) ps) (\<lambda>_.
     on_success (load_config e (ho_http ho) (ho_from_toml ho) ps) (\<lambda>loaded.
     on_success (of_option (startup_config a loaded)) (\<lambda>c.
     on_success (remove_socket_if_present e (rp_api_socket ps)) (\<lambda>_.
     on_success (remove_socket_if_present e (rp_telemetry_socket ps)) (\<lambda>_.
     on_success (startup_token e ps c) (\<lambda>token.
     succeed (c, token)))))))))"

definition start_daemon :: "fs_env \<Rightarrow> host \<Rightarrow> args \<Rightarrow> runtime_paths \<Rightarrow> i64 \<Rightarrow> daemon on_disk" where
  "start_daemon e ho a discovered now =
     (let ps = startup_paths a discovered in
      on_success (prepare_daemon e ho a ps) (\<lambda>(c, token).
      on_success (bind_owner_only_socket e (rp_telemetry_socket ps)) (\<lambda>_.
      succeed (new_daemon ho ps c token now))))"

section \<open>The bodies of the loops\<close>

text \<open>
  A discovery cycle ends with a list of sessions, an error of the scan, or (nothing) the loss of
  its blocking task; only a list touches the registry.  Its writer still has to ask for a snapshot.
\<close>

definition discovery_update :: "discovered_session list attempt option \<Rightarrow> i64 \<Rightarrow> daemon \<Rightarrow> daemon" where
  "discovery_update scan now dm =
     (case scan of
        Some (Value ds) \<Rightarrow>
          dm\<lparr>dm_state := refresh_discovery (dm_state dm) ds now, dm_unsignalled := Suc (dm_unsignalled dm)\<rparr>
      | _ \<Rightarrow> dm)"

definition discovery_cycle_end :: "nat \<Rightarrow> daemon \<Rightarrow> daemon" where
  "discovery_cycle_end elapsed dm = dm\<lparr>dm_stats := record_discovery elapsed (dm_stats dm)\<rparr>"

definition telemetry_update :: "rstr \<Rightarrow> telemetry_event \<Rightarrow> i64 \<Rightarrow> daemon \<Rightarrow> daemon" where
  "telemetry_update k ev now dm =
     dm\<lparr>dm_state := apply_telemetry (dm_state dm) k ev now, dm_unsignalled := Suc (dm_unsignalled dm)\<rparr>"

text \<open>A connection for which no slot is free is dropped.\<close>

definition TELEMETRY_CONNECTION_SLOTS :: nat where "TELEMETRY_CONNECTION_SLOTS = 64"

definition accept_telemetry :: "daemon \<Rightarrow> daemon" where
  "accept_telemetry dm =
     (if dm_connections dm \<ge> TELEMETRY_CONNECTION_SLOTS then dm
      else dm\<lparr>dm_connections := Suc (dm_connections dm)\<rparr>)"

text \<open>The write of a sampler round may fail; the store counts that, and the loop goes on.\<close>

definition history_cycle :: "(history_sample \<Rightarrow> bytes) \<Rightarrow> io_faults \<Rightarrow> i64 \<Rightarrow> nat \<Rightarrow> daemon \<Rightarrow> daemon" where
  "history_cycle to_json io now elapsed dm =
     (case dm_history dm of
        None \<Rightarrow> dm
      | Some store \<Rightarrow>
          dm\<lparr>dm_history := Some (snd (record_summaries to_json io now (summaries (dm_state dm) now) store)),
             dm_stats := record_history elapsed (dm_stats dm)\<rparr>)"

definition token_cycle :: "fs_env \<Rightarrow> daemon \<Rightarrow> disk \<Rightarrow> disk" where
  "token_cycle e dm d =
     (case dm_token dm of
        None \<Rightarrow> d
      | Some expected \<Rightarrow> snd (ensure_metrics_auth_token_file_matches e (dm_paths dm) expected d))"

section \<open>The daemon at work\<close>

datatype daemon_action =
    TelemetryUpdate | DiscoveryUpdate | DiscoveryCycleEnd | HistoryCycle | AcceptTelemetry | CloseTelemetry
  | AskForSnapshot | ExportSnapshot i64 | PublisherMove publisher_op

definition daemon_interval :: "daemon \<Rightarrow> nat" where
  "daemon_interval dm = unat (refresh_ms (dm_config dm))"

inductive daemon_step :: "(bytes \<Rightarrow> bytes) \<Rightarrow> daemon \<Rightarrow> daemon_action \<Rightarrow> daemon \<Rightarrow> bool" for sha256 where
  step_telemetry: "0 < dm_connections dm \<Longrightarrow>
    handle_telemetry_stream clock from_json (verify_telemetry_peer credentials euid fs cur) (r :: unit timed_reader)
      = (res, applied) \<Longrightarrow>
    (k, ev) \<in> set applied \<Longrightarrow> daemon_step sha256 dm TelemetryUpdate (telemetry_update k ev now dm)"
| step_discovery: "scan \<in> {None, Some (discover_mosh_sessions fs cur)} \<Longrightarrow>
    daemon_step sha256 dm DiscoveryUpdate (discovery_update scan now dm)"
| step_discovery_end: "daemon_step sha256 dm DiscoveryCycleEnd (discovery_cycle_end elapsed dm)"
| step_history: "daemon_step sha256 dm HistoryCycle (history_cycle to_json io now elapsed dm)"
| step_accept: "daemon_step sha256 dm AcceptTelemetry (accept_telemetry dm)"
| step_close: "0 < dm_connections dm \<Longrightarrow>
    daemon_step sha256 dm CloseTelemetry (dm\<lparr>dm_connections := dm_connections dm - 1\<rparr>)"
| step_ask: "0 < dm_unsignalled dm \<Longrightarrow> publisher_step (daemon_interval dm) (dm_publisher dm) StoreDirty p \<Longrightarrow>
    daemon_step sha256 dm AskForSnapshot (dm\<lparr>dm_publisher := p, dm_unsignalled := dm_unsignalled dm - 1\<rparr>)"
| step_export: "pub_pc (dm_publisher dm) = Publishing \<Longrightarrow> dm_export dm = None \<Longrightarrow>
    daemon_step sha256 dm (ExportSnapshot now)
      (dm\<lparr>dm_export := Some (export_summaries (dm_state dm) now MAX_EXPORTED_SESSIONS, now)\<rparr>)"
| step_send: "dm_export dm = Some (ex, now) \<Longrightarrow>
    publisher_step (daemon_interval dm) (dm_publisher dm) (PublishNow t) p \<Longrightarrow>
    daemon_step sha256 dm (PublisherMove (PublishNow t))
      (dm\<lparr>dm_publisher := p, dm_hub := publish_snapshot sha256 ex now (dm_hub dm), dm_export := None,
          dm_stats := record_snapshot elapsed (dm_stats dm)\<rparr>)"
| step_publisher: "op \<in> {NotifyOne, SwapDirty, WakeUp, DrainPermit, DeadlineAt t} \<Longrightarrow>
    publisher_step (daemon_interval dm) (dm_publisher dm) op p \<Longrightarrow>
    daemon_step sha256 dm (PublisherMove op) (dm\<lparr>dm_publisher := p\<rparr>)"

inductive_cases daemon_stepE: "daemon_step sha256 dm a dm'"

inductive daemon_run :: "(bytes \<Rightarrow> bytes) \<Rightarrow> daemon \<Rightarrow> daemon_action list \<Rightarrow> daemon \<Rightarrow> bool" for sha256 where
  daemon_run_nil: "daemon_run sha256 dm [] dm"
| daemon_run_cons: "daemon_step sha256 dm a dm' \<Longrightarrow> daemon_run sha256 dm' as dm'' \<Longrightarrow> daemon_run sha256 dm (a # as) dm''"

section \<open>The end of the process\<close>

datatype daemon_task =
  DiscoveryTask | TelemetryTask | ApiTask | HistoryTask | MetricsTask | MetricsTokenTask | OtlpTask | SnapshotTask

definition optional_task :: "bool \<Rightarrow> daemon_task \<Rightarrow> daemon_task list" where
  "optional_task spawned task = (if spawned then [task] else [])"

definition running_tasks :: "daemon \<Rightarrow> daemon_task list" where
  "running_tasks dm =
     (let listening = listen_addr (mc_prometheus (metrics_cfg (dm_config dm))) \<noteq> None in
      [DiscoveryTask, TelemetryTask, ApiTask]
      @ optional_task (pc_enabled (persistence (dm_config dm))) HistoryTask
      @ optional_task listening MetricsTask
      @ optional_task listening MetricsTokenTask
      @ optional_task (otlp_enabled (mc_otlp (metrics_cfg (dm_config dm)))) OtlpTask
      @ [SnapshotTask])"

text \<open>What ends the wait of \<open>main\<close>; no task is meant to end, with or without a panic.\<close>

datatype wake = SignalHandlersFailed | ShutdownSignal | TaskEnded daemon_task bool

definition unexpected_task_exit :: "bool \<Rightarrow> bool" where
  "unexpected_task_exit panicked = False"

definition shutdown_result :: "wake \<Rightarrow> bool" where
  "shutdown_result w =
     (case w of
        SignalHandlersFailed \<Rightarrow> False
      | ShutdownSignal \<Rightarrow> True
      | TaskEnded task panicked \<Rightarrow> unexpected_task_exit panicked)"

definition stop_daemon :: "fs_env \<Rightarrow> wake \<Rightarrow> daemon \<Rightarrow> unit on_disk" where
  "stop_daemon e w dm =
     on_success (remove_socket_if_present e (rp_api_socket (dm_paths dm))) (\<lambda>_.
     on_success (remove_socket_if_present e (rp_telemetry_socket (dm_paths dm))) (\<lambda>_.
     if shutdown_result w then succeed () else fail))"

end
