(* ===== verification/Secure_Files_Facts.thy ===== *)
theory Secure_Files_Facts
  imports Secure_Files
begin

text \<open>
  What the owner-only files guarantee, on any disk and whatever system calls fail: the metrics
  token stays one token, its file is private, and nothing but it is overwritten.
\<close>

section \<open>Operations one at a time\<close>

lemma on_success_Some_iff:
  "on_success f g d = (Some v, d') \<longleftrightarrow> (\<exists>u d1. f d = (Some u, d1) \<and> g u d1 = (Some v, d'))"
  by (auto simp: on_success_def split: prod.splits option.splits)

lemma on_success_cases:
  assumes "on_success f g d = (r, d')"
  obtains "f d = (None, d')" "r = None" | u d1 where "f d = (Some u, d1)" "g u d1 = (r, d')"
  using assms by (auto simp: on_success_def split: prod.splits option.splits)

lemma outcome_simps [simp]:
  "succeed v d = (r, d') \<longleftrightarrow> r = Some v \<and> d' = d" "fail d = (r, d') \<longleftrightarrow> r = None \<and> d' = d"
  "of_option w d = (r, d') \<longleftrightarrow> r = w \<and> d' = d"
  by (auto simp: succeed_def fail_def of_option_def)

lemma node_at_set_node [simp]: "node_at (set_node p n d) q = (if q = p then n else node_at d q)"
  by (simp add: node_at_def set_node_def)

lemma stat_node_result: "stat_node e p d = (r, d') \<Longrightarrow> d' = d \<and> (r = None \<or> r = Some (node_at d p))"
  by (auto simp: stat_node_def split: if_splits)

lemma path_exists_result: "path_exists e p d = (r, d') \<Longrightarrow> d' = d \<and> (\<forall>b. r = Some b \<longrightarrow> b = (node_at d p \<noteq> None))"
  unfolding path_exists_def by (erule on_success_cases) (fastforce dest: stat_node_result)+

lemma set_permissions_result:
  "set_permissions e p mode d = (r, d') \<Longrightarrow>
     r = None \<and> d' = d \<or> (\<exists>n. node_at d p = Some n \<and> r = Some () \<and> d' = set_node p (Some (n\<lparr>nd_mode := mode\<rparr>)) d)"
  by (auto simp: set_permissions_def split: if_splits option.splits)

text \<open>What a disk keeps: everything but files and directories at the given paths.\<close>

definition special :: "node \<Rightarrow> bool" where
  "special n \<longleftrightarrow> nd_kind n = Symlink \<or> nd_kind n = SocketNode \<or> nd_kind n = OtherNode"

definition keeps :: "path set \<Rightarrow> disk \<Rightarrow> disk \<Rightarrow> bool" where
  "keeps A d d' \<longleftrightarrow> (\<forall>q n. node_at d q = Some n \<longrightarrow> q \<in> A \<and> \<not> special n \<or> node_at d' q = Some n)"

lemma keeps_refl [simp]: "keeps A d d"
  by (simp add: keeps_def)

lemma keeps_trans: "keeps A d d1 \<Longrightarrow> keeps A d1 d2 \<Longrightarrow> keeps A d d2"
  unfolding keeps_def by blast

lemma keeps_mono: "keeps A d d' \<Longrightarrow> A \<subseteq> B \<Longrightarrow> keeps B d d'"
  unfolding keeps_def by blast

lemma keeps_absent: "node_at d p = None \<Longrightarrow> keeps A d (set_node p n d)"
  by (auto simp: keeps_def)

lemma keeps_set: "node_at d p = Some n \<Longrightarrow> \<not> special n \<Longrightarrow> keeps {p} d (set_node p m d)"
  by (auto simp: keeps_def)

lemma keeps_except:
  assumes "\<And>q. q \<noteq> t \<Longrightarrow> node_at d' q = node_at d q" "node_at d t = None"
  shows "keeps A d d'"
  unfolding keeps_def
proof (intro allI impI)
  fix q n assume "node_at d q = Some n"
  then show "q \<in> A \<and> \<not> special n \<or> node_at d' q = Some n"
    using assms(1) [of q] assms(2) by (cases "q = t") simp_all
qed

section \<open>Directories\<close>

lemma secure_components_result:
  assumes "secure_components e current cs d = (r, d')"
  shows "keeps {} d d'
    \<and> (r \<noteq> None \<longrightarrow> cs \<noteq> [] \<longrightarrow> (\<exists>n. node_at d' (current @ cs) = Some n \<and> nd_kind n = Directory))"
  using assms
proof (induction cs arbitrary: current d)
  case Nil
  then show ?case by simp
next
  case (Cons c cs)
  let ?p = "current @ [c]"
  show ?case
  proof (cases "fe_fails e (Stat ?p)")
    case True
    then show ?thesis using Cons.prems by (auto simp: on_success_def stat_node_def fail_def)
  next
    case False
    have step: "\<exists>n. node_at d1 ?p = Some n \<and> nd_kind n = Directory \<Longrightarrow> keeps {} d d1 \<Longrightarrow>
        secure_components e ?p cs d1 = (r, d') \<Longrightarrow> ?thesis" for d1
    proof -
      assume there: "\<exists>n. node_at d1 ?p = Some n \<and> nd_kind n = Directory" and d1: "keeps {} d d1"
        and run: "secure_components e ?p cs d1 = (r, d')"
      from Cons.IH [OF run] have ih: "keeps {} d1 d'"
        "r \<noteq> None \<longrightarrow> cs \<noteq> [] \<longrightarrow> (\<exists>n. node_at d' (?p @ cs) = Some n \<and> nd_kind n = Directory)" by simp_all
      from keeps_trans [OF d1 ih(1)] show ?thesis
        using ih there by (cases "cs = []") (auto simp: keeps_def)
    qed
    show ?thesis
    proof (cases "node_at d ?p")
      case None
      show ?thesis
      proof (cases "fe_fails e (Mkdir ?p)")
        case True
        then show ?thesis using Cons.prems None False
          by (auto simp: on_success_def stat_node_def succeed_def fail_def)
      next
        case okay: False
        then show ?thesis using Cons.prems None False
          by (intro step [of "set_node ?p (Some \<lparr>nd_kind = Directory, nd_mode = 511 AND NOT (fe_umask e)\<rparr>) d"] keeps_absent)
            (auto simp: on_success_def stat_node_def succeed_def)
      qed
    next
      case (Some n)
      show ?thesis
      proof (cases "nd_kind n = Directory")
        case True
        then have "secure_components e ?p cs d = (r, d')"
          using Cons.prems Some False by (simp add: on_success_def stat_node_def succeed_def)
        then show ?thesis by (rule step [OF _ keeps_refl, rotated]) (use Some True in simp)
      next
        case no: False
        then show ?thesis using Cons.prems Some False by (simp add: on_success_def stat_node_def succeed_def)
      qed
    qed
  qed
qed

definition private_dir :: "disk \<Rightarrow> path \<Rightarrow> bool" where
  "private_dir d p \<longleftrightarrow> (\<exists>n. node_at d p = Some n \<and> nd_kind n = Directory \<and> nd_mode n = 448)"

lemma create_secure_dir_result:
  assumes "create_secure_dir e p d = (r, d')" "p \<noteq> []"
  shows "keeps {p} d d' \<and> (r \<noteq> None \<longrightarrow> private_dir d' p)"
proof -
  from assms(1) consider "secure_components e [] p d = (None, d')" "r = None"
    | d1 where "secure_components e [] p d = (Some (), d1)" "set_permissions e p 448 d1 = (r, d')"
    unfolding create_secure_dir_def by (auto elim: on_success_cases)
  then show ?thesis
  proof cases
    case 1
    then show ?thesis using secure_components_result [OF 1(1)] by (auto intro: keeps_mono)
  next
    case (2 d1)
    from secure_components_result [OF 2(1)] assms(2) obtain n where
      d1: "keeps {} d d1" "node_at d1 p = Some n" "nd_kind n = Directory" by auto
    then have "keeps {p} d1 (set_node p (Some (n\<lparr>nd_mode := 448\<rparr>)) d1)"
      by (simp add: keeps_set special_def)
    with d1 have "keeps {p} d (set_node p (Some (n\<lparr>nd_mode := 448\<rparr>)) d1)" "keeps {p} d d1"
      by (auto intro: keeps_trans keeps_mono)
    with set_permissions_result [OF 2(2)] d1 show ?thesis by (auto simp: private_dir_def)
  qed
qed

section \<open>Reading and writing\<close>

definition holds_file :: "disk \<Rightarrow> path \<Rightarrow> bytes \<Rightarrow> bool" where
  "holds_file d p bs \<longleftrightarrow> (\<exists>n. node_at d p = Some n \<and> nd_kind n = RegularFile bs)"

definition private_file :: "disk \<Rightarrow> path \<Rightarrow> bytes \<Rightarrow> bool" where
  "private_file d p bs \<longleftrightarrow> node_at d p = Some \<lparr>nd_kind = RegularFile bs, nd_mode = 384\<rparr>"

lemma private_holds [intro]: "private_file d p bs \<Longrightarrow> holds_file d p bs"
  by (simp add: private_file_def holds_file_def)

lemma holds_file_inj: "holds_file d p bs \<Longrightarrow> holds_file d p cs \<Longrightarrow> bs = cs"
  by (auto simp: holds_file_def)

lemma read_result:
  assumes "read_text_file_securely e p n d = (r, d')"
  shows "d' = d \<and> (\<forall>s. r = Some s \<longrightarrow> (\<exists>bs. holds_file d p bs \<and> length bs \<le> n \<and> from_utf8 bs = Some s))"
proof -
  have open_file: "open_text_file_for_read e p d = (q, d1) \<Longrightarrow> d1 = d \<and> (\<forall>bs. q = Some bs \<longrightarrow> holds_file d p bs)" for q d1
    by (auto simp: open_text_file_for_read_def holds_file_def split: if_splits option.splits node_kind.splits)
  from assms show ?thesis unfolding read_text_file_securely_def
  proof (cases rule: on_success_cases)
    case 1
    then show ?thesis using open_file by auto
  next
    case (2 bs d1)
    then show ?thesis using open_file [OF 2(1)]
      by (auto simp: Let_def split: if_splits option.splits intro!: exI [of _ bs])
  qed
qed

lemma normalize_result:
  assumes "normalize_owner_only_regular_file e p d = (r, d')"
  shows "keeps {p} d d' \<and> (r \<noteq> None \<longrightarrow> (\<exists>bs. holds_file d p bs \<and> private_file d' p bs)) \<and> (r = None \<longrightarrow> d' = d)"
proof -
  have "r = None \<and> d' = d \<or> (\<exists>n bs. r = Some () \<and> node_at d p = Some n \<and> nd_kind n = RegularFile bs
      \<and> d' = set_node p (Some (n\<lparr>nd_mode := 384\<rparr>)) d)"
    using assms unfolding normalize_owner_only_regular_file_def
    by (auto elim!: on_success_cases dest!: stat_node_result set_permissions_result split: option.splits node_kind.splits)
  then show ?thesis
  proof (elim disjE exE conjE)
    fix n bs assume n: "r = Some ()" "node_at d p = Some n" "nd_kind n = RegularFile bs"
      "d' = set_node p (Some (n\<lparr>nd_mode := 384\<rparr>)) d"
    then have "keeps {p} d d'" by (simp add: keeps_set special_def)
    moreover have "private_file d' p bs" "holds_file d p bs"
      using n by (cases n; simp add: private_file_def holds_file_def)+
    ultimately show ?thesis using n(1) by blast
  qed simp
qed

lemma write_new_result:
  assumes "write_new_text_file_securely e p bs d = (r, d')"
  shows "(d' = d \<or> node_at d p = None \<and> (\<exists>n. d' = set_node p (Some n) d))
    \<and> (r \<noteq> None \<longrightarrow> node_at d p = None \<and> private_file d' p bs)"
  using assms by (auto simp: write_new_text_file_securely_def Let_def private_file_def split: if_splits)

lemma fill_random_result:
  assumes "fill_random_bytes n d = (r, d')"
  shows "dk_nodes d' = dk_nodes d \<and> (\<forall>bs. r = Some bs \<longrightarrow> length bs = n)"
proof -
  have "fst (fill_from n answers) = Some bs \<Longrightarrow> length bs = n" for answers bs
  proof (induction n answers arbitrary: bs rule: fill_from.induct)
    case (5 n cs answers)
    obtain filled rest where fill: "fill_from (Suc n - length cs) answers = (filled, rest)" by fastforce
    with 5 show ?case by (cases filled) auto
  qed simp_all
  from this [of "dk_random d"] show ?thesis
    using assms by (cases "fill_from n (dk_random d)") (auto simp: fill_random_bytes_def)
qed

section \<open>Replacing\<close>

definition same_nodes :: "disk \<Rightarrow> disk \<Rightarrow> bool" where
  "same_nodes d d' \<longleftrightarrow> dk_nodes d' = dk_nodes d"

lemma same_nodes_at: "same_nodes d d' \<Longrightarrow> node_at d' q = node_at d q"
  by (simp add: same_nodes_def node_at_def)

lemma same_nodes_keeps: "same_nodes d d' \<Longrightarrow> keeps A d d'"
  by (simp add: keeps_def same_nodes_at)

lemma temporary_attempts_result:
  "temporary_attempts e dir file n d = (r, d') \<Longrightarrow>
     same_nodes d d' \<and> (\<forall>t. r = Some t \<longrightarrow> node_at d t = None)"
proof (induction n arbitrary: d)
  case (Suc n)
  show ?case
  proof (cases rule: on_success_cases [OF Suc.prems [unfolded temporary_attempts.simps]])
    case 1
    then show ?thesis using fill_random_result [OF 1(1)] by (simp add: same_nodes_def)
  next
    case (2 random d1)
    let ?t = "join_name dir (temporary_name file random)"
    have d1: "same_nodes d d1" using fill_random_result [OF 2(1)] by (simp add: same_nodes_def)
    show ?thesis
    proof (cases rule: on_success_cases [OF 2(2) [unfolded Let_def]])
      case 1
      then show ?thesis using d1 path_exists_result [OF 1(1)] by simp
    next
      case (2 there d2)
      have d2: "d2 = d1" "there = (node_at d1 ?t \<noteq> None)" using path_exists_result [OF 2(1)] by auto
      show ?thesis
      proof (cases there)
        case True
        then have "temporary_attempts e dir file n d1 = (r, d')" using 2(2) d2(1) by simp
        from Suc.IH [OF this] d1 show ?thesis by (auto simp: same_nodes_def node_at_def)
      next
        case False
        then show ?thesis using 2(2) d1 d2 by (auto simp: same_nodes_at)
      qed
    qed
  qed
qed (simp add: same_nodes_def)

lemma unique_temporary_result:
  "unique_temporary_path_in_same_dir e p d = (r, d') \<Longrightarrow>
     same_nodes d d' \<and> (\<forall>t. r = Some t \<longrightarrow> node_at d t = None)"
  by (auto simp: unique_temporary_path_in_same_dir_def same_nodes_def split: option.splits
      dest: temporary_attempts_result [unfolded same_nodes_def])

text \<open>A file is replaced as a whole or not at all.\<close>

lemma replace_result:
  assumes "write_text_file_securely_replace e p bs d = (r, d')" "holds_file d p old"
  shows "keeps {p} d d' \<and> (r \<noteq> None \<longrightarrow> private_file d' p bs) \<and> (r = None \<longrightarrow> node_at d' p = node_at d p)"
proof (cases rule: on_success_cases [OF assms(1) [unfolded write_text_file_securely_replace_def]])
  case 1
  then show ?thesis using unique_temporary_result [OF 1(1)] by (auto simp: keeps_def same_nodes_at)
next
  case (2 t d1)
  have d1: "same_nodes d d1" "node_at d t = None" using unique_temporary_result [OF 2(1)] by auto
  have tp: "t \<noteq> p" using d1(2) assms(2) by (auto simp: holds_file_def)
  have absent: "node_at d1 t = None" using d1 by (simp add: same_nodes_at)
  obtain w d2 where wr: "write_new_text_file_securely e t bs d1 = (w, d2)" by fastforce
  note wrote = write_new_result [OF wr]
  then have other: "node_at d2 q = node_at d q" if "q \<noteq> t" for q
    using that d1(1) by (auto simp: same_nodes_at)
  show ?thesis
  proof (cases w)
    case None
    then have r: "r = None" "d' = remove_file e t d2" using 2(2) wr by (auto simp: on_success_def)
    have away: "node_at d' q = node_at d q" if "q \<noteq> t" for q
      unfolding r(2) using other [OF that] that by (simp add: remove_file_def)
    show ?thesis using r(1) tp away [of p] keeps_except [OF away d1(2), where A = "{p}"] by simp
  next
    case (Some u)
    have put: "private_file d2 t bs" using wrote Some by simp
    obtain m d3 where move: "rename e t p d2 = (m, d3)" by fastforce
    show ?thesis
    proof (cases m)
      case None
      then have "d3 = d2" using move by (auto simp: rename_def split: if_splits option.splits)
      then have r: "r = None" "d' = remove_file e t d2" using 2(2) wr Some move None by (auto simp: on_success_def)
      have away: "node_at d' q = node_at d q" if "q \<noteq> t" for q
        unfolding r(2) using other [OF that] that by (simp add: remove_file_def)
      show ?thesis using r(1) tp away [of p] keeps_except [OF away d1(2), where A = "{p}"] by simp
    next
      case moved: (Some u')
      then have d3: "d3 = set_node t None (set_node p (node_at d2 t) d2)"
        using move by (auto simp: rename_def split: if_splits option.splits)
      have r: "r = Some ()" "d' = d3" using 2(2) wr Some move moved by (auto simp: on_success_def)
      have "private_file d' p bs" using r(2) d3 put tp by (simp add: private_file_def)
      moreover have "keeps {p} d d'"
        unfolding keeps_def
      proof (intro allI impI)
        fix q n assume q: "node_at d q = Some n"
        show "q \<in> {p} \<and> \<not> special n \<or> node_at d' q = Some n"
        proof (cases "q = p")
          case True
          then show ?thesis using q assms(2) by (auto simp: holds_file_def special_def)
        next
          case False
          moreover have "q \<noteq> t" using q d1(2) by auto
          ultimately show ?thesis using q r(2) d3 other by simp
        qed
      qed
      ultimately show ?thesis using r(1) by simp
    qed
  qed
qed

section \<open>Tokens\<close>

definition token_of :: "bytes \<Rightarrow> rstr option" where
  "token_of bs = (if length bs \<le> 256 then Option.bind (from_utf8 bs) (\<lambda>s. validate_metrics_auth_token (trim s)) else None)"

definition valid_token :: "rstr \<Rightarrow> bool" where
  "valid_token t \<longleftrightarrow> length t = 64 \<and> (\<forall>c \<in> set t. (48 \<le> c \<and> c \<le> 57) \<or> (97 \<le> c \<and> c \<le> 102))"

lemma validated_token:
  assumes "validate_metrics_auth_token s = Some t"
  shows "valid_token t"
proof -
  have s: "utf8_len s = 64" "list_all is_ascii_hexdigit s" "t = to_ascii_lowercase s"
    using assms by (auto simp: validate_metrics_auth_token_def split: if_splits)
  have "utf8_len s = length s" using s(2)
    by (induction s) (auto simp: utf8_len_def utf8_len_char_def is_ascii_hexdigit_def)
  with s show ?thesis
    by (auto simp: valid_token_def to_ascii_lowercase_def ascii_lower_char_def list_all_iff is_ascii_hexdigit_def)
qed

lemma valid_token_validates:
  assumes "valid_token t"
  shows "validate_metrics_auth_token t = Some t" "token_of (utf8_encode t) = Some t"
proof -
  have hex: "list_all is_ascii_hexdigit t" "\<forall>c \<in> set t. c < 128 \<and> is_scalar c \<and> \<not> is_whitespace c"
    using assms by (auto simp: valid_token_def list_all_iff is_ascii_hexdigit_def is_scalar_def is_whitespace_def)
  have "utf8_len t = length t" using hex(2) by (induction t) (auto simp: utf8_len_def utf8_len_char_def)
  moreover have "to_ascii_lowercase t = t"
    using assms by (auto simp: to_ascii_lowercase_def ascii_lower_char_def valid_token_def intro!: map_idI)
  ultimately show v: "validate_metrics_auth_token t = Some t"
    using assms hex(1) by (simp add: validate_metrics_auth_token_def valid_token_def)
  have "t \<noteq> []" using assms by (auto simp: valid_token_def)
  then have "trim t = t" using hex(2) by (intro trim_id) auto
  moreover have "from_utf8 (utf8_encode t) = Some t" using hex(2) by (intro from_utf8_encode) (simp add: list_all_iff)
  moreover have "length (utf8_encode t) \<le> 256"
    using \<open>utf8_len t = length t\<close> assms by (simp add: length_utf8_encode valid_token_def)
  ultimately show "token_of (utf8_encode t) = Some t" by (simp add: token_of_def v)
qed

lemma hex_digit_range: "n < 16 \<Longrightarrow> (48 \<le> hex_digit n \<and> hex_digit n \<le> 57) \<or> (97 \<le> hex_digit n \<and> hex_digit n \<le> 102)"
  by (simp add: hex_digit_def)

lemma generated_token:
  assumes "generate_metrics_auth_token d = (r, d')"
  shows "same_nodes d d' \<and> (\<forall>t. r = Some t \<longrightarrow> valid_token t)"
proof -
  have "valid_token (hex_bytes bs)" if "length bs = 32" for bs
  proof -
    have "c \<in> set (hex_byte b) \<Longrightarrow> (48 \<le> c \<and> c \<le> 57) \<or> (97 \<le> c \<and> c \<le> 102)" for c b
    proof -
      have "unat b < 256" using unsigned_less [of b, where ?'a = nat] by simp
      then have "unat b div 16 < 16" "unat b mod 16 < 16" by simp_all
      from this [THEN hex_digit_range] show "c \<in> set (hex_byte b) \<Longrightarrow> (48 \<le> c \<and> c \<le> 57) \<or> (97 \<le> c \<and> c \<le> 102)"
        unfolding hex_byte_def by auto
    qed
    moreover have "length (hex_bytes bs) = 2 * length bs"
      by (induction bs) (simp_all add: hex_bytes_def hex_byte_def)
    ultimately show ?thesis using that by (auto simp: valid_token_def hex_bytes_def)
  qed
  then show ?thesis using assms fill_random_result unfolding generate_metrics_auth_token_def same_nodes_def
    by (auto elim!: on_success_cases)
qed

section \<open>The token file\<close>

definition token_layout :: "runtime_paths \<Rightarrow> bool" where
  "token_layout ps \<longleftrightarrow> rp_state_dir ps \<noteq> [] \<and> rp_history_dir ps \<noteq> []
     \<and> distinct [rp_state_dir ps, rp_history_dir ps, rp_metrics_token_path ps]"

definition token_places :: "runtime_paths \<Rightarrow> path set" where
  "token_places ps = {rp_state_dir ps, rp_history_dir ps, rp_metrics_token_path ps}"

text \<open>The token on disk: in a private file of a private directory.\<close>

definition token_on_disk :: "runtime_paths \<Rightarrow> disk \<Rightarrow> rstr \<Rightarrow> bool" where
  "token_on_disk ps d t \<longleftrightarrow>
     private_dir d (rp_state_dir ps) \<and> (\<exists>bs. private_file d (rp_metrics_token_path ps) bs \<and> token_of bs = Some t)"

lemma keeps_private_dir: "private_dir d p \<Longrightarrow> keeps A d d' \<Longrightarrow> p \<notin> A \<Longrightarrow> private_dir d' p"
  by (fastforce simp: private_dir_def keeps_def)

lemma keeps_holds_file: "holds_file d p bs \<Longrightarrow> keeps A d d' \<Longrightarrow> p \<notin> A \<Longrightarrow> holds_file d' p bs"
  by (fastforce simp: holds_file_def keeps_def)

lemma ensure_state_dir_result:
  assumes "ensure_state_dir e ps d = (r, d')" "token_layout ps"
  shows "keeps {rp_state_dir ps, rp_history_dir ps} d d' \<and> (r \<noteq> None \<longrightarrow> private_dir d' (rp_state_dir ps))"
proof -
  have ne: "rp_state_dir ps \<noteq> []" "rp_history_dir ps \<noteq> []" "rp_state_dir ps \<noteq> rp_history_dir ps"
    using assms(2) by (auto simp: token_layout_def)
  show ?thesis
  proof (cases rule: on_success_cases [OF assms(1) [unfolded ensure_state_dir_def]])
    case 1
    then show ?thesis using create_secure_dir_result [OF 1(1) ne(1)] by (auto intro: keeps_mono)
  next
    case (2 u d1)
    note first = create_secure_dir_result [OF 2(1) ne(1)] and second = create_secure_dir_result [OF 2(2) ne(2)]
    have "keeps {rp_state_dir ps, rp_history_dir ps} d d1" "keeps {rp_state_dir ps, rp_history_dir ps} d1 d'"
      using first second by (auto intro: keeps_mono)
    moreover have "private_dir d' (rp_state_dir ps)"
      using first second ne(3) by (auto intro: keeps_private_dir)
    ultimately show ?thesis using keeps_trans by blast
  qed
qed

text \<open>Reading the normalized file gives the token its bytes stand for.\<close>

lemma read_token:
  assumes "private_file d p bs" "read_text_file_securely e p 256 d = (Some s, d')"
  shows "d' = d" "validate_metrics_auth_token (trim s) = token_of bs"
proof -
  from read_result [OF assms(2)] obtain cs where "d' = d" "holds_file d p cs" "length cs \<le> 256" "from_utf8 cs = Some s"
    by auto
  with holds_file_inj [OF private_holds [OF assms(1)]] show "d' = d" "validate_metrics_auth_token (trim s) = token_of bs"
    by (auto simp: token_of_def)
qed

lemma replace_with_token:
  assumes "replace_text_file_securely e p generate_metrics_auth_token d = (r, d')" "holds_file d p old"
  shows "keeps {p} d d' \<and> (\<forall>t. r = Some t \<longrightarrow> valid_token t \<and> private_file d' p (utf8_encode t))"
proof (cases rule: on_success_cases [OF assms(1) [unfolded replace_text_file_securely_def]])
  case 1
  then show ?thesis using stat_node_result [OF 1(1)] by simp
next
  case (2 found d0)
  obtain n where n: "node_at d p = Some n" "nd_kind n = RegularFile old" using assms(2) by (auto simp: holds_file_def)
  have "d0 = d" "found = Some n" using stat_node_result [OF 2(1)] n(1) by auto
  then have run: "on_success generate_metrics_auth_token
      (\<lambda>contents. on_success (of_option (validate_metrics_auth_token contents))
        (\<lambda>validated. on_success (write_text_file_securely_replace e p (utf8_encode contents)) (\<lambda>_. succeed validated))) d = (r, d')"
    using 2(2) n(2) by simp
  show ?thesis
  proof (cases rule: on_success_cases [OF run])
    case 1
    then show ?thesis using generated_token [OF 1(1)] by (simp add: same_nodes_keeps)
  next
    case (2 t d1)
    have gen: "same_nodes d d1" "valid_token t" using generated_token [OF 2(1)] by auto
    have file1: "holds_file d1 p old" using assms(2) gen(1) by (simp add: holds_file_def same_nodes_at)
    obtain w d2 where wr: "write_text_file_securely_replace e p (utf8_encode t) d1 = (w, d2)" by fastforce
    have "d' = d2" "r = (if w = None then None else Some t)"
      using 2(2) wr valid_token_validates(1) [OF gen(2)]
      by (auto simp: on_success_def of_option_def split: option.splits)
    then show ?thesis
      using replace_result [OF wr file1] gen(2) keeps_trans [OF same_nodes_keeps [OF gen(1)]] by auto
  qed
qed

text \<open>What reading or making the token does to its file.\<close>

definition token_step :: "path \<Rightarrow> disk \<Rightarrow> rstr option \<Rightarrow> disk \<Rightarrow> bool" where
  "token_step p d r d' \<longleftrightarrow>
     keeps {p} d d'
     \<and> (\<forall>t. r = Some t \<longrightarrow> valid_token t \<and> (\<exists>bs. private_file d' p bs \<and> token_of bs = Some t))
     \<and> (\<forall>old u. holds_file d p old \<and> token_of old = Some u \<longrightarrow> (r = None \<or> r = Some u) \<and> holds_file d' p old)"

lemma token_step_failed: "keeps {p} d d' \<Longrightarrow> (\<And>bs. holds_file d p bs \<Longrightarrow> holds_file d' p bs) \<Longrightarrow> token_step p d None d'"
  by (simp add: token_step_def)

lemma create_token_step:
  assumes "create_metrics_auth_token_file e p d = (r, d')" "node_at d p = None"
  shows "token_step p d r d'"
proof (cases rule: on_success_cases [OF assms(1) [unfolded create_metrics_auth_token_file_def]])
  case 1
  then show ?thesis using generated_token [OF 1(1)]
    by (auto simp: holds_file_def same_nodes_at intro!: token_step_failed same_nodes_keeps)
next
  case (2 t d1)
  have gen: "same_nodes d d1" "valid_token t" using generated_token [OF 2(1)] by auto
  have none: "node_at d1 p = None" using gen(1) assms(2) by (simp add: same_nodes_at)
  obtain w d2 where wr: "write_new_text_file_securely e p (utf8_encode t) d1 = (w, d2)" by fastforce
  have run: "d' = d2" "r = (if w = None then None else Some t)"
    using 2(2) wr valid_token_validates(1) [OF gen(2)]
    by (auto simp: on_success_def of_option_def split: option.splits)
  have "keeps {p} d1 d2" using write_new_result [OF wr] keeps_absent [OF none] by auto
  then have "keeps {p} d d2" using keeps_trans same_nodes_keeps [OF gen(1)] by blast
  moreover have "w \<noteq> None \<Longrightarrow> private_file d2 p (utf8_encode t)" using write_new_result [OF wr] by simp
  ultimately show ?thesis
    using run gen(2) assms(2) valid_token_validates(2) [OF gen(2)] by (auto simp: token_step_def holds_file_def)
qed

definition read_or_replace_token :: "fs_env \<Rightarrow> path \<Rightarrow> rstr on_disk" where
  "read_or_replace_token e p =
     on_success (normalize_owner_only_regular_file e p) (\<lambda>_. on_success (read_text_file_securely e p 256)
       (\<lambda>token. case validate_metrics_auth_token (trim token) of Some valid \<Rightarrow> succeed valid
          | None \<Rightarrow> replace_text_file_securely e p generate_metrics_auth_token))"

lemma existing_token_step:
  assumes "read_or_replace_token e p d = (r, d')"
  shows "token_step p d r d'"
proof (cases rule: on_success_cases [OF assms [unfolded read_or_replace_token_def]])
  case 1
  then show ?thesis using normalize_result [OF 1(1)] by (auto intro: token_step_failed)
next
  case (2 u d1)
  then obtain bs where d1: "keeps {p} d d1" "holds_file d p bs" "private_file d1 p bs"
    using normalize_result [OF 2(1)] by auto
  have kept: "holds_file d1 p old" "token_of old = token_of bs" if "holds_file d p old" for old
    using private_holds [OF d1(3)] unfolding holds_file_inj [OF that d1(2)] by simp_all
  show ?thesis
  proof (cases rule: on_success_cases [OF 2(2)])
    case 1
    then have r: "r = None" "d' = d1" using read_result [OF 1(1)] by simp_all
    show ?thesis unfolding r by (rule token_step_failed [OF d1(1) kept(1)])
  next
    case (2 s d2)
    have d2: "d2 = d1" "validate_metrics_auth_token (trim s) = token_of bs" using read_token [OF d1(3) 2(1)] by simp_all
    show ?thesis
    proof (cases "token_of bs")
      case (Some v)
      then have r: "r = Some v" "d' = d1" using 2(2) d2 by auto
      have "valid_token v" using Some d2(2) validated_token by metis
      moreover have "\<forall>old u. holds_file d p old \<and> token_of old = Some u \<longrightarrow> u = v \<and> holds_file d1 p old"
        using kept Some by fastforce
      ultimately show ?thesis unfolding token_step_def r using d1(1,3) Some by fastforce
    next
      case None
      then have "replace_text_file_securely e p generate_metrics_auth_token d1 = (r, d')" using 2(2) d2 by auto
      from replace_with_token [OF this private_holds [OF d1(3)]]
      have "keeps {p} d d'" "\<And>t. r = Some t \<Longrightarrow> valid_token t \<and> private_file d' p (utf8_encode t)"
        using keeps_trans [OF d1(1)] by auto
      moreover have "token_of old = None" if "holds_file d p old" for old using kept(2) [OF that] None by simp
      ultimately show ?thesis using valid_token_validates(2) by (fastforce simp: token_step_def)
    qed
  qed
qed

lemma load_token_result:
  assumes layout: "token_layout ps" and run: "load_or_create_metrics_auth_token e ps d = (r, d')"
  shows "keeps (token_places ps) d d'
    \<and> (\<forall>t. r = Some t \<longrightarrow> valid_token t \<and> token_on_disk ps d' t)
    \<and> (\<forall>old u. holds_file d (rp_metrics_token_path ps) old \<and> token_of old = Some u \<longrightarrow>
        (r = None \<or> r = Some u) \<and> holds_file d' (rp_metrics_token_path ps) old)"
proof -
  let ?p = "rp_metrics_token_path ps" and ?dirs = "{rp_state_dir ps, rp_history_dir ps}"
  have apart: "?p \<notin> ?dirs" "rp_state_dir ps \<notin> {?p}" using layout by (auto simp: token_layout_def)
  have sub: "?dirs \<subseteq> token_places ps" "{?p} \<subseteq> token_places ps" by (auto simp: token_places_def)
  show ?thesis
  proof (cases rule: on_success_cases [OF run [unfolded load_or_create_metrics_auth_token_def Let_def]])
    case 1
    then show ?thesis using ensure_state_dir_result [OF 1(1) layout] apart
      by (auto intro: keeps_mono [OF _ sub(1)] keeps_holds_file)
  next
    case (2 u d1)
    then have d1: "keeps ?dirs d d1" "private_dir d1 (rp_state_dir ps)"
      using ensure_state_dir_result [OF 2(1) layout] by auto
    have step: "token_step ?p d1 r d'"
    proof (cases rule: on_success_cases [OF 2(2)])
      case 1
      then show ?thesis using path_exists_result [OF 1(1)] by (auto intro: token_step_failed)
    next
      case (2 there d2)
      then show ?thesis using path_exists_result [OF 2(1)]
        by (cases there) (auto simp: read_or_replace_token_def [symmetric] intro: existing_token_step create_token_step)
    qed
    then have "keeps (token_places ps) d d'" "private_dir d' (rp_state_dir ps)"
      using keeps_trans [OF keeps_mono [OF d1(1) sub(1)] keeps_mono [OF _ sub(2)]] keeps_private_dir [OF d1(2) _ apart(2)]
      by (auto simp: token_step_def)
    moreover have "holds_file d1 ?p old" if "holds_file d ?p old" for old
      by (rule keeps_holds_file [OF that d1(1) apart(1)])
    ultimately show ?thesis using step unfolding token_on_disk_def token_step_def by blast
  qed
qed

lemma restore_step:
  assumes "on_success (path_exists e p) (\<lambda>there. if there then
          on_success (normalize_owner_only_regular_file e p) (\<lambda>_. on_success (read_text_file_securely e p 256)
            (\<lambda>found. if validate_metrics_auth_token (trim found) = Some t then succeed False
               else on_success (write_text_file_securely_replace e p (utf8_encode t)) (\<lambda>_. succeed True)))
        else on_success (write_new_text_file_securely e p (utf8_encode t)) (\<lambda>_. succeed True)) d = (r, d')"
    and valid: "valid_token t"
  shows "keeps {p} d d' \<and> (\<forall>b. r = Some b \<longrightarrow> (\<exists>bs. private_file d' p bs \<and> token_of bs = Some t)
    \<and> (\<forall>old. holds_file d p old \<and> token_of old = Some t \<longrightarrow> \<not> b))"
proof (cases rule: on_success_cases [OF assms(1)])
  case 1
  then show ?thesis using path_exists_result [OF 1(1)] by simp
next
  case (2 there d0)
  have d0: "d0 = d" "there = (node_at d p \<noteq> None)" using path_exists_result [OF 2(1)] by auto
  show ?thesis
  proof (cases there)
    case False
    then have none: "node_at d p = None" using d0 by simp
    obtain w d2 where wr: "write_new_text_file_securely e p (utf8_encode t) d = (w, d2)" by fastforce
    have "d' = d2" "r = (if w = None then None else Some True)" "keeps {p} d d2"
      using 2(2) wr d0 False write_new_result [OF wr] keeps_absent [OF none]
      by (auto simp: on_success_def split: option.splits)
    then show ?thesis
      using write_new_result [OF wr] none valid_token_validates(2) [OF valid] by (auto simp: holds_file_def)
  next
    case True
    then have run: "on_success (normalize_owner_only_regular_file e p) (\<lambda>_. on_success (read_text_file_securely e p 256)
            (\<lambda>found. if validate_metrics_auth_token (trim found) = Some t then succeed False
               else on_success (write_text_file_securely_replace e p (utf8_encode t)) (\<lambda>_. succeed True))) d = (r, d')"
      using 2(2) d0 by simp
    show ?thesis
    proof (cases rule: on_success_cases [OF run])
      case 1
      then show ?thesis using normalize_result [OF 1(1)] by simp
    next
      case (2 u d1)
      then obtain bs where d1: "keeps {p} d d1" "holds_file d p bs" "private_file d1 p bs"
        using normalize_result [OF 2(1)] by auto
      have same: "token_of old = token_of bs" if "holds_file d p old" for old
        unfolding holds_file_inj [OF that d1(2)] ..
      show ?thesis
      proof (cases rule: on_success_cases [OF 2(2)])
        case 1
        then show ?thesis using read_result [OF 1(1)] d1(1) by simp
      next
        case (2 s d2)
        have d2: "d2 = d1" "validate_metrics_auth_token (trim s) = token_of bs" using read_token [OF d1(3) 2(1)] by simp_all
        show ?thesis
        proof (cases "token_of bs = Some t")
          case True
          then show ?thesis using 2(2) d2 d1 by auto
        next
          case False
          obtain w d3 where wr: "write_text_file_securely_replace e p (utf8_encode t) d1 = (w, d3)" by fastforce
          have "d' = d3" "r = (if w = None then None else Some True)"
            using 2(2) d2 wr False by (auto simp: on_success_def split: option.splits)
          moreover have "keeps {p} d d3" using replace_result [OF wr private_holds [OF d1(3)]] keeps_trans [OF d1(1)] by blast
          moreover have "w \<noteq> None \<longrightarrow> private_file d3 p (utf8_encode t)"
            using replace_result [OF wr private_holds [OF d1(3)]] by blast
          moreover have "\<not> (holds_file d p old \<and> token_of old = Some t)" for old using same [of old] False by auto
          ultimately show ?thesis using valid_token_validates(2) [OF valid] by (cases w) auto
        qed
      qed
    qed
  qed
qed

lemma restore_token_result:
  assumes layout: "token_layout ps" and run: "ensure_metrics_auth_token_file_matches e ps expected d = (r, d')"
  shows "keeps (token_places ps) d d'
    \<and> (\<forall>b. r = Some b \<longrightarrow> (\<exists>t. validate_metrics_auth_token expected = Some t \<and> token_on_disk ps d' t
        \<and> (\<forall>old. holds_file d (rp_metrics_token_path ps) old \<and> token_of old = Some t \<longrightarrow> \<not> b)))"
proof -
  let ?p = "rp_metrics_token_path ps" and ?dirs = "{rp_state_dir ps, rp_history_dir ps}"
  have apart: "?p \<notin> ?dirs" "rp_state_dir ps \<notin> {?p}" using layout by (auto simp: token_layout_def)
  have sub: "?dirs \<subseteq> token_places ps" "{?p} \<subseteq> token_places ps" by (auto simp: token_places_def)
  show ?thesis
  proof (cases rule: on_success_cases [OF run [unfolded ensure_metrics_auth_token_file_matches_def Let_def]])
    case 1
    then show ?thesis using ensure_state_dir_result [OF 1(1) layout] by (auto intro: keeps_mono [OF _ sub(1)])
  next
    case (2 u d1)
    then have d1: "keeps ?dirs d d1" "private_dir d1 (rp_state_dir ps)"
      using ensure_state_dir_result [OF 2(1) layout] by auto
    show ?thesis
    proof (cases "validate_metrics_auth_token expected")
      case None
      then have "r = None" "d' = d1" using 2(2) by (auto simp: on_success_def of_option_def)
      then show ?thesis using keeps_mono [OF d1(1) sub(1)] by simp
    next
      case (Some t)
      define rest where "rest = (\<lambda>there. if there then
          on_success (normalize_owner_only_regular_file e ?p) (\<lambda>_. on_success (read_text_file_securely e ?p 256)
            (\<lambda>found. if validate_metrics_auth_token (trim found) = Some t then succeed False
               else on_success (write_text_file_securely_replace e ?p (utf8_encode t)) (\<lambda>_. succeed True)))
        else on_success (write_new_text_file_securely e ?p (utf8_encode t)) (\<lambda>_. succeed True))"
      have "on_success (path_exists e ?p) rest d1 = (r, d')"
        using 2(2) Some unfolding rest_def by (simp add: on_success_def of_option_def)
      then have step: "keeps {?p} d1 d' \<and> (\<forall>b. r = Some b \<longrightarrow> (\<exists>bs. private_file d' ?p bs \<and> token_of bs = Some t)
          \<and> (\<forall>old. holds_file d1 ?p old \<and> token_of old = Some t \<longrightarrow> \<not> b))"
        using validated_token [OF Some] unfolding rest_def by (rule restore_step)
      then have "keeps (token_places ps) d d'" "private_dir d' (rp_state_dir ps)"
        using keeps_trans [OF keeps_mono [OF d1(1) sub(1)] keeps_mono [OF _ sub(2)]] keeps_private_dir [OF d1(2) _ apart(2)]
        by auto
      moreover have "holds_file d1 ?p old" if "holds_file d ?p old" for old
        by (rule keeps_holds_file [OF that d1(1) apart(1)])
      ultimately show ?thesis using step Some by (auto simp: token_on_disk_def)
    qed
  qed
qed

section \<open>One private token\<close>

lemma join_str_names:
  "join_str p ''history'' = p @ [Normal (utf8_encode (lit ''history''))]"
  "join_str p ''metrics.token'' = p @ [Normal (utf8_encode (lit ''metrics.token''))]"
  "join_str p ''moshwatch'' = p @ [Normal (utf8_encode (lit ''moshwatch''))]"
proof -
  have "components (utf8_encode (lit ''history'')) = [Normal (utf8_encode (lit ''history''))]"
    "components (utf8_encode (lit ''metrics.token'')) = [Normal (utf8_encode (lit ''metrics.token''))]"
    "components (utf8_encode (lit ''moshwatch'')) = [Normal (utf8_encode (lit ''moshwatch''))]"
    "hd (utf8_encode (lit ''history'')) \<noteq> 47" "hd (utf8_encode (lit ''metrics.token'')) \<noteq> 47"
    "hd (utf8_encode (lit ''moshwatch'')) \<noteq> 47"
    by code_simp+
  then show "join_str p ''history'' = p @ [Normal (utf8_encode (lit ''history''))]"
    "join_str p ''metrics.token'' = p @ [Normal (utf8_encode (lit ''metrics.token''))]"
    "join_str p ''moshwatch'' = p @ [Normal (utf8_encode (lit ''moshwatch''))]"
    by (simp_all add: join_str_def join_name_def)
qed

lemma discovered_layout: "token_layout (discover_paths s)"
proof -
  have "utf8_encode (lit ''history'') \<noteq> utf8_encode (lit ''metrics.token'')" by code_simp
  then have "p \<noteq> [] \<Longrightarrow> token_layout (discover_paths s\<lparr>rp_state_dir := p, rp_history_dir := join_str p ''history'',
      rp_metrics_token_path := join_str p ''metrics.token''\<rparr>)" for p
    by (auto simp: token_layout_def join_str_names)
  moreover have "(if ends_with_name q ''moshwatch'' then q else join_str q ''moshwatch'') \<noteq> []" for q
    by (auto simp: join_str_names ends_with_name_def)
  ultimately show ?thesis unfolding token_layout_def by (simp add: discover_paths_def Let_def)
qed


text \<open>
  Repairing the token file for the token the daemon runs with either fails or leaves a
  private file from which that very token is loaded; it reports a change only if the file did not
  stand for the token before.
\<close>
theorem metrics_token_restored:
  assumes "token_layout ps" "ensure_metrics_auth_token_file_matches e ps expected d = (Some changed, d')"
  shows "\<exists>t. validate_metrics_auth_token expected = Some t \<and> token_on_disk ps d' t
    \<and> (changed \<longrightarrow> \<not> (\<exists>old. holds_file d (rp_metrics_token_path ps) old \<and> token_of old = Some t))
    \<and> (\<forall>e2. fst (load_or_create_metrics_auth_token e2 ps d') \<in> {None, Some t})"
proof -
  from restore_token_result [OF assms] obtain t where t: "validate_metrics_auth_token expected = Some t" "token_on_disk ps d' t"
    "\<forall>old. holds_file d (rp_metrics_token_path ps) old \<and> token_of old = Some t \<longrightarrow> \<not> changed" by auto
  then obtain bs where bs: "holds_file d' (rp_metrics_token_path ps) bs" "token_of bs = Some t"
    by (auto simp: token_on_disk_def)
  have "fst (load_or_create_metrics_auth_token e2 ps d') \<in> {None, Some t}" for e2
    using load_token_result [OF assms(1) surjective_pairing, where e = e2 and d = d'] bs by auto
  with t show ?thesis by blast
qed

text \<open>
  Loading and repairing the token, on success and on every failure, leave every file,
  directory, link, socket and device that existed before as it was, except for the token file and
  the permissions of the two state directories; a link or another special node is left alone even
  there, and then neither operation succeeds: no link is ever followed or replaced.
\<close>
theorem token_operations_touch_nothing_else:
  assumes "token_layout ps" "node_at d q = Some n"
    and "d' = snd (load_or_create_metrics_auth_token e ps d) \<or> d' = snd (ensure_metrics_auth_token_file_matches e ps expected d)"
  shows "(q \<notin> token_places ps \<or> special n \<longrightarrow> node_at d' q = Some n)
    \<and> (special n \<and> q \<in> {rp_state_dir ps, rp_metrics_token_path ps} \<longrightarrow>
        fst (load_or_create_metrics_auth_token e ps d) = None
        \<and> fst (ensure_metrics_auth_token_file_matches e ps expected d) = None)"
proof -
  let ?load = "load_or_create_metrics_auth_token e ps d" and ?match = "ensure_metrics_auth_token_file_matches e ps expected d"
  note load = load_token_result [OF assms(1) surjective_pairing, where e = e and d = d]
    and match = restore_token_result [OF assms(1) surjective_pairing, where e = e and expected = expected and d = d]
  have "q \<notin> token_places ps \<or> special n \<longrightarrow> node_at d' q = Some n"
    using assms(2,3) load match by (auto simp: keeps_def)
  moreover have blocked: "\<not> token_on_disk ps d2 t"
    if "special n" "q \<in> {rp_state_dir ps, rp_metrics_token_path ps}" "keeps (token_places ps) d d2" for d2 t
  proof -
    have "node_at d2 q = Some n" using that(1,3) assms(2) by (auto simp: keeps_def)
    then show ?thesis using that(1,2) by (auto simp: token_on_disk_def private_dir_def private_file_def special_def)
  qed
  have "fst ?load = None" "fst ?match = None" if "special n" "q \<in> {rp_state_dir ps, rp_metrics_token_path ps}"
    using blocked [OF that] load match by (cases "fst ?load"; cases "fst ?match"; auto)+
  ultimately show ?thesis by blast
qed

section \<open>Examples\<close>

definition example_sources :: "bytes option \<Rightarrow> path_sources" where
  "example_sources runtime =
     \<lparr>ps_var = (\<lambda>name. if name = ''HOME'' then Some (utf8_encode (lit ''/h''))
                else if name = ''XDG_RUNTIME_DIR'' then runtime else None),
      ps_project_config = None, ps_project_data = None, ps_run_user = None\<rparr>"

definition example_paths :: runtime_paths where
  "example_paths = discover_paths (example_sources None)"

definition no_disk_faults :: fs_env where
  "no_disk_faults = \<lparr>fe_fails = (\<lambda>call. False), fe_torn = (\<lambda>p. 0), fe_umask = 18\<rparr>"

definition empty_disk :: disk where
  "empty_disk = \<lparr>dk_nodes = (\<lambda>p. None), dk_random = [Interrupted, RandomBytes (replicate 20 1), RandomBytes (replicate 12 171)]\<rparr>"

definition example_token :: rstr where
  "example_token = hex_bytes (replicate 20 1 @ replicate 12 171)"

lemma example_load:
  "fst (load_or_create_metrics_auth_token no_disk_faults example_paths empty_disk) = Some example_token"
  by code_simp


lemma example_restore:
  "fst (ensure_metrics_auth_token_file_matches no_disk_faults example_paths example_token empty_disk) = Some True"
  by code_simp

theorem metrics_token_restored_witness:
  "\<exists>t. validate_metrics_auth_token example_token = Some t
     \<and> token_on_disk example_paths (snd (ensure_metrics_auth_token_file_matches no_disk_faults example_paths example_token empty_disk)) t"
proof -
  have "ensure_metrics_auth_token_file_matches no_disk_faults example_paths example_token empty_disk
      = (Some True, snd (ensure_metrics_auth_token_file_matches no_disk_faults example_paths example_token empty_disk))"
    using example_restore by (simp add: prod_eq_iff)
  from metrics_token_restored [OF _ this] discovered_layout show ?thesis by (auto simp: example_paths_def)
qed

theorem token_operations_touch_nothing_else_witness:
  "let p = rp_metrics_token_path example_paths;
       d = set_node p (Some \<lparr>nd_kind = Symlink, nd_mode = 511\<rparr>) empty_disk in
   node_at (snd (load_or_create_metrics_auth_token no_disk_faults example_paths d)) p = Some \<lparr>nd_kind = Symlink, nd_mode = 511\<rparr>
   \<and> fst (load_or_create_metrics_auth_token no_disk_faults example_paths d) = None"
proof -
  define p where "p = rp_metrics_token_path example_paths"
  define d where "d = set_node p (Some \<lparr>nd_kind = Symlink, nd_mode = 511\<rparr>) empty_disk"
  have "token_layout example_paths" unfolding example_paths_def by (rule discovered_layout)
  moreover have "node_at d p = Some \<lparr>nd_kind = Symlink, nd_mode = 511\<rparr>" by (simp add: d_def)
  moreover have "special \<lparr>nd_kind = Symlink, nd_mode = 511\<rparr>" by (simp add: special_def)
  ultimately have "node_at (snd (load_or_create_metrics_auth_token no_disk_faults example_paths d)) p = Some \<lparr>nd_kind = Symlink, nd_mode = 511\<rparr>
     \<and> fst (load_or_create_metrics_auth_token no_disk_faults example_paths d) = None"
    using token_operations_touch_nothing_else [of example_paths d p _ _ no_disk_faults "[]", OF _ _ disjI1 [OF refl]]
    by (simp add: p_def)
  then show ?thesis by (simp add: Let_def p_def d_def)
qed

section \<open>Contents that are not rotated\<close>

text \<open>
  A token file of more than 256 bytes, or one that is not UTF-8, makes loading fail: it is not
  taken for an invalid token that is replaced.
\<close>

lemma unreadable_token_not_rotated:
  assumes "token_layout ps" "holds_file d (rp_metrics_token_path ps) bs" "256 < length bs \<or> from_utf8 bs = None"
  shows "fst (load_or_create_metrics_auth_token e ps d) = None"
proof (rule ccontr)
  assume "fst (load_or_create_metrics_auth_token e ps d) \<noteq> None"
  then obtain t d' where "load_or_create_metrics_auth_token e ps d = (Some t, d')"
    by (cases "load_or_create_metrics_auth_token e ps d") auto
  then obtain u d1 d2 there where dirs: "ensure_state_dir e ps d = (Some u, d1)"
    and there: "path_exists e (rp_metrics_token_path ps) d1 = (Some there, d2)"
    and rest: "(if there then read_or_replace_token e (rp_metrics_token_path ps)
       else create_metrics_auth_token_file e (rp_metrics_token_path ps)) d2 = (Some t, d')"
    unfolding load_or_create_metrics_auth_token_def Let_def read_or_replace_token_def [symmetric] on_success_Some_iff
    by blast
  have held: "holds_file d1 (rp_metrics_token_path ps) bs"
    using ensure_state_dir_result [OF dirs assms(1)] assms(1)
    by (intro keeps_holds_file [OF assms(2)]) (auto simp: token_layout_def)
  have "d2 = d1" "there" using path_exists_result [OF there] held by (auto simp: holds_file_def)
  with rest obtain d3 s d4 where norm: "normalize_owner_only_regular_file e (rp_metrics_token_path ps) d1 = (Some (), d3)"
    and read: "read_text_file_securely e (rp_metrics_token_path ps) 256 d3 = (Some s, d4)"
    by (auto simp: read_or_replace_token_def on_success_Some_iff)
  from normalize_result [OF norm] obtain cs where "holds_file d1 (rp_metrics_token_path ps) cs" "private_file d3 (rp_metrics_token_path ps) cs"
    by auto
  then have "private_file d3 (rp_metrics_token_path ps) bs" using holds_file_inj [OF _ held] by blast
  with read_result [OF read] holds_file_inj [OF private_holds] assms(3) show False by fastforce
qed

text \<open>An empty variable names the current directory and not the default.\<close>

lemma empty_variable_is_relative:
  assumes "ps_var s ''XDG_RUNTIME_DIR'' = Some []"
  shows "rp_runtime_dir (discover_paths s) = [Normal (utf8_encode (lit ''moshwatch''))]"
proof -
  have "components [] = []" by code_simp
  then show ?thesis using assms by (simp add: discover_paths_def Let_def opt_or_def unwrap_or_def join_str_names ends_with_name_def)
qed

text \<open>
  A runtime root that is itself called \<open>runtime\<close> is used as it is, also when it comes from the
  variable, under which the wrapper script always looks for \<open>moshwatch\<close>.
\<close>

lemma runtime_variable_kept:
  "rp_runtime_dir (discover_paths (example_sources (Some (utf8_encode (lit ''/srv/runtime''))))) = path_of ''/srv/runtime''"
  "rp_runtime_dir (discover_paths (example_sources (Some (utf8_encode (lit ''/run/user/7''))))) = path_of ''/run/user/7/moshwatch''"
  by code_simp+

section \<open>The configuration\<close>

lemma load_config_valid:
  assumes "load_config e http from_toml ps d = (Some c, d')"
  shows "d' = d \<and> validate http c = Inr ()"
proof -
  obtain there where there: "path_exists e (rp_config_path ps) d = (Some there, d)"
    and rest: "(if \<not> there then succeed default_config
          else on_success (read_text_file_securely e (rp_config_path ps) (1024 * 1024))
            (\<lambda>raw. case from_toml raw of
               None \<Rightarrow> fail
             | Some parsed \<Rightarrow> (case validate http parsed of Inl err \<Rightarrow> fail | Inr u \<Rightarrow> succeed parsed))) d = (Some c, d')"
    using assms path_exists_result unfolding load_config_def on_success_Some_iff by blast
  show ?thesis
  proof (cases there)
    case False
    then show ?thesis using rest default_config_valid by simp
  next
    case True
    then obtain raw d1 where read: "read_text_file_securely e (rp_config_path ps) (1024 * 1024) d = (Some raw, d1)"
      and parsed: "(case from_toml raw of None \<Rightarrow> fail
             | Some parsed \<Rightarrow> (case validate http parsed of Inl err \<Rightarrow> fail | Inr u \<Rightarrow> succeed parsed)) d1 = (Some c, d')"
      using rest by (auto simp: on_success_Some_iff)
    show ?thesis using read_result [OF read] parsed by (auto split: option.splits sum.splits)
  qed
qed

lemma only_sockets_removed:
  "remove_socket_if_present e p d = (r, d') \<Longrightarrow> node_at d q = Some n \<Longrightarrow> nd_kind n \<noteq> SocketNode \<or> q \<noteq> p \<Longrightarrow> node_at d' q = Some n"
  by (auto simp: remove_socket_if_present_def elim!: on_success_cases dest!: stat_node_result split: option.splits if_splits)

lemma only_sockets_restricted:
  "set_socket_owner_only e p d = (r, d') \<Longrightarrow> node_at d q = Some n \<Longrightarrow> nd_kind n \<noteq> SocketNode \<or> q \<noteq> p \<Longrightarrow> node_at d' q = Some n"
  by (auto simp: set_socket_owner_only_def elim!: on_success_cases dest!: stat_node_result set_permissions_result split: option.splits if_splits)

end
