(* ===== verification/Startup_Facts.thy ===== *)
theory Startup_Facts
  imports Daemon_Process Secure_Files_Facts Core_Properties
begin

text \<open>
  What a daemon that starts has made sure of on the disk, and what starting and stopping leave
  alone, whichever system calls fail.
\<close>

section \<open>Operations that keep the disk\<close>

text \<open>
  Everything at a path stays, but for files and directories at \<open>A\<close> and sockets at \<open>S\<close>; and a
  private directory, unless it is at \<open>T\<close>, stays private.
\<close>

definition disk_kept :: "path set \<Rightarrow> path set \<Rightarrow> path set \<Rightarrow> disk \<Rightarrow> disk \<Rightarrow> bool" where
  "disk_kept A S T d d' \<longleftrightarrow>
     (\<forall>q n. node_at d q = Some n \<longrightarrow>
        q \<in> A \<and> \<not> special n \<or> q \<in> S \<and> nd_kind n = SocketNode \<or> node_at d' q = Some n)
     \<and> (\<forall>q. q \<notin> T \<longrightarrow> private_dir d q \<longrightarrow> private_dir d' q)"

definition gentle :: "path set \<Rightarrow> path set \<Rightarrow> path set \<Rightarrow> 'a on_disk \<Rightarrow> bool" where
  "gentle A S T f \<longleftrightarrow> (\<forall>d. disk_kept A S T d (snd (f d)))"

lemma disk_kept_refl [simp]: "disk_kept A S T d d"
  by (simp add: disk_kept_def)

lemma disk_kept_trans: "disk_kept A S T d d1 \<Longrightarrow> disk_kept A S T d1 d2 \<Longrightarrow> disk_kept A S T d d2"
  unfolding disk_kept_def by blast

lemma disk_kept_mono: "disk_kept A S T d d' \<Longrightarrow> A \<subseteq> B \<Longrightarrow> S \<subseteq> S' \<Longrightarrow> T \<subseteq> T' \<Longrightarrow> disk_kept B S' T' d d'"
  unfolding disk_kept_def by blast

lemma disk_kept_keeps: "keeps A d d' \<Longrightarrow> A \<subseteq> T \<Longrightarrow> disk_kept A {} T d d'"
  unfolding disk_kept_def by (auto simp: keeps_def dest: keeps_private_dir [OF _ _ contra_subsetD])

lemma gentleI: "(\<And>d r d'. f d = (r, d') \<Longrightarrow> disk_kept A S T d d') \<Longrightarrow> gentle A S T f"
  by (simp add: gentle_def prod_eq_iff)

lemma gentleD: "gentle A S T f \<Longrightarrow> f d = (r, d') \<Longrightarrow> disk_kept A S T d d'"
  unfolding gentle_def by (metis snd_conv)

lemma gentle_mono: "gentle A S T f \<Longrightarrow> A \<subseteq> B \<Longrightarrow> S \<subseteq> S' \<Longrightarrow> T \<subseteq> T' \<Longrightarrow> gentle B S' T' f"
  unfolding gentle_def using disk_kept_mono by blast

lemma gentle_on_success: "gentle A S T f \<Longrightarrow> (\<And>u. gentle A S T (g u)) \<Longrightarrow> gentle A S T (on_success f g)"
  by (rule gentleI) (auto elim!: on_success_cases dest: gentleD intro: disk_kept_trans)

lemma gentle_pure [simp]: "gentle A S T (succeed v)" "gentle A S T fail" "gentle A S T (of_option w)"
  by (auto intro!: gentleI)

lemma gentle_stat: "gentle {} {} {} (stat_node e p)"
  by (rule gentleI) (auto dest: stat_node_result)

lemma gentle_create_secure_dir:
  assumes "p \<noteq> []"
  shows "gentle {p} {} {} (create_secure_dir e p)"
proof (rule gentleI)
  fix d r d' assume run: "create_secure_dir e p d = (r, d')"
  then have "keeps {p} d d'" using create_secure_dir_result assms by blast
  moreover have "private_dir d' q" if priv: "private_dir d q" for q
  proof (cases rule: on_success_cases [OF run [unfolded create_secure_dir_def]])
    case 1
    then show ?thesis using secure_components_result [OF 1(1)] priv by (auto intro: keeps_private_dir)
  next
    case (2 u d1)
    then have "private_dir d1 q" using secure_components_result [OF 2(1)] priv by (auto intro: keeps_private_dir)
    then show ?thesis using set_permissions_result [OF 2(2)] by (auto simp: private_dir_def)
  qed
  ultimately show "disk_kept {p} {} {} d d'" by (auto simp: disk_kept_def keeps_def)
qed

lemma gentle_write_new: "gentle {} {} {} (write_new_text_file_securely e p bs)"
proof (rule gentleI)
  fix d r d' assume "write_new_text_file_securely e p bs d = (r, d')"
  from write_new_result [OF this] have "keeps {} d d'" by (auto intro: keeps_absent)
  then show "disk_kept {} {} {} d d'" by (rule disk_kept_keeps) simp
qed

lemma load_config_disk:
  assumes "load_config e http from_toml ps d = (r, d')"
  shows "d' = d"
proof (cases rule: on_success_cases [OF assms [unfolded load_config_def]])
  case 1
  then show ?thesis using path_exists_result by blast
next
  case (2 there d1)
  have d1: "d1 = d" using path_exists_result [OF 2(1)] by simp
  show ?thesis
  proof (cases there)
    case False
    then show ?thesis using 2(2) d1 by simp
  next
    case True
    have decoded: "d3 = d2" if "(case from_toml raw of None \<Rightarrow> fail
        | Some parsed \<Rightarrow> (case validate http parsed of Inl err \<Rightarrow> fail | Inr u \<Rightarrow> succeed parsed)) d2 = (r, d3)" for raw d2 d3
      using that by (simp split: option.splits sum.splits)
    from True 2(2) have "on_success (read_text_file_securely e (rp_config_path ps) (1024 * 1024))
        (\<lambda>raw. case from_toml raw of None \<Rightarrow> fail
           | Some parsed \<Rightarrow> (case validate http parsed of Inl err \<Rightarrow> fail | Inr u \<Rightarrow> succeed parsed)) d1 = (r, d')"
      by simp
    then show ?thesis using d1 read_result decoded by (cases rule: on_success_cases) blast+
  qed
qed

lemma gentle_remove_socket: "gentle {} {p} {} (remove_socket_if_present e p)"
proof (rule gentleI)
  fix d r d' assume "remove_socket_if_present e p d = (r, d')"
  note same = only_sockets_removed [OF this]
  have "private_dir d' q" if "private_dir d q" for q
  proof -
    from that obtain n where n: "node_at d q = Some n" "nd_kind n = Directory" "nd_mode n = 448"
      by (auto simp: private_dir_def)
    then have "node_at d' q = Some n" using same [of q n] by simp
    with n show ?thesis by (auto simp: private_dir_def)
  qed
  moreover have "q \<in> {p} \<and> nd_kind n = SocketNode \<or> node_at d' q = Some n" if "node_at d q = Some n" for q n
    using same [OF that] by blast
  ultimately show "disk_kept {} {p} {} d d'" unfolding disk_kept_def by blast
qed

lemma bind_socket_result:
  "bind_owner_only_socket e p d = (r, d') \<Longrightarrow>
     keeps {} d d' \<and> (r \<noteq> None \<longrightarrow> node_at d' p = Some \<lparr>nd_kind = SocketNode, nd_mode = 384\<rparr>)"
  unfolding bind_owner_only_socket_def
  by (erule on_success_cases)
    (auto simp: bind_socket_def set_socket_owner_only_def keeps_def elim!: on_success_cases
      dest!: stat_node_result set_permissions_result split: if_splits option.splits)

lemma gentle_bind_socket: "gentle {} {} {} (bind_owner_only_socket e p)"
  by (rule gentleI) (auto dest!: bind_socket_result intro: disk_kept_keeps)

section \<open>The parts of start-up\<close>

lemma gentle_ensure_state_dir:
  "token_layout ps \<Longrightarrow> gentle {rp_state_dir ps, rp_history_dir ps} {} {} (ensure_state_dir e ps)"
  unfolding ensure_state_dir_def token_layout_def
  by (intro gentle_on_success) (auto intro: gentle_mono [OF gentle_create_secure_dir])

lemma gentle_default_config:
  assumes "\<And>dir. parent (rp_config_path ps) = Some dir \<Longrightarrow> dir \<noteq> []"
  shows "gentle (set_option (parent (rp_config_path ps))) {} {} (maybe_write_default_config e to_toml ps)"
proof -
  have "gentle (set_option (parent (rp_config_path ps))) {} {} (ensure_config_parent e ps)"
    using assms by (cases "parent (rp_config_path ps)")
      (auto simp: ensure_config_parent_def intro: gentle_mono [OF gentle_create_secure_dir])
  moreover have "gentle A {} {} (path_exists e p)" for A p
    by (rule gentleI) (auto dest: path_exists_result)
  ultimately show ?thesis unfolding maybe_write_default_config_def
    by (intro gentle_on_success) (auto split: option.splits intro: gentle_mono [OF gentle_write_new])
qed

lemma gentle_load_config: "gentle {} {} {} (load_config e http from_toml ps)"
  by (rule gentleI) (auto dest: load_config_disk)

lemma token_step_kept:
  assumes "path_exists e p d = (Some there, d2)"
    "(if there then read_or_replace_token e p else create_metrics_auth_token_file e p) d2 = (r, d')"
  shows "keeps {p} d d'"
  using path_exists_result [OF assms(1)] assms(2) existing_token_step create_token_step
  by (cases there) (auto simp: token_step_def)

lemma gentle_load_token:
  assumes layout: "token_layout ps"
  shows "gentle (token_places ps) {} {rp_metrics_token_path ps} (load_or_create_metrics_auth_token e ps)"
proof -
  let ?p = "rp_metrics_token_path ps"
  have "gentle {?p} {} {?p} (on_success (path_exists e ?p)
      (\<lambda>there. if there then read_or_replace_token e ?p else create_metrics_auth_token_file e ?p))"
  proof (rule gentleI, erule on_success_cases)
    fix d r d' assume "path_exists e ?p d = (None, d')"
    then show "disk_kept {?p} {} {?p} d d'" by (auto dest: path_exists_result)
  next
    fix d r d' there d1
    assume "path_exists e ?p d = (Some there, d1)"
      "(if there then read_or_replace_token e ?p else create_metrics_auth_token_file e ?p) d1 = (r, d')"
    then have "keeps {?p} d d'" by (rule token_step_kept)
    then show "disk_kept {?p} {} {?p} d d'" by (rule disk_kept_keeps) simp
  qed
  then have rest: "gentle (token_places ps) {} {?p} (on_success (path_exists e ?p)
      (\<lambda>there. if there then read_or_replace_token e ?p else create_metrics_auth_token_file e ?p))"
    by (rule gentle_mono) (auto simp: token_places_def)
  have "gentle (token_places ps) {} {?p} (ensure_state_dir e ps)"
    by (rule gentle_mono [OF gentle_ensure_state_dir [OF layout]]) (auto simp: token_places_def)
  from gentle_on_success [OF this rest] show ?thesis
    unfolding load_or_create_metrics_auth_token_def Let_def read_or_replace_token_def [symmetric] .
qed

lemma gentle_startup_token:
  "token_layout ps \<Longrightarrow> gentle (token_places ps) {} {rp_metrics_token_path ps} (startup_token e ps c)"
  unfolding startup_token_def
  by (auto split: option.splits intro!: gentle_on_success gentle_load_token)

section \<open>Starting\<close>

text \<open>The places that starting may change, and the sockets that it may remove.\<close>

definition startup_places :: "runtime_paths \<Rightarrow> path set" where
  "startup_places ps = insert (rp_runtime_dir ps) (token_places ps \<union> set_option (parent (rp_config_path ps)))"

definition startup_sockets :: "runtime_paths \<Rightarrow> path set" where
  "startup_sockets ps = {rp_api_socket ps, rp_telemetry_socket ps}"

lemma startup_paths_simps [simp]:
  "rp_runtime_dir (startup_paths a ps) = rp_runtime_dir ps" "rp_state_dir (startup_paths a ps) = rp_state_dir ps"
  "rp_history_dir (startup_paths a ps) = rp_history_dir ps" "rp_config_path (startup_paths a ps) = rp_config_path ps"
  "rp_metrics_token_path (startup_paths a ps) = rp_metrics_token_path ps"
  "rp_api_socket (startup_paths a ps) = unwrap_or (arg_api_socket a) (rp_api_socket ps)"
  "rp_telemetry_socket (startup_paths a ps) = unwrap_or (arg_telemetry_socket a) (rp_telemetry_socket ps)"
  by (auto simp: startup_paths_def Let_def unwrap_or_def split: option.splits)

definition startup_layout :: "runtime_paths \<Rightarrow> bool" where
  "startup_layout ps \<longleftrightarrow> token_layout ps \<and> rp_runtime_dir ps \<noteq> [] \<and> rp_runtime_dir ps \<noteq> rp_metrics_token_path ps
     \<and> parent (rp_config_path ps) \<noteq> Some []"

lemma startup_layout_discovered: "startup_layout (startup_paths a (discover_paths s))"
proof -
  have ne: "utf8_encode (lit ''moshwatch'') \<noteq> utf8_encode (lit ''metrics.token'')"
    "utf8_encode (lit ''runtime'') \<noteq> utf8_encode (lit ''metrics.token'')" by code_simp+
  have toml: "components (utf8_encode (lit ''moshwatch.toml'')) = [Normal (utf8_encode (lit ''moshwatch.toml''))]"
    "hd (utf8_encode (lit ''moshwatch.toml'')) \<noteq> 47" by code_simp+
  let ?dir = "\<lambda>r. if ends_with_name r ''runtime'' then r else join_str r ''moshwatch''"
  have "?dir r \<noteq> []" "last (?dir r) \<noteq> Normal (utf8_encode (lit ''metrics.token''))" for r
    using ne by (auto simp: join_str_names ends_with_name_def)
  moreover have "\<exists>r. rp_runtime_dir (discover_paths s) = ?dir r"
    unfolding discover_paths_def Let_def runtime_paths.simps by (rule exI, rule refl)
  ultimately have "rp_runtime_dir (discover_paths s) \<noteq> []
      \<and> last (rp_runtime_dir (discover_paths s)) \<noteq> Normal (utf8_encode (lit ''metrics.token''))"
    by (elim exE) presburger
  moreover have "last (rp_metrics_token_path (discover_paths s)) = Normal (utf8_encode (lit ''metrics.token''))"
    by (simp add: discover_paths_def Let_def join_str_names)
  moreover have "parent (join_str (join_str c ''moshwatch'') ''moshwatch.toml'') \<noteq> Some []" for c
    using toml unfolding join_str_names by (simp add: join_str_def join_name_def parent_def butlast_append)
  then have "parent (rp_config_path (discover_paths s)) \<noteq> Some []" by (simp add: discover_paths_def Let_def)
  moreover have "token_layout (startup_paths a (discover_paths s))"
    using discovered_layout [of s] by (simp add: token_layout_def)
  ultimately show ?thesis unfolding startup_layout_def by auto
qed

lemma gentle_start_daemon:
  assumes "startup_layout (startup_paths a discovered)"
  shows "gentle (startup_places (startup_paths a discovered)) (startup_sockets (startup_paths a discovered))
    {rp_metrics_token_path (startup_paths a discovered)} (start_daemon e ho a discovered now)"
proof -
  let ?ps = "startup_paths a discovered"
  let ?gentle = "gentle (startup_places ?ps) (startup_sockets ?ps) {rp_metrics_token_path ?ps}"
  have layout: "token_layout ?ps" "rp_runtime_dir ?ps \<noteq> []" "\<And>dir. parent (rp_config_path ?ps) = Some dir \<Longrightarrow> dir \<noteq> []"
    using assms by (auto simp: startup_layout_def simp del: startup_paths_simps)
  have runtime: "?gentle (ensure_runtime_dir e ?ps)" unfolding ensure_runtime_dir_def
    by (rule gentle_mono [OF gentle_create_secure_dir [OF layout(2)]]) (auto simp: startup_places_def)
  have state: "?gentle (ensure_state_dir e ?ps)"
    by (rule gentle_mono [OF gentle_ensure_state_dir [OF layout(1)]]) (auto simp: startup_places_def token_places_def)
  have default_config: "?gentle (maybe_write_default_config e to_toml ?ps)" for to_toml
    by (rule gentle_mono [OF gentle_default_config [OF layout(3)]]) (auto simp: startup_places_def)
  have config: "?gentle (load_config e http from_toml ?ps)" for http from_toml
    by (rule gentle_mono [OF gentle_load_config]) simp_all
  have sockets: "?gentle (remove_socket_if_present e (rp_api_socket ?ps))" "?gentle (remove_socket_if_present e (rp_telemetry_socket ?ps))"
    by (rule gentle_mono [OF gentle_remove_socket]; simp add: startup_sockets_def)+
  have token: "?gentle (startup_token e ?ps c)" for c
    by (rule gentle_mono [OF gentle_startup_token [OF layout(1)]]) (auto simp: startup_places_def)
  have bind_telemetry: "?gentle (bind_owner_only_socket e (rp_telemetry_socket ?ps))"
    by (rule gentle_mono [OF gentle_bind_socket]) simp_all
  have "?gentle (prepare_daemon e ho a ?ps)" unfolding prepare_daemon_def
    by (intro gentle_on_success runtime state config sockets token gentle_pure)
      (auto simp: default_config simp del: startup_paths_simps)
  then show ?thesis unfolding start_daemon_def Let_def
    by (intro gentle_on_success) (auto intro!: gentle_on_success bind_telemetry simp del: startup_paths_simps)
qed

lemma private_dir_later:
  "private_dir d p \<Longrightarrow> gentle A S T f \<Longrightarrow> f d = (r, d') \<Longrightarrow> p \<notin> T \<Longrightarrow> private_dir d' p"
  using gentleD [of A S T f d r d'] by (simp add: disk_kept_def)

lemma ensure_state_dirs_private:
  assumes "ensure_state_dir e ps d = (Some u, d')" "token_layout ps"
  shows "private_dir d' (rp_state_dir ps) \<and> private_dir d' (rp_history_dir ps)"
proof -
  have ne: "rp_state_dir ps \<noteq> []" "rp_history_dir ps \<noteq> []" using assms(2) by (auto simp: token_layout_def)
  obtain v d1 where dirs: "create_secure_dir e (rp_state_dir ps) d = (Some v, d1)"
    "create_secure_dir e (rp_history_dir ps) d1 = (Some u, d')"
    using assms(1) by (auto simp: ensure_state_dir_def on_success_Some_iff)
  have "private_dir d1 (rp_state_dir ps)" "private_dir d' (rp_history_dir ps)"
    using create_secure_dir_result [OF dirs(1) ne(1)] create_secure_dir_result [OF dirs(2) ne(2)] by auto
  then show ?thesis using private_dir_later [OF _ gentle_create_secure_dir [OF ne(2)] dirs(2)] by simp
qed

lemma startup_token_result:
  assumes "startup_token e ps c d = (Some token, d')" "token_layout ps"
  shows "(token = None \<longleftrightarrow> listen_addr (mc_prometheus (metrics_cfg c)) = None)
    \<and> (\<forall>t. token = Some t \<longrightarrow> valid_token t \<and> token_on_disk ps d' t)"
  using assms load_token_result [OF assms(2)]
  by (auto simp: startup_token_def on_success_Some_iff split: option.splits)

lemma token_on_disk_later:
  "token_on_disk ps d t \<Longrightarrow> keeps {} d d' \<Longrightarrow> token_on_disk ps d' t"
  by (auto simp: token_on_disk_def private_file_def keeps_def intro!: keeps_private_dir [of d _ "{}"])

text \<open>What a running daemon has made sure of.\<close>

definition secured :: "http_crate \<Rightarrow> args \<Rightarrow> runtime_paths \<Rightarrow> daemon \<Rightarrow> disk \<Rightarrow> bool" where
  "secured http a ps dm d \<longleftrightarrow>
     dm_paths dm = ps \<and> dm_state dm = new_state (dm_config dm)
     \<and> (\<exists>loaded. validate http loaded = Inr () \<and> startup_config a loaded = Some (dm_config dm))
     \<and> private_dir d (rp_runtime_dir ps) \<and> private_dir d (rp_state_dir ps) \<and> private_dir d (rp_history_dir ps)
     \<and> node_at d (rp_telemetry_socket ps) = Some \<lparr>nd_kind = SocketNode, nd_mode = 384\<rparr>
     \<and> (dm_token dm = None \<longleftrightarrow> listen_addr (mc_prometheus (metrics_cfg (dm_config dm))) = None)
     \<and> (\<forall>t. dm_token dm = Some t \<longrightarrow> valid_token t \<and> token_on_disk ps d t)"

lemma start_daemon_secured:
  assumes run: "start_daemon e ho a discovered now d = (Some dm, d')"
    and layout: "startup_layout (startup_paths a discovered)"
  shows "secured (ho_http ho) a (startup_paths a discovered) dm d'"
proof -
  let ?ps = "startup_paths a discovered"
  from run obtain u1 d1 u2 d2 u3 d3 loaded d4 c d5 u6 d6 u7 d7 token d8 u9 where
    steps: "ensure_runtime_dir e ?ps d = (Some u1, d1)" "ensure_state_dir e ?ps d1 = (Some u2, d2)"
      "(if arg_no_write_config a then succeed () else maybe_write_default_config e (ho_to_toml ho) ?ps) d2 = (Some u3, d3)"
      "load_config e (ho_http ho) (ho_from_toml ho) ?ps d3 = (Some loaded, d4)"
      "of_option (startup_config a loaded) d4 = (Some c, d5)"
      "remove_socket_if_present e (rp_api_socket ?ps) d5 = (Some u6, d6)"
      "remove_socket_if_present e (rp_telemetry_socket ?ps) d6 = (Some u7, d7)"
      "startup_token e ?ps c d7 = (Some token, d8)"
      "bind_owner_only_socket e (rp_telemetry_socket ?ps) d8 = (Some u9, d')"
    and dm: "dm = new_daemon ho ?ps c token now"
    unfolding start_daemon_def prepare_daemon_def Let_def on_success_Some_iff by (auto simp: on_success_Some_iff simp del: startup_paths_simps)
  have ps: "token_layout ?ps" "rp_runtime_dir ?ps \<noteq> []" "rp_runtime_dir ?ps \<noteq> rp_metrics_token_path ?ps"
    "\<And>dir. parent (rp_config_path ?ps) = Some dir \<Longrightarrow> dir \<noteq> []"
    using layout by (auto simp: startup_layout_def simp del: startup_paths_simps)
  have apart: "rp_state_dir ?ps \<noteq> rp_metrics_token_path ?ps" "rp_history_dir ?ps \<noteq> rp_metrics_token_path ?ps"
    using ps(1) by (auto simp: token_layout_def)
  have config: "d4 = d3" "d5 = d4" "validate (ho_http ho) loaded = Inr ()" "startup_config a loaded = Some c"
    using load_config_valid [OF steps(4)] steps(5) by auto
  have written: "gentle (set_option (parent (rp_config_path ?ps))) {} {}
      (if arg_no_write_config a then succeed () else maybe_write_default_config e (ho_to_toml ho) ?ps)"
    by (simp add: gentle_default_config ps(4) del: startup_paths_simps)
  have later: "private_dir d' q" if "private_dir d2 q" "q \<noteq> rp_metrics_token_path ?ps" for q
    using private_dir_later [OF private_dir_later [OF private_dir_later [OF private_dir_later [OF private_dir_later
      [OF that(1) written steps(3)]
        gentle_remove_socket steps(6) [unfolded config(1,2)]] gentle_remove_socket steps(7)]
      gentle_startup_token [OF ps(1)] steps(8)] gentle_bind_socket steps(9)] that(2) by simp
  have "private_dir d1 (rp_runtime_dir ?ps)"
    using create_secure_dir_result [OF steps(1) [unfolded ensure_runtime_dir_def] ps(2)] by simp
  then have "private_dir d2 (rp_runtime_dir ?ps)"
    by (rule private_dir_later [OF _ gentle_ensure_state_dir [OF ps(1)] steps(2)]) simp
  then have "private_dir d' (rp_runtime_dir ?ps)" using ps(3) by (rule later)
  moreover have "private_dir d' (rp_state_dir ?ps)" "private_dir d' (rp_history_dir ?ps)"
    using ensure_state_dirs_private [OF steps(2) ps(1)] later apart by blast+
  moreover have "valid_token t \<and> token_on_disk ?ps d' t" if "token = Some t" for t
    using startup_token_result [OF steps(8) ps(1)] that bind_socket_result [OF steps(9)] token_on_disk_later by blast
  moreover have "node_at d' (rp_telemetry_socket ?ps) = Some \<lparr>nd_kind = SocketNode, nd_mode = 384\<rparr>"
    using bind_socket_result [OF steps(9)] by simp
  ultimately show ?thesis
    using config(3,4) startup_token_result [OF steps(8) ps(1)]
    by (auto simp: secured_def dm new_daemon_def Let_def simp del: startup_paths_simps)
qed

text \<open>
  C9: A daemon that starts, whatever was on the disk and whichever system calls fail, runs on a
  validated configuration with the overrides of its arguments that the listener policy allows; its
  runtime, state and history directories are the owner's alone, and so is its telemetry socket;
  and it has a bearer token exactly if it has a metrics listener, which then is the one in the
  private token file.  Started or not, it has left everything on the disk as it was but these
  directories, the token file and the sockets that were at its own socket paths.
\<close>
theorem startup_secures:
  assumes "start_daemon e ho a (discover_paths s) now d = (started, d')"
  shows "(\<forall>dm. started = Some dm \<longrightarrow> secured (ho_http ho) a (startup_paths a (discover_paths s)) dm d')
    \<and> (\<forall>q n. node_at d q = Some n \<longrightarrow> node_at d' q = Some n
        \<or> q \<in> startup_places (startup_paths a (discover_paths s)) \<and> \<not> special n
        \<or> q \<in> startup_sockets (startup_paths a (discover_paths s)) \<and> nd_kind n = SocketNode)"
  using start_daemon_secured [OF _ startup_layout_discovered] assms
    gentleD [OF gentle_start_daemon [OF startup_layout_discovered] assms]
  unfolding disk_kept_def by blast

section \<open>An example\<close>

definition start_host :: host where
  "start_host = \<lparr>ho_http = example_http,
     ho_from_toml = (\<lambda>t. None), ho_to_toml = (\<lambda>c. None), ho_sha256 = (\<lambda>b. b), ho_hostname = None,
     ho_machine_ids = [], ho_history_io =
       \<lparr>read_dir_fails = False, create_dir_fails = False, stat_fails = (\<lambda>f. False), remove_fails = (\<lambda>f. False),
        append_fails = None, open_fails = (\<lambda>f. False), encode_fails = False\<rparr>, ho_history_dir = None\<rparr>"

definition start_args :: args where
  "start_args = \<lparr>arg_api_socket = None, arg_telemetry_socket = None,
     arg_metrics_listen = Some (lit ''localhost:9947''), arg_allow_public_metrics = False, arg_no_write_config = True\<rparr>"

lemma example_ps: "startup_paths start_args (discover_paths (example_sources None)) = example_paths"
  by (simp add: startup_paths_def start_args_def example_paths_def)

lemma example_prepared:
  "map_option snd (fst (prepare_daemon no_disk_faults start_host start_args example_paths empty_disk)) = Some (Some example_token)"
  by code_simp

lemma example_start:
  "\<exists>dm d'. start_daemon no_disk_faults start_host start_args (discover_paths (example_sources None)) 5 empty_disk = (Some dm, d')
     \<and> dm_token dm = Some example_token"
proof -
  obtain c token d1 where prepared: "prepare_daemon no_disk_faults start_host start_args example_paths empty_disk = (Some (c, token), d1)"
    "token = Some example_token"
    using example_prepared by (cases "prepare_daemon no_disk_faults start_host start_args example_paths empty_disk") auto
  have "fst (on_success (prepare_daemon no_disk_faults start_host start_args example_paths)
      (\<lambda>_. bind_owner_only_socket no_disk_faults (rp_telemetry_socket example_paths)) empty_disk) = Some ()"
    by code_simp
  then obtain d2 where "bind_owner_only_socket no_disk_faults (rp_telemetry_socket example_paths) d1 = (Some (), d2)"
    using prepared(1) by (cases "bind_owner_only_socket no_disk_faults (rp_telemetry_socket example_paths) d1") (auto simp: on_success_def)
  with prepared show ?thesis
    by (simp add: start_daemon_def Let_def example_ps on_success_def new_daemon_def succeed_def)
qed

theorem startup_secures_witness:
  "\<exists>dm d'. start_daemon no_disk_faults start_host start_args (discover_paths (example_sources None)) 5 empty_disk = (Some dm, d')
     \<and> secured example_http start_args example_paths dm d' \<and> token_on_disk example_paths d' example_token"
proof -
  obtain dm d' where start: "start_daemon no_disk_faults start_host start_args (discover_paths (example_sources None)) 5 empty_disk = (Some dm, d')"
    "dm_token dm = Some example_token" using example_start by blast
  have "ho_http start_host = example_http" by (simp add: start_host_def)
  then have "secured example_http start_args example_paths dm d'"
    using startup_secures [OF start(1)] by (simp only: example_ps)
  with start show ?thesis by (auto simp: secured_def)
qed

section \<open>Stopping\<close>

text \<open>
  The process ends well only for a signal, and then has removed its sockets; it removes nothing
  but sockets, however it ends.
\<close>

lemma remove_socket_result:
  assumes "remove_socket_if_present e p d = (Some u, d')"
  shows "d' = set_node p None d \<or> node_at d p = None \<and> d' = d"
proof -
  from assms obtain found d1 where "stat_node e p d = (Some found, d1)" and rest: "(case found of
          None \<Rightarrow> succeed ()
        | Some n \<Rightarrow> if nd_kind n \<noteq> SocketNode \<or> fe_fails e (Unlink p) then fail
            else (\<lambda>d. succeed () (set_node p None d))) d1 = (Some u, d')"
    unfolding remove_socket_if_present_def on_success_Some_iff by blast
  then have "d1 = d" "found = node_at d p" using stat_node_result by fastforce+
  with rest show ?thesis by (auto split: option.splits if_splits)
qed

lemma stop_daemon_result:
  assumes "stop_daemon e w dm d = (r, d')"
  shows "(r \<noteq> None \<longrightarrow> w = ShutdownSignal \<and> node_at d' (rp_api_socket (dm_paths dm)) = None
      \<and> node_at d' (rp_telemetry_socket (dm_paths dm)) = None)
    \<and> (node_at d q = Some n \<longrightarrow> nd_kind n \<noteq> SocketNode \<or> q \<notin> startup_sockets (dm_paths dm) \<longrightarrow> node_at d' q = Some n)"
proof -
  have "gentle {} (startup_sockets (dm_paths dm)) {} (stop_daemon e w dm)"
    unfolding stop_daemon_def startup_sockets_def
    by (intro gentle_on_success) (auto intro: gentle_mono [OF gentle_remove_socket])
  from gentleD [OF this assms] have "node_at d q = Some n \<Longrightarrow> nd_kind n \<noteq> SocketNode \<or> q \<notin> startup_sockets (dm_paths dm) \<Longrightarrow> node_at d' q = Some n"
    by (auto simp: disk_kept_def)
  moreover have "w = ShutdownSignal \<and> node_at d' (rp_api_socket (dm_paths dm)) = None \<and> node_at d' (rp_telemetry_socket (dm_paths dm)) = None"
    if "r \<noteq> None"
  proof -
    from that assms obtain u1 d1 u2 where steps: "remove_socket_if_present e (rp_api_socket (dm_paths dm)) d = (Some u1, d1)"
      "remove_socket_if_present e (rp_telemetry_socket (dm_paths dm)) d1 = (Some u2, d')" and "shutdown_result w"
      by (auto simp: stop_daemon_def on_success_Some_iff split: if_splits)
    then have "w = ShutdownSignal" by (auto simp: shutdown_result_def unexpected_task_exit_def split: wake.splits)
    moreover have "node_at d' (rp_api_socket (dm_paths dm)) = None"
      using remove_socket_result [OF steps(1)] remove_socket_result [OF steps(2)] by auto
    moreover have "node_at d' (rp_telemetry_socket (dm_paths dm)) = None"
      using remove_socket_result [OF steps(2)] by auto
    ultimately show ?thesis by simp
  qed
  ultimately show ?thesis by blast
qed

end
