(* ===== verification/Daemon_Process_Facts.thy ===== *)
theory Daemon_Process_Facts
  imports Startup_Facts Daemon_Examples
begin

text \<open>
  The daemon as one system: whatever its tasks interleave to, the registry is one that verified
  telemetry and discovery reach, and the snapshot that the interfaces see catches up with it.
\<close>

section \<open>The registry and the slots\<close>

lemma daemon_step_config: "daemon_step sha256 dm a dm' \<Longrightarrow> dm_config dm' = dm_config dm"
  by (erule daemon_stepE)
    (auto simp: telemetry_update_def discovery_update_def discovery_cycle_end_def history_cycle_def accept_telemetry_def
      split: option.splits attempt.splits)

lemma daemon_step_reachable:
  "daemon_step sha256 dm a dm' \<Longrightarrow> daemon_reachable c (dm_state dm) \<Longrightarrow> daemon_reachable c (dm_state dm')"
  by (erule daemon_stepE)
    (auto simp: telemetry_update_def discovery_update_def discovery_cycle_end_def history_cycle_def accept_telemetry_def
      intro: daemon_telemetry daemon_discovery split: option.splits attempt.splits)

lemma daemon_step_connections:
  "daemon_step sha256 dm a dm' \<Longrightarrow> dm_connections dm \<le> TELEMETRY_CONNECTION_SLOTS \<Longrightarrow>
   dm_connections dm' \<le> TELEMETRY_CONNECTION_SLOTS"
  by (erule daemon_stepE)
    (auto simp: telemetry_update_def discovery_update_def discovery_cycle_end_def history_cycle_def accept_telemetry_def
      split: option.splits attempt.splits)

section \<open>Snapshots\<close>

definition shows_state :: "(bytes \<Rightarrow> bytes) \<Rightarrow> snapshot_hub \<Rightarrow> service_state \<Rightarrow> bool" where
  "shows_state sha256 hub st \<longleftrightarrow> (\<exists>now hub0. hub = publish_snapshot_now sha256 st now hub0)"

text \<open>A writer that has not asked yet, or a request that no publication has taken.\<close>

definition behind :: "daemon \<Rightarrow> bool" where
  "behind dm \<longleftrightarrow> 0 < dm_unsignalled dm \<or> pub_dirty (dm_publisher dm)"

definition snapshot_inv :: "(bytes \<Rightarrow> bytes) \<Rightarrow> daemon \<Rightarrow> bool" where
  "snapshot_inv sha256 dm \<longleftrightarrow>
     no_lost_wakeup (dm_publisher dm)
     \<and> (dm_export dm \<noteq> None \<longrightarrow> pub_pc (dm_publisher dm) = Publishing)
     \<and> (\<forall>ex now. dm_export dm = Some (ex, now) \<longrightarrow>
          ex = export_summaries (dm_state dm) now MAX_EXPORTED_SESSIONS \<or> behind dm)
     \<and> (shows_state sha256 (dm_hub dm) (dm_state dm) \<or> behind dm \<or> pub_pc (dm_publisher dm) = Publishing)"

lemma snapshot_inv_new: "snapshot_inv (ho_sha256 ho) (new_daemon ho ps c token now)"
  unfolding snapshot_inv_def shows_state_def by (auto simp: new_daemon_def Let_def)

lemma snapshot_inv_step:
  assumes "daemon_step sha256 dm a dm'" "snapshot_inv sha256 dm"
  shows "snapshot_inv sha256 dm'"
  using assms
proof (cases rule: daemon_step.cases)
  case (step_telemetry clock from_json credentials euid fs cur r res applied k ev now)
  then show ?thesis using assms(2) by (auto simp: snapshot_inv_def behind_def telemetry_update_def)
next
  case (step_discovery scan fs cur now)
  then show ?thesis using assms(2)
    by (auto simp: snapshot_inv_def behind_def discovery_update_def split: option.splits attempt.splits)
next
  case (step_discovery_end elapsed)
  then show ?thesis using assms(2) by (auto simp: snapshot_inv_def behind_def discovery_cycle_end_def)
next
  case (step_history to_json io now elapsed)
  then show ?thesis using assms(2) by (auto simp: snapshot_inv_def behind_def history_cycle_def split: option.splits)
next
  case step_accept
  then show ?thesis using assms(2) by (auto simp: snapshot_inv_def behind_def accept_telemetry_def)
next
  case step_close
  then show ?thesis using assms(2) by (auto simp: snapshot_inv_def behind_def)
next
  case (step_ask p)
  then show ?thesis using assms(2) no_lost_wakeup_step [OF step_ask(4)]
    by (auto simp: snapshot_inv_def behind_def publisher_step_simps)
next
  case (step_export now)
  then show ?thesis using assms(2) by (auto simp: snapshot_inv_def behind_def)
next
  case (step_send ex now t p elapsed)
  then have "pub_dirty p = pub_dirty (dm_publisher dm)" by (auto simp: publisher_step_simps)
  moreover have "shows_state sha256 (publish_snapshot sha256 ex now (dm_hub dm)) (dm_state dm)"
    if "ex = export_summaries (dm_state dm) now MAX_EXPORTED_SESSIONS"
    unfolding shows_state_def publish_snapshot_now_def that by blast
  ultimately show ?thesis using step_send assms(2) no_lost_wakeup_step [OF step_send(4)]
    by (auto simp: snapshot_inv_def behind_def)
next
  case (step_publisher op t p)
  then show ?thesis using assms(2) no_lost_wakeup_step [OF step_publisher(4)]
    by (auto simp: snapshot_inv_def behind_def publisher_step_simps split: if_splits)
qed

lemma daemon_run_invariant:
  assumes "daemon_run sha256 dm as dm'" "\<And>dm a dm'. daemon_step sha256 dm a dm' \<Longrightarrow> P dm \<Longrightarrow> P dm'" "P dm"
  shows "P dm'"
  using assms(1,3) by induction (auto intro: assms(2))

section \<open>Catching up\<close>

text \<open>What has to happen for a snapshot: the writers ask, and the publisher goes on.\<close>

fun snapshot_action :: "daemon_action \<Rightarrow> bool" where
  "snapshot_action AskForSnapshot = True"
| "snapshot_action (ExportSnapshot now) = True"
| "snapshot_action (PublisherMove op) = True"
| "snapshot_action _ = False"

definition snapshot_work :: "daemon \<Rightarrow> nat" where
  "snapshot_work dm = 10 * dm_unsignalled dm + work_left (dm_publisher dm)
     + (if pub_pc (dm_publisher dm) = Publishing \<and> dm_export dm = None then 1 else 0)"

lemma snapshot_work_step:
  assumes "daemon_step sha256 dm a dm'" "snapshot_action a"
  shows "snapshot_work dm' < snapshot_work dm \<and> dm_state dm' = dm_state dm"
  using assms
proof (cases rule: daemon_step.cases)
  case (step_ask p)
  then show ?thesis by (auto simp: snapshot_work_def work_left_def publisher_step_simps)
next
  case (step_publisher op t p)
  then show ?thesis by (auto simp: snapshot_work_def work_left_def publisher_step_simps split: if_splits)
qed (auto simp: snapshot_work_def work_left_def publisher_step_simps)

lemma snapshot_work_run:
  "daemon_run sha256 dm as dm' \<Longrightarrow> \<forall>a \<in> set as. snapshot_action a \<Longrightarrow>
   length as + snapshot_work dm' \<le> snapshot_work dm \<and> dm_state dm' = dm_state dm"
  by (induction rule: daemon_run.induct) (auto dest: snapshot_work_step)

lemma snapshot_progress:
  assumes "snapshot_inv sha256 dm" "\<not> shows_state sha256 (dm_hub dm) (dm_state dm)"
  shows "\<exists>a dm'. snapshot_action a \<and> daemon_step sha256 dm a dm'"
proof (cases "0 < dm_unsignalled dm")
  case True
  then show ?thesis using step_ask [OF _ store_dirty] snapshot_action.simps(1) by blast
next
  case False
  let ?p = "dm_publisher dm"
  from False assms have "pub_dirty ?p \<or> pub_pc ?p = Publishing" and wake: "no_lost_wakeup ?p"
    by (auto simp: snapshot_inv_def behind_def)
  show ?thesis
  proof (cases "pub_pc ?p = Publishing")
    case True
    then show ?thesis
    proof (cases "dm_export dm")
      case None
      then show ?thesis using step_export [OF True] snapshot_action.simps(2) by blast
    next
      case (Some exported)
      obtain ex now where "exported = (ex, now)" by (cases exported)
      with Some have "dm_export dm = Some (ex, now)" by simp
      from step_send [OF this publish_now [OF True]] show ?thesis using snapshot_action.simps(3) by blast
    qed
  next
    case False
    obtain op p where "op \<noteq> StoreDirty" and step: "publisher_step (daemon_interval dm) ?p op p"
      using progress [OF wake] \<open>pub_dirty ?p \<or> pub_pc ?p = Publishing\<close> by blast
    moreover have "op \<noteq> PublishNow t" for t using step False by (auto simp: publisher_step_simps)
    ultimately have "\<exists>t. op \<in> {NotifyOne, SwapDirty, WakeUp, DrainPermit, DeadlineAt t}" by (cases op) auto
    then show ?thesis using step_publisher [OF _ step] snapshot_action.simps(3) by blast
  qed
qed

text \<open>
  C8: The snapshot that subscribers get catches up with the registry, however telemetry,
  discovery, sampling and publishing interleave: once the registry rests, every further sequence
  of requests and publisher steps is bounded, leaves the registry alone, and can go on until the
  hub holds an export of exactly that registry; and that registry is one that verified telemetry
  and discovery alone have made, over at most 64 telemetry connections at a time.
\<close>
theorem snapshots_catch_up:
  assumes "daemon_run (ho_sha256 ho) (new_daemon ho ps c token now) before dm"
    and "daemon_run (ho_sha256 ho) dm after dm'" and "\<forall>a \<in> set after. snapshot_action a"
  shows "daemon_reachable c (dm_state dm) \<and> dm_connections dm \<le> TELEMETRY_CONNECTION_SLOTS
    \<and> dm_state dm' = dm_state dm
    \<and> length after \<le> 10 * dm_unsignalled dm + 4 * pub_pending (dm_publisher dm) + 12
    \<and> (shows_state (ho_sha256 ho) (dm_hub dm') (dm_state dm)
       \<or> (\<exists>a dm''. snapshot_action a \<and> daemon_step (ho_sha256 ho) dm' a dm''))"
proof (intro conjI)
  have new: "dm_state (new_daemon ho ps c token now) = new_state c" "dm_connections (new_daemon ho ps c token now) = 0"
    by (simp_all add: new_daemon_def Let_def)
  show "daemon_reachable c (dm_state dm)"
    using daemon_run_invariant [OF assms(1), of "\<lambda>d. daemon_reachable c (dm_state d)"] daemon_step_reachable daemon_start
    by (auto simp: new)
  show "dm_connections dm \<le> TELEMETRY_CONNECTION_SLOTS"
    using daemon_run_invariant [OF assms(1), of "\<lambda>d. dm_connections d \<le> TELEMETRY_CONNECTION_SLOTS"] daemon_step_connections
    by (auto simp: new)
  have work: "length after + snapshot_work dm' \<le> snapshot_work dm" and same: "dm_state dm' = dm_state dm"
    using snapshot_work_run [OF assms(2,3)] by simp_all
  show "dm_state dm' = dm_state dm" by (rule same)
  show "length after \<le> 10 * dm_unsignalled dm + 4 * pub_pending (dm_publisher dm) + 12"
    using work work_left_bound [of "dm_publisher dm"] by (simp add: snapshot_work_def split: if_splits)
  have "snapshot_inv (ho_sha256 ho) dm'"
    using daemon_run_invariant [OF assms(2)] daemon_run_invariant [OF assms(1)] snapshot_inv_new snapshot_inv_step by metis
  from snapshot_progress [OF this]
  show "shows_state (ho_sha256 ho) (dm_hub dm') (dm_state dm)
       \<or> (\<exists>a dm''. snapshot_action a \<and> daemon_step (ho_sha256 ho) dm' a dm'')"
    unfolding same by blast
qed

theorem snapshots_catch_up_witness:
  "\<exists>dm dm'. daemon_run (\<lambda>b. b) (new_daemon start_host example_paths default_config None 5) [AcceptTelemetry, TelemetryUpdate] dm
     \<and> daemon_run (\<lambda>b. b) dm [AskForSnapshot] dm' \<and> dm_unsignalled dm = 1 \<and> daemon_reachable default_config (dm_state dm)
     \<and> (shows_state (\<lambda>b. b) (dm_hub dm') (dm_state dm) \<or> (\<exists>a dm''. snapshot_action a \<and> daemon_step (\<lambda>b. b) dm' a dm''))"
proof -
  let ?new = "new_daemon start_host example_paths default_config None 5"
  obtain ev where run: "handle_telemetry_stream (\<lambda>_. 2000001) example_decoder
      (verify_telemetry_peer (Some \<lparr>cred_uid = 1000, cred_pid = 7\<rparr>) 1000 example_host (Some (path_of ''/opt/bin/moshwatchd'')))
      (at_once ([Chunk [65], Chunk [10, 10]] :: unit reader))
    = (Some (Inr ()), [(instrumented_session_id 7 1005000, ev)])"
    using example_applied by blast
  define dm where "dm = telemetry_update (instrumented_session_id 7 1005000) ev 2000001 (accept_telemetry ?new)"
  have slots: "dm_connections (accept_telemetry ?new) = 1"
    by (simp add: accept_telemetry_def new_daemon_def Let_def TELEMETRY_CONNECTION_SLOTS_def)
  have "daemon_step (\<lambda>b. b) (accept_telemetry ?new) TelemetryUpdate dm"
    unfolding dm_def by (rule step_telemetry [OF _ run]) (simp_all add: slots)
  then have before: "daemon_run (\<lambda>b. b) ?new [AcceptTelemetry, TelemetryUpdate] dm"
    by (intro daemon_run_cons [OF step_accept] daemon_run_cons [OF _ daemon_run_nil])
  have one: "dm_unsignalled dm = 1"
    by (simp add: dm_def telemetry_update_def accept_telemetry_def new_daemon_def Let_def)
  then have "0 < dm_unsignalled dm" by simp
  from daemon_run_cons [OF step_ask [OF this store_dirty] daemon_run_nil] obtain dm' where
    after: "daemon_run (\<lambda>b. b) dm [AskForSnapshot] dm'" by blast
  have ho: "ho_sha256 start_host = (\<lambda>b. b)" by (simp add: start_host_def)
  from snapshots_catch_up [of start_host example_paths default_config None 5, unfolded ho, OF before after] before after one
  show ?thesis by (intro exI [of _ dm] exI [of _ dm']) simp
qed

end
