(* ===== verification/Metrics_Token_Facts.thy ===== *)
theory Metrics_Token_Facts
  imports Startup_Facts Metrics_Server_Facts Ui_Wire
begin

text \<open>
  The bearer token from the file to the check of a request: a scraper that reads the file of a
  running daemon is let in, and no other token is.
\<close>

section \<open>A scrape\<close>

definition scrape_request :: "rstr \<Rightarrow> rstr" where
  "scrape_request token =
     lit ''GET /metrics HTTP/1.1'' @ crlf @ lit ''Authorization: Bearer '' @ token @ crlf @ crlf"

definition word_token :: "rstr \<Rightarrow> bool" where
  "word_token w \<longleftrightarrow> w \<noteq> [] \<and> (\<forall>c \<in> set w. \<not> is_whitespace c \<and> is_scalar c)"

lemma bearer_line:
  assumes "word_token w"
  shows "bearer_token_of_line (lit ''Authorization: Bearer '' @ w) = Some w"
proof -
  have "w \<noteq> []" "\<forall>c \<in> set w. \<not> is_whitespace c" using assms by (simp_all add: word_token_def)
  moreover from this have "hd w \<in> set w" "last w \<in> set w" by simp_all
  moreover have "is_whitespace 13" by (simp add: is_whitespace_def)
  ultimately have w: "w \<noteq> []" "\<not> is_whitespace (hd w)" "\<not> is_whitespace (last w)" "last w \<noteq> 13"
    by metis+
  have "trim_end_char 13 (lit ''Authorization: Bearer '' @ w) = lit ''Authorization: Bearer '' @ w"
    using w(1,4) by (cases w rule: rev_cases) (auto simp: trim_end_char_def)
  moreover have "split_once (lit ''Authorization: Bearer '' @ w) 58 = Some (lit ''Authorization'', lit '' Bearer '' @ w)"
    by (simp add: lit_def)
  moreover have "trim (lit '' Bearer '' @ w) = lit ''Bearer '' @ w"
  proof -
    have "trim (32 # s) = trim s" for s by (simp add: trim_def trim_start_def is_whitespace_def)
    moreover have "trim (lit ''Bearer '' @ w) = lit ''Bearer '' @ w"
      using w by (intro trim_id) (auto simp: lit_def is_whitespace_def)
    ultimately show ?thesis by (simp add: lit_def)
  qed
  moreover have "split_once (lit ''Bearer '' @ w) 32 = Some (lit ''Bearer'', w)" by (simp add: lit_def)
  moreover have "trim w = w" using w by (intro trim_id)
  moreover have "eq_ignore_ascii_case (lit ''Authorization'') (lit ''authorization'')"
    "eq_ignore_ascii_case (lit ''Bearer'') (lit ''bearer'')" by code_simp+
  ultimately show ?thesis using w(1) by (simp add: bearer_token_of_line_def Let_def)
qed

lemma scrape_token:
  assumes "word_token w"
  shows "extract_bearer_token (scrape_request w) = Some w"
proof -
  have "is_whitespace 10" by (simp add: is_whitespace_def)
  then have "10 \<notin> set w" using assms unfolding word_token_def by blast
  then have "10 \<notin> set (lit ''Authorization: Bearer '' @ w)" by (simp add: lit_def)
  moreover have "10 \<notin> set (lit ''GET /metrics HTTP/1.1'')" by (simp add: lit_def)
  ultimately have "split_on 10 (scrape_request w)
      = (lit ''GET /metrics HTTP/1.1'' @ [13]) # ((lit ''Authorization: Bearer '' @ w) @ [13]) # split_on 10 crlf"
    using split_on_line [of "lit ''GET /metrics HTTP/1.1'' @ [13]" "((lit ''Authorization: Bearer '' @ w) @ [13]) @ 10 # crlf"]
      split_on_line [of "(lit ''Authorization: Bearer '' @ w) @ [13]" crlf]
    by (simp add: scrape_request_def crlf_def)
  moreover have "split_on 10 crlf = [[13], []]" by (simp add: crlf_def)
  ultimately have "drop 1 (text_lines (scrape_request w)) = [lit ''Authorization: Bearer '' @ w, []]"
    by (simp add: text_lines_def Let_def strip_cr_def butlast_append)
  then show ?thesis by (simp add: extract_bearer_token_def bearer_line [OF assms])
qed

lemma scrape_authorized:
  assumes "word_token w" "word_token t"
  shows "metrics_request_is_authorized (scrape_request w) t \<longleftrightarrow> w = t"
  using assms utf8_encode_inject [of w t]
  by (auto simp: metrics_request_is_authorized_def scrape_token constant_time_eq_iff word_token_def list_all_iff)

section \<open>From the file to the check\<close>

lemma valid_word: "valid_token t \<Longrightarrow> word_token t"
  by (auto simp: valid_token_def word_token_def is_whitespace_def is_scalar_def)



text \<open>
  The comparison of the request is exact, and neither loading nor repairing rewrites a file whose
  token is in upper case: a scraper that sends what the file says is turned away.
\<close>

lemma uppercase_token_refused:
  assumes "token_layout ps" "load_or_create_metrics_auth_token e ps d = (Some t, d')"
    and "holds_file d (rp_metrics_token_path ps) (utf8_encode u)" "token_of (utf8_encode u) = Some v"
    and "word_token u" "u \<noteq> to_ascii_lowercase u"
  shows "holds_file d' (rp_metrics_token_path ps) (utf8_encode u)
    \<and> fst (ensure_metrics_auth_token_file_matches e2 ps t d') \<in> {None, Some False}
    \<and> \<not> metrics_request_is_authorized (scrape_request u) t"
proof -
  have "valid_token t" "t = v" and held: "holds_file d' (rp_metrics_token_path ps) (utf8_encode u)"
    using load_token_result [OF assms(1,2)] assms(3,4) by auto
  have "from_utf8 (utf8_encode u) = Some u"
    using assms(5) by (intro from_utf8_encode) (simp add: word_token_def list_all_iff)
  moreover have "\<forall>c \<in> set u. \<not> is_whitespace c" "u \<noteq> []" using assms(5) by (simp_all add: word_token_def)
  then have "trim u = u" by (intro trim_id) simp_all
  ultimately have "validate_metrics_auth_token u = Some t"
    using assms(4) \<open>t = v\<close> by (auto simp: token_of_def split: if_splits)
  then have "t = to_ascii_lowercase u" by (auto simp: validate_metrics_auth_token_def split: if_splits)
  then have "\<not> metrics_request_is_authorized (scrape_request u) t"
    using scrape_authorized [OF assms(5) valid_word [OF \<open>valid_token t\<close>]] assms(6) by simp
  moreover have "fst (ensure_metrics_auth_token_file_matches e2 ps t d') \<in> {None, Some False}"
    using restore_token_result [OF assms(1) surjective_pairing, where e = e2 and expected = t and d = d'] held assms(4)
      valid_token_validates(1) [OF \<open>valid_token t\<close>] \<open>t = v\<close>
    by (cases "fst (ensure_metrics_auth_token_file_matches e2 ps t d')") auto
  ultimately show ?thesis using held by simp
qed

end
