(* ===== verification/Xtask_Text.thy ===== *)
theory Xtask_Text
  imports Observability Identity Discovery
begin

text \<open>
  The parts of the build tool \<open>xtask/src/main.rs\<close> that work on text: arguments and names, the
  environment of the vendored build, the managed block of the shell files, templates, and the
  metric catalog as a table.
\<close>

section \<open>Searching and replacing\<close>

text \<open>\<open>str::find\<close> and \<open>str::replace\<close> (for a pattern that is not empty).\<close>

fun find_str :: "rstr \<Rightarrow> rstr \<Rightarrow> nat option" where
  "find_str [] pat = (if pat = [] then Some 0 else None)"
| "find_str (c # s) pat = (if starts_with (c # s) pat then Some 0 else map_option Suc (find_str s pat))"

lemma starts_with_length: "starts_with s p \<Longrightarrow> length p \<le> length s"
  unfolding starts_with_def by (metis length_take min.cobounded1)

lemma find_str_length: "find_str s pat = Some i \<Longrightarrow> i + length pat \<le> length s"
  by (induction s arbitrary: i) (auto dest: starts_with_length split: if_splits)

function replace_str :: "rstr \<Rightarrow> rstr \<Rightarrow> rstr \<Rightarrow> rstr" where
  "replace_str s pat new =
     (if pat = [] then s
      else (case find_str s pat of
              None \<Rightarrow> s
            | Some i \<Rightarrow> take i s @ new @ replace_str (drop (i + length pat) s) pat new))"
  by pat_completeness auto
termination
  by (relation "measure (\<lambda>(s, pat, new). length s)") (auto dest!: find_str_length simp flip: length_greater_0_conv)

declare replace_str.simps [simp del]

section \<open>Arguments\<close>

record release_target =
  rt_os :: rstr
  rt_arch :: rstr

definition default_release :: release_target where
  "default_release = \<lparr>rt_os = lit ''linux'', rt_arch = lit ''x86_64''\<rparr>"

definition artifact_suffix :: "release_target \<Rightarrow> rstr" where
  "artifact_suffix t = rt_os t @ lit ''-'' @ rt_arch t"

record package_release_args =
  pa_tag :: rstr
  pa_target :: release_target

datatype args_error = MissingValue rstr | UsageAsked | UnexpectedArgument rstr | EmptyTarget rstr

record release_options =
  ro_tag :: "rstr option"
  ro_os :: "rstr option"
  ro_arch :: "rstr option"

function trim_start_matches_str :: "rstr \<Rightarrow> rstr \<Rightarrow> rstr" where
  "trim_start_matches_str s pat =
     (if pat \<noteq> [] \<and> starts_with s pat then trim_start_matches_str (drop (length pat) s) pat else s)"
  by pat_completeness auto
termination
  by (relation "measure (\<lambda>(s, pat). length s)") (auto dest!: starts_with_length simp flip: length_greater_0_conv)

declare trim_start_matches_str.simps [simp del]

fun release_options_loop :: "rstr list \<Rightarrow> release_options \<Rightarrow> args_error + release_options" where
  "release_options_loop [] found = Inr found"
| "release_options_loop (arg # rest) found =
     (if arg = lit ''--tag'' then
        (case rest of [] \<Rightarrow> Inl (MissingValue arg) | v # rest' \<Rightarrow> release_options_loop rest' (found\<lparr>ro_tag := Some v\<rparr>))
      else if starts_with arg (lit ''--tag='') then
        release_options_loop rest (found\<lparr>ro_tag := Some (trim_start_matches_str arg (lit ''--tag=''))\<rparr>)
      else if arg = lit ''--target-os'' then
        (case rest of [] \<Rightarrow> Inl (MissingValue arg) | v # rest' \<Rightarrow> release_options_loop rest' (found\<lparr>ro_os := Some v\<rparr>))
      else if starts_with arg (lit ''--target-os='') then
        release_options_loop rest (found\<lparr>ro_os := Some (trim_start_matches_str arg (lit ''--target-os=''))\<rparr>)
      else if arg = lit ''--target-arch'' then
        (case rest of [] \<Rightarrow> Inl (MissingValue arg) | v # rest' \<Rightarrow> release_options_loop rest' (found\<lparr>ro_arch := Some v\<rparr>))
      else if starts_with arg (lit ''--target-arch='') then
        release_options_loop rest (found\<lparr>ro_arch := Some (trim_start_matches_str arg (lit ''--target-arch=''))\<rparr>)
      else if arg = lit ''-h'' \<or> arg = lit ''--help'' then Inl UsageAsked
      else Inl (UnexpectedArgument arg))"

definition expected_release_tag :: "rstr \<Rightarrow> rstr" where
  "expected_release_tag pkg_version = lit ''v'' @ pkg_version"

definition parse_package_release_args :: "rstr \<Rightarrow> rstr list \<Rightarrow> args_error + package_release_args" where
  "parse_package_release_args pkg_version args =
     (case release_options_loop args \<lparr>ro_tag = None, ro_os = None, ro_arch = None\<rparr> of
        Inl e \<Rightarrow> Inl e
      | Inr found \<Rightarrow>
          let target = \<lparr>rt_os = unwrap_or (ro_os found) (rt_os default_release),
                        rt_arch = unwrap_or (ro_arch found) (rt_arch default_release)\<rparr> in
          if trim (rt_os target) = [] then Inl (EmptyTarget (lit ''--target-os''))
          else if trim (rt_arch target) = [] then Inl (EmptyTarget (lit ''--target-arch''))
          else Inr \<lparr>pa_tag = unwrap_or (ro_tag found) (expected_release_tag pkg_version), pa_target = target\<rparr>)"

section \<open>Names of the artifacts\<close>

record release_artifact_paths =
  ra_release_dir :: path
  ra_stage_dir :: path
  ra_binary_tarball :: path
  ra_source_tarball :: path
  ra_sha256_sums :: path
  ra_build_info_json :: path

definition release_artifact_paths_of :: "path \<Rightarrow> rstr \<Rightarrow> release_target \<Rightarrow> release_artifact_paths" where
  "release_artifact_paths_of repo tag target =
     (let release_dir = join_name repo (utf8_encode (lit ''dist/release''));
          name = (\<lambda>suffix. join_name release_dir (utf8_encode (lit ''moshwatch-'' @ tag @ suffix)))
      in \<lparr>ra_release_dir = release_dir,
          ra_stage_dir = name (lit ''-'' @ artifact_suffix target),
          ra_binary_tarball = name (lit ''-'' @ artifact_suffix target @ lit ''.tar.gz''),
          ra_source_tarball = name (lit ''-source.tar.gz''),
          ra_sha256_sums = join_name release_dir (utf8_encode (lit ''SHA256SUMS'')),
          ra_build_info_json = name (lit ''-mosh-server-real-build-info.json'')\<rparr>)"

section \<open>The environment of the vendored build\<close>

text \<open>\<open>env::var_os\<close> is a function from names to byte strings; the environment is a map.\<close>

definition VENDOR_BUILD_PINNED_ENV :: "(string \<times> string) list" where
  "VENDOR_BUILD_PINNED_ENV = [(''LANG'', ''C''), (''LC_ALL'', ''C''), (''TZ'', ''UTC''), (''ZERO_AR_DATE'', ''1'')]"

definition VENDOR_BUILD_DEFAULT_TOOLS :: "(string \<times> string) list" where
  "VENDOR_BUILD_DEFAULT_TOOLS =
     [(''CC'', ''cc''), (''CXX'', ''c++''), (''AR'', ''ar''), (''RANLIB'', ''ranlib''),
      (''PKG_CONFIG'', ''pkg-config''), (''PROTOC'', ''protoc'')]"

definition vendored_build_environment :: "nat \<Rightarrow> (string \<Rightarrow> bytes option) \<Rightarrow> (string \<Rightarrow> rstr option)" where
  "vendored_build_environment source_date_epoch lookup =
     (let pinned = fold (\<lambda>(k, v) m. m(k \<mapsto> lit v)) VENDOR_BUILD_PINNED_ENV Map.empty;
          tools = fold (\<lambda>(k, d) m. m(k \<mapsto> from_utf8_lossy (unwrap_or (lookup k) (utf8_encode (lit d)))))
            VENDOR_BUILD_DEFAULT_TOOLS pinned;
          flags = fold (\<lambda>k m. case lookup k of Some v \<Rightarrow> m(k \<mapsto> from_utf8_lossy v) | None \<Rightarrow> m)
            [''CFLAGS'', ''CXXFLAGS'', ''LDFLAGS'', ''ARFLAGS''] tools
      in flags(''SOURCE_DATE_EPOCH'' \<mapsto> show_nat source_date_epoch))"

definition tool_command_from_environment :: "(string \<Rightarrow> rstr option) \<Rightarrow> string \<Rightarrow> string \<Rightarrow> rstr" where
  "tool_command_from_environment env key fallback =
     (case env key of
        None \<Rightarrow> lit fallback
      | Some v \<Rightarrow> (case split_whitespace v of w # _ \<Rightarrow> if w \<noteq> [] then w else lit fallback | [] \<Rightarrow> lit fallback))"

text \<open>The first line of a tool's answer that is not blank.\<close>

definition version_line :: "rstr \<Rightarrow> rstr" where
  "version_line stdout = trim (case find (\<lambda>l. trim l \<noteq> []) (text_lines stdout) of Some l \<Rightarrow> l | None \<Rightarrow> [])"

section \<open>The managed block\<close>

definition PATH_BLOCK_START :: rstr where "PATH_BLOCK_START = lit ''# >>> moshwatch path >>>''"
definition PATH_BLOCK_END :: rstr where "PATH_BLOCK_END = lit ''# <<< moshwatch path <<<''"

function strip_managed_block :: "rstr \<Rightarrow> rstr" where
  "strip_managed_block cleaned =
     (case find_str cleaned PATH_BLOCK_START of
        None \<Rightarrow> cleaned
      | Some start \<Rightarrow>
          (case find_str (drop start cleaned) PATH_BLOCK_END of
             None \<Rightarrow> cleaned
           | Some end_relative \<Rightarrow>
               let rest = drop (start + end_relative + length PATH_BLOCK_END) cleaned;
                   after = (if starts_with rest [10] then drop 1 rest else rest)
               in strip_managed_block (take start cleaned @ after)))"
  by pat_completeness auto
termination
proof (relation "measure length")
  fix cleaned start end_relative rest after
  assume *: "find_str cleaned PATH_BLOCK_START = Some start" "find_str (drop start cleaned) PATH_BLOCK_END = Some end_relative"
    "rest = drop (start + end_relative + length PATH_BLOCK_END) cleaned"
    "after = (if starts_with rest [10] then drop 1 rest else rest)"
  have "0 < length PATH_BLOCK_END" by (simp add: PATH_BLOCK_END_def lit_def)
  moreover have "length after \<le> length cleaned - (start + end_relative + length PATH_BLOCK_END)"
    using *(3,4) by (auto split: if_splits)
  moreover have "start + end_relative + length PATH_BLOCK_END \<le> length cleaned"
    using find_str_length [OF *(2)] find_str_length [OF *(1)] by simp
  ultimately have "min (length cleaned) start + length after < length cleaned" by linarith
  then show "(take start cleaned @ after, cleaned) \<in> measure length" by simp
qed simp

declare strip_managed_block.simps [simp del]

datatype placement = Prepend | Append

definition updated_contents :: "placement \<Rightarrow> rstr \<Rightarrow> rstr \<Rightarrow> rstr" where
  "updated_contents p block existing =
     (let cleaned = strip_managed_block existing in
      if trim cleaned = [] then block
      else (case p of
              Prepend \<Rightarrow> block @ [10] @ dropWhile (\<lambda>c. c = 10) cleaned
            | Append \<Rightarrow> trim_end cleaned @ [10, 10] @ block))"

text \<open>The block of \<open>install_shell_integration\<close>.\<close>

definition path_block :: rstr where
  "path_block = PATH_BLOCK_START @ [10]
     @ lit ''[ -r \"$HOME/.config/moshwatch/path.sh\" ] && . \"$HOME/.config/moshwatch/path.sh\"'' @ [10]
     @ PATH_BLOCK_END @ [10]"

section \<open>Templates\<close>

definition rendered_template :: "(rstr \<times> rstr) list \<Rightarrow> rstr \<Rightarrow> rstr" where
  "rendered_template replacements template = fold (\<lambda>(needle, new) t. replace_str t needle new) replacements template"

section \<open>The metric catalog as a table\<close>

fun metric_kind_name :: "metric_kind \<Rightarrow> rstr" where
  "metric_kind_name Gauge = lit ''gauge''"
| "metric_kind_name Counter = lit ''counter''"
| "metric_kind_name Info = lit ''info''"

fun cardinality_name :: "metric_cardinality \<Rightarrow> rstr" where
  "cardinality_name StaticCardinality = lit ''static''"
| "cardinality_name LowCardinality = lit ''low''"
| "cardinality_name PerSessionCardinality = lit ''per_session''"

fun privacy_name :: "metric_privacy \<Rightarrow> rstr" where
  "privacy_name FleetSafe = lit ''fleet_safe''"
| "privacy_name OperatorSensitive = lit ''operator_sensitive''"

fun label_schema_name :: "metric_label_schema \<Rightarrow> rstr" where
  "label_schema_name NoLabels = lit ''none''"
| "label_schema_name BuildVersion = lit ''version''"
| "label_schema_name Observer = lit ''observer''"
| "label_schema_name Kind = lit ''kind''"
| "label_schema_name KindHealth = lit ''kind,health''"
| "label_schema_name Loop = lit ''loop''"
| "label_schema_name Severity = lit ''severity''"
| "label_schema_name ExportResult = lit ''result''"
| "label_schema_name ExporterDetailTier = lit ''detail_tier''"
| "label_schema_name SessionValue = lit ''session_id,kind''"
| "label_schema_name SessionInfoLabels = lit ''session_id,display_session_id,kind,pid,started_at_unix_ms''"
| "label_schema_name SessionWindow = lit ''session_id,kind,window''"

fun detail_tier_name :: "metrics_detail_tier \<Rightarrow> rstr" where
  "detail_tier_name AggregateOnly = lit ''aggregate_only''"
| "detail_tier_name PerSession = lit ''per_session''"

definition catalog_cells :: "metric_descriptor \<Rightarrow> rstr list" where
  "catalog_cells d =
     (let code = (\<lambda>s. lit ''`'' @ s @ lit ''`'') in
      [code (md_name d), code (metric_kind_name (md_kind d)), code (md_unit d), code (label_schema_name (md_labels d)),
       code (detail_tier_name (md_minimum_detail_tier d)), code (privacy_name (md_privacy d)),
       code (cardinality_name (md_cardinality d)),
       concat (map (\<lambda>c. if c = 124 then [92, 124] else [c]) (md_help d))])"

definition catalog_row :: "metric_descriptor \<Rightarrow> rstr" where
  "catalog_row d = lit ''| '' @ join_with (lit '' | '') (catalog_cells d) @ lit '' |'' @ [10]"

definition catalog_head :: rstr where
  "catalog_head =
     lit ''<!-- Generated by `cargo run --locked -p xtask -- sync-observability-docs`; do not edit by hand. -->'' @ [10, 10]
     @ lit ''# Metric Catalog'' @ [10, 10]
     @ lit ''This file is generated from `crates/moshwatch-core/src/observability.rs`. It is the canonical exported metrics contract for Prometheus/OpenMetrics and OTLP.''
     @ [10, 10]
     @ lit ''| Metric | Type | Unit | Labels | Minimum Detail Tier | Privacy | Cardinality | Description |'' @ [10]
     @ lit ''| --- | --- | --- | --- | --- | --- | --- | --- |'' @ [10]"

definition render_metric_catalog_markdown :: rstr where
  "render_metric_catalog_markdown = catalog_head @ concat (map catalog_row metric_catalog)"

definition render_default_config_toml :: "(app_config \<Rightarrow> rstr option) \<Rightarrow> rstr option" where
  "render_default_config_toml to_toml =
     map_option (\<lambda>body. lit ''# Generated by `cargo run --locked -p xtask -- sync-observability-docs`; do not edit by hand.''
       @ [10, 10] @ body) (to_toml default_config)"

end
