(* ===== verification/Xtask_Files.thy ===== *)
theory Xtask_Files
  imports Xtask_Text Secure_Files
begin

text \<open>
  The files that the build tool writes (\<open>xtask/src/main.rs\<close>): installing a file by way of a
  temporary one, the managed block of the shell files, the release tree, its archive and its
  check sums.  The disk is that of \<open>Secure_Files\<close>; SHA-256, the targets of links and the choice of
  temporary names are inputs.
\<close>

unbundle bit_operations_syntax

section \<open>Paths and links\<close>

record xtask_env =
  xe_fs :: fs_env
  xe_link :: "path \<Rightarrow> path option"
  xe_temporary :: "path \<Rightarrow> path"

text \<open>\<open>Path::join\<close> of a path.\<close>

definition join_path :: "path \<Rightarrow> path \<Rightarrow> path" where
  "join_path base p = (if p \<noteq> [] \<and> hd p = RootDir then p else base @ filter (\<lambda>c. base = [] \<or> c \<noteq> CurDir) p)"

definition link_target :: "xtask_env \<Rightarrow> path \<Rightarrow> path option" where
  "link_target x p =
     (case xe_link x p of
        None \<Rightarrow> None
      | Some target \<Rightarrow>
          if target \<noteq> [] \<and> hd target = RootDir then Some target
          else map_option (\<lambda>base. join_path base target) (parent p))"

definition resolve_symlink_target_path :: "xtask_env \<Rightarrow> path \<Rightarrow> path on_disk" where
  "resolve_symlink_target_path x p d =
     (if map_option nd_kind (node_at d p) = Some Symlink then (link_target x p, d) else fail d)"

text \<open>What a call that follows links finds; the kernel follows at most 40.\<close>

fun follow :: "xtask_env \<Rightarrow> nat \<Rightarrow> path \<Rightarrow> disk \<Rightarrow> (path \<times> node) option" where
  "follow x 0 p d = None"
| "follow x (Suc n) p d =
     (case node_at d p of
        None \<Rightarrow> None
      | Some n' \<Rightarrow>
          if nd_kind n' = Symlink then (case link_target x p of None \<Rightarrow> None | Some q \<Rightarrow> follow x n q d)
          else Some (p, n'))"

definition MAX_LINKS :: nat where "MAX_LINKS = 41"

definition metadata :: "xtask_env \<Rightarrow> path \<Rightarrow> disk \<Rightarrow> (path \<times> node) option" where
  "metadata x p d = (if fe_fails (xe_fs x) (Stat p) then None else follow x MAX_LINKS p d)"

definition exists_path :: "xtask_env \<Rightarrow> path \<Rightarrow> disk \<Rightarrow> bool" where
  "exists_path x p d \<longleftrightarrow> metadata x p d \<noteq> None"

text \<open>\<open>Permissions::mode\<close> has the type of the file in it; \<open>chmod\<close> takes the low twelve bits.\<close>

definition st_mode :: "node \<Rightarrow> file_mode" where
  "st_mode n = nd_mode n OR
     (case nd_kind n of RegularFile _ \<Rightarrow> 32768 | Directory \<Rightarrow> 16384 | SocketNode \<Rightarrow> 49152 | _ \<Rightarrow> 0)"

definition file_mode_or_default :: "xtask_env \<Rightarrow> path \<Rightarrow> file_mode \<Rightarrow> disk \<Rightarrow> file_mode" where
  "file_mode_or_default x p default_mode d =
     (case metadata x p d of None \<Rightarrow> default_mode | Some (q, n) \<Rightarrow> st_mode n)"

definition set_mode_if_unix :: "xtask_env \<Rightarrow> path \<Rightarrow> file_mode \<Rightarrow> unit on_disk" where
  "set_mode_if_unix x p mode d =
     (case metadata x p d of
        None \<Rightarrow> fail d
      | Some (q, n) \<Rightarrow>
          if fe_fails (xe_fs x) (Chmod p) then fail d
          else succeed () (set_node q (Some (n\<lparr>nd_mode := mode AND 4095\<rparr>)) d))"

definition read_bytes :: "xtask_env \<Rightarrow> path \<Rightarrow> disk \<Rightarrow> bytes option" where
  "read_bytes x p d =
     (if fe_fails (xe_fs x) (OpenRead p) \<or> fe_fails (xe_fs x) (ReadFile p) then None
      else (case follow x MAX_LINKS p d of
              Some (q, n) \<Rightarrow> (case nd_kind n of RegularFile bs \<Rightarrow> Some bs | _ \<Rightarrow> None)
            | None \<Rightarrow> None))"

definition read_to_string :: "xtask_env \<Rightarrow> path \<Rightarrow> disk \<Rightarrow> rstr option" where
  "read_to_string x p d = Option.bind (read_bytes x p d) from_utf8"

section \<open>Installing a file\<close>

text \<open>A \<open>NamedTempFile\<close> is removed when it is dropped before it is persisted.\<close>

definition create_temporary_file_in_same_dir :: "xtask_env \<Rightarrow> path \<Rightarrow> file_mode \<Rightarrow> path on_disk" where
  "create_temporary_file_in_same_dir x p mode d =
     (if parent p = None \<or> file_name p = None then fail d
      else let t = xe_temporary x p in
        if fe_fails (xe_fs x) (CreateFile t) \<or> node_at d t \<noteq> None then fail d
        else (case set_mode_if_unix x t mode
                (set_node t (Some \<lparr>nd_kind = RegularFile [], nd_mode = 384 AND NOT (fe_umask (xe_fs x))\<rparr>) d) of
                (None, d') \<Rightarrow> (None, remove_file (xe_fs x) t d')
              | (Some u, d') \<Rightarrow> (Some t, d')))"

definition write_contents :: "xtask_env \<Rightarrow> bytes \<Rightarrow> path \<Rightarrow> unit on_disk" where
  "write_contents x contents t d =
     (case node_at d t of
        None \<Rightarrow> fail d
      | Some n \<Rightarrow>
          if fe_fails (xe_fs x) (WriteFile t)
          then fail (set_node t (Some (n\<lparr>nd_kind := RegularFile (take (fe_torn (xe_fs x) t) contents)\<rparr>)) d)
          else succeed () (set_node t (Some (n\<lparr>nd_kind := RegularFile contents\<rparr>)) d))"

definition install_file_with_temporary :: "xtask_env \<Rightarrow> path \<Rightarrow> file_mode \<Rightarrow> (path \<Rightarrow> unit on_disk) \<Rightarrow> unit on_disk" where
  "install_file_with_temporary x destination mode write_to =
     on_success (create_temporary_file_in_same_dir x destination mode)
       (\<lambda>t d.
          (case on_success (write_to t) (\<lambda>_. on_success (set_mode_if_unix x t mode) (\<lambda>_. rename (xe_fs x) t destination)) d of
             (None, d') \<Rightarrow> (None, remove_file (xe_fs x) t d')
           | (Some u, d') \<Rightarrow> (Some u, d')))"

definition install_bytes :: "xtask_env \<Rightarrow> path \<Rightarrow> bytes \<Rightarrow> file_mode \<Rightarrow> unit on_disk" where
  "install_bytes x destination contents mode = install_file_with_temporary x destination mode (write_contents x contents)"

definition install_text_file :: "xtask_env \<Rightarrow> path \<Rightarrow> rstr \<Rightarrow> file_mode \<Rightarrow> unit on_disk" where
  "install_text_file x destination contents mode =
     install_file_with_temporary x destination mode (write_contents x (utf8_encode contents))"

definition make_executable :: "xtask_env \<Rightarrow> path \<Rightarrow> unit on_disk" where
  "make_executable x p = set_mode_if_unix x p 493"

definition install_binary :: "xtask_env \<Rightarrow> path \<Rightarrow> path \<Rightarrow> unit on_disk" where
  "install_binary x source destination =
     on_success (install_file_with_temporary x destination 384
         (\<lambda>t d. case read_bytes x source d of None \<Rightarrow> fail d | Some bs \<Rightarrow> write_contents x bs t d))
       (\<lambda>_. make_executable x destination)"

definition install_text_file_through_symlink :: "xtask_env \<Rightarrow> path \<Rightarrow> rstr \<Rightarrow> file_mode \<Rightarrow> unit on_disk" where
  "install_text_file_through_symlink x destination contents mode =
     on_success (resolve_symlink_target_path x destination) (\<lambda>target. install_text_file x target contents mode)"

section \<open>The shell files\<close>

definition is_symlink :: "xtask_env \<Rightarrow> path \<Rightarrow> disk \<Rightarrow> bool" where
  "is_symlink x p d \<longleftrightarrow> \<not> fe_fails (xe_fs x) (Stat p) \<and> map_option nd_kind (node_at d p) = Some Symlink"

definition upsert_managed_block :: "xtask_env \<Rightarrow> path \<Rightarrow> rstr \<Rightarrow> placement \<Rightarrow> unit on_disk" where
  "upsert_managed_block x p block where' d =
     (let existing = unwrap_or (read_to_string x p d) [];
          updated = updated_contents where' block existing;
          mode = file_mode_or_default x p 420 d
      in if is_symlink x p d then install_text_file_through_symlink x p updated mode d
         else install_text_file x p updated mode d)"

text \<open>\<open>create_dir_all\<close>, from the first component on.\<close>

fun create_dirs :: "xtask_env \<Rightarrow> path \<Rightarrow> path \<Rightarrow> unit on_disk" where
  "create_dirs x current [] d = succeed () d"
| "create_dirs x current (c # cs) d =
     (case follow x MAX_LINKS (current @ [c]) d of
        Some (q, n) \<Rightarrow> if nd_kind n = Directory then create_dirs x (current @ [c]) cs d else fail d
      | None \<Rightarrow>
          if node_at d (current @ [c]) \<noteq> None \<or> fe_fails (xe_fs x) (Mkdir (current @ [c])) then fail d
          else create_dirs x (current @ [c]) cs
            (set_node (current @ [c]) (Some \<lparr>nd_kind = Directory, nd_mode = 511 AND NOT (fe_umask (xe_fs x))\<rparr>) d))"

definition create_dir_all :: "xtask_env \<Rightarrow> path \<Rightarrow> unit on_disk" where
  "create_dir_all x p = create_dirs x [] p"

definition path_snippet :: rstr where
  "path_snippet =
     lit ''# Added by moshwatch install. Keep ~/.local/bin ahead of system PATH so SSH-launched Mosh sessions resolve the wrapper.'' @ [10]
     @ lit ''if [ -d \"$HOME/.local/bin\" ]; then'' @ [10]
     @ lit ''    case \":$PATH:\" in'' @ [10]
     @ lit ''        *\":$HOME/.local/bin:\"*) ;;'' @ [10]
     @ lit ''        *) PATH=\"$HOME/.local/bin:$PATH\" ;;'' @ [10]
     @ lit ''    esac'' @ [10]
     @ lit ''fi'' @ [10]"

definition install_shell_integration :: "xtask_env \<Rightarrow> path \<Rightarrow> unit on_disk" where
  "install_shell_integration x home =
     (let config_dir = join_str home ''.config/moshwatch'' in
      on_success (create_dir_all x config_dir) (\<lambda>_.
      on_success (install_text_file x (join_str config_dir ''path.sh'') path_snippet 420) (\<lambda>_.
      on_success (upsert_managed_block x (join_str home ''.bashrc'') path_block Prepend) (\<lambda>_.
      upsert_managed_block x (join_str home ''.profile'') path_block Append))))"

section \<open>Generated documents\<close>

definition write_or_check_generated :: "xtask_env \<Rightarrow> path \<Rightarrow> rstr \<Rightarrow> bool \<Rightarrow> unit on_disk" where
  "write_or_check_generated x p expected check_only =
     (if check_only then (\<lambda>d. if read_to_string x p d = Some expected then succeed () d else fail d)
      else on_success (case parent p of None \<Rightarrow> succeed () | Some dir \<Rightarrow> create_dir_all x dir)
             (\<lambda>_. install_text_file x p expected 420))"

definition sync_observability_docs :: "xtask_env \<Rightarrow> (app_config \<Rightarrow> rstr option) \<Rightarrow> path \<Rightarrow> bool \<Rightarrow> unit on_disk" where
  "sync_observability_docs x to_toml repo check_only =
     on_success (write_or_check_generated x (join_str repo ''docs/observability/metric-catalog.md'')
         render_metric_catalog_markdown check_only)
       (\<lambda>_. on_success (of_option (render_default_config_toml to_toml))
          (\<lambda>config. write_or_check_generated x (join_str repo ''examples/observability/config/moshwatch.toml'') config check_only))"

section \<open>Templates\<close>

definition render_template :: "xtask_env \<Rightarrow> path \<Rightarrow> (rstr \<times> rstr) list \<Rightarrow> rstr on_disk" where
  "render_template x p replacements d = (map_option (rendered_template replacements) (read_to_string x p d), d)"

definition render_release_install_script :: "xtask_env \<Rightarrow> path \<Rightarrow> rstr on_disk" where
  "render_release_install_script x manifest_dir =
     render_template x (join_str (join_str manifest_dir ''templates'') ''release-install.sh.template'')
       [(lit ''@PATH_BLOCK_START@'', PATH_BLOCK_START), (lit ''@PATH_BLOCK_END@'', PATH_BLOCK_END)]"

section \<open>The release tree\<close>

definition under :: "path \<Rightarrow> path \<Rightarrow> bool" where
  "under dir p \<longleftrightarrow> take (length dir) p = dir"

definition remove_dir_all :: "xtask_env \<Rightarrow> path \<Rightarrow> unit on_disk" where
  "remove_dir_all x p d =
     (if fe_fails (xe_fs x) (Unlink p) \<or> map_option nd_kind (node_at d p) \<noteq> Some Directory then fail d
      else succeed () (d\<lparr>dk_nodes := (\<lambda>q. if under p q then None else dk_nodes d q)\<rparr>))"

text \<open>Does each of a list of things, up to the first failure.\<close>

fun each_in_turn :: "('a \<Rightarrow> unit on_disk) \<Rightarrow> 'a list \<Rightarrow> unit on_disk" where
  "each_in_turn f [] = succeed ()"
| "each_in_turn f (a # as) = on_success (f a) (\<lambda>_. each_in_turn f as)"

definition staged_binaries :: "string list" where
  "staged_binaries = [''mosh-server-real'', ''moshwatchd'', ''moshwatch'']"

definition staged_texts :: "(string \<times> string) list" where
  "staged_texts =
     [(''scripts/mosh-server-wrapper.sh'', ''templates/mosh-server-wrapper.sh''),
      (''systemd/moshwatchd.service.template'', ''templates/moshwatchd.service''),
      (''README.md'', ''README.md''), (''LICENSE'', ''LICENSE''), (''NOTICE'', ''NOTICE''), (''LICENSES.md'', ''LICENSES.md''),
      (''vendor/mosh/AUTHORS'', ''licenses/vendor-mosh/AUTHORS''), (''vendor/mosh/COPYING'', ''licenses/vendor-mosh/COPYING''),
      (''vendor/mosh/COPYING.iOS'', ''licenses/vendor-mosh/COPYING.iOS''), (''vendor/mosh/README.md'', ''licenses/vendor-mosh/README.md'')]"

definition stage_binary :: "xtask_env \<Rightarrow> path \<Rightarrow> path \<Rightarrow> string \<Rightarrow> unit on_disk" where
  "stage_binary x repo stage b =
     install_binary x (join_str (join_str repo ''dist/bin'') b) (join_str (join_str stage ''bin'') b)"

definition stage_text :: "xtask_env \<Rightarrow> path \<Rightarrow> path \<Rightarrow> string \<times> string \<Rightarrow> unit on_disk" where
  "stage_text x repo stage st d =
     (case read_to_string x (join_str repo (fst st)) d of
        None \<Rightarrow> fail d
      | Some contents \<Rightarrow> install_text_file x (join_str stage (snd st)) contents 420 d)"

definition stage_release_tree :: "xtask_env \<Rightarrow> path \<Rightarrow> path \<Rightarrow> path \<Rightarrow> unit on_disk" where
  "stage_release_tree x manifest_dir repo stage =
     on_success (\<lambda>d. if exists_path x stage d then remove_dir_all x stage d else succeed () d) (\<lambda>_.
     on_success (each_in_turn (create_dir_all x)
       [stage, join_str stage ''bin'', join_str stage ''templates'', join_str (join_str stage ''licenses'') ''vendor-mosh'']) (\<lambda>_.
     on_success (each_in_turn (stage_binary x repo stage) staged_binaries) (\<lambda>_.
     on_success (render_release_install_script x manifest_dir) (\<lambda>script.
     on_success (install_text_file x (join_str stage ''install.sh'') script 493) (\<lambda>_.
     each_in_turn (stage_text x repo stage) staged_texts)))))"

definition required_release_files :: "string list" where
  "required_release_files =
     [''bin/mosh-server-real'', ''bin/moshwatchd'', ''bin/moshwatch'', ''install.sh'', ''README.md'', ''LICENSE'', ''NOTICE'',
      ''LICENSES.md'', ''templates/mosh-server-wrapper.sh'', ''templates/moshwatchd.service'',
      ''licenses/vendor-mosh/AUTHORS'', ''licenses/vendor-mosh/COPYING'', ''licenses/vendor-mosh/COPYING.iOS'',
      ''licenses/vendor-mosh/README.md'']"

definition validate_release_tree :: "xtask_env \<Rightarrow> path \<Rightarrow> disk \<Rightarrow> bool" where
  "validate_release_tree x stage d \<longleftrightarrow>
     (\<forall>f \<in> set required_release_files. exists_path x (join_str stage f) d)
     \<and> file_mode_or_default x (join_str stage ''install.sh'') 0 d AND 73 \<noteq> 0"

text \<open>The archive of the tree, as a list of headers with data.\<close>

datatype release_tree = TreeDir "(bytes \<times> release_tree) list" | TreeFile file_mode bytes | TreeOther

record tar_entry =
  te_path :: "bytes list"
  te_directory :: bool
  te_mode :: file_mode
  te_mtime :: nat
  te_uid :: nat
  te_gid :: nat
  te_data :: bytes

definition compare_bytes :: "bytes \<Rightarrow> bytes \<Rightarrow> ordering" where
  "compare_bytes a b = cmp_of (map unat a) (map unat b)"

definition compare_paths :: "bytes list \<Rightarrow> bytes list \<Rightarrow> ordering" where
  "compare_paths a b = cmp_of (map (map unat) a) (map (map unat) b)"

function collect_release_tree_entries :: "bytes list \<Rightarrow> release_tree \<Rightarrow> (bytes list \<times> release_tree) list" where
  "collect_release_tree_entries dir (TreeDir children) =
     concat (map (\<lambda>(name, t). (dir @ [name], t) # collect_release_tree_entries (dir @ [name]) t)
       (sort_by (\<lambda>a b. compare_bytes (fst a) (fst b)) children))"
| "collect_release_tree_entries dir (TreeFile mode data) = []"
| "collect_release_tree_entries dir TreeOther = []"
  by pat_completeness auto
termination
proof (relation "measure (\<lambda>(dir, t). size t)")
  fix dir :: "bytes list" and children :: "(bytes \<times> release_tree) list" and child name t
  assume "child \<in> set (sort_by (\<lambda>a b. compare_bytes (fst a) (fst b)) children)" "(name, t) = child"
  then have "(name, t) \<in> set children" by simp
  then show "((dir @ [name], t), dir, TreeDir children) \<in> measure (\<lambda>(dir, t). size t)"
    by (induction children) auto
qed simp

definition directory_header :: "nat \<Rightarrow> bytes list \<Rightarrow> tar_entry" where
  "directory_header epoch p =
     \<lparr>te_path = p, te_directory = True, te_mode = 493, te_mtime = epoch, te_uid = 0, te_gid = 0, te_data = []\<rparr>"

fun normalized_entry :: "nat \<Rightarrow> bytes list \<times> release_tree \<Rightarrow> tar_entry option" where
  "normalized_entry epoch (p, TreeDir children) = Some (directory_header epoch p)"
| "normalized_entry epoch (p, TreeFile mode data) =
     Some \<lparr>te_path = p, te_directory = False, te_mode = mode, te_mtime = epoch, te_uid = 0, te_gid = 0, te_data = data\<rparr>"
| "normalized_entry epoch (p, TreeOther) = None"

definition append_normalized_release_tree :: "nat \<Rightarrow> bytes \<Rightarrow> release_tree \<Rightarrow> tar_entry list option" where
  "append_normalized_release_tree epoch stage_name tree =
     (let entries = sort_by (\<lambda>a b. compare_paths (fst a) (fst b)) (collect_release_tree_entries [] tree);
          appended = map (\<lambda>(p, t). normalized_entry epoch (stage_name # p, t)) entries
      in if None \<in> set appended then None
         else Some (directory_header epoch [stage_name] # map the appended))"

section \<open>Check sums\<close>

text \<open>\<open>sha256\<close> is the digest, in hexadecimal, of the crate of that name.\<close>

definition sha256_hex :: "xtask_env \<Rightarrow> (bytes \<Rightarrow> rstr) \<Rightarrow> path \<Rightarrow> rstr on_disk" where
  "sha256_hex x sha256 p d = (map_option sha256 (read_bytes x p d), d)"

fun sha256_sums :: "xtask_env \<Rightarrow> (bytes \<Rightarrow> rstr) \<Rightarrow> path list \<Rightarrow> rstr on_disk" where
  "sha256_sums x sha256 [] = succeed []"
| "sha256_sums x sha256 (p # ps) =
     on_success (sha256_hex x sha256 p) (\<lambda>digest.
     on_success (of_option (file_name p)) (\<lambda>name.
     on_success (sha256_sums x sha256 ps) (\<lambda>rest.
     succeed (digest @ [32, 32] @ from_utf8_lossy name @ [10] @ rest))))"

definition write_sha256_sums :: "xtask_env \<Rightarrow> (bytes \<Rightarrow> rstr) \<Rightarrow> path \<Rightarrow> path list \<Rightarrow> unit on_disk" where
  "write_sha256_sums x sha256 destination files =
     on_success (sha256_sums x sha256 files) (\<lambda>listing. install_text_file x destination listing 420)"

end
