(* ===== verification/Xtask_Release.thy ===== *)
theory Xtask_Release
  imports Xtask_Files
begin

text \<open>
  The commands of the build tool (\<open>xtask/src/main.rs\<close>): building, installing, packaging a release
  and checking the generated documents, as one operation on the disk each.  The programs that it
  starts are a parameter that answers and may change the disk; so are the crates for SHA-256, tar
  and gzip, JSON, YAML and TOML.
\<close>

section \<open>Surroundings\<close>

datatype argument = Word rstr | PathArg path

record command =
  cm_program :: argument
  cm_args :: "argument list"
  cm_dir :: "path option"
  cm_env :: "string \<Rightarrow> rstr option"

record process_output =
  ou_code :: "int option"
  ou_stdout :: bytes

text \<open>
  JSON as \<open>serde_json\<close> holds it; the members of an object whose names are not ASCII are never asked
  for.
\<close>

datatype json_value =
  JNull | JBool bool | JNumber rstr | JText rstr | JArray "json_value list" | JObject "string \<Rightarrow> json_value option"

record tool_env =
  tl_files :: xtask_env
  tl_start :: "command \<Rightarrow> process_output on_disk"
  tl_var :: "string \<Rightarrow> bytes option"
  tl_manifest_dir :: path
  tl_version :: rstr
  tl_host :: release_target
  tl_cores :: "nat option"
  tl_now :: "nat option"
  tl_tree :: "path \<Rightarrow> disk \<Rightarrow> release_tree option"
  tl_sha256 :: "bytes \<Rightarrow> rstr"
  tl_tar_gz :: "tar_entry list \<Rightarrow> bytes"
  tl_to_json :: "json_value \<Rightarrow> rstr option"
  tl_parse_json :: "rstr \<Rightarrow> json_value option"
  tl_parse_yaml :: "rstr \<Rightarrow> bool"
  tl_to_toml :: "app_config \<Rightarrow> rstr option"
  tl_parse_toml :: "rstr \<Rightarrow> app_config option"
  tl_http :: http_crate

definition ensure :: "bool \<Rightarrow> unit on_disk" where
  "ensure c = (if c then succeed () else fail)"

definition plain_command :: "string \<Rightarrow> argument list \<Rightarrow> command" where
  "plain_command program args = \<lparr>cm_program = Word (lit program), cm_args = args, cm_dir = None, cm_env = (\<lambda>k. None)\<rparr>"

definition words :: "string list \<Rightarrow> argument list" where
  "words = map (\<lambda>w. Word (lit w))"

definition ran_well :: "process_output \<Rightarrow> bool" where
  "ran_well out \<longleftrightarrow> ou_code out = Some 0"

definition run :: "tool_env \<Rightarrow> command \<Rightarrow> unit on_disk" where
  "run t c = on_success (tl_start t c) (\<lambda>out. ensure (ran_well out))"

definition capture_stdout :: "tool_env \<Rightarrow> command \<Rightarrow> rstr on_disk" where
  "capture_stdout t c = on_success (tl_start t c) (\<lambda>out. if ran_well out then of_option (from_utf8 (ou_stdout out)) else fail)"

definition repo_root :: "tool_env \<Rightarrow> path on_disk" where
  "repo_root t = of_option (parent (tl_manifest_dir t))"

definition home_dir :: "tool_env \<Rightarrow> path on_disk" where
  "home_dir t = of_option (map_option components (tl_var t ''HOME''))"

text \<open>\<open>Path::join\<close> on the text of a path, as \<open>display\<close> shows it.\<close>

definition join_text :: "bytes \<Rightarrow> string \<Rightarrow> bytes" where
  "join_text p s = (if p = [] \<or> last p = 47 then p else p @ [47]) @ utf8_encode (lit s)"

definition install_bin_dir :: "tool_env \<Rightarrow> bytes on_disk" where
  "install_bin_dir t =
     of_option (map_option (\<lambda>home. join_text (join_text home ''.local/share/moshwatch'') ''bin'') (tl_var t ''HOME''))"

section \<open>The source of a release\<close>

record source_metadata =
  sm_source_ref :: rstr
  sm_source_commit :: rstr
  sm_source_commit_unix_ts :: nat
  sm_source_date_epoch :: nat

definition git :: "path \<Rightarrow> argument list \<Rightarrow> command" where
  "git repo args = plain_command ''git'' (Word (lit ''-C'') # PathArg repo # args)"

definition resolve_git_commit :: "tool_env \<Rightarrow> path \<Rightarrow> rstr \<Rightarrow> rstr option on_disk" where
  "resolve_git_commit t repo revision =
     on_success (tl_start t (git repo (words [''rev-parse'', ''--verify'', ''-q''] @ [Word revision])))
       (\<lambda>out. if ran_well out then of_option (map_option Some (from_utf8 (ou_stdout out)))
              else if ou_code out = Some 1 then succeed None
              else fail)"

definition resolve_release_source_ref :: "tool_env \<Rightarrow> path \<Rightarrow> rstr \<Rightarrow> rstr on_disk" where
  "resolve_release_source_ref t repo tag =
     on_success (capture_stdout t (git repo (words [''status'', ''--porcelain'', ''--untracked-files=no'']))) (\<lambda>tracked_changes.
     on_success (ensure (trim tracked_changes = [])) (\<lambda>_.
     on_success (capture_stdout t (git repo (words [''rev-parse'', ''HEAD'']))) (\<lambda>head.
     on_success (resolve_git_commit t repo (tag @ lit ''^{commit}'')) (\<lambda>found.
     case found of
       None \<Rightarrow> succeed (lit ''HEAD'')
     | Some tag_commit \<Rightarrow> on_success (ensure (trim head = trim tag_commit)) (\<lambda>_. succeed tag)))))"

definition resolve_source_metadata :: "tool_env \<Rightarrow> path \<Rightarrow> rstr \<Rightarrow> source_metadata on_disk" where
  "resolve_source_metadata t repo source_ref =
     on_success (capture_stdout t (git repo (words [''rev-parse'', ''--verify''] @ [Word (source_ref @ lit ''^{commit}'')]))) (\<lambda>commit.
     on_success (capture_stdout t (git repo (words [''show'', ''-s'', ''--format=%ct''] @ [Word (trim commit)]))) (\<lambda>time.
     on_success (of_option (parse_unsigned (trim time))) (\<lambda>seconds.
     succeed \<lparr>sm_source_ref = source_ref, sm_source_commit = trim commit,
              sm_source_commit_unix_ts = seconds, sm_source_date_epoch = seconds\<rparr>)))"

definition parse_source_date_epoch :: "bytes \<Rightarrow> nat on_disk" where
  "parse_source_date_epoch value = of_option (parse_unsigned (from_utf8_lossy value))"

definition local_build_source_date_epoch :: "tool_env \<Rightarrow> path \<Rightarrow> nat on_disk" where
  "local_build_source_date_epoch t repo d =
     (case tl_var t ''SOURCE_DATE_EPOCH'' of
        Some value \<Rightarrow> parse_source_date_epoch value d
      | None \<Rightarrow>
          if exists_path (tl_files t) (join_str repo ''.git'') d
          then on_success (resolve_source_metadata t repo (lit ''HEAD'')) (\<lambda>m. succeed (sm_source_date_epoch m)) d
          else of_option (tl_now t) d)"

section \<open>Building\<close>

definition run_vendored_command :: "tool_env \<Rightarrow> command \<Rightarrow> (string \<Rightarrow> rstr option) \<Rightarrow> nat \<Rightarrow> unit on_disk" where
  "run_vendored_command t c build_environment source_date_epoch =
     run t (c\<lparr>cm_env := (cm_env c ++ build_environment)(''SOURCE_DATE_EPOCH'' \<mapsto> show_nat source_date_epoch)\<rparr>)"

definition VENDOR_CONFIGURE_ARGS :: "string list" where
  "VENDOR_CONFIGURE_ARGS = [''--enable-server'', ''--disable-client'', ''--disable-examples'', ''--enable-compile-warnings=no'']"

definition configure_vendor_build :: "tool_env \<Rightarrow> path \<Rightarrow> path \<Rightarrow> (string \<Rightarrow> rstr option) \<Rightarrow> nat \<Rightarrow> unit on_disk" where
  "configure_vendor_build t vendor_source vendor_build build_environment source_date_epoch d =
     (let configure = run_vendored_command t
            \<lparr>cm_program = PathArg (join_str vendor_source ''configure''),
             cm_args = words [''--enable-server'', ''--disable-client'', ''--disable-examples'', ''--enable-compile-warnings=no''],
             cm_dir = Some vendor_build, cm_env = (\<lambda>k. None)\<rparr> build_environment source_date_epoch
      in case configure d of
           (Some u, d') \<Rightarrow> (Some (), d')
         | (None, d') \<Rightarrow>
             on_success (create_dir_all (tl_files t) vendor_build) (\<lambda>_. configure)
               (snd (remove_dir_all (tl_files t) vendor_build d')))"

definition build_all :: "tool_env \<Rightarrow> path \<Rightarrow> nat \<Rightarrow> unit on_disk" where
  "build_all t repo source_date_epoch =
     (let x = tl_files t; dist_bin = join_str repo ''dist/bin''; vendor_source = join_str repo ''vendor/mosh'';
          vendor_build = join_str repo ''build/vendor-mosh'';
          env = vendored_build_environment source_date_epoch (tl_var t) in
      on_success (create_dir_all x dist_bin) (\<lambda>_.
      on_success (create_dir_all x vendor_build) (\<lambda>_.
      on_success (\<lambda>d. if exists_path x (join_str vendor_source ''configure'') d then succeed () d
                      else run_vendored_command t
                        ((plain_command ''bash'' (words [''autogen.sh'']))\<lparr>cm_dir := Some vendor_source\<rparr>) env source_date_epoch d) (\<lambda>_.
      on_success (configure_vendor_build t vendor_source vendor_build env source_date_epoch) (\<lambda>_.
      on_success (run_vendored_command t
        ((plain_command ''make'' [Word (lit ''-j'' @ show_nat (unwrap_or (tl_cores t) 4))])\<lparr>cm_dir := Some vendor_build\<rparr>)
        env source_date_epoch) (\<lambda>_.
      on_success (install_binary x (join_str vendor_build ''src/frontend/mosh-server'') (join_str dist_bin ''mosh-server-real'')) (\<lambda>_.
      on_success (run_vendored_command t
        ((plain_command ''cargo'' (words [''build'', ''--locked'', ''--release'', ''-p'', ''moshwatchd'', ''-p'', ''moshwatch-ui'']))
          \<lparr>cm_dir := Some repo\<rparr>) env source_date_epoch) (\<lambda>_.
      on_success (install_binary x (join_str repo ''target/release/moshwatchd'') (join_str dist_bin ''moshwatchd'')) (\<lambda>_.
      install_binary x (join_str repo ''target/release/moshwatch-ui'') (join_str dist_bin ''moshwatch''))))))))))"

text \<open>The versions of the tools, by their logical names.\<close>

definition capture_tool_version :: "tool_env \<Rightarrow> rstr \<Rightarrow> rstr on_disk" where
  "capture_tool_version t tool =
     on_success (tl_start t \<lparr>cm_program = Word tool, cm_args = words [''--version''], cm_dir = None, cm_env = (\<lambda>k. None)\<rparr>)
       (\<lambda>out. if ran_well out then of_option (map_option version_line (from_utf8 (ou_stdout out))) else fail)"

fun tool_versions_of :: "tool_env \<Rightarrow> (string \<times> rstr) list \<Rightarrow> (string \<Rightarrow> rstr option) \<Rightarrow> (string \<Rightarrow> rstr option) on_disk" where
  "tool_versions_of t [] versions = succeed versions"
| "tool_versions_of t ((name, tool) # rest) versions =
     on_success (capture_tool_version t tool) (\<lambda>v. tool_versions_of t rest (versions(name \<mapsto> v)))"

definition collect_tool_versions :: "tool_env \<Rightarrow> (string \<Rightarrow> rstr option) \<Rightarrow> (string \<Rightarrow> rstr option) on_disk" where
  "collect_tool_versions t env =
     tool_versions_of t
       (map (\<lambda>tool. (tool, lit tool)) [''autoconf'', ''automake'', ''make'', ''rustc'', ''cargo'']
        @ map (\<lambda>(name, key, standard). (name, tool_command_from_environment env key standard))
            [(''cc'', ''CC'', ''cc''), (''cxx'', ''CXX'', ''c++''), (''ar'', ''AR'', ''ar''), (''ranlib'', ''RANLIB'', ''ranlib''),
             (''pkg-config'', ''PKG_CONFIG'', ''pkg-config''), (''protoc'', ''PROTOC'', ''protoc'')])
       Map.empty"

section \<open>Packaging a release\<close>

record mosh_server_build_info =
  bi_release_tag :: rstr
  bi_source_ref :: rstr
  bi_source_commit :: rstr
  bi_source_commit_unix_ts :: nat
  bi_source_date_epoch :: nat
  bi_configure_args :: "rstr list"
  bi_packaged_binary_sha256 :: rstr
  bi_build_environment :: "string \<Rightarrow> rstr option"
  bi_tool_versions :: "string \<Rightarrow> rstr option"

definition json_map :: "(string \<Rightarrow> rstr option) \<Rightarrow> json_value" where
  "json_map m = JObject (\<lambda>k. map_option JText (m k))"

definition build_info_json :: "mosh_server_build_info \<Rightarrow> json_value" where
  "build_info_json info =
     JObject [''release_tag'' \<mapsto> JText (bi_release_tag info),
       ''source'' \<mapsto> JObject [''ref'' \<mapsto> JText (bi_source_ref info), ''commit'' \<mapsto> JText (bi_source_commit info),
          ''commit_unix_ts'' \<mapsto> JNumber (show_nat (bi_source_commit_unix_ts info)),
          ''source_date_epoch'' \<mapsto> JNumber (show_nat (bi_source_date_epoch info))],
       ''configure'' \<mapsto> JObject [''args'' \<mapsto> JArray (map JText (bi_configure_args info)),
          ''environment'' \<mapsto> json_map (bi_build_environment info)],
       ''packaged_binary_sha256'' \<mapsto> JText (bi_packaged_binary_sha256 info),
       ''tool_versions'' \<mapsto> json_map (bi_tool_versions info)]"

definition write_mosh_server_build_info :: "tool_env \<Rightarrow> path \<Rightarrow> mosh_server_build_info \<Rightarrow> unit on_disk" where
  "write_mosh_server_build_info t destination info =
     on_success (of_option (tl_to_json t (build_info_json info)))
       (\<lambda>json. install_text_file (tl_files t) destination (json @ [10]) 420)"

definition write_tar_gz :: "tool_env \<Rightarrow> path \<Rightarrow> (disk \<Rightarrow> tar_entry list option) \<Rightarrow> unit on_disk" where
  "write_tar_gz t destination archive =
     install_file_with_temporary (tl_files t) destination 420
       (\<lambda>p d. case archive d of None \<Rightarrow> fail d | Some entries \<Rightarrow> write_contents (tl_files t) (tl_tar_gz t entries) p d)"

definition write_binary_archive :: "tool_env \<Rightarrow> path \<Rightarrow> path \<Rightarrow> nat \<Rightarrow> unit on_disk" where
  "write_binary_archive t stage destination source_date_epoch =
     on_success (of_option (file_name stage)) (\<lambda>name.
       write_tar_gz t destination (\<lambda>d. Option.bind (tl_tree t stage d)
         (append_normalized_release_tree source_date_epoch (utf8_encode (from_utf8_lossy name)))))"

definition write_source_archive :: "tool_env \<Rightarrow> path \<Rightarrow> rstr \<Rightarrow> rstr \<Rightarrow> path \<Rightarrow> unit on_disk" where
  "write_source_archive t repo tag source_ref destination =
     on_success (tl_start t (git repo (words [''archive'', ''--format=tar.gz'']
         @ [Word (lit ''--prefix=moshwatch-'' @ tag @ lit ''-source/''), Word source_ref])))
       (\<lambda>out. if ran_well out then install_bytes (tl_files t) destination (ou_stdout out) 420 else fail)"

definition ensure_release_platform :: "tool_env \<Rightarrow> release_target \<Rightarrow> unit on_disk" where
  "ensure_release_platform t target = ensure (rt_os target = rt_os (tl_host t) \<and> rt_arch target = rt_arch (tl_host t))"

definition package_release :: "tool_env \<Rightarrow> package_release_args \<Rightarrow> unit on_disk" where
  "package_release t args =
     on_success (ensure_release_platform t (pa_target args)) (\<lambda>_.
     on_success (ensure (pa_tag args = expected_release_tag (tl_version t))) (\<lambda>_.
     on_success (repo_root t) (\<lambda>repo.
     on_success (resolve_release_source_ref t repo (pa_tag args)) (\<lambda>source_ref.
     on_success (resolve_source_metadata t repo source_ref) (\<lambda>source.
     let x = tl_files t; epoch = sm_source_date_epoch source;
         env = vendored_build_environment epoch (tl_var t);
         places = release_artifact_paths_of repo (pa_tag args) (pa_target args); stage = ra_stage_dir places in
     on_success (build_all t repo epoch) (\<lambda>_.
     on_success (stage_release_tree x (tl_manifest_dir t) repo stage) (\<lambda>_.
     on_success (\<lambda>d. ensure (validate_release_tree x stage d) d) (\<lambda>_.
     on_success (sha256_hex x (tl_sha256 t) (join_str stage ''bin/mosh-server-real'')) (\<lambda>sha256.
     on_success (collect_tool_versions t env) (\<lambda>versions.
     on_success (write_mosh_server_build_info t (ra_build_info_json places)
       \<lparr>bi_release_tag = pa_tag args, bi_source_ref = sm_source_ref source, bi_source_commit = sm_source_commit source,
        bi_source_commit_unix_ts = sm_source_commit_unix_ts source, bi_source_date_epoch = epoch,
        bi_configure_args = map lit VENDOR_CONFIGURE_ARGS, bi_packaged_binary_sha256 = sha256,
        bi_build_environment = env, bi_tool_versions = versions\<rparr>) (\<lambda>_.
     on_success (write_binary_archive t stage (ra_binary_tarball places) epoch) (\<lambda>_.
     on_success (write_source_archive t repo (pa_tag args) source_ref (ra_source_tarball places)) (\<lambda>_.
     write_sha256_sums x (tl_sha256 t) (ra_sha256_sums places)
       [ra_binary_tarball places, ra_source_tarball places, ra_build_info_json places])))))))))))))"

section \<open>Installing\<close>

definition install_artifacts :: "tool_env \<Rightarrow> unit on_disk" where
  "install_artifacts t =
     on_success (repo_root t) (\<lambda>repo.
     on_success (install_bin_dir t) (\<lambda>bin.
     on_success (home_dir t) (\<lambda>home.
     let x = tl_files t; dist_bin = join_str repo ''dist/bin''; install_bin = components bin; user_bin = join_str home ''.local/bin'' in
     on_success (each_in_turn (create_dir_all x) [install_bin, user_bin]) (\<lambda>_.
     each_in_turn (\<lambda>(source, destination). install_binary x source destination)
       [(join_str dist_bin ''mosh-server-real'', join_str install_bin ''mosh-server-real''),
        (join_str dist_bin ''moshwatchd'', join_str install_bin ''moshwatchd''),
        (join_str dist_bin ''moshwatch'', join_str install_bin ''moshwatch''),
        (join_str dist_bin ''moshwatch'', join_str user_bin ''moshwatch'')]))))"

definition install_wrapper :: "tool_env \<Rightarrow> unit on_disk" where
  "install_wrapper t =
     on_success (repo_root t) (\<lambda>repo.
     on_success (home_dir t) (\<lambda>home.
     let x = tl_files t; user_bin = join_str home ''.local/bin'' in
     on_success (create_dir_all x user_bin) (\<lambda>_.
     on_success (install_bin_dir t) (\<lambda>bin.
     on_success (render_template x (join_str repo ''scripts/mosh-server-wrapper.sh'') [(lit ''@INSTALL_BIN_DIR@'', from_utf8_lossy bin)]) (\<lambda>script.
     install_text_file x (join_str user_bin ''mosh-server'') script 493)))))"

definition install_service :: "tool_env \<Rightarrow> unit on_disk" where
  "install_service t =
     on_success (repo_root t) (\<lambda>repo.
     on_success (home_dir t) (\<lambda>home.
     let x = tl_files t; target_dir = join_str home ''.config/systemd/user'' in
     on_success (create_dir_all x target_dir) (\<lambda>_.
     on_success (install_bin_dir t) (\<lambda>bin.
     on_success (render_template x (join_str repo ''systemd/moshwatchd.service.template'') [(lit ''@INSTALL_BIN_DIR@'', from_utf8_lossy bin)]) (\<lambda>unit_text.
     on_success (install_text_file x (join_str target_dir ''moshwatchd.service'') unit_text 420) (\<lambda>_.
     each_in_turn (\<lambda>args. run t (plain_command ''systemctl'' (words args)))
       [[''--user'', ''daemon-reload''], [''--user'', ''enable'', ''moshwatchd.service''], [''--user'', ''restart'', ''moshwatchd.service'']]))))))"

section \<open>The generated documents\<close>

definition required_assets :: "string list" where
  "required_assets =
     [''docs/observability/operator-guide.md'', ''docs/observability/metric-catalog.md'', ''docs/observability/migration.md'',
      ''examples/observability/README.md'', ''examples/observability/config/moshwatch.toml'',
      ''examples/observability/prometheus/README.md'', ''examples/observability/prometheus/prometheus.yml'',
      ''examples/observability/prometheus/rules/moshwatch.rules.yml'', ''examples/observability/prometheus/tests/moshwatch.rules.test.yml'',
      ''examples/observability/grafana/README.md'', ''examples/observability/grafana/provisioning/datasources/moshwatch.yml'',
      ''examples/observability/grafana/provisioning/dashboards/moshwatch.yml'',
      ''examples/observability/grafana/dashboards/moshwatch-overview.json'', ''examples/observability/otel-collector/README.md'',
      ''examples/observability/otel-collector/otelcol.yaml'']"

definition parse_yaml :: "tool_env \<Rightarrow> path \<Rightarrow> unit on_disk" where
  "parse_yaml t p d = (case read_to_string (tl_files t) p d of Some s \<Rightarrow> ensure (tl_parse_yaml t s) d | None \<Rightarrow> fail d)"

definition parse_json :: "tool_env \<Rightarrow> path \<Rightarrow> json_value on_disk" where
  "parse_json t p d = (Option.bind (read_to_string (tl_files t) p d) (tl_parse_json t), d)"

definition json_get :: "json_value \<Rightarrow> string \<Rightarrow> json_value option" where
  "json_get j name = (case j of JObject m \<Rightarrow> m name | _ \<Rightarrow> None)"

definition dashboard_ok :: "json_value \<Rightarrow> bool" where
  "dashboard_ok j \<longleftrightarrow> (case json_get j ''title'' of Some (JText s) \<Rightarrow> True | _ \<Rightarrow> False)
     \<and> (case json_get j ''panels'' of Some (JArray js) \<Rightarrow> True | _ \<Rightarrow> False) \<and> json_get j ''templating'' \<noteq> None"

definition command_exists :: "tool_env \<Rightarrow> string \<Rightarrow> bool on_disk" where
  "command_exists t program d =
     (case tl_start t (plain_command program (words [''--version''])) d of
        (None, d') \<Rightarrow> (Some False, d')
      | (Some out, d') \<Rightarrow> (Some (ran_well out), d'))"

definition validate_observability_assets :: "tool_env \<Rightarrow> unit on_disk" where
  "validate_observability_assets t =
     on_success (repo_root t) (\<lambda>repo.
     let x = tl_files t; asset = (\<lambda>p. join_str repo (''examples/observability/'' @ p));
         promtool = (\<lambda>args p. run t (plain_command ''promtool'' (words args @ [PathArg (asset p)]))) in
     on_success (sync_observability_docs x (tl_to_toml t) repo True) (\<lambda>_.
     on_success (\<lambda>d. ensure (\<forall>p \<in> set required_assets. exists_path x (join_str repo p) d) d) (\<lambda>_.
     on_success (\<lambda>d. of_option (read_to_string x (asset ''config/moshwatch.toml'') d) d) (\<lambda>toml.
     on_success (of_option (tl_parse_toml t toml)) (\<lambda>config.
     on_success (ensure (validate (tl_http t) config = Inr ())) (\<lambda>_.
     on_success (each_in_turn (\<lambda>p. parse_yaml t (asset p))
       [''prometheus/prometheus.yml'', ''prometheus/rules/moshwatch.rules.yml'', ''prometheus/tests/moshwatch.rules.test.yml'',
        ''grafana/provisioning/datasources/moshwatch.yml'', ''grafana/provisioning/dashboards/moshwatch.yml'',
        ''otel-collector/otelcol.yaml'']) (\<lambda>_.
     on_success (parse_json t (asset ''grafana/dashboards/moshwatch-overview.json'')) (\<lambda>dashboard.
     on_success (ensure (dashboard_ok dashboard)) (\<lambda>_.
     on_success (command_exists t ''promtool'') (\<lambda>found.
     if found then
       on_success (promtool [''check'', ''config'', ''--syntax-only''] ''prometheus/prometheus.yml'') (\<lambda>_.
       on_success (promtool [''check'', ''rules''] ''prometheus/rules/moshwatch.rules.yml'') (\<lambda>_.
       promtool [''test'', ''rules''] ''prometheus/tests/moshwatch.rules.test.yml''))
     else if tl_var t ''CI'' \<noteq> None then fail
     else succeed ()))))))))))"

section \<open>The command line\<close>

text \<open>The arguments after the program's name; an unknown command prints the usage.\<close>

definition xtask_main :: "tool_env \<Rightarrow> rstr list \<Rightarrow> unit on_disk" where
  "xtask_main t args =
     (let name = (case args of [] \<Rightarrow> lit ''help'' | a # as \<Rightarrow> a);
          build = on_success (repo_root t) (\<lambda>repo. on_success (local_build_source_date_epoch t repo) (build_all t repo));
          shell = on_success (home_dir t) (install_shell_integration (tl_files t));
          docs = (\<lambda>check_only. on_success (repo_root t) (\<lambda>repo. sync_observability_docs (tl_files t) (tl_to_toml t) repo check_only))
      in if name = lit ''build'' then build
         else if name = lit ''install'' then
           on_success build (\<lambda>_. on_success (install_artifacts t) (\<lambda>_. on_success (install_wrapper t) (\<lambda>_.
             on_success shell (\<lambda>_. install_service t))))
         else if name = lit ''install-artifacts'' then install_artifacts t
         else if name = lit ''install-wrapper'' then on_success (install_artifacts t) (\<lambda>_. install_wrapper t)
         else if name = lit ''install-service'' then install_service t
         else if name = lit ''install-shell-integration'' then shell
         else if name = lit ''package-release'' then
           (case parse_package_release_args (tl_version t) (tl args) of Inl e \<Rightarrow> fail | Inr parsed \<Rightarrow> package_release t parsed)
         else if name = lit ''sync-observability-docs'' then docs False
         else if name = lit ''check-observability-docs'' then docs True
         else if name = lit ''validate-observability-assets'' then validate_observability_assets t
         else succeed ())"

end
