(* ===== verification/Xtask_Text_Facts.thy ===== *)
theory Xtask_Text_Facts
  imports Xtask_Text
begin

text \<open>
  The managed block of the shell files: installing again changes nothing, and what the user wrote
  stays; and when it does not.
\<close>

section \<open>First occurrences\<close>

lemma find_str_None_iff: "find_str s pat = None \<longleftrightarrow> \<not> (\<exists>a b. s = a @ pat @ b)"
proof (induction s)
  case (Cons c s)
  have "(\<exists>a b. c # s = a @ pat @ b) \<longleftrightarrow> starts_with (c # s) pat \<or> (\<exists>a b. s = a @ pat @ b)"
  proof
    assume "\<exists>a b. c # s = a @ pat @ b"
    then obtain a b where ab: "c # s = a @ pat @ b" by blast
    show "starts_with (c # s) pat \<or> (\<exists>a b. s = a @ pat @ b)"
    proof (cases a)
      case Nil
      then show ?thesis using ab by (simp add: starts_with_def)
    next
      case (Cons x a')
      then show ?thesis using ab by auto
    qed
  next
    assume "starts_with (c # s) pat \<or> (\<exists>a b. s = a @ pat @ b)"
    then show "\<exists>a b. c # s = a @ pat @ b"
    proof
      assume "starts_with (c # s) pat"
      then have "c # s = [] @ pat @ drop (length pat) (c # s)"
        unfolding starts_with_def by (metis append_Nil append_take_drop_id)
      then show ?thesis by blast
    next
      assume "\<exists>a b. s = a @ pat @ b"
      then show ?thesis by (metis append_Cons)
    qed
  qed
  with Cons show ?case by simp
qed simp

lemma find_str_infix: "find_str (a @ s @ b) pat = None \<Longrightarrow> find_str s pat = None"
  unfolding find_str_None_iff by (metis append.assoc)

lemma starts_with_append: "starts_with s pat \<Longrightarrow> starts_with (s @ r) pat"
  using starts_with_length [of s pat] by (simp add: starts_with_def)

lemma starts_with_within: "starts_with (s @ r) pat \<Longrightarrow> length pat \<le> length s \<Longrightarrow> starts_with s pat"
  by (simp add: starts_with_def)

lemma find_str_append: "find_str s pat = Some i \<Longrightarrow> find_str (s @ r) pat = Some i"
proof (induction s arbitrary: i)
  case Nil
  then show ?case by (cases r) (auto simp: starts_with_def split: if_splits)
next
  case (Cons c s)
  show ?case
  proof (cases "starts_with (c # s) pat")
    case True
    then show ?thesis using Cons.prems starts_with_append [OF True, of r] by simp
  next
    case False
    then obtain j where j: "find_str s pat = Some j" "i = Suc j" using Cons.prems by auto
    then have "length pat \<le> length (c # s)" using find_str_length [OF j(1)] by simp
    then have "\<not> starts_with ((c # s) @ r) pat" using False starts_with_within by blast
    then show ?thesis using Cons.IH [OF j(1)] j(2) by simp
  qed
qed

text \<open>A pattern without newlines is found in one line or another.\<close>

lemma starts_with_line:
  assumes "starts_with (s @ 10 # r) pat" "10 \<notin> set pat"
  shows "starts_with s pat"
proof -
  have "length pat \<le> length s"
  proof (rule ccontr)
    assume "\<not> length pat \<le> length s"
    then have "(s @ 10 # r) ! length s = pat ! length s \<and> length s < length pat"
      using assms(1) unfolding starts_with_def by (metis nth_take linorder_not_le)
    then have "pat ! length s = 10 \<and> length s < length pat" by (simp add: nth_append)
    with assms(2) show False using nth_mem by metis
  qed
  with assms(1) show ?thesis by (rule starts_with_within)
qed

lemma find_str_lines:
  assumes "10 \<notin> set pat" "pat \<noteq> []" "find_str s pat = None"
  shows "find_str (s @ 10 # r) pat = map_option (\<lambda>i. i + Suc (length s)) (find_str r pat)"
  using assms(3)
proof (induction s)
  case Nil
  have "\<not> starts_with (10 # r) pat" using assms(1,2) by (cases pat) (auto simp: starts_with_def)
  then show ?case by (auto simp: option.map_comp comp_def intro!: option.map_cong)
next
  case (Cons c s)
  then have none: "\<not> starts_with (c # s) pat" "find_str s pat = None" by (auto split: if_splits)
  have "\<not> starts_with ((c # s) @ 10 # r) pat" using starts_with_line [OF _ assms(1)] none(1) by blast
  then show ?case using Cons.IH [OF none(2)] by (auto simp: option.map_comp comp_def intro!: option.map_cong)
qed

section \<open>The block\<close>

lemma block_facts:
  "find_str path_block PATH_BLOCK_START = Some 0" "10 \<notin> set PATH_BLOCK_START" "PATH_BLOCK_START \<noteq> []"
  by (simp_all add: path_block_def PATH_BLOCK_START_def lit_def starts_with_def)

lemma find_str_hd: "hd pat \<notin> set s \<Longrightarrow> pat \<noteq> [] \<Longrightarrow> find_str s pat = None"
  by (induction s) (cases pat; auto simp: starts_with_def)+

lemma block_end: "map_option (\<lambda>k. drop (k + length PATH_BLOCK_END) path_block) (find_str path_block PATH_BLOCK_END) = Some [10]"
proof -
  define line where "line = lit ''[ -r \"$HOME/.config/moshwatch/path.sh\" ] && . \"$HOME/.config/moshwatch/path.sh\"''"
  have block: "path_block = PATH_BLOCK_START @ 10 # line @ 10 # PATH_BLOCK_END @ [10]" by (simp add: path_block_def line_def)
  have marker: "10 \<notin> set PATH_BLOCK_END" "PATH_BLOCK_END \<noteq> []" "hd PATH_BLOCK_END = 35"
    by (simp_all add: PATH_BLOCK_END_def lit_def)
  have "35 \<notin> set line" by (simp add: line_def lit_def)
  then have line: "find_str line PATH_BLOCK_END = None" using marker by (intro find_str_hd) simp_all
  have "35 \<notin> set (tl PATH_BLOCK_START)" by (simp add: PATH_BLOCK_START_def lit_def)
  then have "find_str (tl PATH_BLOCK_START) PATH_BLOCK_END = None" using marker by (intro find_str_hd) simp_all
  moreover have "\<not> starts_with PATH_BLOCK_START PATH_BLOCK_END" "PATH_BLOCK_START = 35 # tl PATH_BLOCK_START"
    by (simp_all add: PATH_BLOCK_START_def PATH_BLOCK_END_def lit_def starts_with_def)
  ultimately have start: "find_str PATH_BLOCK_START PATH_BLOCK_END = None" by (metis find_str.simps(2) option.map(1))
  have "find_str (PATH_BLOCK_END @ [10]) PATH_BLOCK_END = Some 0"
    by (simp add: PATH_BLOCK_END_def lit_def starts_with_def)
  then show ?thesis
    unfolding block find_str_lines [OF marker(1,2) start] find_str_lines [OF marker(1,2) line] by simp
qed

lemma strip_none: "find_str s PATH_BLOCK_START = None \<Longrightarrow> strip_managed_block s = s"
  by (subst strip_managed_block.simps) simp

lemma strip_block:
  assumes "find_str s PATH_BLOCK_START = Some (length before)" "s = before @ path_block @ r"
  shows "strip_managed_block s = strip_managed_block (before @ r)"
proof -
  obtain k where k: "find_str path_block PATH_BLOCK_END = Some k" "drop (k + length PATH_BLOCK_END) path_block = [10]"
    using block_end by (cases "find_str path_block PATH_BLOCK_END") auto
  have within: "k + length PATH_BLOCK_END \<le> length path_block" using find_str_length [OF k(1)] .
  have "find_str (drop (length before) s) PATH_BLOCK_END = Some k"
    using find_str_append [OF k(1), of r] assms(2) by simp
  moreover have "drop (length before + k + length PATH_BLOCK_END) s = 10 # r"
    using k(2) within assms(2) by (simp add: add.assoc)
  ultimately show ?thesis
    using assms(1) by (subst strip_managed_block.simps) (simp add: Let_def starts_with_def assms(2))
qed

section \<open>Installing again\<close>

lemma trim_end_idem: "trim_end (trim_end s @ [10, 10]) = trim_end s"
  by (simp add: trim_end_def is_whitespace_def)

lemma dropWhile_suffix: "\<exists>a. s = a @ dropWhile P s"
  by (metis takeWhile_dropWhile_id)

lemma trim_end_prefix: "\<exists>b. s = trim_end s @ b"
  unfolding trim_end_def by (metis rev_append rev_rev_ident takeWhile_dropWhile_id)

lemma trim_end_Cons: "trim_end (c # s) = (if trim_end s = [] \<and> is_whitespace c then [] else c # trim_end s)"
  by (auto simp: trim_end_def dropWhile_append)

lemma trim_start_trim_end: "trim_start (trim_end s) = trim s"
proof (induction s)
  case (Cons c s)
  then show ?case by (auto simp: trim_def trim_start_def trim_end_Cons)
qed (simp add: trim_def trim_start_def trim_end_def)

lemma trim_newlines_around:
  "trim (10 # dropWhile (\<lambda>c. c = 10) s) = trim s" "trim (trim_end s @ [10, 10]) = trim s"
proof -
  have "dropWhile is_whitespace (dropWhile (\<lambda>c. c = 10) s) = dropWhile is_whitespace s"
    by (induction s) (auto simp: is_whitespace_def)
  then show "trim (10 # dropWhile (\<lambda>c. c = 10) s) = trim s"
    by (simp add: trim_def trim_start_def is_whitespace_def)
  show "trim (trim_end s @ [10, 10]) = trim s"
    by (simp only: trim_start_trim_end [symmetric] trim_end_idem)
qed

text \<open>What is left of the file after the update, without the block.\<close>

lemma strip_updated:
  assumes "find_str (strip_managed_block existing) PATH_BLOCK_START = None"
  shows "strip_managed_block (updated_contents p path_block existing) =
    (let cleaned = strip_managed_block existing in
     if trim cleaned = [] then []
     else (case p of Prepend \<Rightarrow> 10 # dropWhile (\<lambda>c. c = 10) cleaned | Append \<Rightarrow> trim_end cleaned @ [10, 10]))"
proof -
  define cleaned where "cleaned = strip_managed_block existing"
  note none = assms [folded cleaned_def]
  have front: "strip_managed_block (path_block @ r) = strip_managed_block r" for r
    using strip_block [of "path_block @ r" "[]" r] find_str_append [OF block_facts(1), of r] by simp
  obtain a where a: "cleaned = a @ dropWhile (\<lambda>c. c = 10) cleaned" using dropWhile_suffix by blast
  obtain b where b: "cleaned = trim_end cleaned @ b" using trim_end_prefix by blast
  have no_start: "find_str (dropWhile (\<lambda>c. c = 10) cleaned) PATH_BLOCK_START = None" "find_str (trim_end cleaned) PATH_BLOCK_START = None"
    using find_str_infix [of a "dropWhile (\<lambda>c. c = 10) cleaned" "[]"] find_str_infix [of "[]" "trim_end cleaned" b] a b none
    by auto
  have nil: "find_str [] PATH_BLOCK_START = None" using block_facts(3) by simp
  have line: "find_str (10 # r) PATH_BLOCK_START = map_option Suc (find_str r PATH_BLOCK_START)" for r
    using find_str_lines [OF block_facts(2,3) nil, of r] by simp
  have after: "find_str (trim_end cleaned @ [10, 10] @ r) PATH_BLOCK_START
      = map_option (\<lambda>i. i + Suc (Suc (length (trim_end cleaned)))) (find_str r PATH_BLOCK_START)" for r
    using find_str_lines [OF block_facts(2,3) no_start(2), of "10 # r"]
    by (simp add: line option.map_comp comp_def del: find_str.simps)
  show ?thesis
  proof (cases "trim cleaned = []")
    case True
    then show ?thesis using front [of "[]"] strip_none [OF nil]
      by (simp add: updated_contents_def Let_def cleaned_def)
  next
    case False
    show ?thesis
    proof (cases p)
      case Prepend
      have "strip_managed_block (10 # dropWhile (\<lambda>c. c = 10) cleaned) = 10 # dropWhile (\<lambda>c. c = 10) cleaned"
        by (rule strip_none) (simp add: line no_start del: find_str.simps)
      then show ?thesis using False front [of "10 # dropWhile (\<lambda>c. c = 10) cleaned"] Prepend
        by (simp add: updated_contents_def Let_def cleaned_def)
    next
      case Append
      have "strip_managed_block (trim_end cleaned @ [10, 10]) = trim_end cleaned @ [10, 10]"
        using after [of "[]"] nil by (intro strip_none) simp
      moreover have "strip_managed_block (trim_end cleaned @ [10, 10] @ path_block) = strip_managed_block ((trim_end cleaned @ [10, 10]) @ [])"
        using after [of path_block] block_facts(1) by (intro strip_block) simp_all
      ultimately show ?thesis using False Append by (simp add: updated_contents_def Let_def cleaned_def)
    qed
  qed
qed

text \<open>
  Installing the managed block again changes nothing, and installing it leaves the rest of the
  file alone up to the blank space around the block, provided that the file has no start marker
  left once every marked block is out of it.
\<close>
theorem managed_block_stable:
  assumes "find_str (strip_managed_block existing) PATH_BLOCK_START = None"
  shows "updated_contents p path_block (updated_contents p path_block existing) = updated_contents p path_block existing
    \<and> trim (strip_managed_block (updated_contents p path_block existing)) = trim (strip_managed_block existing)
    \<and> (\<exists>a b. updated_contents p path_block existing = a @ path_block @ b)"
proof (intro conjI)
  let ?cleaned = "strip_managed_block existing" and ?new = "updated_contents p path_block existing"
  have blank: "trim [] = []" by (simp add: trim_def trim_start_def trim_end_def)
  have stripped: "strip_managed_block ?new = (if trim ?cleaned = [] then []
     else (case p of Prepend \<Rightarrow> 10 # dropWhile (\<lambda>c. c = 10) ?cleaned | Append \<Rightarrow> trim_end ?cleaned @ [10, 10]))"
    using strip_updated [OF assms] by (simp only: Let_def)
  have new: "?new = (if trim ?cleaned = [] then path_block
     else (case p of Prepend \<Rightarrow> path_block @ [10] @ dropWhile (\<lambda>c. c = 10) ?cleaned
                   | Append \<Rightarrow> trim_end ?cleaned @ [10, 10] @ path_block))"
    by (simp only: updated_contents_def Let_def)
  have again: "updated_contents p path_block ?new = (if trim (strip_managed_block ?new) = [] then path_block
     else (case p of Prepend \<Rightarrow> path_block @ [10] @ dropWhile (\<lambda>c. c = 10) (strip_managed_block ?new)
                   | Append \<Rightarrow> trim_end (strip_managed_block ?new) @ [10, 10] @ path_block))"
    by (simp only: updated_contents_def [of p path_block ?new] Let_def)
  show same: "trim (strip_managed_block ?new) = trim ?cleaned"
    unfolding stripped by (cases p) (simp_all add: blank trim_newlines_around)
  show "updated_contents p path_block ?new = ?new"
  proof (cases "trim ?cleaned = []")
    case True
    then show ?thesis unfolding again same by (simp add: new)
  next
    case False
    have left_over: "strip_managed_block ?new = (case p of Prepend \<Rightarrow> 10 # dropWhile (\<lambda>c. c = 10) ?cleaned
        | Append \<Rightarrow> trim_end ?cleaned @ [10, 10])"
      using stripped False by simp
    have next_time: "updated_contents p path_block ?new = (case p of
          Prepend \<Rightarrow> path_block @ [10] @ dropWhile (\<lambda>c. c = 10) (strip_managed_block ?new)
        | Append \<Rightarrow> trim_end (strip_managed_block ?new) @ [10, 10] @ path_block)"
      using again same False by simp
    show ?thesis unfolding next_time left_over using new False by (cases p) (simp_all add: trim_end_idem)
  qed
  show "\<exists>a b. ?new = a @ path_block @ b"
  proof (cases "trim ?cleaned = []")
    case True
    then show ?thesis unfolding new by (intro exI [of _ "[]"]) simp
  next
    case False
    show ?thesis
    proof (cases p)
      case Prepend
      then have "?new = [] @ path_block @ ([10] @ dropWhile (\<lambda>c. c = 10) ?cleaned)" using False new by simp
      then show ?thesis by blast
    next
      case Append
      then have "?new = (trim_end ?cleaned @ [10, 10]) @ path_block @ []" using False new by simp
      then show ?thesis by blast
    qed
  qed
qed

text \<open>A file with an old block in the middle.\<close>

theorem managed_block_stable_witness:
  "let existing = lit ''a'' @ [10] @ path_block @ lit ''b'' @ [10] in
   strip_managed_block existing = lit ''a'' @ [10] @ lit ''b'' @ [10]
   \<and> updated_contents Append path_block (updated_contents Append path_block existing) = updated_contents Append path_block existing"
proof -
  have "strip_managed_block (lit ''a'' @ [10] @ path_block @ lit ''b'' @ [10]) = strip_managed_block ((lit ''a'' @ [10]) @ lit ''b'' @ [10])"
    by (rule strip_block) (simp_all add: lit_def path_block_def PATH_BLOCK_START_def starts_with_def)
  moreover have none: "find_str (lit ''a'' @ [10] @ lit ''b'' @ [10]) PATH_BLOCK_START = None"
    by (simp add: lit_def PATH_BLOCK_START_def starts_with_def)
  ultimately have strip: "strip_managed_block (lit ''a'' @ [10] @ path_block @ lit ''b'' @ [10]) = lit ''a'' @ [10] @ lit ''b'' @ [10]"
    using strip_none [OF none] by simp
  with none have "find_str (strip_managed_block (lit ''a'' @ [10] @ path_block @ lit ''b'' @ [10])) PATH_BLOCK_START = None" by simp
  from managed_block_stable [OF this] strip show ?thesis by (simp add: Let_def)
qed

text \<open>
  The proviso matters: when a start marker at the beginning of the file has lost its end marker,
  the first installation appends the block, and the second takes everything else out of the file.
\<close>

lemma trim_end_append: "x \<noteq> [] \<Longrightarrow> \<not> is_whitespace (last x) \<Longrightarrow> trim_end (x @ r) = x @ trim_end r"
  by (auto simp: trim_end_def dropWhile_append hd_rev dropWhile_hd_id)

lemma unclosed_marker_eats_file:
  assumes "find_str (PATH_BLOCK_START @ r) PATH_BLOCK_END = None"
  shows "let first = updated_contents Append path_block (PATH_BLOCK_START @ r) in
    first = PATH_BLOCK_START @ trim_end r @ [10, 10] @ path_block
    \<and> updated_contents Append path_block first = path_block"
proof -
  have start: "find_str (PATH_BLOCK_START @ s) PATH_BLOCK_START = Some 0" for s
    by (simp add: PATH_BLOCK_START_def lit_def starts_with_def)
  have last: "PATH_BLOCK_START \<noteq> []" "\<not> is_whitespace (last PATH_BLOCK_START)" "\<not> is_whitespace (hd PATH_BLOCK_START)"
    by (simp_all add: PATH_BLOCK_START_def lit_def is_whitespace_def)
  have ends: "10 \<notin> set PATH_BLOCK_END" "PATH_BLOCK_END \<noteq> []" by (simp_all add: PATH_BLOCK_END_def lit_def)
  have "strip_managed_block (PATH_BLOCK_START @ r) = PATH_BLOCK_START @ r"
    using assms start [of r] by (subst strip_managed_block.simps) simp
  moreover have "trim (PATH_BLOCK_START @ s) \<noteq> []" for s
    using last by (simp add: trim_def trim_start_def dropWhile_hd_id trim_end_append)
  ultimately have first: "updated_contents Append path_block (PATH_BLOCK_START @ r)
      = PATH_BLOCK_START @ trim_end r @ [10, 10] @ path_block"
    using last by (simp add: updated_contents_def Let_def trim_end_append)
  let ?s = "PATH_BLOCK_START @ trim_end r @ [10, 10] @ path_block" and ?front = "PATH_BLOCK_START @ trim_end r"
  obtain k where k: "find_str path_block PATH_BLOCK_END = Some k" "drop (k + length PATH_BLOCK_END) path_block = [10]"
    using block_end by (cases "find_str path_block PATH_BLOCK_END") auto
  obtain b where b: "r = trim_end r @ b" using trim_end_prefix by blast
  then have "find_str (?front @ b) PATH_BLOCK_END = None" using assms by simp
  then have "find_str ?front PATH_BLOCK_END = None" using find_str_infix [of "[]" ?front b] by simp
  moreover have "find_str [] PATH_BLOCK_END = None" using ends(2) by simp
  ultimately have "find_str ?s PATH_BLOCK_END = Some (k + Suc 0 + Suc (length ?front))"
    using find_str_lines [OF ends, of ?front "10 # path_block"] find_str_lines [OF ends, of "[]" path_block] k(1)
    by (simp del: find_str.simps)
  moreover have "drop (k + Suc 0 + Suc (length ?front) + length PATH_BLOCK_END) ?s = [10]"
  proof -
    have "?s = (?front @ [10, 10]) @ path_block" by simp
    then have "drop (length (?front @ [10, 10]) + (k + length PATH_BLOCK_END)) ?s = [10]" using k(2) by (simp only: drop_append) simp
    moreover have "k + Suc 0 + Suc (length ?front) + length PATH_BLOCK_END = length (?front @ [10, 10]) + (k + length PATH_BLOCK_END)"
      by simp
    ultimately show ?thesis by (simp only:)
  qed
  ultimately have "strip_managed_block ?s = strip_managed_block []"
    using start by (subst strip_managed_block.simps) (simp add: Let_def starts_with_def)
  also have "\<dots> = []" using last(1) by (intro strip_none) simp
  finally have "updated_contents Append path_block ?s = path_block"
    by (simp add: updated_contents_def trim_def trim_start_def trim_end_def)
  with first show ?thesis by (simp only: Let_def)
qed

section \<open>The environment of the build\<close>

text \<open>
  Whatever the environment of the caller, the locale and time settings are pinned, the epoch is the
  given one, and only the tools and flags named here pass through.
\<close>

lemma fold_flags:
  "k \<notin> set ks \<Longrightarrow> fold (\<lambda>k m. case lookup k of Some v \<Rightarrow> m(k \<mapsto> f v) | None \<Rightarrow> m) ks m k = m k"
  by (induction ks arbitrary: m) (auto split: option.splits)

lemma fold_settings: "k \<notin> fst ` set ps \<Longrightarrow> fold (\<lambda>(k, v) m. m(k \<mapsto> f k v)) ps m k = m k"
  by (induction ps arbitrary: m) auto

lemma fold_settings_in:
  "distinct (map fst ps) \<Longrightarrow> (k, v) \<in> set ps \<Longrightarrow> fold (\<lambda>(k, v) m. m(k \<mapsto> f k v)) ps m k = Some (f k v)"
proof (induction ps arbitrary: m)
  case (Cons p ps)
  then show ?case using fold_settings [of k ps f] by (cases p) (auto simp: image_iff fun_upd_same simp del: fun_upd_apply)
qed simp

lemma not_in_other: "A \<inter> B = {} \<Longrightarrow> x \<in> A \<Longrightarrow> x \<notin> B"
  by blast

lemma vendored_names:
  "distinct (map fst VENDOR_BUILD_PINNED_ENV)" "distinct (map fst VENDOR_BUILD_DEFAULT_TOOLS)"
  "fst ` set VENDOR_BUILD_PINNED_ENV \<inter> fst ` set VENDOR_BUILD_DEFAULT_TOOLS = {}"
  "(fst ` set VENDOR_BUILD_PINNED_ENV \<union> fst ` set VENDOR_BUILD_DEFAULT_TOOLS)
     \<inter> set [''CFLAGS'', ''CXXFLAGS'', ''LDFLAGS'', ''ARFLAGS'', ''SOURCE_DATE_EPOCH''] = {}"
  by (simp_all add: VENDOR_BUILD_PINNED_ENV_def VENDOR_BUILD_DEFAULT_TOOLS_def)

lemma vendored_environment:
  "vendored_build_environment epoch lookup ''SOURCE_DATE_EPOCH'' = Some (show_nat epoch)"
  "(k, v) \<in> set VENDOR_BUILD_PINNED_ENV \<Longrightarrow> vendored_build_environment epoch lookup k = Some (lit v)"
  "(k, v) \<in> set VENDOR_BUILD_DEFAULT_TOOLS \<Longrightarrow>
     vendored_build_environment epoch lookup k = Some (from_utf8_lossy (unwrap_or (lookup k) (utf8_encode (lit v))))"
proof -
  define tools where "tools = fold (\<lambda>(k, d) m. m(k \<mapsto> from_utf8_lossy (unwrap_or (lookup k) (utf8_encode (lit d)))))
    VENDOR_BUILD_DEFAULT_TOOLS (fold (\<lambda>(k, v) m. m(k \<mapsto> lit v)) VENDOR_BUILD_PINNED_ENV Map.empty)"
  show "vendored_build_environment epoch lookup ''SOURCE_DATE_EPOCH'' = Some (show_nat epoch)"
    by (simp add: vendored_build_environment_def Let_def)
  have early: "vendored_build_environment epoch lookup k = tools k"
    if "k \<notin> set [''CFLAGS'', ''CXXFLAGS'', ''LDFLAGS'', ''ARFLAGS'', ''SOURCE_DATE_EPOCH'']" for k
    using that fold_flags [where k = k and ks = "[''CFLAGS'', ''CXXFLAGS'', ''LDFLAGS'', ''ARFLAGS'']" and lookup = lookup and f = from_utf8_lossy and m = tools]
    by (simp add: vendored_build_environment_def Let_def tools_def del: fold_simps)
  show "vendored_build_environment epoch lookup k = Some (lit v)" if kv: "(k, v) \<in> set VENDOR_BUILD_PINNED_ENV"
  proof -
    have k: "k \<in> fst ` set VENDOR_BUILD_PINNED_ENV" using kv by force
    then have "k \<notin> fst ` set VENDOR_BUILD_DEFAULT_TOOLS" using vendored_names(3) by blast
    then have "tools k = fold (\<lambda>(k, v) m. m(k \<mapsto> lit v)) VENDOR_BUILD_PINNED_ENV Map.empty k"
      unfolding tools_def by (rule fold_settings)
    also have "\<dots> = Some (lit v)" by (rule fold_settings_in [OF vendored_names(1) kv])
    finally show ?thesis unfolding early [OF not_in_other [OF vendored_names(4) UnI1 [OF k]]] .
  qed
  show "vendored_build_environment epoch lookup k = Some (from_utf8_lossy (unwrap_or (lookup k) (utf8_encode (lit v))))"
    if kv: "(k, v) \<in> set VENDOR_BUILD_DEFAULT_TOOLS"
  proof -
    have k: "k \<in> fst ` set VENDOR_BUILD_DEFAULT_TOOLS" using kv by force
    have "tools k = Some (from_utf8_lossy (unwrap_or (lookup k) (utf8_encode (lit v))))"
      unfolding tools_def by (rule fold_settings_in [OF vendored_names(2) kv])
    then show ?thesis unfolding early [OF not_in_other [OF vendored_names(4) UnI2 [OF k]]] .
  qed
qed

section \<open>The arguments of a release\<close>

text \<open>A repeated prefix vanishes whole: \<open>--tag=--tag=v1\<close> is the tag \<open>v1\<close>.\<close>

lemma repeated_prefix_dropped:
  "parse_package_release_args (lit ''1.0'') [lit ''--tag=--tag=v1'']
     = Inr \<lparr>pa_tag = lit ''v1'', pa_target = default_release\<rparr>"
  by (simp add: parse_package_release_args_def default_release_def unwrap_or_def Let_def lit_def trim_def trim_start_def
      trim_end_def is_whitespace_def starts_with_def trim_start_matches_str.simps)

lemma release_defaults:
  "parse_package_release_args version [] = Inr \<lparr>pa_tag = lit ''v'' @ version, pa_target = default_release\<rparr>"
  by (simp add: parse_package_release_args_def default_release_def expected_release_tag_def unwrap_or_def Let_def
      lit_def trim_def trim_start_def trim_end_def is_whitespace_def)

end
