(* ===== verification/Xtask_Files_Facts.thy ===== *)
theory Xtask_Files_Facts
  imports Xtask_Files Xtask_Text_Facts Secure_Files_Facts
begin

text \<open>
  What the build tool does to the disk: installing replaces one file as a whole, and the managed
  block of a shell file is stable, also over a second installation; and when it is not.
\<close>

section \<open>Installing\<close>

text \<open>
  \<open>tempfile\<close> names its files with a leading dot, random characters and \<open>.tmp\<close>, so never like the
  destination.
\<close>

definition temporary_names :: "xtask_env \<Rightarrow> bool" where
  "temporary_names x \<longleftrightarrow> (\<forall>p. xe_temporary x p \<noteq> p)"

lemma follow_direct: "node_at d p = Some n \<Longrightarrow> nd_kind n \<noteq> Symlink \<Longrightarrow> follow x MAX_LINKS p d = Some (p, n)"
  by (simp add: MAX_LINKS_def numeral_eq_Suc)

lemma set_mode_direct:
  assumes "set_mode_if_unix x p mode d = (r, d')" "node_at d p = Some n" "nd_kind n \<noteq> Symlink"
  shows "r = None \<and> d' = d \<or> r = Some () \<and> d' = set_node p (Some (n\<lparr>nd_mode := mode AND 4095\<rparr>)) d"
  using assms follow_direct [OF assms(2,3), of x]
  by (auto simp: set_mode_if_unix_def metadata_def split: if_splits)

definition fresh_file :: "bytes \<Rightarrow> file_mode \<Rightarrow> node" where
  "fresh_file bs mode = \<lparr>nd_kind = RegularFile bs, nd_mode = mode AND 4095\<rparr>"

definition same_but :: "path set \<Rightarrow> disk \<Rightarrow> disk \<Rightarrow> bool" where
  "same_but A d d' \<longleftrightarrow> (\<forall>q. q \<notin> A \<longrightarrow> node_at d' q = node_at d q)"

lemma same_but_refl [simp]: "same_but A d d"
  by (simp add: same_but_def)

lemma same_but_trans: "same_but A d d1 \<Longrightarrow> same_but A d1 d2 \<Longrightarrow> same_but A d d2"
  by (simp add: same_but_def)

lemma same_but_set [simp]: "same_but {p} d (set_node p n d)"
  by (simp add: same_but_def)

lemma remove_file_same: "same_but {p} d (remove_file e p d)"
  by (simp add: remove_file_def)

lemma create_temporary_result:
  assumes "create_temporary_file_in_same_dir x p mode d = (r, d')"
  shows "same_but {xe_temporary x p} d d' \<and> (r = None \<or> r = Some (xe_temporary x p) \<and> node_at d (xe_temporary x p) = None
      \<and> node_at d' (xe_temporary x p) = Some (fresh_file [] mode)) \<and> (node_at d (xe_temporary x p) \<noteq> None \<longrightarrow> d' = d)"
proof (cases "parent p = None \<or> file_name p = None \<or> fe_fails (xe_fs x) (CreateFile (xe_temporary x p)) \<or> node_at d (xe_temporary x p) \<noteq> None")
  case True
  then have "create_temporary_file_in_same_dir x p mode d = (None, d)"
    unfolding create_temporary_file_in_same_dir_def Let_def by (auto simp: fail_def)
  then show ?thesis using assms by simp
next
  case False
  let ?t = "xe_temporary x p"
  let ?d = "set_node ?t (Some \<lparr>nd_kind = RegularFile [], nd_mode = 384 AND NOT (fe_umask (xe_fs x))\<rparr>) d"
  obtain s d1 where mode: "set_mode_if_unix x ?t mode ?d = (s, d1)" by fastforce
  from False have "parent p \<noteq> None" "file_name p \<noteq> None" "\<not> fe_fails (xe_fs x) (CreateFile ?t)" "node_at d ?t = None"
    by simp_all
  then have "create_temporary_file_in_same_dir x p mode d
      = (case (s, d1) of (None, d') \<Rightarrow> (None, remove_file (xe_fs x) ?t d') | (Some u, d') \<Rightarrow> (Some ?t, d'))"
    unfolding create_temporary_file_in_same_dir_def Let_def mode [symmetric] by auto
  with assms have run: "(case (s, d1) of (None, d') \<Rightarrow> (None, remove_file (xe_fs x) ?t d') | (Some u, d') \<Rightarrow> (Some ?t, d')) = (r, d')"
    by simp
  from set_mode_direct [OF mode, of "\<lparr>nd_kind = RegularFile [], nd_mode = 384 AND NOT (fe_umask (xe_fs x))\<rparr>"]
  have "s = None \<and> d1 = ?d \<or> s = Some () \<and> d1 = set_node ?t (Some (fresh_file [] mode)) ?d"
    by (simp add: fresh_file_def)
  then show ?thesis using run False same_but_trans [OF same_but_set remove_file_same, of ?t d] by (auto simp: same_but_def)
qed

text \<open>A writer that fills the temporary file, and nothing else, with given bytes.\<close>

definition fills :: "(path \<Rightarrow> unit on_disk) \<Rightarrow> path \<Rightarrow> disk \<Rightarrow> bytes \<Rightarrow> bool" where
  "fills w t d bs \<longleftrightarrow> (\<forall>r d' n. w t d = (r, d') \<longrightarrow> node_at d t = Some n \<longrightarrow>
     same_but {t} d d' \<and> (r = Some () \<longrightarrow> node_at d' t = Some (n\<lparr>nd_kind := RegularFile bs\<rparr>)))"

lemma write_contents_fills: "fills (write_contents x bs) t d bs"
  by (auto simp: fills_def write_contents_def split: if_splits)

lemma install_result_ex:
  assumes run: "install_file_with_temporary x p mode w d = (r, d')" and names: "temporary_names x"
    and fill: "\<And>d1. same_but {xe_temporary x p} d d1 \<Longrightarrow> node_at d (xe_temporary x p) = None \<Longrightarrow>
        \<exists>bs. P bs \<and> fills w (xe_temporary x p) d1 bs"
  shows "(r = None \<longrightarrow> same_but {xe_temporary x p} d d')
    \<and> (r = Some () \<longrightarrow> (\<exists>bs. P bs \<and> node_at d' p = Some (fresh_file bs mode)) \<and> same_but {p} d d')
    \<and> (node_at d (xe_temporary x p) \<noteq> None \<longrightarrow> r = None \<and> d' = d)"
proof (cases rule: on_success_cases [OF run [unfolded install_file_with_temporary_def]])
  case 1
  then show ?thesis using create_temporary_result [OF 1(1)] by auto
next
  case (2 t0 d1)
  let ?t = "xe_temporary x p"
  have t: "t0 = ?t" and d1: "same_but {?t} d d1" "node_at d ?t = None" "node_at d1 ?t = Some (fresh_file [] mode)"
    using create_temporary_result [OF 2(1)] by auto
  from fill [OF d1(1,2)] obtain bs where P: "P bs" and filled: "fills w ?t d1 bs" by blast
  have tp: "?t \<noteq> p" using names by (simp add: temporary_names_def)
  obtain s d2 where inner: "on_success (w ?t) (\<lambda>_. on_success (set_mode_if_unix x ?t mode) (\<lambda>_. rename (xe_fs x) ?t p)) d1 = (s, d2)"
    by fastforce
  have "(s = None \<longrightarrow> same_but {?t} d1 d2)
    \<and> (s = Some () \<longrightarrow> node_at d2 p = Some (fresh_file bs mode) \<and> node_at d2 ?t = None \<and> same_but {?t, p} d1 d2)"
  proof (cases rule: on_success_cases [OF inner])
    case 1
    then show ?thesis using filled d1(3) by (auto simp: fills_def)
  next
    case (2 u d3)
    have d3: "same_but {?t} d1 d3" "node_at d3 ?t = Some (fresh_file bs mode)"
      using filled 2(1) d1(3) by (auto simp: fills_def fresh_file_def)
    show ?thesis
    proof (cases rule: on_success_cases [OF 2(2)])
      case 1
      then show ?thesis using set_mode_direct [OF 1(1) d3(2)] d3(1) by (auto simp: fresh_file_def)
    next
      case (2 v d4)
      from set_mode_direct [OF 2(1) d3(2)] have "d4 = set_node ?t (Some (fresh_file bs mode)) d3"
        by (auto simp: fresh_file_def and.assoc)
      then have d4: "same_but {?t} d1 d4" "node_at d4 ?t = Some (fresh_file bs mode)"
        using same_but_trans [OF d3(1) same_but_set] by auto
      show ?thesis using 2(2) d4 tp by (auto simp: rename_def same_but_def split: if_splits)
    qed
  qed
  note parts = this
  have taken: "node_at d ?t \<noteq> None \<longrightarrow> r = None \<and> d' = d" using d1(2) by simp
  show ?thesis
  proof (cases s)
    case None
    then have "r = None" "d' = remove_file (xe_fs x) ?t d2" using 2(2) t inner by auto
    moreover have "same_but {?t} d d2" using parts None same_but_trans [OF d1(1)] by simp
    ultimately show ?thesis using same_but_trans [OF _ remove_file_same] taken by auto
  next
    case (Some u)
    then have "r = Some ()" "d' = d2" using 2(2) t inner by auto
    moreover have "node_at d2 q = node_at d q" if "q \<noteq> p" for q
      using parts Some that d1(1,2) by (cases "q = ?t") (auto simp: same_but_def)
    ultimately show ?thesis using parts Some taken P by (auto simp: same_but_def)
  qed
qed

lemma install_result:
  assumes "install_file_with_temporary x p mode w d = (r, d')" "temporary_names x"
    and "\<And>d1. same_but {xe_temporary x p} d d1 \<Longrightarrow> fills w (xe_temporary x p) d1 bs"
  shows "(r = None \<longrightarrow> same_but {xe_temporary x p} d d')
    \<and> (r = Some () \<longrightarrow> node_at d' p = Some (fresh_file bs mode) \<and> same_but {p} d d')
    \<and> (node_at d (xe_temporary x p) \<noteq> None \<longrightarrow> r = None \<and> d' = d)"
  using install_result_ex [OF assms(1,2), of "\<lambda>b. b = bs"] assms(3) by simp

section \<open>The managed block on disk\<close>

lemma set_strip: "set (strip_managed_block s) \<subseteq> set s"
proof (induction s rule: strip_managed_block.induct)
  case (1 s)
  show ?case
  proof (cases "find_str s PATH_BLOCK_START")
    case None
    then show ?thesis by (simp add: strip_none)
  next
    case (Some start)
    show ?thesis
    proof (cases "find_str (drop start s) PATH_BLOCK_END")
      case None
      with Some show ?thesis by (subst strip_managed_block.simps) simp
    next
      case (Some k)
      let ?rest = "drop (start + k + length PATH_BLOCK_END) s"
      let ?after = "if starts_with ?rest [10] then drop 1 ?rest else ?rest"
      have eq: "strip_managed_block s = strip_managed_block (take start s @ ?after)"
        using Some \<open>find_str s PATH_BLOCK_START = Some start\<close> by (subst strip_managed_block.simps) (simp add: Let_def)
      have shorter: "set (strip_managed_block (take start s @ ?after)) \<subseteq> set (take start s @ ?after)"
        by (rule 1 [OF \<open>find_str s PATH_BLOCK_START = Some start\<close> Some refl refl])
      have "set ?after \<subseteq> set s" by (auto dest: in_set_dropD)
      then have "set (take start s @ ?after) \<subseteq> set s" using set_take_subset [of start s] by simp
      with shorter show ?thesis unfolding eq by (rule subset_trans)
    qed
  qed
qed

lemma set_updated: "set (updated_contents w b s) \<subseteq> set b \<union> set s \<union> {10}"
proof -
  have "set (dropWhile (\<lambda>c. c = 10) (strip_managed_block s)) \<subseteq> set s" "set (trim_end (strip_managed_block s)) \<subseteq> set s"
    using set_strip [of s] by (auto simp: trim_end_def dest!: set_dropWhileD)
  then show ?thesis by (cases w) (auto simp: updated_contents_def Let_def)
qed

lemma mode_bits: "(m OR 32768) AND 4095 = (m :: file_mode) AND 4095"
proof -
  have "32768 AND 4095 = (0 :: file_mode)" by simp
  then show ?thesis by (simp add: bit.conj_disj_distrib2)
qed

lemma regular_facts:
  assumes "node_at d p = Some n" "nd_kind n = RegularFile bs"
  shows "\<not> fe_fails (xe_fs x) (OpenRead p) \<Longrightarrow> \<not> fe_fails (xe_fs x) (ReadFile p) \<Longrightarrow> read_to_string x p d = from_utf8 bs"
    "\<not> fe_fails (xe_fs x) (Stat p) \<Longrightarrow> file_mode_or_default x p mode d = nd_mode n OR 32768"
    "\<not> is_symlink x p d"
  using assms follow_direct [of d p n x]
  by (auto simp: read_to_string_def read_bytes_def file_mode_or_default_def metadata_def st_mode_def is_symlink_def)

text \<open>One update of a regular file, whatever could be read of it.\<close>

lemma upsert_regular:
  assumes "upsert_managed_block x p block w d = (r, d')" "temporary_names x"
    and "node_at d p = Some n" "nd_kind n = RegularFile bs" "\<not> fe_fails (xe_fs x) (Stat p)"
  shows "(r = None \<longrightarrow> node_at d' p = Some n)
    \<and> (r = Some () \<longrightarrow> same_but {p} d d' \<and> node_at d' p = Some (fresh_file
          (utf8_encode (updated_contents w block (unwrap_or (read_to_string x p d) []))) (nd_mode n)))"
proof -
  from assms(1) have run: "install_file_with_temporary x p (nd_mode n OR 32768)
      (write_contents x (utf8_encode (updated_contents w block (unwrap_or (read_to_string x p d) [])))) d = (r, d')"
    using regular_facts(2,3) [OF assms(3,4)] assms(5)
    by (simp add: upsert_managed_block_def Let_def install_text_file_def)
  have "fresh_file b (m OR 32768) = fresh_file b m" for b m by (simp add: fresh_file_def mode_bits)
  moreover have "xe_temporary x p \<noteq> p" using assms(2) by (simp add: temporary_names_def)
  ultimately show ?thesis
    using install_result [OF run assms(2) write_contents_fills] assms(3) by (auto simp: same_but_def)
qed

text \<open>
  C39: Installing the shell integration into a file that can be read, as text without an unclosed
  start marker, changes that file alone, and in it nothing but the block and the blank space around
  it; it keeps its permissions; and installing again leaves the file as it is, whatever fails.
\<close>
theorem shell_block_stable:
  assumes "upsert_managed_block x p path_block w d = (Some (), d')" "temporary_names x"
    and "node_at d p = Some \<lparr>nd_kind = RegularFile (utf8_encode s), nd_mode = m\<rparr>" "list_all is_scalar s"
    and "\<not> fe_fails (xe_fs x) (Stat p)" "\<not> fe_fails (xe_fs x) (OpenRead p)" "\<not> fe_fails (xe_fs x) (ReadFile p)"
    and "find_str (strip_managed_block s) PATH_BLOCK_START = None"
  shows "\<exists>new. node_at d' p = Some \<lparr>nd_kind = RegularFile (utf8_encode new), nd_mode = m AND 4095\<rparr>
    \<and> (\<exists>a b. new = a @ path_block @ b) \<and> trim (strip_managed_block new) = trim (strip_managed_block s)
    \<and> (\<forall>q. q \<noteq> p \<longrightarrow> node_at d' q = node_at d q)
    \<and> node_at (snd (upsert_managed_block x p path_block w d')) p = node_at d' p"
proof -
  let ?new = "updated_contents w path_block s"
  have "read_to_string x p d = Some s"
    using regular_facts(1) [OF assms(3)] assms(4,6,7) by (simp add: from_utf8_encode)
  then have first: "same_but {p} d d'" "node_at d' p = Some (fresh_file (utf8_encode ?new) m)"
    using upsert_regular [OF assms(1,2,3)] assms(5) by (auto simp: unwrap_or_def)
  have "list_all is_scalar path_block"
    by (simp add: path_block_def PATH_BLOCK_START_def PATH_BLOCK_END_def lit_def is_scalar_def)
  moreover have "is_scalar 10" by (simp add: is_scalar_def)
  ultimately have "list_all is_scalar ?new"
    using set_updated [of w path_block s] assms(4) unfolding list_all_iff by blast
  then have "read_to_string x p d' = Some ?new"
    using regular_facts(1) [OF first(2)] assms(6,7) by (simp add: fresh_file_def from_utf8_encode)
  moreover obtain r2 d2 where second: "upsert_managed_block x p path_block w d' = (r2, d2)" by fastforce
  ultimately have "node_at d2 p = node_at d' p"
    using upsert_regular [OF second assms(2) first(2)] first(2) assms(5) managed_block_stable [OF assms(8), of w]
    by (cases r2) (auto simp: fresh_file_def unwrap_or_def and.assoc)
  then show ?thesis using first second managed_block_stable [OF assms(8), of w]
    by (intro exI [of _ ?new]) (auto simp: fresh_file_def same_but_def)
qed

definition example_xtask :: xtask_env where
  "example_xtask = \<lparr>xe_fs = no_disk_faults, xe_link = (\<lambda>p. None),
     xe_temporary = (\<lambda>p. butlast p @ [Normal (46 # (case file_name p of None \<Rightarrow> [] | Some n \<Rightarrow> n) @ [46, 116, 109, 112])])\<rparr>"

lemma example_xtask_names: "temporary_names example_xtask"
proof (unfold temporary_names_def, intro allI notI)
  fix p :: path
  let ?n = "46 # (case file_name p of None \<Rightarrow> [] | Some n \<Rightarrow> n) @ [46, 116, 109, 112]"
  assume "xe_temporary example_xtask p = p"
  then have eq: "butlast p @ [Normal ?n] = p" by (simp add: example_xtask_def)
  then have "p \<noteq> []" "last p = Normal ?n" by (metis snoc_eq_iff_butlast, metis last_snoc)
  then show False by (cases "last p") (auto simp: file_name_def dest: arg_cong [where f = length])
qed

definition example_profile :: disk where
  "example_profile = set_node [RootDir, Normal [46]] (Some \<lparr>nd_kind = RegularFile (utf8_encode (lit ''a'')), nd_mode = 420\<rparr>) empty_disk"

text \<open>A profile with one line gets the block after it.\<close>

theorem shell_block_stable_witness:
  "\<exists>d'. upsert_managed_block example_xtask [RootDir, Normal [46]] path_block Append example_profile = (Some (), d')
    \<and> node_at (snd (upsert_managed_block example_xtask [RootDir, Normal [46]] path_block Append d')) [RootDir, Normal [46]]
      = node_at d' [RootDir, Normal [46]]"
proof -
  let ?p = "[RootDir, Normal [46]]"
  let ?w = "\<lambda>u. install_text_file example_xtask ?p u (420 OR 32768) example_profile"
  have no_block: "find_str (lit ''a'') PATH_BLOCK_START = None"
    by (simp add: lit_def PATH_BLOCK_START_def starts_with_def)
  have at: "node_at example_profile ?p = Some \<lparr>nd_kind = RegularFile (utf8_encode (lit ''a'')), nd_mode = 420\<rparr>"
    by (simp add: example_profile_def)
  have up: "upsert_managed_block example_xtask ?p path_block Append example_profile
      = ?w (updated_contents Append path_block (unwrap_or (read_to_string example_xtask ?p example_profile) []))"
    using regular_facts(2,3) [OF at, of _ example_xtask]
    by (simp add: upsert_managed_block_def Let_def example_xtask_def no_disk_faults_def)
  have "fst (?w u) = Some ()" for u
    by (simp add: install_text_file_def install_file_with_temporary_def create_temporary_file_in_same_dir_def on_success_def
        set_mode_if_unix_def metadata_def MAX_LINKS_def numeral_eq_Suc write_contents_def rename_def example_xtask_def no_disk_faults_def
        parent_def file_name_def example_profile_def empty_disk_def node_at_def set_node_def succeed_def fail_def Let_def)
  then obtain d' where run: "upsert_managed_block example_xtask ?p path_block Append example_profile = (Some (), d')"
    unfolding up by (metis prod.collapse)
  have "list_all is_scalar (lit ''a'')" by (simp add: lit_def is_scalar_def)
  from shell_block_stable [OF run example_xtask_names at this] strip_none [OF no_block] no_block run
  show ?thesis by (auto simp: example_xtask_def no_disk_faults_def)
qed

text \<open>
  A shell file that cannot be read, or that is not UTF-8, is taken for an empty one: what it holds
  is lost.
\<close>

lemma unreadable_file_overwritten:
  assumes "upsert_managed_block x p path_block w d = (Some (), d')" "temporary_names x"
    and "node_at d p = Some \<lparr>nd_kind = RegularFile bs, nd_mode = m\<rparr>" "\<not> fe_fails (xe_fs x) (Stat p)"
    and "from_utf8 bs = None \<or> fe_fails (xe_fs x) (ReadFile p)"
  shows "node_at d' p = Some \<lparr>nd_kind = RegularFile (utf8_encode path_block), nd_mode = m AND 4095\<rparr>"
proof -
  have "read_to_string x p d = None"
    using assms(5) follow_direct [OF assms(3), of x] by (auto simp: read_to_string_def read_bytes_def)
  moreover have "updated_contents w path_block [] = path_block"
    using strip_none [of "[]"] block_facts(3) by (simp add: updated_contents_def Let_def trim_def trim_start_def trim_end_def)
  ultimately show ?thesis
    using upsert_regular [OF assms(1,2,3) _ assms(4)] by (auto simp: unwrap_or_def fresh_file_def)
qed

end
