(* ===== verification/Utf8_Facts.thy ===== *)
theory Utf8_Facts
  imports Text
begin

text \<open>
  Decoding is sound: bytes that \<open>from_utf8\<close> accepts are the encoding of what it returns, and that is
  made of Unicode scalar values only.
\<close>

lemma digits_64:
  fixes q r :: nat
  assumes "r < 64"
  shows "(q * 64 + r) div 64 = q" "(q * 64 + r) mod 64 = r"
  using assms by simp_all

lemma second_byte_bounds:
  assumes "second_byte_ok a b"
  shows "128 \<le> b" "b < 192" "a = 224 \<Longrightarrow> 160 \<le> b" "a = 237 \<Longrightarrow> b < 160" "a = 240 \<Longrightarrow> 144 \<le> b" "a = 244 \<Longrightarrow> b < 144"
  using assms by (auto simp: second_byte_ok_def is_continuation_def split: if_splits)

lemma decode_first_sound:
  assumes "decode_first bs = (Some c, n)"
  shows "is_scalar c \<and> map unat (utf8_encode_char c) = take n bs \<and> n \<le> length bs"
proof (cases bs)
  case Nil
  then show ?thesis using assms by (simp add: decode_first_def)
next
  case (Cons a r)
  consider "a < 128" "c = a" "n = 1"
    | b r' where "194 \<le> a" "a < 224" "r = b # r'" "is_continuation b" "c = (a - 192) * 64 + (b - 128)" "n = 2"
    | b d r' where "224 \<le> a" "a < 240" "r = b # d # r'" "second_byte_ok a b" "is_continuation d"
        "c = (a - 224) * 4096 + (b - 128) * 64 + (d - 128)" "n = 3"
    | b d e r' where "240 \<le> a" "a < 245" "r = b # d # e # r'" "second_byte_ok a b" "is_continuation d" "is_continuation e"
        "c = (a - 240) * 262144 + (b - 128) * 4096 + (d - 128) * 64 + (e - 128)" "n = 4"
    using assms by (auto simp: decode_first_def Cons split: if_splits list.splits)
  then show ?thesis
  proof cases
    case 1
    then have "is_scalar c" by (simp add: is_scalar_def)
    with 1 show ?thesis by (simp add: unat_encode_char Cons)
  next
    case 2
    define q p where "q = a - 192" and "p = b - 128"
    have q: "2 \<le> q" "q < 32" "a = 192 + q" and p: "p < 64" "b = 128 + p"
      using 2(1,2,4) by (auto simp: q_def p_def is_continuation_def)
    have c: "c = q * 64 + p" using 2(5) by (simp add: q_def p_def)
    have "128 \<le> c" "c < 2048" using q p by (simp_all add: c)
    moreover from this have "is_scalar c" by (simp add: is_scalar_def)
    moreover have "c div 64 = q" "c mod 64 = p" unfolding c by (rule digits_64 [OF p(1)])+
    ultimately show ?thesis using 2 q p by (simp add: unat_encode_char Cons)
  next
    case 3
    define q p s where "q = a - 224" and "p = b - 128" and "s = d - 128"
    have q: "q < 16" "a = 224 + q" using 3(1,2) by (auto simp: q_def)
    have p: "p < 64" "b = 128 + p" "q = 0 \<Longrightarrow> 32 \<le> p" "q = 13 \<Longrightarrow> p < 32"
      using second_byte_bounds [OF 3(4)] q(2) by (auto simp: p_def)
    have s: "s < 64" "d = 128 + s" using 3(5) by (auto simp: s_def is_continuation_def)
    have c: "c = (q * 64 + p) * 64 + s" using 3(6) by (simp add: q_def p_def s_def)
    have "1 \<le> q \<or> 32 \<le> p" using p(3) by (cases "q = 0") simp_all
    moreover have "c = q * 4096 + p * 64 + s" using c by simp
    ultimately have range: "2048 \<le> c" "c < 65536" using q(1) p(1) s(1) by linarith+
    have scalar: "is_scalar c"
    proof -
      consider "q < 13" | "q = 13" | "13 < q" by linarith
      then show ?thesis
      proof cases
        case 1
        then show ?thesis using p(1) s(1) by (simp add: c is_scalar_def)
      next
        case 2
        then show ?thesis using p(4) s(1) by (simp add: c is_scalar_def)
      next
        case 3
        then show ?thesis using range by (simp add: c is_scalar_def)
      qed
    qed
    have "c div 64 = q * 64 + p" "c mod 64 = s" unfolding c by (rule digits_64 [OF s(1)])+
    moreover from this have "c div 64 mod 64 = p" "c div 4096 = q"
      using digits_64 [OF p(1), of q] div_mult2_eq [of c 64 64] by simp_all
    ultimately show ?thesis using 3 q p s range scalar by (simp add: unat_encode_char Cons)
  next
    case 4
    define q p s u where "q = a - 240" and "p = b - 128" and "s = d - 128" and "u = e - 128"
    have q: "q < 5" "a = 240 + q" using 4(1,2) by (auto simp: q_def)
    have p: "p < 64" "b = 128 + p" "q = 0 \<Longrightarrow> 16 \<le> p" "q = 4 \<Longrightarrow> p < 16"
      using second_byte_bounds [OF 4(4)] q(2) by (auto simp: p_def)
    have s: "s < 64" "d = 128 + s" "u < 64" "e = 128 + u"
      using 4(5,6) by (auto simp: s_def u_def is_continuation_def)
    have c: "c = ((q * 64 + p) * 64 + s) * 64 + u" using 4(7) by (simp add: q_def p_def s_def u_def)
    have "1 \<le> q \<or> 16 \<le> p" "q \<le> 3 \<or> p < 16" using q(1) p(3,4) by (cases "q = 0"; cases "q = 4"; simp)+
    moreover have "c = q * 262144 + p * 4096 + s * 64 + u" using c by simp
    ultimately have range: "65536 \<le> c" "c < 1114112" using q(1) p(1) s(1,3) by linarith+
    then have scalar: "is_scalar c" by (simp add: is_scalar_def)
    have "c div 64 = (q * 64 + p) * 64 + s" "c mod 64 = u" unfolding c by (rule digits_64 [OF s(3)])+
    moreover from this have "c div 64 mod 64 = s" "c div 4096 = q * 64 + p"
      using digits_64 [OF s(1), of "q * 64 + p"] div_mult2_eq [of c 64 64] by simp_all
    moreover from this have "c div 4096 mod 64 = p" "c div 262144 = q"
      using digits_64 [OF p(1), of q] div_mult2_eq [of c 4096 64] by simp_all
    ultimately show ?thesis using 4 q p s range scalar by (simp add: unat_encode_char Cons)
  qed
qed

lemma decode_strict_sound: "decode_strict bs = Some s \<Longrightarrow> list_all is_scalar s \<and> map unat (utf8_encode s) = bs"
proof (induction bs arbitrary: s rule: decode_strict.induct)
  case (1 bs)
  show ?case
  proof (cases "bs = []")
    case True
    then show ?thesis using 1(2) by (simp add: decode_strict.simps utf8_encode_def)
  next
    case False
    obtain v n where first: "decode_first bs = (v, n)" by fastforce
    with 1(2) False obtain c s' where c: "v = Some c" "decode_strict (drop n bs) = Some s'" "s = c # s'"
      by (subst (asm) decode_strict.simps) (auto split: option.splits)
    have rest: "list_all is_scalar s' \<and> map unat (utf8_encode s') = drop n bs"
      using 1(1) [OF False, of c s'] first c by simp
    have "is_scalar c \<and> map unat (utf8_encode_char c) = take n bs"
      using decode_first_sound first c(1) by blast
    with rest show ?thesis by (simp add: c(3) utf8_encode_Cons)
  qed
qed

lemma from_utf8_sound:
  assumes "from_utf8 bs = Some s"
  shows "utf8_encode s = bs"
proof -
  have "map unat (utf8_encode s) = map unat bs" using assms decode_strict_sound by (simp add: from_utf8_def)
  moreover have "inj (unat :: u8 \<Rightarrow> nat)" by (simp add: inj_on_def word_unat_eq_iff)
  ultimately show ?thesis by (simp only: inj_map_eq_map)
qed

lemma from_utf8_scalar: "from_utf8 bs = Some s \<Longrightarrow> list_all is_scalar s"
  using decode_strict_sound by (auto simp: from_utf8_def)

end
