(* ===== verification/Xtask_Staging.thy ===== *)
theory Xtask_Staging
  imports Xtask_Release Xtask_Files_Facts Utf8_Facts
begin

text \<open>
  Staging a release: what the stage holds when it succeeds, and that it succeeds when the sources
  are there and nothing fails.
\<close>

section \<open>Staging\<close>

definition keeps_outside :: "path \<Rightarrow> disk \<Rightarrow> disk \<Rightarrow> bool" where
  "keeps_outside stage d d' \<longleftrightarrow> (\<forall>p n. node_at d p = Some n \<longrightarrow> \<not> under stage p \<longrightarrow> node_at d' p = Some n)"

lemma keeps_outside_trans: "keeps_outside stage d d1 \<Longrightarrow> keeps_outside stage d1 d2 \<Longrightarrow> keeps_outside stage d d2"
  by (simp add: keeps_outside_def)

lemma keeps_outside_same: "same_but {p} d d' \<Longrightarrow> under stage p \<Longrightarrow> keeps_outside stage d d'"
  by (auto simp: keeps_outside_def same_but_def)

lemma create_dirs_keep: "create_dirs x current cs d = (r, d') \<Longrightarrow> node_at d p = Some n \<Longrightarrow> node_at d' p = Some n"
proof (induction x current cs d arbitrary: r d' rule: create_dirs.induct)
  case (2 x current c cs d)
  show ?case
  proof (cases "follow x MAX_LINKS (current @ [c]) d")
    case None
    then show ?thesis using 2 by (cases "p = current @ [c]") (auto simp: fail_def split: if_splits)
  next
    case (Some qn)
    then show ?thesis using 2 by (cases qn) (auto simp: fail_def split: if_splits)
  qed
qed (simp add: succeed_def)

lemma create_dir_all_keeps: "create_dir_all x p d = (r, d') \<Longrightarrow> keeps_outside stage d d'"
  unfolding create_dir_all_def keeps_outside_def using create_dirs_keep by blast

text \<open>What each of several operations establishes at its own path holds after all of them.\<close>

lemma each_in_turn_all:
  assumes "each_in_turn f as d = (Some (), d')" "I d" "distinct (map p as)"
    and step: "\<And>a d1 d2. a \<in> set as \<Longrightarrow> I d1 \<Longrightarrow> f a d1 = (Some (), d2) \<Longrightarrow>
          I d2 \<and> same_but {p a} d1 d2 \<and> Q a (node_at d2 (p a))"
  shows "I d' \<and> same_but (p ` set as) d d' \<and> (\<forall>a \<in> set as. Q a (node_at d' (p a)))"
  using assms
proof (induction as arbitrary: d)
  case (Cons a as)
  from Cons.prems(1) obtain d1 where run: "f a d = (Some (), d1)" "each_in_turn f as d1 = (Some (), d')"
    by (auto elim!: on_success_cases)
  have first: "I d1 \<and> same_but {p a} d d1 \<and> Q a (node_at d1 (p a))" using Cons.prems(4) [OF _ Cons.prems(2) run(1)] by simp
  have "I d' \<and> same_but (p ` set as) d1 d' \<and> (\<forall>a \<in> set as. Q a (node_at d' (p a)))"
  proof (rule Cons.IH [OF run(2)])
    show "I d1" "distinct (map p as)" using first Cons.prems(3) by simp_all
    show "I d3 \<and> same_but {p b} d2 d3 \<and> Q b (node_at d3 (p b))" if "b \<in> set as" "I d2" "f b d2 = (Some (), d3)" for b d2 d3
      using that by (intro Cons.prems(4)) simp_all
  qed
  then show ?case using first Cons.prems(3) by (auto simp: same_but_def)
qed (simp add: succeed_def)

text \<open>The file of a release that stands for a source file.\<close>

definition staged_as :: "path \<Rightarrow> path \<Rightarrow> disk \<Rightarrow> file_mode \<Rightarrow> node option \<Rightarrow> bool" where
  "staged_as stage source d mode v \<longleftrightarrow>
     (\<exists>bs. v = Some (fresh_file bs mode)
        \<and> (\<forall>m cs. node_at d source = Some \<lparr>nd_kind = RegularFile cs, nd_mode = m\<rparr> \<longrightarrow> \<not> under stage source \<longrightarrow> cs = bs))"

lemma regular_read:
  assumes "node_at d p = Some \<lparr>nd_kind = RegularFile cs, nd_mode = m\<rparr>" "read_bytes x p d = Some bs"
  shows "cs = bs"
  using assms follow_direct [OF assms(1), of x] by (auto simp: read_bytes_def split: if_splits)

definition copy_from :: "xtask_env \<Rightarrow> path \<Rightarrow> path \<Rightarrow> unit on_disk" where
  "copy_from x source t d = (case read_bytes x source d of None \<Rightarrow> fail d | Some bs \<Rightarrow> write_contents x bs t d)"

lemma install_binary_copy:
  "install_binary x source p = on_success (install_file_with_temporary x p 384 (copy_from x source)) (\<lambda>_. make_executable x p)"
  by (simp add: install_binary_def copy_from_def [abs_def])

lemma copy_installed:
  assumes run: "install_file_with_temporary x p mode (copy_from x source) d = (Some (), d')" and names: "temporary_names x"
  shows "same_but {p} d d' \<and> (\<exists>bs. node_at d' p = Some (fresh_file bs mode)
    \<and> (\<forall>m cs. node_at d source = Some \<lparr>nd_kind = RegularFile cs, nd_mode = m\<rparr> \<longrightarrow> cs = bs))"
proof -
  let ?P = "\<lambda>bs. \<forall>m cs. node_at d source = Some \<lparr>nd_kind = RegularFile cs, nd_mode = m\<rparr> \<longrightarrow> cs = bs"
  have fill: "\<exists>bs. ?P bs \<and> fills (copy_from x source) (xe_temporary x p) d2 bs"
    if same: "same_but {xe_temporary x p} d d2" and new: "node_at d (xe_temporary x p) = None" for d2
  proof (cases "read_bytes x source d2")
    case None
    have "\<exists>bs. ?P bs" by (cases "\<exists>m cs. node_at d source = Some \<lparr>nd_kind = RegularFile cs, nd_mode = m\<rparr>") auto
    with None show ?thesis by (auto simp: fills_def fail_def copy_from_def)
  next
    case (Some bs)
    have "?P bs"
    proof (intro allI impI)
      fix m cs assume at: "node_at d source = Some \<lparr>nd_kind = RegularFile cs, nd_mode = m\<rparr>"
      then have "source \<noteq> xe_temporary x p" using new by auto
      then have "node_at d2 source = node_at d source" using same by (simp add: same_but_def)
      with at Some show "cs = bs" using regular_read by metis
    qed
    moreover have "fills (copy_from x source) (xe_temporary x p) d2 bs"
      using write_contents_fills [of x bs "xe_temporary x p" d2] Some by (simp add: fills_def copy_from_def)
    ultimately show ?thesis by blast
  qed
  from install_result_ex [OF run names fill] show ?thesis by auto
qed

lemma install_binary_result:
  assumes run: "install_binary x source p d = (Some (), d')" and names: "temporary_names x"
  shows "same_but {p} d d' \<and> (\<exists>bs. node_at d' p = Some (fresh_file bs 493)
    \<and> (\<forall>m cs. node_at d source = Some \<lparr>nd_kind = RegularFile cs, nd_mode = m\<rparr> \<longrightarrow> cs = bs))"
proof -
  from run obtain d1 where d1: "install_file_with_temporary x p 384 (copy_from x source) d = (Some (), d1)"
      "make_executable x p d1 = (Some (), d')"
    unfolding install_binary_copy by (auto elim!: on_success_cases)
  from copy_installed [OF d1(1) names] obtain bs where bs: "same_but {p} d d1" "node_at d1 p = Some (fresh_file bs 384)"
      "\<forall>m cs. node_at d source = Some \<lparr>nd_kind = RegularFile cs, nd_mode = m\<rparr> \<longrightarrow> cs = bs" by blast
  from set_mode_direct [OF d1(2) [unfolded make_executable_def] bs(2)] have "d' = set_node p (Some (fresh_file bs 493)) d1"
    by (simp add: fresh_file_def)
  then show ?thesis using bs same_but_trans [OF bs(1) same_but_set] by auto
qed

lemma install_text_result:
  assumes "install_text_file x p s mode d = (Some (), d')" "temporary_names x"
  shows "same_but {p} d d' \<and> node_at d' p = Some (fresh_file (utf8_encode s) mode)"
  using install_result [OF assms(1) [unfolded install_text_file_def] assms(2) write_contents_fills] by simp

text \<open>The names are plain, so joining them appends their components.\<close>

lemma utf8_encode_ascii: "utf8_encode [] = []" "c < 128 \<Longrightarrow> utf8_encode (c # s) = word_of_nat c # utf8_encode s"
  by (simp_all add: utf8_encode_def utf8_encode_char_def)

lemmas path_compute = path_of_def lit_def utf8_encode_ascii components_def Let_def component_of_def

definition plain_name :: "string \<Rightarrow> bool" where
  "plain_name s \<longleftrightarrow> CurDir \<notin> set (path_of s) \<and> (utf8_encode (lit s) = [] \<or> hd (utf8_encode (lit s)) \<noteq> 47)"

lemma join_plain: "plain_name s \<Longrightarrow> join_str p s = p @ path_of s"
  by (auto simp: plain_name_def join_str_def join_name_def path_of_def intro!: filter_True)

lemma release_names:
  "list_all plain_name (''bin'' # ''install.sh'' # staged_binaries @ map snd staged_texts @ required_release_files)"
  by (simp add: plain_name_def path_compute required_release_files_def staged_texts_def staged_binaries_def)

lemma release_names_distinct:
  "distinct (path_of ''install.sh'' # map (\<lambda>b. path_of ''bin'' @ path_of b) staged_binaries @ map (\<lambda>f. path_of (snd f)) staged_texts)"
  by (simp add: plain_name_def path_compute required_release_files_def staged_texts_def staged_binaries_def)

lemma release_names_bin:
  "path_of ''bin/mosh-server-real'' = path_of ''bin'' @ path_of ''mosh-server-real''"
  "path_of ''bin/moshwatchd'' = path_of ''bin'' @ path_of ''moshwatchd''"
  "path_of ''bin/moshwatch'' = path_of ''bin'' @ path_of ''moshwatch''"
  by (simp_all add: path_compute)

lemma release_names_required:
  "map path_of required_release_files =
     (let texts = map (\<lambda>f. path_of (snd f)) staged_texts in
      map (\<lambda>b. path_of ''bin'' @ path_of b) staged_binaries @ [path_of ''install.sh'']
        @ take 4 (drop 2 texts) @ take 2 texts @ drop 6 texts)"
  by (simp add: required_release_files_def staged_texts_def staged_binaries_def release_names_bin)

lemma under_append: "under stage (stage @ p)"
  by (simp add: under_def)

lemma stage_text_result:
  assumes "stage_text x repo stage f d = (Some (), d')" "temporary_names x"
  shows "same_but {join_str stage (snd f)} d d' \<and> (\<exists>bs. node_at d' (join_str stage (snd f)) = Some (fresh_file bs 420)
    \<and> (\<forall>m cs. node_at d (join_str repo (fst f)) = Some \<lparr>nd_kind = RegularFile cs, nd_mode = m\<rparr> \<longrightarrow> cs = bs))"
proof -
  from assms(1) obtain s bs where read: "read_bytes x (join_str repo (fst f)) d = Some bs" "from_utf8 bs = Some s"
    and run: "install_text_file x (join_str stage (snd f)) s 420 d = (Some (), d')"
    by (auto simp: stage_text_def read_to_string_def split: option.splits Option.bind_splits)
  have "utf8_encode s = bs" using read(2) by (rule from_utf8_sound)
  then show ?thesis using install_text_result [OF run assms(2)] regular_read [OF _ read(1)] by auto
qed

text \<open>The stage after the binaries, and after the texts.\<close>

lemma staged_as_later:
  assumes "keeps_outside stage d d1" "v = Some (fresh_file bs mode)"
    and "\<forall>m cs. node_at d1 source = Some \<lparr>nd_kind = RegularFile cs, nd_mode = m\<rparr> \<longrightarrow> cs = bs"
  shows "staged_as stage source d mode v"
  using assms by (auto simp: staged_as_def keeps_outside_def)

lemma staged_as_file: "staged_as stage source d mode v \<Longrightarrow> \<exists>bs. v = Some (fresh_file bs mode)"
  by (auto simp: staged_as_def)

lemma stage_binaries:
  assumes run: "each_in_turn (stage_binary x repo stage) staged_binaries d1 = (Some (), d2)"
    and names: "temporary_names x" and before: "keeps_outside stage d d1"
  defines "place \<equiv> \<lambda>b. stage @ path_of ''bin'' @ path_of b"
  shows "keeps_outside stage d d2 \<and> (\<forall>b \<in> set staged_binaries.
    staged_as stage (join_str (join_str repo ''dist/bin'') b) d 493 (node_at d2 (place b)))"
proof -
  have place: "join_str (join_str stage ''bin'') b = place b" if "b \<in> set staged_binaries" for b
    using release_names that by (simp add: place_def join_plain list_all_iff)
  have dist: "distinct (map place staged_binaries)"
    using release_names_distinct by (auto simp: place_def distinct_map inj_on_def)
  have "keeps_outside stage d d2 \<and> same_but (place ` set staged_binaries) d1 d2 \<and> (\<forall>b \<in> set staged_binaries.
      staged_as stage (join_str (join_str repo ''dist/bin'') b) d 493 (node_at d2 (place b)))"
  proof (rule each_in_turn_all [where I = "keeps_outside stage d" and p = place, OF run before dist])
    fix b d3 d4
    assume b: "b \<in> set staged_binaries" and kept: "keeps_outside stage d d3" and step: "stage_binary x repo stage b d3 = (Some (), d4)"
    from install_binary_result [OF step [unfolded stage_binary_def place [OF b]] names]
    obtain bs where one: "same_but {place b} d3 d4" "node_at d4 (place b) = Some (fresh_file bs 493)"
      "\<forall>m cs. node_at d3 (join_str (join_str repo ''dist/bin'') b) = Some \<lparr>nd_kind = RegularFile cs, nd_mode = m\<rparr> \<longrightarrow> cs = bs"
      by blast
    have "keeps_outside stage d3 d4" using one(1) by (rule keeps_outside_same) (simp add: place_def under_append)
    then show "keeps_outside stage d d4 \<and> same_but {place b} d3 d4
        \<and> staged_as stage (join_str (join_str repo ''dist/bin'') b) d 493 (node_at d4 (place b))"
      using keeps_outside_trans [OF kept] staged_as_later [OF kept one(2,3)] one(1) by blast
  qed
  then show ?thesis by blast
qed

lemma stage_texts:
  assumes run: "each_in_turn (stage_text x repo stage) staged_texts d1 = (Some (), d2)"
    and names: "temporary_names x" and before: "keeps_outside stage d d1"
  defines "place \<equiv> \<lambda>f. stage @ path_of (snd f)"
  shows "keeps_outside stage d d2 \<and> same_but (place ` set staged_texts) d1 d2
    \<and> (\<forall>f \<in> set staged_texts. staged_as stage (join_str repo (fst f)) d 420 (node_at d2 (place f)))"
proof -
  have place: "join_str stage (snd f) = place f" if "f \<in> set staged_texts" for f
    using release_names that by (simp add: place_def join_plain list_all_iff)
  have dist: "distinct (map place staged_texts)"
    using release_names_distinct by (auto simp: place_def distinct_map inj_on_def)
  show ?thesis
  proof (rule each_in_turn_all [where I = "keeps_outside stage d" and p = place, OF run before dist])
    fix f d3 d4
    assume f: "f \<in> set staged_texts" and kept: "keeps_outside stage d d3" and step: "stage_text x repo stage f d3 = (Some (), d4)"
    from stage_text_result [OF step names, unfolded place [OF f]]
    obtain bs where one: "same_but {place f} d3 d4" "node_at d4 (place f) = Some (fresh_file bs 420)"
      "\<forall>m cs. node_at d3 (join_str repo (fst f)) = Some \<lparr>nd_kind = RegularFile cs, nd_mode = m\<rparr> \<longrightarrow> cs = bs"
      by blast
    have "keeps_outside stage d3 d4" using one(1) by (rule keeps_outside_same) (simp add: place_def under_append)
    then show "keeps_outside stage d d4 \<and> same_but {place f} d3 d4
        \<and> staged_as stage (join_str repo (fst f)) d 420 (node_at d4 (place f))"
      using keeps_outside_trans [OF kept] staged_as_later [OF kept one(2,3)] one(1) by blast
  qed
qed

lemma clear_stage_keeps:
  "(if exists_path x stage d then remove_dir_all x stage d else succeed () d) = (r, d') \<Longrightarrow> keeps_outside stage d d'"
  by (auto simp: remove_dir_all_def keeps_outside_def node_at_def split: if_splits)

lemma dirs_keep: "each_in_turn (create_dir_all x) ps d = (r, d') \<Longrightarrow> keeps_outside stage d d'"
proof (induction ps arbitrary: d)
  case (Cons p ps)
  then show ?case
    unfolding each_in_turn.simps
    by (elim on_success_cases) (auto dest: create_dir_all_keeps intro: keeps_outside_trans)
qed (simp add: keeps_outside_def)

lemma valid_release:
  assumes "\<And>f. f \<in> set required_release_files \<Longrightarrow> \<exists>bs mode. node_at d (stage @ path_of f) = Some (fresh_file bs mode)"
    and "node_at d (stage @ path_of ''install.sh'') = Some (fresh_file script 493)" "\<And>p. \<not> fe_fails (xe_fs x) (Stat p)"
  shows "validate_release_tree x stage d"
proof -
  have found: "metadata x p d = Some (p, fresh_file bs mode)" if "node_at d p = Some (fresh_file bs mode)" for p bs mode
    using follow_direct [OF that] assms(3) by (simp add: metadata_def fresh_file_def)
  have "join_str stage f = stage @ path_of f" if "f \<in> set required_release_files" for f
    using release_names that by (simp add: join_plain list_all_iff)
  then have "\<forall>f \<in> set required_release_files. exists_path x (join_str stage f) d"
    using assms(1) found by (fastforce simp: exists_path_def)
  moreover have "join_str stage ''install.sh'' = stage @ path_of ''install.sh''"
    using release_names by (simp add: join_plain)
  ultimately show ?thesis
    using found [OF assms(2)] by (simp add: validate_release_tree_def file_mode_or_default_def st_mode_def fresh_file_def)
qed

text \<open>
  C38: A release that was staged passes the check that follows; its binaries and texts are those of
  the repository, byte for byte, with the modes 0755 and 0644 whatever the modes of the sources
  were, its installer is executable, and nothing outside the stage has changed.
\<close>
theorem release_staged:
  assumes "stage_release_tree x manifest_dir repo stage d = (Some (), d')" "temporary_names x"
    and "\<And>p. \<not> fe_fails (xe_fs x) (Stat p)"
  shows "validate_release_tree x stage d'
    \<and> (\<forall>b \<in> set staged_binaries. staged_as stage (join_str (join_str repo ''dist/bin'') b) d 493 (node_at d' (join_str (join_str stage ''bin'') b)))
    \<and> (\<forall>f \<in> set staged_texts. staged_as stage (join_str repo (fst f)) d 420 (node_at d' (join_str stage (snd f))))
    \<and> (\<exists>script. node_at d' (join_str stage ''install.sh'') = Some (fresh_file script 493))
    \<and> (\<forall>p n. node_at d p = Some n \<longrightarrow> \<not> under stage p \<longrightarrow> node_at d' p = Some n)"
proof -
  let ?installer = "stage @ path_of ''install.sh''" and ?bin = "\<lambda>b. stage @ path_of ''bin'' @ path_of b"
    and ?text = "\<lambda>f. stage @ path_of (snd f)"
  have names: "join_str (join_str stage ''bin'') b = ?bin b" "join_str stage (snd f) = ?text f" "join_str stage ''install.sh'' = ?installer"
    if "b \<in> set staged_binaries" "f \<in> set staged_texts" for b f
    using release_names that by (simp_all add: join_plain list_all_iff)
  from assms(1) obtain d1 d2 d3 d4 script
    where "(if exists_path x stage d then remove_dir_all x stage d else succeed () d) = (Some (), d1)"
      and "each_in_turn (create_dir_all x)
        [stage, join_str stage ''bin'', join_str stage ''templates'', join_str (join_str stage ''licenses'') ''vendor-mosh''] d1 = (Some (), d2)"
      and binaries: "each_in_turn (stage_binary x repo stage) staged_binaries d2 = (Some (), d3)"
      and installer: "install_text_file x (join_str stage ''install.sh'') script 493 d3 = (Some (), d4)"
      and texts: "each_in_turn (stage_text x repo stage) staged_texts d4 = (Some (), d')"
    unfolding stage_release_tree_def
    by (elim on_success_cases; simp add: render_release_install_script_def render_template_def; blast)
  then have kept: "keeps_outside stage d d2" using clear_stage_keeps dirs_keep keeps_outside_trans by blast
  have d3: "keeps_outside stage d d3 \<and> (\<forall>b \<in> set staged_binaries.
      staged_as stage (join_str (join_str repo ''dist/bin'') b) d 493 (node_at d3 (?bin b)))"
    by (rule stage_binaries [OF binaries assms(2) kept])
  have installed: "same_but {?installer} d3 d4" "node_at d4 ?installer = Some (fresh_file (utf8_encode script) 493)"
    using install_text_result [OF installer assms(2)] release_names by (simp_all add: join_plain)
  have "keeps_outside stage d d4"
    using keeps_outside_trans [OF conjunct1 [OF d3] keeps_outside_same [OF installed(1)]] by (simp add: under_append)
  note d5 = stage_texts [OF texts assms(2) this]
  have apart: "?bin b \<notin> ?text ` set staged_texts" "?bin b \<noteq> ?installer" "?installer \<notin> ?text ` set staged_texts"
    if "b \<in> set staged_binaries" for b
    using release_names_distinct that by (auto simp: image_iff)
  have bin: "staged_as stage (join_str (join_str repo ''dist/bin'') b) d 493 (node_at d' (?bin b))" if "b \<in> set staged_binaries" for b
  proof -
    have "node_at d' (?bin b) = node_at d3 (?bin b)"
      using d5 installed(1) apart [OF that] by (simp add: same_but_def)
    then show ?thesis using d3 that by simp
  qed
  have "''moshwatch'' \<in> set staged_binaries" by (simp add: staged_binaries_def)
  then have inst: "node_at d' ?installer = Some (fresh_file (utf8_encode script) 493)"
    using d5 installed(2) apart(3) by (simp add: same_but_def)
  have "\<exists>bs mode. node_at d' (stage @ path_of f) = Some (fresh_file bs mode)" if "f \<in> set required_release_files" for f
  proof -
    have "path_of f \<in> set (map path_of required_release_files)" using that by simp
    then consider b where "b \<in> set staged_binaries" "path_of f = path_of ''bin'' @ path_of b" | "path_of f = path_of ''install.sh''"
      | g where "g \<in> set staged_texts" "path_of f = path_of (snd g)"
      unfolding release_names_required Let_def by (auto dest!: in_set_takeD in_set_dropD)
    then show ?thesis
    proof cases
      case (1 b)
      then show ?thesis using bin [OF 1(1)] staged_as_file by metis
    next
      case 2
      then show ?thesis using inst by auto
    next
      case (3 g)
      then show ?thesis using d5 staged_as_file by metis
    qed
  qed
  from valid_release [OF this inst assms(3)] have valid: "validate_release_tree x stage d'" .
  have some: "hd staged_binaries \<in> set staged_binaries" "hd staged_texts \<in> set staged_texts"
    by (simp_all add: staged_binaries_def staged_texts_def)
  show ?thesis
  proof (intro conjI ballI exI)
    show "validate_release_tree x stage d'" by (rule valid)
    show "node_at d' (join_str stage ''install.sh'') = Some (fresh_file (utf8_encode script) 493)"
      unfolding names(3) [OF some] by (rule inst)
    show "\<forall>p n. node_at d p = Some n \<longrightarrow> \<not> under stage p \<longrightarrow> node_at d' p = Some n"
      using conjunct1 [OF d5] unfolding keeps_outside_def .
    fix c assume c: "c \<in> set staged_binaries"
    show "staged_as stage (join_str (join_str repo ''dist/bin'') c) d 493 (node_at d' (join_str (join_str stage ''bin'') c))"
      unfolding names(1) [OF c some(2)] by (rule bin [OF c])
  next
    fix g assume g: "g \<in> set staged_texts"
    show "staged_as stage (join_str repo (fst g)) d 420 (node_at d' (join_str stage (snd g)))"
      unfolding names(2) [OF some(1) g] using d5 g by blast
  qed
qed

section \<open>Staging succeeds\<close>

text \<open>An operation that returns a value, with a condition on the disk that it leaves.\<close>

definition succeeds :: "'a on_disk \<Rightarrow> disk \<Rightarrow> (disk \<Rightarrow> bool) \<Rightarrow> bool" where
  "succeeds f d Q \<longleftrightarrow> (\<exists>v d'. f d = (Some v, d') \<and> Q d')"

lemma succeeds_bind: "succeeds f d R \<Longrightarrow> (\<And>v d'. R d' \<Longrightarrow> succeeds (g v) d' Q) \<Longrightarrow> succeeds (on_success f g) d Q"
  unfolding succeeds_def on_success_def by fastforce

lemma succeeds_in_turn:
  assumes "I d" "\<And>a d. a \<in> set as \<Longrightarrow> I d \<Longrightarrow> succeeds (f a) d I"
  shows "succeeds (each_in_turn f as) d I"
  using assms
proof (induction as arbitrary: d)
  case (Cons a as)
  then show ?case unfolding each_in_turn.simps by (intro succeeds_bind [of "f a" d I]) simp_all
qed (simp add: succeeds_def succeed_def)

definition no_faults :: "xtask_env \<Rightarrow> bool" where
  "no_faults x \<longleftrightarrow> (\<forall>c. \<not> fe_fails (xe_fs x) c)"

lemma set_mode_runs:
  "no_faults x \<Longrightarrow> node_at d p = Some n \<Longrightarrow> nd_kind n \<noteq> Symlink \<Longrightarrow>
     set_mode_if_unix x p mode d = (Some (), set_node p (Some (n\<lparr>nd_mode := mode AND 4095\<rparr>)) d)"
  by (simp add: set_mode_if_unix_def metadata_def follow_direct no_faults_def succeed_def)

lemma install_runs:
  assumes "no_faults x" "temporary_names x" "parent p \<noteq> None" "file_name p \<noteq> None" "node_at d (xe_temporary x p) = None"
    and "map_option nd_kind (node_at d p) \<noteq> Some Directory"
    and w: "\<And>d1. same_but {xe_temporary x p} d d1 \<Longrightarrow> node_at d1 (xe_temporary x p) = Some (fresh_file [] mode) \<Longrightarrow>
        \<exists>bs. w (xe_temporary x p) d1 = (Some (), set_node (xe_temporary x p) (Some (fresh_file bs mode)) d1)"
  shows "\<exists>d'. install_file_with_temporary x p mode w d = (Some (), d')"
proof -
  let ?t = "xe_temporary x p"
  have tp: "?t \<noteq> p" using assms(2) by (simp add: temporary_names_def)
  let ?empty = "\<lparr>nd_kind = RegularFile [], nd_mode = 384 AND NOT (fe_umask (xe_fs x))\<rparr>"
  let ?d1 = "set_node ?t (Some (fresh_file [] mode)) (set_node ?t (Some ?empty) d)"
  have create: "create_temporary_file_in_same_dir x p mode d = (Some ?t, ?d1)"
    using assms(1,3,4,5) set_mode_runs [OF assms(1), of "set_node ?t (Some ?empty) d" ?t ?empty mode]
    by (simp add: create_temporary_file_in_same_dir_def Let_def no_faults_def fresh_file_def)
  from w [of ?d1] obtain bs where filled: "w ?t ?d1 = (Some (), set_node ?t (Some (fresh_file bs mode)) ?d1)"
    by (auto simp: same_but_def)
  let ?d2 = "set_node ?t (Some (fresh_file bs mode)) ?d1"
  have mode: "set_mode_if_unix x ?t mode ?d2 = (Some (), set_node ?t (Some (fresh_file bs mode)) ?d2)"
    using set_mode_runs [OF assms(1), of ?d2 ?t "fresh_file bs mode" mode] by (simp add: fresh_file_def and.assoc)
  have "\<exists>d3. rename (xe_fs x) ?t p (set_node ?t (Some (fresh_file bs mode)) ?d2) = (Some (), d3)"
    using assms(1,6) tp by (auto simp: rename_def no_faults_def succeed_def)
  then show ?thesis
    by (auto simp: install_file_with_temporary_def on_success_def create filled mode split: prod.splits)
qed

lemma write_runs:
  "no_faults x \<Longrightarrow> node_at d t = Some (fresh_file [] mode) \<Longrightarrow>
     write_contents x bs t d = (Some (), set_node t (Some (fresh_file bs mode)) d)"
  by (simp add: write_contents_def no_faults_def succeed_def fresh_file_def)

lemma install_text_runs:
  assumes "no_faults x" "temporary_names x" "parent p \<noteq> None" "file_name p \<noteq> None" "node_at d (xe_temporary x p) = None"
    and "map_option nd_kind (node_at d p) \<noteq> Some Directory"
  shows "\<exists>d'. install_text_file x p s mode d = (Some (), d')"
  unfolding install_text_file_def using write_runs [OF assms(1)] by (intro install_runs [OF assms]) blast

lemma read_regular:
  assumes "no_faults x" "node_at d p = Some n" "nd_kind n = RegularFile bs"
  shows "read_bytes x p d = Some bs"
  using assms follow_direct [OF assms(2), of x] by (simp add: read_bytes_def no_faults_def)

lemma install_binary_runs:
  assumes "no_faults x" "temporary_names x" "parent p \<noteq> None" "file_name p \<noteq> None" "node_at d (xe_temporary x p) = None"
    and "map_option nd_kind (node_at d p) \<noteq> Some Directory" "node_at d source = Some n" "nd_kind n = RegularFile bs"
  shows "\<exists>d'. install_binary x source p d = (Some (), d')"
proof -
  obtain d1 where d1: "install_file_with_temporary x p 384 (copy_from x source) d = (Some (), d1)"
  proof (rule exE [OF install_runs [OF assms(1-6)]])
    fix d2 assume same: "same_but {xe_temporary x p} d d2" and t: "node_at d2 (xe_temporary x p) = Some (fresh_file [] 384)"
    have "source \<noteq> xe_temporary x p" using assms(5,7) by auto
    then have "node_at d2 source = Some n" using same assms(7) by (simp add: same_but_def)
    then have "read_bytes x source d2 = Some bs" by (rule read_regular [OF assms(1) _ assms(8)])
    then show "\<exists>bs. copy_from x source (xe_temporary x p) d2 = (Some (), set_node (xe_temporary x p) (Some (fresh_file bs 384)) d2)"
      using write_runs [OF assms(1) t] by (auto simp: copy_from_def)
  qed blast
  from copy_installed [OF d1 assms(2)] obtain cs where "node_at d1 p = Some (fresh_file cs 384)" by blast
  then show ?thesis using set_mode_runs [OF assms(1), of d1 p "fresh_file cs 384" 493] d1
    by (simp add: install_binary_copy on_success_def make_executable_def fresh_file_def)
qed

text \<open>Directories: those on the way are there or are made, and nothing else changes.\<close>

definition dir_or_none :: "disk \<Rightarrow> path \<Rightarrow> bool" where
  "dir_or_none d p \<longleftrightarrow> (\<forall>n. node_at d p = Some n \<longrightarrow> nd_kind n = Directory)"

definition adds_dirs :: "path set \<Rightarrow> disk \<Rightarrow> disk \<Rightarrow> bool" where
  "adds_dirs D d d' \<longleftrightarrow> (\<forall>q. node_at d' q = node_at d q \<or> node_at d q = None \<and> q \<in> D \<and> dir_or_none d' q)"

lemma adds_dirs_refl: "adds_dirs D d d"
  by (simp add: adds_dirs_def)

lemma adds_dirs_trans: "adds_dirs D d d1 \<Longrightarrow> adds_dirs D d1 d2 \<Longrightarrow> adds_dirs D d d2"
  unfolding adds_dirs_def dir_or_none_def by metis

lemma adds_dirs_dir: "adds_dirs D d d' \<Longrightarrow> dir_or_none d p \<Longrightarrow> dir_or_none d' p"
  unfolding adds_dirs_def dir_or_none_def by metis

lemma create_dirs_run:
  "no_faults x \<Longrightarrow> (\<And>i. 0 < i \<Longrightarrow> i \<le> length cs \<Longrightarrow> dir_or_none d (current @ take i cs) \<and> current @ take i cs \<in> D) \<Longrightarrow>
     succeeds (create_dirs x current cs) d (adds_dirs D d)"
proof (induction x current cs d rule: create_dirs.induct)
  case (1 x current d)
  then show ?case by (simp add: succeeds_def succeed_def adds_dirs_refl)
next
  case (2 x current c cs d)
  have here: "dir_or_none d (current @ [c])" "current @ [c] \<in> D" using 2(4) [of 1] by simp_all
  have later: "dir_or_none d ((current @ [c]) @ take i cs) \<and> (current @ [c]) @ take i cs \<in> D" if "0 < i" "i \<le> length cs" for i
    using 2(4) [of "Suc i"] that by simp
  show ?case
  proof (cases "node_at d (current @ [c])")
    case None
    let ?d = "set_node (current @ [c]) (Some \<lparr>nd_kind = Directory, nd_mode = 511 AND NOT (fe_umask (xe_fs x))\<rparr>) d"
    have none: "follow x MAX_LINKS (current @ [c]) d = None" using None by (simp add: MAX_LINKS_def numeral_eq_Suc)
    have add: "adds_dirs D d ?d" using here None by (simp add: adds_dirs_def dir_or_none_def)
    have "succeeds (create_dirs x (current @ [c]) cs) ?d (adds_dirs D ?d)"
      using 2(1) [OF none] None 2(3) later adds_dirs_dir [OF add] by (auto simp: no_faults_def)
    then show ?thesis using None none 2(3) adds_dirs_trans [OF add] by (auto simp: succeeds_def no_faults_def)
  next
    case (Some n)
    have dir: "nd_kind n = Directory" using here(1) Some by (simp add: dir_or_none_def)
    then have found: "follow x MAX_LINKS (current @ [c]) d = Some (current @ [c], n)"
      using follow_direct [OF Some] by simp
    have "succeeds (create_dirs x (current @ [c]) cs) d (adds_dirs D d)"
      using 2(2) [OF found refl dir 2(3)] later by blast
    then show ?thesis using found dir by (simp add: succeeds_def)
  qed
qed

section \<open>The layout of a release\<close>

definition release_dirs :: "path \<Rightarrow> path list" where
  "release_dirs stage = [stage, stage @ path_of ''bin'', stage @ path_of ''templates'', stage @ path_of ''licenses/vendor-mosh'']"

definition on_the_way :: "path \<Rightarrow> path set" where
  "on_the_way stage = {take i p | i p. 0 < i \<and> p \<in> set (release_dirs stage)}"

definition release_files :: "path \<Rightarrow> path set" where
  "release_files stage = (\<lambda>f. stage @ path_of f) ` set required_release_files"

definition text_sources :: "path \<Rightarrow> path \<Rightarrow> path set" where
  "text_sources manifest_dir repo =
     insert (join_str (join_str manifest_dir ''templates'') ''release-install.sh.template'') ((\<lambda>f. join_str repo (fst f)) ` set staged_texts)"

definition binary_sources :: "path \<Rightarrow> path set" where
  "binary_sources repo = (\<lambda>b. join_str (join_str repo ''dist/bin'') b) ` set staged_binaries"

text \<open>
  The sources are regular files, the texts UTF-8, the temporary names are free, and no directory
  stands where a file goes.
\<close>

definition stageable :: "xtask_env \<Rightarrow> path \<Rightarrow> path \<Rightarrow> path \<Rightarrow> disk \<Rightarrow> bool" where
  "stageable x manifest_dir repo stage d \<longleftrightarrow>
     (\<forall>s \<in> text_sources manifest_dir repo. \<exists>m t. list_all is_scalar t \<and> node_at d s = Some \<lparr>nd_kind = RegularFile (utf8_encode t), nd_mode = m\<rparr>)
     \<and> (\<forall>s \<in> binary_sources repo. \<exists>m bs. node_at d s = Some \<lparr>nd_kind = RegularFile bs, nd_mode = m\<rparr>)
     \<and> (\<forall>p \<in> release_files stage. node_at d (xe_temporary x p) = None \<and> map_option nd_kind (node_at d p) \<noteq> Some Directory)"

lemma release_files_normal: "list_all (\<lambda>f. path_of f \<noteq> [] \<and> (case last (path_of f) of Normal b \<Rightarrow> True | _ \<Rightarrow> False)) required_release_files"
  by (simp add: plain_name_def path_compute required_release_files_def staged_texts_def staged_binaries_def)

lemma release_file_parts:
  assumes "p \<in> release_files stage"
  shows "parent p \<noteq> None" "file_name p \<noteq> None"
proof -
  obtain f where f: "f \<in> set required_release_files" "p = stage @ path_of f" using assms by (auto simp: release_files_def)
  then have "path_of f \<noteq> []" "case last (path_of f) of Normal b \<Rightarrow> True | _ \<Rightarrow> False"
    using release_files_normal by (auto simp: list_all_iff)
  then show "parent p \<noteq> None" "file_name p \<noteq> None"
    using f(2) by (auto simp: parent_def file_name_def split: path_component.splits)
qed

lemma release_file_places:
  "b \<in> set staged_binaries \<Longrightarrow> join_str (join_str stage ''bin'') b \<in> release_files stage"
  "f \<in> set staged_texts \<Longrightarrow> join_str stage (snd f) \<in> release_files stage"
  "join_str stage ''install.sh'' \<in> release_files stage"
proof -
  have all: "release_files stage = (@) stage ` set (map path_of required_release_files)" by (auto simp: release_files_def)
  show "b \<in> set staged_binaries \<Longrightarrow> join_str (join_str stage ''bin'') b \<in> release_files stage"
    using release_names unfolding all release_names_required Let_def by (auto simp: join_plain list_all_iff)
  show "join_str stage ''install.sh'' \<in> release_files stage"
    using release_names unfolding all release_names_required Let_def by (simp add: join_plain)
  have "snd f \<in> set required_release_files" if "f \<in> set staged_texts"
    using that by (auto simp: staged_texts_def required_release_files_def)
  then show "f \<in> set staged_texts \<Longrightarrow> join_str stage (snd f) \<in> release_files stage"
    using release_names by (auto simp: release_files_def join_plain list_all_iff)
qed

lemma release_dir_names:
  "plain_name ''templates''" "plain_name ''licenses''" "plain_name ''vendor-mosh''"
  "path_of ''licenses/vendor-mosh'' = path_of ''licenses'' @ path_of ''vendor-mosh''"
  by (simp_all add: plain_name_def path_compute)

lemma release_dirs_joined:
  "[stage, join_str stage ''bin'', join_str stage ''templates'', join_str (join_str stage ''licenses'') ''vendor-mosh''] = release_dirs stage"
  using release_names by (simp add: release_dirs_def join_plain release_dir_names)

text \<open>The files of the release are neither sources nor temporary files nor directories of the stage.\<close>

definition release_apart :: "xtask_env \<Rightarrow> path \<Rightarrow> path \<Rightarrow> path \<Rightarrow> bool" where
  "release_apart x manifest_dir repo stage \<longleftrightarrow>
     (text_sources manifest_dir repo \<union> binary_sources repo \<union> xe_temporary x ` release_files stage \<union> on_the_way stage) \<inter> release_files stage = {}
     \<and> xe_temporary x ` release_files stage \<inter> on_the_way stage = {}"

lemma stageable_dirs:
  assumes "stageable x manifest_dir repo stage d" "release_apart x manifest_dir repo stage" "adds_dirs (on_the_way stage) d d'"
  shows "stageable x manifest_dir repo stage d'"
proof -
  have kept: "node_at d' q = Some n" if "node_at d q = Some n" for q n using assms(3) that unfolding adds_dirs_def by (metis option.distinct(1))
  have other: "node_at d' q = node_at d q" if "q \<notin> on_the_way stage" for q using assms(3) that unfolding adds_dirs_def by blast
  have apart: "xe_temporary x p \<notin> on_the_way stage" "p \<notin> on_the_way stage" if "p \<in> release_files stage" for p
    using assms(2) that unfolding release_apart_def by blast+
  have "node_at d' (xe_temporary x p) = None \<and> map_option nd_kind (node_at d' p) \<noteq> Some Directory" if "p \<in> release_files stage" for p
    using assms(1) that unfolding other [OF apart(1) [OF that]] other [OF apart(2) [OF that]] by (simp add: stageable_def)
  moreover have "\<exists>m t. list_all is_scalar t \<and> node_at d' s = Some \<lparr>nd_kind = RegularFile (utf8_encode t), nd_mode = m\<rparr>"
    if "s \<in> text_sources manifest_dir repo" for s
    using assms(1) that kept [of s] unfolding stageable_def by blast
  moreover have "\<exists>m bs. node_at d' s = Some \<lparr>nd_kind = RegularFile bs, nd_mode = m\<rparr>" if "s \<in> binary_sources repo" for s
    using assms(1) that kept [of s] unfolding stageable_def by blast
  ultimately show ?thesis unfolding stageable_def by blast
qed

lemma stageable_file:
  assumes "stageable x manifest_dir repo stage d" "release_apart x manifest_dir repo stage" "p \<in> release_files stage"
    and "same_but {p} d d'" "node_at d' p = Some (fresh_file bs mode)"
  shows "stageable x manifest_dir repo stage d'"
proof -
  have "p \<notin> text_sources manifest_dir repo \<union> binary_sources repo \<union> xe_temporary x ` release_files stage"
    using assms(2,3) unfolding release_apart_def by blast
  then have "node_at d' q = node_at d q" if "q \<in> text_sources manifest_dir repo \<union> binary_sources repo \<union> xe_temporary x ` release_files stage" for q
    using assms(4) that by (auto simp: same_but_def)
  moreover have "map_option nd_kind (node_at d' q) \<noteq> Some Directory" if "map_option nd_kind (node_at d q) \<noteq> Some Directory" for q
    using assms(4,5) that by (cases "q = p") (auto simp: same_but_def fresh_file_def)
  ultimately show ?thesis using assms(1) unfolding stageable_def by auto
qed

text \<open>Staging succeeds when its sources are there, its stage is new, and nothing fails.\<close>

lemma staging_runs:
  assumes "no_faults x" "temporary_names x" "release_apart x manifest_dir repo stage" "stageable x manifest_dir repo stage d"
    and "node_at d stage = None" "\<And>q. q \<in> on_the_way stage \<Longrightarrow> dir_or_none d q"
  shows "\<exists>d'. stage_release_tree x manifest_dir repo stage d = (Some (), d')"
proof -
  let ?ok = "stageable x manifest_dir repo stage" and ?dirs = "adds_dirs (on_the_way stage) d"
  have installed: "succeeds (install_text_file x p s mode) d1 ?ok" if d1: "?ok d1" and p: "p \<in> release_files stage" for p s mode d1
  proof -
    have "node_at d1 (xe_temporary x p) = None" "map_option nd_kind (node_at d1 p) \<noteq> Some Directory"
      using d1 p by (auto simp: stageable_def)
    then obtain d2 where run: "install_text_file x p s mode d1 = (Some (), d2)"
      using install_text_runs [OF assms(1,2) release_file_parts [OF p]] by blast
    then have "?ok d2" using stageable_file [OF d1 assms(3) p] install_text_result [OF run assms(2)] by blast
    then show ?thesis using run by (simp add: succeeds_def)
  qed
  have source: "\<exists>t. read_to_string x s d1 = Some t" if d1: "?ok d1" and s: "s \<in> text_sources manifest_dir repo" for s d1
  proof -
    obtain m t where t: "list_all is_scalar t" "node_at d1 s = Some \<lparr>nd_kind = RegularFile (utf8_encode t), nd_mode = m\<rparr>"
      using d1 s unfolding stageable_def by blast
    have "read_bytes x s d1 = Some (utf8_encode t)" by (rule read_regular [OF assms(1) t(2)]) simp
    then show ?thesis using t(1) by (simp add: read_to_string_def from_utf8_encode)
  qed
  have one_text: "succeeds (stage_text x repo stage f) d1 ?ok" if f: "f \<in> set staged_texts" and d1: "?ok d1" for f d1
  proof -
    have "join_str repo (fst f) \<in> text_sources manifest_dir repo" using f by (auto simp: text_sources_def)
    from source [OF d1 this] obtain t where "read_to_string x (join_str repo (fst f)) d1 = Some t" ..
    with installed [OF d1 release_file_places(2) [OF f]] show ?thesis by (simp add: succeeds_def stage_text_def)
  qed
  have one_binary: "succeeds (stage_binary x repo stage b) d1 ?ok" if b: "b \<in> set staged_binaries" and d1: "?ok d1" for b d1
  proof -
    let ?p = "join_str (join_str stage ''bin'') b"
    have p: "?p \<in> release_files stage" by (rule release_file_places(1) [OF b])
    have free: "node_at d1 (xe_temporary x ?p) = None" "map_option nd_kind (node_at d1 ?p) \<noteq> Some Directory"
      using d1 p by (auto simp: stageable_def)
    obtain m bs where source: "node_at d1 (join_str (join_str repo ''dist/bin'') b) = Some \<lparr>nd_kind = RegularFile bs, nd_mode = m\<rparr>"
      using b d1 by (fastforce simp: stageable_def binary_sources_def)
    have "\<exists>d'. stage_binary x repo stage b d1 = (Some (), d')"
      unfolding stage_binary_def by (rule install_binary_runs [OF assms(1,2) release_file_parts [OF p] free source]) simp
    then obtain d2 where run: "stage_binary x repo stage b d1 = (Some (), d2)" ..
    then have "?ok d2"
      using stageable_file [OF d1 assms(3) p] install_binary_result [OF run [unfolded stage_binary_def] assms(2)] by blast
    then show ?thesis using run by (simp add: succeeds_def)
  qed
  have one_dir: "succeeds (create_dir_all x p) d1 ?dirs" if p: "p \<in> set (release_dirs stage)" and d1: "?dirs d1" for p d1
  proof -
    have "take i p \<in> on_the_way stage" if "0 < i" for i using that p by (auto simp: on_the_way_def)
    then have "succeeds (create_dirs x [] p) d1 (adds_dirs (on_the_way stage) d1)"
      using assms(6) adds_dirs_dir [OF d1] by (intro create_dirs_run [OF assms(1)]) auto
    then show ?thesis using adds_dirs_trans [OF d1] by (auto simp: succeeds_def create_dir_all_def)
  qed
  have start: "(\<lambda>d. if exists_path x stage d then remove_dir_all x stage d else succeed () d) d = (Some (), d)"
    using assms(5) by (simp add: exists_path_def metadata_def MAX_LINKS_def numeral_eq_Suc succeed_def)
  have installer: "succeeds (render_release_install_script x manifest_dir) d1 ?ok" if "?ok d1" for d1
    using source [OF that, of "join_str (join_str manifest_dir ''templates'') ''release-install.sh.template''"] that
    by (auto simp: succeeds_def render_release_install_script_def render_template_def text_sources_def)
  have made: "succeeds (each_in_turn (create_dir_all x)
      [stage, join_str stage ''bin'', join_str stage ''templates'', join_str (join_str stage ''licenses'') ''vendor-mosh'']) d ?ok"
    unfolding release_dirs_joined
  proof -
    have "succeeds (each_in_turn (create_dir_all x) (release_dirs stage)) d ?dirs"
      by (rule succeeds_in_turn [where I = ?dirs, OF adds_dirs_refl]) (rule one_dir)
    then show "succeeds (each_in_turn (create_dir_all x) (release_dirs stage)) d ?ok"
      using stageable_dirs [OF assms(4,3)] unfolding succeeds_def by blast
  qed
  have texts: "succeeds (each_in_turn (stage_text x repo stage) staged_texts) d1 ?ok" if "?ok d1" for d1
    by (rule succeeds_in_turn [where I = ?ok, OF that]) (rule one_text)
  have script: "succeeds (on_success (install_text_file x (join_str stage ''install.sh'') s 493)
      (\<lambda>_. each_in_turn (stage_text x repo stage) staged_texts)) d1 ?ok" if "?ok d1" for s d1
    by (rule succeeds_bind [OF installed [OF that release_file_places(3)]]) (rule texts)
  have rest: "succeeds (on_success (render_release_install_script x manifest_dir) (\<lambda>script.
      on_success (install_text_file x (join_str stage ''install.sh'') script 493)
        (\<lambda>_. each_in_turn (stage_text x repo stage) staged_texts))) d1 ?ok" if "?ok d1" for d1
    by (rule succeeds_bind [OF installer [OF that]]) (rule script)
  have binaries: "succeeds (each_in_turn (stage_binary x repo stage) staged_binaries) d1 ?ok" if "?ok d1" for d1
    by (rule succeeds_in_turn [where I = ?ok, OF that]) (rule one_binary)
  have "succeeds (on_success (each_in_turn (stage_binary x repo stage) staged_binaries)
      (\<lambda>_. on_success (render_release_install_script x manifest_dir) (\<lambda>script.
      on_success (install_text_file x (join_str stage ''install.sh'') script 493)
        (\<lambda>_. each_in_turn (stage_text x repo stage) staged_texts)))) d1 ?ok" if "?ok d1" for d1
    by (rule succeeds_bind [OF binaries [OF that]]) (rule rest)
  from succeeds_bind [OF made this] have "succeeds (stage_release_tree x manifest_dir repo stage) d ?ok"
    using start by (simp add: stage_release_tree_def on_success_def [of "\<lambda>d. if exists_path x stage d then remove_dir_all x stage d else succeed () d"] succeeds_def)
  then show ?thesis by (auto simp: succeeds_def)
qed

section \<open>Example\<close>

definition example_stage :: path where "example_stage = [RootDir, Normal [115]]"
definition example_repo :: path where "example_repo = [RootDir, Normal [114]]"
definition example_manifest :: path where "example_manifest = [RootDir, Normal [114], Normal [120]]"

text \<open>A checkout in which every source is an empty file.\<close>

definition example_checkout :: disk where
  "example_checkout =
     empty_disk\<lparr>dk_nodes := (\<lambda>p. if p \<in> text_sources example_manifest example_repo \<union> binary_sources example_repo
        then Some \<lparr>nd_kind = RegularFile (utf8_encode []), nd_mode = 384\<rparr> else None)\<rparr>"

text \<open>The first bytes of the names keep files, directories and temporary files apart.\<close>

definition first_byte :: "path_component \<Rightarrow> u8" where
  "first_byte c = (case c of Normal b \<Rightarrow> (if b = [] then 0 else hd b) | _ \<Rightarrow> 0)"

definition file_bytes :: "u8 set" where "file_bytes = set [109, 105, 82, 76, 78, 65, 67]"
definition dir_bytes :: "u8 set" where "dir_bytes = set [0, 115, 98, 116, 108, 118]"

lemma bytes_apart: "file_bytes \<inter> dir_bytes = {}" "46 \<notin> file_bytes" "46 \<notin> dir_bytes"
  by (simp_all add: file_bytes_def dir_bytes_def)

lemma release_source_names:
  "list_all plain_name (''templates'' # ''release-install.sh.template'' # ''dist/bin'' # map fst staged_texts)"
  by (simp add: plain_name_def path_compute required_release_files_def staged_texts_def staged_binaries_def)

lemma release_files_last: "list_all (\<lambda>f. first_byte (last (path_of f)) \<in> file_bytes) required_release_files"
proof -
  have "map (\<lambda>f. first_byte (last (path_of f))) required_release_files
      = [109, 109, 109, 105, 82, 76, 78, 76, 109, 109, 65, 67, 67, 82]"
    by (simp add: required_release_files_def path_compute first_byte_def)
  then have "first_byte (last (path_of f)) \<in> set [109, 109, 109, 105, 82, 76, 78, 76, 109, 109, 65, 67, 67, 82]"
    if "f \<in> set required_release_files" for f
    using that by (metis image_eqI list.set_map)
  moreover have "set [109, 109, 109, 105, 82, 76, 78, 76, 109, 109, 65, 67, 67, 82] \<subseteq> file_bytes" by (simp add: file_bytes_def)
  ultimately show ?thesis unfolding list_all_iff by blast
qed

lemma release_dirs_names: "list_all (\<lambda>g. list_all (\<lambda>c. first_byte c \<in> dir_bytes) (path_of g)) [''bin'', ''templates'', ''licenses/vendor-mosh'']"
  by (simp add: path_compute first_byte_def dir_bytes_def)

lemma example_temporary_hidden: "first_byte (last (xe_temporary example_xtask p)) = 46"
  by (simp add: example_xtask_def first_byte_def)

lemma example_dirs_names:
  assumes "p \<in> on_the_way example_stage"
  shows "p \<noteq> []" "first_byte (last p) \<in> dir_bytes" "hd p = RootDir" "1 < length p \<Longrightarrow> p ! 1 = Normal [115]"
proof -
  from assms obtain i q where p: "p = take i q" "0 < i" "q \<in> set (release_dirs example_stage)" by (auto simp: on_the_way_def)
  then have q: "\<exists>r. q = example_stage @ r \<and> (\<forall>c \<in> set r. first_byte c \<in> dir_bytes)"
    using release_dirs_names by (auto simp: release_dirs_def list_all_iff)
  moreover have "\<forall>c \<in> set example_stage. first_byte c \<in> dir_bytes" by (simp add: example_stage_def first_byte_def dir_bytes_def)
  ultimately have "\<forall>c \<in> set q. first_byte c \<in> dir_bytes" by auto
  moreover show "p \<noteq> []" using q p(1,2) by (auto simp: example_stage_def)
  ultimately show "first_byte (last p) \<in> dir_bytes" using p(1) in_set_takeD [of "last p" i q] by simp
  show "hd p = RootDir" "1 < length p \<Longrightarrow> p ! 1 = Normal [115]" using q p(1,2) by (auto simp: example_stage_def hd_take)
qed

lemma example_sources_under: "p \<in> text_sources example_manifest example_repo \<union> binary_sources example_repo \<Longrightarrow> take 2 p = example_repo"
  using release_source_names release_names
  by (auto simp: text_sources_def binary_sources_def example_manifest_def example_repo_def join_plain list_all_iff)

lemma example_files_under: "p \<in> release_files example_stage \<Longrightarrow> take 2 p = example_stage"
  by (auto simp: release_files_def example_stage_def)

lemma example_apart: "release_apart example_xtask example_manifest example_repo example_stage"
proof -
  have file_last: "first_byte (last p) \<in> file_bytes" if "p \<in> release_files example_stage" for p
    using that release_files_last release_files_normal by (auto simp: release_files_def list_all_iff)
  have "(text_sources example_manifest example_repo \<union> binary_sources example_repo) \<inter> release_files example_stage = {}"
    using example_sources_under example_files_under by (fastforce simp: example_stage_def example_repo_def)
  moreover have "xe_temporary example_xtask ` release_files example_stage \<inter> release_files example_stage = {}"
    using file_last example_temporary_hidden bytes_apart(2) by fastforce
  moreover have "on_the_way example_stage \<inter> release_files example_stage = {}"
    using file_last example_dirs_names(2) bytes_apart(1) by blast
  moreover have "xe_temporary example_xtask ` release_files example_stage \<inter> on_the_way example_stage = {}"
    using example_temporary_hidden example_dirs_names(2) bytes_apart(3) by fastforce
  ultimately show ?thesis unfolding release_apart_def by blast
qed

lemma example_elsewhere: "take 2 p \<noteq> example_repo \<Longrightarrow> node_at example_checkout p = None"
  using example_sources_under by (auto simp: example_checkout_def node_at_def)

lemma example_stageable: "stageable example_xtask example_manifest example_repo example_stage example_checkout"
proof -
  have "node_at example_checkout (xe_temporary example_xtask p) = None \<and> node_at example_checkout p = None"
    if place: "p \<in> release_files example_stage" for p
  proof -
    from place obtain f where f: "f \<in> set required_release_files" "p = example_stage @ path_of f" by (auto simp: release_files_def)
    then have "path_of f \<noteq> []" using release_files_normal by (auto simp: list_all_iff)
    then have "take 2 (butlast p @ c) = example_stage" for c using f(2) by (simp add: butlast_append example_stage_def)
    then have "take 2 (xe_temporary example_xtask p) = example_stage" by (simp add: example_xtask_def)
    then show ?thesis using example_files_under [OF place]
      by (intro conjI example_elsewhere) (simp_all add: example_stage_def example_repo_def)
  qed
  then show ?thesis by (auto simp: stageable_def example_checkout_def node_at_def intro: exI [of _ "[]"])
qed

text \<open>Staging from the checkout succeeds, and the result is a release.\<close>

theorem release_staged_witness:
  "\<exists>d'. stage_release_tree example_xtask example_manifest example_repo example_stage example_checkout = (Some (), d')
     \<and> validate_release_tree example_xtask example_stage d'"
proof -
  have none: "node_at example_checkout q = None" if "q \<in> on_the_way example_stage" for q
  proof (rule example_elsewhere, rule notI)
    assume "take 2 q = example_repo"
    then have "1 < length q \<and> q ! 1 = Normal [114]" using nth_take [of 1 2 q] by (cases q) (auto simp: example_repo_def)
    then show False using example_dirs_names(4) [OF that] by simp
  qed
  have "no_faults example_xtask" by (simp add: no_faults_def example_xtask_def no_disk_faults_def)
  moreover have "node_at example_checkout example_stage = None"
    by (rule example_elsewhere) (simp add: example_stage_def example_repo_def)
  moreover have "dir_or_none example_checkout q" if "q \<in> on_the_way example_stage" for q
    using none [OF that] by (simp add: dir_or_none_def)
  ultimately have "\<exists>d'. stage_release_tree example_xtask example_manifest example_repo example_stage example_checkout = (Some (), d')"
    by (rule staging_runs [OF _ example_xtask_names example_apart example_stageable])
  then obtain d' where run: "stage_release_tree example_xtask example_manifest example_repo example_stage example_checkout = (Some (), d')" ..
  have "\<not> fe_fails (xe_fs example_xtask) (Stat p)" for p by (simp add: example_xtask_def no_disk_faults_def)
  from release_staged [OF run example_xtask_names this] run show ?thesis by blast
qed

end
