(* ===== verification/Xtask_Release_Facts.thy ===== *)
theory Xtask_Release_Facts
  imports Xtask_Staging
begin

text \<open>
  A release: where it may come from, and that its archive is the same however the directories of
  the stage were listed.
\<close>

section \<open>The source of a release\<close>

lemma on_success_some:
  assumes "on_success f g d = (Some v, d')"
  obtains u d1 where "f d = (Some u, d1)" "g u d1 = (Some v, d')"
  using assms by (auto elim!: on_success_cases)

lemma ensure_some: "ensure c d = (Some u, d') \<longleftrightarrow> c \<and> d' = d"
  by (auto simp: ensure_def)

text \<open>
  A release is packaged for the host only, under the tag of the workspace's version, from a checkout
  without tracked changes, whose \<open>HEAD\<close> is the commit of that tag when the tag exists.
\<close>

lemma resolved_source:
  assumes "resolve_release_source_ref t repo tag d = (Some source_ref, d')"
  shows "\<exists>changes head found d1 d2 d3.
      capture_stdout t (git repo (words [''status'', ''--porcelain'', ''--untracked-files=no''])) d = (Some changes, d1) \<and> trim changes = []
    \<and> capture_stdout t (git repo (words [''rev-parse'', ''HEAD''])) d1 = (Some head, d2)
    \<and> resolve_git_commit t repo (tag @ lit ''^{commit}'') d2 = (Some found, d3)
    \<and> (case found of None \<Rightarrow> source_ref = lit ''HEAD'' | Some commit \<Rightarrow> source_ref = tag \<and> trim commit = trim head)"
proof -
  from assms obtain changes d1
    where status: "capture_stdout t (git repo (words [''status'', ''--porcelain'', ''--untracked-files=no''])) d = (Some changes, d1)"
      and 1: "on_success (ensure (trim changes = [])) (\<lambda>_.
        on_success (capture_stdout t (git repo (words [''rev-parse'', ''HEAD'']))) (\<lambda>head.
        on_success (resolve_git_commit t repo (tag @ lit ''^{commit}'')) (\<lambda>found.
        case found of None \<Rightarrow> succeed (lit ''HEAD'')
        | Some commit \<Rightarrow> on_success (ensure (trim head = trim commit)) (\<lambda>_. succeed tag)))) d1 = (Some source_ref, d')"
    unfolding resolve_release_source_ref_def by (rule on_success_some)
  from 1 have clean: "trim changes = []" by (rule on_success_some) (simp add: ensure_some)
  with 1 obtain head d2 where head: "capture_stdout t (git repo (words [''rev-parse'', ''HEAD''])) d1 = (Some head, d2)"
      and 2: "on_success (resolve_git_commit t repo (tag @ lit ''^{commit}'')) (\<lambda>found.
        case found of None \<Rightarrow> succeed (lit ''HEAD'')
        | Some commit \<Rightarrow> on_success (ensure (trim head = trim commit)) (\<lambda>_. succeed tag)) d2 = (Some source_ref, d')"
    by (auto simp: ensure_def on_success_def succeed_def split: prod.splits option.splits)
  from 2 obtain found d3 where found: "resolve_git_commit t repo (tag @ lit ''^{commit}'') d2 = (Some found, d3)"
      and 3: "(case found of None \<Rightarrow> succeed (lit ''HEAD'')
        | Some commit \<Rightarrow> on_success (ensure (trim head = trim commit)) (\<lambda>_. succeed tag)) d3 = (Some source_ref, d')"
    by (rule on_success_some)
  have "case found of None \<Rightarrow> source_ref = lit ''HEAD'' | Some commit \<Rightarrow> source_ref = tag \<and> trim commit = trim head"
    using 3 by (auto simp: ensure_some elim!: on_success_some split: option.splits)
  with status clean head found show ?thesis by blast
qed

lemma release_source:
  assumes "package_release t args d = (Some (), d')"
  shows "pa_tag args = expected_release_tag (tl_version t) \<and> rt_os (pa_target args) = rt_os (tl_host t)
    \<and> rt_arch (pa_target args) = rt_arch (tl_host t)
    \<and> (\<exists>repo source_ref d1. parent (tl_manifest_dir t) = Some repo
        \<and> resolve_release_source_ref t repo (pa_tag args) d = (Some source_ref, d1))"
proof (cases rule: on_success_cases [OF assms [unfolded package_release_def]])
  case (2 u d1)
  then have target: "rt_os (pa_target args) = rt_os (tl_host t)" "rt_arch (pa_target args) = rt_arch (tl_host t)" "d1 = d"
    by (auto simp: ensure_release_platform_def ensure_def split: if_splits)
  show ?thesis
  proof (cases rule: on_success_cases [OF 2(2)])
    case (2 v d2)
    then have tag: "pa_tag args = expected_release_tag (tl_version t)" "d2 = d" using target(3) by (auto simp: ensure_def split: if_splits)
    show ?thesis
    proof (cases rule: on_success_cases [OF 2(2)])
      case (2 repo d3)
      then have repo: "parent (tl_manifest_dir t) = Some repo" "d3 = d" using tag(2) by (auto simp: repo_root_def of_option_def)
      show ?thesis
        by (cases rule: on_success_cases [OF 2(2)]) (use target tag repo in auto)
    qed simp
  qed simp
qed simp

section \<open>The archive\<close>

text \<open>The same files and directories, with the children of each directory in any order.\<close>

inductive reordered :: "release_tree \<Rightarrow> release_tree \<Rightarrow> bool" where
  reordered_file: "reordered (TreeFile mode data) (TreeFile mode data)"
| reordered_other: "reordered TreeOther TreeOther"
| reordered_dir: "distinct (map fst cs) \<Longrightarrow> mset (map fst cs) = mset (map fst cs') \<Longrightarrow>
    (\<And>name t t'. (name, t) \<in> set cs \<Longrightarrow> (name, t') \<in> set cs' \<Longrightarrow> reordered t t') \<Longrightarrow>
    reordered (TreeDir cs) (TreeDir cs')"

lemma list_all2_insert_by:
  assumes "list_all2 R xs ys" "R x y" "\<And>a b a' b'. R a a' \<Longrightarrow> R b b' \<Longrightarrow> cmp a b = cmp' a' b'"
  shows "list_all2 R (insert_by cmp x xs) (insert_by cmp' y ys)"
  using assms(1)
proof (induction rule: list_all2_induct)
  case (Cons a as b bs)
  then show ?case using assms(2) assms(3) [OF assms(2) Cons.hyps(1)] by simp
qed (simp add: assms(2))

lemma list_all2_sort_by:
  assumes "list_all2 R xs ys" "\<And>a b a' b'. R a a' \<Longrightarrow> R b b' \<Longrightarrow> cmp a b = cmp' a' b'"
  shows "list_all2 R (sort_by cmp xs) (sort_by cmp' ys)"
  using assms(1)
proof (induction rule: list_all2_induct)
  case (Cons a as b bs)
  then show ?case using list_all2_insert_by [OF Cons.IH Cons.hyps(1) assms(2)] by simp
qed simp

lemma map_fst_insert_by: "map fst (insert_by (\<lambda>a b. cmp (fst a) (fst b)) c cs) = insert_by cmp (fst c) (map fst cs)"
  by (induction cs) auto

lemma map_fst_sort_by: "map fst (sort_by (\<lambda>a b. cmp (fst a) (fst b)) cs) = sort_by cmp (map fst cs)"
  by (induction cs) (simp_all add: map_fst_insert_by)

lemma inj_map_unat: "inj (map (unat :: u8 \<Rightarrow> nat))"
  by (rule inj_mapI) (auto simp: inj_on_def word_unat_eq_iff)

interpretation file_names: keyed_ord compare_bytes "\<lambda>_. True" "map unat"
  unfolding compare_bytes_def
  by (intro keyed_ord.intro rust_ord_cmp_of keyed_ord_axioms.intro) simp

text \<open>Both trees are walked alike.\<close>

definition same_entry :: "bytes list \<times> release_tree \<Rightarrow> bytes list \<times> release_tree \<Rightarrow> bool" where
  "same_entry a b \<longleftrightarrow> fst a = fst b \<and> reordered (snd a) (snd b)"

lemma list_all2_concat_map:
  "list_all2 R xs ys \<Longrightarrow> (\<And>a b. R a b \<Longrightarrow> list_all2 Q (f a) (g b)) \<Longrightarrow> list_all2 Q (concat (map f xs)) (concat (map g ys))"
  by (induction rule: list_all2_induct) (auto intro: list_all2_appendI)

lemma collect_reordered:
  "reordered t t' \<Longrightarrow> list_all2 same_entry (collect_release_tree_entries dir t) (collect_release_tree_entries dir t')"
proof (induction arbitrary: dir rule: reordered.induct)
  case (reordered_dir cs cs')
  let ?by_name = "\<lambda>a b. compare_bytes (fst a) (fst b)" and ?entries = "collect_release_tree_entries"
  let ?S = "sort_by ?by_name cs" and ?S' = "sort_by ?by_name cs'"
  let ?alike = "\<lambda>c c'. fst c = fst c' \<and> reordered (snd c) (snd c') \<and> (\<forall>d. list_all2 same_entry (?entries d (snd c)) (?entries d (snd c')))"
  have dist: "distinct (map (map unat) (map fst cs))"
    using reordered_dir.hyps(1) inj_on_subset [OF inj_map_unat subset_UNIV] by (subst distinct_map) simp
  have names: "map fst ?S = map fst ?S'"
    unfolding map_fst_sort_by by (rule file_names.sort_by_cong_mset [OF reordered_dir.hyps(2) dist]) simp
  have len: "length ?S = length ?S'" using names by (rule map_eq_imp_length_eq)
  have alike: "?alike (?S ! i) (?S' ! i)" if i: "i < length ?S" for i
  proof (intro conjI allI)
    have mem: "?S ! i \<in> set cs" using nth_mem [OF i] unfolding set_sort_by .
    have i': "i < length ?S'" using i unfolding len .
    have mem': "?S' ! i \<in> set cs'" using nth_mem [OF i'] unfolding set_sort_by .
    have "map fst ?S ! i = map fst ?S' ! i" using names by (rule arg_cong)
    then show same: "fst (?S ! i) = fst (?S' ! i)" unfolding nth_map [OF i] nth_map [OF i'] .
    have pair: "(fst (?S ! i), snd (?S ! i)) \<in> set cs" using mem by (simp only: prod.collapse)
    have pair': "(fst (?S ! i), snd (?S' ! i)) \<in> set cs'" using mem' by (simp only: same prod.collapse)
    show "reordered (snd (?S ! i)) (snd (?S' ! i))" by (rule reordered_dir.hyps(3) [OF pair pair'])
    show "list_all2 same_entry (?entries d (snd (?S ! i))) (?entries d (snd (?S' ! i)))" for d
      by (rule reordered_dir.IH [OF pair pair'])
  qed
  have "list_all2 ?alike ?S ?S'" by (rule list_all2_all_nthI [OF len]) (rule alike)
  then show ?case
    unfolding collect_release_tree_entries.simps
    by (rule list_all2_concat_map) (auto simp: same_entry_def [of "(p, t)" "(p', t')" for p t p' t'] split: prod.splits)
qed simp_all

text \<open>
  C40: The archive of a release depends on the names, modes and contents of the staged files only:
  two trees that differ in the order in which their directories list their children give the same
  archive, entry for entry, with the epoch of the source as every modification time and no trace of
  the user who built it.
\<close>
theorem archive_reproducible:
  assumes "reordered tree tree'"
  shows "append_normalized_release_tree epoch name tree = append_normalized_release_tree epoch name tree'
    \<and> (\<forall>entries e. append_normalized_release_tree epoch name tree = Some entries \<longrightarrow> e \<in> set entries \<longrightarrow>
         te_mtime e = epoch \<and> te_uid e = 0 \<and> te_gid e = 0)"
proof (intro conjI allI impI)
  let ?by_path = "\<lambda>a b. compare_paths (fst a) (fst b)"
  let ?add = "\<lambda>(p, t). normalized_entry epoch (name # p, t)"
  let ?sorted = "\<lambda>t. sort_by ?by_path (collect_release_tree_entries [] t)"
  have "list_all2 same_entry (?sorted tree) (?sorted tree')"
    by (rule list_all2_sort_by [OF collect_reordered [OF assms]]) (simp add: same_entry_def)
  moreover have "?add a = ?add b" if "same_entry a b" for a b
    using that by (cases a; cases b) (auto simp: same_entry_def elim: reordered.cases)
  ultimately have "map ?add (?sorted tree) = map ?add (?sorted tree')"
    by (induction rule: list_all2_induct) auto
  then show "append_normalized_release_tree epoch name tree = append_normalized_release_tree epoch name tree'"
    by (simp only: append_normalized_release_tree_def Let_def)
next
  fix entries e
  assume run: "append_normalized_release_tree epoch name tree = Some entries" and e: "e \<in> set entries"
  let ?fits = "\<lambda>e. te_mtime e = epoch \<and> te_uid e = 0 \<and> te_gid e = 0"
  have entry: "normalized_entry epoch x \<noteq> None \<Longrightarrow> ?fits (the (normalized_entry epoch x))" for x
    by (induction epoch x rule: normalized_entry.induct) (simp_all add: directory_header_def)
  have "?fits (directory_header epoch [name])" by (simp add: directory_header_def)
  moreover have "?fits (the (normalized_entry epoch (name # p, t)))" if "(p, t) \<in> set (collect_release_tree_entries [] tree)" for p t
    using run that by (intro entry) (force simp: append_normalized_release_tree_def Let_def split: if_splits)
  ultimately have "?fits e" using run e by (auto simp: append_normalized_release_tree_def Let_def split: if_splits)
  then show "te_mtime e = epoch" "te_uid e = 0" "te_gid e = 0" by simp_all
qed

theorem archive_reproducible_witness:
  "append_normalized_release_tree 9 [65] (TreeDir [([66], TreeFile 420 [1]), ([67], TreeDir [])])
     = append_normalized_release_tree 9 [65] (TreeDir [([67], TreeDir []), ([66], TreeFile 420 [1])])"
proof -
  have "reordered (TreeDir [([66], TreeFile 420 [1]), ([67], TreeDir [])]) (TreeDir [([67], TreeDir []), ([66], TreeFile 420 [1])])"
    by (rule reordered_dir) (auto intro: reordered_file reordered_dir)
  from archive_reproducible [OF this] show ?thesis by blast
qed

end
