(* ===== verification/Spec2Isabelle.thy ===== *)
theory Spec2Isabelle
  imports Core_Properties Registry_Lifecycle Registry_Windows Registry_Readers Coherence_Facts
    History_Roundtrip Daemon_Examples Publisher Api_Facts Otlp_Facts Metrics_Text Metrics_Server_Facts
    Negotiation_Facts Http_Facts Ui_Health Ui_Process_Facts Ui_App_Facts Ui_Wire Ui_View_Facts Daemon_Process_Facts Metrics_Token_Facts Xtask_Release_Facts
begin

text \<open>
  A verification development for moshwatch, a host-local observer of Mosh sessions: the daemon
  \<open>moshwatchd\<close>, the terminal interface \<open>moshwatch-ui\<close>, the shared crate \<open>moshwatch-core\<close> and the build
  tool \<open>xtask\<close>.  The definitions are translated from the Rust sources, keep their names, and are
  executable; the theorems say what makes each part correct and how the parts fit together.

  \<^bold>\<open>The program.\<close>  Instrumented \<open>mosh-server\<close> processes send telemetry frames, lines of JSON, to a
  Unix socket of the daemon.  The daemon checks the sender against \<open>/proc\<close>, files the event in an
  in-memory registry of sessions, adds the sessions that a scan of \<open>/proc\<close> finds, keeps a bounded
  history on disk, and publishes snapshots.  A Unix socket serves them to the terminal interface over
  a hand-written HTTP, with an event stream; a TCP listener with a bearer token and an OTLP exporter
  serve the metrics.

  \<^bold>\<open>Ground.\<close>  \<open>Prelude\<close> (integers at their width, strings as code points), \<open>Decimal\<close>, \<open>Text\<close> and
  \<open>Utf8_Facts\<close> (UTF-8 strict and lossy, both directions; white space, lines), \<open>Float64\<close> and \<open>Float_Text\<close>
  (binary64 as exact rationals with rounding; reading and printing), \<open>Ordering\<close> (Rust comparators,
  stable sorting, minima; the locales \<open>rust_ord\<close> and \<open>keyed_ord\<close>), \<open>Assoc\<close> (hash maps as association
  lists in any order), \<open>Line_Reader\<close> (the locale \<open>bounded_line_reader\<close>), \<open>Net_Addr\<close> (socket addresses).

  \<^bold>\<open>moshwatch-core.\<close>  \<open>Config\<close> (\<open>config.rs\<close>: data, defaults, \<open>validate\<close>), \<open>Secure_Files\<close> (\<open>config.rs\<close>:
  paths, owner-only directories and files, the metrics token), \<open>Protocol\<close> and \<open>Protocol_Api\<close>
  (\<open>protocol.rs\<close>: session data, health, API bodies), \<open>Coherence\<close> (\<open>protocol.rs\<close>: redacted reports),
  \<open>Identity\<close> (\<open>identity.rs\<close>), \<open>Observability\<close> (\<open>observability.rs\<close>: the metric catalog).

  \<^bold>\<open>moshwatchd.\<close>  \<open>Windows\<close> and \<open>Registry\<close> (\<open>state.rs\<close>: \<open>ServiceState\<close> is the record
  \<open>service_state\<close>, its writers \<open>apply_telemetry\<close> and \<open>refresh_discovery\<close>, its readers \<open>summaries\<close>,
  \<open>export_summaries\<close> and others),
  \<open>Sanitize\<close> (\<open>sanitize.rs\<close>), \<open>Discovery\<close> (\<open>discovery.rs\<close>), \<open>Telemetry\<close>, \<open>Publisher\<close> and \<open>Daemon_Process\<close>
  (\<open>main.rs\<close>: frames, peer verification, the snapshot publisher, start-up, the background loops and
  stopping), \<open>History\<close> (\<open>history.rs\<close>), \<open>Http\<close> and \<open>Api\<close> (\<open>api.rs\<close>), \<open>Metrics\<close>, \<open>Negotiation\<close>,
  \<open>Metrics_Server\<close> and \<open>Otlp\<close> (\<open>metrics.rs\<close>), \<open>Runtime_Stats\<close> (\<open>runtime_stats.rs\<close>).

  \<^bold>\<open>moshwatch-ui and xtask.\<close>  \<open>Ui_Client\<close> (the HTTP client), \<open>Ui_App\<close> (state, keys, the loop), \<open>Ui_Process\<close>
  (which session it runs in), \<open>Ui_Format\<close> and \<open>Ui_View\<close> (every text, style and chart it draws).
  \<open>Xtask_Text\<close> (arguments, managed block, catalog table), \<open>Xtask_Files\<close> (installing, release tree,
  archive entries) and \<open>Xtask_Release\<close> (the commands).

  \<^bold>\<open>State and effects.\<close>  State is passed explicitly.  The disk is a map from paths to nodes; each
  system call may fail, by a function that the theorems leave arbitrary, and a failing write may
  leave a part of its text (\<open>Secure_Files\<close>, \<open>History\<close>).  What is read from \<open>/proc\<close>, sockets, clocks and
  random numbers is given by its outcome.  Tasks of the daemon are an inductive step relation
  (\<open>daemon_step\<close>); a lock held over an operation makes that operation one step, and every interleaving
  is a run.  Errors are values; a panic of the source is a branch of its own.
  Arithmetic on \<open>i64\<close> and \<open>u64\<close> wraps or saturates as a release build does.

  \<^bold>\<open>What is shown.\<close>
  \<^item> Registry: a well-formedness invariant of every reachable registry; the session cap and eviction
    against an abstract choice of the worst sessions; the bounded export against the full listing;
    nothing depends on the order of the hash map; who can displace whom; retention; windows and
    percentages within their bounds (\<open>Registry_*\<close>).
  \<^item> Trust: telemetry reaches the registry only from a verified peer and under its identity; frames
    are bounded in size, time and number of errors; a terminate request signals at most the tracked
    process; no text of a session carries control characters to the screen; redacted reports depend
    on labels only; metrics need the token and a listener off the loopback needs the opt-in
    (\<open>Telemetry_Facts\<close>, \<open>Telemetry_Trust\<close>, \<open>Clean_Text\<close>, \<open>Coherence_Facts\<close>, \<open>Api_Facts\<close>,
    \<open>Metrics_Server_Facts\<close>, \<open>Ui_View_Facts\<close>, \<open>Ui_App_Facts\<close>).
  \<^item> The daemon as a whole: what it has secured on the disk once it runs and what it leaves alone; the
    published snapshot catches up with the registry; an event stream delivers the latest snapshot;
    sessions are filed under the identity that \<open>/proc\<close> reports (\<open>Startup_Facts\<close>, \<open>Daemon_Process_Facts\<close>,
    \<open>Daemon\<close>, \<open>Metrics_Token_Facts\<close>, \<open>Secure_Files_Facts\<close>).
  \<^item> Data: history recorded is history read back; the disk budget; the early-stopping query against the
    plain filter; socket tables, metric lines and configuration read back or judged by specification;
    every sample conforms to the catalog; the exporter never stops (\<open>History_*\<close>, \<open>Discovery_Facts\<close>,
    \<open>Metrics_*\<close>, \<open>Otlp_Facts\<close>, \<open>Core_Properties\<close>).
  \<^item> Across the socket: client and server agree on requests and responses in any pieces; the health
    shown is the health decided; both programs compute the same identity (\<open>Ui_Wire\<close>, \<open>Ui_Health\<close>,
    \<open>Ui_Process_Facts\<close>).
  \<^item> Build tool: a staged release is complete and unaltered, its archive reproducible, and the managed
    block of a shell file stable (\<open>Xtask_Staging\<close>, \<open>Xtask_Release_Facts\<close>, \<open>Xtask_Files_Facts\<close>).

  \<^bold>\<open>Bounds and fuel.\<close>  Loops end by structural recursion or by a measure.  The numbers of attempts are
  those of the code: 32 temporary names, 8 invalid frames, 64 connections.  Links are followed 40
  times, as the kernel does (\<open>MAX_LINKS\<close>).  The shortest decimal text of a float is searched
  up to 17 digits, which determine every binary64.  The reader of metric lines in \<open>Metrics_Text\<close>, which is a specification, has the length of the
  line as fuel, and each label takes at least one character.  The walk up the process tree is a partial
  function that is proved to return.

  \<^bold>\<open>Parameters.\<close>  Third-party crates are arguments of the definitions: \<open>serde_json\<close>, \<open>toml\<close> and \<open>serde_yaml\<close>,
  SHA-256, the protobuf encoding, the HTTP client and its TLS, tar and gzip, the names of temporary
  files, and the programs that \<open>xtask\<close> starts.  Where a theorem needs one of their laws, such as that
  decoding undoes encoding, it is a named hypothesis with a witness on a concrete function.

  \<^bold>\<open>Not modelled.\<close>  \<open>time.rs\<close> is one call of the system clock; times are arguments.  Log messages and what
  \<open>xtask\<close> prints.  How ratatui places characters and how crossterm reads the terminal; the model draws
  texts with styles into areas.  The scheduler of tokio, of which the step relation assumes nothing.
  Parts of files that a failed \<open>remove_dir_all\<close> has removed.  Shell scripts, the service unit and the
  vendored Mosh are not Rust; of Mosh the daemon sees bytes only, and the model takes any bytes.
\<close>

end
